(* ===== verification/Prelude.thy ===== *)
theory Prelude
  imports Complex_Main "HOL-Library.List_Lexorder" "HOL-Library.Char_ord" "HOL-Library.Word"
begin

text \<open>
  Shared vocabulary of the development: named collections for automation, sequences of
  checks (a validator that prints warnings and stops at its first error), the
  insert-once stores the code builds out of a slice and a \<open>seen\<close> map, defaulting
  operations, floating-point values as far as the code compares them, and a few list and
  map facts.
\<close>

unbundle bit_operations_syntax

named_theorems check_simps "facts that compute sequences of checks"
named_theorems spec_simps "definitions of declarative specifications"

subsection \<open>Sequences of checks\<close>

text \<open>
  A Go validator is a list of statements \<open>if bad { return err }\<close>, some of which print a
  warning to standard error. Its outcome is the list of warnings printed and the error
  returned, if any; \<open>seq_checks\<close> runs checks in order and stops at the first error, as the
  early returns do.
\<close>

type_synonym ('w, 'e) check = "'w list \<times> 'e option"

definition pass :: "('w, 'e) check" where
  "pass = ([], None)"

definition fail :: "'e \<Rightarrow> ('w, 'e) check" where
  "fail e = ([], Some e)"

definition warning :: "'w \<Rightarrow> ('w, 'e) check" where
  "warning w = ([w], None)"

definition reject_if :: "bool \<Rightarrow> 'e \<Rightarrow> ('w, 'e) check" where
  "reject_if b e = (if b then fail e else pass)"

definition warn_if :: "bool \<Rightarrow> 'w \<Rightarrow> ('w, 'e) check" where
  "warn_if b w = (if b then warning w else pass)"

definition check_when :: "bool \<Rightarrow> ('w, 'e) check \<Rightarrow> ('w, 'e) check" where
  "check_when b c = (if b then c else pass)"

fun seq_checks :: "('w, 'e) check list \<Rightarrow> ('w, 'e) check" where
  "seq_checks [] = pass"
| "seq_checks (c # cs) =
     (case c of
        (ws, Some e) \<Rightarrow> (ws, Some e)
      | (ws, None) \<Rightarrow> (case seq_checks cs of (ws', r) \<Rightarrow> (ws @ ws', r)))"

definition passes :: "('w, 'e) check \<Rightarrow> bool" where
  "passes c \<longleftrightarrow> snd c = None"

definition map_error :: "('e \<Rightarrow> 'f) \<Rightarrow> ('w, 'e) check \<Rightarrow> ('w, 'f) check" where
  "map_error f c = (fst c, map_option f (snd c))"

lemma passes_pass [simp, check_simps]: "passes pass"
  by (simp add: passes_def pass_def)

lemma passes_fail [simp, check_simps]: "\<not> passes (fail e)"
  by (simp add: passes_def fail_def)

lemma passes_warning [simp, check_simps]: "passes (warning w)"
  by (simp add: passes_def warning_def)

lemma passes_reject_if [simp, check_simps]: "passes (reject_if b e) \<longleftrightarrow> \<not> b"
  by (simp add: reject_if_def)

lemma passes_warn_if [simp, check_simps]: "passes (warn_if b w)"
  by (simp add: warn_if_def)

lemma passes_check_when [simp, check_simps]: "passes (check_when b c) \<longleftrightarrow> (b \<longrightarrow> passes c)"
  by (simp add: check_when_def)

lemma passes_map_error [simp, check_simps]: "passes (map_error f c) \<longleftrightarrow> passes c"
  by (simp add: map_error_def passes_def)

lemma passes_seq_Nil [simp, check_simps]: "passes (seq_checks [])"
  by simp

lemma passes_seq_Cons [simp, check_simps]:
  "passes (seq_checks (c # cs)) \<longleftrightarrow> passes c \<and> passes (seq_checks cs)"
  by (cases c) (auto simp: passes_def split: option.splits prod.splits)

lemma passes_seq_checks: "passes (seq_checks cs) \<longleftrightarrow> (\<forall>c\<in>set cs. passes c)"
  by (induction cs) (auto simp del: seq_checks.simps)

lemma passes_seq_append [simp, check_simps]:
  "passes (seq_checks (cs @ ds)) \<longleftrightarrow> passes (seq_checks cs) \<and> passes (seq_checks ds)"
  by (auto simp: passes_seq_checks)

lemma passes_seq_map [check_simps]:
  "passes (seq_checks (map f xs)) \<longleftrightarrow> (\<forall>x\<in>set xs. passes (f x))"
  by (auto simp: passes_seq_checks)

text \<open>The error reported is the first one: everything before it passed.\<close>

lemma seq_checks_first_error:
  "snd (seq_checks cs) = Option.bind (find (\<lambda>c. \<not> passes c) cs) snd"
  by (induction cs) (auto simp: passes_def pass_def split: option.splits prod.splits)

subsection \<open>Idempotent operations\<close>

text \<open>
  The contract of a defaulting operation: running it twice changes nothing more, so a
  second \<open>Load\<close> of an already defaulted intent is harmless.
\<close>

locale defaulting =
  fixes fill :: "'a \<Rightarrow> 'a"
  assumes fill_idem: "fill (fill x) = fill x"
begin

lemma fill_iterate: "(fill ^^ Suc n) x = fill x"
  by (induction n) (simp_all add: fill_idem)

lemma fill_fixpoint: "fill x = x \<longleftrightarrow> (\<exists>y. x = fill y)"
  by (metis fill_idem)

lemma fill_map_iterate: "map fill (map fill xs) = map fill xs"
  by (simp add: fill_idem comp_def)

end

subsection \<open>Insert-once stores\<close>

text \<open>
  The code keeps several append-only lists beside a \<open>seen\<close> set: a key is added at its
  first use and later requests for it change nothing. \<open>keys\<close> reads the list, \<open>add\<close> is
  the operation, and \<open>ok\<close> says that the set agrees with the list.
\<close>

locale insert_once =
  fixes ok :: "'s \<Rightarrow> bool" and keys :: "'s \<Rightarrow> 'k list" and add :: "'k \<Rightarrow> 's \<Rightarrow> 's"
  assumes keys_add: "ok s \<Longrightarrow> keys (add k s) = (if k \<in> set (keys s) then keys s else keys s @ [k])"
    and ok_add: "ok s \<Longrightarrow> ok (add k s)"
begin

lemma set_keys_add: "ok s \<Longrightarrow> set (keys (add k s)) = insert k (set (keys s))"
  by (auto simp: keys_add)

lemma distinct_add: "ok s \<Longrightarrow> distinct (keys s) \<Longrightarrow> distinct (keys (add k s))"
  by (auto simp: keys_add)

lemma keys_add_mono: "ok s \<Longrightarrow> set (keys s) \<subseteq> set (keys (add k s))"
  by (auto simp: keys_add)

lemma keys_add_twice: "ok s \<Longrightarrow> keys (add k (add k s)) = keys (add k s)"
  by (simp add: keys_add ok_add)

lemma ok_fold: "ok s \<Longrightarrow> ok (fold add ks s)"
  by (induction ks arbitrary: s) (auto simp: ok_add)

lemma distinct_fold: "ok s \<Longrightarrow> distinct (keys s) \<Longrightarrow> distinct (keys (fold add ks s))"
  by (induction ks arbitrary: s) (auto simp: distinct_add ok_add)

lemma set_keys_fold: "ok s \<Longrightarrow> set (keys (fold add ks s)) = set (keys s) \<union> set ks"
  by (induction ks arbitrary: s) (auto simp: set_keys_add ok_add)

end

subsection \<open>Floating-point values\<close>

text \<open>
  The intent carries a few \<open>float64\<close> fields the code only copies and compares. A value is
  a rational or one of the three special values a YAML document can name (\<open>.nan\<close>,
  \<open>.inf\<close>, \<open>-.inf\<close>); every comparison with NaN is false, as IEEE 754 and Go have it.
\<close>

datatype f64 = NaN | NegInf | PosInf | Fin rat

fun f_lt :: "f64 \<Rightarrow> f64 \<Rightarrow> bool" where
  "f_lt NaN _ = False"
| "f_lt _ NaN = False"
| "f_lt NegInf y = (y \<noteq> NegInf)"
| "f_lt _ NegInf = False"
| "f_lt (Fin x) (Fin y) = (x < y)"
| "f_lt (Fin x) PosInf = True"
| "f_lt PosInf _ = False"

fun f_eq :: "f64 \<Rightarrow> f64 \<Rightarrow> bool" where
  "f_eq NaN _ = False"
| "f_eq x y = (x = y)"

definition f_le :: "f64 \<Rightarrow> f64 \<Rightarrow> bool" where
  "f_le x y \<longleftrightarrow> f_lt x y \<or> f_eq x y"

lemma f_lt_irrefl [simp]: "\<not> f_lt x x"
  by (cases x) simp_all

lemma f_le_or_lt: "x \<noteq> NaN \<Longrightarrow> y \<noteq> NaN \<Longrightarrow> f_le x y \<or> f_lt y x"
  by (cases x; cases y) (auto simp: f_le_def)

lemma not_f_le_lt: "y \<noteq> NaN \<Longrightarrow> x \<noteq> NaN \<Longrightarrow> \<not> f_le x y \<longleftrightarrow> f_lt y x"
  by (cases x; cases y) (auto simp: f_le_def)

subsection \<open>Lists and maps\<close>

text \<open>\<open>list_update\<close> through a function, for the loops that rewrite a slice in place.\<close>

definition map_index :: "(nat \<Rightarrow> 'a \<Rightarrow> 'b) \<Rightarrow> 'a list \<Rightarrow> 'b list" where
  "map_index f xs = map (\<lambda>(i, x). f i x) (zip [0..<length xs] xs)"

lemma length_map_index [simp]: "length (map_index f xs) = length xs"
  by (simp add: map_index_def)

lemma nth_map_index [simp]: "i < length xs \<Longrightarrow> map_index f xs ! i = f i (xs ! i)"
  by (simp add: map_index_def)

lemma map_index_map_index:
  "map_index f (map_index g xs) = map_index (\<lambda>i x. f i (g i x)) xs"
  by (rule nth_equalityI) simp_all

lemma map_index_cong:
  "(\<And>i x. i < length xs \<Longrightarrow> x = xs ! i \<Longrightarrow> f i x = g i x) \<Longrightarrow> map_index f xs = map_index g xs"
  by (rule nth_equalityI) simp_all

lemma map_index_Nil [simp]: "map_index f [] = []"
  by (simp add: map_index_def)

lemma set_map_index: "set (map_index f xs) = {f i (xs ! i) | i. i < length xs}"
  by (fastforce simp: in_set_conv_nth)

text \<open>First association of a key, and the keys of an association list.\<close>

lemma map_of_append_Some: "map_of xs k = Some v \<Longrightarrow> map_of (xs @ ys) k = Some v"
  by (simp add: map_add_Some_iff)

lemma find_Some_in: "find P xs = Some x \<Longrightarrow> x \<in> set xs \<and> P x"
  by (auto simp: find_Some_iff)

lemma find_None_all: "find P xs = None \<longleftrightarrow> (\<forall>x\<in>set xs. \<not> P x)"
  by (auto simp: find_None_iff)

end
