(* ===== verification/GoStrings.thy ===== *)
theory GoStrings
  imports Prelude
begin

text \<open>
  The parts of Go's \<open>strings\<close> and \<open>strconv\<close> packages the program uses, on strings as
  lists of bytes: splitting, joining, trimming, prefixes, decimal printing and parsing.
  A Go \<open>string\<close> is a byte sequence, so \<open>length\<close> counts bytes, as \<open>len\<close> does.
\<close>

subsection \<open>Character classes\<close>

definition is_digit :: "char \<Rightarrow> bool" where
  "is_digit c \<longleftrightarrow> CHR ''0'' \<le> c \<and> c \<le> CHR ''9''"

definition is_lower :: "char \<Rightarrow> bool" where
  "is_lower c \<longleftrightarrow> CHR ''a'' \<le> c \<and> c \<le> CHR ''z''"

definition is_upper :: "char \<Rightarrow> bool" where
  "is_upper c \<longleftrightarrow> CHR ''A'' \<le> c \<and> c \<le> CHR ''Z''"

definition digit_val :: "char \<Rightarrow> nat" where
  "digit_val c = of_char c - 48"

definition digit_char :: "nat \<Rightarrow> char" where
  "digit_char d = char_of (d + 48)"

lemma is_digit_code: "is_digit c \<longleftrightarrow> 48 \<le> (of_char c :: nat) \<and> (of_char c :: nat) \<le> 57"
  by (simp add: is_digit_def less_eq_char_def)

lemma of_char_digit_char: "d < 10 \<Longrightarrow> (of_char (digit_char d) :: nat) = d + 48"
  by (simp add: digit_char_def)

lemma digit_char_props [simp]:
  "d < 10 \<Longrightarrow> is_digit (digit_char d)"
  "d < 10 \<Longrightarrow> digit_val (digit_char d) = d"
  by (simp_all add: is_digit_code digit_val_def of_char_digit_char)

lemma digit_not_special:
  "is_digit c \<Longrightarrow> c \<noteq> CHR ''.''" "is_digit c \<Longrightarrow> c \<noteq> CHR ''/''" "is_digit c \<Longrightarrow> c \<noteq> CHR '':''"
  "is_digit c \<Longrightarrow> c \<noteq> CHR ''-''" "is_digit c \<Longrightarrow> c \<noteq> CHR ''+''" "is_digit c \<Longrightarrow> c \<noteq> CHR ''%''"
  by (auto simp: is_digit_code)

subsection \<open>Split, join, cut\<close>

text \<open>\<open>strings.Split(s, sep)\<close> for a one-byte separator: never the empty list.\<close>

fun split_on :: "char \<Rightarrow> string \<Rightarrow> string list" where
  "split_on c [] = [[]]"
| "split_on c (x # xs) =
     (if x = c then [] # split_on c xs
      else (x # hd (split_on c xs)) # tl (split_on c xs))"

fun join_with :: "string \<Rightarrow> string list \<Rightarrow> string" where
  "join_with sep [] = []"
| "join_with sep [x] = x"
| "join_with sep (x # y # ys) = x @ sep @ join_with sep (y # ys)"

text \<open>\<open>strings.IndexByte\<close>, \<open>None\<close> for -1; \<open>strings.Cut\<close> at a one-byte separator.\<close>

fun index_byte :: "char \<Rightarrow> string \<Rightarrow> nat option" where
  "index_byte c [] = None"
| "index_byte c (x # xs) = (if x = c then Some 0 else map_option Suc (index_byte c xs))"

definition cut_at :: "char \<Rightarrow> string \<Rightarrow> (string \<times> string) option" where
  "cut_at c s = map_option (\<lambda>i. (take i s, drop (Suc i) s)) (index_byte c s)"

definition has_prefix :: "string \<Rightarrow> string \<Rightarrow> bool" where
  "has_prefix s p \<longleftrightarrow> take (length p) s = p"

definition has_suffix :: "string \<Rightarrow> string \<Rightarrow> bool" where
  "has_suffix s p \<longleftrightarrow> has_prefix (rev s) (rev p)"

text \<open>\<open>strings.Contains\<close>.\<close>

fun contains :: "string \<Rightarrow> string \<Rightarrow> bool" where
  "contains [] sub \<longleftrightarrow> sub = []"
| "contains (c # cs) sub \<longleftrightarrow> has_prefix (c # cs) sub \<or> contains cs sub"

lemma split_on_not_Nil [simp]: "split_on c s \<noteq> []"
  by (cases s) auto

lemma join_split [simp]: "join_with [c] (split_on c s) = s"
proof (induction s)
  case Nil
  then show ?case by simp
next
  case (Cons x xs)
  obtain y ys where yys: "split_on c xs = y # ys"
    by (cases "split_on c xs") auto
  with Cons.IH show ?case by (cases ys) auto
qed

lemma split_on_notin: "c \<notin> set s \<Longrightarrow> split_on c s = [s]"
  by (induction s) auto

lemma split_on_append: "c \<notin> set s \<Longrightarrow> split_on c (s @ c # t) = s # split_on c t"
  by (induction s) auto

lemma split_join:
  "xs \<noteq> [] \<Longrightarrow> (\<And>x. x \<in> set xs \<Longrightarrow> c \<notin> set x) \<Longrightarrow> split_on c (join_with [c] xs) = xs"
  by (induction "[c]" xs rule: join_with.induct) (auto simp: split_on_notin split_on_append)

lemma split_on_pieces: "p \<in> set (split_on c s) \<Longrightarrow> c \<notin> set p"
proof (induction s arbitrary: p)
  case Nil
  then show ?case by simp
next
  case (Cons x xs)
  then show ?case
    by (cases "split_on c xs") (auto split: if_splits)
qed

lemma index_byte_None: "index_byte c s = None \<longleftrightarrow> c \<notin> set s"
  by (induction s) auto

lemma index_byte_append: "c \<notin> set k \<Longrightarrow> index_byte c (k @ c # v) = Some (length k)"
  by (induction k) auto

lemma index_byte_Some:
  "index_byte c s = Some i \<longleftrightarrow> i < length s \<and> s ! i = c \<and> c \<notin> set (take i s)"
proof (induction s arbitrary: i)
  case Nil
  then show ?case by simp
next
  case (Cons x xs)
  then show ?case by (cases i) auto
qed

lemma cut_at_append: "c \<notin> set k \<Longrightarrow> cut_at c (k @ c # v) = Some (k, v)"
  by (simp add: cut_at_def index_byte_append)

subsection \<open>White space\<close>

text \<open>
  \<open>strings.TrimSpace\<close> strips the UTF-8 encodings of the code points \<open>unicode.IsSpace\<close>
  accepts. Each is a short byte sequence that is no proper prefix or suffix of another, so
  stripping is removing matching sequences at either end.
\<close>

definition byte :: "nat \<Rightarrow> char" where
  "byte n = char_of n"

definition space_seqs :: "string list" where
  "space_seqs =
     [[byte 9], [byte 10], [byte 11], [byte 12], [byte 13], [byte 32],
      [byte 194, byte 133], [byte 194, byte 160], [byte 225, byte 154, byte 128]]
     @ map (\<lambda>b. [byte 226, byte 128, byte b])
         [128, 129, 130, 131, 132, 133, 134, 135, 136, 137, 138, 168, 169, 175]
     @ [[byte 226, byte 129, byte 159], [byte 227, byte 128, byte 128]]"

lemma space_seqs_nonempty: "w \<in> set space_seqs \<Longrightarrow> w \<noteq> []"
  by (auto simp: space_seqs_def)

text \<open>Strip a leading sequence of \<open>seqs\<close> as long as there is one; none is empty.\<close>

function strip_seqs :: "string list \<Rightarrow> string \<Rightarrow> string" where
  "strip_seqs seqs s =
     (case find (\<lambda>w. w \<noteq> [] \<and> has_prefix s w) seqs of
        None \<Rightarrow> s
      | Some w \<Rightarrow> strip_seqs seqs (drop (length w) s))"
  by pat_completeness auto
termination
  by (relation "measure (\<lambda>(seqs, s). length s)")
    (auto simp: find_Some_iff has_prefix_def take_eq_Nil2 intro!: diff_less)

declare strip_seqs.simps [simp del]

definition trim_left :: "string \<Rightarrow> string" where
  "trim_left s = strip_seqs space_seqs s"

definition trim_right :: "string \<Rightarrow> string" where
  "trim_right s = rev (strip_seqs (map rev space_seqs) (rev s))"

definition trim_space :: "string \<Rightarrow> string" where
  "trim_space s = trim_right (trim_left s)"

definition starts_clean :: "string \<Rightarrow> bool" where
  "starts_clean s \<longleftrightarrow> (\<forall>w\<in>set space_seqs. \<not> has_prefix s w)"

definition ends_clean :: "string \<Rightarrow> bool" where
  "ends_clean s \<longleftrightarrow> (\<forall>w\<in>set space_seqs. \<not> has_suffix s w)"

lemma strip_seqs_clean: "(\<And>w. w \<in> set seqs \<Longrightarrow> \<not> has_prefix s w) \<Longrightarrow> strip_seqs seqs s = s"
  by (subst strip_seqs.simps) (auto split: option.splits simp: find_Some_iff)

lemma trim_left_clean: "starts_clean s \<Longrightarrow> trim_left s = s"
  by (simp add: trim_left_def starts_clean_def strip_seqs_clean)

lemma trim_right_clean: "ends_clean s \<Longrightarrow> trim_right s = s"
proof -
  assume "ends_clean s"
  then have "\<And>w. w \<in> set (map rev space_seqs) \<Longrightarrow> \<not> has_prefix (rev s) w"
    by (auto simp: ends_clean_def has_suffix_def)
  then have "strip_seqs (map rev space_seqs) (rev s) = rev s" by (rule strip_seqs_clean)
  then show ?thesis by (simp add: trim_right_def)
qed

lemma trim_space_clean: "starts_clean s \<Longrightarrow> ends_clean s \<Longrightarrow> trim_space s = s"
  by (simp add: trim_space_def trim_left_clean trim_right_clean)

lemma trim_space_Nil [simp]: "trim_space [] = []"
  by (rule trim_space_clean)
    (auto simp: starts_clean_def ends_clean_def has_suffix_def has_prefix_def
      dest: space_seqs_nonempty)

text \<open>A byte no space sequence contains separates the two ends of a line.\<close>

lemma has_prefix_sep: "has_prefix (v @ c # u) w \<Longrightarrow> c \<notin> set w \<Longrightarrow> has_prefix v w"
proof -
  assume p: "has_prefix (v @ c # u) w" and c: "c \<notin> set w"
  have "length w \<le> length v"
  proof (rule ccontr)
    assume "\<not> length w \<le> length v"
    then have less: "length v < length w" by simp
    moreover from p have "w ! length v = take (length w) (v @ c # u) ! length v"
      by (simp add: has_prefix_def)
    with less have "w ! length v = (v @ c # u) ! length v" by (simp only: nth_take)
    ultimately have "w ! length v = c" and "length v < length w" by simp_all
    with c show False by (metis nth_mem)
  qed
  with p show "has_prefix v w" by (simp add: has_prefix_def)
qed

lemma ends_clean_sep:
  assumes "\<And>w. w \<in> set space_seqs \<Longrightarrow> c \<notin> set w" and "ends_clean v"
  shows "ends_clean (k @ c # v)"
  using assms has_prefix_sep [of "rev v" c "rev k"]
  by (auto simp: ends_clean_def has_suffix_def)

lemma starts_clean_sep:
  assumes "\<And>w. w \<in> set space_seqs \<Longrightarrow> c \<notin> set w" and "starts_clean k"
  shows "starts_clean (k @ c # v)"
  using assms has_prefix_sep [of k c v] by (auto simp: starts_clean_def)

subsection \<open>Decimal numbers\<close>

fun dec_nat :: "nat \<Rightarrow> string" where
  "dec_nat n = (if n < 10 then [digit_char n] else dec_nat (n div 10) @ [digit_char (n mod 10)])"

declare dec_nat.simps [simp del]

definition dec_int :: "int \<Rightarrow> string" where
  "dec_int i = (if i < 0 then CHR ''-'' # dec_nat (nat (- i)) else dec_nat (nat i))"

fun digits_val :: "nat \<Rightarrow> string \<Rightarrow> nat" where
  "digits_val acc [] = acc"
| "digits_val acc (c # cs) = digits_val (10 * acc + digit_val c) cs"

definition max_int64 :: int where
  "max_int64 = 9223372036854775807"

definition min_int64 :: int where
  "min_int64 = -9223372036854775808"

definition in_int64 :: "int \<Rightarrow> bool" where
  "in_int64 i \<longleftrightarrow> min_int64 \<le> i \<and> i \<le> max_int64"

text \<open>\<open>strconv.Atoi\<close> and \<open>strconv.ParseInt(s, 10, 64)\<close>: an optional sign, at least one
  digit, nothing else, and a value an \<open>int64\<close> holds.\<close>

definition parse_magnitude :: "string \<Rightarrow> nat option" where
  "parse_magnitude s = (if s \<noteq> [] \<and> list_all is_digit s then Some (digits_val 0 s) else None)"

definition atoi :: "string \<Rightarrow> int option" where
  "atoi s =
     (let signed = (case s of c # _ \<Rightarrow> c = CHR ''-'' \<or> c = CHR ''+'' | [] \<Rightarrow> False);
          neg = (case s of c # _ \<Rightarrow> c = CHR ''-'' | [] \<Rightarrow> False)
      in case parse_magnitude (if signed then tl s else s) of
           None \<Rightarrow> None
         | Some m \<Rightarrow> (let i = (if neg then - int m else int m) in if in_int64 i then Some i else None))"

lemma digits_val_append: "digits_val acc (xs @ [c]) = 10 * digits_val acc xs + digit_val c"
  by (induction xs arbitrary: acc) auto

lemma dec_nat_not_Nil [simp]: "dec_nat n \<noteq> []"
  by (subst dec_nat.simps) simp

lemma dec_nat_digits: "list_all is_digit (dec_nat n)"
proof (induction n rule: dec_nat.induct)
  case (1 n)
  then show ?case by (subst dec_nat.simps) simp
qed

lemma digits_val_dec_nat [simp]: "digits_val 0 (dec_nat n) = n"
proof (induction n rule: dec_nat.induct)
  case (1 n)
  then show ?case
    by (subst dec_nat.simps) (simp add: digits_val_append)
qed

lemma parse_magnitude_dec [simp]: "parse_magnitude (dec_nat n) = Some n"
  by (simp add: parse_magnitude_def dec_nat_digits)

lemma dec_nat_is_digit: "c \<in> set (dec_nat n) \<Longrightarrow> is_digit c"
  using dec_nat_digits [of n] by (auto simp: list_all_iff)

lemma dec_nat_inj: "dec_nat m = dec_nat n \<longleftrightarrow> m = n"
  by (metis digits_val_dec_nat)

lemma atoi_dec_nat: "in_int64 (int n) \<Longrightarrow> atoi (dec_nat n) = Some (int n)"
proof -
  assume n: "in_int64 (int n)"
  obtain c cs where c: "dec_nat n = c # cs" by (cases "dec_nat n") auto
  then have "is_digit c" using dec_nat_is_digit [of c n] by simp
  then have "c \<noteq> CHR ''-''" "c \<noteq> CHR ''+''" by (auto simp: digit_not_special)
  with c n show ?thesis
    using parse_magnitude_dec [of n] by (simp add: atoi_def)
qed

lemma atoi_dec_int: "in_int64 i \<Longrightarrow> atoi (dec_int i) = Some i"
proof (cases "i < 0")
  case True
  assume "in_int64 i"
  with True show ?thesis by (simp add: dec_int_def atoi_def)
next
  case False
  assume "in_int64 i"
  with False show ?thesis using atoi_dec_nat [of "nat i"] by (simp add: dec_int_def)
qed

subsection \<open>ASCII case mapping\<close>

text \<open>\<open>strings.ToLower\<close> and \<open>strings.ReplaceAll\<close> with one-byte patterns, as used on
  Kubernetes names, which are ASCII.\<close>

definition lower_char :: "char \<Rightarrow> char" where
  "lower_char c = (if is_upper c then char_of (of_char c + (32 :: nat)) else c)"

definition to_lower :: "string \<Rightarrow> string" where
  "to_lower = map lower_char"

definition replace_char :: "char \<Rightarrow> char \<Rightarrow> string \<Rightarrow> string" where
  "replace_char a b = map (\<lambda>c. if c = a then b else c)"

end
