(* ===== verification/Regex.thy ===== *)
theory Regex
  imports GoStrings
begin

text \<open>
  The regular expressions of the program are anchored sequences of character classes with
  repetition bounds (Go's \<open>$\<close> without the \<open>m\<close> flag is the end of the text). \<open>matches\<close> is
  Go's \<open>MatchString\<close> on such an expression; \<open>matches_Cons\<close> states what it accepts.
\<close>

text \<open>\<open>Rep p lo hi\<close>: at least \<open>lo\<close> and, with \<open>Some\<close> bound, at most that many bytes of the class.\<close>

datatype piece = Rep "char \<Rightarrow> bool" nat "nat option"

type_synonym regex = "piece list"

definition one :: "(char \<Rightarrow> bool) \<Rightarrow> piece" where
  "one p = Rep p 1 (Some 1)"

definition many1 :: "(char \<Rightarrow> bool) \<Rightarrow> piece" where
  "many1 p = Rep p 1 None"

definition many :: "(char \<Rightarrow> bool) \<Rightarrow> piece" where
  "many p = Rep p 0 None"

definition lit :: "string \<Rightarrow> regex" where
  "lit s = map (\<lambda>c. one (\<lambda>x. x = c)) s"

fun matches :: "regex \<Rightarrow> string \<Rightarrow> bool" where
  "matches [] s = (s = [])"
| "matches (Rep p lo hi # ps) s =
     ((lo = 0 \<and> matches ps s) \<or>
      (hi \<noteq> Some 0 \<and>
       (case s of
          [] \<Rightarrow> False
        | c # cs \<Rightarrow> p c \<and> matches (Rep p (lo - 1) (map_option (\<lambda>n. n - 1) hi) # ps) cs)))"

definition within_hi :: "nat \<Rightarrow> nat option \<Rightarrow> bool" where
  "within_hi n hi \<longleftrightarrow> (case hi of None \<Rightarrow> True | Some h \<Rightarrow> n \<le> h)"

text \<open>A piece takes some prefix of its class within its bounds and leaves the rest to the others.\<close>

lemma matches_Cons:
  "matches (Rep p lo hi # ps) s \<longleftrightarrow>
     (\<exists>u v. s = u @ v \<and> list_all p u \<and> lo \<le> length u \<and> within_hi (length u) hi \<and> matches ps v)"
proof (induction s arbitrary: lo hi)
  case Nil
  then show ?case by (auto simp: within_hi_def split: option.splits)
next
  case (Cons c cs)
  show ?case
  proof (intro iffI)
    assume "matches (Rep p lo hi # ps) (c # cs)"
    then consider "lo = 0" "matches ps (c # cs)"
      | "hi \<noteq> Some 0" "p c" "matches (Rep p (lo - 1) (map_option (\<lambda>n. n - 1) hi) # ps) cs"
      by auto
    then show "\<exists>u v. c # cs = u @ v \<and> list_all p u \<and> lo \<le> length u \<and>
        within_hi (length u) hi \<and> matches ps v"
    proof cases
      case 1
      then show ?thesis
        by (intro exI [of _ "[]"] exI [of _ "c # cs"]) (auto simp: within_hi_def split: option.splits)
    next
      case 2
      with Cons.IH obtain u v where "cs = u @ v" "list_all p u" "lo - 1 \<le> length u"
          "within_hi (length u) (map_option (\<lambda>n. n - 1) hi)" "matches ps v"
        by blast
      with 2 show ?thesis
        by (intro exI [of _ "c # u"] exI [of _ v]) (auto simp: within_hi_def split: option.splits)
    qed
  next
    assume "\<exists>u v. c # cs = u @ v \<and> list_all p u \<and> lo \<le> length u \<and>
        within_hi (length u) hi \<and> matches ps v"
    then obtain u v where uv: "c # cs = u @ v" "list_all p u" "lo \<le> length u"
        "within_hi (length u) hi" "matches ps v" by blast
    show "matches (Rep p lo hi # ps) (c # cs)"
    proof (cases u)
      case Nil
      with uv show ?thesis by simp
    next
      case (Cons x xs)
      with uv have "matches (Rep p (lo - 1) (map_option (\<lambda>n. n - 1) hi) # ps) cs"
        unfolding Cons.IH
        by (intro exI [of _ xs] exI [of _ v]) (auto simp: within_hi_def split: option.splits)
      moreover from uv Cons have "p c" "hi \<noteq> Some 0"
        by (auto simp: within_hi_def split: option.splits)
      ultimately show ?thesis by simp
    qed
  qed
qed

lemma matches_one [simp]:
  "matches (one p # ps) s \<longleftrightarrow> (case s of [] \<Rightarrow> False | c # cs \<Rightarrow> p c \<and> matches ps cs)"
  by (auto simp: one_def split: list.splits)

lemma matches_chars:
  "matches ps s \<Longrightarrow> c \<in> set s \<Longrightarrow> \<exists>p lo hi. Rep p lo hi \<in> set ps \<and> p c"
proof (induction ps arbitrary: s)
  case Nil
  then show ?case by simp
next
  case (Cons q ps)
  obtain p lo hi where q: "q = Rep p lo hi" by (cases q)
  with Cons.prems obtain u v where uv: "s = u @ v" "list_all p u" "matches ps v"
    by (auto simp: matches_Cons simp del: matches.simps)
  then consider "c \<in> set u" | "c \<in> set v" using Cons.prems(2) by auto
  then show ?case
  proof cases
    case 1
    with uv q show ?thesis by (auto simp: list_all_iff)
  next
    case 2
    with Cons.IH uv show ?thesis by fastforce
  qed
qed

end
