(* ===== verification/SageMaker.thy ===== *)
theory SageMaker
  imports Regex
begin

text \<open>
  \<open>internal/intent/sagemaker.go\<close>: the \<open>ai:\<close> block. SageMaker endpoint specification with
  its GPU-sizing preflight, and the synthetic inference specification with its profiles.
  Errors and warnings of the intent validators are values of \<open>intent_error\<close> and
  \<open>intent_warning\<close>, one constructor per message with the message's arguments.
\<close>

subsection \<open>Messages of the intent validators\<close>

datatype net_error = BadCIDR string | NotSlash24 string nat
datatype pool_error = NotIPv4 string | ReservedBlock string
datatype version_error = NotTwoParts string | BadMajor string | BadMinor string

datatype bnk_error = FARArchiveRequired | JWTRequired | CertManagerMismatch string

datatype pattern_error =
    UnknownPattern string | DataPathRequired string | ExternalRequired string
  | ExternalCIDR net_error | ExternalAZ string "string list" | InternalRequired
  | InternalCIDR net_error | InternalAZ string "string list" | InternalForbidden string
  | QuorumTooSmall string nat int

datatype testing_error =
    JumphostNeedsDataPath | JumphostInstanceType string | JumphostSubnetIndex int nat
  | DemoBadTTL string | DemoNonPositiveTTL string | DemoNeedsJumphost

datatype bigip_error =
    VENeedsDualInterface string | VENeedsJumphost | VENeedsDemo | VEInstanceType string
  | VELicenseTier string | VENeedsExternalCIDR | VEBadCIDR string | VEBadVIP string
  | VEOutsideCIDR string string | VEReservedByAWS string nat | VENotIPv4Network string
  | VECollision string string "string list" | VESubnetIndex int nat

datatype ai_error =
    SMModelRequired | SMInstanceType string | SMTensorNegative int | SMTensorTooBig int
  | SMModelLenNegative int | SMTensorExceedsGPUs int string nat "(string \<times> nat) option"
  | SynUnknownProfile string | SynNegative string f64 | SynTimeFactor f64

datatype group_error =
    BadCapacityType nat string string | BadTaintEffect nat string nat string
  | NodeAZUnknown nat string string "string list"
  | NodeAZDenied nat string string string "string list"

datatype intent_error =
    BadName string | RegionRequired | ExternalSelfIP pool_error | InternalSelfIP pool_error
  | NoAZs | NoPublicSubnets | NoPrivateSubnets | NoVPCCidr
  | BadVersion version_error | BelowFloor string | NoNodeGroups | BadNodeGroupName string
  | InBnk bnk_error | InPattern pattern_error | InTesting testing_error
  | InBigIP bigip_error | InAI ai_error | InGroup group_error

datatype intent_warning =
    AboveTested string
  | ExperimentalSRIOV
  | UnknownManifest string

type_synonym 'e vcheck = "(intent_warning, 'e) check"
type_synonym icheck = "intent_error vcheck"

subsection \<open>Specifications\<close>

(* src/internal/intent/sagemaker.go:74-102 SyntheticSpec *)
record SyntheticSpec =
  syn_Enabled :: bool
  syn_Image :: string
  syn_Profile :: string
  syn_Model :: string
  syn_ServedModelName :: string
  syn_Replicas :: int
  syn_TTFTBaseMs :: int
  syn_PrefillUsPerToken :: int
  syn_ITLMs :: f64
  syn_MaxNumSeqs :: int
  syn_TimeFactorUnderLoad :: f64
  syn_MaxModelLen :: int
  syn_KVCacheBlocks :: int

(* src/internal/intent/sagemaker.go:138-171 SageMakerSpec *)
record SageMakerSpec =
  sm_Enabled :: bool
  sm_Model :: string
  sm_InstanceType :: string
  sm_ScaleToZero :: bool
  sm_ImageURI :: string
  sm_TensorParallelSize :: int
  sm_MaxModelLen :: int

(* src/internal/intent/sagemaker.go:63-66 AISpec *)
record AISpec =
  ai_SageMaker :: "SageMakerSpec option"
  ai_Synthetic :: "SyntheticSpec option"

text \<open>The zero value of \<open>SyntheticSpec\<close>, which reading a missing map key yields.\<close>

definition zero_synthetic :: SyntheticSpec where
  "zero_synthetic =
     \<lparr>syn_Enabled = False, syn_Image = [], syn_Profile = [], syn_Model = [],
      syn_ServedModelName = [], syn_Replicas = 0, syn_TTFTBaseMs = 0,
      syn_PrefillUsPerToken = 0, syn_ITLMs = Fin 0, syn_MaxNumSeqs = 0,
      syn_TimeFactorUnderLoad = Fin 0, syn_MaxModelLen = 0, syn_KVCacheBlocks = 0\<rparr>"

subsection \<open>SageMaker\<close>

(* src/internal/intent/sagemaker.go:11-11 sageMakerInstanceTypeRE *)
definition sageMakerInstanceTypeRE :: regex where
  "sageMakerInstanceTypeRE =
     lit ''ml.'' @ [one is_lower, many1 (\<lambda>c. is_digit c \<or> is_lower c), one (\<lambda>c. c = CHR ''.''),
       many1 (\<lambda>c. is_lower c \<or> is_digit c)]"

(* src/internal/intent/sagemaker.go:24-43 smInstanceGPUCount *)
definition smInstanceGPUCount :: "(string \<times> nat) list" where
  "smInstanceGPUCount =
     [(''ml.g5.xlarge'', 1), (''ml.g5.2xlarge'', 1), (''ml.g5.4xlarge'', 1),
      (''ml.g5.8xlarge'', 1), (''ml.g5.16xlarge'', 1), (''ml.g5.12xlarge'', 4),
      (''ml.g5.24xlarge'', 4), (''ml.g5.48xlarge'', 8),
      (''ml.g6.xlarge'', 1), (''ml.g6.2xlarge'', 1), (''ml.g6.4xlarge'', 1),
      (''ml.g6.8xlarge'', 1), (''ml.g6.16xlarge'', 1), (''ml.g6.12xlarge'', 4),
      (''ml.g6.24xlarge'', 4), (''ml.g6.48xlarge'', 8)]"

text \<open>The instance the last message suggests, with its GPU count: the first candidate with enough.\<close>

(* src/internal/intent/sagemaker.go:213-224 validateSageMaker part *)
definition gpu_example :: "int \<Rightarrow> (string \<times> nat) option" where
  "gpu_example tp =
     find (\<lambda>(candidate, n). int n \<ge> tp)
       (List.map_filter (\<lambda>c. map_option (Pair c) (map_of smInstanceGPUCount c))
         [''ml.g5.12xlarge'', ''ml.g5.24xlarge'', ''ml.g5.48xlarge'',
          ''ml.g6.12xlarge'', ''ml.g6.24xlarge'', ''ml.g6.48xlarge''])"

(* src/internal/intent/sagemaker.go:190-236 validateSageMaker *)
definition validateSageMaker :: "SageMakerSpec \<Rightarrow> ai_error vcheck" where
  "validateSageMaker s =
     check_when (sm_Enabled s) (seq_checks
       [reject_if (sm_Model s = []) SMModelRequired,
        reject_if (sm_InstanceType s \<noteq> [] \<and> \<not> matches sageMakerInstanceTypeRE (sm_InstanceType s))
          (SMInstanceType (sm_InstanceType s)),
        reject_if (sm_TensorParallelSize s < 0) (SMTensorNegative (sm_TensorParallelSize s)),
        reject_if (sm_TensorParallelSize s > 8) (SMTensorTooBig (sm_TensorParallelSize s)),
        reject_if (sm_MaxModelLen s < 0) (SMModelLenNegative (sm_MaxModelLen s)),
        (if sm_TensorParallelSize s > 0 \<and> sm_InstanceType s \<noteq> [] then
           (case map_of smInstanceGPUCount (sm_InstanceType s) of
              None \<Rightarrow> pass
            | Some gpuCount \<Rightarrow>
                reject_if (sm_TensorParallelSize s > int gpuCount)
                  (SMTensorExceedsGPUs (sm_TensorParallelSize s) (sm_InstanceType s) gpuCount
                     (gpu_example (sm_TensorParallelSize s))))
         else pass)])"

(* src/internal/intent/sagemaker.go:240-244 applySageMakerDefaults *)
definition applySageMakerDefaults :: "SageMakerSpec \<Rightarrow> SageMakerSpec" where
  "applySageMakerDefaults s =
     (if sm_InstanceType s = [] then s\<lparr>sm_InstanceType := ''ml.g5.2xlarge''\<rparr> else s)"

subsection \<open>Synthetic inference\<close>

(* src/internal/intent/sagemaker.go:46-46 DefaultSyntheticImage *)
definition DefaultSyntheticImage :: string where
  "DefaultSyntheticImage = ''ghcr.io/llm-d/llm-d-inference-sim:v0.11.2''"

(* src/internal/intent/sagemaker.go:105-105 DefaultSyntheticProfile *)
definition DefaultSyntheticProfile :: string where
  "DefaultSyntheticProfile = ''llama-3.1-8b''"

(* src/internal/intent/sagemaker.go:113-126 SyntheticProfiles *)
definition SyntheticProfiles :: "(string \<times> SyntheticSpec) list" where
  "SyntheticProfiles =
     [(''llama-3.1-8b'', zero_synthetic
        \<lparr>syn_Model := ''NousResearch/Meta-Llama-3.1-8B-Instruct'', syn_TTFTBaseMs := 7,
         syn_PrefillUsPerToken := 18, syn_ITLMs := Fin (46 / 10), syn_MaxNumSeqs := 256,
         syn_TimeFactorUnderLoad := Fin (25 / 10), syn_MaxModelLen := 131072,
         syn_KVCacheBlocks := 7000\<rparr>),
      (''llama-3.3-70b'', zero_synthetic
        \<lparr>syn_Model := ''unsloth/Llama-3.3-70B-Instruct'', syn_TTFTBaseMs := 14,
         syn_PrefillUsPerToken := 45, syn_ITLMs := Fin (138 / 10), syn_MaxNumSeqs := 256,
         syn_TimeFactorUnderLoad := Fin 2, syn_MaxModelLen := 131072,
         syn_KVCacheBlocks := 12000\<rparr>),
      (''llama-3.1-405b'', zero_synthetic
        \<lparr>syn_Model := ''NousResearch/Hermes-3-Llama-3.1-405B'', syn_TTFTBaseMs := 30,
         syn_PrefillUsPerToken := 120, syn_ITLMs := Fin 38, syn_MaxNumSeqs := 128,
         syn_TimeFactorUnderLoad := Fin 2, syn_MaxModelLen := 131072,
         syn_KVCacheBlocks := 7000\<rparr>)]"

(* src/internal/intent/sagemaker.go:317-324 SyntheticProfileNames *)
definition SyntheticProfileNames :: "string list" where
  "SyntheticProfileNames = sort (map fst SyntheticProfiles)"

definition f_of_int :: "int \<Rightarrow> f64" where
  "f_of_int i = Fin (of_int i)"

text \<open>
  The range loop visits the fields of a Go map in an arbitrary order; only which of
  several negative fields is named depends on it. The model takes the order the literal
  lists them in.
\<close>

(* src/internal/intent/sagemaker.go:293-314 validateSynthetic *)
definition validateSynthetic :: "SyntheticSpec \<Rightarrow> ai_error vcheck" where
  "validateSynthetic s =
     check_when (syn_Enabled s) (seq_checks
       ([reject_if (syn_Profile s \<noteq> [] \<and> map_of SyntheticProfiles (syn_Profile s) = None)
           (SynUnknownProfile (syn_Profile s))]
        @ map (\<lambda>(name, v). reject_if (f_lt v (Fin 0)) (SynNegative name v))
            [(''replicas'', f_of_int (syn_Replicas s)), (''ttftBaseMs'', f_of_int (syn_TTFTBaseMs s)),
             (''prefillUsPerToken'', f_of_int (syn_PrefillUsPerToken s)), (''itlMs'', syn_ITLMs s),
             (''maxNumSeqs'', f_of_int (syn_MaxNumSeqs s)), (''maxModelLen'', f_of_int (syn_MaxModelLen s)),
             (''kvCacheBlocks'', f_of_int (syn_KVCacheBlocks s))]
        @ [reject_if (\<not> f_eq (syn_TimeFactorUnderLoad s) (Fin 0)
                      \<and> f_lt (syn_TimeFactorUnderLoad s) (Fin 1))
             (SynTimeFactor (syn_TimeFactorUnderLoad s))]))"

definition profile_of :: "string \<Rightarrow> SyntheticSpec" where
  "profile_of n = (case map_of SyntheticProfiles n of Some p \<Rightarrow> p | None \<Rightarrow> zero_synthetic)"

(* src/internal/intent/sagemaker.go:327-365 applySyntheticDefaults *)
definition applySyntheticDefaults :: "SyntheticSpec \<Rightarrow> SyntheticSpec" where
  "applySyntheticDefaults s0 =
     (let s = s0\<lparr>syn_Image := (if syn_Image s0 = [] then DefaultSyntheticImage else syn_Image s0),
                 syn_Profile := (if syn_Profile s0 = [] then DefaultSyntheticProfile else syn_Profile s0)\<rparr>;
          p = profile_of (syn_Profile s)
      in s\<lparr>syn_Model := (if syn_Model s = [] then syn_Model p else syn_Model s),
           syn_ServedModelName :=
             (if syn_ServedModelName s = [] then ''llama3'' else syn_ServedModelName s),
           syn_Replicas := (if syn_Replicas s \<le> 0 then 1 else syn_Replicas s),
           syn_TTFTBaseMs := (if syn_TTFTBaseMs s \<le> 0 then syn_TTFTBaseMs p else syn_TTFTBaseMs s),
           syn_PrefillUsPerToken :=
             (if syn_PrefillUsPerToken s \<le> 0 then syn_PrefillUsPerToken p else syn_PrefillUsPerToken s),
           syn_ITLMs := (if f_le (syn_ITLMs s) (Fin 0) then syn_ITLMs p else syn_ITLMs s),
           syn_MaxNumSeqs := (if syn_MaxNumSeqs s \<le> 0 then syn_MaxNumSeqs p else syn_MaxNumSeqs s),
           syn_TimeFactorUnderLoad :=
             (if f_le (syn_TimeFactorUnderLoad s) (Fin 0) then syn_TimeFactorUnderLoad p
              else syn_TimeFactorUnderLoad s),
           syn_MaxModelLen := (if syn_MaxModelLen s \<le> 0 then syn_MaxModelLen p else syn_MaxModelLen s),
           syn_KVCacheBlocks :=
             (if syn_KVCacheBlocks s \<le> 0 then syn_KVCacheBlocks p else syn_KVCacheBlocks s)\<rparr>)"

subsection \<open>Facts\<close>

interpretation sagemaker_defaults: defaulting applySageMakerDefaults
  by unfold_locales (simp add: applySageMakerDefaults_def)

text \<open>Every profile of the table gives each timing field a positive value.\<close>

definition complete_profile :: "SyntheticSpec \<Rightarrow> bool" where
  "complete_profile p \<longleftrightarrow>
     0 < syn_TTFTBaseMs p \<and> 0 < syn_PrefillUsPerToken p \<and> f_lt (Fin 0) (syn_ITLMs p) \<and>
     0 < syn_MaxNumSeqs p \<and> \<not> f_lt (syn_TimeFactorUnderLoad p) (Fin 1) \<and>
     0 < syn_MaxModelLen p \<and> 0 < syn_KVCacheBlocks p \<and> syn_Model p \<noteq> []"

lemma profiles_complete: "list_all (\<lambda>(n, p). complete_profile p) SyntheticProfiles"
  by code_simp

lemma profile_of_complete:
  "n \<in> set (map fst SyntheticProfiles) \<Longrightarrow> complete_profile (profile_of n)"
  using profiles_complete map_of_SomeD [of SyntheticProfiles n]
  by (fastforce simp: profile_of_def list_all_iff map_of_eq_None_iff split: option.splits)

text \<open>
  Defaulting works field by field from a fixed profile, and a profile's value for a field
  is either good (so the second pass keeps it) or the zero the second pass writes again.
\<close>

definition fill_from :: "('a \<Rightarrow> bool) \<Rightarrow> 'a \<Rightarrow> 'a \<Rightarrow> 'a" where
  "fill_from bad d x = (if bad x then d else x)"

lemma fill_from_idem [simp]: "fill_from bad d (fill_from bad d x) = fill_from bad d x"
  by (simp add: fill_from_def)

lemma fill_from_keep: "\<not> bad x \<Longrightarrow> fill_from bad d x = x"
  by (simp add: fill_from_def)

lemma fill_from_good: "\<not> bad d \<Longrightarrow> \<not> bad (fill_from bad d x)"
  by (simp add: fill_from_def)

text \<open>The profile a spec resolves to, which defaulting does not change.\<close>

definition synthetic_profile :: "SyntheticSpec \<Rightarrow> SyntheticSpec" where
  "synthetic_profile s = profile_of (fill_from (\<lambda>x. x = []) DefaultSyntheticProfile (syn_Profile s))"

lemma applySyntheticDefaults_eq:
  "applySyntheticDefaults s =
     (let p = synthetic_profile s
      in s\<lparr>syn_Image := fill_from (\<lambda>x. x = []) DefaultSyntheticImage (syn_Image s),
           syn_Profile := fill_from (\<lambda>x. x = []) DefaultSyntheticProfile (syn_Profile s),
           syn_Model := fill_from (\<lambda>x. x = []) (syn_Model p) (syn_Model s),
           syn_ServedModelName := fill_from (\<lambda>x. x = []) ''llama3'' (syn_ServedModelName s),
           syn_Replicas := fill_from (\<lambda>x. x \<le> 0) 1 (syn_Replicas s),
           syn_TTFTBaseMs := fill_from (\<lambda>x. x \<le> 0) (syn_TTFTBaseMs p) (syn_TTFTBaseMs s),
           syn_PrefillUsPerToken :=
             fill_from (\<lambda>x. x \<le> 0) (syn_PrefillUsPerToken p) (syn_PrefillUsPerToken s),
           syn_ITLMs := fill_from (\<lambda>x. f_le x (Fin 0)) (syn_ITLMs p) (syn_ITLMs s),
           syn_MaxNumSeqs := fill_from (\<lambda>x. x \<le> 0) (syn_MaxNumSeqs p) (syn_MaxNumSeqs s),
           syn_TimeFactorUnderLoad :=
             fill_from (\<lambda>x. f_le x (Fin 0)) (syn_TimeFactorUnderLoad p) (syn_TimeFactorUnderLoad s),
           syn_MaxModelLen := fill_from (\<lambda>x. x \<le> 0) (syn_MaxModelLen p) (syn_MaxModelLen s),
           syn_KVCacheBlocks := fill_from (\<lambda>x. x \<le> 0) (syn_KVCacheBlocks p) (syn_KVCacheBlocks s)\<rparr>)"
  unfolding applySyntheticDefaults_def synthetic_profile_def fill_from_def Let_def by simp

lemma synthetic_profile_defaults [simp]:
  "synthetic_profile (applySyntheticDefaults s) = synthetic_profile s"
  unfolding applySyntheticDefaults_eq Let_def by (simp add: synthetic_profile_def)

lemma applySyntheticDefaults_idem:
  "applySyntheticDefaults (applySyntheticDefaults s) = applySyntheticDefaults s"
  unfolding applySyntheticDefaults_eq [of "applySyntheticDefaults s"] synthetic_profile_defaults
  by (rule SyntheticSpec.equality) (simp_all add: applySyntheticDefaults_eq Let_def)

interpretation synthetic_defaults: defaulting applySyntheticDefaults
  by unfold_locales (rule applySyntheticDefaults_idem)

end
