(* ===== verification/Manifest.thy ===== *)
theory Manifest
  imports GoStrings
begin

text \<open>
  \<open>internal/manifest/manifest.go\<close>: the table of known BNK release manifests with the FLO
  chart each is paired with, and the reduction of a parsed release manifest to its chart
  and image maps. YAML decoding is a parameter (\<open>gopkg.in/yaml.v3\<close> is third-party).
\<close>

subsection \<open>Known releases\<close>

(* src/internal/manifest/manifest.go:24-24 FARRegistryHost *)
definition FARRegistryHost :: string where
  "FARRegistryHost = ''repo.f5.com''"

(* src/internal/manifest/manifest.go:33-33 DefaultManifestVersion *)
definition DefaultManifestVersion :: string where
  "DefaultManifestVersion = ''2.4.0''"

(* src/internal/manifest/manifest.go:287-293 Release *)
record release =
  rel_Version :: string
  rel_FLOChart :: string

(* src/internal/manifest/manifest.go:300-308 KnownReleases *)
definition KnownReleases :: "release list" where
  "KnownReleases =
     [\<lparr>rel_Version = ''2.3.0-3.2598.3-0.0.170'', rel_FLOChart = ''v2.21.13-0.0.28''\<rparr>,
      \<lparr>rel_Version = ''2.3.1-3.2598.3-0.0.304'', rel_FLOChart = ''v2.21.13-0.0.53''\<rparr>,
      \<lparr>rel_Version = ''2.3.2-3.2598.3-0.0.392'', rel_FLOChart = ''v2.21.13-0.0.58''\<rparr>,
      \<lparr>rel_Version = ''2.3.3-3.2598.3-0.0.509'', rel_FLOChart = ''v2.21.13-0.0.64''\<rparr>,
      \<lparr>rel_Version = ''2.4.1'', rel_FLOChart = ''v2.30.1-0.0.8''\<rparr>,
      \<lparr>rel_Version = ''2.4.1-3.2850.1-0.0.9'', rel_FLOChart = ''v2.30.1-0.0.8''\<rparr>,
      \<lparr>rel_Version = ''2.4.0'', rel_FLOChart = ''v2.30.0-0.5.2''\<rparr>]"

text \<open>The \<open>(chart, ok)\<close> pair of Go is an option: \<open>ok\<close> false is \<open>None\<close>.\<close>

(* src/internal/manifest/manifest.go:314-321 FLOChartFor *)
definition FLOChartFor :: "string \<Rightarrow> string option" where
  "FLOChartFor manifestVersion =
     map_option rel_FLOChart (find (\<lambda>r. rel_Version r = manifestVersion) KnownReleases)"

(* src/internal/manifest/manifest.go:324-327 DefaultFLOChart *)
definition DefaultFLOChart :: string where
  "DefaultFLOChart = (case FLOChartFor DefaultManifestVersion of Some chart \<Rightarrow> chart | None \<Rightarrow> [])"

(* src/internal/manifest/manifest.go:331-334 IsKnownRelease *)
definition IsKnownRelease :: "string \<Rightarrow> bool" where
  "IsKnownRelease manifestVersion \<longleftrightarrow> FLOChartFor manifestVersion \<noteq> None"

lemma FLOChartFor_Some_iff:
  "IsKnownRelease v \<longleftrightarrow> v \<in> set (map rel_Version KnownReleases)"
  by (auto simp: IsKnownRelease_def FLOChartFor_def find_None_iff)

lemma KnownReleases_distinct: "distinct (map rel_Version KnownReleases)"
  by (simp add: KnownReleases_def)

lemma find_distinct_key:
  "distinct (map f xs) \<Longrightarrow> x \<in> set xs \<Longrightarrow> find (\<lambda>y. f y = f x) xs = Some x"
  by (induction xs) (auto simp: rev_image_eqI)

lemma FLOChartFor_paired:
  "r \<in> set KnownReleases \<Longrightarrow> FLOChartFor (rel_Version r) = Some (rel_FLOChart r)"
  by (simp add: FLOChartFor_def find_distinct_key [OF KnownReleases_distinct])

lemma DefaultFLOChart_eq [simp]: "DefaultFLOChart = ''v2.30.0-0.5.2''"
  by (simp add: DefaultFLOChart_def FLOChartFor_def DefaultManifestVersion_def KnownReleases_def)

subsection \<open>Parsed release manifests\<close>

record named_version =
  nv_Name :: string
  nv_Version :: string

(* src/internal/manifest/manifest.go:49-59 rawReleaseManifest part *)
record raw_release =
  rr_Version :: string
  rr_HelmCharts :: "named_version list"
  rr_DockerImages :: "named_version list"

(* src/internal/manifest/manifest.go:46-60 rawReleaseManifest *)
record rawReleaseManifest =
  raw_F5HelmRepo :: string
  raw_F5DockerRepo :: string
  raw_Releases :: "raw_release list"

(* src/internal/manifest/manifest.go:37-44 ReleaseManifest *)
record releaseManifest =
  rm_HelmRepo :: string
  rm_DockerRepo :: string
  rm_Version :: string
  rm_HelmCharts :: "string \<rightharpoonup> string"
  rm_DockerImgs :: "string \<rightharpoonup> string"
  rm_rawManifest :: string

datatype 'e manifest_error = ParseYaml 'e | NoReleases | EmptyVersion

definition put_named :: "named_version \<Rightarrow> (string \<rightharpoonup> string) \<Rightarrow> (string \<rightharpoonup> string)" where
  "put_named n m = (if nv_Name n \<noteq> [] then m(nv_Name n \<mapsto> nv_Version n) else m)"

(* src/internal/manifest/manifest.go:63-94 ParseReleaseManifest *)
definition ParseReleaseManifest ::
  "(string \<Rightarrow> 'e + rawReleaseManifest) \<Rightarrow> string \<Rightarrow> 'e manifest_error + releaseManifest" where
  "ParseReleaseManifest unmarshal body =
     (case unmarshal body of
        Inl e \<Rightarrow> Inl (ParseYaml e)
      | Inr raw \<Rightarrow>
          (case raw_Releases raw of
             [] \<Rightarrow> Inl NoReleases
           | rel # _ \<Rightarrow>
               if rr_Version rel = [] then Inl EmptyVersion
               else Inr \<lparr>rm_HelmRepo = raw_F5HelmRepo raw,
                         rm_DockerRepo = raw_F5DockerRepo raw,
                         rm_Version = rr_Version rel,
                         rm_HelmCharts = fold put_named (rr_HelmCharts rel) Map.empty,
                         rm_DockerImgs = fold put_named (rr_DockerImages rel) Map.empty,
                         rm_rawManifest = body\<rparr>))"

text \<open>Reading a missing key of a Go map gives the zero value.\<close>

(* src/internal/manifest/manifest.go:96-96 Chart *)
definition Chart :: "releaseManifest \<Rightarrow> string \<Rightarrow> string" where
  "Chart m name = (case rm_HelmCharts m name of Some v \<Rightarrow> v | None \<Rightarrow> [])"

(* src/internal/manifest/manifest.go:97-97 Image *)
definition Image :: "releaseManifest \<Rightarrow> string \<Rightarrow> string" where
  "Image m name = (case rm_DockerImgs m name of Some v \<Rightarrow> v | None \<Rightarrow> [])"

lemma fold_put_named:
  "fold put_named ns m k =
     (case find (\<lambda>n. nv_Name n = k \<and> k \<noteq> []) (rev ns) of
        Some n \<Rightarrow> Some (nv_Version n) | None \<Rightarrow> m k)"
proof (induction ns arbitrary: m rule: rev_induct)
  case Nil
  then show ?case by simp
next
  case (snoc n ns)
  then show ?case by (auto simp: put_named_def split: option.splits)
qed

lemma ParseReleaseManifest_Inr:
  "ParseReleaseManifest unm body = Inr m \<longleftrightarrow>
     (\<exists>raw rel rest. unm body = Inr raw \<and> raw_Releases raw = rel # rest \<and> rr_Version rel \<noteq> [] \<and>
        m = \<lparr>rm_HelmRepo = raw_F5HelmRepo raw, rm_DockerRepo = raw_F5DockerRepo raw,
             rm_Version = rr_Version rel,
             rm_HelmCharts = fold put_named (rr_HelmCharts rel) Map.empty,
             rm_DockerImgs = fold put_named (rr_DockerImages rel) Map.empty,
             rm_rawManifest = body\<rparr>)"
  by (auto simp: ParseReleaseManifest_def split: sum.splits list.splits)

end
