(* ===== verification/IntentTypes.thy ===== *)
theory IntentTypes
  imports SageMaker Manifest
begin

text \<open>
  \<open>internal/intent/cluster.go\<close>: the data of a cluster intent (\<open>cluster.yaml\<close>, apiVersion
  \<open>awsbnkctl/v1\<close>) and the resolvers that read it. A Go pointer is an option, an \<open>int\<close>
  is an \<open>int\<close> within the \<open>int64\<close> range the decoder accepts, a nil or empty map is
  \<open>Map.empty\<close>. \<open>os.Getenv\<close> is a parameter \<open>env\<close> (\<open>[]\<close> when a variable is unset).
\<close>

subsection \<open>Blocks of the intent\<close>

(* src/internal/intent/cluster.go:29-37 BnkAIGatewaySpec *)
record BnkAIGatewaySpec =
  aig_Enabled :: bool
  aig_AIMetrics :: bool
  aig_ConsoleURL :: string
  aig_DefaultEgressRoute :: bool
  aig_DNSResolver :: bool
  aig_DSSMSentinel :: bool
  aig_MultiNUMASpanning :: bool

(* src/internal/intent/cluster.go:45-114 BnkSpec *)
record BnkSpec =
  bnk_FARArchive :: string
  bnk_JWT :: string
  bnk_RegistryHost :: string
  bnk_CertManagerVersion :: string
  bnk_DeploymentSize :: string
  bnk_StorageClassName :: string
  bnk_ManifestVersion :: string
  bnk_Version :: string
  bnk_FLOVersion :: string
  bnk_TmmMtu :: int
  bnk_TmmCpu :: string
  bnk_TmmMemory :: string
  bnk_TmmHugepages :: string
  bnk_PalCpuSet :: string
  bnk_BGP :: bool
  bnk_DynamicRouting :: bool
  bnk_AIGateway :: "BnkAIGatewaySpec option"

(* src/internal/intent/cluster.go:322-325 SubnetSpec *)
record SubnetSpec =
  sn_CIDR :: string
  sn_AZ :: string

(* src/internal/intent/cluster.go:136-141 SelfIPsSpec *)
record SelfIPsSpec =
  sip_External :: string
  sip_Internal :: string
  sip_PrefixLen :: int

(* src/internal/intent/cluster.go:122-126 DataPathSpec *)
record DataPathSpec =
  dp_External :: SubnetSpec
  dp_Internal :: SubnetSpec
  dp_SelfIPs :: "SelfIPsSpec option"

(* src/internal/intent/cluster.go:316-319 Subnets *)
record Subnets =
  sns_Public :: "SubnetSpec list"
  sns_Private :: "SubnetSpec list"

(* src/internal/intent/cluster.go:303-313 Network *)
record Network =
  nw_VPCCidr :: string
  nw_AZs :: "string list"
  nw_Subnets :: Subnets
  nw_NatGateways :: int
  nw_DataPath :: "DataPathSpec option"

(* src/internal/intent/cluster.go:294-300 Metadata *)
record Metadata =
  md_Name :: string
  md_Region :: string
  md_Labels :: "string \<rightharpoonup> string"

(* src/internal/intent/cluster.go:287-291 NodeTaintSpec *)
record NodeTaintSpec =
  taint_Key :: string
  taint_Value :: string
  taint_Effect :: string

(* src/internal/intent/cluster.go:238-281 NodeGroupSpec *)
record NodeGroupSpec =
  ng_Name :: string
  ng_InstanceType :: string
  ng_DesiredSize :: int
  ng_MinSize :: int
  ng_MaxSize :: int
  ng_DiskSize :: int
  ng_Labels :: "string \<rightharpoonup> string"
  ng_GPU :: bool
  ng_CapacityType :: string
  ng_Taints :: "NodeTaintSpec list"
  ng_AZs :: "string list"
  ng_OnDemandFallback :: bool

(* src/internal/intent/cluster.go:284-284 IsGPU *)
definition IsGPU :: "NodeGroupSpec \<Rightarrow> bool" where
  "IsGPU ng = ng_GPU ng"

(* src/internal/intent/cluster.go:214-219 EndpointAccessSpec *)
record EndpointAccessSpec =
  ea_PublicAccessCidrs :: "string list"

(* src/internal/intent/cluster.go:223-235 ClusterSpec *)
record ClusterSpec =
  cs_KubernetesVersion :: string
  cs_NodeGroups :: "NodeGroupSpec list"
  cs_EndpointAccess :: "EndpointAccessSpec option"

(* src/internal/intent/cluster.go:338-377 ForgeSpec *)
record ForgeSpec =
  forge_Enabled :: bool
  forge_URL :: string
  forge_MCPURL :: string
  forge_Username :: string
  forge_Password :: string
  forge_CredentialTemplateID :: int
  forge_Environment :: string
  forge_ProjectType :: string
  forge_ProjectName :: string
  forge_AgentToken :: string
  forge_AgentTokenCamel :: string

(* src/internal/intent/cluster.go:573-581 FloSpec *)
record FloSpec =
  flo_Version :: string
  flo_Enabled :: "bool option"

(* src/internal/intent/cluster.go:635-643 LBControllerSpec *)
record LBControllerSpec =
  lb_EnabledFlag :: "bool option"
  lb_Version :: string

(* src/internal/intent/cluster.go:483-491 AddonsSpec *)
record AddonsSpec =
  ao_Flo :: "FloSpec option"
  ao_LBController :: "LBControllerSpec option"

(* src/internal/intent/cluster.go:503-512 JumphostSpec *)
record JumphostSpec =
  jh_Enabled :: bool
  jh_InstanceType :: string
  jh_MgmtSubnetIndex :: int

(* src/internal/intent/cluster.go:495-497 TestingSpec *)
record TestingSpec =
  ts_Jumphost :: "JumphostSpec option"

(* src/internal/intent/cluster.go:520-527 DemoSpec *)
record DemoSpec =
  demo_Enabled :: bool
  demo_TTL :: string

(* src/internal/intent/cluster.go:541-570 BigIPVESpec *)
record BigIPVESpec =
  ve_Enabled :: bool
  ve_InstanceType :: string
  ve_MgmtSubnetIndex :: int
  ve_VIP :: string
  ve_LicenseTier :: string
  ve_Version :: string

(* src/internal/intent/cluster.go:153-211 Cluster *)
record Cluster =
  cl_APIVersion :: string
  cl_Kind :: string
  cl_Metadata :: Metadata
  cl_Network :: Network
  cl_ClusterSpec :: "ClusterSpec option"
  cl_Pattern :: string
  cl_Forge :: "ForgeSpec option"
  cl_Bnk :: "BnkSpec option"
  cl_Addons :: "AddonsSpec option"
  cl_Tags :: "string \<rightharpoonup> string"
  cl_Testing :: "TestingSpec option"
  cl_Demo :: "DemoSpec option"
  cl_BigIPVE :: "BigIPVESpec option"
  cl_AI :: "AISpec option"
  cl_SourcePath :: string

subsection \<open>Shapes of names\<close>

(* src/internal/intent/cluster.go:26-26 instanceTypeRE *)
definition instanceTypeRE :: regex where
  "instanceTypeRE =
     [one is_lower, many1 (\<lambda>c. is_digit c \<or> is_lower c), one (\<lambda>c. c = CHR ''.''),
      many1 (\<lambda>c. is_lower c \<or> is_digit c)]"

definition name_char :: "char \<Rightarrow> bool" where
  "name_char c \<longleftrightarrow> is_lower c \<or> is_digit c"

text \<open>The two alternatives of \<open>nodeGroupNameRE\<close>.\<close>

(* src/internal/intent/cluster.go:145-145 nodeGroupNameRE *)
definition nodeGroupNameRE :: "regex list" where
  "nodeGroupNameRE =
     [[one name_char, many (\<lambda>c. name_char c \<or> c = CHR ''-''), one name_char], [one name_char]]"

(* src/internal/intent/cluster.go:149-149 clusterNameRE *)
definition clusterNameRE :: regex where
  "clusterNameRE =
     [one is_lower, Rep (\<lambda>c. name_char c \<or> c = CHR ''-'') 0 (Some 38), one name_char]"

subsection \<open>Forge resolution\<close>

text \<open>The three-step preference of the resolvers: environment, intent, default.\<close>

definition prefer_text :: "string \<Rightarrow> string \<Rightarrow> string \<Rightarrow> string" where
  "prefer_text v field dflt = (if v \<noteq> [] then v else if field \<noteq> [] then field else dflt)"

definition forge_field :: "(ForgeSpec \<Rightarrow> string) \<Rightarrow> ForgeSpec option \<Rightarrow> string" where
  "forge_field get f = (case f of None \<Rightarrow> [] | Some s \<Rightarrow> get s)"

type_synonym environment = "string \<Rightarrow> string"

(* src/internal/intent/cluster.go:380-380 DefaultForgeRESTURL *)
definition DefaultForgeRESTURL :: string where
  "DefaultForgeRESTURL = ''http://localhost:8000''"

(* src/internal/intent/cluster.go:386-394 ResolveURL *)
definition ResolveURL :: "environment \<Rightarrow> ForgeSpec option \<Rightarrow> string" where
  "ResolveURL env f = prefer_text (env ''AWSBNKCTL_FORGE_URL'') (forge_field forge_URL f) DefaultForgeRESTURL"

(* src/internal/intent/cluster.go:399-404 ResolveUsername *)
definition ResolveUsername :: "ForgeSpec option \<Rightarrow> string" where
  "ResolveUsername f = prefer_text [] (forge_field forge_Username f) ''admin''"

(* src/internal/intent/cluster.go:411-419 ResolvePassword *)
definition ResolvePassword :: "environment \<Rightarrow> ForgeSpec option \<Rightarrow> string \<times> bool" where
  "ResolvePassword env f =
     (if env ''AWSBNKCTL_FORGE_PASSWORD'' \<noteq> [] then (env ''AWSBNKCTL_FORGE_PASSWORD'', False)
      else if forge_field forge_Password f \<noteq> [] then (forge_field forge_Password f, False)
      else (''changeme'', True))"

(* src/internal/intent/cluster.go:427-440 ResolveAgentToken *)
definition ResolveAgentToken :: "environment \<Rightarrow> ForgeSpec option \<Rightarrow> string" where
  "ResolveAgentToken env f =
     prefer_text (env ''AWSBNKCTL_FORGE_AGENT_TOKEN'') (forge_field forge_AgentToken f)
       (forge_field forge_AgentTokenCamel f)"

(* src/internal/intent/cluster.go:446-454 ResolveEnvironment *)
definition ResolveEnvironment :: "environment \<Rightarrow> ForgeSpec option \<Rightarrow> string" where
  "ResolveEnvironment env f =
     prefer_text (env ''AWSBNKCTL_FORGE_ENVIRONMENT'') (forge_field forge_Environment f) ''dev''"

(* src/internal/intent/cluster.go:459-464 ResolveProjectType *)
definition ResolveProjectType :: "ForgeSpec option \<Rightarrow> string" where
  "ResolveProjectType f = prefer_text [] (forge_field forge_ProjectType f) ''cloud-aws''"

(* src/internal/intent/cluster.go:470-478 ResolveProjectName *)
definition ResolveProjectName :: "environment \<Rightarrow> ForgeSpec option \<Rightarrow> string \<Rightarrow> string" where
  "ResolveProjectName env f workspaceName =
     prefer_text (env ''AWSBNKCTL_FORGE_PROJECT'') (forge_field forge_ProjectName f)
       (''awsbnkctl-'' @ workspaceName)"

subsection \<open>Add-ons\<close>

(* src/internal/intent/cluster.go:586-594 FloEnabled *)
definition FloEnabled :: "FloSpec option \<Rightarrow> bool" where
  "FloEnabled f =
     (case f of None \<Rightarrow> True
      | Some s \<Rightarrow> (case flo_Enabled s of None \<Rightarrow> True | Some b \<Rightarrow> b))"

(* src/internal/intent/cluster.go:598-598 DefaultFLOVersion *)
definition DefaultFLOVersion :: string where
  "DefaultFLOVersion = DefaultFLOChart"

(* src/internal/intent/cluster.go:603-608 FloSpec.FLOVersion *)
definition FloSpec_FLOVersion :: "FloSpec option \<Rightarrow> string" where
  "FloSpec_FLOVersion f =
     (case f of None \<Rightarrow> DefaultFLOVersion
      | Some s \<Rightarrow> if flo_Version s = [] then DefaultFLOVersion else flo_Version s)"

text \<open>The pinned chart of \<open>addons.flo.version\<close>; \<open>[]\<close> when there is no pin.\<close>

definition flo_pin :: "Cluster \<Rightarrow> string" where
  "flo_pin c =
     (case Option.bind (cl_Addons c) ao_Flo of None \<Rightarrow> [] | Some f \<Rightarrow> flo_Version f)"

(* src/internal/intent/cluster.go:617-630 Cluster.FLOVersion *)
definition FLOVersion :: "Cluster option \<Rightarrow> string" where
  "FLOVersion oc =
     (case oc of None \<Rightarrow> DefaultFLOVersion
      | Some c \<Rightarrow>
          if flo_pin c \<noteq> [] then flo_pin c
          else (case cl_Bnk c of
              None \<Rightarrow> DefaultFLOVersion
            | Some b \<Rightarrow>
                if bnk_FLOVersion b \<noteq> [] then bnk_FLOVersion b
                else if bnk_ManifestVersion b \<noteq> [] then
                  (case FLOChartFor (bnk_ManifestVersion b) of
                     Some chart \<Rightarrow> chart | None \<Rightarrow> DefaultFLOVersion)
                else DefaultFLOVersion))"

(* src/internal/intent/cluster.go:648-648 DefaultLBControllerVersion *)
definition DefaultLBControllerVersion :: string where
  "DefaultLBControllerVersion = ''1.8.1''"

(* src/internal/intent/cluster.go:654-662 LBControllerSpec.Enabled *)
definition LB_Enabled :: "LBControllerSpec option \<Rightarrow> bool" where
  "LB_Enabled l =
     (case l of None \<Rightarrow> False
      | Some s \<Rightarrow> (case lb_EnabledFlag s of None \<Rightarrow> False | Some b \<Rightarrow> b))"

(* src/internal/intent/cluster.go:666-671 LBControllerVersion *)
definition LBControllerVersion :: "LBControllerSpec option \<Rightarrow> string" where
  "LBControllerVersion l =
     (case l of None \<Rightarrow> DefaultLBControllerVersion
      | Some s \<Rightarrow> if lb_Version s = [] then DefaultLBControllerVersion else lb_Version s)"

subsection \<open>Interface patterns\<close>

(* src/internal/intent/cluster.go:687-687 PatternExternalOnly *)
definition PatternExternalOnly :: string where
  "PatternExternalOnly = ''external-only''"

(* src/internal/intent/cluster.go:690-690 PatternDualInterface *)
definition PatternDualInterface :: string where
  "PatternDualInterface = ''dual-interface''"

(* src/internal/intent/cluster.go:694-694 PatternSRIOVExternal *)
definition PatternSRIOVExternal :: string where
  "PatternSRIOVExternal = ''sriov-external''"

(* src/internal/intent/cluster.go:698-698 PatternHostDevice *)
definition PatternHostDevice :: string where
  "PatternHostDevice = ''host-device''"

lemmas pattern_defs =
  PatternExternalOnly_def PatternDualInterface_def PatternSRIOVExternal_def PatternHostDevice_def

(* src/internal/intent/cluster.go:704-709 normalizePattern *)
definition normalizePattern :: "string \<Rightarrow> string" where
  "normalizePattern p = (if p = PatternHostDevice then PatternDualInterface else p)"

(* src/internal/intent/cluster.go:714-721 IsBNKPattern *)
definition IsBNKPattern :: "Cluster \<Rightarrow> bool" where
  "IsBNKPattern c \<longleftrightarrow>
     normalizePattern (cl_Pattern c) \<in> {PatternExternalOnly, PatternDualInterface, PatternSRIOVExternal}"

(* src/internal/intent/cluster.go:727-729 HasInternalInterface *)
definition HasInternalInterface :: "Cluster \<Rightarrow> bool" where
  "HasInternalInterface c \<longleftrightarrow> normalizePattern (cl_Pattern c) = PatternDualInterface"

(* src/internal/intent/cluster.go:734-743 DataplaneBinding *)
definition DataplaneBinding :: "Cluster \<Rightarrow> string" where
  "DataplaneBinding c =
     (let p = normalizePattern (cl_Pattern c)
      in if p \<in> {PatternExternalOnly, PatternDualInterface} then ''host-device''
         else if p = PatternSRIOVExternal then ''sriov''
         else [])"

(* src/internal/intent/cluster.go:747-752 IsBGPEnabled *)
definition IsBGPEnabled :: "Cluster option \<Rightarrow> bool" where
  "IsBGPEnabled oc =
     (case Option.bind oc cl_Bnk of None \<Rightarrow> False | Some b \<Rightarrow> bnk_BGP b \<or> bnk_DynamicRouting b)"

subsection \<open>Derived paths and addresses\<close>

(* src/internal/intent/cluster.go:757-759 StateDir *)
definition StateDir :: "Cluster \<Rightarrow> string" where
  "StateDir c = ''.awsbnkctl/'' @ md_Name (cl_Metadata c)"

(* src/internal/intent/cluster.go:762-762 DefaultVIPHostOffset *)
definition DefaultVIPHostOffset :: int where
  "DefaultVIPHostOffset = 100"

(* src/internal/intent/cluster.go:765-765 DefaultJumphostExtHostOffset *)
definition DefaultJumphostExtHostOffset :: int where
  "DefaultJumphostExtHostOffset = 200"

(* src/internal/intent/cluster.go:768-768 DefaultTMMSelfIPHostOffset *)
definition DefaultTMMSelfIPHostOffset :: int where
  "DefaultTMMSelfIPHostOffset = 240"

datatype address_error = CIDRNotSet | MalformedCIDR string | NonIPv4CIDR string

text \<open>The common body of \<open>DefaultVIP\<close> and \<open>DefaultJumphostExtIP\<close>, for a host part.\<close>

(* src/internal/intent/cluster.go:773-789 DefaultVIP part *)
definition host_on_external :: "string \<Rightarrow> Cluster \<Rightarrow> address_error + string" where
  "host_on_external host c =
     (case nw_DataPath (cl_Network c) of
        None \<Rightarrow> Inl CIDRNotSet
      | Some dp \<Rightarrow>
          let cidr = sn_CIDR (dp_External dp)
          in if cidr = [] then Inl CIDRNotSet
             else (case index_byte CHR ''/'' cidr of
                 None \<Rightarrow> Inl (MalformedCIDR cidr)
               | Some slash \<Rightarrow>
                   if slash = 0 then Inl (MalformedCIDR cidr)
                   else let parts = split_on CHR ''.'' (take slash cidr)
                     in if length parts \<noteq> 4 then Inl (NonIPv4CIDR cidr)
                        else Inr (join_with ''.'' (parts[3 := host]))))"

(* src/internal/intent/cluster.go:773-789 DefaultVIP *)
definition DefaultVIP :: "Cluster \<Rightarrow> address_error + string" where
  "DefaultVIP c = host_on_external ''100'' c"

(* src/internal/intent/cluster.go:794-810 DefaultJumphostExtIP *)
definition DefaultJumphostExtIP :: "Cluster \<Rightarrow> address_error + string" where
  "DefaultJumphostExtIP c = host_on_external ''200'' c"

(* src/internal/intent/cluster.go:813-815 IsReservedGatewayVIPOffset *)
definition IsReservedGatewayVIPOffset :: "int \<Rightarrow> bool" where
  "IsReservedGatewayVIPOffset offset \<longleftrightarrow> offset \<ge> 100 \<and> offset \<le> 119"

subsection \<open>Feature switches\<close>

(* src/internal/intent/sagemaker.go:175-177 SageMakerEnabled *)
definition SageMakerEnabled :: "Cluster \<Rightarrow> bool" where
  "SageMakerEnabled c =
     (case Option.bind (cl_AI c) ai_SageMaker of None \<Rightarrow> False | Some s \<Rightarrow> sm_Enabled s)"

(* src/internal/intent/sagemaker.go:247-249 SyntheticAIEnabled *)
definition SyntheticAIEnabled :: "Cluster \<Rightarrow> bool" where
  "SyntheticAIEnabled c =
     (case Option.bind (cl_AI c) ai_Synthetic of None \<Rightarrow> False | Some s \<Rightarrow> syn_Enabled s)"

definition nodeGroups :: "Cluster \<Rightarrow> NodeGroupSpec list" where
  "nodeGroups c = (case cl_ClusterSpec c of None \<Rightarrow> [] | Some s \<Rightarrow> cs_NodeGroups s)"

(* src/internal/intent/sagemaker.go:253-269 UsesSyntheticAI *)
definition UsesSyntheticAI :: "Cluster option \<Rightarrow> bool" where
  "UsesSyntheticAI oc =
     (case oc of None \<Rightarrow> False
      | Some c \<Rightarrow>
          if SyntheticAIEnabled c then True
          else if nodeGroups c = [] then False
          else list_all (\<lambda>ng. \<not> IsGPU ng) (nodeGroups c))"

(* src/internal/intent/sagemaker.go:283-290 ResolvedSynthetic *)
definition ResolvedSynthetic :: "Cluster option \<Rightarrow> SyntheticSpec" where
  "ResolvedSynthetic oc =
     applySyntheticDefaults
       (case Option.bind (Option.bind oc cl_AI) ai_Synthetic of
          None \<Rightarrow> zero_synthetic | Some s \<Rightarrow> s)"

(* src/internal/intent/sagemaker.go:273-279 SimulatorTags *)
definition SimulatorTags :: "Cluster option \<Rightarrow> string \<rightharpoonup> string" where
  "SimulatorTags oc =
     (if \<not> UsesSyntheticAI oc then Map.empty
      else let s = ResolvedSynthetic oc
        in [''model_server'' \<mapsto> ''llm-d-inference-sim'', ''sim_profile'' \<mapsto> syn_Profile s,
            ''sim_model'' \<mapsto> syn_Model s])"

(* src/internal/intent/cluster.go:1651-1651 DefaultDemoTTL *)
definition DefaultDemoTTL :: string where
  "DefaultDemoTTL = ''24h''"

(* src/internal/intent/cluster.go:1655-1657 DemoEnabled *)
definition DemoEnabled :: "Cluster \<Rightarrow> bool" where
  "DemoEnabled c = (case cl_Demo c of None \<Rightarrow> False | Some d \<Rightarrow> demo_Enabled d)"

(* src/internal/intent/cluster.go:1661-1663 BigIPVEEnabled *)
definition BigIPVEEnabled :: "Cluster \<Rightarrow> bool" where
  "BigIPVEEnabled c = (case cl_BigIPVE c of None \<Rightarrow> False | Some v \<Rightarrow> ve_Enabled v)"

(* src/internal/intent/cluster.go:1667-1677 HasGPUNodeGroup *)
definition HasGPUNodeGroup :: "Cluster \<Rightarrow> bool" where
  "HasGPUNodeGroup c = list_ex IsGPU (nodeGroups c)"

(* src/internal/intent/cluster.go:1799-1807 EnableDemo *)
definition EnableDemo :: "Cluster \<Rightarrow> Cluster" where
  "EnableDemo c =
     (let d = (case cl_Demo c of None \<Rightarrow> \<lparr>demo_Enabled = False, demo_TTL = []\<rparr> | Some d \<Rightarrow> d)
      in c\<lparr>cl_Demo := Some (d\<lparr>demo_Enabled := True,
             demo_TTL := (if demo_TTL d = [] then DefaultDemoTTL else demo_TTL d)\<rparr>)\<rparr>)"

text \<open>\<open>expiry\<close> is the RFC 3339 text of the time, which \<open>time.Format\<close> produces.\<close>

(* src/internal/intent/cluster.go:1820-1826 SetDemoTags *)
definition SetDemoTags :: "string \<Rightarrow> Cluster \<Rightarrow> Cluster" where
  "SetDemoTags expiry c =
     c\<lparr>cl_Tags := (cl_Tags c)(''awsbnkctl:demo'' \<mapsto> ''true'', ''awsbnkctl:demo-expiry'' \<mapsto> expiry)\<rparr>"

text \<open>The jumphost is the precondition of every demo.\<close>

definition jumphost_enabled :: "Cluster \<Rightarrow> bool" where
  "jumphost_enabled c =
     (case Option.bind (cl_Testing c) ts_Jumphost of None \<Rightarrow> False | Some jh \<Rightarrow> jh_Enabled jh)"

subsection \<open>Facts\<close>

lemma normalizePattern_idem [simp]: "normalizePattern (normalizePattern p) = normalizePattern p"
  by (simp add: normalizePattern_def pattern_defs)

lemma HasInternalInterface_BNK: "HasInternalInterface c \<Longrightarrow> IsBNKPattern c"
  by (simp add: HasInternalInterface_def IsBNKPattern_def)

lemma DataplaneBinding_BNK: "IsBNKPattern c \<longleftrightarrow> DataplaneBinding c \<noteq> []"
  by (simp add: IsBNKPattern_def DataplaneBinding_def Let_def)

interpretation demo_on: defaulting EnableDemo
  by unfold_locales (simp add: EnableDemo_def Let_def DefaultDemoTTL_def)

lemma FloSpec_FLOVersion_pin:
  "flo_Version f \<noteq> [] \<Longrightarrow> FloSpec_FLOVersion (Some f) = flo_Version f"
  by (simp add: FloSpec_FLOVersion_def)

end
