(* ===== verification/GoNet.thy ===== *)
theory GoNet
  imports GoStrings
begin

text \<open>
  The parts of Go's \<open>net\<close> package the program uses: \<open>net.ParseIP\<close>, \<open>IP.To4\<close>,
  \<open>IP.String\<close> on IPv4 addresses, \<open>net.ParseCIDR\<close>, \<open>IPMask.Size\<close>, \<open>IPNet.Contains\<close> and
  \<open>IP.Equal\<close>. An address is its list of bytes (16, or 4 after \<open>To4\<close>), a byte is an
  \<open>8 word\<close>, and \<open>nil\<close> is \<open>None\<close>. IPv6 input is parsed in full, because an IPv4-mapped
  IPv6 text such as \<open>::ffff:10.0.0.1\<close> passes the code's \<open>To4\<close> tests.
\<close>

type_synonym octet = "8 word"
type_synonym ip = "octet list"

subsection \<open>Parsing addresses\<close>

definition parse_octet :: "string \<Rightarrow> octet option" where
  "parse_octet s =
     (if s \<noteq> [] \<and> list_all is_digit s \<and> (length s > 1 \<longrightarrow> hd s \<noteq> CHR ''0'') \<and> digits_val 0 s \<le> 255
      then Some (of_nat (digits_val 0 s)) else None)"

definition parse_ipv4 :: "string \<Rightarrow> ip option" where
  "parse_ipv4 s =
     (case map parse_octet (split_on CHR ''.'' s) of
        [Some a, Some b, Some c, Some d] \<Rightarrow> Some [a, b, c, d]
      | _ \<Rightarrow> None)"

definition is_hex :: "char \<Rightarrow> bool" where
  "is_hex c \<longleftrightarrow> is_digit c \<or> (CHR ''a'' \<le> c \<and> c \<le> CHR ''f'') \<or> (CHR ''A'' \<le> c \<and> c \<le> CHR ''F'')"

definition hex_digit :: "char \<Rightarrow> nat" where
  "hex_digit c =
     (if is_digit c then of_char c - 48
      else if CHR ''a'' \<le> c \<and> c \<le> CHR ''f'' then of_char c - 87
      else of_char c - 55)"

definition hex_val :: "string \<Rightarrow> nat" where
  "hex_val = foldl (\<lambda>acc c. 16 * acc + hex_digit c) 0"

text \<open>The main loop: \<open>acc\<close> the bytes written, \<open>ell\<close> the position of \<open>::\<close>, \<open>s\<close> the rest.\<close>

function v6_loop :: "ip \<Rightarrow> nat option \<Rightarrow> string \<Rightarrow> (ip \<times> nat option) option" where
  "v6_loop acc ell s =
     (if length acc \<ge> 16 then (if s = [] then Some (acc, ell) else None)
      else
        let h = takeWhile is_hex s; r = dropWhile is_hex s;
            acc' = acc @ [of_nat (hex_val h div 256), of_nat (hex_val h mod 256)]
        in if h = [] \<or> length h > 4 then None
           else (case r of
               [] \<Rightarrow> Some (acc', ell)
             | c # r' \<Rightarrow>
                 if c = CHR ''.'' then
                   (if ell = None \<and> length acc \<noteq> 12 then None
                    else if length acc + 4 > 16 then None
                    else map_option (\<lambda>q. (acc @ q, ell)) (parse_ipv4 s))
                 else if c \<noteq> CHR '':'' then None
                 else (case r' of
                     [] \<Rightarrow> None
                   | d # r'' \<Rightarrow>
                       if d = CHR '':'' then
                         (if ell \<noteq> None then None
                          else if r'' = [] then Some (acc', Some (length acc'))
                          else v6_loop acc' (Some (length acc')) r'')
                       else v6_loop acc' ell r')))"
  by pat_completeness auto
termination
  by (relation "measure (\<lambda>(acc, ell, s). 16 - length acc)") auto

declare v6_loop.simps [simp del]

definition v6_finish :: "ip \<times> nat option \<Rightarrow> ip option" where
  "v6_finish r =
     (case r of (acc, ell) \<Rightarrow>
        if length acc < 16 then
          (case ell of
             None \<Rightarrow> None
           | Some e \<Rightarrow> Some (take e acc @ replicate (16 - length acc) 0 @ drop e acc))
        else if ell \<noteq> None then None else Some acc)"

definition parse_ipv6 :: "string \<Rightarrow> ip option" where
  "parse_ipv6 s =
     (if CHR ''%'' \<in> set s then None
      else if has_prefix s ''::'' then
        (if length s = 2 then Some (replicate 16 0)
         else Option.bind (v6_loop [] (Some 0) (drop 2 s)) v6_finish)
      else Option.bind (v6_loop [] None s) v6_finish)"

text \<open>\<open>netip.ParseAddr\<close> without a zone: the first of \<open>.\<close>, \<open>:\<close>, \<open>%\<close> decides the family.\<close>

datatype addr = V4 ip | V6 ip

definition parse_addr :: "string \<Rightarrow> addr option" where
  "parse_addr s =
     (case find (\<lambda>c. c = CHR ''.'' \<or> c = CHR '':'' \<or> c = CHR ''%'') s of
        None \<Rightarrow> None
      | Some c \<Rightarrow>
          if c = CHR ''.'' then map_option V4 (parse_ipv4 s)
          else if c = CHR '':'' then map_option V6 (parse_ipv6 s)
          else None)"

definition v4_in_v6_prefix :: ip where
  "v4_in_v6_prefix = [0, 0, 0, 0, 0, 0, 0, 0, 0, 0, 255, 255]"

fun as16 :: "addr \<Rightarrow> ip" where
  "as16 (V4 b) = v4_in_v6_prefix @ b"
| "as16 (V6 b) = b"

definition parse_ip :: "string \<Rightarrow> ip option" where
  "parse_ip s = map_option as16 (parse_addr s)"

definition to4 :: "ip \<Rightarrow> ip option" where
  "to4 b = (if length b = 4 then Some b
            else if length b = 16 \<and> take 12 b = v4_in_v6_prefix then Some (drop 12 b)
            else None)"

text \<open>\<open>net.ParseIP(s).To4()\<close>: \<open>To4\<close> of a nil address is nil.\<close>

definition parse_ip4 :: "string \<Rightarrow> ip option" where
  "parse_ip4 s = Option.bind (parse_ip s) to4"

subsection \<open>Printing IPv4 addresses\<close>

definition octet_string :: "octet \<Rightarrow> string" where
  "octet_string b = dec_nat (unat b)"

definition ipv4_string :: "ip \<Rightarrow> string" where
  "ipv4_string b = join_with ''.'' (map octet_string b)"

text \<open>\<open>net.IPv4(a, b, c, d).String()\<close>.\<close>

definition ipv4_text :: "octet \<Rightarrow> octet \<Rightarrow> octet \<Rightarrow> octet \<Rightarrow> string" where
  "ipv4_text a b c d = ipv4_string [a, b, c, d]"

text \<open>\<open>IP.Equal\<close>: an IPv4 address equals its IPv4-mapped form.\<close>

definition ip_equal :: "ip \<Rightarrow> ip \<Rightarrow> bool" where
  "ip_equal x y \<longleftrightarrow>
     (if length x = length y then x = y
      else if length x = 4 \<and> length y = 16 then v4_in_v6_prefix @ x = y
      else if length x = 16 \<and> length y = 4 then x = v4_in_v6_prefix @ y
      else False)"

subsection \<open>CIDR blocks\<close>

record ipnet =
  net_ip :: ip
  net_ones :: nat
  net_bits :: nat

definition mask_byte :: "nat \<Rightarrow> nat \<Rightarrow> octet" where
  "mask_byte ones k = NOT (drop_bit (min 8 (ones - 8 * k)) 255)"

definition cidr_mask :: "nat \<Rightarrow> nat \<Rightarrow> ip" where
  "cidr_mask ones bits = map (mask_byte ones) [0..<bits div 8]"

definition mask_ip :: "ip \<Rightarrow> ip \<Rightarrow> ip" where
  "mask_ip b m = map2 (AND) b m"

text \<open>\<open>dtoi\<close>: a run of digits whose value stays below \<open>0xFFFFFF\<close>, and nothing after it.\<close>

definition dtoi :: "string \<Rightarrow> nat option" where
  "dtoi s = (if s \<noteq> [] \<and> list_all is_digit s \<and> int (digits_val 0 s) < 16777215
             then Some (digits_val 0 s) else None)"

definition parse_cidr :: "string \<Rightarrow> (ip \<times> ipnet) option" where
  "parse_cidr s =
     (case cut_at CHR ''/'' s of
        None \<Rightarrow> None
      | Some (a, m) \<Rightarrow>
          (case (parse_addr a, dtoi m) of
             (Some (V4 b), Some n) \<Rightarrow>
               if n \<le> 32 then
                 Some (as16 (V4 b),
                   \<lparr>net_ip = mask_ip b (cidr_mask n 32), net_ones = n, net_bits = 32\<rparr>)
               else None
           | (Some (V6 b), Some n) \<Rightarrow>
               if n \<le> 128 then
                 Some (b, \<lparr>net_ip = mask_ip b (cidr_mask n 128), net_ones = n, net_bits = 128\<rparr>)
               else None
           | _ \<Rightarrow> None))"

definition net_contains :: "ipnet \<Rightarrow> ip \<Rightarrow> bool" where
  "net_contains n b =
     (let m = cidr_mask (net_ones n) (net_bits n);
          (nn, m') = (case to4 (net_ip n) of
              None \<Rightarrow> (net_ip n, m)
            | Some x \<Rightarrow> (x, if length m = 16 then drop 12 m else m));
          b' = (case to4 b of None \<Rightarrow> b | Some x \<Rightarrow> x)
      in length b' = length nn \<and> length m' = length nn \<and> mask_ip nn m' = mask_ip b' m')"

subsection \<open>Facts\<close>

lemma unat_octet_le: "unat (b :: octet) \<le> 255"
  using unsigned_less [of b, where 'a = nat] by simp

lemma octet_string_no_dot: "CHR ''.'' \<notin> set (octet_string b)"
  using dec_nat_is_digit [of "CHR ''.''" "unat b"] by (auto simp: octet_string_def is_digit_code)

lemma dec_nat_two: "length (dec_nat n) > 1 \<longleftrightarrow> 10 \<le> n"
  by (subst dec_nat.simps) (cases "dec_nat (n div 10)", auto)

lemma digit_char_zero: "d < 10 \<Longrightarrow> digit_char d = CHR ''0'' \<longleftrightarrow> d = 0"
proof -
  assume d: "d < 10"
  show ?thesis
  proof
    assume "digit_char d = CHR ''0''"
    then have "(of_char (digit_char d) :: nat) = 48" by simp
    with d show "d = 0" by (simp add: of_char_digit_char)
  next
    assume "d = 0"
    moreover have "digit_char 0 = CHR ''0''" by code_simp
    ultimately show "digit_char d = CHR ''0''" by simp
  qed
qed

lemma hd_dec_nat: "0 < n \<Longrightarrow> hd (dec_nat n) \<noteq> CHR ''0''"
proof (induction n rule: dec_nat.induct)
  case (1 n)
  show ?case
  proof (cases "n < 10")
    case True
    with 1 show ?thesis by (subst dec_nat.simps) (simp add: digit_char_zero)
  next
    case False
    with 1 have "hd (dec_nat (n div 10)) \<noteq> CHR ''0''" by simp
    with False show ?thesis by (subst dec_nat.simps) simp
  qed
qed

lemma parse_octet_string [simp]: "parse_octet (octet_string b) = Some b"
proof -
  have "length (dec_nat (unat b)) > 1 \<longrightarrow> hd (dec_nat (unat b)) \<noteq> CHR ''0''"
    using hd_dec_nat [of "unat b"] dec_nat_two [of "unat b"] by auto
  then show ?thesis
    by (simp add: parse_octet_def octet_string_def dec_nat_digits unat_octet_le)
qed

lemma split_ipv4_string:
  "bs \<noteq> [] \<Longrightarrow> split_on CHR ''.'' (ipv4_string bs) = map octet_string bs"
  using split_join [of "map octet_string bs" "CHR ''.''"] octet_string_no_dot
  by (auto simp: ipv4_string_def)

lemma parse_ipv4_string: "length bs = 4 \<Longrightarrow> parse_ipv4 (ipv4_string bs) = Some bs"
proof -
  assume "length bs = 4"
  then obtain a b c d where bs: "bs = [a, b, c, d]"
    by (auto simp: length_Suc_conv numeral_eq_Suc)
  have "split_on CHR ''.'' (ipv4_string bs) = map octet_string bs"
    by (rule split_ipv4_string) (simp add: bs)
  then show ?thesis by (simp add: parse_ipv4_def bs)
qed

lemma set_join_with: "set (join_with sep xs) \<subseteq> set sep \<union> \<Union> (set (map set xs))"
  by (induction sep xs rule: join_with.induct) auto

lemma ipv4_string_chars: "c \<in> set (ipv4_string bs) \<Longrightarrow> is_digit c \<or> c = CHR ''.''"
  using set_join_with [of "''.''" "map octet_string bs"] dec_nat_is_digit
  by (fastforce simp: ipv4_string_def octet_string_def)

lemma parse_addr_ipv4_string:
  assumes "length bs = 4"
  shows "parse_addr (ipv4_string bs) = Some (V4 bs)"
proof -
  obtain a b c d where bs: "bs = [a, b, c, d]"
    using assms by (auto simp: length_Suc_conv numeral_eq_Suc)
  let ?P = "\<lambda>c. c = CHR ''.'' \<or> c = CHR '':'' \<or> c = CHR ''%''"
  have "find ?P (ipv4_string bs) = Some (CHR ''.'')"
  proof (cases "find ?P (ipv4_string bs)")
    case None
    moreover have "CHR ''.'' \<in> set (ipv4_string bs)" by (simp add: ipv4_string_def bs)
    ultimately show ?thesis by (auto simp: find_None_iff)
  next
    case (Some c)
    then have "c \<in> set (ipv4_string bs)" "?P c" by (auto dest: find_Some_in)
    then have "c = CHR ''.''" using ipv4_string_chars [of c bs] by (auto simp: is_digit_code)
    with Some show ?thesis by simp
  qed
  with assms show ?thesis by (simp add: parse_addr_def parse_ipv4_string)
qed

text \<open>Printing then parsing an IPv4 address gives it back.\<close>

lemma parse_ip4_string: "length bs = 4 \<Longrightarrow> parse_ip4 (ipv4_string bs) = Some bs"
  by (simp add: parse_ip4_def parse_ip_def parse_addr_ipv4_string to4_def v4_in_v6_prefix_def)

lemma ipv4_string_inj:
  "length xs = 4 \<Longrightarrow> length ys = 4 \<Longrightarrow> ipv4_string xs = ipv4_string ys \<longleftrightarrow> xs = ys"
  by (metis option.inject parse_ipv4_string)

lemma to4_length: "to4 b = Some x \<Longrightarrow> length x = 4"
  by (auto simp: to4_def split: if_splits)

lemma parse_ip4_length: "parse_ip4 s = Some x \<Longrightarrow> length x = 4"
  by (auto simp: parse_ip4_def dest: to4_length split: bind_splits)

lemma length4_cases:
  assumes "length b = 4"
  obtains w x y z where "b = [w, x, y, z]"
  using assms by (auto simp: length_Suc_conv numeral_eq_Suc)

lemma parse_ipv4_length: "parse_ipv4 s = Some b \<Longrightarrow> length b = 4"
  by (auto simp: parse_ipv4_def split: list.splits option.splits)

subsubsection \<open>Masks\<close>

lemma cidr_mask_24 [simp]: "cidr_mask 24 32 = [255, 255, 255, 0]"
  by (simp add: cidr_mask_def mask_byte_def upt_rec)

lemma octet_and_255 [simp]: "(b :: octet) AND 255 = b"
proof -
  have "(255 :: octet) = -1" by simp
  then show ?thesis by (simp only: and.right_neutral)
qed

lemma mask_ip_24: "mask_ip [w, x, y, z] (cidr_mask 24 32) = [w, x, y, 0]"
  by (simp add: mask_ip_def)

text \<open>A \<open>/24\<close> IPv4 block is its first three bytes.\<close>

lemma parse_cidr_24:
  assumes "parse_cidr s = Some (a, n)" "net_bits n = 32" "net_ones n = 24"
  obtains w x y z where "net_ip n = [w, x, y, 0]" "a = v4_in_v6_prefix @ [w, x, y, z]"
proof -
  from assms obtain t m b where s: "cut_at CHR ''/'' s = Some (t, m)"
    and t: "parse_addr t = Some (V4 b)" and m: "dtoi m = Some 24"
    and n: "net_ip n = mask_ip b (cidr_mask 24 32)" and a: "a = v4_in_v6_prefix @ b"
    by (auto simp: parse_cidr_def split: option.splits addr.splits if_splits prod.splits)
  from t have "length b = 4"
    by (auto simp: parse_addr_def split: option.splits if_splits dest: parse_ipv4_length)
  then obtain w x y z where "b = [w, x, y, z]" by (rule length4_cases)
  with n a show ?thesis by (intro that [of w x y z]) (simp_all add: mask_ip_def)
qed

lemma net_contains_24:
  assumes "net_ip n = [w, x, y, 0]" "net_ones n = 24" "net_bits n = 32" "to4 b = Some [p, q, r, h]"
  shows "net_contains n b \<longleftrightarrow> p = w \<and> q = x \<and> r = y"
  using assms by (auto simp: net_contains_def to4_def [of "[_, _, _, _]"] mask_ip_def)

end
