(* ===== verification/IntentDefaults.thy ===== *)
theory IntentDefaults
  imports IntentTypes GoNet
begin

text \<open>
  \<open>applyDefaults\<close> of \<open>internal/intent/cluster.go\<close>, block by block in the order of the
  code, with the self-IP arithmetic it uses. Each block is the function it applies to the
  part of the intent it changes. \<open>applyDefaults_idem\<close>: a second pass changes nothing.
\<close>

subsection \<open>Self-IP arithmetic\<close>

(* src/internal/intent/cluster.go:1157-1157 SelfIPPoolPrefix *)
definition SelfIPPoolPrefix :: nat where
  "SelfIPPoolPrefix = 27"

(* src/internal/intent/cluster.go:1160-1160 selfIPPoolMask *)
definition selfIPPoolMask :: octet where
  "selfIPPoolMask = of_int (push_bit (32 - SelfIPPoolPrefix) 1 - 1)"

(* src/internal/intent/cluster.go:1166-1178 SelfIPPoolRange *)
definition SelfIPPoolRange :: "string \<Rightarrow> pool_error + (string \<times> string)" where
  "SelfIPPoolRange selfIP =
     (case parse_ip4 selfIP of
        None \<Rightarrow> Inl (NotIPv4 selfIP)
      | Some ip \<Rightarrow>
          let first = ip ! 3 AND NOT selfIPPoolMask
          in if first = 0 then Inl (ReservedBlock selfIP)
             else Inr (ipv4_text (ip ! 0) (ip ! 1) (ip ! 2) first,
                       ipv4_text (ip ! 0) (ip ! 1) (ip ! 2) (first + selfIPPoolMask - 1)))"

(* src/internal/intent/cluster.go:1183-1194 DeriveSelfIP *)
definition DeriveSelfIP :: "string \<Rightarrow> int \<Rightarrow> string \<times> int" where
  "DeriveSelfIP cidr hostOffset =
     (case parse_cidr cidr of
        None \<Rightarrow> ([], 0)
      | Some (_, n) \<Rightarrow>
          let prefix = int (net_ones n)
          in (case to4 (net_ip n) of
                None \<Rightarrow> ([], prefix)
              | Some base \<Rightarrow>
                  if prefix \<noteq> 24 \<or> hostOffset < 1 \<or> hostOffset > 254 then ([], prefix)
                  else (ipv4_text (base ! 0) (base ! 1) (base ! 2) (of_int hostOffset), prefix)))"

subsection \<open>Availability zones\<close>

definition needs_az :: "string \<Rightarrow> bool" where
  "needs_az az \<longleftrightarrow> az = [] \<or> az = ''auto''"

text \<open>
  \<open>allSubnetAZsEmptyOrAuto\<close> walks the subnets, then the data-path subnets with a CIDR:
  true when there is at least one and each leaves its zone open.
\<close>

definition declared_subnets :: "Network \<Rightarrow> SubnetSpec list" where
  "declared_subnets nw =
     sns_Public (nw_Subnets nw) @ sns_Private (nw_Subnets nw) @
     (case nw_DataPath nw of None \<Rightarrow> []
      | Some dp \<Rightarrow> filter (\<lambda>s. sn_CIDR s \<noteq> []) [dp_External dp, dp_Internal dp])"

(* src/internal/intent/cluster.go:883-912 allSubnetAZsEmptyOrAuto *)
definition allSubnetAZsEmptyOrAuto :: "Network \<Rightarrow> bool" where
  "allSubnetAZsEmptyOrAuto nw \<longleftrightarrow>
     declared_subnets nw \<noteq> [] \<and> list_all (\<lambda>s. needs_az (sn_AZ s)) (declared_subnets nw)"

(* src/internal/intent/cluster.go:922-924 applyDefaults part *)
definition default_azs :: "string \<Rightarrow> Network \<Rightarrow> Network" where
  "default_azs region nw =
     (if nw_AZs nw = [] \<and> region \<noteq> [] \<and> allSubnetAZsEmptyOrAuto nw
      then nw\<lparr>nw_AZs := [region @ ''a'', region @ ''b'']\<rparr> else nw)"

definition set_az :: "string \<Rightarrow> SubnetSpec \<Rightarrow> SubnetSpec" where
  "set_az az s = (if needs_az (sn_AZ s) then s\<lparr>sn_AZ := az\<rparr> else s)"

definition set_dp_az :: "string \<Rightarrow> SubnetSpec \<Rightarrow> SubnetSpec" where
  "set_dp_az az s = (if sn_CIDR s \<noteq> [] then set_az az s else s)"

definition round_robin :: "string list \<Rightarrow> SubnetSpec list \<Rightarrow> SubnetSpec list" where
  "round_robin azs subs = map_index (\<lambda>i s. set_az (azs ! (i mod length azs)) s) subs"

(* src/internal/intent/cluster.go:925-944 applyDefaults part *)
definition default_subnet_azs :: "Network \<Rightarrow> Network" where
  "default_subnet_azs nw =
     (if nw_AZs nw \<noteq> [] then
        nw\<lparr>nw_Subnets := (nw_Subnets nw)
              \<lparr>sns_Public := round_robin (nw_AZs nw) (sns_Public (nw_Subnets nw)),
               sns_Private := round_robin (nw_AZs nw) (sns_Private (nw_Subnets nw))\<rparr>,
           nw_DataPath := map_option (\<lambda>dp.
             dp\<lparr>dp_External := set_dp_az (nw_AZs nw ! 0) (dp_External dp),
                dp_Internal := set_dp_az (nw_AZs nw ! 0) (dp_Internal dp)\<rparr>) (nw_DataPath nw)\<rparr>
      else nw)"

subsection \<open>Node groups\<close>

(* src/internal/intent/cluster.go:1439-1439 DefaultKubernetesVersion *)
definition DefaultKubernetesVersion :: string where
  "DefaultKubernetesVersion = ''1.35''"

text \<open>\<open>bnk\<close> is \<open>c.IsBNKPattern()\<close>, which the loop asks for each group.\<close>

(* src/internal/intent/cluster.go:950-998 applyDefaults part *)
definition default_nodegroup :: "bool \<Rightarrow> NodeGroupSpec \<Rightarrow> NodeGroupSpec" where
  "default_nodegroup bnk ng =
     ng\<lparr>ng_InstanceType :=
          (if ng_InstanceType ng = [] then
             (if IsGPU ng then ''g5.2xlarge'' else if bnk then ''m6i.4xlarge'' else ''t3.medium'')
           else ng_InstanceType ng),
        ng_DesiredSize :=
          (if ng_DesiredSize ng = 0 then (if \<not> IsGPU ng \<and> bnk then 3 else 1) else ng_DesiredSize ng),
        ng_MinSize := (if ng_MinSize ng = 0 then (if \<not> IsGPU ng \<and> bnk then 3 else 1) else ng_MinSize ng),
        ng_MaxSize := (if ng_MaxSize ng = 0 then (if \<not> IsGPU ng \<and> bnk then 4 else 2) else ng_MaxSize ng),
        ng_DiskSize := (if ng_DiskSize ng = 0 then 50 else ng_DiskSize ng),
        ng_CapacityType := (if ng_CapacityType ng = [] then ''on-demand'' else ng_CapacityType ng)\<rparr>"

(* src/internal/intent/cluster.go:1006-1032 applyDefaults part *)
definition bnk_first_group :: "NodeGroupSpec \<Rightarrow> NodeGroupSpec" where
  "bnk_first_group ng =
     (let desired = (if ng_DesiredSize ng = 1 then 3 else ng_DesiredSize ng)
      in ng\<lparr>ng_Labels := (if ng_Labels ng ''role'' = None then (ng_Labels ng)(''role'' \<mapsto> ''bnk'')
                          else ng_Labels ng),
            ng_DesiredSize := desired,
            ng_MinSize := (if ng_MinSize ng = 1 then 3 else ng_MinSize ng),
            ng_MaxSize := (if ng_MaxSize ng < desired then desired else ng_MaxSize ng)\<rparr>)"

(* src/internal/intent/cluster.go:946-1033 applyDefaults part *)
definition default_cluster_spec :: "bool \<Rightarrow> ClusterSpec \<Rightarrow> ClusterSpec" where
  "default_cluster_spec bnk cs =
     cs\<lparr>cs_KubernetesVersion :=
          (if cs_KubernetesVersion cs = [] then DefaultKubernetesVersion else cs_KubernetesVersion cs),
        cs_NodeGroups :=
          (case map (default_nodegroup bnk) (cs_NodeGroups cs) of
             [] \<Rightarrow> []
           | ng # ngs \<Rightarrow> (if bnk \<and> \<not> IsGPU ng then bnk_first_group ng else ng) # ngs)\<rparr>"

subsection \<open>The remaining blocks\<close>

definition or_text :: "string \<Rightarrow> string \<Rightarrow> string" where
  "or_text d x = (if x = [] then d else x)"

(* src/internal/intent/cluster.go:881-881 EmbeddedCertManagerVersion *)
definition EmbeddedCertManagerVersion :: string where
  "EmbeddedCertManagerVersion = ''1.21.1''"

(* src/internal/intent/cluster.go:1034-1075 applyDefaults part *)
definition default_bnk :: "BnkSpec \<Rightarrow> BnkSpec" where
  "default_bnk b =
     b\<lparr>bnk_CertManagerVersion := or_text EmbeddedCertManagerVersion (bnk_CertManagerVersion b),
       bnk_RegistryHost := or_text FARRegistryHost (bnk_RegistryHost b),
       bnk_DeploymentSize := or_text ''Small'' (bnk_DeploymentSize b),
       bnk_StorageClassName := or_text ''gp2'' (bnk_StorageClassName b),
       bnk_ManifestVersion := or_text DefaultManifestVersion (bnk_ManifestVersion b),
       bnk_TmmMtu := (if bnk_TmmMtu b = 0 then 9000 else bnk_TmmMtu b),
       bnk_TmmCpu := or_text ''2'' (bnk_TmmCpu b),
       bnk_TmmMemory := or_text ''8Gi'' (bnk_TmmMemory b),
       bnk_TmmHugepages := or_text ''4Gi'' (bnk_TmmHugepages b),
       bnk_PalCpuSet := or_text ''0,2'' (bnk_PalCpuSet b)\<rparr>"

(* src/internal/intent/cluster.go:1078-1084 applyDefaults part *)
definition default_testing :: "TestingSpec \<Rightarrow> TestingSpec" where
  "default_testing t =
     t\<lparr>ts_Jumphost := map_option
         (\<lambda>jh. jh\<lparr>jh_InstanceType := or_text ''t3.small'' (jh_InstanceType jh)\<rparr>) (ts_Jumphost t)\<rparr>"

(* src/internal/intent/cluster.go:1087-1089 applyDefaults part *)
definition default_demo :: "DemoSpec \<Rightarrow> DemoSpec" where
  "default_demo d =
     (if demo_Enabled d \<and> demo_TTL d = [] then d\<lparr>demo_TTL := DefaultDemoTTL\<rparr> else d)"

(* src/internal/intent/cluster.go:1092-1104 applyDefaults part *)
definition default_bigip :: "BigIPVESpec \<Rightarrow> BigIPVESpec" where
  "default_bigip v =
     (if ve_Enabled v then
        v\<lparr>ve_InstanceType := or_text ''c5n.2xlarge'' (ve_InstanceType v),
          ve_VIP := or_text ''10.0.10.120'' (ve_VIP v),
          ve_LicenseTier := or_text ''Good'' (ve_LicenseTier v)\<rparr>
      else v)"

(* src/internal/intent/cluster.go:1107-1114 applyDefaults part *)
definition default_ai :: "AISpec \<Rightarrow> AISpec" where
  "default_ai a =
     a\<lparr>ai_SageMaker := map_option applySageMakerDefaults (ai_SageMaker a),
       ai_Synthetic := map_option applySyntheticDefaults (ai_Synthetic a)\<rparr>"

text \<open>One derivation of a missing self IP: the field and the prefix length it sets.\<close>

definition derive_sip :: "string \<Rightarrow> string \<times> int \<Rightarrow> string \<times> int" where
  "derive_sip cidr fp =
     (case fp of (field, plen) \<Rightarrow>
        if field \<noteq> [] then fp
        else (case DeriveSelfIP cidr 240 of (ip, p) \<Rightarrow>
            if ip = [] then fp else (ip, if plen = 0 then p else plen)))"

definition zero_selfips :: SelfIPsSpec where
  "zero_selfips = \<lparr>sip_External = [], sip_Internal = [], sip_PrefixLen = 0\<rparr>"

(* src/internal/intent/cluster.go:1122-1146 applyDefaults part *)
definition default_selfips :: "bool \<Rightarrow> DataPathSpec \<Rightarrow> DataPathSpec" where
  "default_selfips internal dp =
     (let sip = (case dp_SelfIPs dp of None \<Rightarrow> zero_selfips | Some s \<Rightarrow> s);
          (ext, p1) = derive_sip (sn_CIDR (dp_External dp)) (sip_External sip, sip_PrefixLen sip);
          (int', p2) = (if internal then derive_sip (sn_CIDR (dp_Internal dp)) (sip_Internal sip, p1)
                        else (sip_Internal sip, p1))
      in dp\<lparr>dp_SelfIPs := Some (sip\<lparr>sip_External := ext, sip_Internal := int',
             sip_PrefixLen := (if p2 = 0 then 24 else p2)\<rparr>)\<rparr>)"

definition default_network_selfips :: "bool \<Rightarrow> bool \<Rightarrow> Network \<Rightarrow> Network" where
  "default_network_selfips bnk internal nw =
     (if bnk then nw\<lparr>nw_DataPath := map_option (default_selfips internal) (nw_DataPath nw)\<rparr> else nw)"

(* src/internal/intent/cluster.go:916-1147 applyDefaults *)
definition applyDefaults :: "Cluster \<Rightarrow> Cluster" where
  "applyDefaults c0 =
     (let c = c0\<lparr>cl_Pattern := normalizePattern (cl_Pattern c0)\<rparr>;
          c = c\<lparr>cl_Network := default_subnet_azs (default_azs (md_Region (cl_Metadata c)) (cl_Network c))\<rparr>;
          c = c\<lparr>cl_ClusterSpec := map_option (default_cluster_spec (IsBNKPattern c)) (cl_ClusterSpec c)\<rparr>;
          c = c\<lparr>cl_Bnk := map_option default_bnk (cl_Bnk c)\<rparr>;
          c = c\<lparr>cl_Testing := map_option default_testing (cl_Testing c)\<rparr>;
          c = c\<lparr>cl_Demo := map_option default_demo (cl_Demo c)\<rparr>;
          c = c\<lparr>cl_BigIPVE := map_option default_bigip (cl_BigIPVE c)\<rparr>;
          c = c\<lparr>cl_AI := map_option default_ai (cl_AI c)\<rparr>
      in c\<lparr>cl_Network :=
             default_network_selfips (IsBNKPattern c) (HasInternalInterface c) (cl_Network c)\<rparr>)"

subsection \<open>Idempotence of the blocks\<close>

lemma or_text_idem [simp]: "or_text d (or_text d x) = or_text d x"
  by (simp add: or_text_def)

lemma set_az_idem [simp]: "set_az az (set_az az s) = set_az az s"
  by (simp add: set_az_def)

lemma set_dp_az_idem [simp]: "set_dp_az az (set_dp_az az s) = set_dp_az az s"
  by (simp add: set_dp_az_def set_az_def)

lemma sn_CIDR_set_dp_az [simp]: "sn_CIDR (set_dp_az az s) = sn_CIDR s"
  by (simp add: set_dp_az_def set_az_def)

lemma round_robin_idem [simp]: "round_robin azs (round_robin azs s) = round_robin azs s"
  by (simp add: round_robin_def map_index_map_index)

lemma default_nodegroup_idem [simp]:
  "default_nodegroup bnk (default_nodegroup bnk ng) = default_nodegroup bnk ng"
  by (simp add: default_nodegroup_def IsGPU_def)

lemma IsGPU_default [simp]: "IsGPU (default_nodegroup bnk ng) = IsGPU ng"
  by (simp add: default_nodegroup_def IsGPU_def)

lemma IsGPU_first [simp]: "IsGPU (bnk_first_group ng) = IsGPU ng"
  by (simp add: bnk_first_group_def IsGPU_def Let_def)

text \<open>A group is filled when no field is left at its zero value.\<close>

definition ng_filled :: "NodeGroupSpec \<Rightarrow> bool" where
  "ng_filled ng \<longleftrightarrow> ng_InstanceType ng \<noteq> [] \<and> ng_DesiredSize ng \<noteq> 0 \<and> ng_MinSize ng \<noteq> 0 \<and>
     ng_MaxSize ng \<noteq> 0 \<and> ng_DiskSize ng \<noteq> 0 \<and> ng_CapacityType ng \<noteq> []"

lemma default_nodegroup_filled: "ng_filled (default_nodegroup bnk ng)"
  by (simp add: ng_filled_def default_nodegroup_def)

lemma default_nodegroup_id: "ng_filled ng \<Longrightarrow> default_nodegroup bnk ng = ng"
  by (simp add: ng_filled_def default_nodegroup_def)

lemma bnk_first_group_filled: "ng_filled ng \<Longrightarrow> ng_filled (bnk_first_group ng)"
  by (auto simp: ng_filled_def bnk_first_group_def Let_def)

lemma bnk_first_group_idem: "bnk_first_group (bnk_first_group ng) = bnk_first_group ng"
  by (rule NodeGroupSpec.equality) (simp_all add: bnk_first_group_def Let_def)

lemma bnk_first_group_stable:
  "default_nodegroup bnk (bnk_first_group (default_nodegroup bnk ng))
   = bnk_first_group (default_nodegroup bnk ng)"
  by (simp add: default_nodegroup_id bnk_first_group_filled default_nodegroup_filled)

lemma default_cluster_spec_idem [simp]:
  "default_cluster_spec bnk (default_cluster_spec bnk cs) = default_cluster_spec bnk cs"
  by (cases "cs_NodeGroups cs")
    (simp_all add: default_cluster_spec_def DefaultKubernetesVersion_def bnk_first_group_stable
      bnk_first_group_idem comp_def)

lemma default_bnk_idem [simp]: "default_bnk (default_bnk b) = default_bnk b"
  by (simp add: default_bnk_def)

lemma default_testing_idem [simp]: "default_testing (default_testing t) = default_testing t"
  by (simp add: default_testing_def option.map_comp comp_def)

lemma default_demo_idem [simp]: "default_demo (default_demo d) = default_demo d"
  by (simp add: default_demo_def)

lemma default_bigip_idem [simp]: "default_bigip (default_bigip v) = default_bigip v"
  by (simp add: default_bigip_def)

lemma default_ai_idem [simp]: "default_ai (default_ai a) = default_ai a"
  by (simp add: default_ai_def option.map_comp comp_def synthetic_defaults.fill_idem
      sagemaker_defaults.fill_idem)


subsubsection \<open>The network block\<close>

lemma derive_sip_settled:
  "derive_sip cidr (fst (derive_sip cidr fp), q) = (fst (derive_sip cidr fp), q)"
  by (simp add: derive_sip_def split: prod.splits)

lemma derive_sip_idem [simp]: "derive_sip cidr (derive_sip cidr fp) = derive_sip cidr fp"
  using derive_sip_settled [of cidr fp "snd (derive_sip cidr fp)"] by simp

definition sip_of :: "DataPathSpec \<Rightarrow> SelfIPsSpec" where
  "sip_of dp = (case dp_SelfIPs dp of None \<Rightarrow> zero_selfips | Some s \<Rightarrow> s)"

lemma default_selfips_eq:
  "default_selfips internal dp =
     (let sip = sip_of dp;
          r1 = derive_sip (sn_CIDR (dp_External dp)) (sip_External sip, sip_PrefixLen sip);
          r2 = (if internal then derive_sip (sn_CIDR (dp_Internal dp)) (sip_Internal sip, snd r1)
                else (sip_Internal sip, snd r1))
      in dp\<lparr>dp_SelfIPs := Some (sip\<lparr>sip_External := fst r1, sip_Internal := fst r2,
             sip_PrefixLen := (if snd r2 = 0 then 24 else snd r2)\<rparr>)\<rparr>)"
  by (simp add: default_selfips_def sip_of_def Let_def split_def)

lemma sip_of_default:
  "sip_of (default_selfips internal dp) =
     (let sip = sip_of dp;
          r1 = derive_sip (sn_CIDR (dp_External dp)) (sip_External sip, sip_PrefixLen sip);
          r2 = (if internal then derive_sip (sn_CIDR (dp_Internal dp)) (sip_Internal sip, snd r1)
                else (sip_Internal sip, snd r1))
      in sip\<lparr>sip_External := fst r1, sip_Internal := fst r2,
             sip_PrefixLen := (if snd r2 = 0 then 24 else snd r2)\<rparr>)"
  unfolding default_selfips_eq Let_def by (simp add: sip_of_def)

lemma default_selfips_fields [simp]:
  "dp_External (default_selfips i dp) = dp_External dp"
  "dp_Internal (default_selfips i dp) = dp_Internal dp"
  by (simp_all add: default_selfips_def Let_def split: prod.splits)

lemma default_selfips_idem [simp]:
  "default_selfips i (default_selfips i dp) = default_selfips i dp"
proof -
  have "sip_of (default_selfips i (default_selfips i dp)) = sip_of (default_selfips i dp)"
    unfolding sip_of_default [of i "default_selfips i dp"] default_selfips_fields
    by (rule SelfIPsSpec.equality)
      (simp_all add: sip_of_default Let_def derive_sip_settled)
  then show ?thesis
    by (intro DataPathSpec.equality) (simp_all add: default_selfips_eq Let_def sip_of_def)
qed

lemma network_selfips_fields [simp]:
  "nw_AZs (default_network_selfips b i nw) = nw_AZs nw"
  "nw_Subnets (default_network_selfips b i nw) = nw_Subnets nw"
  by (simp_all add: default_network_selfips_def)

lemma declared_subnets_selfips [simp]:
  "declared_subnets (default_network_selfips b i nw) = declared_subnets nw"
  by (auto simp: declared_subnets_def default_network_selfips_def split: option.splits)

lemma network_selfips_idem [simp]:
  "default_network_selfips b i (default_network_selfips b i nw) = default_network_selfips b i nw"
  by (simp add: default_network_selfips_def option.map_comp comp_def)

lemma nw_AZs_subnet_azs [simp]: "nw_AZs (default_subnet_azs nw) = nw_AZs nw"
  by (simp add: default_subnet_azs_def)

lemma subnet_azs_idem [simp]: "default_subnet_azs (default_subnet_azs nw) = default_subnet_azs nw"
  by (simp add: default_subnet_azs_def option.map_comp comp_def)

text \<open>
  The self-IP block changes only \<open>selfIPs\<close> and reads only CIDRs, so it commutes with the
  zone block, which changes only zones.
\<close>

definition fill_dp :: "string \<Rightarrow> DataPathSpec \<Rightarrow> DataPathSpec" where
  "fill_dp az dp = dp\<lparr>dp_External := set_dp_az az (dp_External dp),
                      dp_Internal := set_dp_az az (dp_Internal dp)\<rparr>"

lemma default_selfips_fill_dp:
  "default_selfips i (fill_dp az dp) = fill_dp az (default_selfips i dp)"
  by (simp add: default_selfips_def fill_dp_def Let_def split: prod.splits)

lemma default_subnet_azs_eq:
  "default_subnet_azs nw =
     (if nw_AZs nw = [] then nw
      else nw\<lparr>nw_Subnets := (nw_Subnets nw)
              \<lparr>sns_Public := round_robin (nw_AZs nw) (sns_Public (nw_Subnets nw)),
               sns_Private := round_robin (nw_AZs nw) (sns_Private (nw_Subnets nw))\<rparr>,
             nw_DataPath := map_option (fill_dp (nw_AZs nw ! 0)) (nw_DataPath nw)\<rparr>)"
  by (simp add: default_subnet_azs_def fill_dp_def [abs_def])

lemma selfips_subnet_azs:
  "default_network_selfips b i (default_subnet_azs nw)
   = default_subnet_azs (default_network_selfips b i nw)"
  by (cases nw)
    (simp add: default_subnet_azs_eq default_network_selfips_def option.map_comp comp_def
      default_selfips_fill_dp)

lemma default_azs_id: "nw_AZs nw \<noteq> [] \<Longrightarrow> default_azs region nw = nw"
  by (simp add: default_azs_def)

lemma default_azs_network_idem:
  fixes region :: string and b i :: bool
  defines "net \<equiv> \<lambda>nw. default_network_selfips b i (default_subnet_azs (default_azs region nw))"
  shows "net (net nw) = net nw"
proof (cases "nw_AZs (default_azs region nw) = []")
  case True
  then have "default_azs region nw = nw" "nw_AZs nw = []"
      "\<not> (region \<noteq> [] \<and> allSubnetAZsEmptyOrAuto nw)"
    by (auto simp: default_azs_def split: if_splits)
  then have "net nw = default_network_selfips b i nw"
    by (simp add: net_def default_subnet_azs_def)
  moreover have "net (default_network_selfips b i nw) = default_network_selfips b i nw"
    using \<open>nw_AZs nw = []\<close> \<open>\<not> (region \<noteq> [] \<and> allSubnetAZsEmptyOrAuto nw)\<close>
    by (auto simp: net_def default_azs_def default_subnet_azs_def allSubnetAZsEmptyOrAuto_def)
  ultimately show ?thesis by simp
next
  case False
  then have "nw_AZs (net nw) \<noteq> []" by (simp add: net_def)
  then have "net (net nw) = default_network_selfips b i (default_subnet_azs (net nw))"
    by (simp add: net_def default_azs_id)
  also have "\<dots> = net nw" by (simp add: net_def selfips_subnet_azs [symmetric])
  finally show ?thesis .
qed

subsection \<open>The whole pass\<close>

lemma applyDefaults_eq:
  "applyDefaults c =
     (let bnk = IsBNKPattern c; internal = HasInternalInterface c
      in c\<lparr>cl_Pattern := normalizePattern (cl_Pattern c),
           cl_Network := default_network_selfips bnk internal
             (default_subnet_azs (default_azs (md_Region (cl_Metadata c)) (cl_Network c))),
           cl_ClusterSpec := map_option (default_cluster_spec bnk) (cl_ClusterSpec c),
           cl_Bnk := map_option default_bnk (cl_Bnk c),
           cl_Testing := map_option default_testing (cl_Testing c),
           cl_Demo := map_option default_demo (cl_Demo c),
           cl_BigIPVE := map_option default_bigip (cl_BigIPVE c),
           cl_AI := map_option default_ai (cl_AI c)\<rparr>)"
  by (simp add: applyDefaults_def Let_def IsBNKPattern_def HasInternalInterface_def)

lemma IsBNKPattern_applyDefaults [simp]: "IsBNKPattern (applyDefaults c) = IsBNKPattern c"
  by (simp add: applyDefaults_eq Let_def IsBNKPattern_def)

lemma HasInternal_applyDefaults [simp]:
  "HasInternalInterface (applyDefaults c) = HasInternalInterface c"
  by (simp add: applyDefaults_eq Let_def HasInternalInterface_def)

lemma applyDefaults_idempotent: "applyDefaults (applyDefaults c) = applyDefaults c"
  unfolding applyDefaults_eq [of "applyDefaults c"] Let_def IsBNKPattern_applyDefaults
    HasInternal_applyDefaults
  by (rule Cluster.equality)
    (simp_all add: applyDefaults_eq Let_def default_azs_network_idem option.map_comp comp_def)

interpretation intent_defaults: defaulting applyDefaults
  by unfold_locales (rule applyDefaults_idempotent)

subsection \<open>What defaulting leaves alone\<close>

lemma applyDefaults_identity [simp]:
  "cl_Metadata (applyDefaults c) = cl_Metadata c"
  "cl_Tags (applyDefaults c) = cl_Tags c"
  "cl_Forge (applyDefaults c) = cl_Forge c"
  "cl_Addons (applyDefaults c) = cl_Addons c"
  "cl_Pattern (applyDefaults c) = normalizePattern (cl_Pattern c)"
  by (simp_all add: applyDefaults_eq Let_def)

lemma applyDefaults_bnk [simp]: "cl_Bnk (applyDefaults c) = map_option default_bnk (cl_Bnk c)"
  by (simp add: applyDefaults_eq Let_def)

lemma applyDefaults_ai [simp]: "cl_AI (applyDefaults c) = map_option default_ai (cl_AI c)"
  by (simp add: applyDefaults_eq Let_def)

lemma applyDefaults_spec [simp]:
  "cl_ClusterSpec (applyDefaults c) = map_option (default_cluster_spec (IsBNKPattern c)) (cl_ClusterSpec c)"
  by (simp add: applyDefaults_eq Let_def)

lemma applyDefaults_switches [simp]:
  "DemoEnabled (applyDefaults c) = DemoEnabled c"
  "BigIPVEEnabled (applyDefaults c) = BigIPVEEnabled c"
  "jumphost_enabled (applyDefaults c) = jumphost_enabled c"
  "HasGPUNodeGroup (applyDefaults c) = HasGPUNodeGroup c"
proof -
  show "DemoEnabled (applyDefaults c) = DemoEnabled c"
    by (auto simp: DemoEnabled_def applyDefaults_eq Let_def default_demo_def split: option.splits)
  show "BigIPVEEnabled (applyDefaults c) = BigIPVEEnabled c"
    by (auto simp: BigIPVEEnabled_def applyDefaults_eq Let_def default_bigip_def split: option.splits)
  show "jumphost_enabled (applyDefaults c) = jumphost_enabled c"
    by (cases "cl_Testing c"; cases "Option.bind (cl_Testing c) ts_Jumphost")
      (auto simp: jumphost_enabled_def applyDefaults_eq Let_def default_testing_def)
  show "HasGPUNodeGroup (applyDefaults c) = HasGPUNodeGroup c"
  proof (cases "cl_ClusterSpec c")
    case None
    then show ?thesis by (simp add: HasGPUNodeGroup_def nodeGroups_def)
  next
    case (Some cs)
    then show ?thesis
      by (cases "cs_NodeGroups cs")
        (simp_all add: HasGPUNodeGroup_def nodeGroups_def default_cluster_spec_def list_ex_iff)
  qed
qed

lemma nodeGroups_applyDefaults:
  "nodeGroups (applyDefaults c) =
     (case map (default_nodegroup (IsBNKPattern c)) (nodeGroups c) of
        [] \<Rightarrow> []
      | ng # ngs \<Rightarrow> (if IsBNKPattern c \<and> \<not> IsGPU ng then bnk_first_group ng else ng) # ngs)"
  by (cases "cl_ClusterSpec c") (simp_all add: nodeGroups_def default_cluster_spec_def)

end
