(* ===== verification/GoTime.thy ===== *)
theory GoTime
  imports GoStrings
begin

text \<open>
  \<open>time.ParseDuration\<close>: a signed sequence of decimal numbers with units, as nanoseconds.
  The part after a decimal point goes through \<open>float64\<close> arithmetic in the library
  (\<open>float64(f) * (float64(unit) / scale)\<close>, truncated), so binary64 rounding to nearest even
  is written out; all values are in the normal range.
\<close>

definition round_half_even :: "rat \<Rightarrow> int" where
  "round_half_even y =
     (let n = \<lfloor>y\<rfloor>; r = y - of_int n
      in if r < 1 / 2 then n else if r > 1 / 2 then n + 1 else if even n then n else n + 1)"

definition pow2 :: "int \<Rightarrow> rat" where
  "pow2 k = (if k \<ge> 0 then 2 ^ nat k else 1 / 2 ^ nat (- k))"

text \<open>The number of binary digits of a positive integer.\<close>

function bit_count :: "int \<Rightarrow> int" where
  "bit_count a = (if a \<le> 0 then 0 else 1 + bit_count (a div 2))"
  by pat_completeness auto
termination by (relation "measure nat") auto

declare bit_count.simps [simp del]

text \<open>The exponent \<open>k\<close> with \<open>2 ^ k \<le> a / b < 2 ^ (k + 1)\<close>.\<close>

definition log2_floor :: "rat \<Rightarrow> int" where
  "log2_floor x =
     (case quotient_of x of (a, b) \<Rightarrow>
        let k = bit_count a - bit_count b in if x < pow2 k then k - 1 else k)"

definition round_f64 :: "rat \<Rightarrow> rat" where
  "round_f64 x =
     (if x \<le> 0 then 0
      else let e = log2_floor x - 52 in of_int (round_half_even (x / pow2 e)) * pow2 e)"

definition fraction_ns :: "int \<Rightarrow> int \<Rightarrow> int \<Rightarrow> int" where
  "fraction_ns f unit scale =
     \<lfloor>round_f64 (round_f64 (of_int f) * round_f64 (of_int unit / of_int scale))\<rfloor>"

definition two63 :: int where
  "two63 = 9223372036854775808"

text \<open>The value of a digit sequence; the library's \<open>uint64\<close> values stay below \<open>2 ^ 63 + 1\<close>.\<close>

fun digits_int :: "int \<Rightarrow> string \<Rightarrow> int" where
  "digits_int acc [] = acc"
| "digits_int acc (c # cs) = digits_int (10 * acc + int (digit_val c)) cs"

text \<open>\<open>leadingFraction\<close>: digits that would overflow are read and dropped.\<close>

fun leading_fraction :: "int \<Rightarrow> int \<Rightarrow> string \<Rightarrow> int \<times> int" where
  "leading_fraction x scale [] = (x, scale)"
| "leading_fraction x scale (c # cs) =
     (if x > (two63 - 1) div 10 then (x, scale)
      else if 10 * x + int (digit_val c) > two63 then (x, scale)
      else leading_fraction (10 * x + int (digit_val c)) (10 * scale) cs)"

definition unit_map :: "(string \<times> int) list" where
  "unit_map =
     [(''ns'', 1), (''us'', 1000), ([byte 194, byte 181, CHR ''s''], 1000),
      ([byte 206, byte 188, CHR ''s''], 1000), (''ms'', 1000000), (''s'', 1000000000),
      (''m'', 60000000000), (''h'', 3600000000000)]"

definition number_start :: "char \<Rightarrow> bool" where
  "number_start c \<longleftrightarrow> c = CHR ''.'' \<or> is_digit c"

text \<open>The digits after the decimal point, when there is one, and what follows.\<close>

definition split_fraction :: "string \<Rightarrow> string \<times> string" where
  "split_fraction s =
     (case s of
        c # cs \<Rightarrow> if c = CHR ''.'' then (takeWhile is_digit cs, dropWhile is_digit cs) else ([], s)
      | [] \<Rightarrow> ([], []))"

definition element_value :: "string \<Rightarrow> string \<Rightarrow> int \<Rightarrow> int option" where
  "element_value ds fs unit =
     (let v = digits_int 0 ds; (f, scale) = leading_fraction 0 1 fs
      in if v > two63 \<or> v > two63 div unit then None
         else if f > 0 then
           (let w = v * unit + fraction_ns f unit scale in if w > two63 then None else Some w)
         else Some (v * unit))"

lemma length_split_fraction: "split_fraction s = (fs, r) \<Longrightarrow> length r \<le> length s"
  by (cases s) (auto simp: split_fraction_def length_dropWhile_le le_SucI split: if_splits)

lemma takeWhile_drop_less: "takeWhile P xs \<noteq> [] \<Longrightarrow> length (dropWhile P xs) < length xs"
  by (cases xs) (auto simp: length_dropWhile_le less_Suc_eq_le split: if_splits)

function dur_loop :: "int \<Rightarrow> string \<Rightarrow> int option" where
  "dur_loop d s =
     (if s = [] then Some d
      else let ds = takeWhile is_digit s;
               (fs, r) = split_fraction (dropWhile is_digit s);
               u = takeWhile (\<lambda>c. \<not> number_start c) r;
               rest = dropWhile (\<lambda>c. \<not> number_start c) r
           in if ds = [] \<and> fs = [] \<or> u = [] then None
              else (case map_of unit_map u of
                  None \<Rightarrow> None
                | Some unit \<Rightarrow>
                    (case element_value ds fs unit of
                       None \<Rightarrow> None
                     | Some v \<Rightarrow> if d + v > two63 then None else dur_loop (d + v) rest)))"
  by pat_completeness auto
termination
  apply (relation "measure (\<lambda>(d, s). length s)")
   apply simp
  subgoal for d s ds p fs r u rest unit v
    using length_split_fraction [of "dropWhile is_digit s" fs r]
      takeWhile_drop_less [of "\<lambda>c. \<not> number_start c" r] length_dropWhile_le [of is_digit s]
    by auto
  done

declare dur_loop.simps [simp del]

definition parse_duration :: "string \<Rightarrow> int option" where
  "parse_duration s =
     (let signed = (case s of c # _ \<Rightarrow> c = CHR ''-'' \<or> c = CHR ''+'' | [] \<Rightarrow> False);
          neg = (case s of c # _ \<Rightarrow> c = CHR ''-'' | [] \<Rightarrow> False);
          t = (if signed then tl s else s)
      in if t = ''0'' then Some 0
         else if t = [] then None
         else (case dur_loop 0 t of
             None \<Rightarrow> None
           | Some d \<Rightarrow>
               if neg then Some (- d)
               else if d > two63 - 1 then None
               else Some d))"

text \<open>Every duration the library returns fits an \<open>int64\<close>.\<close>

lemma floor_round_nonneg: "0 \<le> fraction_ns f unit scale"
proof -
  have pow: "0 \<le> pow2 e" for e by (simp add: pow2_def)
  have half: "0 \<le> round_half_even y" if "0 \<le> y" for y
    using that by (auto simp: round_half_even_def Let_def)
  have "0 \<le> round_f64 x" for x
    using pow half by (auto simp: round_f64_def Let_def)
  then show ?thesis by (simp add: fraction_ns_def)
qed

lemma digits_int_nonneg: "0 \<le> acc \<Longrightarrow> 0 \<le> digits_int acc s"
  by (induction s arbitrary: acc) auto

lemma unit_map_pos: "map_of unit_map u = Some unit \<Longrightarrow> 0 < unit"
  by (drule map_of_SomeD) (auto simp: unit_map_def)

lemma element_value_nonneg:
  assumes "element_value ds fs unit = Some v" and "0 < unit"
  shows "0 \<le> v"
proof -
  have "0 \<le> digits_int 0 ds" by (simp add: digits_int_nonneg)
  with assms floor_round_nonneg show ?thesis
    by (auto simp: element_value_def Let_def split: if_splits prod.splits)
qed

lemma dur_loop_bound: "0 \<le> d \<Longrightarrow> d \<le> two63 \<Longrightarrow> dur_loop d s = Some r \<Longrightarrow> 0 \<le> r \<and> r \<le> two63"
proof (induction "length s" arbitrary: d s rule: less_induct)
  case less
  show ?case
  proof (cases "s = []")
    case True
    with less show ?thesis by (simp add: dur_loop.simps [of d])
  next
    case False
    obtain fs q where q: "split_fraction (dropWhile is_digit s) = (fs, q)" by fastforce
    let ?u = "takeWhile (\<lambda>c. \<not> number_start c) q" and ?rest = "dropWhile (\<lambda>c. \<not> number_start c) q"
    from less.prems(3) False q obtain unit v where uv: "?u \<noteq> []" "map_of unit_map ?u = Some unit"
        "element_value (takeWhile is_digit s) fs unit = Some v" "\<not> d + v > two63"
        "dur_loop (d + v) ?rest = Some r"
      by (subst (asm) dur_loop.simps) (auto simp: Let_def split: if_splits option.splits)
    have "length ?rest < length s"
      using takeWhile_drop_less [OF uv(1)] length_split_fraction [OF q]
        length_dropWhile_le [of is_digit s] by linarith
    moreover have "0 \<le> d + v" using uv less.prems(1) element_value_nonneg unit_map_pos by fastforce
    ultimately show ?thesis using less.hyps uv(4,5) by simp
  qed
qed

lemma parse_duration_int64: "parse_duration s = Some d \<Longrightarrow> in_int64 d"
  using dur_loop_bound [of 0]
  by (fastforce simp: parse_duration_def Let_def in_int64_def min_int64_def max_int64_def two63_def
      split: if_splits option.splits)

end
