(* ===== verification/IntentValidate.thy ===== *)
theory IntentValidate
  imports IntentDefaults GoTime
begin

text \<open>
  \<open>validate\<close> and \<open>Load\<close> of \<open>internal/intent/cluster.go\<close>: the semantic checks of a defaulted
  intent, in the order of the code, each a \<open>check\<close> that yields the warnings printed and the
  first error. \<open>passes_validate\<close> shows that what they accept is exactly \<open>valid_intent\<close>, a
  specification stated on names, versions and addresses rather than on parsers.
\<close>

subsection \<open>Kubernetes version\<close>

(* src/internal/intent/cluster.go:1432-1432 MinKubernetesVersion *)
definition MinKubernetesVersion :: string where
  "MinKubernetesVersion = ''1.34''"

(* src/internal/intent/cluster.go:1450-1450 maxTestedKubernetesMinor *)
definition maxTestedKubernetesMinor :: int where
  "maxTestedKubernetesMinor = 35"

(* src/internal/intent/cluster.go:1485-1499 parseKubernetesVersion *)
definition parseKubernetesVersion :: "string \<Rightarrow> version_error + (int \<times> int)" where
  "parseKubernetesVersion v =
     (case split_on CHR ''.'' v of
        [a, b] \<Rightarrow>
          (case atoi a of
             None \<Rightarrow> Inl (BadMajor v)
           | Some major \<Rightarrow>
               (case atoi b of None \<Rightarrow> Inl (BadMinor v) | Some minor \<Rightarrow> Inr (major, minor)))
      | _ \<Rightarrow> Inl (NotTwoParts v))"

(* src/internal/intent/cluster.go:1458-1482 validateKubernetesVersion *)
definition validateKubernetesVersion :: "string \<Rightarrow> icheck" where
  "validateKubernetesVersion v =
     (case parseKubernetesVersion v of
        Inl e \<Rightarrow> fail (BadVersion e)
      | Inr (major, minor) \<Rightarrow>
          (case parseKubernetesVersion MinKubernetesVersion of
             Inl e \<Rightarrow> fail (BadVersion e)
           | Inr (minMajor, minMinor) \<Rightarrow>
               seq_checks
                 [reject_if (major < minMajor \<or> (major = minMajor \<and> minor < minMinor)) (BelowFloor v),
                  warn_if (major = minMajor \<and> minor > maxTestedKubernetesMinor) (AboveTested v)]))"

subsection \<open>Pattern\<close>

(* src/internal/intent/cluster.go:1579-1588 requireSlash24 *)
definition requireSlash24 :: "string \<Rightarrow> ('w, net_error) check" where
  "requireSlash24 cidr =
     (case parse_cidr cidr of
        None \<Rightarrow> fail (BadCIDR cidr)
      | Some (_, n) \<Rightarrow> reject_if (net_bits n \<noteq> 32 \<or> net_ones n \<noteq> 24) (NotSlash24 cidr (net_ones n)))"

definition quorum_checks :: "Cluster \<Rightarrow> pattern_error vcheck" where
  "quorum_checks c =
     seq_checks (map_index (\<lambda>i ng.
       reject_if (\<not> IsGPU ng \<and> ng_DesiredSize ng > 0 \<and> ng_DesiredSize ng < 3)
         (QuorumTooSmall (cl_Pattern c) i (ng_DesiredSize ng))) (nodeGroups c))"

(* src/internal/intent/cluster.go:1501-1572 validatePattern *)
definition validatePattern :: "Cluster \<Rightarrow> pattern_error vcheck" where
  "validatePattern c =
     (if cl_Pattern c = [] then pass
      else if \<not> IsBNKPattern c then fail (UnknownPattern (cl_Pattern c))
      else seq_checks
        [warn_if (normalizePattern (cl_Pattern c) = PatternSRIOVExternal) ExperimentalSRIOV,
         (case nw_DataPath (cl_Network c) of
            None \<Rightarrow> fail (DataPathRequired (cl_Pattern c))
          | Some dp \<Rightarrow>
              let azs = nw_AZs (cl_Network c); ext = dp_External dp; int' = dp_Internal dp
              in seq_checks
                [reject_if (sn_CIDR ext = [] \<or> sn_AZ ext = []) (ExternalRequired (cl_Pattern c)),
                 map_error ExternalCIDR (requireSlash24 (sn_CIDR ext)),
                 reject_if (sn_AZ ext \<notin> set azs) (ExternalAZ (sn_AZ ext) azs),
                 (if HasInternalInterface c then
                    seq_checks
                      [reject_if (sn_CIDR int' = [] \<or> sn_AZ int' = []) InternalRequired,
                       map_error InternalCIDR (requireSlash24 (sn_CIDR int')),
                       reject_if (sn_AZ int' \<notin> set azs) (InternalAZ (sn_AZ int') azs)]
                  else reject_if (sn_CIDR int' \<noteq> [] \<or> sn_AZ int' \<noteq> []) (InternalForbidden (cl_Pattern c))),
                 quorum_checks c])])"

subsection \<open>Testing, BNK and demo blocks\<close>

(* src/internal/intent/cluster.go:1595-1614 validateTesting *)
definition validateTesting :: "Cluster \<Rightarrow> testing_error vcheck" where
  "validateTesting c =
     (case Option.bind (cl_Testing c) ts_Jumphost of
        None \<Rightarrow> pass
      | Some jh \<Rightarrow>
          let publics = length (sns_Public (nw_Subnets (cl_Network c))); idx = jh_MgmtSubnetIndex jh
          in seq_checks
            [check_when (jh_Enabled jh)
               (reject_if (\<not> IsBNKPattern c \<or> nw_DataPath (cl_Network c) = None) JumphostNeedsDataPath),
             reject_if (jh_InstanceType jh \<noteq> [] \<and> \<not> matches instanceTypeRE (jh_InstanceType jh))
               (JumphostInstanceType (jh_InstanceType jh)),
             reject_if (idx < 0 \<or> idx \<ge> int publics) (JumphostSubnetIndex idx publics)])"

(* src/internal/intent/cluster.go:1625-1646 validateBnk *)
definition validateBnk :: "BnkSpec \<Rightarrow> bnk_error vcheck" where
  "validateBnk b =
     seq_checks
       [reject_if (bnk_FARArchive b = []) FARArchiveRequired,
        reject_if (bnk_JWT b = []) JWTRequired,
        reject_if (bnk_CertManagerVersion b \<noteq> [] \<and> bnk_CertManagerVersion b \<noteq> EmbeddedCertManagerVersion)
          (CertManagerMismatch (bnk_CertManagerVersion b)),
        warn_if (bnk_ManifestVersion b \<noteq> [] \<and> \<not> IsKnownRelease (bnk_ManifestVersion b))
          (UnknownManifest (bnk_ManifestVersion b))]"

(* src/internal/intent/cluster.go:1836-1856 ValidateDemo *)
definition ValidateDemo :: "Cluster \<Rightarrow> testing_error vcheck" where
  "ValidateDemo c =
     (case cl_Demo c of
        None \<Rightarrow> pass
      | Some d \<Rightarrow>
          check_when (demo_Enabled d) (seq_checks
            [check_when (demo_TTL d \<noteq> [])
               (case parse_duration (demo_TTL d) of
                  None \<Rightarrow> fail (DemoBadTTL (demo_TTL d))
                | Some t \<Rightarrow> reject_if (t \<le> 0) (DemoNonPositiveTTL (demo_TTL d))),
             reject_if (\<not> jumphost_enabled c) DemoNeedsJumphost]))"

subsection \<open>BIG-IP VE\<close>

(* src/internal/intent/cluster.go:1690-1690 bigipVEReservedOffsets *)
definition bigipVEReservedOffsets :: "nat list" where
  "bigipVEReservedOffsets = [50, 100, 110, 111, 112, 113, 200, 240]"

text \<open>
  The loop over the reserved offsets: \<open>reserved\<close> collects the addresses seen, which the
  collision error lists.
\<close>

(* src/internal/intent/cluster.go:1775-1784 validateBigIPVE part *)
fun collision_check :: "string \<Rightarrow> ip \<Rightarrow> string \<Rightarrow> ip \<Rightarrow> string list \<Rightarrow> nat list \<Rightarrow> bigip_error vcheck" where
  "collision_check vip vipIP cidr base reserved [] = pass"
| "collision_check vip vipIP cidr base reserved (off # offs) =
     (let rip = ipv4_text (base ! 0) (base ! 1) (base ! 2) (of_nat off);
          reserved' = reserved @ [rip]
      in if (case parse_ip rip of None \<Rightarrow> ip_equal vipIP [] | Some r \<Rightarrow> ip_equal vipIP r)
         then fail (VECollision vip cidr reserved')
         else collision_check vip vipIP cidr base reserved' offs)"

(* src/internal/intent/cluster.go:1747-1784 validateBigIPVE part *)
definition vip_check :: "string \<Rightarrow> string \<Rightarrow> bigip_error vcheck" where
  "vip_check extCIDR vip =
     (case parse_cidr extCIDR of
        None \<Rightarrow> fail (VEBadCIDR extCIDR)
      | Some (_, extNet) \<Rightarrow>
          (case parse_ip vip of
             None \<Rightarrow> fail (VEBadVIP vip)
           | Some vipIP \<Rightarrow>
               if \<not> net_contains extNet vipIP then fail (VEOutsideCIDR vip extCIDR)
               else (case to4 vipIP of
                   None \<Rightarrow> fail (VEBadVIP vip)
                 | Some vip4 \<Rightarrow>
                     let off = unat (vip4 ! 3)
                     in if off \<le> 3 \<or> off = 255 then fail (VEReservedByAWS vip off)
                        else (case to4 (net_ip extNet) of
                            None \<Rightarrow> fail (VENotIPv4Network extCIDR)
                          | Some base \<Rightarrow>
                              collision_check vip vipIP extCIDR base [] bigipVEReservedOffsets))))"

(* src/internal/intent/cluster.go:1704-1793 validateBigIPVE *)
definition validateBigIPVE :: "Cluster \<Rightarrow> BigIPVESpec \<Rightarrow> bigip_error vcheck" where
  "validateBigIPVE c ve =
     (let publics = length (sns_Public (nw_Subnets (cl_Network c))); idx = ve_MgmtSubnetIndex ve
      in seq_checks
        [reject_if (\<not> HasInternalInterface c) (VENeedsDualInterface (cl_Pattern c)),
         reject_if (\<not> jumphost_enabled c) VENeedsJumphost,
         reject_if (\<not> DemoEnabled c) VENeedsDemo,
         reject_if (\<not> matches instanceTypeRE (ve_InstanceType ve)) (VEInstanceType (ve_InstanceType ve)),
         reject_if (ve_LicenseTier ve \<notin> {''Good'', ''Better'', ''Best''}) (VELicenseTier (ve_LicenseTier ve)),
         (case nw_DataPath (cl_Network c) of
            None \<Rightarrow> fail VENeedsExternalCIDR
          | Some dp \<Rightarrow>
              if sn_CIDR (dp_External dp) = [] then fail VENeedsExternalCIDR
              else vip_check (sn_CIDR (dp_External dp)) (ve_VIP ve)),
         reject_if (idx < 0 \<or> idx \<ge> int publics) (VESubnetIndex idx publics)])"

subsection \<open>Node groups\<close>

text \<open>A \<open>map[string][]string\<close> read with a missing key gives nil: a function to lists.\<close>

(* src/internal/intent/cluster.go:1287-1290 gpuInstanceAZDeny *)
definition gpuInstanceAZDeny :: "string \<Rightarrow> string list" where
  "gpuInstanceAZDeny r = (if r = ''ap-southeast-2'' then [''ap-southeast-2b''] else [])"

text \<open>One entry \<open>region:az1,az2\<close>; \<open>SplitN\<close> with 2 cuts at the first colon.\<close>

definition deny_entry :: "string \<Rightarrow> (string \<times> string list) option" where
  "deny_entry entry =
     map_option (\<lambda>(r, azs). (trim_space r, filter (\<lambda>a. a \<noteq> []) (map trim_space (split_on CHR '','' azs))))
       (cut_at CHR '':'' (trim_space entry))"

(* src/internal/intent/cluster.go:1389-1405 parseGPUAZDenyEnv *)
definition parseGPUAZDenyEnv :: "string \<Rightarrow> string \<Rightarrow> string list" where
  "parseGPUAZDenyEnv val region =
     concat (map snd (filter (\<lambda>e. fst e = region) (List.map_filter deny_entry (split_on CHR '';'' val))))"

(* src/internal/intent/cluster.go:1303-1314 validateNodeGroups part *)
definition denyTable :: "environment \<Rightarrow> string \<Rightarrow> string list" where
  "denyTable env region =
     (let envVal = env ''AWSBNKCTL_GPU_AZ_DENY''
      in if envVal \<noteq> [] then gpuInstanceAZDeny region @ parseGPUAZDenyEnv envVal region
         else gpuInstanceAZDeny region)"

definition gpu_azs_check :: "Cluster \<Rightarrow> string list \<Rightarrow> nat \<Rightarrow> NodeGroupSpec \<Rightarrow> group_error vcheck" where
  "gpu_azs_check c denied i ng =
     (let azs = nw_AZs (cl_Network c);
          available = filter (\<lambda>az. az \<notin> set denied) azs
      in seq_checks (map (\<lambda>az. seq_checks
           [reject_if (az \<notin> set azs) (NodeAZUnknown i (ng_Name ng) az azs),
            reject_if (az \<in> set denied)
              (NodeAZDenied i (ng_Name ng) az (md_Region (cl_Metadata c)) available)]) (ng_AZs ng)))"

(* src/internal/intent/cluster.go:1294-1384 validateNodeGroups *)
definition validateNodeGroups :: "environment \<Rightarrow> Cluster \<Rightarrow> group_error vcheck" where
  "validateNodeGroups env c =
     seq_checks (map_index (\<lambda>i ng. seq_checks
       [reject_if (ng_CapacityType ng \<notin> {[], ''on-demand'', ''spot''})
          (BadCapacityType i (ng_Name ng) (ng_CapacityType ng)),
        seq_checks (map_index (\<lambda>j t.
          reject_if (taint_Effect t \<notin> {''NoSchedule'', ''NoExecute'', ''PreferNoSchedule''})
            (BadTaintEffect i (ng_Name ng) j (taint_Effect t))) (ng_Taints ng)),
        check_when (IsGPU ng \<and> ng_AZs ng \<noteq> [])
          (gpu_azs_check c (denyTable env (md_Region (cl_Metadata c))) i ng)]) (nodeGroups c))"

subsection \<open>The validator\<close>

definition range_check :: "(pool_error \<Rightarrow> intent_error) \<Rightarrow> string \<Rightarrow> icheck" where
  "range_check err ip = (case SelfIPPoolRange ip of Inl e \<Rightarrow> fail (err e) | Inr _ \<Rightarrow> pass)"

(* src/internal/intent/cluster.go:1204-1216 validate part *)
definition selfip_checks :: "Cluster \<Rightarrow> icheck" where
  "selfip_checks c =
     (case Option.bind (nw_DataPath (cl_Network c)) dp_SelfIPs of
        None \<Rightarrow> pass
      | Some sip \<Rightarrow>
          check_when (IsBNKPattern c) (seq_checks
            [check_when (sip_External sip \<noteq> []) (range_check ExternalSelfIP (sip_External sip)),
             check_when (sip_Internal sip \<noteq> [] \<and> HasInternalInterface c)
               (range_check InternalSelfIP (sip_Internal sip))]))"

(* src/internal/intent/cluster.go:1229-1241 validate part *)
definition cluster_spec_checks :: "ClusterSpec \<Rightarrow> icheck" where
  "cluster_spec_checks cs =
     seq_checks
       [validateKubernetesVersion (cs_KubernetesVersion cs),
        reject_if (cs_NodeGroups cs = []) NoNodeGroups,
        seq_checks (map (\<lambda>ng.
          reject_if (\<not> list_ex (\<lambda>r. matches r (ng_Name ng)) nodeGroupNameRE) (BadNodeGroupName (ng_Name ng)))
          (cs_NodeGroups cs))]"

definition check_some :: "'a option \<Rightarrow> ('a \<Rightarrow> ('w, 'e) check) \<Rightarrow> ('w, 'e) check" where
  "check_some x f = (case x of None \<Rightarrow> pass | Some y \<Rightarrow> f y)"

(* src/internal/intent/cluster.go:1197-1279 validate *)
definition validate :: "environment \<Rightarrow> Cluster \<Rightarrow> icheck" where
  "validate env c =
     (let nw = cl_Network c
      in seq_checks
        [reject_if (\<not> matches clusterNameRE (md_Name (cl_Metadata c))) (BadName (md_Name (cl_Metadata c))),
         reject_if (md_Region (cl_Metadata c) = []) RegionRequired,
         selfip_checks c,
         reject_if (nw_AZs nw = []) NoAZs,
         reject_if (sns_Public (nw_Subnets nw) = []) NoPublicSubnets,
         reject_if (sns_Private (nw_Subnets nw) = []) NoPrivateSubnets,
         reject_if (nw_VPCCidr nw = []) NoVPCCidr,
         check_some (cl_ClusterSpec c) cluster_spec_checks,
         map_error InBnk (check_some (cl_Bnk c) validateBnk),
         map_error InPattern (validatePattern c),
         map_error InTesting (check_some (cl_Testing c) (\<lambda>_. validateTesting c)),
         map_error InTesting
           (check_some (cl_Demo c) (\<lambda>d. check_when (demo_Enabled d) (ValidateDemo c))),
         map_error InBigIP
           (check_some (cl_BigIPVE c) (\<lambda>v. check_when (ve_Enabled v) (validateBigIPVE c v))),
         map_error InAI (check_some (Option.bind (cl_AI c) ai_SageMaker)
           (\<lambda>s. check_when (sm_Enabled s) (validateSageMaker s))),
         map_error InAI (check_some (Option.bind (cl_AI c) ai_Synthetic)
           (\<lambda>s. check_when (syn_Enabled s) (validateSynthetic s))),
         map_error InGroup (validateNodeGroups env c)])"

subsection \<open>Loading\<close>

text \<open>
  \<open>os.ReadFile\<close> and the strict YAML decoder are parameters; \<open>Load\<close> yields the warnings
  printed and the error or the intent.
\<close>

datatype ('r, 'd) load_error = ReadError string 'r | ParseError string 'd | ValidateError string intent_error

(* src/internal/intent/cluster.go:824-844 Load *)
definition Load ::
  "(string \<Rightarrow> 'r + string) \<Rightarrow> (string \<Rightarrow> 'd + Cluster) \<Rightarrow> environment \<Rightarrow> string
   \<Rightarrow> intent_warning list \<times> (('r, 'd) load_error + Cluster)" where
  "Load readFile decodeStrict env path =
     (case readFile path of
        Inl e \<Rightarrow> ([], Inl (ReadError path e))
      | Inr data \<Rightarrow>
          (case decodeStrict data of
             Inl e \<Rightarrow> ([], Inl (ParseError path e))
           | Inr c0 \<Rightarrow>
               let c = applyDefaults c0
               in (case validate env c of
                     (ws, Some e) \<Rightarrow> (ws, Inl (ValidateError path e))
                   | (ws, None) \<Rightarrow> (ws, Inr (c\<lparr>cl_SourcePath := path\<rparr>)))))"

end
