(* ===== verification/IntentSpec.thy ===== *)
theory IntentSpec
  imports IntentValidate
begin

text \<open>
  What the intent validators promise, stated without their parsers: name shapes, an ordered
  type of Kubernetes versions, addresses as bytes. \<open>passes_validate\<close> is the refinement:
  \<open>validate\<close> reports no error exactly on the intents \<open>valid_intent\<close> describes.
\<close>

subsection \<open>Names\<close>

definition name_or_dash :: "char \<Rightarrow> bool" where
  "name_or_dash c \<longleftrightarrow> name_char c \<or> c = CHR ''-''"

definition cluster_name :: "string \<Rightarrow> bool" where
  "cluster_name s \<longleftrightarrow> 2 \<le> length s \<and> length s \<le> 40 \<and> is_lower (hd s) \<and> name_char (last s) \<and>
     list_all name_or_dash s"

definition group_name :: "string \<Rightarrow> bool" where
  "group_name s \<longleftrightarrow> s \<noteq> [] \<and> name_char (hd s) \<and> name_char (last s) \<and> list_all name_or_dash s"

lemma matches_single: "matches [one p] s \<longleftrightarrow> (\<exists>c. s = [c] \<and> p c)"
  by (auto split: list.splits)

lemma matches_first:
  "matches (one p # ps) s \<longleftrightarrow> (\<exists>c cs. s = c # cs \<and> p c \<and> matches ps cs)"
  by (auto split: list.splits)

lemma dash_class: "(\<lambda>c. name_char c \<or> c = CHR ''-'') = name_or_dash"
  by (simp add: fun_eq_iff name_or_dash_def)

lemma name_or_dash_lower [simp]: "is_lower c \<Longrightarrow> name_or_dash c"
  by (simp add: name_or_dash_def name_char_def)

lemma name_or_dash_char [simp]: "name_char c \<Longrightarrow> name_or_dash c"
  by (simp add: name_or_dash_def)

lemma matches_middle:
  "matches [one p, Rep q 0 hi, one r] s \<longleftrightarrow>
     2 \<le> length s \<and> p (hd s) \<and> r (last s) \<and> list_all q (butlast (tl s)) \<and> within_hi (length s - 2) hi"
proof (cases s)
  case Nil
  then show ?thesis by simp
next
  case (Cons c cs)
  have tail: "matches [Rep q 0 hi, one r] cs \<longleftrightarrow>
      cs \<noteq> [] \<and> r (last cs) \<and> list_all q (butlast cs) \<and> within_hi (length cs - 1) hi"
  proof (cases cs rule: rev_cases)
    case Nil
    then show ?thesis by (auto simp: matches_Cons simp del: matches.simps(2))
  next
    case (snoc ys y)
    have "matches [Rep q 0 hi, one r] cs \<longleftrightarrow>
        (\<exists>u v. cs = u @ v \<and> list_all q u \<and> within_hi (length u) hi \<and> (\<exists>z. v = [z] \<and> r z))"
      by (simp add: matches_Cons [of q] matches_single del: matches.simps(2) matches_one)
    also have "\<dots> \<longleftrightarrow> list_all q ys \<and> within_hi (length ys) hi \<and> r y"
      by (auto simp: snoc)
    finally show ?thesis by (auto simp: snoc)
  qed
  show ?thesis
    using tail by (cases cs) (auto simp: Cons simp del: matches.simps(2))
qed


lemma list_all_ends:
  "2 \<le> length s \<Longrightarrow> list_all q s \<longleftrightarrow> q (hd s) \<and> list_all q (butlast (tl s)) \<and> q (last s)"
proof -
  assume "2 \<le> length s"
  then obtain a t where s: "s = a # t" "t \<noteq> []" by (cases s; cases "tl s") auto
  then obtain b u where "t = u @ [b]" by (cases t rule: rev_cases) auto
  with s show ?thesis by auto
qed

lemma clusterNameRE_spec: "matches clusterNameRE s \<longleftrightarrow> cluster_name s"
proof -
  have "within_hi (length s - 2) (Some 38) \<longleftrightarrow> length s \<le> 40"
    by (auto simp: within_hi_def)
  then show ?thesis
    unfolding clusterNameRE_def dash_class matches_middle cluster_name_def
    using list_all_ends [of s name_or_dash] by auto
qed

lemma nodeGroupNameRE_alternatives:
  "list_ex (\<lambda>r. matches r s) nodeGroupNameRE \<longleftrightarrow>
     matches [one name_char, Rep name_or_dash 0 None, one name_char] s \<or> matches [one name_char] s"
  by (simp add: nodeGroupNameRE_def many_def dash_class del: matches.simps(2) matches_one)

lemma nodeGroupNameRE_spec: "list_ex (\<lambda>r. matches r s) nodeGroupNameRE \<longleftrightarrow> group_name s"
proof (cases "2 \<le> length s")
  case True
  then have "s \<noteq> []" "\<not> (\<exists>c. s = [c])" by auto
  with True show ?thesis
    unfolding nodeGroupNameRE_alternatives matches_middle matches_single group_name_def
    using list_all_ends [of s name_or_dash] by (auto simp: within_hi_def)
next
  case False
  then consider "s = []" | c where "s = [c]" by (cases s; cases "tl s") auto
  then show ?thesis
    unfolding nodeGroupNameRE_alternatives matches_middle matches_single group_name_def
    by cases auto
qed

text \<open>An instance type is a family, a dot and a size.\<close>

definition lower_or_digit :: "char \<Rightarrow> bool" where
  "lower_or_digit c \<longleftrightarrow> is_digit c \<or> is_lower c"

definition instance_type :: "string \<Rightarrow> bool" where
  "instance_type s \<longleftrightarrow>
     (\<exists>family size. s = family @ ''.'' @ size \<and> 2 \<le> length family \<and> is_lower (hd family) \<and>
        list_all lower_or_digit family \<and> size \<noteq> [] \<and> list_all lower_or_digit size)"

lemma matches_many1_end: "matches [many1 p] s \<longleftrightarrow> s \<noteq> [] \<and> list_all p s"
  by (auto simp: many1_def matches_Cons within_hi_def Suc_le_eq simp del: matches.simps(2))

lemma instanceTypeRE_spec: "matches instanceTypeRE s \<longleftrightarrow> instance_type s"
proof -
  have lod: "(\<lambda>c. is_lower c \<or> is_digit c) = lower_or_digit" "(\<lambda>c. is_digit c \<or> is_lower c) = lower_or_digit"
    by (auto simp: lower_or_digit_def fun_eq_iff)
  have "matches instanceTypeRE s \<longleftrightarrow>
      (\<exists>a u v. s = a # u @ CHR ''.'' # v \<and> is_lower a \<and> u \<noteq> [] \<and> list_all lower_or_digit u \<and>
         v \<noteq> [] \<and> list_all lower_or_digit v)"
  proof -
    have "matches [many1 lower_or_digit, one (\<lambda>c. c = CHR ''.''), many1 lower_or_digit] t \<longleftrightarrow>
        (\<exists>u v. t = u @ CHR ''.'' # v \<and> u \<noteq> [] \<and> list_all lower_or_digit u \<and>
           v \<noteq> [] \<and> list_all lower_or_digit v)" for t
      unfolding many1_def [of lower_or_digit] matches_Cons [of _ 1 None "one _ # _"] matches_first
        matches_many1_end [unfolded many1_def]
      by (fastforce simp: within_hi_def Suc_le_eq)
    then show ?thesis
      by (cases s) (auto simp: instanceTypeRE_def lod simp del: matches.simps(2))
  qed
  also have "\<dots> \<longleftrightarrow> instance_type s"
  proof
    assume "\<exists>a u v. s = a # u @ CHR ''.'' # v \<and> is_lower a \<and> u \<noteq> [] \<and> list_all lower_or_digit u \<and>
         v \<noteq> [] \<and> list_all lower_or_digit v"
    then obtain a u v where "s = a # u @ CHR ''.'' # v" "is_lower a" "u \<noteq> []"
        "list_all lower_or_digit u" "v \<noteq> []" "list_all lower_or_digit v" by blast
    then show "instance_type s"
      unfolding instance_type_def
      by (intro exI [of _ "a # u"] exI [of _ v]) (auto simp: lower_or_digit_def Suc_le_eq)
  next
    assume "instance_type s"
    then obtain f z where fz: "s = f @ ''.'' @ z" "2 \<le> length f" "is_lower (hd f)"
        "list_all lower_or_digit f" "z \<noteq> []" "list_all lower_or_digit z"
      by (auto simp: instance_type_def)
    then obtain a u where "f = a # u" "u \<noteq> []" by (cases f; cases "tl f") auto
    with fz show "\<exists>a u v. s = a # u @ CHR ''.'' # v \<and> is_lower a \<and> u \<noteq> [] \<and>
        list_all lower_or_digit u \<and> v \<noteq> [] \<and> list_all lower_or_digit v"
      by (intro exI [of _ a] exI [of _ u] exI [of _ z]) auto
  qed
  finally show ?thesis .
qed

subsection \<open>Versions\<close>

text \<open>A \<open><major>.<minor>\<close> version, ordered by its components.\<close>

datatype kversion = KVersion (kv_major: int) (kv_minor: int)

instantiation kversion :: linorder
begin

definition less_eq_kversion :: "kversion \<Rightarrow> kversion \<Rightarrow> bool" where
  "v \<le> w \<longleftrightarrow> kv_major v < kv_major w \<or> (kv_major v = kv_major w \<and> kv_minor v \<le> kv_minor w)"

definition less_kversion :: "kversion \<Rightarrow> kversion \<Rightarrow> bool" where
  "v < w \<longleftrightarrow> kv_major v < kv_major w \<or> (kv_major v = kv_major w \<and> kv_minor v < kv_minor w)"

instance
  by standard (auto simp: less_eq_kversion_def less_kversion_def kversion.expand)

end

definition version_floor :: kversion where
  "version_floor = KVersion 1 34"

definition version_text :: "kversion \<Rightarrow> string" where
  "version_text v = dec_int (kv_major v) @ ''.'' @ dec_int (kv_minor v)"

definition version_of :: "string \<Rightarrow> kversion option" where
  "version_of s = (case parseKubernetesVersion s of Inl _ \<Rightarrow> None | Inr (a, b) \<Rightarrow> Some (KVersion a b))"

lemma parse_floor: "parseKubernetesVersion MinKubernetesVersion = Inr (1, 34)"
  by (simp add: parseKubernetesVersion_def MinKubernetesVersion_def atoi_def parse_magnitude_def
      is_digit_code digit_val_def in_int64_def min_int64_def max_int64_def)

lemma validateKubernetesVersion_passes:
  "passes (validateKubernetesVersion s) \<longleftrightarrow> (\<exists>v. version_of s = Some v \<and> version_floor \<le> v)"
  by (auto simp: validateKubernetesVersion_def version_of_def parse_floor version_floor_def
      less_eq_kversion_def simp del: seq_checks.simps split: sum.splits)

lemma dec_int_no_dot: "CHR ''.'' \<notin> set (dec_int i)"
  using dec_nat_is_digit [of "CHR ''.''"] by (auto simp: dec_int_def is_digit_code)

lemma parse_version_text:
  assumes "in_int64 (kv_major v)" "in_int64 (kv_minor v)"
  shows "parseKubernetesVersion (version_text v) = Inr (kv_major v, kv_minor v)"
  using assms
  by (simp add: parseKubernetesVersion_def version_text_def split_on_append split_on_notin
      dec_int_no_dot atoi_dec_int)

subsection \<open>Addresses\<close>

text \<open>The IPv4 /24 blocks and the addresses inside them.\<close>

definition slash24 :: "string \<Rightarrow> (octet \<times> octet \<times> octet) option" where
  "slash24 cidr =
     (case parse_cidr cidr of
        None \<Rightarrow> None
      | Some (_, n) \<Rightarrow>
          if net_bits n = 32 \<and> net_ones n = 24
          then Some (net_ip n ! 0, net_ip n ! 1, net_ip n ! 2) else None)"

lemma requireSlash24_passes: "passes (requireSlash24 cidr) \<longleftrightarrow> slash24 cidr \<noteq> None"
  by (auto simp: requireSlash24_def slash24_def split: option.splits)

lemma slash24_Some:
  assumes "slash24 cidr = Some (w, x, y)"
  obtains a n where "parse_cidr cidr = Some (a, n)" "net_ip n = [w, x, y, 0]"
    "net_ones n = 24" "net_bits n = 32"
proof -
  from assms obtain a n where an: "parse_cidr cidr = Some (a, n)" "net_bits n = 32" "net_ones n = 24"
      "net_ip n ! 0 = w" "net_ip n ! 1 = x" "net_ip n ! 2 = y"
    by (auto simp: slash24_def split: option.splits if_splits)
  then obtain w' x' y' where "net_ip n = [w', x', y', 0]" by (elim parse_cidr_24)
  with an show ?thesis by (intro that [of a n]) auto
qed

text \<open>A usable self IP: an IPv4 address outside the first /27 of its /24.\<close>

definition self_ip_ok :: "string \<Rightarrow> bool" where
  "self_ip_ok s \<longleftrightarrow> (\<exists>a b c d. parse_ip4 s = Some [a, b, c, d] \<and> 32 \<le> unat d)"

lemma pool_mask [simp]: "selfIPPoolMask = 31"
  by (simp add: selfIPPoolMask_def SelfIPPoolPrefix_def)

lemma not_mask_blocks: "(d :: octet) AND NOT (mask 5) = push_bit 5 (drop_bit 5 d)"
  by (rule bit_eqI) (auto simp: bit_simps)

lemma block_start: "unat ((d :: octet) AND - 32) = 32 * (unat d div 32)"
proof -
  have "NOT (mask 5) = (- 32 :: octet)" by (simp add: mask_eq_exp_minus_1 not_eq_complement)
  then have "unat (d AND - 32) = unat (push_bit 5 (drop_bit 5 d))"
    using not_mask_blocks [of d] by simp
  also have "\<dots> = take_bit 8 (push_bit 5 (drop_bit 5 (unat d)))"
    using unat_octet_le [of d]
    by (simp add: unsigned_push_bit_eq unsigned_drop_bit_eq take_bit_nat_eq_self)
  also have "\<dots> = 32 * (unat d div 32)"
    using unat_octet_le [of d] by (simp add: take_bit_eq_mod push_bit_eq_mult drop_bit_eq_div)
  finally show ?thesis .
qed

lemma block_start_zero: "(d :: octet) AND - 32 = 0 \<longleftrightarrow> unat d < 32"
proof -
  have "d AND - 32 = 0 \<longleftrightarrow> unat (d AND - 32) = 0" by (simp add: unat_eq_0)
  also have "\<dots> \<longleftrightarrow> unat d < 32" by (simp only: block_start) auto
  finally show ?thesis .
qed

lemma range_check_passes: "passes (range_check err s) \<longleftrightarrow> self_ip_ok s"
proof (cases "parse_ip4 s")
  case None
  then show ?thesis by (simp add: range_check_def SelfIPPoolRange_def self_ip_ok_def)
next
  case (Some ip)
  then obtain a b c d where "ip = [a, b, c, d]"
    using parse_ip4_length length4_cases by metis
  with Some show ?thesis
    by (auto simp: range_check_def SelfIPPoolRange_def self_ip_ok_def Let_def block_start_zero)
qed

subsubsection \<open>The BIG-IP address\<close>

definition vip_ok :: "string \<Rightarrow> string \<Rightarrow> bool" where
  "vip_ok cidr vip \<longleftrightarrow>
     (\<exists>w x y h. slash24 cidr = Some (w, x, y) \<and> parse_ip4 vip = Some [w, x, y, h] \<and>
        4 \<le> unat h \<and> unat h \<le> 254 \<and> unat h \<notin> set bigipVEReservedOffsets)"

lemma parse_ip_ipv4_text: "parse_ip (ipv4_text a b c d) = Some (v4_in_v6_prefix @ [a, b, c, d])"
  by (simp add: parse_ip_def ipv4_text_def parse_addr_ipv4_string)

lemma to4_Some:
  "to4 v = Some b \<longleftrightarrow> v = b \<and> length b = 4 \<or> v = v4_in_v6_prefix @ b \<and> length b = 4"
proof -
  have "length v = 16 \<Longrightarrow> take 12 v = v4_in_v6_prefix \<Longrightarrow> v = v4_in_v6_prefix @ drop 12 v"
    by (metis append_take_drop_id)
  then show ?thesis by (auto simp: to4_def v4_in_v6_prefix_def)
qed

lemma ip_equal_mapped:
  assumes "to4 v = Some b" and "length b' = 4"
  shows "ip_equal v (v4_in_v6_prefix @ b') \<longleftrightarrow> b = b'"
  using assms by (auto simp: to4_Some ip_equal_def v4_in_v6_prefix_def)

lemma unat_of_nat_octet: "n < 256 \<Longrightarrow> unat (of_nat n :: octet) = n"
  by (simp add: unsigned_of_nat take_bit_nat_eq_self)

lemma collision_check_passes:
  assumes "to4 vipIP = Some [p, q, r, h]" and "list_all (\<lambda>n. n < 256) offs"
  shows "passes (collision_check vip vipIP cidr [p, q, r, 0] seen offs) \<longleftrightarrow> unat h \<notin> set offs"
  using assms(2)
proof (induction offs arbitrary: seen)
  case Nil
  then show ?case by simp
next
  case (Cons off offs)
  have "h = of_nat off \<longleftrightarrow> unat h = off"
    using Cons.prems unat_of_nat_octet [of off] by (auto simp: word_unat_eq_iff)
  then show ?case
    using Cons by (simp add: Let_def parse_ip_ipv4_text ip_equal_mapped [OF assms(1)])
qed

lemma reserved_are_octets: "list_all (\<lambda>n. n < 256) bigipVEReservedOffsets"
  by (simp add: bigipVEReservedOffsets_def)

lemma net_contains_24_parse:
  assumes n: "net_ip n = [w, x, y, 0]" "net_ones n = 24" "net_bits n = 32" and t: "to4 v = None"
  shows "\<not> net_contains n v"
proof -
  have "length v \<noteq> 4" using t by (auto simp: to4_def split: if_splits)
  with n t show ?thesis by (simp add: net_contains_def to4_def [of "[_, _, _, _]"])
qed

lemma vip_check_passes:
  assumes "slash24 cidr \<noteq> None"
  shows "passes (vip_check cidr vip) \<longleftrightarrow> vip_ok cidr vip"
proof -
  obtain w x y where sl: "slash24 cidr = Some (w, x, y)" using assms by auto
  then obtain a n where n: "parse_cidr cidr = Some (a, n)" "net_ip n = [w, x, y, 0]"
      "net_ones n = 24" "net_bits n = 32"
    by (rule slash24_Some)
  show ?thesis
  proof (cases "parse_ip vip")
    case None
    then show ?thesis by (auto simp: vip_check_def n vip_ok_def parse_ip4_def)
  next
    case (Some v)
    show ?thesis
    proof (cases "to4 v")
      case None
      then show ?thesis
        using net_contains_24_parse [OF n(2-4) None] Some n
        by (simp add: vip_check_def vip_ok_def parse_ip4_def)
    next
      case t: (Some b)
      then obtain p q r h where b: "b = [p, q, r, h]" using to4_length length4_cases by metis
      have base: "to4 (net_ip n) = Some [w, x, y, 0]" by (simp add: n to4_def)
      have "net_contains n v \<longleftrightarrow> p = w \<and> q = x \<and> r = y"
        using net_contains_24 [OF n(2-4)] t b by blast
      moreover have "passes (collision_check vip v cidr [p, q, r, 0] [] bigipVEReservedOffsets)
          \<longleftrightarrow> unat h \<notin> set bigipVEReservedOffsets"
        by (rule collision_check_passes) (simp_all add: t b reserved_are_octets)
      moreover have "unat h \<le> 3 \<or> unat h = 255 \<longleftrightarrow> \<not> (4 \<le> unat h \<and> unat h \<le> 254)"
        using unat_octet_le [of h] by auto
      ultimately show ?thesis
        by (auto simp: vip_check_def vip_ok_def n(1) Some t b sl base parse_ip4_def Let_def
            simp del: collision_check.simps)
    qed
  qed
qed

subsection \<open>Well-formed intents\<close>

definition subnet_ok :: "string list \<Rightarrow> SubnetSpec \<Rightarrow> bool" where
  "subnet_ok azs s \<longleftrightarrow> slash24 (sn_CIDR s) \<noteq> None \<and> sn_AZ s \<noteq> [] \<and> sn_AZ s \<in> set azs"

definition quorum_ok :: "NodeGroupSpec \<Rightarrow> bool" where
  "quorum_ok ng \<longleftrightarrow> IsGPU ng \<or> ng_DesiredSize ng \<le> 0 \<or> 3 \<le> ng_DesiredSize ng"

definition pattern_ok :: "Cluster \<Rightarrow> bool" where
  "pattern_ok c \<longleftrightarrow> cl_Pattern c = [] \<or>
     (IsBNKPattern c \<and>
      (\<exists>dp. nw_DataPath (cl_Network c) = Some dp \<and>
         subnet_ok (nw_AZs (cl_Network c)) (dp_External dp) \<and>
         (if HasInternalInterface c then subnet_ok (nw_AZs (cl_Network c)) (dp_Internal dp)
          else sn_CIDR (dp_Internal dp) = [] \<and> sn_AZ (dp_Internal dp) = [])) \<and>
      (\<forall>ng\<in>set (nodeGroups c). quorum_ok ng))"

definition selfips_ok :: "Cluster \<Rightarrow> bool" where
  "selfips_ok c \<longleftrightarrow>
     (\<forall>dp sip. nw_DataPath (cl_Network c) = Some dp \<and> dp_SelfIPs dp = Some sip \<and> IsBNKPattern c \<longrightarrow>
        (sip_External sip = [] \<or> self_ip_ok (sip_External sip)) \<and>
        (HasInternalInterface c \<longrightarrow> sip_Internal sip = [] \<or> self_ip_ok (sip_Internal sip)))"

definition spec_ok :: "ClusterSpec \<Rightarrow> bool" where
  "spec_ok cs \<longleftrightarrow> (\<exists>v. version_of (cs_KubernetesVersion cs) = Some v \<and> version_floor \<le> v) \<and>
     cs_NodeGroups cs \<noteq> [] \<and> (\<forall>ng\<in>set (cs_NodeGroups cs). group_name (ng_Name ng))"

definition bnk_ok :: "BnkSpec \<Rightarrow> bool" where
  "bnk_ok b \<longleftrightarrow> bnk_FARArchive b \<noteq> [] \<and> bnk_JWT b \<noteq> [] \<and>
     bnk_CertManagerVersion b \<in> {[], EmbeddedCertManagerVersion}"

definition public_index :: "Cluster \<Rightarrow> int \<Rightarrow> bool" where
  "public_index c i \<longleftrightarrow> 0 \<le> i \<and> i < int (length (sns_Public (nw_Subnets (cl_Network c))))"

definition jumphost_ok :: "Cluster \<Rightarrow> JumphostSpec \<Rightarrow> bool" where
  "jumphost_ok c jh \<longleftrightarrow>
     (jh_Enabled jh \<longrightarrow> IsBNKPattern c \<and> nw_DataPath (cl_Network c) \<noteq> None) \<and>
     (jh_InstanceType jh = [] \<or> instance_type (jh_InstanceType jh)) \<and>
     public_index c (jh_MgmtSubnetIndex jh)"

definition demo_ok :: "Cluster \<Rightarrow> DemoSpec \<Rightarrow> bool" where
  "demo_ok c d \<longleftrightarrow> jumphost_enabled c \<and>
     (demo_TTL d = [] \<or> (\<exists>t. parse_duration (demo_TTL d) = Some t \<and> 0 < t))"

definition bigip_ok :: "Cluster \<Rightarrow> BigIPVESpec \<Rightarrow> bool" where
  "bigip_ok c v \<longleftrightarrow> HasInternalInterface c \<and> jumphost_enabled c \<and> DemoEnabled c \<and>
     instance_type (ve_InstanceType v) \<and> ve_LicenseTier v \<in> {''Good'', ''Better'', ''Best''} \<and>
     (\<exists>dp. nw_DataPath (cl_Network c) = Some dp \<and> vip_ok (sn_CIDR (dp_External dp)) (ve_VIP v)) \<and>
     public_index c (ve_MgmtSubnetIndex v)"

definition group_ok :: "environment \<Rightarrow> Cluster \<Rightarrow> NodeGroupSpec \<Rightarrow> bool" where
  "group_ok env c ng \<longleftrightarrow>
     ng_CapacityType ng \<in> {[], ''on-demand'', ''spot''} \<and>
     (\<forall>t\<in>set (ng_Taints ng). taint_Effect t \<in> {''NoSchedule'', ''NoExecute'', ''PreferNoSchedule''}) \<and>
     (IsGPU ng \<longrightarrow> set (ng_AZs ng) \<subseteq>
        set (nw_AZs (cl_Network c)) - set (denyTable env (md_Region (cl_Metadata c))))"

definition sagemaker_ok :: "SageMakerSpec \<Rightarrow> bool" where
  "sagemaker_ok s \<longleftrightarrow> sm_Model s \<noteq> [] \<and>
     (sm_InstanceType s = [] \<or> matches sageMakerInstanceTypeRE (sm_InstanceType s)) \<and>
     0 \<le> sm_TensorParallelSize s \<and> sm_TensorParallelSize s \<le> 8 \<and> 0 \<le> sm_MaxModelLen s \<and>
     (\<forall>gpus. map_of smInstanceGPUCount (sm_InstanceType s) = Some gpus \<longrightarrow>
        sm_TensorParallelSize s \<le> int gpus)"

definition synthetic_ok :: "SyntheticSpec \<Rightarrow> bool" where
  "synthetic_ok s \<longleftrightarrow> syn_Profile s \<in> insert [] (set (map fst SyntheticProfiles)) \<and>
     0 \<le> syn_Replicas s \<and> 0 \<le> syn_TTFTBaseMs s \<and> 0 \<le> syn_PrefillUsPerToken s \<and>
     \<not> f_lt (syn_ITLMs s) (Fin 0) \<and> 0 \<le> syn_MaxNumSeqs s \<and> 0 \<le> syn_MaxModelLen s \<and>
     0 \<le> syn_KVCacheBlocks s \<and>
     (f_eq (syn_TimeFactorUnderLoad s) (Fin 0) \<or> \<not> f_lt (syn_TimeFactorUnderLoad s) (Fin 1))"

definition valid_intent :: "environment \<Rightarrow> Cluster \<Rightarrow> bool" where
  "valid_intent env c \<longleftrightarrow>
     cluster_name (md_Name (cl_Metadata c)) \<and> md_Region (cl_Metadata c) \<noteq> [] \<and>
     selfips_ok c \<and>
     nw_AZs (cl_Network c) \<noteq> [] \<and> sns_Public (nw_Subnets (cl_Network c)) \<noteq> [] \<and>
     sns_Private (nw_Subnets (cl_Network c)) \<noteq> [] \<and> nw_VPCCidr (cl_Network c) \<noteq> [] \<and>
     pred_option spec_ok (cl_ClusterSpec c) \<and> pred_option bnk_ok (cl_Bnk c) \<and>
     pattern_ok c \<and>
     pred_option (jumphost_ok c) (Option.bind (cl_Testing c) ts_Jumphost) \<and>
     pred_option (\<lambda>d. demo_Enabled d \<longrightarrow> demo_ok c d) (cl_Demo c) \<and>
     pred_option (\<lambda>v. ve_Enabled v \<longrightarrow> bigip_ok c v) (cl_BigIPVE c) \<and>
     pred_option (\<lambda>s. sm_Enabled s \<longrightarrow> sagemaker_ok s) (Option.bind (cl_AI c) ai_SageMaker) \<and>
     pred_option (\<lambda>s. syn_Enabled s \<longrightarrow> synthetic_ok s) (Option.bind (cl_AI c) ai_Synthetic) \<and>
     (\<forall>ng\<in>set (nodeGroups c). group_ok env c ng)"

subsection \<open>The validators implement the specification\<close>

lemma passes_check_some [check_simps]: "passes (check_some x f) \<longleftrightarrow> pred_option (\<lambda>y. passes (f y)) x"
  by (cases x) (simp_all add: check_some_def)

lemma passes_map_index [check_simps]:
  "passes (seq_checks (map_index f xs)) \<longleftrightarrow> (\<forall>i<length xs. passes (f i (xs ! i)))"
  unfolding passes_seq_checks set_map_index by blast

lemma selfip_checks_passes: "passes (selfip_checks c) \<longleftrightarrow> selfips_ok c"
  by (auto simp: selfip_checks_def selfips_ok_def range_check_passes
      simp del: seq_checks.simps split: bind_splits option.splits)

lemma cluster_spec_checks_passes: "passes (cluster_spec_checks cs) \<longleftrightarrow> spec_ok cs"
  by (simp add: cluster_spec_checks_def spec_ok_def validateKubernetesVersion_passes passes_seq_map
      nodeGroupNameRE_spec del: seq_checks.simps)

lemma validateBnk_passes: "passes (validateBnk b) \<longleftrightarrow> bnk_ok b"
  by (auto simp: validateBnk_def bnk_ok_def simp del: seq_checks.simps)

lemma quorum_checks_passes: "passes (quorum_checks c) \<longleftrightarrow> (\<forall>ng\<in>set (nodeGroups c). quorum_ok ng)"
  by (auto simp: quorum_checks_def quorum_ok_def passes_map_index all_set_conv_all_nth
      simp del: seq_checks.simps)

lemma slash24_nonempty: "slash24 [] = None"
  by (simp add: slash24_def parse_cidr_def cut_at_def)

lemma validatePattern_passes: "passes (validatePattern c) \<longleftrightarrow> pattern_ok c"
  by (auto simp: validatePattern_def pattern_ok_def subnet_ok_def requireSlash24_passes Let_def
      quorum_checks_passes slash24_nonempty simp del: seq_checks.simps split: option.splits)

lemma validateTesting_passes:
  "passes (validateTesting c) \<longleftrightarrow> pred_option (jumphost_ok c) (Option.bind (cl_Testing c) ts_Jumphost)"
  by (auto simp: validateTesting_def jumphost_ok_def instanceTypeRE_spec public_index_def Let_def
      simp del: seq_checks.simps split: option.splits)

lemma ValidateDemo_passes:
  "cl_Demo c = Some d \<Longrightarrow> demo_Enabled d \<Longrightarrow> passes (ValidateDemo c) \<longleftrightarrow> demo_ok c d"
  by (auto simp: ValidateDemo_def demo_ok_def simp del: seq_checks.simps split: option.splits)

lemma validateBigIPVE_passes:
  "pattern_ok c \<Longrightarrow> passes (validateBigIPVE c v) \<longleftrightarrow> bigip_ok c v"
  by (auto simp: validateBigIPVE_def bigip_ok_def instanceTypeRE_spec public_index_def Let_def
      pattern_ok_def subnet_ok_def vip_check_passes HasInternalInterface_def normalizePattern_def
      pattern_defs slash24_nonempty vip_ok_def
      simp del: seq_checks.simps split: option.splits if_splits)

lemma validateSageMaker_passes: "sm_Enabled s \<Longrightarrow> passes (validateSageMaker s) \<longleftrightarrow> sagemaker_ok s"
proof -
  have none: "map_of smInstanceGPUCount [] = None" by (simp add: smInstanceGPUCount_def)
  assume "sm_Enabled s"
  then show ?thesis
    by (auto simp: validateSageMaker_def sagemaker_ok_def none simp del: seq_checks.simps
        split: option.splits)
qed

lemma validateSynthetic_passes: "syn_Enabled s \<Longrightarrow> passes (validateSynthetic s) \<longleftrightarrow> synthetic_ok s"
proof -
  have keys: "map_of SyntheticProfiles p = None \<longleftrightarrow> p \<notin> set (map fst SyntheticProfiles)" for p
    by (simp add: map_of_eq_None_iff)
  assume "syn_Enabled s"
  then show ?thesis
    by (auto simp: validateSynthetic_def synthetic_ok_def keys f_of_int_def simp del: seq_checks.simps)
qed

lemma validateNodeGroups_passes:
  "passes (validateNodeGroups env c) \<longleftrightarrow> (\<forall>ng\<in>set (nodeGroups c). group_ok env c ng)"
proof -
  have azs: "passes (gpu_azs_check c den i ng) \<longleftrightarrow> set (ng_AZs ng) \<subseteq> set (nw_AZs (cl_Network c)) - set den"
    for den i ng
    by (auto simp: gpu_azs_check_def Let_def passes_seq_map simp del: seq_checks.simps)
  have taints: "passes (seq_checks (map_index (\<lambda>j t. reject_if (\<not> P t) (e j t)) ts)) \<longleftrightarrow> (\<forall>t\<in>set ts. P t)"
    for P and e :: "nat \<Rightarrow> NodeTaintSpec \<Rightarrow> group_error" and ts
    by (simp add: passes_map_index all_set_conv_all_nth del: seq_checks.simps)
  show ?thesis
    unfolding validateNodeGroups_def passes_map_index all_set_conv_all_nth [of "nodeGroups c"]
    by (auto simp: group_ok_def azs taints simp del: seq_checks.simps insert_iff)
qed

lemma passes_validate: "passes (validate env c) \<longleftrightarrow> valid_intent env c"
proof -
  have bigip: "pattern_ok c \<Longrightarrow>
      pred_option (\<lambda>v. passes (check_when (ve_Enabled v) (validateBigIPVE c v))) (cl_BigIPVE c) \<longleftrightarrow>
      pred_option (\<lambda>v. ve_Enabled v \<longrightarrow> bigip_ok c v) (cl_BigIPVE c)"
    by (simp add: validateBigIPVE_passes)
  have demo: "pred_option (\<lambda>d. passes (check_when (demo_Enabled d) (ValidateDemo c))) (cl_Demo c) \<longleftrightarrow>
      pred_option (\<lambda>d. demo_Enabled d \<longrightarrow> demo_ok c d) (cl_Demo c)"
    by (cases "cl_Demo c") (auto simp: ValidateDemo_passes)
  have testing: "pred_option (\<lambda>_. passes (validateTesting c)) (cl_Testing c) \<longleftrightarrow>
      pred_option (jumphost_ok c) (Option.bind (cl_Testing c) ts_Jumphost)"
    by (cases "cl_Testing c") (simp_all add: validateTesting_passes)
  have ai: "pred_option (\<lambda>s. passes (check_when (sm_Enabled s) (validateSageMaker s))) x \<longleftrightarrow>
        pred_option (\<lambda>s. sm_Enabled s \<longrightarrow> sagemaker_ok s) x"
      "pred_option (\<lambda>s. passes (check_when (syn_Enabled s) (validateSynthetic s))) y \<longleftrightarrow>
        pred_option (\<lambda>s. syn_Enabled s \<longrightarrow> synthetic_ok s) y" for x y
    by (cases x; simp add: validateSageMaker_passes) (cases y; simp add: validateSynthetic_passes)
  show ?thesis
    unfolding validate_def Let_def passes_seq_Cons passes_seq_Nil passes_check_some passes_reject_if passes_map_error
      clusterNameRE_spec selfip_checks_passes cluster_spec_checks_passes validateBnk_passes
      validatePattern_passes demo testing ai validateNodeGroups_passes valid_intent_def
    using bigip by auto
qed

text \<open>The error an invalid intent is reported with is that of its first failing check.\<close>

lemma validate_result:
  "snd (validate env c) = None \<longleftrightarrow> valid_intent env c"
  using passes_validate [of env c] by (simp add: passes_def)

lemma check_outcome:
  "snd (case r of (ws, Some e) \<Rightarrow> (ws, Inl (g e)) | (ws, None) \<Rightarrow> (ws, Inr x)) =
     (case snd r of Some e \<Rightarrow> Inl (g e) | None \<Rightarrow> Inr x)"
  by (simp split: prod.splits option.splits)

lemma Load_Inr:
  "snd (Load readFile decode env path) = Inr c \<longleftrightarrow>
     (\<exists>data c0. readFile path = Inr data \<and> decode data = Inr c0 \<and>
        valid_intent env (applyDefaults c0) \<and> c = (applyDefaults c0)\<lparr>cl_SourcePath := path\<rparr>)"
  unfolding Load_def Let_def validate_result [symmetric]
  by (auto simp: check_outcome split: sum.splits option.splits)

end
