(* ===== verification/IntentClaims.thy ===== *)
theory IntentClaims
  imports IntentSpec
begin

text \<open>
  Properties of the cluster intent: loading accepts exactly the well-formed intents,
  defaulting is stable and keeps what the operator wrote, and the addresses, versions and
  zones a loaded intent carries are usable. \<open>sample_intent\<close> is a dual-interface demo
  cluster with a GPU group and a BIG-IP, left to the defaults wherever that is possible.
\<close>

subsection \<open>A sample intent\<close>

definition sample_group :: NodeGroupSpec where
  "sample_group =
     \<lparr>ng_Name = ''bnk'', ng_InstanceType = [], ng_DesiredSize = 0, ng_MinSize = 0, ng_MaxSize = 0,
      ng_DiskSize = 0, ng_Labels = Map.empty, ng_GPU = False, ng_CapacityType = [], ng_Taints = [],
      ng_AZs = [], ng_OnDemandFallback = False\<rparr>"

definition sample_gpu :: NodeGroupSpec where
  "sample_gpu = sample_group\<lparr>ng_Name := ''gpu'', ng_GPU := True, ng_CapacityType := ''spot'',
     ng_AZs := [''ap-southeast-2a'']\<rparr>"

definition open_subnet :: "string \<Rightarrow> SubnetSpec" where
  "open_subnet c = \<lparr>sn_CIDR = c, sn_AZ = []\<rparr>"

definition sample_ve :: BigIPVESpec where
  "sample_ve = \<lparr>ve_Enabled = True, ve_InstanceType = [], ve_MgmtSubnetIndex = 0, ve_VIP = [],
     ve_LicenseTier = [], ve_Version = []\<rparr>"

definition sample_intent :: Cluster where
  "sample_intent =
     \<lparr>cl_APIVersion = ''awsbnkctl/v1'', cl_Kind = ''Cluster'',
      cl_Metadata = \<lparr>md_Name = ''syd-tracer'', md_Region = ''ap-southeast-2'', md_Labels = Map.empty\<rparr>,
      cl_Network =
        \<lparr>nw_VPCCidr = ''10.0.0.0/16'', nw_AZs = [],
         nw_Subnets = \<lparr>sns_Public = [open_subnet ''10.0.1.0/24''],
                       sns_Private = [open_subnet ''10.0.2.0/24'']\<rparr>,
         nw_NatGateways = 1,
         nw_DataPath = Some \<lparr>dp_External = open_subnet ''10.0.10.0/24'',
                             dp_Internal = open_subnet ''10.0.20.0/24'', dp_SelfIPs = None\<rparr>\<rparr>,
      cl_ClusterSpec = Some \<lparr>cs_KubernetesVersion = [], cs_NodeGroups = [sample_group, sample_gpu],
                            cs_EndpointAccess = None\<rparr>,
      cl_Pattern = ''host-device'', cl_Forge = None, cl_Bnk = None, cl_Addons = None,
      cl_Tags = Map.empty,
      cl_Testing = Some \<lparr>ts_Jumphost =
        Some \<lparr>jh_Enabled = True, jh_InstanceType = [], jh_MgmtSubnetIndex = 0\<rparr>\<rparr>,
      cl_Demo = Some \<lparr>demo_Enabled = True, demo_TTL = []\<rparr>,
      cl_BigIPVE = Some sample_ve, cl_AI = None, cl_SourcePath = []\<rparr>"

definition no_env :: environment where
  "no_env v = []"

lemma sample_intent_valid: "valid_intent no_env (applyDefaults sample_intent)"
proof -
  have "passes (validate no_env (applyDefaults sample_intent))" by code_simp
  then show ?thesis by (simp add: passes_validate)
qed

subsection \<open>Loading\<close>

text \<open>
  \<open>Load\<close> returns an intent exactly when the file can be read and decoded and its
  defaulted content is well formed (\<open>valid_intent\<close>, stated without the validators'
  parsers), and what it returns is that content with the path recorded.
\<close>

theorem Load_exact:
  "snd (Load readFile decode env path) = Inr c \<longleftrightarrow>
     (\<exists>data c0. readFile path = Inr data \<and> decode data = Inr c0 \<and>
        valid_intent env (applyDefaults c0) \<and> c = (applyDefaults c0)\<lparr>cl_SourcePath := path\<rparr>)"
  by (rule Load_Inr)


subsection \<open>Defaulting\<close>

text \<open>
  C30 Defaulting is stable: any number of further passes over a defaulted intent changes
  nothing.
\<close>

theorem defaults_stable: "(applyDefaults ^^ Suc n) c = applyDefaults c"
  by (rule intent_defaults.fill_iterate)

text \<open>A value is kept when it was set.\<close>

definition kept :: "'a \<Rightarrow> 'a \<Rightarrow> 'a \<Rightarrow> bool" where
  "kept zero x y \<longleftrightarrow> x = zero \<or> y = x"

text \<open>
  What defaulting may do to a node group: fill zero fields, raise a desired or minimum size
  of 1 to 3, raise the maximum, add a label.
\<close>

definition group_kept :: "NodeGroupSpec \<Rightarrow> NodeGroupSpec \<Rightarrow> bool" where
  "group_kept g h \<longleftrightarrow>
     ng_Name h = ng_Name g \<and> ng_GPU h = ng_GPU g \<and> ng_Taints h = ng_Taints g \<and> ng_AZs h = ng_AZs g \<and>
     ng_OnDemandFallback h = ng_OnDemandFallback g \<and>
     kept [] (ng_InstanceType g) (ng_InstanceType h) \<and>
     kept [] (ng_CapacityType g) (ng_CapacityType h) \<and> kept 0 (ng_DiskSize g) (ng_DiskSize h) \<and>
     (kept 0 (ng_DesiredSize g) (ng_DesiredSize h) \<or> ng_DesiredSize g = 1 \<and> ng_DesiredSize h = 3) \<and>
     (kept 0 (ng_MinSize g) (ng_MinSize h) \<or> ng_MinSize g = 1 \<and> ng_MinSize h = 3) \<and>
     (kept 0 (ng_MaxSize g) (ng_MaxSize h) \<or> ng_MaxSize g < ng_MaxSize h) \<and>
     ng_Labels g \<subseteq>\<^sub>m ng_Labels h"

lemma group_kept_default: "group_kept g (default_nodegroup bnk g)"
  by (auto simp: group_kept_def kept_def default_nodegroup_def)

lemma group_kept_first: "group_kept g (bnk_first_group (default_nodegroup bnk g))"
proof -
  let ?d = "default_nodegroup bnk g" and ?h = "bnk_first_group (default_nodegroup bnk g)"
  have fixed: "ng_Name ?h = ng_Name g" "ng_GPU ?h = ng_GPU g" "ng_Taints ?h = ng_Taints g"
      "ng_AZs ?h = ng_AZs g" "ng_OnDemandFallback ?h = ng_OnDemandFallback g"
      "kept [] (ng_InstanceType g) (ng_InstanceType ?h)" "kept [] (ng_CapacityType g) (ng_CapacityType ?h)"
      "kept 0 (ng_DiskSize g) (ng_DiskSize ?h)"
    by (simp_all add: bnk_first_group_def Let_def default_nodegroup_def kept_def)
  have "kept 0 (ng_DesiredSize g) (ng_DesiredSize ?h) \<or> ng_DesiredSize g = 1 \<and> ng_DesiredSize ?h = 3"
      "kept 0 (ng_MinSize g) (ng_MinSize ?h) \<or> ng_MinSize g = 1 \<and> ng_MinSize ?h = 3"
    by (simp_all add: bnk_first_group_def Let_def default_nodegroup_def kept_def)
  moreover have "ng_MaxSize ?d \<le> ng_MaxSize ?h"
    by (simp add: bnk_first_group_def Let_def)
  then have "kept 0 (ng_MaxSize g) (ng_MaxSize ?h) \<or> ng_MaxSize g < ng_MaxSize ?h"
    by (cases "ng_MaxSize g = 0") (auto simp: kept_def default_nodegroup_def)
  moreover have "ng_Labels g \<subseteq>\<^sub>m ng_Labels ?h"
    by (auto simp: bnk_first_group_def Let_def default_nodegroup_def map_le_def)
  ultimately show ?thesis using fixed by (simp add: group_kept_def)
qed

text \<open>
  Defaulting keeps what the operator wrote in the node groups: group by group, every set
  field survives, up to the documented raises of a quorum group (size 1 to 3, maximum to
  desired size) and added labels.
\<close>

theorem defaults_keep_groups: "list_all2 group_kept (nodeGroups c) (nodeGroups (applyDefaults c))"
proof (cases "nodeGroups c")
  case Nil
  then show ?thesis by (simp add: nodeGroups_applyDefaults)
next
  case (Cons g gs)
  have "list_all2 group_kept gs (map (default_nodegroup (IsBNKPattern c)) gs)"
    by (simp add: list_all2_conv_all_nth group_kept_default)
  with Cons show ?thesis
    by (simp add: nodeGroups_applyDefaults group_kept_default group_kept_first)
qed

text \<open>
  In a loaded BNK intent every non-GPU node group can hold the dSSM quorum: its desired
  size is at least 3, unless the operator wrote a negative size, which the code lets through.
\<close>

theorem loaded_quorum:
  assumes "valid_intent env (applyDefaults c)" and "IsBNKPattern c"
    and "ng \<in> set (nodeGroups (applyDefaults c))" and "\<not> IsGPU ng"
  shows "3 \<le> ng_DesiredSize ng \<or> ng_DesiredSize ng < 0"
proof -
  have "cl_Pattern (applyDefaults c) \<noteq> []"
    using assms(2) by (auto simp: IsBNKPattern_def pattern_defs)
  with assms have q: "quorum_ok ng"
    by (auto simp: valid_intent_def pattern_ok_def)
  have "ng_filled ng"
    using assms(3) default_nodegroup_filled bnk_first_group_filled
    by (auto simp: nodeGroups_applyDefaults split: list.splits if_splits)
  with q assms(4) show ?thesis by (auto simp: quorum_ok_def ng_filled_def)
qed

lemma loaded_quorum_witness:
  "\<exists>ng. ng \<in> set (nodeGroups (applyDefaults sample_intent)) \<and> \<not> IsGPU ng \<and>
     (3 \<le> ng_DesiredSize ng \<or> ng_DesiredSize ng < 0)"
proof -
  have bnk: "IsBNKPattern sample_intent" by code_simp
  have "nodeGroups (applyDefaults sample_intent) \<noteq> []" by code_simp
  then have mem: "nodeGroups (applyDefaults sample_intent) ! 0 \<in> set (nodeGroups (applyDefaults sample_intent))"
    by simp
  have "\<not> IsGPU (nodeGroups (applyDefaults sample_intent) ! 0)" by code_simp
  with loaded_quorum [OF sample_intent_valid bnk mem] mem show ?thesis by blast
qed

subsection \<open>Versions, self IPs and virtual addresses\<close>

text \<open>
  For every version an operator can write, the check rejects it exactly when it is below
  the floor 1.34 in the order of versions, and warns exactly on 1.x above the tested minor.
\<close>

theorem version_check_exact:
  assumes "in_int64 (kv_major v)" and "in_int64 (kv_minor v)"
  shows "validateKubernetesVersion (version_text v) =
    (if v < version_floor then fail (BelowFloor (version_text v))
     else warn_if (kv_major v = 1 \<and> 35 < kv_minor v) (AboveTested (version_text v)))"
  using parse_version_text [OF assms]
  by (auto simp: validateKubernetesVersion_def parse_floor less_kversion_def version_floor_def
      reject_if_def warn_if_def maxTestedKubernetesMinor_def pass_def fail_def warning_def)

lemma version_check_exact_witness:
  "validateKubernetesVersion (version_text (KVersion 1 36)) = warning (AboveTested (version_text (KVersion 1 36)))"
  using version_check_exact [of "KVersion 1 36"]
  by (simp add: in_int64_def min_int64_def max_int64_def less_kversion_def version_floor_def
      warn_if_def)

text \<open>
  The self-IP pool of an address is the 31 addresses from the start of its /27 block to
  the one before its last; it exists exactly for the IPv4 addresses outside the first block
  of their /24, which AWS reserves.
\<close>

theorem pool_range_exact:
  "SelfIPPoolRange s = Inr (start, stop) \<longleftrightarrow>
     (\<exists>a b c d k. parse_ip4 s = Some [a, b, c, d] \<and> k = unat d div 32 \<and> 1 \<le> k \<and>
        start = ipv4_text a b c (of_nat (32 * k)) \<and> stop = ipv4_text a b c (of_nat (32 * k + 30)))"
proof (cases "parse_ip4 s")
  case None
  then show ?thesis by (simp add: SelfIPPoolRange_def)
next
  case (Some ip)
  then obtain a b c d where ip: "ip = [a, b, c, d]"
    using parse_ip4_length length4_cases by metis
  define k where "k = unat d div 32"
  have first: "d AND - 32 = of_nat (32 * k)"
  proof -
    have "d AND - 32 = of_nat (unat (d AND - 32))" by simp
    then show ?thesis by (simp only: block_start k_def)
  qed
  have last: "(d AND - 32) + 31 - 1 = of_nat (32 * k + 30)"
    by (simp add: first)
  have "(d AND - 32 = 0) \<longleftrightarrow> \<not> 1 \<le> k" by (auto simp: block_start_zero k_def)
  then have "SelfIPPoolRange s =
      (if 1 \<le> k then Inr (ipv4_text a b c (of_nat (32 * k)), ipv4_text a b c (of_nat (32 * k + 30)))
       else Inl (ReservedBlock s))"
    using Some by (simp add: SelfIPPoolRange_def Let_def ip first [symmetric] last [symmetric]
        del: of_nat_add of_nat_mult)
  then show ?thesis
    using Some ip by (auto simp: k_def [symmetric] simp del: of_nat_add of_nat_mult)
qed

text \<open>\<open>DefaultVIP\<close> and \<open>DefaultJumphostExtIP\<close> on a /24 in dotted notation.\<close>

lemma parse_cidr_v4_text:
  assumes "parse_cidr cidr = Some (a, n)" and "net_bits n = 32"
  obtains t m b where "cut_at CHR ''/'' cidr = Some (t, m)" "parse_ipv4 t = Some b"
    "net_ip n = mask_ip b (cidr_mask (net_ones n) 32)"
proof -
  from assms obtain t m b where "cut_at CHR ''/'' cidr = Some (t, m)" "parse_addr t = Some (V4 b)"
      "net_ip n = mask_ip b (cidr_mask (net_ones n) 32)"
    by (auto simp: parse_cidr_def split: option.splits addr.splits if_splits)
  moreover from this(2) have "parse_ipv4 t = Some b"
    by (auto simp: parse_addr_def split: option.splits if_splits)
  ultimately show ?thesis using that by blast
qed

lemma parse_octet_digits: "parse_octet p = Some x \<Longrightarrow> p \<noteq> [] \<and> list_all is_digit p"
  by (auto simp: parse_octet_def split: if_splits)

lemma digits_no_dot: "list_all is_digit p \<Longrightarrow> CHR ''.'' \<notin> set p"
  by (auto simp: list_all_iff is_digit_code)

lemma parse_ip4_join:
  assumes "map parse_octet ps = map Some b" and "length b = 4"
  shows "parse_ip4 (join_with ''.'' ps) = Some b"
proof -
  have oct: "parse_octet p \<noteq> None" if "p \<in> set ps" for p
  proof -
    have "parse_octet p \<in> set (map parse_octet ps)" using that by simp
    with assms(1) show ?thesis by auto
  qed
  then have dig: "list_all is_digit p" if "p \<in> set ps" for p
    using that parse_octet_digits by fastforce
  have len: "length ps = 4" using assms by (metis length_map)
  then have ps: "ps \<noteq> []" by auto
  have "split_on CHR ''.'' (join_with ''.'' ps) = ps"
    using ps digits_no_dot dig by (intro split_join) auto
  have four: "parse_ipv4 (join_with ''.'' ps) = Some b"
  proof -
    from assms(2) obtain w x y z where "b = [w, x, y, z]" by (rule length4_cases)
    with assms(1) \<open>split_on CHR ''.'' (join_with ''.'' ps) = ps\<close> show ?thesis
      by (simp add: parse_ipv4_def)
  qed
  have chars: "is_digit c \<or> c = CHR ''.''" if "c \<in> set (join_with ''.'' ps)" for c
    using that set_join_with [of "''.''" ps] dig by (fastforce simp: list_all_iff)
  have dot: "CHR ''.'' \<in> set (join_with ''.'' ps)"
    using len by (auto simp: length_Suc_conv numeral_eq_Suc)
  let ?P = "\<lambda>c. c = CHR ''.'' \<or> c = CHR '':'' \<or> c = CHR ''%''"
  have "find ?P (join_with ''.'' ps) = Some (CHR ''.'')"
  proof (cases "find ?P (join_with ''.'' ps)")
    case None
    then show ?thesis using dot by (auto simp: find_None_iff)
  next
    case (Some c)
    then have "c \<in> set (join_with ''.'' ps)" "?P c" by (auto dest: find_Some_in)
    then have "c = CHR ''.''" using chars [of c] by (auto simp: is_digit_code)
    with Some show ?thesis by simp
  qed
  then have "parse_addr (join_with ''.'' ps) = Some (V4 b)"
    using four by (simp add: parse_addr_def)
  then show ?thesis
    using assms(2) by (simp add: parse_ip4_def parse_ip_def to4_def v4_in_v6_prefix_def)
qed

lemma parse_ipv4_parts:
  assumes "parse_ipv4 t = Some [w, x, y, z]"
  obtains p q r s where "split_on CHR ''.'' t = [p, q, r, s]" "parse_octet p = Some w"
    "parse_octet q = Some x" "parse_octet r = Some y"
proof -
  from assms have "\<exists>p q r s. split_on CHR ''.'' t = [p, q, r, s] \<and> parse_octet p = Some w \<and>
      parse_octet q = Some x \<and> parse_octet r = Some y"
    by (auto simp: parse_ipv4_def map_eq_Cons_conv split: list.splits option.splits)
  then show ?thesis using that by blast
qed

lemma host_on_external_24:
  assumes dp: "nw_DataPath (cl_Network c) = Some dp"
    and net: "slash24 (sn_CIDR (dp_External dp)) = Some (w, x, y)"
    and host: "parse_octet host = Some h"
  shows "\<exists>g. host_on_external host c = Inr g \<and> parse_ip4 g = Some [w, x, y, h]"
proof -
  let ?cidr = "sn_CIDR (dp_External dp)"
  from net obtain a n where n: "parse_cidr ?cidr = Some (a, n)" "net_ip n = [w, x, y, 0]"
      "net_ones n = 24" "net_bits n = 32"
    by (rule slash24_Some)
  from n(1,4) obtain t m b where t: "cut_at CHR ''/'' ?cidr = Some (t, m)" "parse_ipv4 t = Some b"
      "net_ip n = mask_ip b (cidr_mask (net_ones n) 32)"
    by (rule parse_cidr_v4_text)
  from t(2) have "length b = 4" by (rule parse_ipv4_length)
  then obtain w' x' y' z where b: "b = [w', x', y', z]" by (rule length4_cases)
  with t(3) n have "w' = w" "x' = x" "y' = y" by (simp_all add: mask_ip_def)
  with t(2) b obtain p q r s where parts: "split_on CHR ''.'' t = [p, q, r, s]"
      "parse_octet p = Some w" "parse_octet q = Some x" "parse_octet r = Some y"
    using parse_ipv4_parts by metis
  from t(1) obtain i where i: "index_byte CHR ''/'' ?cidr = Some i" "t = take i ?cidr"
    by (auto simp: cut_at_def)
  have "i \<noteq> 0"
  proof
    assume "i = 0"
    with i parts have "[p, q, r, s] = [[]]" by simp
    then show False by simp
  qed
  moreover have "?cidr \<noteq> []" using net slash24_nonempty by auto
  ultimately have "host_on_external host c = Inr (join_with ''.'' [p, q, r, host])"
    using dp i parts by (simp add: host_on_external_def Let_def)
  moreover have "parse_ip4 (join_with ''.'' [p, q, r, host]) = Some [w, x, y, h]"
    by (rule parse_ip4_join) (simp_all add: parts host)
  ultimately show ?thesis by blast
qed

lemma parse_octet_100: "parse_octet ''100'' = Some 100" and parse_octet_200: "parse_octet ''200'' = Some 200"
  by code_simp+

text \<open>
  C31 The BIG-IP address of a loaded intent is a usable host of the external /24: it has an
  offset from 4 to 254, and it is neither the default Gateway VIP nor the jumphost's
  address nor one of the demo VIPs or the TMM self-IP default of that subnet.
\<close>

theorem bigip_vip_free:
  assumes "valid_intent env c" and "cl_BigIPVE c = Some v" and "ve_Enabled v"
  shows "\<exists>w x y h gw jh. parse_ip4 (ve_VIP v) = Some [w, x, y, h] \<and> 4 \<le> unat h \<and> unat h \<le> 254 \<and>
    DefaultVIP c = Inr gw \<and> parse_ip4 gw = Some [w, x, y, 100] \<and> gw \<noteq> ve_VIP v \<and>
    DefaultJumphostExtIP c = Inr jh \<and> parse_ip4 jh = Some [w, x, y, 200] \<and> jh \<noteq> ve_VIP v \<and>
    unat h \<notin> {50, 100, 110, 111, 112, 113, 200, 240}"
proof -
  from assms obtain dp w x y h where
    dp: "nw_DataPath (cl_Network c) = Some dp" "slash24 (sn_CIDR (dp_External dp)) = Some (w, x, y)"
    and h: "parse_ip4 (ve_VIP v) = Some [w, x, y, h]" "4 \<le> unat h" "unat h \<le> 254"
      "unat h \<notin> {50, 100, 110, 111, 112, 113, 200, 240}"
    by (auto simp: valid_intent_def bigip_ok_def vip_ok_def bigipVEReservedOffsets_def)
  obtain gw where gw: "DefaultVIP c = Inr gw" "parse_ip4 gw = Some [w, x, y, 100]"
    using host_on_external_24 [OF dp parse_octet_100] by (auto simp: DefaultVIP_def)
  obtain jh where jh: "DefaultJumphostExtIP c = Inr jh" "parse_ip4 jh = Some [w, x, y, 200]"
    using host_on_external_24 [OF dp parse_octet_200] by (auto simp: DefaultJumphostExtIP_def)
  have "h \<noteq> 100" "h \<noteq> 200" using h(4) by auto
  then have "gw \<noteq> ve_VIP v" "jh \<noteq> ve_VIP v" using gw jh h(1) by auto
  with h gw jh show ?thesis by blast
qed

lemma sample_defaulted_ve:
  "cl_BigIPVE (applyDefaults sample_intent) = Some (default_bigip sample_ve)"
  "ve_Enabled (default_bigip sample_ve)"
  by (simp_all add: applyDefaults_eq Let_def sample_intent_def default_bigip_def sample_ve_def)

lemma bigip_vip_free_witness:
  "\<exists>gw jh. DefaultVIP (applyDefaults sample_intent) = Inr gw \<and> gw \<noteq> ve_VIP (default_bigip sample_ve) \<and>
     DefaultJumphostExtIP (applyDefaults sample_intent) = Inr jh \<and> jh \<noteq> ve_VIP (default_bigip sample_ve)"
  using bigip_vip_free [OF sample_intent_valid sample_defaulted_ve] by blast

text \<open>
  Where the operator leaves the self IPs open, a BNK pattern gets \<open>.240\<close> of its external
  /24, and that address always has a pool, \<open>.224\<close> to \<open>.254\<close>.
\<close>

theorem derived_self_ip:
  assumes "IsBNKPattern c" and "nw_DataPath (cl_Network c) = Some dp" and "dp_SelfIPs dp = None"
    and "slash24 (sn_CIDR (dp_External dp)) = Some (w, x, y)"
  shows "\<exists>dp' sip. nw_DataPath (cl_Network (applyDefaults c)) = Some dp' \<and> dp_SelfIPs dp' = Some sip \<and>
    sip_External sip = ipv4_text w x y 240 \<and> sip_PrefixLen sip = 24 \<and>
    SelfIPPoolRange (sip_External sip) = Inr (ipv4_text w x y 224, ipv4_text w x y 254)"
proof -
  let ?ext = "sn_CIDR (dp_External dp)"
  from assms(4) obtain a n where n: "parse_cidr ?ext = Some (a, n)" "net_ip n = [w, x, y, 0]"
      "net_ones n = 24" "net_bits n = 32"
    by (rule slash24_Some)
  have derive: "DeriveSelfIP ?ext 240 = (ipv4_text w x y 240, 24)"
    by (simp add: DeriveSelfIP_def n to4_def)
  have nonempty: "ipv4_text w x y 240 \<noteq> []"
    by (simp add: ipv4_text_def ipv4_string_def)
  have pool: "SelfIPPoolRange (ipv4_text w x y 240) = Inr (ipv4_text w x y 224, ipv4_text w x y 254)"
  proof -
    have "parse_ip4 (ipv4_text w x y 240) = Some [w, x, y, 240]"
      by (simp add: ipv4_text_def parse_ip4_string)
    then show ?thesis by (simp add: SelfIPPoolRange_def)
  qed
  have ext: "sip_External (sip_of (default_selfips i d)) = ipv4_text w x y 240"
      "sip_PrefixLen (sip_of (default_selfips i d)) = 24"
    if "sn_CIDR (dp_External d) = ?ext" "dp_SelfIPs d = None" for i d
  proof -
    have "sip_of d = zero_selfips" using that(2) by (simp add: sip_of_def)
    then show "sip_External (sip_of (default_selfips i d)) = ipv4_text w x y 240"
        "sip_PrefixLen (sip_of (default_selfips i d)) = 24"
      using that(1) derive nonempty
      by (simp_all add: sip_of_default Let_def zero_selfips_def derive_sip_def split: prod.splits)
  qed
  define nw where "nw = default_subnet_azs (default_azs (md_Region (cl_Metadata c)) (cl_Network c))"
  have "\<exists>d. nw_DataPath nw = Some d \<and> sn_CIDR (dp_External d) = ?ext \<and> dp_SelfIPs d = None"
    using assms(2,3) by (simp add: nw_def default_subnet_azs_def default_azs_def)
  then obtain d where d: "nw_DataPath nw = Some d" "sn_CIDR (dp_External d) = ?ext" "dp_SelfIPs d = None"
    by blast
  have "nw_DataPath (cl_Network (applyDefaults c)) = Some (default_selfips (HasInternalInterface c) d)"
    using assms(1) d by (simp add: applyDefaults_eq Let_def nw_def default_network_selfips_def)
  moreover have "dp_SelfIPs (default_selfips i d) = Some (sip_of (default_selfips i d))" for i
    by (simp add: sip_of_def default_selfips_eq Let_def)
  ultimately show ?thesis using ext [OF d(2,3)] pool by auto
qed

lemma derived_self_ip_witness:
  "\<exists>dp' sip. nw_DataPath (cl_Network (applyDefaults sample_intent)) = Some dp' \<and>
     dp_SelfIPs dp' = Some sip \<and> sip_External sip = ipv4_text 10 0 10 240"
proof -
  have "IsBNKPattern sample_intent" by code_simp
  moreover have "slash24 (sn_CIDR (open_subnet ''10.0.10.0/24'')) = Some (10, 0, 10)" by code_simp
  ultimately show ?thesis
    using derived_self_ip [of sample_intent "the (nw_DataPath (cl_Network sample_intent))" 10 0 10]
    by (auto simp: sample_intent_def)
qed

subsection \<open>GPU zones\<close>

text \<open>
  A GPU node group of a loaded intent names only zones of the cluster, and none the
  static capacity table denies in its region, whatever \<open>AWSBNKCTL_GPU_AZ_DENY\<close> says.
\<close>

theorem gpu_zones_allowed:
  assumes "valid_intent env c" and "ng \<in> set (nodeGroups c)" and "IsGPU ng"
  shows "set (ng_AZs ng) \<subseteq> set (nw_AZs (cl_Network c)) - set (gpuInstanceAZDeny (md_Region (cl_Metadata c)))"
  using assms by (fastforce simp: valid_intent_def group_ok_def denyTable_def Let_def split: if_splits)

lemma gpu_zones_allowed_witness:
  "\<exists>ng. ng \<in> set (nodeGroups (applyDefaults sample_intent)) \<and> IsGPU ng \<and> ''ap-southeast-2b'' \<notin> set (ng_AZs ng)"
proof -
  have mem: "nodeGroups (applyDefaults sample_intent) ! 1 \<in> set (nodeGroups (applyDefaults sample_intent))"
    by (rule nth_mem) code_simp
  have gpu: "IsGPU (nodeGroups (applyDefaults sample_intent) ! 1)" by code_simp
  have "gpuInstanceAZDeny (md_Region (cl_Metadata (applyDefaults sample_intent))) = [''ap-southeast-2b'']"
    by code_simp
  with gpu_zones_allowed [OF sample_intent_valid mem gpu] mem gpu show ?thesis by auto
qed

text \<open>The text an operator writes for a table of denied zones.\<close>

definition deny_text :: "(string \<times> string list) list \<Rightarrow> string" where
  "deny_text tbl = join_with '';'' (map (\<lambda>(r, azs). r @ '':'' @ join_with '','' azs) tbl)"

definition zone_name :: "string \<Rightarrow> bool" where
  "zone_name s \<longleftrightarrow> s \<noteq> [] \<and> list_all name_or_dash s"

definition deny_char :: "char \<Rightarrow> bool" where
  "deny_char c \<longleftrightarrow> name_or_dash c \<or> c = CHR '':'' \<or> c = CHR '',''"

lemma space_not_deny: "w \<in> set space_seqs \<Longrightarrow> \<not> list_all deny_char w"
proof -
  have "list_all (\<lambda>w. \<not> list_all deny_char w) space_seqs" by code_simp
  then show "w \<in> set space_seqs \<Longrightarrow> \<not> list_all deny_char w" by (simp add: list_all_iff)
qed

lemma has_prefix_set: "has_prefix s w \<Longrightarrow> set w \<subseteq> set s"
  by (metis has_prefix_def set_take_subset)

lemma trim_deny: "list_all deny_char s \<Longrightarrow> trim_space s = s"
proof -
  assume s: "list_all deny_char s"
  have pre: "starts_clean t" if "set t \<subseteq> set s" for t
    unfolding starts_clean_def
  proof
    fix w assume w: "w \<in> set space_seqs"
    show "\<not> has_prefix t w"
    proof
      assume "has_prefix t w"
      then have "list_all deny_char w" using s that has_prefix_set by (fastforce simp: list_all_iff)
      with space_not_deny [OF w] show False by simp
    qed
  qed
  have "ends_clean s"
    unfolding ends_clean_def has_suffix_def
  proof
    fix w assume w: "w \<in> set space_seqs"
    show "\<not> has_prefix (rev s) (rev w)"
    proof
      assume "has_prefix (rev s) (rev w)"
      then have "list_all deny_char w" using s has_prefix_set [of "rev s" "rev w"]
        by (fastforce simp: list_all_iff)
      with space_not_deny [OF w] show False by simp
    qed
  qed
  with pre [of s] show ?thesis by (simp add: trim_space_clean)
qed

lemma zone_name_chars:
  assumes "zone_name s"
  shows "list_all deny_char s" "CHR '';'' \<notin> set s" "CHR '':'' \<notin> set s" "CHR '','' \<notin> set s"
proof -
  have "\<not> name_or_dash (CHR '';'')" "\<not> name_or_dash (CHR '':'')" "\<not> name_or_dash (CHR '','')"
    by code_simp+
  with assms show "list_all deny_char s" "CHR '';'' \<notin> set s" "CHR '':'' \<notin> set s" "CHR '','' \<notin> set s"
    by (auto simp: zone_name_def deny_char_def list_all_iff)
qed

definition zone_entry :: "string \<times> string list \<Rightarrow> bool" where
  "zone_entry e \<longleftrightarrow> zone_name (fst e) \<and> list_all zone_name (snd e)"

definition entry_text :: "string \<times> string list \<Rightarrow> string" where
  "entry_text e = fst e @ '':'' @ join_with '','' (snd e)"

lemma entry_text_chars:
  assumes e: "zone_entry e"
  shows "list_all deny_char (entry_text e) \<and> CHR '';'' \<notin> set (entry_text e)"
proof -
  have "deny_char c \<and> c \<noteq> CHR '';''" if "c \<in> set (entry_text e)" for c
  proof -
    from that consider "c \<in> set (fst e)" | "c = CHR '':''" | "c = CHR '',''"
      | z where "z \<in> set (snd e)" "c \<in> set z"
      using set_join_with [of "'',''" "snd e"] by (auto simp: entry_text_def)
    then show ?thesis
    proof cases
      case 1
      with e zone_name_chars(1,2) [of "fst e"] show ?thesis
        by (auto simp: zone_entry_def list_all_iff)
    next
      case (4 z)
      with e zone_name_chars(1,2) [of z] show ?thesis
        by (auto simp: zone_entry_def list_all_iff)
    qed (simp_all add: deny_char_def)
  qed
  then show ?thesis by (auto simp: list_all_iff)
qed

lemma deny_entry_text: "zone_entry e \<Longrightarrow> deny_entry (entry_text e) = Some e"
proof -
  assume e: "zone_entry e"
  have trim: "trim_space z = z" if "z \<in> set (snd e)" for z
  proof (rule trim_deny, rule zone_name_chars(1))
    show "zone_name z" using e that by (simp add: zone_entry_def list_all_iff)
  qed
  have zones: "map trim_space (snd e) = snd e" "filter (\<lambda>a. a \<noteq> []) (snd e) = snd e"
    using e by (auto simp: trim zone_entry_def list_all_iff zone_name_def intro: map_idI)
  have split: "snd e \<noteq> [] \<Longrightarrow> split_on CHR '','' (join_with '','' (snd e)) = snd e"
    using e zone_name_chars(4) by (intro split_join) (auto simp: zone_entry_def list_all_iff)
  have "filter (\<lambda>a. a \<noteq> []) (map trim_space (split_on CHR '','' (join_with '','' (snd e)))) = snd e"
  proof (cases "snd e = []")
    case True
    then show ?thesis by simp
  next
    case False
    show ?thesis by (simp only: split [OF False] zones)
  qed
  moreover have "trim_space (fst e) = fst e" "CHR '':'' \<notin> set (fst e)"
    using e zone_name_chars trim_deny by (auto simp: zone_entry_def)
  moreover have "trim_space (entry_text e) = entry_text e"
    using entry_text_chars [OF e] trim_deny by blast
  ultimately show ?thesis
    by (simp add: deny_entry_def entry_text_def cut_at_append)
qed

text \<open>
  \<open>AWSBNKCTL_GPU_AZ_DENY\<close> round-trips: the table an operator writes in the documented
  form \<open>region:az1,az2;region2:az3\<close> is the table the validator reads, for every region.
\<close>

theorem deny_env_roundtrip:
  assumes "list_all zone_entry tbl"
  shows "parseGPUAZDenyEnv (join_with '';'' (map entry_text tbl)) region =
    concat (map snd (filter (\<lambda>e. fst e = region) tbl))"
proof (cases "tbl = []")
  case True
  have "deny_entry [] = None" by (simp add: deny_entry_def cut_at_def)
  with True show ?thesis by (simp add: parseGPUAZDenyEnv_def)
next
  case False
  have "split_on CHR '';'' (join_with '';'' (map entry_text tbl)) = map entry_text tbl"
    using False assms entry_text_chars by (intro split_join) (auto simp: list_all_iff)
  moreover have "List.map_filter deny_entry (map entry_text tbl) = tbl"
    using assms deny_entry_text by (induction tbl) (auto simp: map_filter_simps)
  ultimately show ?thesis by (simp add: parseGPUAZDenyEnv_def)
qed

lemma deny_env_roundtrip_witness:
  "parseGPUAZDenyEnv ''us-east-1:us-east-1e,us-east-1f;us-west-2:us-west-2d'' ''us-east-1'' = [''us-east-1e'', ''us-east-1f'']"
proof -
  let ?t = "[(''us-east-1'', [''us-east-1e'', ''us-east-1f'']), (''us-west-2'', [''us-west-2d''])]"
  have "list_all zone_entry ?t" by code_simp
  from deny_env_roundtrip [OF this, of "''us-east-1''"] show ?thesis by (simp add: entry_text_def)
qed

subsection \<open>Releases and the simulator\<close>

text \<open>
  The FLO chart a cluster installs is the first non-empty of: the \<open>addons.flo.version\<close>
  pin, \<open>bnk.floVersion\<close>, the chart paired with the manifest version, the default chart.
\<close>

theorem flo_priority:
  "Some (FLOVersion (Some c)) =
     find (\<lambda>v. v \<noteq> [])
       [flo_pin c,
        case cl_Bnk c of None \<Rightarrow> [] | Some b \<Rightarrow> bnk_FLOVersion b,
        case Option.bind (cl_Bnk c) (\<lambda>b. FLOChartFor (bnk_ManifestVersion b)) of None \<Rightarrow> [] | Some v \<Rightarrow> v,
        ''v2.30.0-0.5.2'']"
proof -
  have chart: "v \<noteq> []" if "FLOChartFor m = Some v" for m v
    using that by (auto simp: FLOChartFor_def KnownReleases_def split: if_splits)
  have none: "FLOChartFor [] = None" by (simp add: FLOChartFor_def KnownReleases_def)
  show ?thesis
    using chart none by (auto simp: FLOVersion_def DefaultFLOVersion_def split: option.splits)
qed

text \<open>
  The simulator always gets usable parameters: from a well-formed \<open>ai.synthetic\<close> block,
  or none at all, every resolved timing and size field is positive, the load factor is at
  least 1 or not a number, and model, image and profile are set.
\<close>

theorem resolved_synthetic_usable:
  assumes "pred_option synthetic_ok (Option.bind (Option.bind oc cl_AI) ai_Synthetic)"
  defines "s \<equiv> ResolvedSynthetic oc"
  shows "0 < syn_Replicas s \<and> 0 < syn_TTFTBaseMs s \<and> 0 < syn_PrefillUsPerToken s \<and>
    \<not> f_le (syn_ITLMs s) (Fin 0) \<and> 0 < syn_MaxNumSeqs s \<and> 0 < syn_MaxModelLen s \<and>
    0 < syn_KVCacheBlocks s \<and> \<not> f_lt (syn_TimeFactorUnderLoad s) (Fin 1) \<and>
    syn_Model s \<noteq> [] \<and> syn_Image s \<noteq> [] \<and> syn_ServedModelName s \<noteq> []"
proof -
  obtain s0 where s: "s = applySyntheticDefaults s0" and ok: "synthetic_ok s0"
  proof (cases "Option.bind (Option.bind oc cl_AI) ai_Synthetic")
    case None
    then have "s = applySyntheticDefaults zero_synthetic" by (simp add: s_def ResolvedSynthetic_def)
    moreover have "synthetic_ok zero_synthetic" by code_simp
    ultimately show ?thesis by (rule that)
  next
    case (Some y)
    with assms(1) show ?thesis by (intro that [of y]) (simp_all add: s_def ResolvedSynthetic_def)
  qed
  define p where "p = synthetic_profile s0"
  have "fill_from (\<lambda>x. x = []) DefaultSyntheticProfile (syn_Profile s0) \<in> set (map fst SyntheticProfiles)"
  proof (cases "syn_Profile s0 = []")
    case True
    moreover have "DefaultSyntheticProfile \<in> set (map fst SyntheticProfiles)" by code_simp
    ultimately show ?thesis by (simp add: fill_from_def)
  next
    case False
    with ok have "syn_Profile s0 \<in> set (map fst SyntheticProfiles)"
      unfolding synthetic_ok_def by blast
    with False show ?thesis by (simp add: fill_from_def)
  qed
  then have prof: "complete_profile p"
    unfolding p_def synthetic_profile_def by (rule profile_of_complete)
  have int: "0 < fill_from (\<lambda>x. x \<le> 0) d x" if "0 < d" for d x :: int
    using that by (simp add: fill_from_def)
  have str: "fill_from (\<lambda>x. x = []) d x \<noteq> []" if "d \<noteq> []" for d x :: string
    using that by (simp add: fill_from_def)
  have "\<not> f_le (fill_from (\<lambda>x. f_le x (Fin 0)) d x) (Fin 0)" if "f_lt (Fin 0) d" for d x
    using that by (cases d) (auto simp: fill_from_def f_le_def)
  moreover have "\<not> f_lt (fill_from (\<lambda>x. f_le x (Fin 0)) d x) (Fin 1)"
    if "\<not> f_lt d (Fin 1)" "f_eq x (Fin 0) \<or> \<not> f_lt x (Fin 1)" for d x
    using that by (auto simp: fill_from_def f_le_def)
  moreover have "DefaultSyntheticImage \<noteq> []" by code_simp
  ultimately show ?thesis
    unfolding s applySyntheticDefaults_eq Let_def p_def [symmetric]
    using prof ok by (simp add: int str complete_profile_def synthetic_ok_def)
qed

lemma resolved_synthetic_usable_witness: "0 < syn_KVCacheBlocks (ResolvedSynthetic None)"
  using resolved_synthetic_usable [of None] by simp

end
