(* ===== verification/StateEnv.thy ===== *)
theory StateEnv
  imports GoStrings
begin

text \<open>
  \<open>internal/aws/state/state.go\<close>: the IDs cache \<open>state.env\<close>. A \<open>State\<close> is the record of
  the code; files are a map from directory and file name to content. \<open>bufio.Scanner\<close> is
  modelled with its 64 KiB token limit. What the operating system may do is a parameter:
  the result of opening and reading, and for \<open>Save\<close> a \<open>save_faults\<close> record; \<open>Save\<close> yields
  the file system after each system call, so that a crash between two calls is a member of
  the list.
\<close>

subsection \<open>State in memory\<close>

(* src/internal/aws/state/state.go:32-44 State *)
record state =
  st_dir :: string
  st_data :: "string \<rightharpoonup> string"
  st_readOnly :: bool

(* src/internal/aws/state/state.go:89-91 State.Get *)
definition Get :: "state \<Rightarrow> string \<Rightarrow> string" where
  "Get s key = (case st_data s key of Some v \<Rightarrow> v | None \<Rightarrow> [])"

(* src/internal/aws/state/state.go:94-100 State.All *)
definition All :: "state \<Rightarrow> string \<rightharpoonup> string" where
  "All s = st_data s"

(* src/internal/aws/state/state.go:103-105 State.Set *)
definition Set_key :: "string \<Rightarrow> string \<Rightarrow> state \<Rightarrow> state" where
  "Set_key key value s = s\<lparr>st_data := (st_data s)(key \<mapsto> value)\<rparr>"

(* src/internal/aws/state/state.go:111-113 State.MarkReadOnly *)
definition MarkReadOnly :: "state \<Rightarrow> state" where
  "MarkReadOnly s = s\<lparr>st_readOnly := True\<rparr>"

(* src/internal/aws/state/state.go:116-118 State.ReadOnly *)
definition ReadOnly :: "state \<Rightarrow> bool" where
  "ReadOnly s = st_readOnly s"

type_synonym fpath = "string \<times> string"
type_synonym files = "fpath \<rightharpoonup> string"

(* src/internal/aws/state/state.go:160-162 State.path *)
definition state_path :: "state \<Rightarrow> fpath" where
  "state_path s = (st_dir s, ''state.env'')"

(* src/internal/aws/state/state.go:165-165 State.Dir *)
definition Dir :: "state \<Rightarrow> string" where
  "Dir s = st_dir s"

definition tmp_path :: "state \<Rightarrow> fpath" where
  "tmp_path s = (st_dir s, ''state.env.tmp'')"

subsection \<open>Loading\<close>

text \<open>
  \<open>os.Open\<close> and the reads after it: the file is absent, it cannot be opened, or its content
  is read up to a possible read error.
\<close>

datatype 'e opened = NotExist | OpenFailed 'e | Content string "'e option"

datatype 'e load_error = OpenError fpath 'e | Malformed fpath nat string | TooLong fpath | ReadFailed fpath 'e

definition newline :: char where
  "newline = CHR 0x0A"

definition drop_cr :: "string \<Rightarrow> string" where
  "drop_cr l = (if l \<noteq> [] \<and> last l = CHR 0x0D then butlast l else l)"

text \<open>\<open>bufio.ScanLines\<close>: an empty rest after the last newline is no line.\<close>

definition scan_lines :: "string \<Rightarrow> string list" where
  "scan_lines s = (let ps = split_on newline s in if last ps = [] then butlast ps else ps)"

definition MaxScanTokenSize :: int where
  "MaxScanTokenSize = 64 * 1024"

(* src/internal/aws/state/state.go:66-80 Load part *)
fun load_lines :: "fpath \<Rightarrow> nat \<Rightarrow> string list \<Rightarrow> (string \<rightharpoonup> string) \<Rightarrow> 'e load_error + (string \<rightharpoonup> string)" where
  "load_lines p n [] m = Inr m"
| "load_lines p n (raw # ls) m =
     (if int (length raw) \<ge> MaxScanTokenSize then Inl (TooLong p)
      else let line = trim_space (drop_cr raw)
        in if line = [] \<or> has_prefix line ''#'' then load_lines p (Suc n) ls m
           else (case index_byte CHR ''='' line of
               None \<Rightarrow> Inl (Malformed p (Suc n) line)
             | Some idx \<Rightarrow>
                 if idx < 1 then Inl (Malformed p (Suc n) line)
                 else load_lines p (Suc n) ls (m(take idx line \<mapsto> drop (Suc idx) line))))"

declare load_lines.simps(2) [simp del]

(* src/internal/aws/state/state.go:50-86 Load *)
definition Load_state :: "(fpath \<Rightarrow> 'e opened) \<Rightarrow> string \<Rightarrow> 'e load_error + state" where
  "Load_state open_file dir =
     (let s = \<lparr>st_dir = dir, st_data = Map.empty, st_readOnly = False\<rparr>
      in case open_file (state_path s) of
           NotExist \<Rightarrow> Inr s
         | OpenFailed e \<Rightarrow> Inl (OpenError (state_path s) e)
         | Content text err \<Rightarrow>
             (case load_lines (state_path s) 0 (scan_lines text) Map.empty of
                Inl e \<Rightarrow> Inl e
              | Inr m \<Rightarrow>
                  (case err of
                     Some e \<Rightarrow> Inl (ReadFailed (state_path s) e)
                   | None \<Rightarrow> Inr (s\<lparr>st_data := m\<rparr>))))"

subsection \<open>Saving\<close>

text \<open>
  The calls of \<open>Save\<close> that can fail. \<open>written\<close> is how many bytes of the text reach the
  temporary file: the code ignores the result of \<open>Fprintf\<close>, so a short write (a full disk)
  goes unnoticed. \<open>removed\<close> is whether the clean-up \<open>os.Remove\<close>, whose result is ignored
  too, succeeds.
\<close>

record 'e save_faults =
  mkdir_fails :: "'e option"
  create_fails :: "'e option"
  written :: nat
  close_fails :: "'e option"
  rename_fails :: "'e option"
  removed :: bool

datatype 'e save_error = MkdirError 'e | CreateError 'e | CloseError 'e | RenameError 'e

definition kv_line :: "string \<Rightarrow> string \<Rightarrow> string" where
  "kv_line k v = k @ ''='' @ v"

definition entry_line :: "string \<Rightarrow> string \<Rightarrow> string" where
  "entry_line k v = kv_line k v @ [newline]"

definition header_line :: "string \<Rightarrow> string" where
  "header_line now =
     ''# Generated by awsbnkctl on '' @ now @ [CHR 0x20, byte 226, byte 128, byte 148] @
     '' do not edit by hand'' @ [newline]"

text \<open>\<open>keys\<close> is the order in which the range loop visits the map; Go leaves it open.\<close>

definition state_text :: "string \<Rightarrow> string list \<Rightarrow> state \<Rightarrow> string" where
  "state_text now keys s = header_line now @ concat (map (\<lambda>k. entry_line k (Get s k)) keys)"

definition remove_tmp :: "'e save_faults \<Rightarrow> state \<Rightarrow> files \<Rightarrow> files" where
  "remove_tmp ft s fs = (if removed ft then fs(tmp_path s := None) else fs)"

(* src/internal/aws/state/state.go:123-157 State.Save *)
definition Save :: "'e save_faults \<Rightarrow> string \<Rightarrow> string list \<Rightarrow> state \<Rightarrow> files \<Rightarrow> files list \<times> 'e save_error option" where
  "Save ft now keys s fs =
     (if st_readOnly s then ([fs], None)
      else case mkdir_fails ft of Some e \<Rightarrow> ([fs], Some (MkdirError e)) | None \<Rightarrow>
      case create_fails ft of Some e \<Rightarrow> ([fs], Some (CreateError e)) | None \<Rightarrow>
        let fs1 = fs(tmp_path s \<mapsto> []);
            fs2 = fs1(tmp_path s \<mapsto> take (written ft) (state_text now keys s))
        in (case close_fails ft of
              Some e \<Rightarrow> ([fs, fs1, fs2, remove_tmp ft s fs2], Some (CloseError e))
            | None \<Rightarrow>
                (case rename_fails ft of
                   Some e \<Rightarrow> ([fs, fs1, fs2, remove_tmp ft s fs2], Some (RenameError e))
                 | None \<Rightarrow>
                     ([fs, fs1, fs2, fs2(state_path s := fs2 (tmp_path s), tmp_path s := None)], None))))"

definition final_files :: "files list \<times> 'e save_error option \<Rightarrow> files" where
  "final_files r = last (fst r)"

definition disk :: "files \<Rightarrow> fpath \<Rightarrow> 'e opened" where
  "disk fs p = (case fs p of None \<Rightarrow> NotExist | Some t \<Rightarrow> Content t None)"

definition no_faults :: "'e save_faults \<Rightarrow> string \<Rightarrow> bool" where
  "no_faults ft text \<longleftrightarrow> mkdir_fails ft = None \<and> create_fails ft = None \<and> length text \<le> written ft \<and>
     close_fails ft = None \<and> rename_fails ft = None"

subsection \<open>Lines\<close>

lemma scan_lines_step: "newline \<notin> set l \<Longrightarrow> scan_lines (l @ newline # rest) = l # scan_lines rest"
  by (simp add: scan_lines_def Let_def split_on_append)

lemma scan_lines_Nil [simp]: "scan_lines [] = []"
  by (simp add: scan_lines_def)

lemma scan_lines_concat:
  "(\<And>l. l \<in> set ls \<Longrightarrow> newline \<notin> set l) \<Longrightarrow> scan_lines (concat (map (\<lambda>l. l @ [newline]) ls)) = ls"
  by (induction ls) (simp_all add: scan_lines_step)

text \<open>A key and value that survive a round trip through a line.\<close>

definition line_safe :: "string \<Rightarrow> string \<Rightarrow> bool" where
  "line_safe k v \<longleftrightarrow> k \<noteq> [] \<and> CHR ''='' \<notin> set k \<and> newline \<notin> set k \<and> newline \<notin> set v \<and>
     hd k \<noteq> CHR ''#'' \<and> starts_clean k \<and> ends_clean v \<and> int (length k + length v + 1) < MaxScanTokenSize"

lemma space_no_sep:
  "w \<in> set space_seqs \<Longrightarrow> CHR ''='' \<notin> set w"
proof -
  have "list_all (\<lambda>w. CHR ''='' \<notin> set w) space_seqs" by code_simp
  then show "w \<in> set space_seqs \<Longrightarrow> CHR ''='' \<notin> set w" by (simp add: list_all_iff)
qed

lemma ends_clean_no_cr:
  assumes "ends_clean v"
  shows "drop_cr (k @ CHR ''='' # v) = k @ CHR ''='' # v"
proof -
  have "[CHR 0x0D] \<in> set space_seqs" by code_simp
  then have "\<not> has_suffix v [CHR 0x0D]" using assms by (simp add: ends_clean_def)
  then have "v = [] \<or> last v \<noteq> CHR 0x0D"
    by (cases v rule: rev_cases) (auto simp: has_suffix_def has_prefix_def)
  then show ?thesis by (auto simp: drop_cr_def)
qed

lemma entry_trimmed:
  assumes "line_safe k v"
  shows "trim_space (drop_cr (kv_line k v)) = kv_line k v"
proof -
  have "starts_clean (k @ CHR ''='' # v)"
    using assms space_no_sep by (intro starts_clean_sep) (auto simp: line_safe_def)
  moreover have "ends_clean (k @ CHR ''='' # v)"
    using assms space_no_sep by (intro ends_clean_sep) (auto simp: line_safe_def)
  ultimately show ?thesis
    using assms by (simp add: ends_clean_no_cr line_safe_def trim_space_clean kv_line_def)
qed

lemma load_entry:
  assumes "line_safe k v"
  shows "load_lines p n (kv_line k v # ls) m = load_lines p (Suc n) ls (m(k \<mapsto> v))"
proof -
  have "\<not> has_prefix (kv_line k v) ''#''"
    using assms by (cases k) (auto simp: has_prefix_def line_safe_def kv_line_def)
  moreover have "index_byte CHR ''='' (kv_line k v) = Some (length k)"
    using assms by (simp add: index_byte_append line_safe_def kv_line_def)
  moreover have "take (length k) (kv_line k v) = k" "drop (Suc (length k)) (kv_line k v) = v" "kv_line k v \<noteq> []"
    by (simp_all add: kv_line_def)
  moreover have "length k \<noteq> 0" "\<not> MaxScanTokenSize \<le> int (length (kv_line k v))"
    using assms by (auto simp: line_safe_def kv_line_def)
  ultimately show ?thesis
    using entry_trimmed [OF assms] by (simp add: load_lines.simps(2) Let_def)
qed

lemma load_entries:
  "list_all (\<lambda>k. line_safe k (f k)) ks \<Longrightarrow>
   load_lines p n (map (\<lambda>k. kv_line k (f k)) ks) m = Inr (\<lambda>k. if k \<in> set ks then Some (f k) else m k)"
proof (induction ks arbitrary: n m)
  case Nil
  then show ?case by simp
next
  case (Cons k ks)
  from Cons.prems have k: "line_safe k (f k)" and ks: "list_all (\<lambda>k. line_safe k (f k)) ks" by simp_all
  have "(\<lambda>x. if x \<in> set ks then Some (f x) else (m(k \<mapsto> f k)) x)
      = (\<lambda>x. if x \<in> set (k # ks) then Some (f x) else m x)"
    by (auto simp: fun_eq_iff)
  then show ?case
    by (simp only: list.map load_entry [OF k] Cons.IH [OF ks])
qed

text \<open>A time text as \<open>time.RFC3339\<close> prints it: short, and without a newline.\<close>

definition time_text :: "string \<Rightarrow> bool" where
  "time_text now \<longleftrightarrow> newline \<notin> set now \<and> length now < 100"

definition header_body :: "string \<Rightarrow> string" where
  "header_body now =
     ''# Generated by awsbnkctl on '' @ now @ [CHR 0x20, byte 226, byte 128, byte 148] @ '' do not edit by hand''"

lemma starts_clean_hd:
  assumes "s \<noteq> []" and "list_all (\<lambda>w. hd w \<noteq> hd s) space_seqs"
  shows "starts_clean s"
  unfolding starts_clean_def
proof
  fix w assume w: "w \<in> set space_seqs"
  then have "w \<noteq> []" by (rule space_seqs_nonempty)
  then show "\<not> has_prefix s w"
    using assms w by (cases s; cases w) (auto simp: has_prefix_def list_all_iff)
qed

lemma ends_clean_last:
  assumes "s \<noteq> []" and "list_all (\<lambda>w. last w \<noteq> last s) space_seqs"
  shows "ends_clean s"
  unfolding ends_clean_def has_suffix_def
proof
  fix w assume w: "w \<in> set space_seqs"
  then have "w \<noteq> []" by (rule space_seqs_nonempty)
  then show "\<not> has_prefix (rev s) (rev w)"
    using assms w by (cases s rule: rev_cases; cases w rule: rev_cases)
      (auto simp: has_prefix_def list_all_iff)
qed

lemma load_header:
  assumes "time_text now"
  shows "load_lines p n (header_body now # ls) m = load_lines p (Suc n) ls m"
proof -
  have ends: "list_all (\<lambda>w. hd w \<noteq> CHR ''#'') space_seqs" "list_all (\<lambda>w. last w \<noteq> CHR ''d'') space_seqs"
    by code_simp+
  have hd: "header_body now \<noteq> []" "hd (header_body now) = CHR ''#''" "last (header_body now) = CHR ''d''"
    by (simp_all add: header_body_def)
  then have "drop_cr (header_body now) = header_body now" by (simp add: drop_cr_def)
  moreover have "trim_space (header_body now) = header_body now"
    using ends hd by (intro trim_space_clean starts_clean_hd ends_clean_last) simp_all
  moreover have "has_prefix (header_body now) ''#''" by (simp add: header_body_def has_prefix_def)
  moreover have "\<not> MaxScanTokenSize \<le> int (length (header_body now))"
    using assms by (simp add: header_body_def time_text_def MaxScanTokenSize_def)
  ultimately show ?thesis by (simp add: load_lines.simps(2) Let_def)
qed

lemma scan_state_text:
  assumes "time_text now" and "list_all (\<lambda>k. line_safe k (Get s k)) ks"
  shows "scan_lines (state_text now ks s) = header_body now # map (\<lambda>k. kv_line k (Get s k)) ks"
proof -
  have "newline \<notin> set (header_body now)"
  proof -
    have "newline \<notin> {CHR 0x20, byte 226, byte 128, byte 148}" by code_simp
    with assms(1) show ?thesis by (simp add: header_body_def time_text_def newline_def)
  qed
  moreover have "header_line now = header_body now @ [newline]"
    by (simp add: header_line_def header_body_def)
  moreover have "concat (map (\<lambda>k. entry_line k (Get s k)) ks)
      = concat (map (\<lambda>l. l @ [newline]) (map (\<lambda>k. kv_line k (Get s k)) ks))"
    by (simp add: entry_line_def comp_def)
  moreover have "scan_lines (concat (map (\<lambda>l. l @ [newline]) (map (\<lambda>k. kv_line k (Get s k)) ks)))
      = map (\<lambda>k. kv_line k (Get s k)) ks"
    using assms(2) by (intro scan_lines_concat) (auto simp: line_safe_def newline_def list_all_iff kv_line_def)
  ultimately show ?thesis
    by (simp add: state_text_def scan_lines_step)
qed

lemma load_state_text:
  assumes "time_text now" and "list_all (\<lambda>k. line_safe k (Get s k)) ks" and "set ks = dom (st_data s)"
  shows "load_lines p 0 (scan_lines (state_text now ks s)) Map.empty = Inr (st_data s)"
proof -
  have "(\<lambda>k. if k \<in> set ks then Some (Get s k) else None) = st_data s"
    using assms(3) by (auto simp: fun_eq_iff Get_def dom_def split: option.splits)
  then show ?thesis
    by (simp add: scan_state_text [OF assms(1,2)] load_header [OF assms(1)] load_entries [OF assms(2)]
        cong: if_cong)
qed

subsection \<open>Properties\<close>

lemma tmp_not_state [simp]: "tmp_path s \<noteq> state_path s" "state_path s \<noteq> tmp_path s"
  by (simp_all add: tmp_path_def state_path_def)

text \<open>
  C32 Saving and loading round-trips, whatever order the map is iterated in: with no fault,
  the state read back from disk has exactly the saved keys and values, for keys and values
  a line can hold (\<open>line_safe\<close>).
\<close>

theorem save_load_roundtrip:
  assumes "time_text now" and "list_all (\<lambda>k. line_safe k (Get s k)) ks" and "set ks = dom (st_data s)"
    and "no_faults ft (state_text now ks s)" and "\<not> ReadOnly s"
  shows "Load_state (disk (final_files (Save ft now ks s fs))) (st_dir s) = Inr (s\<lparr>st_readOnly := False\<rparr>)"
proof -
  have "final_files (Save ft now ks s fs) (state_path s) = Some (state_text now ks s)"
    using assms(4,5) by (simp add: Save_def Let_def final_files_def no_faults_def ReadOnly_def)
  moreover have "state_path \<lparr>st_dir = st_dir s, st_data = d, st_readOnly = r\<rparr> = state_path s" for d r
    by (simp add: state_path_def)
  ultimately show ?thesis
    by (simp add: Load_state_def disk_def Let_def load_state_text [OF assms(1-3)])
qed

definition sample_state :: state where
  "sample_state = \<lparr>st_dir = ''.awsbnkctl/syd'', st_data = [''VPC_ID'' \<mapsto> ''vpc-1'', ''NOTE'' \<mapsto> ''a=b''],
     st_readOnly = False\<rparr>"

definition no_fault :: "unit save_faults" where
  "no_fault = \<lparr>mkdir_fails = None, create_fails = None, written = 1000, close_fails = None,
     rename_fails = None, removed = True\<rparr>"

lemma save_load_roundtrip_witness:
  "Load_state (disk (final_files (Save no_fault ''2026-09-11T00:00:00Z'' [''NOTE'', ''VPC_ID''] sample_state Map.empty)))
     ''.awsbnkctl/syd'' = Inr sample_state"
proof -
  let ?ks = "[''NOTE'', ''VPC_ID'']" and ?now = "''2026-09-11T00:00:00Z''"
  have "time_text ?now" by code_simp
  moreover have "list_all (\<lambda>k. line_safe k (Get sample_state k)) ?ks" by code_simp
  moreover have "set ?ks = dom (st_data sample_state)" by (auto simp: sample_state_def)
  moreover have "no_faults no_fault (state_text ?now ?ks sample_state)"
    by (simp add: no_faults_def no_fault_def state_text_def header_line_def entry_line_def kv_line_def Get_def
        sample_state_def)
  moreover have "\<not> ReadOnly sample_state" by (simp add: ReadOnly_def sample_state_def)
  ultimately show ?thesis
    using save_load_roundtrip [of ?now sample_state ?ks no_fault Map.empty]
    by (simp add: sample_state_def)
qed

text \<open>
  C6 Saving is atomic for the state file under every fault and crash point: at any moment
  \<open>state.env\<close> has its previous content or the bytes written for the new one, and no other
  file but the temporary one is touched.
\<close>

theorem save_atomic:
  "list_all (\<lambda>f. f (state_path s) \<in> {fs (state_path s), Some (take (written ft) (state_text now ks s))} \<and>
     f |` (- {state_path s, tmp_path s}) = fs |` (- {state_path s, tmp_path s}))
   (fst (Save ft now ks s fs))"
proof -
  have tmp: "fs(tmp_path s := x) |` (- {state_path s, tmp_path s}) = fs |` (- {state_path s, tmp_path s})"
    for fs :: files and x
    by (auto simp: restrict_map_def)
  moreover have "fs(state_path s := x) |` (- {state_path s, tmp_path s}) = fs |` (- {state_path s, tmp_path s})"
    for fs :: files and x
    by (auto simp: restrict_map_def)
  ultimately show ?thesis
    by (simp add: Save_def Let_def remove_tmp_def split: option.split)
qed

text \<open>
  A read-only state (a dry run) never touches the disk and never fails to save, whatever
  the phases set in it and whatever would go wrong.
\<close>

theorem dry_run_never_writes:
  "Save ft now ks (fold (\<lambda>(k, v). Set_key k v) kvs (MarkReadOnly s)) fs = ([fs], None)"
proof -
  have "st_readOnly (fold (\<lambda>(k, v). Set_key k v) kvs t) = st_readOnly t" for t
    by (induction kvs arbitrary: t) (simp_all add: Set_key_def split_def)
  then show ?thesis by (simp add: Save_def MarkReadOnly_def)
qed

text \<open>A line the loader takes, and the pair it stands for.\<close>

definition line_pair :: "string \<Rightarrow> (string \<times> string) option" where
  "line_pair raw = cut_at CHR ''='' (trim_space (drop_cr raw))"

definition blank_line :: "string \<Rightarrow> bool" where
  "blank_line raw \<longleftrightarrow> trim_space (drop_cr raw) = [] \<or> has_prefix (trim_space (drop_cr raw)) ''#''"

definition good_line :: "string \<Rightarrow> bool" where
  "good_line raw \<longleftrightarrow> int (length raw) < MaxScanTokenSize \<and>
     (blank_line raw \<or> (\<exists>k v. line_pair raw = Some (k, v) \<and> k \<noteq> []))"

definition line_pairs :: "string \<Rightarrow> (string \<times> string) list" where
  "line_pairs raw = (if blank_line raw then [] else case line_pair raw of None \<Rightarrow> [] | Some kv \<Rightarrow> [kv])"

lemma load_lines_step:
  "good_line raw \<Longrightarrow> load_lines p n (raw # ls) m = load_lines p (Suc n) ls (m ++ map_of (line_pairs raw))"
  by (cases "index_byte CHR ''='' (trim_space (drop_cr raw))")
    (auto simp: load_lines.simps(2) good_line_def blank_line_def line_pair_def line_pairs_def cut_at_def Let_def)

lemma load_lines_bad:
  "\<not> good_line raw \<Longrightarrow> load_lines p n (raw # ls) m \<noteq> Inr m'"
  by (cases "index_byte CHR ''='' (trim_space (drop_cr raw))")
    (auto simp: load_lines.simps(2) good_line_def blank_line_def line_pair_def cut_at_def Let_def not_less)

lemma load_lines_Inr:
  "load_lines p n ls m = Inr m' \<longleftrightarrow> list_all good_line ls \<and> m' = m ++ map_of (rev (concat (map line_pairs ls)))"
proof (induction ls arbitrary: n m)
  case Nil
  then show ?case by auto
next
  case (Cons raw ls)
  show ?case
  proof (cases "good_line raw")
    case True
    have "map_of (line_pairs raw) = map_of (rev (line_pairs raw))"
      by (simp add: line_pairs_def split: option.splits)
    with True Cons show ?thesis by (simp add: load_lines_step map_add_assoc)
  next
    case False
    then show ?thesis by (simp add: load_lines_bad)
  qed
qed

lemma case_Inr:
  "(case x of Inl e \<Rightarrow> Inl (g e) | Inr m \<Rightarrow> f m) = Inr s \<longleftrightarrow> (\<exists>m. x = Inr m \<and> f m = Inr s)"
  by (cases x) auto

text \<open>
  Loading is all or nothing: it succeeds exactly when the file is absent, or is read to
  its end and every line is blank, a comment or a short enough \<open>KEY=VALUE\<close> line with a
  key; then every key has the value of its last line, and no other key exists.
\<close>

theorem load_exact:
  "Load_state open_file dir = Inr s \<longleftrightarrow>
     (\<exists>m. s = \<lparr>st_dir = dir, st_data = m, st_readOnly = False\<rparr> \<and>
        (open_file (dir, ''state.env'') = NotExist \<and> m = Map.empty \<or>
         (\<exists>text. open_file (dir, ''state.env'') = Content text None \<and> list_all good_line (scan_lines text) \<and>
            m = map_of (rev (concat (map line_pairs (scan_lines text)))))))"
  by (auto simp: Load_state_def Let_def state_path_def load_lines_Inr case_Inr split: opened.splits option.splits)

end
