(* ===== verification/Tags.thy ===== *)
theory Tags
  imports Prelude "HOL-Library.List_Lexorder"
begin

text \<open>
  \<open>internal/aws/tags/tags.go\<close>: the tag scheme. A Go map is a partial function with a finite
  domain; the range loop that turns the merged map into a slice visits its keys in an
  arbitrary order, which is a parameter \<open>iter\<close>. The three merge functions share the contract
  \<open>later_wins\<close>.
\<close>

type_synonym tags = "string \<rightharpoonup> string"

(* src/internal/aws/tags/tags.go:22-22 KeyCluster *)
definition KeyCluster :: string where
  "KeyCluster = ''awsbnkctl:cluster''"

(* src/internal/aws/tags/tags.go:23-23 KeyComponent *)
definition KeyComponent :: string where
  "KeyComponent = ''awsbnkctl:component''"

(* src/internal/aws/tags/tags.go:24-24 KeyManaged *)
definition KeyManaged :: string where
  "KeyManaged = ''awsbnkctl:managed''"

(* src/internal/aws/tags/tags.go:25-25 KeyName *)
definition KeyName :: string where
  "KeyName = ''Name''"

lemmas key_defs = KeyCluster_def KeyComponent_def KeyManaged_def KeyName_def

(* src/internal/aws/tags/tags.go:84-91 Required *)
definition Required :: "string \<Rightarrow> string \<Rightarrow> tags" where
  "Required clusterName component =
     [KeyCluster \<mapsto> clusterName, KeyComponent \<mapsto> component, KeyManaged \<mapsto> ''true'',
      KeyName \<mapsto> clusterName @ ''-'' @ component]"

subsection \<open>Merging\<close>

text \<open>The two nested range loops; within one map the order does not matter.\<close>

definition merged :: "tags list \<Rightarrow> tags" where
  "merged maps = fold (\<lambda>m acc. acc ++ m) maps Map.empty"

record ec2_tag =
  ec2_Key :: string
  ec2_Value :: string

record iam_tag =
  iam_Key :: string
  iam_Value :: string

type_synonym iteration = "tags \<Rightarrow> string list"

(* src/internal/aws/tags/tags.go:101-114 Merge *)
definition Merge :: "iteration \<Rightarrow> tags list \<Rightarrow> ec2_tag list" where
  "Merge iter maps =
     (let m = merged maps in map (\<lambda>k. \<lparr>ec2_Key = k, ec2_Value = the (m k)\<rparr>) (iter m))"

(* src/internal/aws/tags/tags.go:143-156 IAMTags *)
definition IAMTags :: "iteration \<Rightarrow> tags list \<Rightarrow> iam_tag list" where
  "IAMTags iter maps =
     (let m = merged maps in map (\<lambda>k. \<lparr>iam_Key = k, iam_Value = the (m k)\<rparr>) (iter m))"

(* src/internal/aws/tags/tags.go:164-172 EKSTags *)
definition EKSTags :: "tags list \<Rightarrow> tags" where
  "EKSTags maps = merged maps"

subsection \<open>Filters\<close>

record ec2_filter =
  filter_Name :: string
  filter_Values :: "string list"

(* src/internal/aws/tags/tags.go:118-124 Filter *)
definition Filter :: "string \<Rightarrow> string \<Rightarrow> ec2_filter" where
  "Filter key value = \<lparr>filter_Name = ''tag:'' @ key, filter_Values = [value]\<rparr>"

(* src/internal/aws/tags/tags.go:128-130 ClusterFilter *)
definition ClusterFilter :: "string \<Rightarrow> ec2_filter" where
  "ClusterFilter clusterName = Filter KeyCluster clusterName"

(* src/internal/aws/tags/tags.go:133-135 ComponentFilter *)
definition ComponentFilter :: "string \<Rightarrow> ec2_filter" where
  "ComponentFilter component = Filter KeyComponent component"

text \<open>
  What EC2 documents of a filter \<open>tag:key\<close>: it selects the resources carrying the key with
  one of the values.
\<close>

definition filter_selects :: "ec2_filter \<Rightarrow> tags \<Rightarrow> bool" where
  "filter_selects f ts \<longleftrightarrow> (\<exists>k v. filter_Name f = ''tag:'' @ k \<and> ts k = Some v \<and> v \<in> set (filter_Values f))"

subsection \<open>The merge contract\<close>

text \<open>\<open>read\<close> looks a key up in what the merge built; later maps override earlier ones.\<close>

definition finite_maps :: "tags list \<Rightarrow> bool" where
  "finite_maps ms \<longleftrightarrow> list_all (\<lambda>m. finite (dom m)) ms"

lemma find_append: "find P (xs @ ys) = (case find P xs of None \<Rightarrow> find P ys | Some x \<Rightarrow> Some x)"
  by (induction xs) auto

locale later_wins =
  fixes read :: "'out \<Rightarrow> string \<rightharpoonup> string" and merge :: "tags list \<Rightarrow> 'out"
  assumes read_merge: "finite_maps ms \<Longrightarrow>
    read (merge ms) k = Option.bind (find (\<lambda>m. m k \<noteq> None) (rev ms)) (\<lambda>m. m k)"
begin

lemma read_last: "finite_maps (ms @ [m]) \<Longrightarrow> m k = Some v \<Longrightarrow> read (merge (ms @ [m])) k = Some v"
  by (simp add: read_merge)

lemma read_skip:
  "finite_maps (ms @ [m]) \<Longrightarrow> m k = None \<Longrightarrow> read (merge (ms @ [m])) k = read (merge ms) k"
  by (simp add: read_merge finite_maps_def)

lemma read_over:
  "finite_maps (m0 # ms) \<Longrightarrow>
   read (merge (m0 # ms)) k = (case find (\<lambda>m. m k \<noteq> None) (rev ms) of Some m \<Rightarrow> m k | None \<Rightarrow> m0 k)"
  by (auto simp: read_merge find_append split: option.splits)

lemma read_keys:
  assumes "finite_maps ms"
  shows "read (merge ms) k \<noteq> None \<longleftrightarrow> (\<exists>m\<in>set ms. m k \<noteq> None)"
proof (cases "find (\<lambda>m. m k \<noteq> None) (rev ms)")
  case None
  then have "\<not> (\<exists>m\<in>set ms. m k \<noteq> None)" unfolding find_None_iff by simp
  moreover have "read (merge ms) k = None" by (simp only: read_merge [OF assms] None bind.simps)
  ultimately show ?thesis by simp
next
  case (Some m)
  from find_Some_in [OF Some] Some assms show ?thesis by (auto simp: read_merge)
qed

end

lemma merged_snoc: "merged (ms @ [m]) = merged ms ++ m"
  by (simp add: merged_def)

lemma merged_read: "merged ms k = Option.bind (find (\<lambda>m. m k \<noteq> None) (rev ms)) (\<lambda>m. m k)"
  by (induction ms rule: rev_induct) (auto simp: merged_snoc map_add_def merged_def split: option.splits)

interpretation eks: later_wins "\<lambda>ts. ts" EKSTags
  by unfold_locales (simp add: EKSTags_def merged_read)

text \<open>An iteration visits every key of the map once.\<close>

definition visits :: "iteration \<Rightarrow> tags \<Rightarrow> bool" where
  "visits iter m \<longleftrightarrow> distinct (iter m) \<and> set (iter m) = dom m"

definition ec2_read :: "ec2_tag list \<Rightarrow> string \<rightharpoonup> string" where
  "ec2_read ts = map_of (map (\<lambda>t. (ec2_Key t, ec2_Value t)) ts)"

definition iam_read :: "iam_tag list \<Rightarrow> string \<rightharpoonup> string" where
  "iam_read ts = map_of (map (\<lambda>t. (iam_Key t, iam_Value t)) ts)"

lemma map_of_visited:
  "visits iter m \<Longrightarrow> map_of (map (\<lambda>k. (k, the (m k))) (iter m)) = m"
proof
  fix k assume v: "visits iter m"
  show "map_of (map (\<lambda>k. (k, the (m k))) (iter m)) k = m k"
  proof (cases "k \<in> dom m")
    case True
    with v show ?thesis by (auto simp: visits_def map_of_map_restrict restrict_map_def)
  next
    case False
    with v show ?thesis by (auto simp: visits_def map_of_map_restrict restrict_map_def)
  qed
qed

lemma ec2_read_Merge: "visits iter (merged ms) \<Longrightarrow> ec2_read (Merge iter ms) = EKSTags ms"
  using map_of_visited [of iter "merged ms"]
  by (simp add: ec2_read_def Merge_def Let_def comp_def EKSTags_def)

lemma iam_read_IAMTags: "visits iter (merged ms) \<Longrightarrow> iam_read (IAMTags iter ms) = EKSTags ms"
  using map_of_visited [of iter "merged ms"]
  by (simp add: iam_read_def IAMTags_def Let_def comp_def EKSTags_def)

text \<open>The sorted iteration of a finite map, as an order Go may choose.\<close>

definition sorted_keys :: iteration where
  "sorted_keys m = (if finite (dom m) then sorted_list_of_set (dom m) else [])"

lemma finite_merged: "finite_maps ms \<Longrightarrow> finite (dom (merged ms))"
  by (induction ms rule: rev_induct) (auto simp: merged_snoc finite_maps_def merged_def)

lemma visits_sorted: "finite (dom m) \<Longrightarrow> visits sorted_keys m"
  by (simp add: visits_def sorted_keys_def)

interpretation ec2: later_wins ec2_read "Merge sorted_keys"
  by unfold_locales (simp add: ec2_read_Merge visits_sorted finite_merged EKSTags_def merged_read)

interpretation iam: later_wins iam_read "IAMTags sorted_keys"
  by unfold_locales (simp add: iam_read_IAMTags visits_sorted finite_merged EKSTags_def merged_read)

subsection \<open>Properties\<close>

text \<open>
  EC2, IAM and EKS resources get the same tags from the same maps, in whatever order the
  merged map is iterated, with no key twice.
\<close>

theorem merge_variants_agree:
  assumes "visits iter (EKSTags ms)" and "visits iter' (EKSTags ms)"
  shows "ec2_read (Merge iter ms) = EKSTags ms \<and> distinct (map ec2_Key (Merge iter ms)) \<and>
    iam_read (IAMTags iter' ms) = EKSTags ms \<and> distinct (map iam_Key (IAMTags iter' ms))"
  using assms
  by (simp add: ec2_read_Merge iam_read_IAMTags EKSTags_def visits_def)
    (simp add: Merge_def IAMTags_def Let_def comp_def)

lemma merge_variants_agree_witness:
  "ec2_read (Merge (\<lambda>_. [KeyName, KeyManaged]) [[KeyManaged \<mapsto> ''true''], [KeyName \<mapsto> ''x'']])
   = EKSTags [[KeyManaged \<mapsto> ''true''], [KeyName \<mapsto> ''x'']]"
proof -
  have v: "visits (\<lambda>_. [KeyName, KeyManaged]) (EKSTags [[KeyManaged \<mapsto> ''true''], [KeyName \<mapsto> ''x'']])"
    by (auto simp: visits_def EKSTags_def merged_def key_defs)
  show ?thesis using merge_variants_agree [OF v v] by blast
qed

text \<open>
  Which value a mandatory tag ends up with: the last user map that names the key wins,
  and the mandatory value stands only when no user map names it. So a user tag can replace
  \<open>awsbnkctl:cluster\<close>, by which \<open>down\<close> finds the resources of a cluster.
\<close>

theorem required_tag_value:
  "EKSTags (Required name cmp # user) KeyCluster =
     (case find (\<lambda>m. m KeyCluster \<noteq> None) (rev user) of Some m \<Rightarrow> m KeyCluster | None \<Rightarrow> Some name)"
proof -
  have "EKSTags (Required name cmp # user) KeyCluster
      = Option.bind (find (\<lambda>m. m KeyCluster \<noteq> None) (rev user @ [Required name cmp])) (\<lambda>m. m KeyCluster)"
    by (simp add: EKSTags_def merged_read)
  moreover have "Required name cmp KeyCluster = Some name" by (simp add: Required_def key_defs)
  ultimately show ?thesis by (auto simp: find_append split: option.splits)
qed

text \<open>
  Tag discovery is sound and complete when no user map names the mandatory keys: the
  cluster filter selects a resource tagged by \<open>Required\<close> exactly for its own cluster, and
  the component filter exactly for its own component.
\<close>

theorem filters_find_own_resources:
  assumes "list_all (\<lambda>m. m KeyCluster = None \<and> m KeyComponent = None) user"
  shows "(filter_selects (ClusterFilter c) (EKSTags (Required name cmp # user)) \<longleftrightarrow> c = name) \<and>
    (filter_selects (ComponentFilter d) (EKSTags (Required name cmp # user)) \<longleftrightarrow> d = cmp)"
proof -
  have none: "find (\<lambda>m. m KeyCluster \<noteq> None) (rev user) = None"
      "find (\<lambda>m. m KeyComponent \<noteq> None) (rev user) = None"
    using assms by (auto simp: find_None_iff list_all_iff)
  have "EKSTags (Required name cmp # user) KeyCluster = Some name"
      "EKSTags (Required name cmp # user) KeyComponent = Some cmp"
    using none by (simp_all add: EKSTags_def merged_read find_append Required_def key_defs)
  then show ?thesis
    by (auto simp: filter_selects_def ClusterFilter_def ComponentFilter_def Filter_def)
qed

lemma filters_find_own_resources_witness:
  "filter_selects (ClusterFilter ''syd'') (EKSTags [Required ''syd'' ''vpc'', [''owner'' \<mapsto> ''ops'']])"
  using filters_find_own_resources [of "[[''owner'' \<mapsto> ''ops'']]" "''syd''" "''syd''" "''vpc''"]
  by (simp add: key_defs)

end
