(* ===== verification/GoAny.thy ===== *)
theory GoAny
  imports GoStrings
begin

text \<open>
  Go's \<open>any\<close> as the JSON decoder and the apimachinery accessors produce it, and the type
  assertions the code makes on it. A map is the list of its entries. Durations are
  nanoseconds.
\<close>

definition Second :: int where
  "Second = 1000000000"

datatype any =
    ANil
  | ABool bool
  | AInt64 int
  | AInt int
  | AInt32 int
  | AFloat64 f64
  | AString string
  | AList "any list"
  | AMap "(string \<times> any) list"

text \<open>\<open>s, _ := v.(string)\<close> and \<open>l, _ := v.([]any)\<close>, for a value that may be absent.\<close>

fun any_string :: "any option \<Rightarrow> string" where
  "any_string (Some (AString s)) = s"
| "any_string _ = []"

fun any_list :: "any option \<Rightarrow> any list" where
  "any_list (Some (AList l)) = l"
| "any_list _ = []"

abbreviation string_in :: "(string \<times> any) list \<Rightarrow> string \<Rightarrow> string" where
  "string_in m k \<equiv> any_string (map_of m k)"

text \<open>
  \<open>int64(n)\<close> of a float: truncation towards zero when the result fits; Go leaves the result
  for other values to the implementation, the parameter \<open>overflow\<close>.
\<close>

definition float_to_int64 :: "(f64 \<Rightarrow> int) \<Rightarrow> f64 \<Rightarrow> int" where
  "float_to_int64 overflow f =
     (case f of
        Fin r \<Rightarrow> (let i = (if r < 0 then \<lceil>r\<rceil> else \<lfloor>r\<rfloor>) in if in_int64 i then i else overflow f)
      | _ \<Rightarrow> overflow f)"

end
