(* ===== verification/MigrateTypes.thy ===== *)
theory MigrateTypes
  imports IntentDefaults GoAny
begin

text \<open>
  The data of \<open>internal/k8s/migrate\<close>: the inventory of a 2.3 cluster, the plan for 2.4 and
  the state of one translation. The inventory holds schemaless objects which the code reads
  through the apimachinery accessors (\<open>NestedString\<close>, \<open>NestedBool\<close>, \<open>GetName\<close>, ...), third-party code; a
  legacy object is the record of what those calls return for it: a string is empty and a
  boolean false when the field is absent or of another type, a field read as \<open>any\<close> is \<open>None\<close>
  when absent, and a slice is empty. Go's \<open>any\<close> is a datatype. The maps the code builds for
  the new objects are records whose optional keys are options (or, for the \<open>...Refs\<close> lists
  of names, empty lists).
\<close>

subsection \<open>Inventory\<close>

record legacy_vlan =
  vl_GetName :: string
  vl_name :: string
  vl_internal :: bool
  vl_selfip_v4s :: "string list"
  vl_prefixlen_v4 :: "any option"
  vl_selfip_v6s :: "string list"
  vl_interfaces :: "string list"
  vl_tag :: "any option"
  vl_mtu :: "any option"
  vl_allowed_services :: "any list"

record legacy_vrf =
  vf_GetName :: string
  vf_strictIsolation :: "bool option"
  vf_interconnectVrf :: "string list"

record legacy_vxlan =
  vx_GetName :: string
  vx_vni :: "any option"
  vx_mtu :: "any option"
  vx_port :: "any option"
  vx_vrf :: string
  vx_ipv4PrefixLen :: "any option"
  vx_ipv4Subnet :: string
  vx_localIpPrefixlen :: "any option"
  vx_localIpSubnet :: string
  vx_vlan :: string
  vx_evpn :: bool

record legacy_route =
  sr_GetName :: string
  sr_type :: string
  sr_destination :: string
  sr_prefixLen :: "any option"
  sr_gateway :: string

record legacy_egress =
  eg_GetName :: string
  eg_vxlan :: "(string \<times> any) list"
  eg_snatType :: string
  eg_egressSnatpool :: string
  eg_namespaces :: "string list"
  eg_flag :: "string \<Rightarrow> bool option"
  eg_maxTmmReplicas :: "any option"
  eg_firewallEnforcedPolicy :: string

record legacy_snatpool =
  sp_GetName :: string
  sp_addressList :: "any list"

record legacy_bnkgateway =
  bg_GetName :: string
  bg_GetNamespace :: string
  bg_listenerNetworks :: "any list"

record legacy_policy =
  lp_GetName :: string
  lp_GetNamespace :: string
  lp_labels :: "(string \<times> string) list"
  lp_annotations :: "(string \<times> string) list"
  lp_spec :: "(string \<times> any) list option"

record api_gateway =
  gw_GetName :: string
  gw_GetNamespace :: string
  gw_gatewayClassName :: string
  gw_addresses :: "any list"

record api_gatewayclass =
  gc_GetName :: string
  gc_controllerName :: string

text \<open>\<open>CNEInstance\<close> is its \<open>spec.networkAttachments\<close>, the only field the translation reads.\<close>

(* src/internal/k8s/migrate/types.go:68-94 Inventory *)
record Inventory =
  in_Namespace :: string
  in_CNEInstance :: "string list option"
  in_Vlans :: "legacy_vlan list"
  in_StaticRoutes :: "legacy_route list"
  in_Vrfs :: "legacy_vrf list"
  in_Vxlans :: "legacy_vxlan list"
  in_Egresses :: "legacy_egress list"
  in_Snatpools :: "legacy_snatpool list"
  in_BnkGateways :: "legacy_bnkgateway list"
  in_SecPolicies :: "legacy_policy list"
  in_NetPolicies :: "legacy_policy list"
  in_Gateways :: "api_gateway list"
  in_GatewayClasses :: "api_gatewayclass list"
  in_Missing :: "string list"

subsection \<open>Plan\<close>

record ip_pool =
  ipp_rangeStart :: "string option"
  ipp_rangeEnd :: "string option"
  ipp_cidr :: "string option"
  ipp_availabilityZone :: "string option"

record infra_ipam =
  ipam_name :: string
  ipam_ipPools :: "ip_pool list"

record infra_attachment =
  att_name :: string
  att_definitions :: "string list"

record infra_vrf =
  vrf_name :: string
  vrf_strictIsolation :: "bool option"

record vlan_network =
  vn_networkAttachmentRef :: string
  vn_tag :: int
  vn_mtu :: "int option"
  vn_ipamRefs :: "string list"

record vxlan_network =
  xn_vni :: "int option"
  xn_mtu :: "int option"
  xn_port :: "int option"
  xn_vrfRef :: "string option"
  xn_networkRef :: "string option"
  xn_ipamRefs :: "string list"
  xn_vtepIpamRefs :: "string list"

datatype network_body = VlanNetwork vlan_network | VxlanNetwork vxlan_network

record infra_network =
  net_name :: string
  net_body :: network_body

record infra_route =
  rt_name :: string
  rt_destinations :: "string list"
  rt_nextHop :: string

record egress_defaults =
  ed_networkRef :: "string option"
  ed_subnet :: "string option"
  ed_port :: "int option"

record infra_spec =
  is_ipams :: "infra_ipam list"
  is_networkAttachments :: "infra_attachment list"
  is_networks :: "infra_network list"
  is_vrfs :: "infra_vrf list"
  is_staticRoutes :: "infra_route list"
  is_egressDefaults :: egress_defaults

record infra =
  inf_name :: string
  inf_namespace :: string
  inf_managedBy :: string
  inf_spec :: infra_spec

datatype source_nat = Automap | NoSourceNAT | NATPool string

record listener_network =
  ln_ipamRefs :: "string list"
  ln_sourceNATConfig :: source_nat
  ln_networkRefs :: "string list"

record egress_config =
  ec_name :: string
  ec_sourceNATConfig :: source_nat
  ec_networkRef :: "string option"

record nat_pool =
  np_name :: string
  np_ipamRefs :: "string list"

record gateway_settings =
  gs_name :: string
  gs_namespace :: string
  gs_defaultListenerNetwork :: "listener_network option"
  gs_egressConfigs :: "egress_config list"
  gs_sourceNATPools :: "nat_pool list"

record gateway_patch =
  gp_name :: string
  gp_namespace :: string
  gp_parametersRef :: string

record egress_gateway =
  eg_name :: string
  eg_namespace :: string
  eg_gatewayClassName :: string
  eg_parametersRef :: string
  eg_sectionName :: string
  eg_matchNames :: "string list"

record f5_policy =
  pol_kind :: string
  pol_name :: string
  pol_namespace :: string
  pol_labels :: "(string \<times> string) list"
  pol_annotations :: "(string \<times> string) list"
  pol_spec :: "(string \<times> any) list"

(* src/internal/k8s/migrate/types.go:98-116 Plan *)
record Plan =
  pl_Infra :: "infra option"
  pl_GatewaySettings :: "gateway_settings list"
  pl_GatewayPatches :: "gateway_patch list"
  pl_EgressGateways :: "egress_gateway list"
  pl_Policies :: "f5_policy list"
  pl_Warnings :: "string list"

datatype plan_object =
    InfraObject infra
  | SettingsObject gateway_settings
  | GatewayObject gateway_patch
  | EgressObject egress_gateway
  | PolicyObject f5_policy

(* src/internal/k8s/migrate/types.go:119-129 Plan.Objects *)
definition Plan_Objects :: "Plan \<Rightarrow> plan_object list" where
  "Plan_Objects p =
     (case pl_Infra p of Some i \<Rightarrow> [InfraObject i] | None \<Rightarrow> []) @
     map SettingsObject (pl_GatewaySettings p) @
     map GatewayObject (pl_GatewayPatches p) @
     map EgressObject (pl_EgressGateways p) @
     map PolicyObject (pl_Policies p)"

(* src/internal/k8s/migrate/types.go:132-134 Plan.Empty *)
definition Plan_Empty :: "Plan \<Rightarrow> bool" where
  "Plan_Empty p \<longleftrightarrow> Plan_Objects p = []"

subsection \<open>Warnings\<close>

text \<open>
  One constructor per message of the source, with the arguments of its format string.
  \<open>mig_sprintf\<close>, a parameter, is the text \<open>fmt.Sprintf\<close> makes of it: the code removes duplicates by text.
\<close>

datatype vlan_warning =
    SingleAddressPool string pool_error
  | IPv6SelfIPsDropped "string list"
  | NoSelfIPs
  | NoZoneKnown
  | NoMatchingNAD string string
  | AllowedServicesDropped

datatype vxlan_warning = NoVtepSubnet | NoUnderlay | EvpnDropped

datatype route_warning = RouteTypeSkipped string | RouteIncomplete | RouteNoGateway

datatype gateway_warning = NoVipSource | NoExternalVlan | StaticPoolOnly string

datatype egress_warning =
    TunnelDefaulted string
  | IPv6TunnelDropped string
  | NodeInterfaceDropped string
  | TunnelDiffers
  | NoNamespaces
  | FlagDropped string
  | MaxReplicasDropped
  | FirewallRehomed string string
  | SnatpoolUnnamed
  | SnatpoolMissing string string
  | SnatTypeUnknown string

datatype mig_warning =
    VlanWarning string vlan_warning
  | VrfInterconnect string "string list"
  | VxlanWarning string vxlan_warning
  | RouteWarning string route_warning
  | DefaultRouteAdded string
  | SnatpoolEmpty string
  | NoBNKGatewayClass
  | GatewayWarning string string gateway_warning
  | AutomapNote
  | BnkGatewayUnused string string
  | ListenerSkipped string string
  | EgressWarning string egress_warning
  | EgressClassMissing string string
  | NoEgressFound
  | NoVlanFound string

text \<open>
  What the environment supplies: message texts, and the conversion of an out-of-range float
  to \<open>int64\<close>, which Go leaves to the implementation.
\<close>

record mig_env =
  mig_sprintf :: "mig_warning \<Rightarrow> string"
  mig_float_overflow :: "f64 \<Rightarrow> int"

subsection \<open>The translator\<close>

(* src/internal/k8s/migrate/translate.go:17-33 Options *)
record Options =
  op_InfraName :: string
  op_GatewayClassName :: string
  op_ZoneByNetwork :: "string \<rightharpoonup> string"
  op_SingleSelfIP :: bool

(* src/internal/k8s/migrate/types.go:28-28 DefaultInfraName *)
definition DefaultInfraName :: string where
  "DefaultInfraName = ''infra''"

(* src/internal/k8s/migrate/translate.go:35-40 Options.infraName *)
definition infraName :: "Options \<Rightarrow> string" where
  "infraName o' = (if op_InfraName o' \<noteq> [] then op_InfraName o' else DefaultInfraName)"

(* src/internal/k8s/migrate/translate.go:43-60 translator *)
record translator =
  tr_plan :: Plan
  tr_nads :: "string list"
  tr_externalNets :: "string list"
  tr_ipams :: "infra_ipam list"
  tr_ipamSeen :: "string set"
  tr_attachments :: "infra_attachment list"
  tr_vrfs :: "infra_vrf list"
  tr_networks :: "infra_network list"
  tr_routes :: "infra_route list"
  tr_extGateway :: string
  tr_egressDef :: "egress_defaults option"
  tr_settings :: "(string \<times> gateway_settings) list"
  tr_warned :: "string set"

definition zone_of :: "Options \<Rightarrow> string \<Rightarrow> string" where
  "zone_of o' n = (case op_ZoneByNetwork o' n of Some z \<Rightarrow> z | None \<Rightarrow> [])"

definition opt_text :: "string \<Rightarrow> string option" where
  "opt_text s = (if s \<noteq> [] then Some s else None)"

end
