(* ===== verification/Migrate.thy ===== *)
theory Migrate
  imports MigrateTypes GoNet
begin

text \<open>
  \<open>internal/k8s/migrate/translate.go\<close>: \<open>Translate\<close> derives the 2.4 configuration from an
  inventory. Each method of the Go translator is a function on the translator record, in
  the order \<open>Translate\<close> calls them; the read-only fields \<open>inv\<close> and \<open>opts\<close> are arguments. A
  range loop is a \<open>fold\<close> of its body. A pointer into \<open>t.settings\<close> is its key: the object
  is updated in the map.
\<close>

subsection \<open>Helpers\<close>

(* src/internal/k8s/migrate/translate.go:875-890 anyInt *)
fun anyInt :: "mig_env \<Rightarrow> any \<Rightarrow> int option" where
  "anyInt E (AInt64 n) = Some n"
| "anyInt E (AInt n) = Some n"
| "anyInt E (AInt32 n) = Some n"
| "anyInt E (AFloat64 n) = Some (float_to_int64 (mig_float_overflow E) n)"
| "anyInt E (AString n) = atoi n"
| "anyInt E _ = None"

(* src/internal/k8s/migrate/translate.go:867-873 intAt *)
definition intAt :: "mig_env \<Rightarrow> any option \<Rightarrow> int option" where
  "intAt E v = (case v of None \<Rightarrow> None | Some a \<Rightarrow> anyInt E a)"

definition cidr_text :: "string \<Rightarrow> int \<Rightarrow> string" where
  "cidr_text subnet prefix = subnet @ ''/'' @ dec_int prefix"

(* src/internal/k8s/migrate/translate.go:892-897 cidrFrom *)
definition cidrFrom :: "string \<Rightarrow> int option \<Rightarrow> string" where
  "cidrFrom subnet prefix =
     (if subnet = [] then [] else case prefix of None \<Rightarrow> [] | Some p \<Rightarrow> cidr_text subnet p)"

text \<open>\<open>b[i]\<close> past the end of a shorter \<open>b\<close> panics; the code compares \<open>To4\<close> results only.\<close>

(* src/internal/k8s/migrate/translate.go:915-925 bytesCompare *)
fun bytesCompare :: "ip \<Rightarrow> ip \<Rightarrow> int" where
  "bytesCompare (x # a) (y # b) = (if x \<noteq> y then (if x < y then -1 else 1) else bytesCompare a b)"
| "bytesCompare _ _ = 0"

(* src/internal/k8s/migrate/translate.go:931-940 firstHost *)
definition firstHost :: "string \<Rightarrow> int \<Rightarrow> string" where
  "firstHost ip plen =
     (case parse_ip4 ip of
        None \<Rightarrow> []
      | Some addr \<Rightarrow>
          if plen < 0 \<or> plen > 30 then []
          else let mask = cidr_mask (nat plen) 32; network = mask_ip addr mask
               in ipv4_string (network[3 := network ! 3 + 1]))"

definition obj_key :: "string \<Rightarrow> string \<Rightarrow> string" where
  "obj_key ns name = ns @ ''/'' @ name"

(* src/internal/k8s/migrate/translate.go:97-101 translator.warn part *)
definition add_warning :: "string \<Rightarrow> translator \<Rightarrow> translator" where
  "add_warning msg t =
     (if msg \<in> tr_warned t then t
      else t\<lparr>tr_warned := insert msg (tr_warned t),
             tr_plan := (tr_plan t)\<lparr>pl_Warnings := pl_Warnings (tr_plan t) @ [msg]\<rparr>\<rparr>)"

(* src/internal/k8s/migrate/translate.go:95-102 translator.warn *)
definition warn :: "mig_env \<Rightarrow> mig_warning \<Rightarrow> translator \<Rightarrow> translator" where
  "warn E w t = add_warning (mig_sprintf E w) t"

definition warn_when :: "mig_env \<Rightarrow> bool \<Rightarrow> mig_warning \<Rightarrow> translator \<Rightarrow> translator" where
  "warn_when E b w t = (if b then warn E w t else t)"

(* src/internal/k8s/migrate/translate.go:127-133 translator.addIpam *)
definition addIpam :: "string \<Rightarrow> ip_pool list \<Rightarrow> translator \<Rightarrow> translator" where
  "addIpam name pools t =
     (if name \<in> tr_ipamSeen t \<or> pools = [] then t
      else t\<lparr>tr_ipamSeen := insert name (tr_ipamSeen t),
             tr_ipams := tr_ipams t @ [\<lparr>ipam_name = name, ipam_ipPools = pools\<rparr>]\<rparr>)"

(* src/internal/k8s/migrate/translate.go:106-112 translator.loadNADs *)
definition loadNADs :: "Inventory \<Rightarrow> translator \<Rightarrow> translator" where
  "loadNADs iv t = (case in_CNEInstance iv of None \<Rightarrow> t | Some nads \<Rightarrow> t\<lparr>tr_nads := nads\<rparr>)"

(* src/internal/k8s/migrate/translate.go:115-125 translator.nadForInterface *)
definition nadForInterface :: "string list \<Rightarrow> string \<Rightarrow> string option" where
  "nadForInterface nads iface =
     (let parts = split_on CHR ''.'' iface
      in if length parts \<noteq> 2 then None
         else case atoi (parts ! 1) of
             None \<Rightarrow> None
           | Some n \<Rightarrow> if n < 1 \<or> n > int (length nads) then None else Some (nads ! nat (n - 1)))"

subsection \<open>VLANs\<close>

definition vlan_name :: "legacy_vlan \<Rightarrow> string" where
  "vlan_name v = (if vl_name v = [] then vl_GetName v else vl_name v)"

definition range_pool :: "string \<Rightarrow> string \<Rightarrow> string \<Rightarrow> ip_pool" where
  "range_pool start end' zone =
     \<lparr>ipp_rangeStart = Some start, ipp_rangeEnd = Some end', ipp_cidr = None,
      ipp_availabilityZone = opt_text zone\<rparr>"

(* src/internal/k8s/migrate/translate.go:158-174 translator.vlans part *)
definition vlan_pool ::
  "mig_env \<Rightarrow> Options \<Rightarrow> string \<Rightarrow> string \<Rightarrow> string \<Rightarrow> ip_pool list \<times> translator \<Rightarrow> ip_pool list \<times> translator" where
  "vlan_pool E opts name zone ip pt =
     (case pt of (pools, t) \<Rightarrow>
        if op_SingleSelfIP opts then (pools @ [range_pool ip ip zone], t)
        else case SelfIPPoolRange ip of
            Inr (s, e) \<Rightarrow> (pools @ [range_pool s e zone], t)
          | Inl err \<Rightarrow> (pools @ [range_pool ip ip zone],
                         warn E (VlanWarning name (SingleAddressPool ip err)) t))"

(* src/internal/k8s/migrate/translate.go:190-197 translator.vlans part *)
definition vlan_nad ::
  "mig_env \<Rightarrow> string \<Rightarrow> string \<Rightarrow> string \<Rightarrow> string list \<times> translator \<Rightarrow> string list \<times> translator" where
  "vlan_nad E name attachName iface nt =
     (case nt of (nadNames, t) \<Rightarrow>
        case nadForInterface (tr_nads t) iface of
          Some nad \<Rightarrow> (nadNames @ [nad], t)
        | None \<Rightarrow> (nadNames, warn E (VlanWarning name (NoMatchingNAD iface attachName)) t))"

definition positive :: "int option \<Rightarrow> int option" where
  "positive n = (case n of Some i \<Rightarrow> if i > 0 then Some i else None | None \<Rightarrow> None)"

(* src/internal/k8s/migrate/translate.go:144-156 translator.vlans part *)
definition vlan_external :: "mig_env \<Rightarrow> legacy_vlan \<Rightarrow> translator \<Rightarrow> translator" where
  "vlan_external E v t =
     (let t1 = (if vl_internal v then t else t\<lparr>tr_externalNets := tr_externalNets t @ [vlan_name v]\<rparr>)
      in if \<not> vl_internal v \<and> tr_extGateway t1 = [] \<and> vl_selfip_v4s v \<noteq> [] then
           (case intAt E (vl_prefixlen_v4 v) of
              Some plen \<Rightarrow> t1\<lparr>tr_extGateway := firstHost (hd (vl_selfip_v4s v)) plen\<rparr>
            | None \<Rightarrow> t1)
         else t1)"

definition vlan_entry :: "mig_env \<Rightarrow> legacy_vlan \<Rightarrow> ip_pool list \<Rightarrow> infra_network" where
  "vlan_entry E v pools =
     \<lparr>net_name = vlan_name v,
      net_body = VlanNetwork
        \<lparr>vn_networkAttachmentRef = vlan_name v @ ''-attach'',
         vn_tag = (case intAt E (vl_tag v) of Some tag \<Rightarrow> tag | None \<Rightarrow> 0),
         vn_mtu = positive (intAt E (vl_mtu v)),
         vn_ipamRefs = (if pools \<noteq> [] then [vlan_name v @ ''-selfip''] else [])\<rparr>\<rparr>"

(* src/internal/k8s/migrate/translate.go:139-228 translator.vlans part *)
definition vlan_step :: "mig_env \<Rightarrow> Options \<Rightarrow> legacy_vlan \<Rightarrow> translator \<Rightarrow> translator" where
  "vlan_step E opts v t0 =
     (let name = vlan_name v;
          zone = zone_of opts name;
          t1 = vlan_external E v t0;
          (pools, t2) = fold (vlan_pool E opts name zone) (vl_selfip_v4s v) ([], t1);
          t3 = warn_when E (vl_selfip_v6s v \<noteq> []) (VlanWarning name (IPv6SelfIPsDropped (vl_selfip_v6s v))) t2;
          t4 = warn_when E (pools = []) (VlanWarning name NoSelfIPs) t3;
          t5 = warn_when E (zone = []) (VlanWarning name NoZoneKnown) t4;
          t6 = addIpam (name @ ''-selfip'') pools t5;
          attachName = name @ ''-attach'';
          (nadNames, t7) = fold (vlan_nad E name attachName) (vl_interfaces v) ([], t6);
          t8 = t7\<lparr>tr_attachments := tr_attachments t7 @ [\<lparr>att_name = attachName, att_definitions = nadNames\<rparr>]\<rparr>;
          t9 = t8\<lparr>tr_networks := tr_networks t8 @ [vlan_entry E v pools]\<rparr>
      in warn_when E (vl_allowed_services v \<noteq> []) (VlanWarning name AllowedServicesDropped) t9)"

(* src/internal/k8s/migrate/translate.go:138-230 translator.vlans *)
definition vlans :: "mig_env \<Rightarrow> Inventory \<Rightarrow> Options \<Rightarrow> translator \<Rightarrow> translator" where
  "vlans E iv opts t0 =
     (let t = fold (vlan_step E opts) (in_Vlans iv) t0
      in t\<lparr>tr_externalNets := sort (tr_externalNets t)\<rparr>)"

(* src/internal/k8s/migrate/translate.go:232-243 translator.vrfList *)
definition vrfList :: "mig_env \<Rightarrow> Inventory \<Rightarrow> translator \<Rightarrow> translator" where
  "vrfList E iv =
     fold (\<lambda>v t0.
        let t1 = warn_when E (vf_interconnectVrf v \<noteq> []) (VrfInterconnect (vf_GetName v) (vf_interconnectVrf v)) t0
        in t1\<lparr>tr_vrfs := tr_vrfs t1 @ [\<lparr>vrf_name = vf_GetName v, vrf_strictIsolation = vf_strictIsolation v\<rparr>]\<rparr>)
       (in_Vrfs iv)"

subsection \<open>VXLANs and static routes\<close>

(* src/internal/k8s/migrate/translate.go:262-267 translator.vxlans part *)
definition vxlan_cidr :: "mig_env \<Rightarrow> legacy_vxlan \<Rightarrow> string" where
  "vxlan_cidr E v =
     (let cidr = cidrFrom (vx_ipv4Subnet v) (intAt E (vx_ipv4PrefixLen v))
      in if cidr = [] then cidrFrom (vx_localIpSubnet v) (intAt E (vx_localIpPrefixlen v)) else cidr)"

definition cidr_pool :: "string \<Rightarrow> string \<Rightarrow> ip_pool" where
  "cidr_pool cidr zone =
     \<lparr>ipp_rangeStart = None, ipp_rangeEnd = None, ipp_cidr = Some cidr, ipp_availabilityZone = opt_text zone\<rparr>"

definition vxlan_entry :: "mig_env \<Rightarrow> legacy_vxlan \<Rightarrow> string \<Rightarrow> infra_network" where
  "vxlan_entry E v cidr =
     (let poolName = vx_GetName v @ ''-vtep'' in
     \<lparr>net_name = vx_GetName v,
      net_body = VxlanNetwork
        \<lparr>xn_vni = positive (intAt E (vx_vni v)),
         xn_mtu = positive (intAt E (vx_mtu v)),
         xn_port = positive (intAt E (vx_port v)),
         xn_vrfRef = opt_text (vx_vrf v),
         xn_networkRef = opt_text (vx_vlan v),
         xn_ipamRefs = (if vx_vlan v \<noteq> [] \<and> cidr \<noteq> [] then [poolName] else []),
         xn_vtepIpamRefs = (if vx_vlan v = [] \<and> cidr \<noteq> [] then [poolName] else [])\<rparr>\<rparr>)"

definition vxlan_step :: "mig_env \<Rightarrow> legacy_vxlan \<Rightarrow> translator \<Rightarrow> translator" where
  "vxlan_step E v t0 =
     (let name = vx_GetName v;
          cidr = vxlan_cidr E v;
          t1 = (if cidr \<noteq> [] then addIpam (name @ ''-vtep'') [cidr_pool cidr []] t0
                else warn E (VxlanWarning name NoVtepSubnet) t0);
          t2 = warn_when E (vx_vlan v = [] \<and> cidr = []) (VxlanWarning name NoUnderlay) t1;
          t3 = warn_when E (vx_evpn v) (VxlanWarning name EvpnDropped) t2
      in t3\<lparr>tr_networks := tr_networks t3 @ [vxlan_entry E v cidr]\<rparr>)"

(* src/internal/k8s/migrate/translate.go:246-289 translator.vxlans *)
definition vxlans :: "mig_env \<Rightarrow> Inventory \<Rightarrow> translator \<Rightarrow> translator" where
  "vxlans E iv = fold (vxlan_step E) (in_Vxlans iv)"

(* src/internal/k8s/render/render.go:525-525 InfraRouteDefault part *)
definition InfraRouteDefault :: string where
  "InfraRouteDefault = ''default''"

(* src/internal/k8s/render/render.go:521-521 InfraEgressSubnet part *)
definition InfraEgressSubnet :: string where
  "InfraEgressSubnet = ''192.168.0.0/16''"

(* src/internal/k8s/render/render.go:522-522 InfraEgressPort part *)
definition InfraEgressPort :: int where
  "InfraEgressPort = 4789"

definition route_step :: "mig_env \<Rightarrow> legacy_route \<Rightarrow> translator \<Rightarrow> translator" where
  "route_step E r t =
     (let name = sr_GetName r
      in if sr_type r \<noteq> [] \<and> sr_type r \<noteq> ''gateway''
         then warn E (RouteWarning name (RouteTypeSkipped (sr_type r))) t
         else case (sr_destination r, intAt E (sr_prefixLen r)) of
             (d # ds, Some prefix) \<Rightarrow>
               if sr_gateway r = [] then warn E (RouteWarning name RouteNoGateway) t
               else t\<lparr>tr_routes := tr_routes t @
                  [\<lparr>rt_name = name, rt_destinations = [cidr_text (d # ds) prefix], rt_nextHop = sr_gateway r\<rparr>]\<rparr>
           | _ \<Rightarrow> warn E (RouteWarning name RouteIncomplete) t)"

(* src/internal/k8s/migrate/translate.go:295-328 translator.staticRoutes *)
definition staticRoutes :: "mig_env \<Rightarrow> Inventory \<Rightarrow> translator \<Rightarrow> translator" where
  "staticRoutes E iv t0 =
     (let t = fold (route_step E) (in_StaticRoutes iv) t0
      in if tr_routes t = [] \<and> tr_extGateway t \<noteq> [] then
           warn E (DefaultRouteAdded (tr_extGateway t))
             (t\<lparr>tr_routes := [\<lparr>rt_name = InfraRouteDefault, rt_destinations = [''0.0.0.0/0''],
                              rt_nextHop = tr_extGateway t\<rparr>]\<rparr>)
         else t)"

subsection \<open>Address pools\<close>

(* src/internal/k8s/migrate/translate.go:567-574 translator.externalZone *)
definition externalZone :: "Options \<Rightarrow> translator \<Rightarrow> string" where
  "externalZone opts t =
     (case find (\<lambda>z. z \<noteq> []) (map (zone_of opts) (tr_externalNets t)) of Some z \<Rightarrow> z | None \<Rightarrow> [])"

(* src/internal/k8s/migrate/translate.go:362-362 snatIpamName *)
definition snatIpamName :: "string \<Rightarrow> string" where
  "snatIpamName snatpool = snatpool @ ''-snat''"

text \<open>The addresses of a snatpool: the strings of the inner lists that parse as IP addresses.\<close>

fun snat_addresses :: "any \<Rightarrow> string list" where
  "snat_addresses (AList addrs) = filter (\<lambda>ip. parse_ip ip \<noteq> None) (map (\<lambda>a. any_string (Some a)) addrs)"
| "snat_addresses _ = []"

definition snatpool_step :: "mig_env \<Rightarrow> Options \<Rightarrow> legacy_snatpool \<Rightarrow> translator \<Rightarrow> translator" where
  "snatpool_step E opts s t =
     (let ips = concat (map snat_addresses (sp_addressList s))
      in if ips = [] then warn E (SnatpoolEmpty (sp_GetName s)) t
         else addIpam (snatIpamName (sp_GetName s)) (map (\<lambda>ip. range_pool ip ip (externalZone opts t)) ips) t)"

(* src/internal/k8s/migrate/translate.go:332-360 translator.snatpools *)
definition snatpools :: "mig_env \<Rightarrow> Inventory \<Rightarrow> Options \<Rightarrow> translator \<Rightarrow> translator" where
  "snatpools E iv opts = fold (snatpool_step E opts) (in_Snatpools iv)"

end
