(* ===== verification/MigrateTenant.thy ===== *)
theory MigrateTenant
  imports Migrate
begin

text \<open>
  The tenant side of \<open>translate.go\<close>: Gateways and their GatewaySettings, egress, policies,
  the Infra object, and \<open>Translate\<close> itself.
\<close>

(* src/internal/k8s/migrate/types.go:17-17 GatewayF5Group *)
definition GatewayF5Group :: string where
  "GatewayF5Group = ''gateway.k8s.f5.com''"

(* src/internal/k8s/migrate/types.go:12-12 LegacyGroup *)
definition LegacyGroup :: string where
  "LegacyGroup = ''k8s.f5net.com''"

subsection \<open>Gateways\<close>

(* src/internal/k8s/migrate/translate.go:380-382 isBNKController *)
definition isBNKController :: "string \<Rightarrow> bool" where
  "isBNKController controllerName = has_prefix controllerName ''f5.com/''"

(* src/internal/k8s/migrate/translate.go:365-378 translator.bnkGatewayClass *)
definition bnkGatewayClass :: "Inventory \<Rightarrow> Options \<Rightarrow> api_gateway list \<Rightarrow> string" where
  "bnkGatewayClass iv opts gws =
     (if op_GatewayClassName opts \<noteq> [] then op_GatewayClassName opts
      else case gws of
          gw # _ \<Rightarrow> gw_gatewayClassName gw
        | [] \<Rightarrow> (case find (\<lambda>gc. isBNKController (gc_controllerName gc)) (in_GatewayClasses iv) of
                 Some gc \<Rightarrow> gc_GetName gc
               | None \<Rightarrow> []))"

definition bnk_classes :: "Inventory \<Rightarrow> Options \<Rightarrow> string list" where
  "bnk_classes iv opts =
     map gc_GetName (filter (\<lambda>gc. isBNKController (gc_controllerName gc)) (in_GatewayClasses iv)) @
     (if op_GatewayClassName opts \<noteq> [] then [op_GatewayClassName opts] else [])"

(* src/internal/k8s/migrate/translate.go:386-409 translator.bnkGateways *)
definition bnkGateways ::
  "mig_env \<Rightarrow> Inventory \<Rightarrow> Options \<Rightarrow> translator \<Rightarrow> api_gateway list \<times> translator" where
  "bnkGateways E iv opts t =
     (if bnk_classes iv opts = []
      then (in_Gateways iv, fold (\<lambda>_. warn E NoBNKGatewayClass) (in_Gateways iv) t)
      else (filter (\<lambda>gw. gw_gatewayClassName gw \<in> set (bnk_classes iv opts)) (in_Gateways iv), t))"

(* src/internal/k8s/migrate/translate.go:481-491 pickBnkGateway *)
definition pickBnkGateway :: "legacy_bnkgateway list \<Rightarrow> string \<Rightarrow> legacy_bnkgateway option" where
  "pickBnkGateway candidates gatewayName =
     (case find (\<lambda>c. bg_GetName c = gatewayName) candidates of
        Some c \<Rightarrow> Some c
      | None \<Rightarrow> (case candidates of [c] \<Rightarrow> Some c | _ \<Rightarrow> None))"

definition listener_pool_name :: "string \<Rightarrow> nat \<Rightarrow> (string \<times> any) list \<Rightarrow> string" where
  "listener_pool_name base n m =
     (let nm = string_in m ''name''
      in if n > 1 \<and> nm \<noteq> [] then base @ ''-'' @ to_lower (replace_char CHR ''_'' CHR ''-'' nm) else base)"

definition listener_pool :: "(string \<times> any) list \<Rightarrow> string \<Rightarrow> ip_pool option" where
  "listener_pool m zone =
     (let start = string_in m ''startAddress'';
          end' = string_in m ''endAddress'';
          v4 = string_in m ''ipv4BaseCidr'';
          cidr = (if v4 = [] then string_in m ''ipv6BaseCidr'' else v4)
      in if start \<noteq> [] \<and> end' \<noteq> [] then Some (range_pool start end' zone)
         else if cidr \<noteq> [] then Some (cidr_pool cidr zone)
         else None)"

fun listener_step ::
  "mig_env \<Rightarrow> Options \<Rightarrow> legacy_bnkgateway \<Rightarrow> nat \<Rightarrow> any \<Rightarrow> string list \<times> translator \<Rightarrow> string list \<times> translator" where
  "listener_step E opts b n (AMap m) (names, t) =
     (let poolName = listener_pool_name (bg_GetNamespace b @ ''-'' @ bg_GetName b) n m
      in case listener_pool m (externalZone opts t) of
           Some pool \<Rightarrow> (names @ [poolName], addIpam poolName [pool] t)
         | None \<Rightarrow> (names, warn E (ListenerSkipped (bg_GetNamespace b) (bg_GetName b)) t))"
| "listener_step E opts b n _ nt = nt"

(* src/internal/k8s/migrate/translate.go:495-533 translator.listenerPools *)
definition listenerPools ::
  "mig_env \<Rightarrow> Options \<Rightarrow> legacy_bnkgateway \<Rightarrow> translator \<Rightarrow> string list \<times> translator" where
  "listenerPools E opts b t =
     fold (listener_step E opts b (length (bg_listenerNetworks b))) (bg_listenerNetworks b) ([], t)"

fun static_ip :: "any \<Rightarrow> ip option" where
  "static_ip (AMap m) =
     (let typ = string_in m ''type''
      in if typ \<noteq> [] \<and> typ \<noteq> ''IPAddress'' then None else parse_ip4 (string_in m ''value''))"
| "static_ip _ = None"

text \<open>\<open>sort.Slice\<close> by \<open>bytesCompare\<close>; addresses that compare equal are equal.\<close>

fun insert_ip :: "ip \<Rightarrow> ip list \<Rightarrow> ip list" where
  "insert_ip a [] = [a]"
| "insert_ip a (x # xs) = (if bytesCompare x a < 0 then x # insert_ip a xs else a # x # xs)"

definition sort_ips :: "ip list \<Rightarrow> ip list" where
  "sort_ips ips = foldr insert_ip ips []"

(* src/internal/k8s/migrate/translate.go:536-564 translator.staticPool *)
definition staticPool ::
  "mig_env \<Rightarrow> Options \<Rightarrow> api_gateway \<Rightarrow> translator \<Rightarrow> string list \<times> translator" where
  "staticPool E opts gw t =
     (let ips = sort_ips (List.map_filter static_ip (gw_addresses gw));
          name = gw_GetNamespace gw @ ''-'' @ gw_GetName gw @ ''-static''
      in if ips = [] then ([], t)
         else ([name],
               warn E (GatewayWarning (gw_GetNamespace gw) (gw_GetName gw) (StaticPoolOnly name))
                 (addIpam name [range_pool (ipv4_string (hd ips)) (ipv4_string (last ips)) (externalZone opts t)] t)))"

subsection \<open>Settings\<close>

definition empty_settings :: "string \<Rightarrow> string \<Rightarrow> gateway_settings" where
  "empty_settings ns name =
     \<lparr>gs_name = name, gs_namespace = ns, gs_defaultListenerNetwork = None,
      gs_egressConfigs = [], gs_sourceNATPools = []\<rparr>"

(* src/internal/k8s/migrate/translate.go:577-590 translator.settingsFor *)
definition settingsFor :: "string \<Rightarrow> string \<Rightarrow> translator \<Rightarrow> translator" where
  "settingsFor ns name t =
     (case map_of (tr_settings t) (obj_key ns name) of
        Some _ \<Rightarrow> t
      | None \<Rightarrow> t\<lparr>tr_settings := tr_settings t @ [(obj_key ns name, empty_settings ns name)]\<rparr>)"

definition update_settings ::
  "string \<Rightarrow> string \<Rightarrow> (gateway_settings \<Rightarrow> gateway_settings) \<Rightarrow> translator \<Rightarrow> translator" where
  "update_settings ns name f t =
     t\<lparr>tr_settings := map (\<lambda>(k, gs). (k, if k = obj_key ns name then f gs else gs)) (tr_settings t)\<rparr>"

(* src/internal/k8s/migrate/translate.go:434-470 translator.gateways part *)
definition gateway_settle ::
  "mig_env \<Rightarrow> string \<Rightarrow> string \<Rightarrow> string list \<Rightarrow> translator \<Rightarrow> translator" where
  "gateway_settle E ns name pools t0 =
     (let t1 = settingsFor ns name t0;
          networkRefs = tr_externalNets t1;
          t2 = warn_when E (networkRefs = []) (GatewayWarning ns name NoExternalVlan) t1;
          t3 = update_settings ns name
                 (\<lambda>gs. gs\<lparr>gs_defaultListenerNetwork := Some
                    \<lparr>ln_ipamRefs = pools, ln_sourceNATConfig = Automap, ln_networkRefs = networkRefs\<rparr>\<rparr>) t2;
          t4 = warn E AutomapNote t3
      in t4\<lparr>tr_plan := (tr_plan t4)\<lparr>pl_GatewayPatches := pl_GatewayPatches (tr_plan t4) @
             [\<lparr>gp_name = name, gp_namespace = ns, gp_parametersRef = name\<rparr>]\<rparr>\<rparr>)"

definition gateway_pools ::
  "mig_env \<Rightarrow> Inventory \<Rightarrow> Options \<Rightarrow> api_gateway \<Rightarrow> string set \<times> translator \<Rightarrow> string list \<times> string set \<times> translator" where
  "gateway_pools E iv opts gw ut =
     (case ut of (used, t) \<Rightarrow>
        case pickBnkGateway (filter (\<lambda>b. bg_GetNamespace b = gw_GetNamespace gw) (in_BnkGateways iv)) (gw_GetName gw) of
          Some b \<Rightarrow> (case listenerPools E opts b t of (pools, t') \<Rightarrow>
              (pools, insert (obj_key (gw_GetNamespace gw) (bg_GetName b)) used, t'))
        | None \<Rightarrow> (case staticPool E opts gw t of (pools, t') \<Rightarrow> (pools, used, t')))"

definition gateway_step ::
  "mig_env \<Rightarrow> Inventory \<Rightarrow> Options \<Rightarrow> api_gateway \<Rightarrow> string set \<times> translator \<Rightarrow> string set \<times> translator" where
  "gateway_step E iv opts gw ut =
     (case gateway_pools E iv opts gw ut of (pools, used, t) \<Rightarrow>
        if pools = [] then (used, warn E (GatewayWarning (gw_GetNamespace gw) (gw_GetName gw) NoVipSource) t)
        else (used, gateway_settle E (gw_GetNamespace gw) (gw_GetName gw) pools t))"

(* src/internal/k8s/migrate/translate.go:415-477 translator.gateways *)
definition gateways :: "mig_env \<Rightarrow> Inventory \<Rightarrow> Options \<Rightarrow> translator \<Rightarrow> translator" where
  "gateways E iv opts t0 =
     (let (gws, t1) = bnkGateways E iv opts t0;
          (used, t2) = fold (gateway_step E iv opts) gws ({}, t1)
      in fold (\<lambda>b. warn_when E (obj_key (bg_GetNamespace b) (bg_GetName b) \<notin> used)
                 (BnkGatewayUnused (bg_GetNamespace b) (bg_GetName b))) (in_BnkGateways iv) t2)"

subsection \<open>Egress\<close>

(* src/internal/k8s/migrate/translate.go:740-753 translator.defaultTunnelNetwork *)
definition defaultTunnelNetwork :: "Inventory \<Rightarrow> translator \<Rightarrow> string" where
  "defaultTunnelNetwork iv t =
     (case find vl_internal (in_Vlans iv) of
        Some v \<Rightarrow> vlan_name v
      | None \<Rightarrow> (case tr_externalNets t of n # _ \<Rightarrow> n | [] \<Rightarrow> []))"

(* src/internal/k8s/migrate/translate.go:700-721 translator.snatConfig *)
definition snatConfig ::
  "mig_env \<Rightarrow> Inventory \<Rightarrow> legacy_egress \<Rightarrow> translator \<Rightarrow> source_nat \<times> translator" where
  "snatConfig E iv e t =
     (let name = eg_GetName e; typ = eg_snatType e; pool = eg_egressSnatpool e
      in if typ = [] \<or> typ = ''SRC_TRANS_AUTOMAP'' then (Automap, t)
         else if typ = ''SRC_TRANS_NONE'' then (NoSourceNAT, t)
         else if typ = ''SRC_TRANS_SNATPOOL'' then
           (if pool = [] then (Automap, warn E (EgressWarning name SnatpoolUnnamed) t)
            else (NATPool pool,
                  warn_when E (snatIpamName pool \<notin> tr_ipamSeen t)
                    (EgressWarning name (SnatpoolMissing pool (in_Namespace iv))) t))
         else (Automap, warn E (EgressWarning name (SnatTypeUnknown typ)) t))"

(* src/internal/k8s/migrate/translate.go:724-736 translator.addSourceNATPool *)
definition addSourceNATPool :: "string \<Rightarrow> gateway_settings \<Rightarrow> gateway_settings" where
  "addSourceNATPool pool gs =
     (if pool \<in> np_name ` set (gs_sourceNATPools gs) then gs
      else gs\<lparr>gs_sourceNATPools := gs_sourceNATPools gs @ [\<lparr>np_name = pool, np_ipamRefs = [snatIpamName pool]\<rparr>]\<rparr>)"

text \<open>\<open>fmt.Sprint\<close> of the \<open>egressDefaults\<close> map: its keys in sorted order.\<close>

definition sprint_def :: "egress_defaults \<Rightarrow> string" where
  "sprint_def d =
     ''map['' @ join_with '' ''
       ((case ed_networkRef d of Some n \<Rightarrow> [''networkRef:map[name:'' @ n @ '']''] | None \<Rightarrow> []) @
        (case ed_port d of Some p \<Rightarrow> [''port:'' @ dec_int p] | None \<Rightarrow> []) @
        (case ed_subnet d of Some s \<Rightarrow> [''subnet:'' @ s] | None \<Rightarrow> [])) @ '']''"

definition no_defaults :: egress_defaults where
  "no_defaults = \<lparr>ed_networkRef = None, ed_subnet = None, ed_port = None\<rparr>"

(* src/internal/k8s/migrate/translate.go:607-617 translator.egresses part *)
definition tunnel_def :: "mig_env \<Rightarrow> legacy_egress \<Rightarrow> string \<Rightarrow> egress_defaults" where
  "tunnel_def E e tmmIf =
     (let vx = eg_vxlan e; subnet = string_in vx ''ipv4Subnet'' in
     \<lparr>ed_networkRef = opt_text tmmIf,
      ed_subnet = (case intAt E (map_of vx ''ipv4PrefixLen'') of
          Some plen \<Rightarrow> if subnet \<noteq> [] then Some (cidr_text subnet plen) else None
        | None \<Rightarrow> None),
      ed_port = positive (intAt E (map_of vx ''port''))\<rparr>)"

(* src/internal/k8s/migrate/translate.go:618-631 translator.egresses part *)
definition egress_tunnel :: "mig_env \<Rightarrow> legacy_egress \<Rightarrow> egress_defaults \<Rightarrow> translator \<Rightarrow> translator" where
  "egress_tunnel E e def t0 =
     (let name = eg_GetName e; v6 = string_in (eg_vxlan e) ''ipv6Subnet'';
          nodeIf = string_in (eg_vxlan e) ''nodeInterfaceName'';
          t1 = warn_when E (v6 \<noteq> []) (EgressWarning name (IPv6TunnelDropped v6)) t0;
          t2 = warn_when E (nodeIf \<noteq> []) (EgressWarning name (NodeInterfaceDropped nodeIf)) t1
      in case tr_egressDef t2 of
           None \<Rightarrow> if def \<noteq> no_defaults then t2\<lparr>tr_egressDef := Some def\<rparr> else t2
         | Some d \<Rightarrow> warn_when E (sprint_def d \<noteq> sprint_def def \<and> def \<noteq> no_defaults)
                       (EgressWarning name TunnelDiffers) t2)"

definition bind_firewall :: "string \<Rightarrow> string \<Rightarrow> string \<Rightarrow> f5_policy" where
  "bind_firewall ns fw name =
     \<lparr>pol_kind = ''SecPolicy'', pol_name = fw, pol_namespace = ns, pol_labels = [], pol_annotations = [],
      pol_spec =
        [(''targetRefs'', AList [AMap [(''group'', AString GatewayF5Group), (''kind'', AString ''EgressGateway''),
                                       (''name'', AString name)]]),
         (''extensionRefs'', AList [AMap [(''group'', AString LegacyGroup), (''kind'', AString ''F5BigFwPolicy''),
                                          (''name'', AString fw)]])]\<rparr>"

(* src/internal/k8s/migrate/translate.go:647-695 translator.egresses part *)
definition egress_namespace ::
  "mig_env \<Rightarrow> string \<Rightarrow> legacy_egress \<Rightarrow> string \<Rightarrow> source_nat \<Rightarrow> string \<Rightarrow> translator \<Rightarrow> translator" where
  "egress_namespace E gwClass e tmmIf snat ns t0 =
     (let name = eg_GetName e; fw = eg_firewallEnforcedPolicy e;
          cfg = \<lparr>ec_name = name, ec_sourceNATConfig = snat, ec_networkRef = opt_text tmmIf\<rparr>;
          t1 = settingsFor ns name t0;
          t2 = update_settings ns name (\<lambda>gs. gs\<lparr>gs_egressConfigs := gs_egressConfigs gs @ [cfg]\<rparr>) t1;
          t3 = (case snat of NATPool pool \<Rightarrow> update_settings ns name (addSourceNATPool pool) t2 | _ \<Rightarrow> t2);
          t4 = warn_when E (gwClass = []) (EgressClassMissing ns name) t3;
          t5 = t4\<lparr>tr_plan := (tr_plan t4)\<lparr>pl_EgressGateways := pl_EgressGateways (tr_plan t4) @
                 [\<lparr>eg_name = name, eg_namespace = ns, eg_gatewayClassName = gwClass, eg_parametersRef = name,
                   eg_sectionName = name, eg_matchNames = [ns]\<rparr>]\<rparr>\<rparr>
      in if fw = [] then t5
         else warn E (EgressWarning name (FirewallRehomed fw ns))
           (t5\<lparr>tr_plan := (tr_plan t5)\<lparr>pl_Policies := pl_Policies (tr_plan t5) @ [bind_firewall ns fw name]\<rparr>\<rparr>))"

definition dropped_flags :: "string list" where
  "dropped_flags = [''dnsNat46Enabled'', ''dualStackEnabled'', ''debugLogEnabled'', ''egressSnatpoolProtectionEnabled'']"

definition egress_step ::
  "mig_env \<Rightarrow> Inventory \<Rightarrow> string \<Rightarrow> legacy_egress \<Rightarrow> translator \<Rightarrow> translator" where
  "egress_step E iv gwClass e t0 =
     (let name = eg_GetName e;
          declared = string_in (eg_vxlan e) ''tmmInterfaceName'';
          tmmIf = (if declared = [] then defaultTunnelNetwork iv t0 else declared);
          t1 = warn_when E (declared = [] \<and> tmmIf \<noteq> []) (EgressWarning name (TunnelDefaulted tmmIf)) t0;
          t2 = egress_tunnel E e (tunnel_def E e tmmIf) t1;
          (snat, t3) = snatConfig E iv e t2;
          t4 = warn_when E (eg_namespaces e = []) (EgressWarning name NoNamespaces) t3;
          t5 = fold (\<lambda>k. warn_when E (eg_flag e k = Some True) (EgressWarning name (FlagDropped k))) dropped_flags t4;
          t6 = warn_when E (positive (intAt E (eg_maxTmmReplicas e)) \<noteq> None) (EgressWarning name MaxReplicasDropped) t5
      in fold (egress_namespace E gwClass e tmmIf snat) (eg_namespaces e) t6)"

(* src/internal/k8s/migrate/translate.go:595-697 translator.egresses *)
definition egresses :: "mig_env \<Rightarrow> Inventory \<Rightarrow> Options \<Rightarrow> translator \<Rightarrow> translator" where
  "egresses E iv opts t0 =
     (let (gws, t1) = bnkGateways E iv opts t0
      in fold (egress_step E iv (bnkGatewayClass iv opts gws)) (in_Egresses iv) t1)"

subsection \<open>Policies, Infra, ordering\<close>

definition last_applied :: string where
  "last_applied = ''kubectl.kubernetes.io/last-applied-configuration''"

(* src/internal/k8s/migrate/translate.go:768-793 rehomePolicy *)
definition rehomePolicy :: "legacy_policy \<Rightarrow> string \<Rightarrow> f5_policy" where
  "rehomePolicy src kind =
     \<lparr>pol_kind = kind, pol_name = lp_GetName src, pol_namespace = lp_GetNamespace src,
      pol_labels = lp_labels src,
      pol_annotations = filter (\<lambda>(k, v). k \<noteq> last_applied) (lp_annotations src),
      pol_spec = (case lp_spec src of Some s \<Rightarrow> s | None \<Rightarrow> [])\<rparr>"

(* src/internal/k8s/migrate/translate.go:756-763 translator.policies *)
definition policies :: "Inventory \<Rightarrow> translator \<Rightarrow> translator" where
  "policies iv t =
     t\<lparr>tr_plan := (tr_plan t)\<lparr>pl_Policies := pl_Policies (tr_plan t) @
        map (\<lambda>p. rehomePolicy p ''SecPolicy'') (in_SecPolicies iv) @
        map (\<lambda>p. rehomePolicy p ''NetPolicy'') (in_NetPolicies iv)\<rparr>\<rparr>"

(* src/internal/k8s/migrate/translate.go:816-827 translator.buildInfra part *)
definition infra_egress :: "mig_env \<Rightarrow> Inventory \<Rightarrow> translator \<Rightarrow> egress_defaults \<times> translator" where
  "infra_egress E iv t =
     (let (d, t1) = (case tr_egressDef t of
            Some d \<Rightarrow> (d, t)
          | None \<Rightarrow> (\<lparr>ed_networkRef = opt_text (defaultTunnelNetwork iv t), ed_subnet = None,
                      ed_port = Some InfraEgressPort\<rparr>, warn E NoEgressFound t));
          d' = (case ed_subnet d of None \<Rightarrow> d\<lparr>ed_subnet := Some InfraEgressSubnet\<rparr> | Some _ \<Rightarrow> d)
      in (d', t1\<lparr>tr_egressDef := Some d'\<rparr>))"

(* src/internal/k8s/migrate/translate.go:796-838 translator.buildInfra *)
definition buildInfra :: "mig_env \<Rightarrow> Inventory \<Rightarrow> Options \<Rightarrow> translator \<Rightarrow> translator" where
  "buildInfra E iv opts t0 =
     (if in_Vlans iv = [] then t0
      else let (d, t) = infra_egress E iv t0
        in t\<lparr>tr_plan := (tr_plan t)\<lparr>pl_Infra := Some
             \<lparr>inf_name = infraName opts, inf_namespace = in_Namespace iv, inf_managedBy = ''awsbnkctl'',
              inf_spec = \<lparr>is_ipams = tr_ipams t, is_networkAttachments = tr_attachments t,
                is_networks = tr_networks t, is_vrfs = tr_vrfs t, is_staticRoutes = tr_routes t,
                is_egressDefaults = d\<rparr>\<rparr>\<rparr>\<rparr>)"

text \<open>
  \<open>sort.Slice\<close> is not stable; two objects with one key differ only when the inventory holds
  two egresses of one name, which one Kubernetes namespace cannot.
\<close>

(* src/internal/k8s/migrate/translate.go:841-856 translator.collectSettings *)
definition collectSettings :: "translator \<Rightarrow> translator" where
  "collectSettings t =
     (let keys = sort (map fst (tr_settings t)); p = tr_plan t
      in t\<lparr>tr_plan := p\<lparr>
            pl_GatewaySettings := pl_GatewaySettings p @ map (\<lambda>k. the (map_of (tr_settings t) k)) keys,
            pl_EgressGateways := sort_key (\<lambda>g. obj_key (eg_namespace g) (eg_name g)) (pl_EgressGateways p),
            pl_GatewayPatches := sort_key (\<lambda>g. obj_key (gp_namespace g) (gp_name g)) (pl_GatewayPatches p)\<rparr>\<rparr>)"

subsection \<open>Translate\<close>

datatype translate_error = NilInventory

definition empty_plan :: Plan where
  "empty_plan = \<lparr>pl_Infra = None, pl_GatewaySettings = [], pl_GatewayPatches = [], pl_EgressGateways = [],
     pl_Policies = [], pl_Warnings = []\<rparr>"

definition new_translator :: translator where
  "new_translator =
     \<lparr>tr_plan = empty_plan, tr_nads = [], tr_externalNets = [], tr_ipams = [], tr_ipamSeen = {},
      tr_attachments = [], tr_vrfs = [], tr_networks = [], tr_routes = [], tr_extGateway = [],
      tr_egressDef = None, tr_settings = [], tr_warned = {}\<rparr>"

definition translate_run :: "mig_env \<Rightarrow> Inventory \<Rightarrow> Options \<Rightarrow> translator" where
  "translate_run E iv opts =
     (let t1 = loadNADs iv new_translator;
          t2 = vlans E iv opts t1;
          t3 = vrfList E iv t2;
          t4 = vxlans E iv t3;
          t5 = staticRoutes E iv t4;
          t6 = snatpools E iv opts t5;
          t7 = gateways E iv opts t6;
          t8 = egresses E iv opts t7;
          t9 = policies iv t8;
          t10 = buildInfra E iv opts t9;
          t11 = collectSettings t10
      in warn_when E (in_Vlans iv = []) (NoVlanFound (in_Namespace iv)) t11)"

(* src/internal/k8s/migrate/translate.go:65-92 Translate *)
definition Translate :: "mig_env \<Rightarrow> Inventory option \<Rightarrow> Options \<Rightarrow> translate_error + Plan" where
  "Translate E inv_ptr opts =
     (case inv_ptr of
        None \<Rightarrow> Inl NilInventory
      | Some iv \<Rightarrow> Inr (tr_plan (translate_run E iv opts)))"

end
