(* ===== verification/MigrateInv.thy ===== *)
theory MigrateInv
  imports MigrateTenant
begin

text \<open>
  Invariants of the translator. \<open>tr_ok\<close> says that the two \<open>seen\<close> sets agree with the lists
  beside them, that no name is stored twice and that every reference between the generated
  objects resolves; every method of \<open>translate.go\<close> preserves it.
\<close>

subsection \<open>The invariant\<close>

definition ipam_names :: "translator \<Rightarrow> string set" where
  "ipam_names t = set (map ipam_name (tr_ipams t))"

definition att_names :: "translator \<Rightarrow> string set" where
  "att_names t = set (map att_name (tr_attachments t))"

definition stores_ok :: "translator \<Rightarrow> bool" where
  "stores_ok t \<longleftrightarrow> tr_ipamSeen t = ipam_names t \<and> distinct (map ipam_name (tr_ipams t)) \<and>
     tr_warned t = set (pl_Warnings (tr_plan t)) \<and> distinct (pl_Warnings (tr_plan t))"

text \<open>The IPAM and attachment names a network refers to.\<close>

fun body_ipams :: "network_body \<Rightarrow> string list" where
  "body_ipams (VlanNetwork v) = vn_ipamRefs v"
| "body_ipams (VxlanNetwork x) = xn_ipamRefs x @ xn_vtepIpamRefs x"

fun body_attachments :: "network_body \<Rightarrow> string list" where
  "body_attachments (VlanNetwork v) = [vn_networkAttachmentRef v]"
| "body_attachments (VxlanNetwork x) = []"

definition network_ok :: "string set \<Rightarrow> string set \<Rightarrow> infra_network \<Rightarrow> bool" where
  "network_ok I A n \<longleftrightarrow> set (body_ipams (net_body n)) \<subseteq> I \<and> set (body_attachments (net_body n)) \<subseteq> A"

definition networks_ok :: "string set \<Rightarrow> string set \<Rightarrow> infra_network list \<Rightarrow> bool" where
  "networks_ok I A ns \<longleftrightarrow> list_all (network_ok I A) ns"

definition nat_ok :: "gateway_settings \<Rightarrow> egress_config \<Rightarrow> bool" where
  "nat_ok gs c \<longleftrightarrow> (case ec_sourceNATConfig c of NATPool p \<Rightarrow> p \<in> np_name ` set (gs_sourceNATPools gs) | _ \<Rightarrow> True)"

definition settings_entry_ok :: "string set \<Rightarrow> string \<times> gateway_settings \<Rightarrow> bool" where
  "settings_entry_ok I e \<longleftrightarrow>
     fst e = obj_key (gs_namespace (snd e)) (gs_name (snd e)) \<and>
     (case gs_defaultListenerNetwork (snd e) of
        None \<Rightarrow> True
      | Some l \<Rightarrow> ln_ipamRefs l \<noteq> [] \<and> set (ln_ipamRefs l) \<subseteq> I) \<and>
     list_all (nat_ok (snd e)) (gs_egressConfigs (snd e)) \<and>
     distinct (map np_name (gs_sourceNATPools (snd e)))"

definition settings_ok :: "string set \<Rightarrow> (string \<times> gateway_settings) list \<Rightarrow> bool" where
  "settings_ok I S \<longleftrightarrow> distinct (map fst S) \<and> list_all (settings_entry_ok I) S"

definition patch_bound :: "(string \<times> gateway_settings) list \<Rightarrow> gateway_patch \<Rightarrow> bool" where
  "patch_bound S p \<longleftrightarrow>
     (\<exists>gs. map_of S (obj_key (gp_namespace p) (gp_parametersRef p)) = Some gs \<and> gs_defaultListenerNetwork gs \<noteq> None)"

definition egress_bound :: "(string \<times> gateway_settings) list \<Rightarrow> egress_gateway \<Rightarrow> bool" where
  "egress_bound S g \<longleftrightarrow>
     (\<exists>gs. map_of S (obj_key (eg_namespace g) (eg_parametersRef g)) = Some gs \<and>
       eg_sectionName g \<in> ec_name ` set (gs_egressConfigs gs))"

definition tr_ok :: "translator \<Rightarrow> bool" where
  "tr_ok t \<longleftrightarrow> stores_ok t \<and> networks_ok (ipam_names t) (att_names t) (tr_networks t) \<and>
     settings_ok (ipam_names t) (tr_settings t) \<and>
     list_all (patch_bound (tr_settings t)) (pl_GatewayPatches (tr_plan t)) \<and>
     list_all (egress_bound (tr_settings t)) (pl_EgressGateways (tr_plan t)) \<and>
     pl_Infra (tr_plan t) = None \<and> pl_GatewaySettings (tr_plan t) = []"

lemma fold_invariant_in:
  "P s \<Longrightarrow> (\<And>x s. x \<in> set xs \<Longrightarrow> P s \<Longrightarrow> P (f x s)) \<Longrightarrow> P (fold f xs s)"
  by (induction xs arbitrary: s) auto

lemma networks_ok_mono: "I \<subseteq> I' \<Longrightarrow> A \<subseteq> A' \<Longrightarrow> networks_ok I A ns \<Longrightarrow> networks_ok I' A' ns"
  by (simp add: networks_ok_def network_ok_def list_all_iff) blast

lemma settings_entry_ok_mono: "I \<subseteq> I' \<Longrightarrow> settings_entry_ok I e \<Longrightarrow> settings_entry_ok I' e"
  by (fastforce simp: settings_entry_ok_def split: option.splits)

lemma settings_ok_mono: "I \<subseteq> I' \<Longrightarrow> settings_ok I S \<Longrightarrow> settings_ok I' S"
  using settings_entry_ok_mono by (auto simp: settings_ok_def list_all_iff)

subsection \<open>Warnings and pools\<close>

text \<open>What a warning leaves alone: everything but the warnings.\<close>

lemma warn_fields [simp]:
  "tr_nads (warn E w t) = tr_nads t" "tr_externalNets (warn E w t) = tr_externalNets t"
  "tr_ipams (warn E w t) = tr_ipams t" "tr_ipamSeen (warn E w t) = tr_ipamSeen t"
  "tr_attachments (warn E w t) = tr_attachments t" "tr_vrfs (warn E w t) = tr_vrfs t"
  "tr_networks (warn E w t) = tr_networks t" "tr_routes (warn E w t) = tr_routes t"
  "tr_extGateway (warn E w t) = tr_extGateway t" "tr_egressDef (warn E w t) = tr_egressDef t"
  "tr_settings (warn E w t) = tr_settings t" "pl_Infra (tr_plan (warn E w t)) = pl_Infra (tr_plan t)"
  "pl_GatewaySettings (tr_plan (warn E w t)) = pl_GatewaySettings (tr_plan t)"
  "pl_GatewayPatches (tr_plan (warn E w t)) = pl_GatewayPatches (tr_plan t)"
  "pl_EgressGateways (tr_plan (warn E w t)) = pl_EgressGateways (tr_plan t)"
  "pl_Policies (tr_plan (warn E w t)) = pl_Policies (tr_plan t)"
  by (simp_all add: warn_def add_warning_def)

lemma warn_names [simp]:
  "ipam_names (warn E w t) = ipam_names t" "att_names (warn E w t) = att_names t"
  by (simp_all add: ipam_names_def att_names_def)

text \<open>The insert-once contract, for the warnings and for the IPAM names.\<close>

interpretation warnings: insert_once stores_ok "\<lambda>t. pl_Warnings (tr_plan t)" add_warning
  by unfold_locales (auto simp: stores_ok_def ipam_names_def add_warning_def)

interpretation ipams: insert_once stores_ok "\<lambda>t. map ipam_name (tr_ipams t)" "\<lambda>name. addIpam name [p]" for p
  by unfold_locales (auto simp: stores_ok_def ipam_names_def addIpam_def)

lemma stores_ok_warn: "stores_ok t \<Longrightarrow> stores_ok (warn E w t)"
  by (simp add: warn_def warnings.ok_add)

lemma addIpam_fields [simp]:
  "tr_nads (addIpam n ps t) = tr_nads t" "tr_externalNets (addIpam n ps t) = tr_externalNets t"
  "tr_attachments (addIpam n ps t) = tr_attachments t" "tr_vrfs (addIpam n ps t) = tr_vrfs t"
  "tr_networks (addIpam n ps t) = tr_networks t" "tr_routes (addIpam n ps t) = tr_routes t"
  "tr_extGateway (addIpam n ps t) = tr_extGateway t" "tr_egressDef (addIpam n ps t) = tr_egressDef t"
  "tr_settings (addIpam n ps t) = tr_settings t" "tr_plan (addIpam n ps t) = tr_plan t"
  "att_names (addIpam n ps t) = att_names t"
  by (simp_all add: addIpam_def att_names_def)

lemma ipam_names_addIpam:
  "stores_ok t \<Longrightarrow> ipam_names (addIpam n ps t) = (if ps = [] then ipam_names t else insert n (ipam_names t))"
  by (auto simp: addIpam_def ipam_names_def stores_ok_def)

lemma stores_ok_addIpam: "stores_ok t \<Longrightarrow> stores_ok (addIpam n ps t)"
  by (auto simp: addIpam_def ipam_names_def stores_ok_def)

named_theorems ok_intros "preservation of the translator invariant"

lemma tr_ok_warn [ok_intros]: "tr_ok t \<Longrightarrow> tr_ok (warn E w t)"
  by (simp add: tr_ok_def stores_ok_warn)

lemma tr_ok_warn_when [ok_intros]: "tr_ok t \<Longrightarrow> tr_ok (warn_when E b w t)"
  by (simp add: warn_when_def tr_ok_warn)

lemma warn_when_names [simp]:
  "ipam_names (warn_when E b w t) = ipam_names t" "att_names (warn_when E b w t) = att_names t"
  "tr_settings (warn_when E b w t) = tr_settings t" "tr_networks (warn_when E b w t) = tr_networks t"
  "tr_attachments (warn_when E b w t) = tr_attachments t"
  by (simp_all add: warn_when_def)

lemma tr_ok_addIpam [ok_intros]: "tr_ok t \<Longrightarrow> tr_ok (addIpam n ps t)"
proof -
  assume ok: "tr_ok t"
  then have "ipam_names t \<subseteq> ipam_names (addIpam n ps t)"
    by (auto simp: ipam_names_addIpam tr_ok_def)
  with ok show ?thesis
    using networks_ok_mono [of "ipam_names t" "ipam_names (addIpam n ps t)" "att_names t" "att_names t"]
      settings_ok_mono [of "ipam_names t" "ipam_names (addIpam n ps t)"]
    by (simp add: tr_ok_def stores_ok_addIpam)
qed

lemma tr_ok_addIpam_names: "tr_ok t \<Longrightarrow> ps \<noteq> [] \<Longrightarrow> n \<in> ipam_names (addIpam n ps t)"
  by (simp add: tr_ok_def ipam_names_addIpam)

subsection \<open>Fields the invariant does not read\<close>

lemma tr_ok_irrelevant [ok_intros]:
  "tr_ok t \<Longrightarrow> tr_ok (t\<lparr>tr_nads := a\<rparr>)" "tr_ok t \<Longrightarrow> tr_ok (t\<lparr>tr_externalNets := b\<rparr>)"
  "tr_ok t \<Longrightarrow> tr_ok (t\<lparr>tr_extGateway := c\<rparr>)" "tr_ok t \<Longrightarrow> tr_ok (t\<lparr>tr_vrfs := d\<rparr>)"
  "tr_ok t \<Longrightarrow> tr_ok (t\<lparr>tr_routes := e\<rparr>)" "tr_ok t \<Longrightarrow> tr_ok (t\<lparr>tr_egressDef := f\<rparr>)"
  "tr_ok t \<Longrightarrow> tr_ok (t\<lparr>tr_plan := (tr_plan t)\<lparr>pl_Policies := g\<rparr>\<rparr>)"
  by (simp_all add: tr_ok_def stores_ok_def ipam_names_def att_names_def)

lemma tr_ok_attachment [ok_intros]:
  "tr_ok t \<Longrightarrow> tr_ok (t\<lparr>tr_attachments := tr_attachments t @ [a]\<rparr>)"
  using networks_ok_mono [of "ipam_names t" "ipam_names t" "att_names t"
      "att_names (t\<lparr>tr_attachments := tr_attachments t @ [a]\<rparr>)"]
  by (auto simp: tr_ok_def stores_ok_def ipam_names_def att_names_def)

lemma tr_ok_network:
  "tr_ok t \<Longrightarrow> network_ok (ipam_names t) (att_names t) n \<Longrightarrow> tr_ok (t\<lparr>tr_networks := tr_networks t @ [n]\<rparr>)"
  by (simp add: tr_ok_def stores_ok_def ipam_names_def att_names_def networks_ok_def)

subsection \<open>Settings\<close>

lemma settingsFor_fields [simp]:
  "ipam_names (settingsFor ns n t) = ipam_names t" "att_names (settingsFor ns n t) = att_names t"
  "tr_networks (settingsFor ns n t) = tr_networks t" "tr_plan (settingsFor ns n t) = tr_plan t"
  "tr_externalNets (settingsFor ns n t) = tr_externalNets t"
  "tr_ipams (settingsFor ns n t) = tr_ipams t"
  "stores_ok (settingsFor ns n t) \<longleftrightarrow> stores_ok t"
  by (simp_all add: settingsFor_def ipam_names_def att_names_def stores_ok_def split: option.splits)

lemma settingsFor_key: "map_of (tr_settings (settingsFor ns n t)) (obj_key ns n) \<noteq> None"
  by (simp add: settingsFor_def split: option.splits) (auto simp: map_add_def split: option.splits)

lemma settingsFor_keep:
  "map_of (tr_settings t) k = Some gs \<Longrightarrow> map_of (tr_settings (settingsFor ns n t)) k = Some gs"
  by (simp add: settingsFor_def map_add_Some_iff split: option.splits)

lemma list_all_mono: "list_all P xs \<Longrightarrow> (\<And>x. P x \<Longrightarrow> Q x) \<Longrightarrow> list_all Q xs"
  by (auto simp: list_all_iff)

lemma tr_ok_settingsFor [ok_intros]: "tr_ok t \<Longrightarrow> tr_ok (settingsFor ns n t)"
proof -
  assume ok: "tr_ok t"
  have "settings_ok (ipam_names t) (tr_settings (settingsFor ns n t))"
    using ok by (auto simp: tr_ok_def settings_ok_def settingsFor_def settings_entry_ok_def empty_settings_def
        map_of_eq_None_iff split: option.splits)
  moreover have "patch_bound (tr_settings (settingsFor ns n t)) p" if "patch_bound (tr_settings t) p" for p
    using that settingsFor_keep by (fastforce simp: patch_bound_def)
  moreover have "egress_bound (tr_settings (settingsFor ns n t)) g" if "egress_bound (tr_settings t) g" for g
    using that settingsFor_keep by (fastforce simp: egress_bound_def)
  ultimately show ?thesis using ok by (auto simp: tr_ok_def elim: list_all_mono)
qed

lemma update_settings_fields [simp]:
  "ipam_names (update_settings ns n f t) = ipam_names t" "att_names (update_settings ns n f t) = att_names t"
  "tr_networks (update_settings ns n f t) = tr_networks t" "tr_plan (update_settings ns n f t) = tr_plan t"
  "tr_ipams (update_settings ns n f t) = tr_ipams t"
  "stores_ok (update_settings ns n f t) \<longleftrightarrow> stores_ok t"
  by (simp_all add: update_settings_def ipam_names_def att_names_def stores_ok_def)

lemma map_of_update:
  "map_of (tr_settings (update_settings ns n f t)) k
   = map_option (if k = obj_key ns n then f else id) (map_of (tr_settings t) k)"
proof -
  have "map_of (map (\<lambda>(k, gs). (k, if k = key then f gs else gs)) S) k
      = map_option (if k = key then f else id) (map_of S k)" for key S
    by (induction S) auto
  then show ?thesis by (simp add: update_settings_def)
qed

lemma update_settings_twice:
  "update_settings ns n g (update_settings ns n f t) = update_settings ns n (g \<circ> f) t"
  by (rule translator.equality) (auto simp: update_settings_def)

text \<open>An update that keeps an entry well formed and only adds to it.\<close>

definition growing :: "string set \<Rightarrow> (gateway_settings \<Rightarrow> gateway_settings) \<Rightarrow> bool" where
  "growing I f \<longleftrightarrow> (\<forall>k gs. settings_entry_ok I (k, gs) \<longrightarrow>
     settings_entry_ok I (k, f gs) \<and>
     (gs_defaultListenerNetwork gs \<noteq> None \<longrightarrow> gs_defaultListenerNetwork (f gs) \<noteq> None) \<and>
     ec_name ` set (gs_egressConfigs gs) \<subseteq> ec_name ` set (gs_egressConfigs (f gs)))"

lemma settings_entry_of: "settings_ok I S \<Longrightarrow> map_of S k = Some gs \<Longrightarrow> settings_entry_ok I (k, gs)"
  by (auto simp: settings_ok_def list_all_iff dest: map_of_SomeD)

lemma tr_ok_update: "tr_ok t \<Longrightarrow> growing (ipam_names t) f \<Longrightarrow> tr_ok (update_settings ns n f t)"
proof -
  assume ok: "tr_ok t" and g: "growing (ipam_names t) f"
  let ?S = "tr_settings t" and ?S' = "tr_settings (update_settings ns n f t)"
  from ok have S: "settings_ok (ipam_names t) ?S" by (simp add: tr_ok_def)
  have "settings_ok (ipam_names t) ?S'"
    using S g by (auto simp: settings_ok_def update_settings_def growing_def list_all_iff comp_def split_def)
  moreover have "patch_bound ?S' p" if "patch_bound ?S p" for p
    using that settings_entry_of [OF S] g by (fastforce simp: patch_bound_def map_of_update growing_def)
  moreover have "egress_bound ?S' x" if "egress_bound ?S x" for x
  proof -
    from that obtain gs where gs: "map_of ?S (obj_key (eg_namespace x) (eg_parametersRef x)) = Some gs"
        "eg_sectionName x \<in> ec_name ` set (gs_egressConfigs gs)"
      by (auto simp: egress_bound_def)
    moreover have "eg_sectionName x \<in> ec_name ` set (gs_egressConfigs (f gs))"
      using settings_entry_of [OF S gs(1)] gs(2) g unfolding growing_def by blast
    ultimately show ?thesis by (simp add: egress_bound_def map_of_update)
  qed
  ultimately show ?thesis using ok by (auto simp: tr_ok_def elim: list_all_mono)
qed

subsection \<open>The underlay methods\<close>

lemma vlan_pools_ok: "tr_ok t \<Longrightarrow> fold (vlan_pool E opts n z) ips (ps, t) = (ps', t') \<Longrightarrow> tr_ok t'"
  using fold_invariant_in [where P = "\<lambda>(ps, t). tr_ok t" and s = "(ps, t)" and f = "vlan_pool E opts n z" and xs = ips]
  by (auto simp: vlan_pool_def tr_ok_warn split: sum.splits if_splits)

lemma vlan_nads_ok:
  assumes "tr_ok t" and "fold (vlan_nad E n a) is (ns, t) = (ns', t')"
  shows "tr_ok t' \<and> ipam_names t' = ipam_names t"
proof -
  let ?P = "\<lambda>(ns, u). tr_ok u \<and> ipam_names u = ipam_names t"
  have "?P s \<Longrightarrow> ?P (vlan_nad E n a x s)" for x s
    by (cases s) (simp add: vlan_nad_def tr_ok_warn split: option.split)
  then have "?P (fold (vlan_nad E n a) is (ns, t))"
    using assms(1) by (intro fold_invariant_in [where P = ?P]) simp_all
  with assms(2) show ?thesis by simp
qed

lemma vlan_external_ok: "tr_ok t \<Longrightarrow> tr_ok (vlan_external E v t)"
  by (simp add: vlan_external_def Let_def ok_intros split: option.splits)

lemma names_snoc [simp]:
  "att_names (t\<lparr>tr_attachments := tr_attachments t @ [a]\<rparr>) = insert (att_name a) (att_names t)"
  "ipam_names (t\<lparr>tr_attachments := as\<rparr>) = ipam_names t"
  by (auto simp: att_names_def ipam_names_def)

lemma vlan_step_ok: "tr_ok t \<Longrightarrow> tr_ok (vlan_step E opts v t)"
proof -
  assume ok: "tr_ok t"
  let ?name = "vlan_name v"
  obtain pools t2 where p: "fold (vlan_pool E opts ?name (zone_of opts ?name)) (vl_selfip_v4s v) ([], vlan_external E v t) = (pools, t2)"
    by (cases "fold (vlan_pool E opts ?name (zone_of opts ?name)) (vl_selfip_v4s v) ([], vlan_external E v t)")
  define t5 where "t5 = warn_when E (zone_of opts ?name = []) (VlanWarning ?name NoZoneKnown)
     (warn_when E (pools = []) (VlanWarning ?name NoSelfIPs)
       (warn_when E (vl_selfip_v6s v \<noteq> []) (VlanWarning ?name (IPv6SelfIPsDropped (vl_selfip_v6s v))) t2))"
  define t6 where "t6 = addIpam (?name @ ''-selfip'') pools t5"
  obtain ns t7 where n: "fold (vlan_nad E ?name (?name @ ''-attach'')) (vl_interfaces v) ([], t6) = (ns, t7)"
    by (cases "fold (vlan_nad E ?name (?name @ ''-attach'')) (vl_interfaces v) ([], t6)")
  define t8 where "t8 = t7\<lparr>tr_attachments := tr_attachments t7 @ [\<lparr>att_name = ?name @ ''-attach'', att_definitions = ns\<rparr>]\<rparr>"
  have t5: "tr_ok t5"
    using vlan_pools_ok [OF vlan_external_ok [OF ok] p] by (simp add: t5_def ok_intros)
  then have t6: "tr_ok t6" "pools \<noteq> [] \<longrightarrow> ?name @ ''-selfip'' \<in> ipam_names t6"
    by (simp_all add: t6_def ok_intros tr_ok_addIpam_names)
  from vlan_nads_ok [OF t6(1) n] have t7: "tr_ok t7" "ipam_names t7 = ipam_names t6" by simp_all
  have t8: "tr_ok t8" "ipam_names t8 = ipam_names t6" "?name @ ''-attach'' \<in> att_names t8"
    using t7 by (simp_all add: t8_def ok_intros)
  then have "network_ok (ipam_names t8) (att_names t8) (vlan_entry E v pools)"
    using t6(2) by (auto simp: network_ok_def vlan_entry_def)
  then have "tr_ok (t8\<lparr>tr_networks := tr_networks t8 @ [vlan_entry E v pools]\<rparr>)"
    using t8(1) by (rule tr_ok_network [rotated])
  then show ?thesis
    by (simp only: vlan_step_def Let_def p n prod.case tr_ok_warn_when flip: t5_def t6_def t8_def)
qed

lemma vlans_ok: "tr_ok t \<Longrightarrow> tr_ok (vlans E iv opts t)"
  by (simp add: vlans_def Let_def ok_intros fold_invariant_in [where P = tr_ok] vlan_step_ok)

lemma vrfList_ok: "tr_ok t \<Longrightarrow> tr_ok (vrfList E iv t)"
  unfolding vrfList_def by (rule fold_invariant_in [where P = tr_ok]) (simp_all add: Let_def ok_intros)

lemma vxlan_step_ok: "tr_ok t \<Longrightarrow> tr_ok (vxlan_step E v t)"
proof -
  assume ok: "tr_ok t"
  let ?name = "vx_GetName v" and ?cidr = "vxlan_cidr E v"
  define t3 where "t3 = warn_when E (vx_evpn v) (VxlanWarning ?name EvpnDropped)
     (warn_when E (vx_vlan v = [] \<and> ?cidr = []) (VxlanWarning ?name NoUnderlay)
       (if ?cidr \<noteq> [] then addIpam (?name @ ''-vtep'') [cidr_pool ?cidr []] t else warn E (VxlanWarning ?name NoVtepSubnet) t))"
  have t3: "tr_ok t3" "?cidr \<noteq> [] \<longrightarrow> ?name @ ''-vtep'' \<in> ipam_names t3"
    using ok by (simp_all add: t3_def ok_intros tr_ok_addIpam_names)
  then have "network_ok (ipam_names t3) (att_names t3) (vxlan_entry E v ?cidr)"
    by (auto simp: network_ok_def vxlan_entry_def Let_def)
  then have "tr_ok (t3\<lparr>tr_networks := tr_networks t3 @ [vxlan_entry E v ?cidr]\<rparr>)"
    by (rule tr_ok_network [OF t3(1)])
  then show ?thesis by (simp only: vxlan_step_def Let_def flip: t3_def)
qed

lemma vxlans_ok: "tr_ok t \<Longrightarrow> tr_ok (vxlans E iv t)"
  unfolding vxlans_def by (rule fold_invariant_in [where P = tr_ok]) (simp_all add: vxlan_step_ok)

lemma staticRoutes_ok: "tr_ok t \<Longrightarrow> tr_ok (staticRoutes E iv t)"
proof -
  assume "tr_ok t"
  moreover have "tr_ok (route_step E r u)" if "tr_ok u" for r u
    using that by (simp add: route_step_def Let_def ok_intros split: list.splits option.splits)
  ultimately have "tr_ok (fold (route_step E) (in_StaticRoutes iv) t)"
    by (intro fold_invariant_in [where P = tr_ok])
  then show ?thesis by (simp add: staticRoutes_def Let_def ok_intros)
qed

lemma snatpools_ok: "tr_ok t \<Longrightarrow> tr_ok (snatpools E iv opts t)"
  unfolding snatpools_def
  by (rule fold_invariant_in [where P = tr_ok]) (simp_all add: snatpool_step_def Let_def ok_intros)

subsection \<open>The tenant methods\<close>

lemma listenerPools_ok:
  assumes "tr_ok t" and "listenerPools E opts b t = (names, t')"
  shows "tr_ok t' \<and> set names \<subseteq> ipam_names t'"
proof -
  let ?P = "\<lambda>(ns, u). tr_ok u \<and> set ns \<subseteq> ipam_names u"
  have "?P (listener_step E opts b n it s)" if "?P s" for it s n
  proof (cases it)
    case (AMap m)
    have sub: "ipam_names u \<subseteq> ipam_names (addIpam p ps u)" if "tr_ok u" for u p ps
      using that by (auto simp: tr_ok_def ipam_names_addIpam)
    show ?thesis
      using \<open>?P s\<close> sub by (cases s) (fastforce simp: AMap Let_def tr_ok_warn tr_ok_addIpam tr_ok_addIpam_names split: option.splits)
  qed (use \<open>?P s\<close> in simp_all)
  then have "?P (listenerPools E opts b t)"
    using assms(1) unfolding listenerPools_def by (intro fold_invariant_in [where P = ?P]) simp_all
  with assms(2) show ?thesis by simp
qed

lemma staticPool_ok:
  "tr_ok t \<Longrightarrow> staticPool E opts gw t = (names, t') \<Longrightarrow> tr_ok t' \<and> set names \<subseteq> ipam_names t'"
  by (auto simp: staticPool_def Let_def tr_ok_warn tr_ok_addIpam tr_ok_addIpam_names split: if_splits)

lemma bnkGateways_ok: "tr_ok t \<Longrightarrow> bnkGateways E iv opts t = (gws, t') \<Longrightarrow> tr_ok t'"
  by (auto simp: bnkGateways_def fold_invariant_in [where P = tr_ok] tr_ok_warn split: if_splits)

lemma growing_listener:
  "pools \<noteq> [] \<Longrightarrow> set pools \<subseteq> I \<Longrightarrow>
   growing I (\<lambda>gs. gs\<lparr>gs_defaultListenerNetwork := Some \<lparr>ln_ipamRefs = pools, ln_sourceNATConfig = c, ln_networkRefs = ns\<rparr>\<rparr>)"
  by (auto simp: growing_def settings_entry_ok_def nat_ok_def list_all_iff split: source_nat.splits)

lemma tr_ok_patch:
  "tr_ok t \<Longrightarrow> patch_bound (tr_settings t) p \<Longrightarrow>
   tr_ok (t\<lparr>tr_plan := (tr_plan t)\<lparr>pl_GatewayPatches := pl_GatewayPatches (tr_plan t) @ [p]\<rparr>\<rparr>)"
  by (simp add: tr_ok_def stores_ok_def ipam_names_def att_names_def)

lemma tr_ok_egress_gateway:
  "tr_ok t \<Longrightarrow> egress_bound (tr_settings t) g \<Longrightarrow>
   tr_ok (t\<lparr>tr_plan := (tr_plan t)\<lparr>pl_EgressGateways := pl_EgressGateways (tr_plan t) @ [g]\<rparr>\<rparr>)"
  by (simp add: tr_ok_def stores_ok_def ipam_names_def att_names_def)

lemma settings_after_update:
  obtains gs where "map_of (tr_settings (settingsFor ns n t)) (obj_key ns n) = Some gs"
    and "map_of (tr_settings (update_settings ns n f (settingsFor ns n t))) (obj_key ns n) = Some (f gs)"
  using settingsFor_key [of ns n t] by (auto simp: map_of_update)

lemma gateway_settle_ok:
  assumes "tr_ok t" "pools \<noteq> []" "set pools \<subseteq> ipam_names t"
  shows "tr_ok (gateway_settle E ns name pools t)"
proof -
  define t2 where "t2 = warn_when E (tr_externalNets (settingsFor ns name t) = [])
    (GatewayWarning ns name NoExternalVlan) (settingsFor ns name t)"
  define f where "f = (\<lambda>gs :: gateway_settings. gs\<lparr>gs_defaultListenerNetwork := Some \<lparr>ln_ipamRefs = pools,
    ln_sourceNATConfig = Automap, ln_networkRefs = tr_externalNets (settingsFor ns name t)\<rparr>\<rparr>)"
  define t4 where "t4 = warn E AutomapNote (update_settings ns name f t2)"
  have "tr_ok t2" using assms(1) by (simp add: t2_def ok_intros)
  moreover have "growing (ipam_names t2) f"
    using assms(2,3) by (simp add: t2_def f_def growing_listener)
  ultimately have t4: "tr_ok t4" by (simp add: t4_def ok_intros tr_ok_update)
  have "tr_settings t2 = tr_settings (settingsFor ns name t)" by (simp add: t2_def)
  then have "tr_settings t4 = tr_settings (update_settings ns name f (settingsFor ns name t))"
    by (simp add: t4_def update_settings_def)
  moreover obtain gs where
    "map_of (tr_settings (update_settings ns name f (settingsFor ns name t))) (obj_key ns name) = Some (f gs)"
    by (rule settings_after_update)
  ultimately have "patch_bound (tr_settings t4) \<lparr>gp_name = name, gp_namespace = ns, gp_parametersRef = name\<rparr>"
    by (simp add: patch_bound_def f_def)
  from tr_ok_patch [OF t4 this] show ?thesis
    by (simp only: gateway_settle_def Let_def t2_def f_def t4_def)
qed

lemma gateway_pools_ok:
  assumes "tr_ok t" and "gateway_pools E iv opts gw (u, t) = (pools, used, t')"
  shows "tr_ok t' \<and> set pools \<subseteq> ipam_names t'"
proof (cases "pickBnkGateway (filter (\<lambda>b. bg_GetNamespace b = gw_GetNamespace gw) (in_BnkGateways iv)) (gw_GetName gw)")
  case None
  with assms(2) have "staticPool E opts gw t = (pools, t')"
    by (simp add: gateway_pools_def split: prod.splits)
  with assms(1) show ?thesis by (rule staticPool_ok)
next
  case (Some b)
  with assms(2) have "listenerPools E opts b t = (pools, t')"
    by (simp add: gateway_pools_def split: prod.splits)
  with assms(1) show ?thesis by (rule listenerPools_ok)
qed

lemma gateway_step_ok:
  assumes "tr_ok (snd ut)"
  shows "tr_ok (snd (gateway_step E iv opts gw ut))"
proof -
  obtain u t where ut: "ut = (u, t)" by (cases ut)
  obtain pools used t' where p: "gateway_pools E iv opts gw (u, t) = (pools, used, t')"
    by (cases "gateway_pools E iv opts gw (u, t)")
  have "tr_ok t'" "set pools \<subseteq> ipam_names t'"
    using gateway_pools_ok [OF _ p] assms by (simp_all add: ut)
  then show ?thesis by (simp add: gateway_step_def ut p tr_ok_warn gateway_settle_ok)
qed

lemma gateways_ok: "tr_ok t \<Longrightarrow> tr_ok (gateways E iv opts t)"
proof -
  assume ok: "tr_ok t"
  obtain gws t1 where g: "bnkGateways E iv opts t = (gws, t1)" by (cases "bnkGateways E iv opts t")
  obtain used t2 where u: "fold (gateway_step E iv opts) gws ({}, t1) = (used, t2)"
    by (cases "fold (gateway_step E iv opts) gws ({}, t1)")
  have "tr_ok (snd (fold (gateway_step E iv opts) gws ({}, t1)))"
    using bnkGateways_ok [OF ok g]
    by (intro fold_invariant_in [where P = "\<lambda>s. tr_ok (snd s)"]) (simp_all add: gateway_step_ok)
  then have "tr_ok t2" by (simp add: u)
  then show ?thesis
    by (simp add: gateways_def Let_def g u fold_invariant_in [where P = tr_ok] tr_ok_warn_when)
qed

definition egress_update :: "egress_config \<Rightarrow> gateway_settings \<Rightarrow> gateway_settings" where
  "egress_update cfg gs =
     (let gs' = gs\<lparr>gs_egressConfigs := gs_egressConfigs gs @ [cfg]\<rparr>
      in case ec_sourceNATConfig cfg of NATPool p \<Rightarrow> addSourceNATPool p gs' | _ \<Rightarrow> gs')"

lemma addSourceNATPool_fields [simp]:
  "gs_name (addSourceNATPool p gs) = gs_name gs" "gs_namespace (addSourceNATPool p gs) = gs_namespace gs"
  "gs_defaultListenerNetwork (addSourceNATPool p gs) = gs_defaultListenerNetwork gs"
  "gs_egressConfigs (addSourceNATPool p gs) = gs_egressConfigs gs"
  "np_name ` set (gs_sourceNATPools (addSourceNATPool p gs)) = insert p (np_name ` set (gs_sourceNATPools gs))"
  "distinct (map np_name (gs_sourceNATPools (addSourceNATPool p gs))) \<longleftrightarrow> distinct (map np_name (gs_sourceNATPools gs))"
  by (auto simp: addSourceNATPool_def)

lemma egress_update_name: "ec_name cfg \<in> ec_name ` set (gs_egressConfigs (egress_update cfg gs))"
  by (simp add: egress_update_def Let_def split: source_nat.split)

lemma growing_egress: "growing I (egress_update cfg)"
  by (auto simp: growing_def egress_update_def settings_entry_ok_def nat_ok_def list_all_iff Let_def
      split: source_nat.splits)

lemma egress_namespace_ok:
  assumes "tr_ok t"
  shows "tr_ok (egress_namespace E gwClass e tmmIf snat ns t)"
proof -
  let ?n = "eg_GetName e"
  define cfg where "cfg = \<lparr>ec_name = ?n, ec_sourceNATConfig = snat, ec_networkRef = opt_text tmmIf\<rparr>"
  define t3 where "t3 = update_settings ns ?n (egress_update cfg) (settingsFor ns ?n t)"
  define t4 where "t4 = warn_when E (gwClass = []) (EgressClassMissing ns ?n) t3"
  define g where "g = \<lparr>eg_name = ?n, eg_namespace = ns, eg_gatewayClassName = gwClass, eg_parametersRef = ?n,
     eg_sectionName = ?n, eg_matchNames = [ns]\<rparr>"
  define t5 where "t5 = t4\<lparr>tr_plan := (tr_plan t4)\<lparr>pl_EgressGateways := pl_EgressGateways (tr_plan t4) @ [g]\<rparr>\<rparr>"
  have "(case snat of NATPool pool \<Rightarrow> update_settings ns ?n (addSourceNATPool pool)
          (update_settings ns ?n (\<lambda>gs. gs\<lparr>gs_egressConfigs := gs_egressConfigs gs @ [cfg]\<rparr>) u)
        | _ \<Rightarrow> update_settings ns ?n (\<lambda>gs. gs\<lparr>gs_egressConfigs := gs_egressConfigs gs @ [cfg]\<rparr>) u)
      = update_settings ns ?n (egress_update cfg) u" for u
    by (simp add: egress_update_def [abs_def] cfg_def update_settings_twice Let_def comp_def split: source_nat.split)
  note step = egress_namespace_def [of E gwClass e tmmIf snat ns t, unfolded Let_def, folded cfg_def, unfolded this,
      folded t3_def, folded t4_def, folded g_def, folded t5_def]
  have "tr_ok t4" using assms by (simp add: t4_def t3_def ok_intros tr_ok_update growing_egress)
  moreover have "egress_bound (tr_settings t4) g"
    by (rule settings_after_update [of ns ?n t "egress_update cfg"])
      (use egress_update_name [of cfg] in \<open>simp add: egress_bound_def t4_def t3_def g_def cfg_def\<close>)
  ultimately have "tr_ok t5" unfolding t5_def by (rule tr_ok_egress_gateway)
  then show ?thesis by (simp add: step ok_intros)
qed

lemma egress_step_ok:
  assumes "tr_ok t"
  shows "tr_ok (egress_step E iv gwClass e t)"
proof -
  have tunnel: "tr_ok (egress_tunnel E e def u)" if "tr_ok u" for def u
    using that by (simp add: egress_tunnel_def Let_def ok_intros split: option.splits)
  have snat: "tr_ok (snd (snatConfig E iv e u))" if "tr_ok u" for u
    using that by (simp add: snatConfig_def Let_def ok_intros)
  have flags: "tr_ok (fold (\<lambda>k. warn_when E (b k) (w k)) ks u)" if "tr_ok u" for b w ks u
    using that by (rule fold_invariant_in) (simp add: ok_intros)
  show ?thesis
    unfolding egress_step_def Let_def split_def
    by (intro fold_invariant_in [where P = tr_ok] egress_namespace_ok tr_ok_warn_when flags snat tunnel assms)
qed

lemma egresses_ok: "tr_ok t \<Longrightarrow> tr_ok (egresses E iv opts t)"
  by (auto simp: egresses_def dest: bnkGateways_ok intro!: fold_invariant_in [where P = tr_ok] egress_step_ok
      split: prod.split)

lemma policies_ok: "tr_ok t \<Longrightarrow> tr_ok (policies iv t)"
  by (simp add: policies_def ok_intros)

subsection \<open>The whole run\<close>

definition translate_body :: "mig_env \<Rightarrow> Inventory \<Rightarrow> Options \<Rightarrow> translator" where
  "translate_body E iv opts =
     policies iv (egresses E iv opts (gateways E iv opts (snatpools E iv opts (staticRoutes E iv
       (vxlans E iv (vrfList E iv (vlans E iv opts (loadNADs iv new_translator))))))))"

lemma translate_run_body:
  "translate_run E iv opts =
     warn_when E (in_Vlans iv = []) (NoVlanFound (in_Namespace iv))
       (collectSettings (buildInfra E iv opts (translate_body E iv opts)))"
  by (simp only: translate_run_def translate_body_def Let_def)

lemma new_translator_ok: "tr_ok new_translator"
  by (simp add: tr_ok_def new_translator_def empty_plan_def stores_ok_def ipam_names_def networks_ok_def settings_ok_def)

lemma loadNADs_ok: "tr_ok t \<Longrightarrow> tr_ok (loadNADs iv t)"
  by (simp add: loadNADs_def ok_intros split: option.split)

lemma translate_body_ok: "tr_ok (translate_body E iv opts)"
  unfolding translate_body_def
  by (intro policies_ok egresses_ok gateways_ok snatpools_ok staticRoutes_ok vxlans_ok vrfList_ok vlans_ok
      loadNADs_ok new_translator_ok)

text \<open>The end of the run: what \<open>buildInfra\<close> and \<open>collectSettings\<close> make of the collected pieces.\<close>

definition infra_of :: "Inventory \<Rightarrow> Options \<Rightarrow> translator \<Rightarrow> egress_defaults \<Rightarrow> infra" where
  "infra_of iv opts t d =
     \<lparr>inf_name = infraName opts, inf_namespace = in_Namespace iv, inf_managedBy = ''awsbnkctl'',
      inf_spec = \<lparr>is_ipams = tr_ipams t, is_networkAttachments = tr_attachments t,
        is_networks = tr_networks t, is_vrfs = tr_vrfs t, is_staticRoutes = tr_routes t,
        is_egressDefaults = d\<rparr>\<rparr>"

definition final_defaults :: "Inventory \<Rightarrow> translator \<Rightarrow> egress_defaults" where
  "final_defaults iv t =
     (let d = (case tr_egressDef t of
          Some d \<Rightarrow> d
        | None \<Rightarrow> \<lparr>ed_networkRef = opt_text (defaultTunnelNetwork iv t), ed_subnet = None,
                   ed_port = Some InfraEgressPort\<rparr>)
      in case ed_subnet d of None \<Rightarrow> d\<lparr>ed_subnet := Some InfraEgressSubnet\<rparr> | Some _ \<Rightarrow> d)"

lemma infra_egress_fields:
  "fst (infra_egress E iv t) = final_defaults iv t"
  "tr_ipams (snd (infra_egress E iv t)) = tr_ipams t" "tr_attachments (snd (infra_egress E iv t)) = tr_attachments t"
  "tr_networks (snd (infra_egress E iv t)) = tr_networks t" "tr_vrfs (snd (infra_egress E iv t)) = tr_vrfs t"
  "tr_routes (snd (infra_egress E iv t)) = tr_routes t" "tr_settings (snd (infra_egress E iv t)) = tr_settings t"
  "stores_ok t \<Longrightarrow> stores_ok (snd (infra_egress E iv t))"
  "pl_GatewaySettings (tr_plan (snd (infra_egress E iv t))) = pl_GatewaySettings (tr_plan t)"
  "pl_GatewayPatches (tr_plan (snd (infra_egress E iv t))) = pl_GatewayPatches (tr_plan t)"
  "pl_EgressGateways (tr_plan (snd (infra_egress E iv t))) = pl_EgressGateways (tr_plan t)"
  "pl_Policies (tr_plan (snd (infra_egress E iv t))) = pl_Policies (tr_plan t)"
  by (simp_all add: infra_egress_def final_defaults_def Let_def stores_ok_warn split: option.split)
    (simp_all add: stores_ok_def ipam_names_def warn_def add_warning_def)

lemma buildInfra_plan:
  assumes "tr_ok t"
  shows "pl_Infra (tr_plan (buildInfra E iv opts t)) =
      (if in_Vlans iv = [] then None else Some (infra_of iv opts t (final_defaults iv t)))"
    and "tr_settings (buildInfra E iv opts t) = tr_settings t"
    and "stores_ok (buildInfra E iv opts t)"
    and "pl_GatewaySettings (tr_plan (buildInfra E iv opts t)) = []"
    and "pl_GatewayPatches (tr_plan (buildInfra E iv opts t)) = pl_GatewayPatches (tr_plan t)"
    and "pl_EgressGateways (tr_plan (buildInfra E iv opts t)) = pl_EgressGateways (tr_plan t)"
    and "pl_Policies (tr_plan (buildInfra E iv opts t)) = pl_Policies (tr_plan t)"
proof -
  have "stores_ok (u\<lparr>tr_plan := (tr_plan u)\<lparr>pl_Infra := x\<rparr>\<rparr>) = stores_ok u" for u x
    by (simp add: stores_ok_def ipam_names_def)
  then show "stores_ok (buildInfra E iv opts t)"
    using assms by (simp add: buildInfra_def split_def Let_def infra_egress_fields tr_ok_def)
qed (use assms in \<open>simp_all add: buildInfra_def split_def Let_def infra_egress_fields tr_ok_def infra_of_def\<close>)

lemma collectSettings_plan:
  "pl_Infra (tr_plan (collectSettings t)) = pl_Infra (tr_plan t)"
  "pl_Policies (tr_plan (collectSettings t)) = pl_Policies (tr_plan t)"
  "pl_Warnings (tr_plan (collectSettings t)) = pl_Warnings (tr_plan t)"
  "tr_warned (collectSettings t) = tr_warned t"
  "stores_ok (collectSettings t) \<longleftrightarrow> stores_ok t"
  "pl_GatewaySettings (tr_plan (collectSettings t)) =
     pl_GatewaySettings (tr_plan t) @ map (\<lambda>k. the (map_of (tr_settings t) k)) (sort (map fst (tr_settings t)))"
  "pl_EgressGateways (tr_plan (collectSettings t)) =
     sort_key (\<lambda>g. obj_key (eg_namespace g) (eg_name g)) (pl_EgressGateways (tr_plan t))"
  "pl_GatewayPatches (tr_plan (collectSettings t)) =
     sort_key (\<lambda>g. obj_key (gp_namespace g) (gp_name g)) (pl_GatewayPatches (tr_plan t))"
  by (simp_all add: collectSettings_def Let_def stores_ok_def ipam_names_def)

lemmas run_plan = translate_run_body warn_when_def collectSettings_plan buildInfra_plan [OF translate_body_ok]

end
