(* ===== verification/MigrateClaims.thy ===== *)
theory MigrateClaims
  imports MigrateInv "HOL-Library.Multiset" "HOL-Library.Sublist"
begin

text \<open>
  What the 2.3 to 2.4 translation guarantees: names and warnings are unique, objects come
  sorted, and the Infra object is exactly the image of the inventory. The references of the plan are the
  subject of \<open>MigrateRefs\<close>.
\<close>

subsection \<open>References\<close>

definition settings_key :: "gateway_settings \<Rightarrow> string" where
  "settings_key gs = obj_key (gs_namespace gs) (gs_name gs)"

definition listener_resolves :: "string set \<Rightarrow> gateway_settings \<Rightarrow> bool" where
  "listener_resolves I gs \<longleftrightarrow>
     (case gs_defaultListenerNetwork gs of
        None \<Rightarrow> True
      | Some l \<Rightarrow> ln_ipamRefs l \<noteq> [] \<and> set (ln_ipamRefs l) \<subseteq> I)"

lemma set_collected:
  assumes "distinct (map fst S)"
  shows "set (map (\<lambda>k. the (map_of S k)) (sort (map fst S))) = snd ` set S"
proof -
  have "(\<lambda>k. the (map_of S k)) ` fst ` set S = snd ` set S"
    using assms by (force simp: image_iff)
  then show ?thesis by simp
qed

lemma map_of_collected: "map_of S k = Some gs \<Longrightarrow> gs \<in> snd ` set S"
  by (force dest: map_of_SomeD)

lemma settings_key_entry: "settings_ok I S \<Longrightarrow> map_of S k = Some gs \<Longrightarrow> settings_key gs = k"
  by (auto simp: settings_key_def settings_entry_ok_def dest!: settings_entry_of)

subsection \<open>Order and warnings\<close>

lemma collected_keys:
  assumes "settings_ok I S"
  shows "map settings_key (map (\<lambda>k. the (map_of S k)) (sort (map fst S))) = sort (map fst S)"
proof -
  have "settings_key (the (map_of S k)) = k" if "k \<in> set (map fst S)" for k
    using that settings_key_entry [OF assms] by (cases "map_of S k") (auto simp: map_of_eq_None_iff)
  then show ?thesis by (simp add: comp_def) (rule map_idI, simp)
qed

lemma plan_without_vlans:
  "in_Vlans iv = [] \<Longrightarrow>
   mig_sprintf E (NoVlanFound (in_Namespace iv)) \<in> set (pl_Warnings (tr_plan (translate_run E iv opts)))"
  using warnings.set_keys_add [of "collectSettings (buildInfra E iv opts (translate_body E iv opts))"]
  by (simp add: translate_run_body warn_when_def warn_def collectSettings_plan buildInfra_plan [OF translate_body_ok])

text \<open>
  The order of \<open>namespace/name\<close> texts is the order of namespaces, then names, except where one namespace
  extends another: \<open>team-a/web\<close> comes before \<open>team/web\<close>.
\<close>

lemma Cons_le_iff: "(x :: char) # xs \<le> y # ys \<longleftrightarrow> x < y \<or> x = y \<and> xs \<le> ys"
  by (auto simp: list_le_def)

lemma obj_key_order:
  "obj_key ns name \<le> obj_key ns' name' \<Longrightarrow> ns < ns' \<or> ns = ns' \<and> name \<le> name' \<or> strict_prefix ns' ns"
proof (induction ns arbitrary: ns')
  case Nil
  then show ?case by (cases ns') (auto simp: obj_key_def Cons_le_iff)
next
  case (Cons c ns)
  show ?case
  proof (cases ns')
    case Nil
    then show ?thesis by simp
  next
    case c': (Cons d ds)
    from Cons.prems have "c < d \<or> c = d \<and> obj_key ns name \<le> obj_key ds name'"
      by (simp add: obj_key_def c' Cons_le_iff)
    with Cons.IH [of ds] show ?thesis by (auto simp: c')
  qed
qed

lemma namespaces_out_of_order: "obj_key ''team-a'' ''web'' < obj_key ''team'' ''web'' \<and> ''team'' < ''team-a''"
  by code_simp

text \<open>Lists whose members have a namespace and a name, in that order.\<close>

definition in_order :: "(string \<times> string) list \<Rightarrow> bool" where
  "in_order ks \<longleftrightarrow> sorted_wrt (\<lambda>(ns, name) (ns', name'). ns < ns' \<or> ns = ns' \<and> name \<le> name' \<or> strict_prefix ns' ns) ks"

lemma in_order_keys: "sorted (map (\<lambda>(ns, name). obj_key ns name) ks) \<Longrightarrow> in_order ks"
  unfolding in_order_def sorted_map
  by (rule sorted_wrt_mono_rel) (auto dest: obj_key_order)

text \<open>
  C33 The plan is in canonical order: the GatewaySettings, the EgressGateways and the Gateway patches
  are each sorted by namespace and within a namespace by name, as far as no namespace in the list is a
  proper prefix of another (a later one may be a prefix of an earlier one). No two GatewaySettings have the
  same namespace and name, and no warning is repeated.
\<close>

theorem plan_canonical:
  "\<exists>p. Translate E (Some iv) opts = Inr p \<and>
     in_order (map (\<lambda>gs. (gs_namespace gs, gs_name gs)) (pl_GatewaySettings p)) \<and>
     distinct (map (\<lambda>gs. (gs_namespace gs, gs_name gs)) (pl_GatewaySettings p)) \<and>
     in_order (map (\<lambda>g. (eg_namespace g, eg_name g)) (pl_EgressGateways p)) \<and>
     in_order (map (\<lambda>g. (gp_namespace g, gp_name g)) (pl_GatewayPatches p)) \<and>
     distinct (pl_Warnings p)"
proof -
  let ?t = "translate_body E iv opts" and ?r = "translate_run E iv opts"
  have S: "settings_ok (ipam_names ?t) (tr_settings ?t)"
    using translate_body_ok [of E iv opts] by (simp add: tr_ok_def)
  have "stores_ok ?r"
    by (simp add: translate_run_body warn_when_def stores_ok_warn collectSettings_plan buildInfra_plan [OF translate_body_ok])
  then have "distinct (pl_Warnings (tr_plan ?r))" by (simp add: stores_ok_def)
  moreover have keys: "map settings_key (pl_GatewaySettings (tr_plan ?r)) = sort (map fst (tr_settings ?t))"
    using collected_keys [OF S] by (simp add: run_plan)
  then have "in_order (map (\<lambda>gs. (gs_namespace gs, gs_name gs)) (pl_GatewaySettings (tr_plan ?r)))"
    by (intro in_order_keys) (simp add: comp_def settings_key_def [symmetric])
  moreover have "distinct (map settings_key (pl_GatewaySettings (tr_plan ?r)))"
    using S by (simp add: keys settings_ok_def)
  then have "distinct (map (\<lambda>gs. (gs_namespace gs, gs_name gs)) (pl_GatewaySettings (tr_plan ?r)))"
    by (auto simp: distinct_map settings_key_def inj_on_def)
  moreover have "in_order (map (\<lambda>g. (eg_namespace g, eg_name g)) (pl_EgressGateways (tr_plan ?r)))"
    "in_order (map (\<lambda>g. (gp_namespace g, gp_name g)) (pl_GatewayPatches (tr_plan ?r)))"
    by (rule in_order_keys, simp add: run_plan comp_def)+
  ultimately show ?thesis by (simp add: Translate_def)
qed

subsection \<open>The underlay, as a function of the inventory\<close>

definition strip :: "translator \<Rightarrow> translator" where
  "strip t = t\<lparr>tr_warned := {}, tr_plan := (tr_plan t)\<lparr>pl_Warnings := []\<rparr>\<rparr>"

lemma strip_warn [simp]: "strip (warn E w t) = strip t" "strip (warn_when E b w t) = strip t"
  by (simp_all add: strip_def warn_when_def warn_def add_warning_def)

lemma strip_fields:
  assumes "strip t' = strip t"
  shows "tr_nads t' = tr_nads t" "tr_externalNets t' = tr_externalNets t" "tr_ipams t' = tr_ipams t"
    "tr_attachments t' = tr_attachments t" "tr_vrfs t' = tr_vrfs t" "tr_networks t' = tr_networks t"
    "tr_routes t' = tr_routes t" "tr_extGateway t' = tr_extGateway t"
  using assms by (cases t; cases t'; simp add: strip_def)+

definition self_pool :: "Options \<Rightarrow> string \<Rightarrow> string \<Rightarrow> ip_pool" where
  "self_pool opts name ip =
     (case (if op_SingleSelfIP opts then Inr (ip, ip) else SelfIPPoolRange ip) of
        Inr (s, e) \<Rightarrow> range_pool s e (zone_of opts name)
      | Inl _ \<Rightarrow> range_pool ip ip (zone_of opts name))"

definition self_pools :: "Options \<Rightarrow> legacy_vlan \<Rightarrow> ip_pool list" where
  "self_pools opts v = map (self_pool opts (vlan_name v)) (vl_selfip_v4s v)"

definition vlan_attachment :: "string list \<Rightarrow> legacy_vlan \<Rightarrow> infra_attachment" where
  "vlan_attachment nads v =
     \<lparr>att_name = vlan_name v @ ''-attach'', att_definitions = List.map_filter (nadForInterface nads) (vl_interfaces v)\<rparr>"

lemma fold_vlan_pool:
  assumes "fold (vlan_pool E opts n (zone_of opts n)) ips (ps, t) = (ps', t')"
  shows "ps' = ps @ map (self_pool opts n) ips \<and> strip t' = strip t"
  using assms
proof (induction ips arbitrary: ps t)
  case (Cons ip ips)
  obtain p u where u: "vlan_pool E opts n (zone_of opts n) ip (ps, t) = (p, u)"
    by (cases "vlan_pool E opts n (zone_of opts n) ip (ps, t)")
  then have "p = ps @ [self_pool opts n ip]" "strip u = strip t"
    by (auto simp: vlan_pool_def self_pool_def split: if_splits sum.splits)
  with Cons.IH [of p u] Cons.prems show ?case by (simp add: u)
qed simp

lemma fold_vlan_nad:
  assumes "fold (vlan_nad E n a) is (ns, t) = (ns', t')"
  shows "ns' = ns @ List.map_filter (nadForInterface (tr_nads t)) is \<and> strip t' = strip t"
  using assms
proof (induction "is" arbitrary: ns t)
  case (Cons i "is")
  obtain p u where u: "vlan_nad E n a i (ns, t) = (p, u)" by (cases "vlan_nad E n a i (ns, t)")
  then have "p = ns @ List.map_filter (nadForInterface (tr_nads t)) [i]" and s: "strip u = strip t"
    by (auto simp: vlan_nad_def map_filter_simps split: option.splits)
  moreover from s have "tr_nads u = tr_nads t" by (rule strip_fields)
  ultimately show ?case
    using Cons.IH [of p u] Cons.prems by (simp add: u map_filter_simps split: option.splits)
qed (simp add: map_filter_simps)

text \<open>The next hop of the default route: the first host of the first external VLAN that has one.\<close>

definition vlan_gateway :: "mig_env \<Rightarrow> legacy_vlan \<Rightarrow> string" where
  "vlan_gateway E v =
     (if vl_internal v then []
      else case (vl_selfip_v4s v, intAt E (vl_prefixlen_v4 v)) of
          (ip # _, Some plen) \<Rightarrow> firstHost ip plen
        | _ \<Rightarrow> [])"

definition external_gateway :: "mig_env \<Rightarrow> legacy_vlan list \<Rightarrow> string" where
  "external_gateway E vs =
     (case find (\<lambda>g. g \<noteq> []) (map (vlan_gateway E) vs) of Some g \<Rightarrow> g | None \<Rightarrow> [])"

lemma vlan_external_fields:
  "tr_nads (vlan_external E v t) = tr_nads t" "tr_attachments (vlan_external E v t) = tr_attachments t"
  "tr_networks (vlan_external E v t) = tr_networks t" "tr_vrfs (vlan_external E v t) = tr_vrfs t"
  "tr_routes (vlan_external E v t) = tr_routes t"
  "tr_externalNets (vlan_external E v t) = tr_externalNets t @ (if vl_internal v then [] else [vlan_name v])"
  "tr_extGateway (vlan_external E v t) = (if tr_extGateway t = [] then vlan_gateway E v else tr_extGateway t)"
  by (auto simp: vlan_external_def Let_def vlan_gateway_def neq_Nil_conv split: option.splits list.splits)

lemma vlan_step_fields:
  "tr_nads (vlan_step E opts v t) = tr_nads t"
  "tr_attachments (vlan_step E opts v t) = tr_attachments t @ [vlan_attachment (tr_nads t) v]"
  "tr_networks (vlan_step E opts v t) = tr_networks t @ [vlan_entry E v (self_pools opts v)]"
  "tr_vrfs (vlan_step E opts v t) = tr_vrfs t" "tr_routes (vlan_step E opts v t) = tr_routes t"
  "tr_externalNets (vlan_step E opts v t) = tr_externalNets t @ (if vl_internal v then [] else [vlan_name v])"
  "tr_extGateway (vlan_step E opts v t) = (if tr_extGateway t = [] then vlan_gateway E v else tr_extGateway t)"
proof -
  let ?n = "vlan_name v"
  obtain ps t2 where p: "fold (vlan_pool E opts ?n (zone_of opts ?n)) (vl_selfip_v4s v) ([], vlan_external E v t) = (ps, t2)"
    by (cases "fold (vlan_pool E opts ?n (zone_of opts ?n)) (vl_selfip_v4s v) ([], vlan_external E v t)")
  define t6 where "t6 = addIpam (?n @ ''-selfip'') ps
    (warn_when E (zone_of opts ?n = []) (VlanWarning ?n NoZoneKnown)
     (warn_when E (ps = []) (VlanWarning ?n NoSelfIPs)
       (warn_when E (vl_selfip_v6s v \<noteq> []) (VlanWarning ?n (IPv6SelfIPsDropped (vl_selfip_v6s v))) t2)))"
  obtain ns t7 where n: "fold (vlan_nad E ?n (?n @ ''-attach'')) (vl_interfaces v) ([], t6) = (ns, t7)"
    by (cases "fold (vlan_nad E ?n (?n @ ''-attach'')) (vl_interfaces v) ([], t6)")
  from fold_vlan_pool [OF p] have ps: "ps = self_pools opts v" and t2: "strip t2 = strip (vlan_external E v t)"
    by (simp_all add: self_pools_def)
  from fold_vlan_nad [OF n] have ns: "ns = List.map_filter (nadForInterface (tr_nads t6)) (vl_interfaces v)"
    and t7: "strip t7 = strip t6" by simp_all
  have t6: "tr_nads t6 = tr_nads t" "tr_attachments t6 = tr_attachments t" "tr_networks t6 = tr_networks t"
    "tr_vrfs t6 = tr_vrfs t" "tr_routes t6 = tr_routes t"
    "tr_externalNets t6 = tr_externalNets t @ (if vl_internal v then [] else [?n])"
    "tr_extGateway t6 = (if tr_extGateway t = [] then vlan_gateway E v else tr_extGateway t)"
    using strip_fields [OF t2] by (simp_all add: t6_def warn_when_def vlan_external_fields)
  have step: "vlan_step E opts v t = warn_when E (vl_allowed_services v \<noteq> []) (VlanWarning ?n AllowedServicesDropped)
      (t7\<lparr>tr_attachments := tr_attachments t7 @ [\<lparr>att_name = ?n @ ''-attach'', att_definitions = ns\<rparr>],
          tr_networks := tr_networks t7 @ [vlan_entry E v ps]\<rparr>)"
    by (simp add: vlan_step_def Let_def p n flip: t6_def)
  show "tr_nads (vlan_step E opts v t) = tr_nads t"
    "tr_attachments (vlan_step E opts v t) = tr_attachments t @ [vlan_attachment (tr_nads t) v]"
    "tr_networks (vlan_step E opts v t) = tr_networks t @ [vlan_entry E v (self_pools opts v)]"
    "tr_vrfs (vlan_step E opts v t) = tr_vrfs t" "tr_routes (vlan_step E opts v t) = tr_routes t"
    "tr_externalNets (vlan_step E opts v t) = tr_externalNets t @ (if vl_internal v then [] else [?n])"
    "tr_extGateway (vlan_step E opts v t) = (if tr_extGateway t = [] then vlan_gateway E v else tr_extGateway t)"
    using strip_fields [OF t7] t6 by (simp_all add: step warn_when_def ps ns vlan_attachment_def)
qed

lemma external_gateway_Cons:
  "external_gateway E (v # vs) = (if vlan_gateway E v = [] then external_gateway E vs else vlan_gateway E v)"
  by (simp add: external_gateway_def)

lemma vlan_fold_fields:
  fixes vs t E opts
  defines "t' \<equiv> fold (vlan_step E opts) vs t"
  shows "tr_nads t' = tr_nads t"
    "tr_attachments t' = tr_attachments t @ map (vlan_attachment (tr_nads t)) vs"
    "tr_networks t' = tr_networks t @ map (\<lambda>v. vlan_entry E v (self_pools opts v)) vs"
    "tr_vrfs t' = tr_vrfs t" "tr_routes t' = tr_routes t"
    "tr_externalNets t' = tr_externalNets t @ map vlan_name (filter (\<lambda>v. \<not> vl_internal v) vs)"
    "tr_extGateway t' = (if tr_extGateway t = [] then external_gateway E vs else tr_extGateway t)"
  unfolding t'_def
  by (induction vs arbitrary: t) (simp_all add: vlan_step_fields external_gateway_Cons, simp_all add: external_gateway_def)

definition vrf_entry :: "legacy_vrf \<Rightarrow> infra_vrf" where
  "vrf_entry v = \<lparr>vrf_name = vf_GetName v, vrf_strictIsolation = vf_strictIsolation v\<rparr>"

lemma vrfList_fields:
  "tr_attachments (vrfList E iv t) = tr_attachments t" "tr_networks (vrfList E iv t) = tr_networks t"
  "tr_routes (vrfList E iv t) = tr_routes t" "tr_extGateway (vrfList E iv t) = tr_extGateway t"
  "tr_externalNets (vrfList E iv t) = tr_externalNets t"
  "tr_vrfs (vrfList E iv t) = tr_vrfs t @ map vrf_entry (in_Vrfs iv)"
proof -
  define step where "step = (\<lambda>(v :: legacy_vrf) t0. let t1 = warn_when E (vf_interconnectVrf v \<noteq> [])
      (VrfInterconnect (vf_GetName v) (vf_interconnectVrf v)) t0
    in t1\<lparr>tr_vrfs := tr_vrfs t1 @ [\<lparr>vrf_name = vf_GetName v, vrf_strictIsolation = vf_strictIsolation v\<rparr>]\<rparr>)"
  have "tr_attachments (fold step vs u) = tr_attachments u \<and> tr_networks (fold step vs u) = tr_networks u \<and>
    tr_routes (fold step vs u) = tr_routes u \<and> tr_extGateway (fold step vs u) = tr_extGateway u \<and>
    tr_externalNets (fold step vs u) = tr_externalNets u \<and>
    tr_vrfs (fold step vs u) = tr_vrfs u @ map vrf_entry vs" for vs u
    by (induction vs arbitrary: u) (simp_all add: step_def Let_def warn_when_def vrf_entry_def)
  then show "tr_attachments (vrfList E iv t) = tr_attachments t" "tr_networks (vrfList E iv t) = tr_networks t"
    "tr_routes (vrfList E iv t) = tr_routes t" "tr_extGateway (vrfList E iv t) = tr_extGateway t"
    "tr_externalNets (vrfList E iv t) = tr_externalNets t"
    "tr_vrfs (vrfList E iv t) = tr_vrfs t @ map vrf_entry (in_Vrfs iv)"
    by (simp_all add: vrfList_def step_def)
qed

lemma vxlan_fold_fields:
  "tr_attachments (fold (vxlan_step E) vs t) = tr_attachments t"
  "tr_vrfs (fold (vxlan_step E) vs t) = tr_vrfs t"
  "tr_routes (fold (vxlan_step E) vs t) = tr_routes t" "tr_extGateway (fold (vxlan_step E) vs t) = tr_extGateway t"
  "tr_externalNets (fold (vxlan_step E) vs t) = tr_externalNets t"
  "tr_networks (fold (vxlan_step E) vs t) = tr_networks t @ map (\<lambda>x. vxlan_entry E x (vxlan_cidr E x)) vs"
  by (induction vs arbitrary: t) (simp_all add: vxlan_step_def Let_def warn_when_def)

text \<open>The route an F5SPKStaticRoute stands for, and the default route when there is none.\<close>

definition route_of :: "mig_env \<Rightarrow> legacy_route \<Rightarrow> infra_route option" where
  "route_of E r =
     (if sr_type r \<in> {[], ''gateway''} \<and> sr_destination r \<noteq> [] \<and> sr_gateway r \<noteq> []
      then map_option (\<lambda>n. \<lparr>rt_name = sr_GetName r, rt_destinations = [cidr_text (sr_destination r) n],
             rt_nextHop = sr_gateway r\<rparr>) (intAt E (sr_prefixLen r))
      else None)"

definition routes_of :: "mig_env \<Rightarrow> Inventory \<Rightarrow> infra_route list" where
  "routes_of E iv =
     (let rs = List.map_filter (route_of E) (in_StaticRoutes iv); gw = external_gateway E (in_Vlans iv)
      in if rs = [] \<and> gw \<noteq> []
         then [\<lparr>rt_name = InfraRouteDefault, rt_destinations = [''0.0.0.0/0''], rt_nextHop = gw\<rparr>] else rs)"

lemma route_step_fields:
  "tr_attachments (route_step E r t) = tr_attachments t" "tr_vrfs (route_step E r t) = tr_vrfs t"
  "tr_networks (route_step E r t) = tr_networks t" "tr_extGateway (route_step E r t) = tr_extGateway t"
  "tr_externalNets (route_step E r t) = tr_externalNets t"
  "tr_routes (route_step E r t) = tr_routes t @ (case route_of E r of None \<Rightarrow> [] | Some x \<Rightarrow> [x])"
  by (simp_all add: route_step_def route_of_def Let_def split: list.split option.split)

lemma route_fold_fields:
  "tr_attachments (fold (route_step E) rs t) = tr_attachments t" "tr_vrfs (fold (route_step E) rs t) = tr_vrfs t"
  "tr_networks (fold (route_step E) rs t) = tr_networks t" "tr_extGateway (fold (route_step E) rs t) = tr_extGateway t"
  "tr_externalNets (fold (route_step E) rs t) = tr_externalNets t"
  "tr_routes (fold (route_step E) rs t) = tr_routes t @ List.map_filter (route_of E) rs"
  by (induction rs arbitrary: t) (simp_all add: route_step_fields map_filter_simps split: option.split)

subsection \<open>What each group of methods leaves alone\<close>

lemma fold_frame: "(\<And>x s. F (f x s) = F s) \<Longrightarrow> F (fold f xs t) = F t"
  by (induction xs arbitrary: t) auto

text \<open>
  A reading \<open>F\<close> of the translator that warnings and new IPAM entries do not change; more
  of the methods keep it as it ignores more fields.
\<close>

locale frame =
  fixes F :: "translator \<Rightarrow> 'a"
  assumes F_warn: "F (warn E w t) = F t" and F_addIpam: "F (addIpam n ps t) = F t"
begin

lemma F_warn_when: "F (warn_when E b w t) = F t"
  by (simp add: warn_when_def F_warn)

lemma F_fold_warn: "F (fold (\<lambda>x. warn_when E (b x) (w x)) xs t) = F t"
  by (rule fold_frame) (rule F_warn_when)

lemma F_snatpools: "F (snatpools E iv opts t) = F t"
  unfolding snatpools_def by (rule fold_frame) (simp add: snatpool_step_def Let_def F_warn F_addIpam)

lemma F_bnkGateways: "F (snd (bnkGateways E iv opts t)) = F t"
  by (simp add: bnkGateways_def fold_frame [where F = F] F_warn)

lemma F_listenerPools: "F (snd (listenerPools E opts b t)) = F t"
proof -
  have "F (snd (listener_step E opts b n it s)) = F (snd s)" for it s n
    by (cases s; cases it) (simp_all add: Let_def F_warn F_addIpam split: option.split)
  then show ?thesis
    unfolding listenerPools_def using fold_frame [where F = "\<lambda>s. F (snd s)"] by fastforce
qed

lemma F_staticPool: "F (snd (staticPool E opts gw t)) = F t"
  by (simp add: staticPool_def Let_def F_warn F_addIpam)

lemma F_gateway_pools: "F (snd (snd (gateway_pools E iv opts gw s))) = F (snd s)"
  by (simp add: gateway_pools_def split_def F_listenerPools F_staticPool split: option.split)

lemma F_snatConfig: "F (snd (snatConfig E iv e t)) = F t"
  by (simp add: snatConfig_def Let_def F_warn F_warn_when)

end

locale frame_underlay = frame +
  assumes F_fields: "F (t\<lparr>tr_nads := a\<rparr>) = F t" "F (t\<lparr>tr_externalNets := b\<rparr>) = F t"
    "F (t\<lparr>tr_attachments := c\<rparr>) = F t" "F (t\<lparr>tr_vrfs := d\<rparr>) = F t" "F (t\<lparr>tr_networks := e\<rparr>) = F t"
    "F (t\<lparr>tr_routes := f\<rparr>) = F t" "F (t\<lparr>tr_extGateway := g\<rparr>) = F t"
begin

lemma F_vlan_step: "F (vlan_step E opts v t) = F t"
proof -
  have pool: "F (snd (vlan_pool E opts n z ip s)) = F (snd s)" for n z ip s
    by (simp add: vlan_pool_def split_def F_warn split: sum.split)
  have nad: "F (snd (vlan_nad E n a i s)) = F (snd s)" for n a i s
    by (simp add: vlan_nad_def split_def F_warn split: option.split)
  have ext: "F (vlan_external E v t) = F t"
    by (simp add: vlan_external_def Let_def F_fields split: option.split)
  have "F (snd (fold (vlan_pool E opts n z) ips s)) = F (snd s)" for n z ips s
    using fold_frame [where F = "\<lambda>s. F (snd s)"] pool by fastforce
  moreover have "F (snd (fold (vlan_nad E n a) is s)) = F (snd s)" for n a "is" s
    using fold_frame [where F = "\<lambda>s. F (snd s)"] nad by fastforce
  ultimately show ?thesis
    by (simp add: vlan_step_def Let_def split_def F_warn_when F_addIpam F_fields ext)
qed

lemma F_underlay:
  "F (staticRoutes E iv (vxlans E iv (vrfList E iv (vlans E iv opts (loadNADs iv t))))) = F t"
proof -
  have route: "F (route_step E r t) = F t" for r t
    by (simp add: route_step_def Let_def F_warn F_fields split: list.split option.split)
  have vxlan: "F (vxlan_step E v t) = F t" for v t
    by (simp add: vxlan_step_def Let_def F_warn F_warn_when F_addIpam F_fields)
  have "F (staticRoutes E iv t) = F t" for t
    by (simp add: staticRoutes_def Let_def F_warn F_fields fold_frame [where F = F] route)
  moreover have "F (vxlans E iv t) = F t" for t
    by (simp add: vxlans_def fold_frame [where F = F] vxlan)
  moreover have "F (vrfList E iv t) = F t" for t
    unfolding vrfList_def by (rule fold_frame) (simp add: Let_def F_warn_when F_fields)
  moreover have "F (vlans E iv opts t) = F t" for t
    by (simp add: vlans_def Let_def F_fields fold_frame [where F = F] F_vlan_step)
  moreover have "F (loadNADs iv t) = F t"
    by (simp add: loadNADs_def F_fields split: option.split)
  ultimately show ?thesis by simp
qed

end

locale frame_gateways = frame +
  assumes F_settings: "F (t\<lparr>tr_settings := s\<rparr>) = F t"
    and F_patches: "F (t\<lparr>tr_plan := (tr_plan t)\<lparr>pl_GatewayPatches := ps\<rparr>\<rparr>) = F t"
begin

lemma F_settingsFor: "F (settingsFor ns n t) = F t" and F_update: "F (update_settings ns n f t) = F t"
  by (simp_all add: settingsFor_def update_settings_def F_settings split: option.split)

lemma F_gateways: "F (gateways E iv opts t) = F t"
proof -
  have "F (snd (gateway_step E iv opts gw s)) = F (snd s)" for gw s
    by (simp add: gateway_step_def gateway_settle_def Let_def split_def F_warn F_warn_when F_settingsFor F_update
        F_patches F_gateway_pools)
  then have "F (snd (fold (gateway_step E iv opts) gws s)) = F (snd s)" for gws s
    using fold_frame [where F = "\<lambda>s. F (snd s)"] by fastforce
  then show ?thesis
    by (simp add: gateways_def Let_def split_def F_fold_warn F_bnkGateways)
qed

end

locale frame_tenants = frame_gateways +
  assumes F_egress: "F (t\<lparr>tr_egressDef := d\<rparr>) = F t"
    and F_plan: "F (t\<lparr>tr_plan := (tr_plan t)\<lparr>pl_EgressGateways := gs\<rparr>\<rparr>) = F t"
    "F (t\<lparr>tr_plan := (tr_plan t)\<lparr>pl_Policies := ps\<rparr>\<rparr>) = F t"
    "F (t\<lparr>tr_plan := (tr_plan t)\<lparr>pl_EgressGateways := gs, pl_Policies := ps\<rparr>\<rparr>) = F t"
begin

lemma F_tenants: "F (policies iv (egresses E iv opts (gateways E iv opts t))) = F t"
proof -
  have "F (egress_tunnel E e d u) = F u" for e d u
    by (simp add: egress_tunnel_def Let_def F_warn_when F_egress split: option.split)
  moreover have "F (egress_namespace E c e i snat ns u) = F u" for c e i snat ns u
    by (simp add: egress_namespace_def Let_def F_warn F_warn_when F_settingsFor F_update F_plan split: source_nat.split)
  ultimately have "F (egress_step E iv c e u) = F u" for c e u
    by (simp add: egress_step_def Let_def split_def fold_frame [where F = F] F_fold_warn F_warn_when F_snatConfig)
  then have "F (egresses E iv opts u) = F u" for u
    by (simp add: egresses_def Let_def split_def fold_frame [where F = F] F_bnkGateways)
  then show ?thesis by (simp add: policies_def F_plan F_gateways)
qed

end

text \<open>The tenant methods keep the underlay, and the underlay and gateway methods the egress gateways.\<close>

definition under :: "translator \<Rightarrow> infra_attachment list \<times> infra_vrf list \<times> infra_network list \<times> infra_route list \<times> string list" where
  "under t = (tr_attachments t, tr_vrfs t, tr_networks t, tr_routes t, tr_externalNets t)"

definition egws :: "translator \<Rightarrow> egress_gateway list" where
  "egws t = pl_EgressGateways (tr_plan t)"

interpretation under: frame_tenants under
  by unfold_locales (simp_all add: under_def)

interpretation egws: frame_underlay egws
  by unfold_locales (simp_all add: egws_def)

interpretation egws: frame_gateways egws
  by unfold_locales (simp_all add: egws_def)

text \<open>
  C8 The Infra object is the image of the inventory: one attachment and one VLAN network per
  F5SPKVlan in inventory order, then one network per Vxlan, one entry per Vrf, one route per
  translatable F5SPKStaticRoute, or the default route through the first external VLAN when there is none.
  The egress tunnel always has a subnet.
\<close>

theorem infra_image:
  "\<exists>p. Translate E (Some iv) opts = Inr p \<and>
     (in_Vlans iv = [] \<or>
      (\<exists>i. pl_Infra p = Some i \<and> inf_name i = infraName opts \<and> inf_namespace i = in_Namespace iv \<and>
        is_networkAttachments (inf_spec i) =
          map (vlan_attachment (case in_CNEInstance iv of Some nads \<Rightarrow> nads | None \<Rightarrow> [])) (in_Vlans iv) \<and>
        is_networks (inf_spec i) =
          map (\<lambda>v. vlan_entry E v (self_pools opts v)) (in_Vlans iv) @
          map (\<lambda>x. vxlan_entry E x (vxlan_cidr E x)) (in_Vxlans iv) \<and>
        is_vrfs (inf_spec i) = map vrf_entry (in_Vrfs iv) \<and>
        is_staticRoutes (inf_spec i) = routes_of E iv \<and>
        ed_subnet (is_egressDefaults (inf_spec i)) \<noteq> None))"
proof -
  let ?t1 = "vlans E iv opts (loadNADs iv new_translator)"
  let ?t4 = "staticRoutes E iv (vxlans E iv (vrfList E iv ?t1))"
  let ?t = "translate_body E iv opts"
  have nads: "tr_nads (loadNADs iv new_translator) = (case in_CNEInstance iv of Some nads \<Rightarrow> nads | None \<Rightarrow> [])"
    by (simp add: loadNADs_def new_translator_def split: option.split)
  have new: "tr_attachments (loadNADs iv new_translator) = []" "tr_networks (loadNADs iv new_translator) = []"
    "tr_vrfs (loadNADs iv new_translator) = []" "tr_routes (loadNADs iv new_translator) = []"
    "tr_extGateway (loadNADs iv new_translator) = []"
    by (simp_all add: loadNADs_def new_translator_def split: option.split)
  have "under ?t = under ?t4" by (simp add: translate_body_def under.F_tenants under.F_snatpools)
  then have t: "tr_attachments ?t = tr_attachments ?t4" "tr_vrfs ?t = tr_vrfs ?t4" "tr_networks ?t = tr_networks ?t4"
    "tr_routes ?t = tr_routes ?t4"
    by (simp_all add: under_def)
  note fields = staticRoutes_def Let_def route_fold_fields vxlans_def vxlan_fold_fields vrfList_fields vlans_def
    vlan_fold_fields nads new
  have "tr_attachments ?t = map (vlan_attachment (case in_CNEInstance iv of Some nads \<Rightarrow> nads | None \<Rightarrow> [])) (in_Vlans iv)"
    by (simp add: t fields)
  moreover have "tr_networks ?t = map (\<lambda>v. vlan_entry E v (self_pools opts v)) (in_Vlans iv) @
      map (\<lambda>x. vxlan_entry E x (vxlan_cidr E x)) (in_Vxlans iv)"
    by (simp add: t fields)
  moreover have "tr_vrfs ?t = map vrf_entry (in_Vrfs iv)" by (simp add: t fields)
  moreover have "tr_routes ?t = routes_of E iv" by (simp add: t fields routes_of_def)
  moreover have "ed_subnet (final_defaults iv u) \<noteq> None" for u
    by (simp add: final_defaults_def Let_def split: option.split)
  ultimately show ?thesis by (auto simp: Translate_def run_plan infra_of_def)
qed

subsection \<open>Egress\<close>

lemma egws_namespace:
  "egws (egress_namespace E c e i snat ns t) = egws t @
     [\<lparr>eg_name = eg_GetName e, eg_namespace = ns, eg_gatewayClassName = c, eg_parametersRef = eg_GetName e,
       eg_sectionName = eg_GetName e, eg_matchNames = [ns]\<rparr>]"
  by (simp add: egress_namespace_def Let_def egws_def settingsFor_def update_settings_def warn_when_def
      split: source_nat.split option.split)

definition egress_gateways_of :: "string \<Rightarrow> legacy_egress \<Rightarrow> egress_gateway list" where
  "egress_gateways_of c e = map (\<lambda>ns.
     \<lparr>eg_name = eg_GetName e, eg_namespace = ns, eg_gatewayClassName = c, eg_parametersRef = eg_GetName e,
      eg_sectionName = eg_GetName e, eg_matchNames = [ns]\<rparr>) (eg_namespaces e)"

lemma egws_step: "egws (egress_step E iv c e t) = egws t @ egress_gateways_of c e"
proof -
  have "egws (egress_tunnel E e d u) = egws u" for d u
    by (simp add: egress_tunnel_def Let_def egws_def warn_when_def split: option.split)
  moreover have "egws (fold (egress_namespace E c e i snat) nss u) = egws u @ map (\<lambda>ns.
     \<lparr>eg_name = eg_GetName e, eg_namespace = ns, eg_gatewayClassName = c, eg_parametersRef = eg_GetName e,
      eg_sectionName = eg_GetName e, eg_matchNames = [ns]\<rparr>) nss" for i snat nss u
    by (induction nss arbitrary: u) (simp_all add: egws_namespace)
  ultimately show ?thesis
    by (simp add: egress_step_def Let_def split_def egws.F_fold_warn egws.F_warn_when egws.F_snatConfig egress_gateways_of_def)
qed

text \<open>
  Egress is carried over completely: the plan has exactly one EgressGateway per
  F5SPKEgress and tenant namespace it lists, selecting just that namespace, and all of them
  reference the BNK GatewayClass the options or the inventory give.
\<close>

theorem egress_gateways_exact:
  "\<exists>p. Translate E (Some iv) opts = Inr p \<and>
     mset (pl_EgressGateways p) =
     mset (concat (map (egress_gateways_of (bnkGatewayClass iv opts (fst (bnkGateways E iv opts new_translator))))
             (in_Egresses iv)))"
proof -
  let ?t4 = "staticRoutes E iv (vxlans E iv (vrfList E iv (vlans E iv opts (loadNADs iv new_translator))))"
  let ?t7 = "gateways E iv opts (snatpools E iv opts ?t4)"
  have gws: "fst (bnkGateways E iv opts t) = fst (bnkGateways E iv opts u)" for t u
    by (simp add: bnkGateways_def)
  have fold: "egws (fold (egress_step E iv c) es t) = egws t @ concat (map (egress_gateways_of c) es)" for c es t
    by (induction es arbitrary: t) (simp_all add: egws_step)
  have "egws ?t7 = []"
    by (simp add: egws.F_gateways egws.F_snatpools egws.F_underlay) (simp add: egws_def new_translator_def empty_plan_def)
  then have "egws (egresses E iv opts ?t7) =
      concat (map (egress_gateways_of (bnkGatewayClass iv opts (fst (bnkGateways E iv opts new_translator)))) (in_Egresses iv))"
    using gws [of ?t7 new_translator] by (simp add: egresses_def Let_def split_def fold egws.F_bnkGateways)
  then have "pl_EgressGateways (tr_plan (translate_body E iv opts)) =
      concat (map (egress_gateways_of (bnkGatewayClass iv opts (fst (bnkGateways E iv opts new_translator)))) (in_Egresses iv))"
    by (simp add: translate_body_def policies_def egws_def)
  then show ?thesis by (simp add: Translate_def run_plan)
qed

subsection \<open>Addresses\<close>

lemma mask_byte_even: "ones \<le> 30 \<Longrightarrow> mask_byte ones 3 AND 1 = 0"
proof -
  assume "ones \<le> 30"
  then have "min 8 (ones - 8 * 3) \<in> set [0..<7]" by simp
  moreover have "list_all (\<lambda>k. NOT (drop_bit k (255 :: octet)) AND 1 = 0) [0..<7]" by code_simp
  ultimately show ?thesis by (simp add: mask_byte_def list_all_iff)
qed

lemma first_host_byte:
  assumes "(m :: octet) AND 1 = 0"
  shows "((x AND m) + 1) AND m = x AND m" and "((x AND m) + 1) AND NOT m = 1"
proof -
  have z: "(x AND m) AND 1 = 0" using assms by (simp add: and.assoc)
  then have or: "(x AND m) + 1 = (x AND m) OR 1" by (rule disjunctive_add_eq_or)
  have "1 AND m = 0" using assms by (simp add: and.commute)
  then show "((x AND m) + 1) AND m = x AND m" by (simp only: or bit.conj_disj_distrib2) (simp add: and.assoc)
  have "m AND NOT m = 0" by (rule bit.conj_cancel_right)
  moreover have "1 AND NOT m = 1"
  proof -
    have "1 AND (m OR NOT m) = 1" by (simp only: bit.disj_cancel_right and.right_neutral)
    then have "(1 AND m) OR (1 AND NOT m) = 1" by (simp only: bit.conj_disj_distrib)
    then show ?thesis by (simp only: \<open>1 AND m = 0\<close> or.left_neutral)
  qed
  ultimately show "((x AND m) + 1) AND NOT m = 1"
    by (simp only: or bit.conj_disj_distrib2) (simp add: and.assoc)
qed

text \<open>
  The default route's next hop is the first usable address of the VLAN's subnet: for a
  prefix up to 30, \<open>firstHost\<close> prints an address with the network part of the self IP
  and host part 1.
\<close>

theorem first_host_in_subnet:
  assumes "parse_ip4 ip = Some a" and "0 \<le> plen" and "plen \<le> 30"
  shows "\<exists>h. parse_ip4 (firstHost ip plen) = Some h \<and>
     mask_ip h (cidr_mask (nat plen) 32) = mask_ip a (cidr_mask (nat plen) 32) \<and>
     mask_ip h (map NOT (cidr_mask (nat plen) 32)) = [0, 0, 0, 1]"
proof -
  obtain w x y z where a: "a = [w, x, y, z]" by (rule length4_cases [OF parse_ip4_length [OF assms(1)]])
  let ?m = "mask_byte (nat plen)"
  let ?h = "[w AND ?m 0, x AND ?m 1, y AND ?m 2, (z AND ?m 3) + 1]"
  have m: "cidr_mask (nat plen) 32 = [?m 0, ?m 1, ?m 2, ?m 3]"
    by (simp add: cidr_mask_def upt_rec numeral_2_eq_2 numeral_3_eq_3)
  have even: "?m 3 AND 1 = 0" using assms(2,3) by (intro mask_byte_even) simp
  have "firstHost ip plen = ipv4_string ?h"
    using assms by (simp add: firstHost_def Let_def m a mask_ip_def)
  then have "parse_ip4 (firstHost ip plen) = Some ?h" by (simp add: parse_ip4_string)
  moreover have "mask_ip ?h (cidr_mask (nat plen) 32) = mask_ip a (cidr_mask (nat plen) 32)"
    using first_host_byte(1) [OF even] by (simp add: m a mask_ip_def and.assoc)
  moreover have "mask_ip ?h (map NOT (cidr_mask (nat plen) 32)) = [0, 0, 0, 1]"
    using first_host_byte(2) [OF even] by (simp add: m mask_ip_def and.assoc)
  ultimately show ?thesis by blast
qed

lemma first_host_in_subnet_witness: "firstHost ''10.0.20.240'' 24 = ''10.0.20.1'' \<and>
  (\<exists>h. parse_ip4 (firstHost ''10.0.20.240'' 24) = Some h \<and>
     mask_ip h (map NOT (cidr_mask 24 32)) = [0, 0, 0, 1])"
proof -
  have "firstHost ''10.0.20.240'' 24 = ''10.0.20.1''" by code_simp
  moreover have "parse_ip4 ''10.0.20.240'' = Some [10, 0, 20, 240]" by code_simp
  from first_host_in_subnet [OF this, of 24]
  have "\<exists>h. parse_ip4 (firstHost ''10.0.20.240'' 24) = Some h \<and> mask_ip h (map NOT (cidr_mask 24 32)) = [0, 0, 0, 1]"
    by auto
  ultimately show ?thesis by blast
qed

text \<open>
  A trunk interface \<open>p.N\<close> maps to the N-th network attachment of the CNEInstance,
  counting from 1, and to none past its end.
\<close>

theorem trunk_interface:
  assumes "CHR ''.'' \<notin> set p" and "in_int64 (int (Suc i))"
  shows "nadForInterface nads (p @ ''.'' @ dec_nat (Suc i)) = (if i < length nads then Some (nads ! i) else None)"
proof -
  have "CHR ''.'' \<notin> set (dec_nat (Suc i))" using dec_nat_is_digit digit_not_special(1) by blast
  then have "split_on CHR ''.'' (p @ ''.'' @ dec_nat (Suc i)) = [p, dec_nat (Suc i)]"
    using assms(1) by (simp add: split_on_append split_on_notin)
  moreover have "atoi (dec_nat (Suc i)) = Some (int (Suc i))" using assms(2) by (rule atoi_dec_nat)
  ultimately show ?thesis by (simp add: nadForInterface_def Let_def)
qed

lemma trunk_interface_witness: "nadForInterface [''ext-nad'', ''int-nad''] ''1.2'' = Some ''int-nad''"
proof -
  have "dec_nat (Suc 1) = ''2''" by code_simp
  then show ?thesis
    using trunk_interface [of "''1''" 1 "[''ext-nad'', ''int-nad'']"]
    by (simp add: in_int64_def min_int64_def max_int64_def)
qed

lemma bytesCompare_lex:
  "length a = length b \<Longrightarrow> bytesCompare a b = (if a = b then 0 else if a < b then -1 else 1)"
  by (induction a b rule: bytesCompare.induct) auto

lemma insert_ip_insort:
  "length a = 4 \<Longrightarrow> list_all (\<lambda>x. length x = 4) xs \<Longrightarrow> insert_ip a xs = insort a xs"
  by (induction xs) (auto simp: bytesCompare_lex)

lemma sort_ips_sort: "list_all (\<lambda>x. length x = 4) xs \<Longrightarrow> sort_ips xs = sort xs"
proof (induction xs)
  case (Cons a xs)
  then have "list_all (\<lambda>x. length x = 4) (sort xs)" by (simp add: list_all_iff)
  with Cons show ?case by (simp add: sort_ips_def insert_ip_insort)
qed (simp add: sort_ips_def)

lemma sorted_ends:
  assumes "sorted xs" and "x \<in> set xs"
  shows "hd xs \<le> x \<and> x \<le> last xs"
proof -
  obtain i where i: "i < length xs" "x = xs ! i" using assms(2) by (auto simp: in_set_conv_nth)
  then have "xs \<noteq> []" by auto
  then show ?thesis
    using assms(1) i sorted_nth_mono [of xs 0 i] sorted_nth_mono [of xs i "length xs - 1"]
    by (auto simp: hd_conv_nth last_conv_nth)
qed

text \<open>
  The pool made from a Gateway's static addresses covers them: it runs from the lowest
  to the highest of them in the numeric order of \<open>bytesCompare\<close>, both included.
\<close>

theorem static_pool_covers:
  assumes "List.map_filter static_ip (gw_addresses gw) = ip # ips"
  shows "\<exists>lo hi. lo \<in> set (ip # ips) \<and> hi \<in> set (ip # ips) \<and>
     list_all (\<lambda>a. bytesCompare lo a \<le> 0 \<and> bytesCompare a hi \<le> 0) (ip # ips) \<and>
     snd (staticPool E opts gw t) =
       warn E (GatewayWarning (gw_GetNamespace gw) (gw_GetName gw)
           (StaticPoolOnly (gw_GetNamespace gw @ ''-'' @ gw_GetName gw @ ''-static'')))
         (addIpam (gw_GetNamespace gw @ ''-'' @ gw_GetName gw @ ''-static'')
           [range_pool (ipv4_string lo) (ipv4_string hi) (externalZone opts t)] t)"
proof -
  let ?xs = "ip # ips" and ?s = "sort (ip # ips)"
  have "length x = 4" if "static_ip a = Some x" for a x
    using that by (cases a) (auto simp: Let_def dest: parse_ip4_length split: if_splits)
  then have len: "list_all (\<lambda>x. length x = 4) ?xs"
    using assms by (auto simp: list_all_iff map_filter_def simp flip: assms)
  then have s: "sort_ips ?xs = ?s" by (rule sort_ips_sort)
  have ne: "?s \<noteq> []" by (metis list.distinct(1) set_empty set_sort)
  then have ends: "hd ?s \<in> set ?xs" "last ?s \<in> set ?xs"
    by (metis hd_in_set set_sort, metis last_in_set set_sort)
  have "bytesCompare (hd ?s) a \<le> 0 \<and> bytesCompare a (last ?s) \<le> 0" if "a \<in> set ?xs" for a
  proof -
    have "hd ?s \<le> a \<and> a \<le> last ?s" by (rule sorted_ends [OF sorted_sort]) (simp only: set_sort that)
    moreover have "length (hd ?s) = 4" "length (last ?s) = 4" "length a = 4"
      using ends that len by (auto simp: list_all_iff)
    ultimately show ?thesis by (auto simp: bytesCompare_lex)
  qed
  then have "list_all (\<lambda>a. bytesCompare (hd ?s) a \<le> 0 \<and> bytesCompare a (last ?s) \<le> 0) ?xs"
    by (simp only: list_all_iff) blast
  with ends ne show ?thesis
    by (intro exI [of _ "hd ?s"] exI [of _ "last ?s"])
      (simp only: staticPool_def Let_def assms s if_False snd_conv simp_thms)
qed

definition sample_gateway :: api_gateway where
  "sample_gateway =
     \<lparr>gw_GetName = ''web'', gw_GetNamespace = ''shop'', gw_gatewayClassName = ''bnk'',
      gw_addresses = [AMap [(''type'', AString ''IPAddress''), (''value'', AString ''10.0.10.101'')],
        AMap [(''type'', AString ''Hostname''), (''value'', AString ''example.org'')],
        AMap [(''value'', AString ''10.0.10.100'')]]\<rparr>"

definition sample_env :: mig_env where
  "sample_env = \<lparr>mig_sprintf = (\<lambda>_. ''note''), mig_float_overflow = (\<lambda>_. min_int64)\<rparr>"

definition sample_options :: Options where
  "sample_options = \<lparr>op_InfraName = [], op_GatewayClassName = [], op_ZoneByNetwork = Map.empty, op_SingleSelfIP = False\<rparr>"

lemma static_pool_covers_witness:
  "\<exists>lo hi. lo \<in> set [[10, 0, 10, 101], [10, 0, 10, 100]] \<and>
     list_all (\<lambda>a. bytesCompare lo a \<le> 0 \<and> bytesCompare a hi \<le> 0) [[10, 0, 10, 101], [10, 0, 10, 100]] \<and>
     snd (staticPool sample_env sample_options sample_gateway new_translator) =
       warn sample_env (GatewayWarning ''shop'' ''web'' (StaticPoolOnly ''shop-web-static''))
         (addIpam ''shop-web-static'' [range_pool (ipv4_string lo) (ipv4_string hi) []] new_translator)"
proof -
  have "List.map_filter static_ip (gw_addresses sample_gateway) = [[10, 0, 10, 101], [10, 0, 10, 100]]" by code_simp
  from static_pool_covers [OF this, of sample_env sample_options new_translator] show ?thesis
    by (simp add: sample_gateway_def externalZone_def new_translator_def) blast
qed

end
