(* ===== verification/MigrateRefs.thy ===== *)
theory MigrateRefs
  imports MigrateClaims
begin

text \<open>
  The references of the generated plan: to IPAM entries, attachments, networks, VRFs and settings. \<open>refs_ok\<close>
  is the part of the translator's invariant that speaks of the inventory and of the warnings; every
  method that adds a reference keeps it.
\<close>

subsection \<open>The invariant\<close>

definition vlan_nets :: "Inventory \<Rightarrow> string set" where
  "vlan_nets iv = vlan_name ` set (in_Vlans iv)"

text \<open>The tunnel networks the F5SPKEgresses name themselves; nothing checks that they exist.\<close>

definition declared_tunnels :: "Inventory \<Rightarrow> string set" where
  "declared_tunnels iv = (\<lambda>e. string_in (eg_vxlan e) ''tmmInterfaceName'') ` set (in_Egresses iv)"

definition tunnel_resolves :: "Inventory \<Rightarrow> string set \<Rightarrow> string option \<Rightarrow> bool" where
  "tunnel_resolves iv N r \<longleftrightarrow> (case r of None \<Rightarrow> True | Some n \<Rightarrow> n \<in> N \<or> n \<in> declared_tunnels iv)"

text \<open>A pool whose IPAM is missing has been warned about.\<close>

definition pool_resolves :: "mig_env \<Rightarrow> Inventory \<Rightarrow> string set \<Rightarrow> string set \<Rightarrow> nat_pool \<Rightarrow> bool" where
  "pool_resolves E iv I W np \<longleftrightarrow> list_all (\<lambda>r. r \<in> I \<or>
     (\<exists>e. mig_sprintf E (EgressWarning e (SnatpoolMissing (np_name np) (in_Namespace iv))) \<in> W)) (np_ipamRefs np)"

definition settings_resolve ::
  "mig_env \<Rightarrow> Inventory \<Rightarrow> string set \<Rightarrow> string set \<Rightarrow> string set \<Rightarrow> gateway_settings \<Rightarrow> bool" where
  "settings_resolve E iv I N W gs \<longleftrightarrow>
     (case gs_defaultListenerNetwork gs of None \<Rightarrow> True | Some l \<Rightarrow> set (ln_networkRefs l) \<subseteq> N) \<and>
     list_all (\<lambda>c. tunnel_resolves iv N (ec_networkRef c)) (gs_egressConfigs gs) \<and>
     list_all (pool_resolves E iv I W) (gs_sourceNATPools gs)"

definition said :: "translator \<Rightarrow> string set" where
  "said t = set (pl_Warnings (tr_plan t))"

definition refs_ok :: "mig_env \<Rightarrow> Inventory \<Rightarrow> translator \<Rightarrow> bool" where
  "refs_ok E iv t \<longleftrightarrow> set (tr_externalNets t) \<subseteq> vlan_nets iv \<and>
     (case tr_egressDef t of None \<Rightarrow> True | Some d \<Rightarrow> tunnel_resolves iv (vlan_nets iv) (ed_networkRef d)) \<and>
     (\<forall>gs \<in> snd ` set (tr_settings t). settings_resolve E iv (ipam_names t) (vlan_nets iv) (said t) gs)"

lemma tunnel_resolves_mono: "N \<subseteq> N' \<Longrightarrow> tunnel_resolves iv N r \<Longrightarrow> tunnel_resolves iv N' r"
  by (auto simp: tunnel_resolves_def split: option.splits)

lemma settings_resolve_mono:
  assumes "I \<subseteq> I'" "N \<subseteq> N'" "W \<subseteq> W'" and "settings_resolve E iv I N W gs"
  shows "settings_resolve E iv I' N' W' gs"
proof -
  have "pool_resolves E iv I' W' np" if "pool_resolves E iv I W np" for np
    using that assms(1,3) by (fastforce simp: pool_resolves_def list_all_iff)
  with assms show ?thesis
    using tunnel_resolves_mono [OF assms(2)]
    by (fastforce simp: settings_resolve_def list_all_iff split: option.splits)
qed

subsection \<open>Steps that add no reference\<close>

text \<open>What such a step may do: warn, and add IPAM entries.\<close>

definition site :: "translator \<Rightarrow> string list \<times> egress_defaults option \<times> (string \<times> gateway_settings) list" where
  "site t = (tr_externalNets t, tr_egressDef t, tr_settings t)"

definition grown :: "translator \<Rightarrow> translator \<Rightarrow> bool" where
  "grown t t' \<longleftrightarrow> site t' = site t \<and> ipam_names t \<subseteq> ipam_names t' \<and> said t \<subseteq> said t'"

named_theorems grown_intros

lemma grown_refl [grown_intros]: "grown t t"
  by (simp add: grown_def)

lemma grown_trans: "grown t u \<Longrightarrow> grown u v \<Longrightarrow> grown t v"
  by (auto simp: grown_def)

lemma refs_ok_grown: "refs_ok E iv t \<Longrightarrow> grown t t' \<Longrightarrow> refs_ok E iv t'"
  using settings_resolve_mono [of "ipam_names t" "ipam_names t'" "vlan_nets iv" "vlan_nets iv" "said t" "said t'" E iv]
  by (fastforce simp: refs_ok_def grown_def site_def)

lemma grown_warn [grown_intros]: "grown t (warn E w t)"
  by (auto simp: grown_def site_def said_def warn_def add_warning_def ipam_names_def)

lemma grown_warn_when [grown_intros]: "grown t (warn_when E b w t)"
  by (simp add: warn_when_def grown_intros)

lemma grown_addIpam [grown_intros]: "grown t (addIpam n ps t)"
  by (auto simp: grown_def site_def said_def addIpam_def ipam_names_def)

lemma grown_fold: "(\<And>x s. grown s (f x s)) \<Longrightarrow> grown s (fold f xs s)"
  by (induction xs arbitrary: s) (auto intro: grown_intros grown_trans)

lemma grown_fold_snd: "(\<And>x s. grown (snd s) (snd (f x s))) \<Longrightarrow> grown (snd s) (snd (fold f xs s))"
proof (induction xs arbitrary: s)
  case (Cons x xs)
  show ?case using grown_trans [OF Cons.prems Cons.IH [OF Cons.prems]] by simp
qed (simp add: grown_intros)

lemma grown_snatpools [grown_intros]: "grown t (snatpools E iv opts t)"
  unfolding snatpools_def by (rule grown_fold) (simp add: snatpool_step_def Let_def grown_intros)

lemma grown_bnkGateways [grown_intros]: "grown t (snd (bnkGateways E iv opts t))"
  by (simp add: bnkGateways_def grown_intros grown_fold)

lemma grown_listenerPools: "grown t (snd (listenerPools E opts b t))"
proof -
  have "grown (snd s) (snd (listener_step E opts b n it s))" for it s n
    by (cases s; cases it) (simp_all add: Let_def grown_intros split: option.split)
  then show ?thesis
    unfolding listenerPools_def using grown_fold_snd [where s = "([], t)"] by fastforce
qed

lemma grown_staticPool: "grown t (snd (staticPool E opts gw t))"
  by (auto simp: staticPool_def Let_def grown_intros intro: grown_trans [OF grown_addIpam grown_warn])

lemma grown_gateway_pools [grown_intros]: "grown (snd s) (snd (snd (gateway_pools E iv opts gw s)))"
  by (simp add: gateway_pools_def split_def grown_listenerPools grown_staticPool split: option.split)

lemma grown_plan [grown_intros]:
  "grown t (t\<lparr>tr_plan := (tr_plan t)\<lparr>pl_GatewayPatches := ps\<rparr>\<rparr>)"
  "grown t (t\<lparr>tr_plan := (tr_plan t)\<lparr>pl_EgressGateways := gs\<rparr>\<rparr>)"
  "grown t (t\<lparr>tr_plan := (tr_plan t)\<lparr>pl_Policies := qs\<rparr>\<rparr>)"
  "grown t (t\<lparr>tr_plan := (tr_plan t)\<lparr>pl_EgressGateways := gs, pl_Policies := qs\<rparr>\<rparr>)"
  by (simp_all add: grown_def site_def said_def ipam_names_def)

subsection \<open>Settings\<close>

lemma refs_ok_settingsFor: "refs_ok E iv t \<Longrightarrow> refs_ok E iv (settingsFor ns n t)"
  by (auto simp: refs_ok_def settingsFor_def settings_resolve_def empty_settings_def ipam_names_def said_def
      split: option.splits)

lemma refs_ok_update:
  assumes "refs_ok E iv t"
    and "\<And>gs. settings_resolve E iv (ipam_names t) (vlan_nets iv) (said t) gs \<Longrightarrow>
      settings_resolve E iv (ipam_names t) (vlan_nets iv) (said t) (f gs)"
  shows "refs_ok E iv (update_settings ns n f t)"
  using assms by (auto simp: refs_ok_def update_settings_def ipam_names_def said_def)

lemma gateway_settle_refs:
  assumes "refs_ok E iv t"
  shows "refs_ok E iv (gateway_settle E ns name pools t)"
proof -
  define t1 where "t1 = settingsFor ns name t"
  define t2 where "t2 = warn_when E (tr_externalNets t1 = []) (GatewayWarning ns name NoExternalVlan) t1"
  define t3 where "t3 = update_settings ns name (\<lambda>gs. gs\<lparr>gs_defaultListenerNetwork := Some
    \<lparr>ln_ipamRefs = pools, ln_sourceNATConfig = Automap, ln_networkRefs = tr_externalNets t1\<rparr>\<rparr>) t2"
  have t1: "refs_ok E iv t1" using assms by (simp add: t1_def refs_ok_settingsFor)
  then have t2: "refs_ok E iv t2" by (auto simp: t2_def intro: refs_ok_grown grown_intros)
  have "refs_ok E iv t3"
    unfolding t3_def by (rule refs_ok_update [OF t2]) (use t1 in \<open>auto simp: settings_resolve_def refs_ok_def\<close>)
  then show ?thesis
    unfolding gateway_settle_def Let_def t1_def [symmetric] t2_def [symmetric] t3_def [symmetric]
    by (intro refs_ok_grown [OF _ grown_trans [OF grown_warn grown_plan(1)]])
qed

lemma gateway_step_refs: "refs_ok E iv (snd s) \<Longrightarrow> refs_ok E iv (snd (gateway_step E iv opts gw s))"
  using refs_ok_grown [OF _ grown_gateway_pools [of s E iv opts gw]]
  by (auto simp: gateway_step_def split_def intro: gateway_settle_refs refs_ok_grown [OF _ grown_warn])

lemma gateways_refs: "refs_ok E iv t \<Longrightarrow> refs_ok E iv (gateways E iv opts t)"
proof -
  assume t: "refs_ok E iv t"
  have "refs_ok E iv (snd (fold (gateway_step E iv opts) gws s))" if "refs_ok E iv (snd s)" for gws s
    using that by (rule fold_invariant_in [where P = "\<lambda>s. refs_ok E iv (snd s)"]) (rule gateway_step_refs)
  then show ?thesis
    using refs_ok_grown [OF t grown_bnkGateways]
    by (auto simp: gateways_def Let_def split_def intro!: refs_ok_grown [OF _ grown_fold] grown_intros)
qed

subsection \<open>Egress\<close>

lemma defaultTunnel_resolves:
  "refs_ok E iv t \<Longrightarrow> tunnel_resolves iv (vlan_nets iv) (opt_text (defaultTunnelNetwork iv t))"
  by (auto simp: defaultTunnelNetwork_def tunnel_resolves_def opt_text_def refs_ok_def vlan_nets_def
      split: option.splits list.splits dest: find_Some_iff [THEN iffD1])

text \<open>What \<open>snatConfig\<close> leaves: a pool it chose has its IPAM, or was warned about.\<close>

definition nat_covered :: "mig_env \<Rightarrow> Inventory \<Rightarrow> source_nat \<Rightarrow> translator \<Rightarrow> bool" where
  "nat_covered E iv snat t \<longleftrightarrow> (case snat of
     NATPool pool \<Rightarrow> pool_resolves E iv (ipam_names t) (said t) \<lparr>np_name = pool, np_ipamRefs = [snatIpamName pool]\<rparr>
   | _ \<Rightarrow> True)"

lemma nat_covered_grown: "nat_covered E iv snat t \<Longrightarrow> grown t t' \<Longrightarrow> nat_covered E iv snat t'"
  by (auto simp: nat_covered_def pool_resolves_def grown_def split: source_nat.splits)

lemma said_warn: "stores_ok t \<Longrightarrow> mig_sprintf E w \<in> said (warn E w t)"
  by (auto simp: said_def warn_def add_warning_def stores_ok_def)

lemma snatConfig_refs:
  assumes "tr_ok t" and "snatConfig E iv e t = (snat, t')"
  shows "grown t t' \<and> nat_covered E iv snat t'"
proof -
  have st: "stores_ok t" using assms(1) by (simp add: tr_ok_def)
  then have seen: "tr_ipamSeen t = ipam_names t" by (simp add: stores_ok_def)
  from assms(2) st show ?thesis
    by (auto simp: snatConfig_def Let_def nat_covered_def pool_resolves_def warn_when_def seen grown_intros said_warn
        split: if_splits intro: grown_intros) (blast intro: said_warn)
qed

lemma egress_namespace_refs:
  assumes t: "refs_ok E iv t" and nat: "nat_covered E iv snat t"
    and tun: "tunnel_resolves iv (vlan_nets iv) (opt_text tmmIf)"
  shows "refs_ok E iv (egress_namespace E gwClass e tmmIf snat ns t) \<and>
    nat_covered E iv snat (egress_namespace E gwClass e tmmIf snat ns t)"
proof -
  define t1 where "t1 = settingsFor ns (eg_GetName e) t"
  define t2 where "t2 = update_settings ns (eg_GetName e) (\<lambda>gs. gs\<lparr>gs_egressConfigs := gs_egressConfigs gs @
    [\<lparr>ec_name = eg_GetName e, ec_sourceNATConfig = snat, ec_networkRef = opt_text tmmIf\<rparr>]\<rparr>) t1"
  define t3 where "t3 = (case snat of NATPool pool \<Rightarrow> update_settings ns (eg_GetName e) (addSourceNATPool pool) t2 | _ \<Rightarrow> t2)"
  have t1: "refs_ok E iv t1" "nat_covered E iv snat t1"
    using t nat by (auto simp: t1_def refs_ok_settingsFor nat_covered_def said_def split: source_nat.splits)
  have "refs_ok E iv t2"
    unfolding t2_def by (rule refs_ok_update [OF t1(1)]) (use tun in \<open>simp add: settings_resolve_def\<close>)
  moreover have t2: "nat_covered E iv snat t2"
    using t1(2) by (simp add: t2_def nat_covered_def said_def split: source_nat.splits)
  ultimately have "refs_ok E iv t3" "nat_covered E iv snat t3"
    by (auto simp: t3_def nat_covered_def said_def addSourceNATPool_def settings_resolve_def
        split: source_nat.splits intro!: refs_ok_update)
  moreover have "grown t3 (egress_namespace E gwClass e tmmIf snat ns t)"
  proof -
    define t4 where "t4 = warn_when E (gwClass = []) (EgressClassMissing ns (eg_GetName e)) t3"
    have "grown t3 t4" by (simp add: t4_def grown_intros)
    then show ?thesis
      unfolding egress_namespace_def Let_def t1_def [symmetric] t2_def [symmetric] t3_def [symmetric] t4_def [symmetric]
      by (auto intro: grown_trans [OF _ grown_plan(2)] grown_trans [OF _ grown_trans [OF grown_plan(4) grown_warn]])
  qed
  ultimately show ?thesis using refs_ok_grown nat_covered_grown by blast
qed

lemma egress_step_refs:
  assumes ok: "tr_ok t0" and t: "refs_ok E iv t0" and e: "e \<in> set (in_Egresses iv)"
  shows "refs_ok E iv (egress_step E iv gwClass e t0)"
proof -
  define declared where "declared = string_in (eg_vxlan e) ''tmmInterfaceName''"
  define tmmIf where "tmmIf = (if declared = [] then defaultTunnelNetwork iv t0 else declared)"
  define t1 where "t1 = warn_when E (declared = [] \<and> tmmIf \<noteq> []) (EgressWarning (eg_GetName e) (TunnelDefaulted tmmIf)) t0"
  define t2 where "t2 = egress_tunnel E e (tunnel_def E e tmmIf) t1"
  obtain snat t3 where t3: "snatConfig E iv e t2 = (snat, t3)" by fastforce
  have tun: "tunnel_resolves iv (vlan_nets iv) (opt_text tmmIf)"
    using defaultTunnel_resolves [OF t] e
    by (auto simp: tmmIf_def declared_def tunnel_resolves_def declared_tunnels_def opt_text_def split: if_splits option.splits)
  have "refs_ok E iv t1" by (rule refs_ok_grown [OF t]) (simp add: t1_def grown_intros)
  moreover have "refs_ok E iv (egress_tunnel E e (tunnel_def E e tmmIf) u)" if u: "refs_ok E iv u" for u
  proof -
    define v where "v = warn_when E (string_in (eg_vxlan e) ''nodeInterfaceName'' \<noteq> [])
      (EgressWarning (eg_GetName e) (NodeInterfaceDropped (string_in (eg_vxlan e) ''nodeInterfaceName'')))
      (warn_when E (string_in (eg_vxlan e) ''ipv6Subnet'' \<noteq> [])
        (EgressWarning (eg_GetName e) (IPv6TunnelDropped (string_in (eg_vxlan e) ''ipv6Subnet''))) u)"
    have v: "refs_ok E iv v"
      by (rule refs_ok_grown [OF u]) (auto simp: v_def intro: grown_trans grown_intros)
    have "refs_ok E iv (v\<lparr>tr_egressDef := Some (tunnel_def E e tmmIf)\<rparr>)"
      using v tun by (simp add: refs_ok_def tunnel_def_def Let_def ipam_names_def said_def)
    then show ?thesis
      using v unfolding egress_tunnel_def Let_def v_def [symmetric]
      by (auto split: option.split intro: refs_ok_grown grown_intros)
  qed
  ultimately have t2: "refs_ok E iv t2" by (simp add: t2_def)
  have "tr_ok t2"
    using ok by (simp add: t2_def t1_def egress_tunnel_def Let_def ok_intros split: option.splits)
  from snatConfig_refs [OF this t3] have g3: "grown t2 t3" "nat_covered E iv snat t3" by simp_all
  define t6 where "t6 = warn_when E (positive (intAt E (eg_maxTmmReplicas e)) \<noteq> None) (EgressWarning (eg_GetName e) MaxReplicasDropped)
    (fold (\<lambda>k. warn_when E (eg_flag e k = Some True) (EgressWarning (eg_GetName e) (FlagDropped k))) dropped_flags
      (warn_when E (eg_namespaces e = []) (EgressWarning (eg_GetName e) NoNamespaces) t3))"
  have "grown t3 t6"
    unfolding t6_def by (intro grown_trans [OF grown_warn_when grown_trans [OF grown_fold grown_warn_when]] grown_warn_when)
  then have t6: "refs_ok E iv t6 \<and> nat_covered E iv snat t6"
    using refs_ok_grown [OF refs_ok_grown [OF t2 g3(1)]] nat_covered_grown [OF g3(2)] by blast
  let ?P = "\<lambda>u. refs_ok E iv u \<and> nat_covered E iv snat u"
  have "?P (fold (egress_namespace E gwClass e tmmIf snat) (eg_namespaces e) t6)"
    by (rule fold_invariant_in [where P = ?P, OF t6]) (rule egress_namespace_refs [OF _ _ tun], simp_all)
  then show ?thesis
    unfolding egress_step_def Let_def declared_def [symmetric] tmmIf_def [symmetric] t1_def [symmetric] t2_def [symmetric] t3
      prod.case t6_def [symmetric] by simp
qed

lemma egresses_refs:
  assumes "tr_ok t" and "refs_ok E iv t"
  shows "refs_ok E iv (egresses E iv opts t)"
proof -
  obtain gws t1 where g: "bnkGateways E iv opts t = (gws, t1)" by fastforce
  have t1: "tr_ok t1 \<and> refs_ok E iv t1"
    using bnkGateways_ok [OF assms(1) g] refs_ok_grown [OF assms(2) grown_bnkGateways [of t E iv opts]] g by simp
  have "tr_ok u \<and> refs_ok E iv u" if "u = fold (egress_step E iv c) (in_Egresses iv) t1" for u c
    unfolding that 
    by (rule fold_invariant_in [where P = "\<lambda>u. tr_ok u \<and> refs_ok E iv u", OF t1]) (simp add: egress_step_ok egress_step_refs)
  then show ?thesis by (simp add: egresses_def g)
qed

subsection \<open>The whole run\<close>

definition untouched :: "translator \<Rightarrow> egress_defaults option \<times> (string \<times> gateway_settings) list" where
  "untouched t = (tr_egressDef t, tr_settings t)"

interpretation untouched: frame_underlay untouched
  by unfold_locales (simp_all add: untouched_def)

lemma underlay_refs:
  "refs_ok E iv (staticRoutes E iv (vxlans E iv (vrfList E iv (vlans E iv opts (loadNADs iv new_translator)))))"
proof -
  let ?t = "staticRoutes E iv (vxlans E iv (vrfList E iv (vlans E iv opts (loadNADs iv new_translator))))"
  have "untouched ?t = untouched new_translator" by (rule untouched.F_underlay)
  then have "tr_egressDef ?t = None" "tr_settings ?t = []"
    by (simp_all add: untouched_def new_translator_def)
  moreover have "tr_externalNets (loadNADs iv new_translator) = []"
    by (simp add: loadNADs_def new_translator_def split: option.split)
  then have "set (tr_externalNets ?t) \<subseteq> vlan_nets iv"
    by (auto simp: staticRoutes_def Let_def route_fold_fields vxlans_def vxlan_fold_fields vrfList_fields vlans_def
        vlan_fold_fields vlan_nets_def)
  ultimately show ?thesis by (simp add: refs_ok_def)
qed

lemma translate_body_refs: "refs_ok E iv (translate_body E iv opts)"
proof -
  define t4 where "t4 = staticRoutes E iv (vxlans E iv (vrfList E iv (vlans E iv opts (loadNADs iv new_translator))))"
  have ok: "tr_ok (gateways E iv opts (snatpools E iv opts t4))"
    unfolding t4_def
    by (intro gateways_ok snatpools_ok staticRoutes_ok vxlans_ok vrfList_ok vlans_ok loadNADs_ok new_translator_ok)
  have "refs_ok E iv (snatpools E iv opts t4)"
    using refs_ok_grown [OF underlay_refs grown_snatpools] by (simp add: t4_def)
  then have "refs_ok E iv (egresses E iv opts (gateways E iv opts (snatpools E iv opts t4)))"
    using egresses_refs [OF ok] gateways_refs by blast
  then show ?thesis
    unfolding translate_body_def t4_def [symmetric] policies_def using refs_ok_grown [OF _ grown_plan(3)] by blast
qed

lemma said_run: "said (translate_body E iv opts) \<subseteq> set (pl_Warnings (tr_plan (translate_run E iv opts)))"
proof -
  have "said t \<subseteq> said (buildInfra E iv opts t)" for t
    using grown_warn [of t E NoEgressFound]
    by (auto simp: buildInfra_def infra_egress_def Let_def said_def grown_def split: option.splits)
  moreover have "said (collectSettings t) = said t" for t by (simp add: said_def collectSettings_plan)
  ultimately show ?thesis
    using grown_warn_when by (fastforce simp: translate_run_body said_def [symmetric] grown_def)
qed

subsection \<open>Claim\<close>

definition vxlan_resolves :: "Inventory \<Rightarrow> string set \<Rightarrow> string set \<Rightarrow> infra_network \<Rightarrow> bool" where
  "vxlan_resolves iv N R n \<longleftrightarrow> (case net_body n of
      VlanNetwork _ \<Rightarrow> True
    | VxlanNetwork x \<Rightarrow>
        (case xn_networkRef x of None \<Rightarrow> True | Some m \<Rightarrow> m \<in> N \<or> m \<notin> vlan_nets iv) \<and>
        (case xn_vrfRef x of None \<Rightarrow> True | Some r \<Rightarrow> r \<in> R \<or> r \<notin> vf_GetName ` set (in_Vrfs iv)))"

definition infra_resolves :: "mig_env \<Rightarrow> Inventory \<Rightarrow> Plan \<Rightarrow> infra \<Rightarrow> bool" where
  "infra_resolves E iv p i \<longleftrightarrow>
     (let s = inf_spec i; I = set (map ipam_name (is_ipams s)); N = set (map net_name (is_networks s)) in
      distinct (map ipam_name (is_ipams s)) \<and>
      networks_ok I (set (map att_name (is_networkAttachments s))) (is_networks s) \<and>
      list_all (vxlan_resolves iv N (set (map vrf_name (is_vrfs s)))) (is_networks s) \<and>
      tunnel_resolves iv N (ed_networkRef (is_egressDefaults s)) \<and>
      list_all (listener_resolves I) (pl_GatewaySettings p) \<and>
      list_all (settings_resolve E iv I N (set (pl_Warnings p))) (pl_GatewaySettings p))"

text \<open>References between objects of the plan that do not need the Infra object.\<close>

definition settings_bound :: "Plan \<Rightarrow> bool" where
  "settings_bound p \<longleftrightarrow>
     list_all (\<lambda>q. list_ex (\<lambda>gs. settings_key gs = obj_key (gp_namespace q) (gp_parametersRef q) \<and>
         gs_defaultListenerNetwork gs \<noteq> None) (pl_GatewaySettings p)) (pl_GatewayPatches p) \<and>
     list_all (\<lambda>g. list_ex (\<lambda>gs. settings_key gs = obj_key (eg_namespace g) (eg_parametersRef g) \<and>
         eg_sectionName g \<in> ec_name ` set (gs_egressConfigs gs)) (pl_GatewaySettings p)) (pl_EgressGateways p) \<and>
     list_all (\<lambda>gs. list_all (nat_ok gs) (gs_egressConfigs gs)) (pl_GatewaySettings p)"

lemma final_defaults_resolve:
  "refs_ok E iv t \<Longrightarrow> tunnel_resolves iv (vlan_nets iv) (ed_networkRef (final_defaults iv t))"
  using defaultTunnel_resolves [of E iv t]
  by (auto simp: final_defaults_def Let_def refs_ok_def split: option.splits)

lemma infra_of_run:
  assumes "pl_Infra (tr_plan (translate_run E iv opts)) = Some i"
  shows "i = infra_of iv opts (translate_body E iv opts) (final_defaults iv (translate_body E iv opts))"
    and "vlan_nets iv \<subseteq> set (map net_name (is_networks (inf_spec i)))"
    and "map vrf_name (is_vrfs (inf_spec i)) = map vf_GetName (in_Vrfs iv)"
proof -
  show i: "i = infra_of iv opts (translate_body E iv opts) (final_defaults iv (translate_body E iv opts))"
    using assms by (simp add: run_plan split: if_splits)
  have "in_Vlans iv \<noteq> []" using assms by (auto simp: run_plan)
  with infra_image [of E iv opts] assms
  have "is_networks (inf_spec i) = map (\<lambda>v. vlan_entry E v (self_pools opts v)) (in_Vlans iv) @
      map (\<lambda>x. vxlan_entry E x (vxlan_cidr E x)) (in_Vxlans iv)" "is_vrfs (inf_spec i) = map vrf_entry (in_Vrfs iv)"
    by (auto simp: Translate_def)
  then show "vlan_nets iv \<subseteq> set (map net_name (is_networks (inf_spec i)))"
    "map vrf_name (is_vrfs (inf_spec i)) = map vf_GetName (in_Vrfs iv)"
    by (auto simp: vlan_nets_def vlan_entry_def vrf_entry_def comp_def)
qed


text \<open>
  C9 The references of the generated plan. Without VLANs there is no Infra object and a warning says
  so. Otherwise the Infra object has one entry per IPAM name, and holds every \<open>ipamRefs\<close>,
  \<open>vtepIpamRefs\<close>, \<open>networkAttachmentRef\<close>, listener pool and listener network; a Vxlan's network and VRF are
  there unless the inventory lacks them, a tunnel network unless an F5SPKEgress names it itself, the IPAM
  of a source NAT pool unless a warning names the pool. Patches and EgressGateways point to
  generated settings with the section they name.
\<close>

theorem plan_references_resolve:
  "\<exists>p. Translate E (Some iv) opts = Inr p \<and> settings_bound p \<and>
     (case pl_Infra p of
        None \<Rightarrow> in_Vlans iv = [] \<and> mig_sprintf E (NoVlanFound (in_Namespace iv)) \<in> set (pl_Warnings p)
      | Some i \<Rightarrow> in_Vlans iv \<noteq> [] \<and> infra_resolves E iv p i)"
proof -
  let ?t = "translate_body E iv opts"
  let ?p = "tr_plan (translate_run E iv opts)"
  have ok: "tr_ok ?t" by (rule translate_body_ok)
  then have S: "settings_ok (ipam_names ?t) (tr_settings ?t)"
    and d: "distinct (map ipam_name (tr_ipams ?t))"
    and n: "networks_ok (ipam_names ?t) (att_names ?t) (tr_networks ?t)"
    by (simp_all add: tr_ok_def stores_ok_def)
  have gs: "set (pl_GatewaySettings ?p) = snd ` set (tr_settings ?t)"
    using S set_collected [of "tr_settings ?t"] by (simp add: run_plan settings_ok_def)
  have refs: "refs_ok E iv ?t" by (rule translate_body_refs)
  have "infra_resolves E iv ?p i" if i: "pl_Infra ?p = Some i" for i
  proof -
    note run = infra_of_run [OF i]
    let ?N = "set (map net_name (is_networks (inf_spec i)))"
    have spec: "is_ipams (inf_spec i) = tr_ipams ?t" "is_networkAttachments (inf_spec i) = tr_attachments ?t"
      "is_networks (inf_spec i) = tr_networks ?t" "is_egressDefaults (inf_spec i) = final_defaults iv ?t"
      by (simp_all add: run(1) infra_of_def)
    have vrfs: "vf_GetName ` set (in_Vrfs iv) \<subseteq> set (map vrf_name (is_vrfs (inf_spec i)))" by (simp add: run(3))
    have "list_all (listener_resolves (ipam_names ?t)) (pl_GatewaySettings ?p)"
      using S gs by (auto simp: list_all_iff listener_resolves_def settings_ok_def settings_entry_ok_def)
    moreover have "list_all (vxlan_resolves iv ?N (set (map vrf_name (is_vrfs (inf_spec i))))) (is_networks (inf_spec i))"
      using run(2) vrfs by (auto simp: list_all_iff vxlan_resolves_def simp del: set_map split: network_body.splits option.splits)
    moreover have "tunnel_resolves iv ?N (ed_networkRef (final_defaults iv ?t))"
      using tunnel_resolves_mono [OF run(2) final_defaults_resolve [OF refs]] .
    moreover have "list_all (settings_resolve E iv (ipam_names ?t) ?N (set (pl_Warnings ?p))) (pl_GatewaySettings ?p)"
      using refs gs settings_resolve_mono [OF subset_refl run(2) said_run]
      by (auto simp: list_all_iff refs_ok_def)
    ultimately show ?thesis
      using d n by (simp add: infra_resolves_def Let_def spec ipam_names_def att_names_def)
  qed
  moreover have "(pl_Infra ?p = None) = (in_Vlans iv = [])" by (simp add: run_plan)
  moreover have "mig_sprintf E (NoVlanFound (in_Namespace iv)) \<in> set (pl_Warnings ?p)" if "in_Vlans iv = []"
    using plan_without_vlans [OF that] .
  moreover have "list_all (\<lambda>q. list_ex (\<lambda>gs. settings_key gs = obj_key (gp_namespace q) (gp_parametersRef q) \<and>
      gs_defaultListenerNetwork gs \<noteq> None) (pl_GatewaySettings ?p)) (pl_GatewayPatches ?p)"
    using ok gs map_of_collected settings_key_entry [OF S]
    by (fastforce simp: run_plan tr_ok_def list_all_iff list_ex_iff patch_bound_def)
  moreover have "list_all (\<lambda>g. list_ex (\<lambda>gs. settings_key gs = obj_key (eg_namespace g) (eg_parametersRef g) \<and>
      eg_sectionName g \<in> ec_name ` set (gs_egressConfigs gs)) (pl_GatewaySettings ?p)) (pl_EgressGateways ?p)"
    using ok gs map_of_collected settings_key_entry [OF S]
    by (fastforce simp: run_plan tr_ok_def list_all_iff list_ex_iff egress_bound_def)
  moreover have "list_all (\<lambda>gs. list_all (nat_ok gs) (gs_egressConfigs gs)) (pl_GatewaySettings ?p)"
    using S gs by (auto simp: list_all_iff settings_ok_def settings_entry_ok_def)
  ultimately show ?thesis by (auto simp: Translate_def settings_bound_def split: option.split)
qed

end
