(* ===== verification/Resync.thy ===== *)
theory Resync
  imports GoAny
begin

text \<open>
  \<open>pkg/bnk/resync.go\<close>: forcing the controller to re-resolve pool members by moving every
  backend weight of an HTTPRoute up by one and back. The API server is a parameter, the
  record \<open>kube\<close> of the calls the code makes on a world \<open>'w\<close>; a call that writes returns the
  next world. An HTTPRoute is what the apimachinery accessors return for it.
\<close>

subsection \<open>Data\<close>

record http_route =
  hr_GetNamespace :: string
  hr_GetName :: string
  hr_rules :: "any list"
  hr_parentRefs :: "any list"

record gateway_object =
  go_GetNamespace :: string
  go_GetName :: string
  go_gatewayClassName :: string

(* src/pkg/bnk/resync.go:43-57 ResyncOptions *)
record ResyncOptions =
  ro_Namespace :: string
  ro_Name :: string
  ro_AllInNamespace :: bool
  ro_GatewayClass :: string
  ro_DryRun :: bool

type_synonym int64 = "64 word"

datatype patch_verb = OpTest | OpReplace | OpAdd | OpRemove

(* src/pkg/bnk/resync.go:259-265 patchOp *)
record patchOp =
  po_Op :: patch_verb
  po_Path :: string
  po_Value :: "int64 option"

(* src/pkg/bnk/resync.go:267-272 weightEntry *)
record weightEntry =
  we_ruleIdx :: nat
  we_refIdx :: nat
  we_orig :: int64
  we_fieldExists :: bool

(* src/pkg/bnk/resync.go:60-65 ResyncedRoute *)
record ResyncedRoute =
  rr_Namespace :: string
  rr_Name :: string
  rr_Rules :: nat
  rr_Applied :: bool

datatype 'e resync_error =
    GettingRoute string string 'e
  | ListingRoutes string 'e
  | ListingGateways 'e
  | ListingAllRoutes 'e
  | NoSelector
  | ForwardPatch 'e
  | Cancelled 'e
  | RestorePatch 'e
  | RoutesFailed nat

(* src/pkg/bnk/resync.go:68-72 ResyncError *)
record 'e ResyncError =
  re_Namespace :: string
  re_Name :: string
  re_Err :: "'e resync_error"

(* src/pkg/bnk/resync.go:75-80 ResyncResult *)
record 'e ResyncResult =
  rs_Resynced :: "ResyncedRoute list"
  rs_Errors :: "'e ResyncError list"

record ('w, 'e) kube =
  k_get_route :: "string \<Rightarrow> string \<Rightarrow> 'w \<Rightarrow> 'e + http_route"
  k_list_routes :: "string \<Rightarrow> 'w \<Rightarrow> 'e + http_route list"
  k_list_gateways :: "'w \<Rightarrow> 'e + gateway_object list"
  k_patch_route :: "string \<Rightarrow> string \<Rightarrow> patchOp list \<Rightarrow> 'w \<Rightarrow> ('e + string) \<times> 'w"
  k_wait :: "'w \<Rightarrow> 'e option \<times> 'w"

subsection \<open>Targets\<close>

text \<open>The map \<open>gwKeys\<close> is the set of its keys.\<close>

fun parent_key :: "http_route \<Rightarrow> any \<Rightarrow> string option" where
  "parent_key hr (AMap p) =
     (let ns = string_in p ''namespace''
      in Some ((if ns = [] then hr_GetNamespace hr else ns) @ ''/'' @ string_in p ''name''))"
| "parent_key hr _ = None"

(* src/pkg/bnk/resync.go:191-238 routesForGatewayClass *)
definition routesForGatewayClass ::
  "('w, 'e) kube \<Rightarrow> string \<Rightarrow> 'w \<Rightarrow> 'e resync_error + http_route list" where
  "routesForGatewayClass K gatewayClass w =
     (case k_list_gateways K w of
        Inl e \<Rightarrow> Inl (ListingGateways e)
      | Inr gws \<Rightarrow>
          let gwKeys = map (\<lambda>gw. go_GetNamespace gw @ ''/'' @ go_GetName gw)
                (filter (\<lambda>gw. go_gatewayClassName gw = gatewayClass) gws)
          in if gwKeys = [] then Inr []
             else (case k_list_routes K [] w of
                 Inl e \<Rightarrow> Inl (ListingAllRoutes e)
               | Inr hrs \<Rightarrow> Inr (filter (\<lambda>hr. list_ex (\<lambda>p. case parent_key hr p of
                     Some k \<Rightarrow> k \<in> set gwKeys | None \<Rightarrow> False) (hr_parentRefs hr)) hrs)))"

(* src/pkg/bnk/resync.go:160-187 resolveTargets *)
definition resolveTargets ::
  "('w, 'e) kube \<Rightarrow> ResyncOptions \<Rightarrow> 'w \<Rightarrow> 'e resync_error + http_route list" where
  "resolveTargets K opts w =
     (if ro_Name opts \<noteq> [] then
        (case k_get_route K (ro_Namespace opts) (ro_Name opts) w of
           Inl e \<Rightarrow> Inl (GettingRoute (ro_Namespace opts) (ro_Name opts) e)
         | Inr hr \<Rightarrow> Inr [hr])
      else if ro_AllInNamespace opts then
        (case k_list_routes K (ro_Namespace opts) w of
           Inl e \<Rightarrow> Inl (ListingRoutes (ro_Namespace opts) e)
         | Inr hrs \<Rightarrow> Inr hrs)
      else if ro_GatewayClass opts \<noteq> [] then routesForGatewayClass K (ro_GatewayClass opts) w
      else Inl NoSelector)"

subsection \<open>Weights\<close>

fun backend_refs :: "any \<Rightarrow> any list" where
  "backend_refs (AMap r) = any_list (map_of r ''backendRefs'')"
| "backend_refs _ = []"

(* src/pkg/bnk/resync.go:242-257 countBackendRefs *)
definition countBackendRefs :: "http_route \<Rightarrow> nat" where
  "countBackendRefs hr = sum_list (map (\<lambda>r. length (backend_refs r)) (hr_rules hr))"

(* src/pkg/bnk/resync.go:276-288 collectWeights part *)
fun weight_value :: "(f64 \<Rightarrow> int) \<Rightarrow> any \<Rightarrow> int64" where
  "weight_value ovf (AInt64 v) = word_of_int v"
| "weight_value ovf (AFloat64 v) = word_of_int (float_to_int64 ovf v)"
| "weight_value ovf (AInt v) = word_of_int v"
| "weight_value ovf _ = 1"

fun ref_entry :: "(f64 \<Rightarrow> int) \<Rightarrow> nat \<Rightarrow> nat \<times> any \<Rightarrow> weightEntry option" where
  "ref_entry ovf ri (bi, AMap b) =
     Some (case map_of b ''weight'' of
        None \<Rightarrow> \<lparr>we_ruleIdx = ri, we_refIdx = bi, we_orig = 1, we_fieldExists = False\<rparr>
      | Some raw \<Rightarrow> \<lparr>we_ruleIdx = ri, we_refIdx = bi, we_orig = weight_value ovf raw, we_fieldExists = True\<rparr>)"
| "ref_entry ovf ri _ = None"

(* src/pkg/bnk/resync.go:276-306 collectWeights *)
definition collectWeights :: "(f64 \<Rightarrow> int) \<Rightarrow> http_route \<Rightarrow> weightEntry list" where
  "collectWeights ovf hr =
     concat (map (\<lambda>(ri, r). List.map_filter (ref_entry ovf ri) (enumerate 0 (backend_refs r)))
       (enumerate 0 (hr_rules hr)))"

(* src/pkg/bnk/resync.go:308-310 weightPath *)
definition weightPath :: "weightEntry \<Rightarrow> string" where
  "weightPath e =
     ''/spec/rules/'' @ dec_nat (we_ruleIdx e) @ ''/backendRefs/'' @ dec_nat (we_refIdx e) @ ''/weight''"

(* src/pkg/bnk/resync.go:319-333 buildForwardPatches *)
definition buildForwardPatches :: "weightEntry list \<Rightarrow> patchOp list" where
  "buildForwardPatches entries =
     concat (map (\<lambda>e. let p = weightPath e in
       if we_fieldExists e
       then [\<lparr>po_Op = OpTest, po_Path = p, po_Value = Some (we_orig e)\<rparr>,
             \<lparr>po_Op = OpReplace, po_Path = p, po_Value = Some (we_orig e + 1)\<rparr>]
       else [\<lparr>po_Op = OpAdd, po_Path = p, po_Value = Some (we_orig e + 1)\<rparr>]) entries)"

(* src/pkg/bnk/resync.go:341-353 buildRestorePatches *)
definition buildRestorePatches :: "weightEntry list \<Rightarrow> patchOp list" where
  "buildRestorePatches entries =
     concat (map (\<lambda>e. let p = weightPath e in
       \<lparr>po_Op = OpTest, po_Path = p, po_Value = Some (we_orig e + 1)\<rparr> #
       (if we_fieldExists e
        then [\<lparr>po_Op = OpReplace, po_Path = p, po_Value = Some (we_orig e)\<rparr>]
        else [\<lparr>po_Op = OpRemove, po_Path = p, po_Value = None\<rparr>])) entries)"

(* src/pkg/bnk/resync.go:405-417 applyJSONPatch *)
definition applyJSONPatch ::
  "('w, 'e) kube \<Rightarrow> string \<Rightarrow> string \<Rightarrow> patchOp list \<Rightarrow> 'w \<Rightarrow> ('e + string) \<times> 'w" where
  "applyJSONPatch K ns name ops w = k_patch_route K ns name ops w"

(* src/pkg/bnk/resync.go:358-401 toggleWeights *)
definition toggleWeights ::
  "('w, 'e) kube \<Rightarrow> (f64 \<Rightarrow> int) \<Rightarrow> string \<Rightarrow> string \<Rightarrow> http_route \<Rightarrow> 'w \<Rightarrow> 'e resync_error option \<times> 'w" where
  "toggleWeights K ovf ns name route w =
     (if hr_rules route = [] then (None, w)
      else let entries = collectWeights ovf route in
        if entries = [] then (None, w)
        else case applyJSONPatch K ns name (buildForwardPatches entries) w of
            (Inl e, w1) \<Rightarrow> (Some (ForwardPatch e), w1)
          | (Inr rv, w1) \<Rightarrow>
              (case k_wait K w1 of
                 (Some e, w2) \<Rightarrow> (Some (Cancelled e), w2)
               | (None, w2) \<Rightarrow>
                   (case applyJSONPatch K ns name (buildRestorePatches entries) w2 of
                      (Inl e, w3) \<Rightarrow> (Some (RestorePatch e), w3)
                    | (Inr rv2, w3) \<Rightarrow> (None, w3))))"

subsection \<open>The command\<close>

definition resynced_route :: "http_route \<Rightarrow> bool \<Rightarrow> ResyncedRoute" where
  "resynced_route hr applied =
     \<lparr>rr_Namespace = hr_GetNamespace hr, rr_Name = hr_GetName hr, rr_Rules = countBackendRefs hr,
      rr_Applied = applied\<rparr>"

(* src/pkg/bnk/resync.go:111-141 ResyncHTTPRoutes part *)
definition resync_step ::
  "('w, 'e) kube \<Rightarrow> (f64 \<Rightarrow> int) \<Rightarrow> bool \<Rightarrow> http_route \<Rightarrow> 'e ResyncResult \<times> 'w \<Rightarrow> 'e ResyncResult \<times> 'w" where
  "resync_step K ovf dry hr rw =
     (case rw of (res, w) \<Rightarrow>
        if dry then (res\<lparr>rs_Resynced := rs_Resynced res @ [resynced_route hr False]\<rparr>, w)
        else (case toggleWeights K ovf (hr_GetNamespace hr) (hr_GetName hr) hr w of
            (Some err, w') \<Rightarrow>
              (res\<lparr>rs_Errors := rs_Errors res @
                 [\<lparr>re_Namespace = hr_GetNamespace hr, re_Name = hr_GetName hr, re_Err = err\<rparr>]\<rparr>, w')
          | (None, w') \<Rightarrow> (res\<lparr>rs_Resynced := rs_Resynced res @ [resynced_route hr True]\<rparr>, w')))"

definition empty_result :: "'e ResyncResult" where
  "empty_result = \<lparr>rs_Resynced = [], rs_Errors = []\<rparr>"

(* src/pkg/bnk/resync.go:100-157 ResyncHTTPRoutes *)
definition ResyncHTTPRoutes ::
  "('w, 'e) kube \<Rightarrow> (f64 \<Rightarrow> int) \<Rightarrow> ResyncOptions \<Rightarrow> 'w \<Rightarrow> ('e ResyncResult \<times> 'e resync_error option) \<times> 'w" where
  "ResyncHTTPRoutes K ovf opts w =
     (case resolveTargets K opts w of
        Inl e \<Rightarrow> ((empty_result, Some e), w)
      | Inr targets \<Rightarrow>
          (case fold (resync_step K ovf (ro_DryRun opts)) targets (empty_result, w) of
             (res, w') \<Rightarrow>
               ((res, if rs_Errors res \<noteq> [] then Some (RoutesFailed (length (rs_Errors res))) else None), w')))"

end
