(* ===== verification/ResyncClaims.thy ===== *)
theory ResyncClaims
  imports Resync "HOL-Library.Multiset"
begin

text \<open>
  What a resync guarantees: the weight toggle is a round trip on the route, its patches touch
  nothing but the weights and fail on a concurrent change of an explicit one, a dry run writes nothing, and every target is
  accounted for.
\<close>

subsection \<open>JSON Patch\<close>

text \<open>
  RFC 6902 on the weights of one route, a map from JSON pointers to values: the documented behaviour of the
  API server's patch endpoint. A patch applies as a whole or not at all.
\<close>

fun run_op :: "patchOp \<Rightarrow> (string \<rightharpoonup> int64) \<Rightarrow> (string \<rightharpoonup> int64) option" where
  "run_op op d =
     (case po_Op op of
        OpTest \<Rightarrow> if d (po_Path op) = po_Value op then Some d else None
      | OpReplace \<Rightarrow> if d (po_Path op) = None then None else Some (d(po_Path op := po_Value op))
      | OpAdd \<Rightarrow> Some (d(po_Path op := po_Value op))
      | OpRemove \<Rightarrow> if d (po_Path op) = None then None else Some (d(po_Path op := None)))"

fun run_ops :: "patchOp list \<Rightarrow> (string \<rightharpoonup> int64) \<Rightarrow> (string \<rightharpoonup> int64) option" where
  "run_ops [] d = Some d"
| "run_ops (op # ops) d = Option.bind (run_op op d) (run_ops ops)"

declare run_op.simps [simp del]

lemma run_ops_append: "run_ops (xs @ ys) d = Option.bind (run_ops xs d) (run_ops ys)"
  by (induction xs arbitrary: d) (simp_all split: bind_split)

text \<open>The weight the route holds at an entry's path when the entry is up to date.\<close>

definition entry_value :: "weightEntry \<Rightarrow> int64 option" where
  "entry_value e = (if we_fieldExists e then Some (we_orig e) else None)"

definition up_to_date :: "weightEntry list \<Rightarrow> (string \<rightharpoonup> int64) \<Rightarrow> bool" where
  "up_to_date es d \<longleftrightarrow> list_all (\<lambda>e. d (weightPath e) = entry_value e) es"

definition toggled :: "weightEntry list \<Rightarrow> (string \<rightharpoonup> int64) \<Rightarrow> bool" where
  "toggled es d \<longleftrightarrow> list_all (\<lambda>e. d (weightPath e) = Some (we_orig e + 1)) es"

definition raise_weights :: "weightEntry list \<Rightarrow> (string \<rightharpoonup> int64) \<Rightarrow> string \<rightharpoonup> int64" where
  "raise_weights es d = fold (\<lambda>e d. d(weightPath e \<mapsto> we_orig e + 1)) es d"

definition reset_weights :: "weightEntry list \<Rightarrow> (string \<rightharpoonup> int64) \<Rightarrow> string \<rightharpoonup> int64" where
  "reset_weights es d = fold (\<lambda>e d. d(weightPath e := entry_value e)) es d"

lemma forward_Cons:
  "run_ops (buildForwardPatches (e # es)) d =
     (if we_fieldExists e \<and> d (weightPath e) \<noteq> Some (we_orig e) then None
      else run_ops (buildForwardPatches es) (d(weightPath e \<mapsto> we_orig e + 1)))"
  by (simp add: buildForwardPatches_def Let_def run_op.simps)

lemma restore_Cons:
  "run_ops (buildRestorePatches (e # es)) d =
     (if d (weightPath e) = Some (we_orig e + 1)
      then run_ops (buildRestorePatches es) (d(weightPath e := entry_value e)) else None)"
  by (simp add: buildRestorePatches_def Let_def run_op.simps entry_value_def)

lemma list_all_upd:
  "p \<notin> weightPath ` set es \<Longrightarrow> list_all (\<lambda>e. P e ((d(p := x)) (weightPath e))) es = list_all (\<lambda>e. P e (d (weightPath e))) es"
  by (auto simp: list_all_iff)

lemma run_forward:
  "distinct (map weightPath es) \<Longrightarrow>
   run_ops (buildForwardPatches es) d =
     (if list_all (\<lambda>e. if we_fieldExists e then d (weightPath e) = Some (we_orig e) else True) es
      then Some (raise_weights es d) else None)"
proof (induction es arbitrary: d)
  case Nil
  then show ?case by (simp add: buildForwardPatches_def raise_weights_def)
next
  case (Cons e es)
  then show ?case
    using list_all_upd [of "weightPath e" es "\<lambda>e v. if we_fieldExists e then v = Some (we_orig e) else True" d]
    by (simp add: forward_Cons raise_weights_def)
qed

lemma run_restore:
  "distinct (map weightPath es) \<Longrightarrow>
   run_ops (buildRestorePatches es) d = (if toggled es d then Some (reset_weights es d) else None)"
proof (induction es arbitrary: d)
  case Nil
  then show ?case by (simp add: buildRestorePatches_def reset_weights_def toggled_def)
next
  case (Cons e es)
  then show ?case
    using list_all_upd [of "weightPath e" es "\<lambda>e v. v = Some (we_orig e + 1)" d]
    by (simp add: restore_Cons reset_weights_def toggled_def)
qed

lemma raise_other: "p \<notin> weightPath ` set es \<Longrightarrow> raise_weights es d p = d p"
  by (induction es arbitrary: d) (auto simp: raise_weights_def)

lemma reset_other: "p \<notin> weightPath ` set es \<Longrightarrow> reset_weights es d p = d p"
  by (induction es arbitrary: d) (auto simp: reset_weights_def)

lemma raise_at: "distinct (map weightPath es) \<Longrightarrow> e \<in> set es \<Longrightarrow> raise_weights es d (weightPath e) = Some (we_orig e + 1)"
proof (induction es arbitrary: d)
  case (Cons a es)
  then show ?case
    using raise_other [of "weightPath a" es] by (auto simp: raise_weights_def)
qed simp

lemma reset_at: "distinct (map weightPath es) \<Longrightarrow> e \<in> set es \<Longrightarrow> reset_weights es d (weightPath e) = entry_value e"
proof (induction es arbitrary: d)
  case (Cons a es)
  then show ?case
    using reset_other [of "weightPath a" es] by (auto simp: reset_weights_def)
qed simp

lemma reset_raise:
  assumes "distinct (map weightPath es)" and "up_to_date es d"
  shows "reset_weights es (raise_weights es d) = d"
proof
  fix p
  show "reset_weights es (raise_weights es d) p = d p"
  proof (cases "p \<in> weightPath ` set es")
    case True
    with assms show ?thesis by (auto simp: reset_at up_to_date_def list_all_iff)
  next
    case False
    then show ?thesis by (simp add: reset_other raise_other)
  qed
qed

subsection \<open>Paths are distinct\<close>

lemma weightPath_inj: "weightPath e = weightPath f \<Longrightarrow> we_ruleIdx e = we_ruleIdx f \<and> we_refIdx e = we_refIdx f"
proof -
  assume eq: "weightPath e = weightPath f"
  have digits: "CHR ''/'' \<notin> set (dec_nat n)" for n
    using dec_nat_is_digit digit_not_special(2) by blast
  let ?parts = "\<lambda>g. [[], ''spec'', ''rules'', dec_nat (we_ruleIdx g), ''backendRefs'', dec_nat (we_refIdx g), ''weight'']"
  have "weightPath g = join_with [CHR ''/''] (?parts g)" for g
    by (simp add: weightPath_def)
  moreover have "split_on CHR ''/'' (join_with [CHR ''/''] (?parts g)) = ?parts g" for g
  proof (rule split_join)
    fix x assume "x \<in> set (?parts g)"
    then consider "x = []" | "x = ''spec''" | "x = ''rules''" | n where "x = dec_nat n" | "x = ''backendRefs''" | "x = ''weight''"
      by (simp only: list.set insert_iff empty_iff) blast
    then show "CHR ''/'' \<notin> set x" by cases (simp_all add: digits)
  qed simp
  ultimately have "split_on CHR ''/'' (weightPath g) = ?parts g" for g by (simp only:)
  then have "?parts e = ?parts f" using eq by (metis (no_types))
  then show ?thesis by (simp add: dec_nat_inj)
qed

definition entry_index :: "weightEntry \<Rightarrow> nat \<times> nat" where
  "entry_index e = (we_ruleIdx e, we_refIdx e)"

lemma ref_entries_index:
  "map entry_index (List.map_filter (ref_entry ovf ri) (enumerate n bs)) =
   map (\<lambda>p. (ri, fst p)) (filter (\<lambda>p. ref_entry ovf ri p \<noteq> None) (enumerate n bs))"
proof (induction bs arbitrary: n)
  case (Cons b bs)
  have "ref_entry ovf ri (n, b) = Some e \<Longrightarrow> entry_index e = (ri, n)" for e
    by (cases b) (auto simp: entry_index_def split: option.splits)
  with Cons show ?case by (auto simp: map_filter_simps split: option.split)
qed (simp add: map_filter_simps)

lemma distinct_ref_entries: "distinct (map entry_index (List.map_filter (ref_entry ovf ri) (enumerate n bs)))"
  unfolding ref_entries_index
  by (auto simp: distinct_map inj_on_def intro!: distinct_filter dest!: in_set_enumerate_eq [THEN iffD1])

abbreviation rule_entries :: "(f64 \<Rightarrow> int) \<Rightarrow> nat \<Rightarrow> any \<Rightarrow> weightEntry list" where
  "rule_entries ovf ri r \<equiv> List.map_filter (ref_entry ovf ri) (enumerate 0 (backend_refs r))"

lemma rule_entries_index: "e \<in> set (rule_entries ovf n r) \<Longrightarrow> we_ruleIdx e = n"
proof -
  assume "e \<in> set (rule_entries ovf n r)"
  then have "entry_index e \<in> set (map entry_index (rule_entries ovf n r))" by simp
  then show ?thesis unfolding ref_entries_index by (auto simp: entry_index_def)
qed

lemma distinct_rule_entries:
  "distinct (map entry_index (concat (map (\<lambda>(ri, r). rule_entries ovf ri r) (enumerate n rs)))) \<and>
   (\<forall>e\<in>set (concat (map (\<lambda>(ri, r). rule_entries ovf ri r) (enumerate n rs))). n \<le> we_ruleIdx e)"
proof (induction rs arbitrary: n)
  case (Cons r rs)
  let ?rest = "concat (map (\<lambda>(ri, r). rule_entries ovf ri r) (enumerate (Suc n) rs))"
  have rest: "distinct (map entry_index ?rest)" "\<And>e. e \<in> set ?rest \<Longrightarrow> Suc n \<le> we_ruleIdx e"
    using Cons [of "Suc n"] by blast+
  have "entry_index x \<noteq> entry_index y" if "x \<in> set (rule_entries ovf n r)" "y \<in> set ?rest" for x y
    using rule_entries_index [OF that(1)] rest(2) [OF that(2)] by (auto simp: entry_index_def)
  then have disj: "set (map entry_index (rule_entries ovf n r)) \<inter> set (map entry_index ?rest) = {}"
    unfolding set_map by blast
  have split: "concat (map (\<lambda>(ri, r). rule_entries ovf ri r) (enumerate n (r # rs))) = rule_entries ovf n r @ ?rest"
    by simp
  have "distinct (map entry_index (rule_entries ovf n r @ ?rest))"
    using distinct_ref_entries rest(1) disj by (simp only: map_append distinct_append)
  moreover have "n \<le> we_ruleIdx e" if "e \<in> set (rule_entries ovf n r @ ?rest)" for e
    using that rule_entries_index [of e ovf n r] rest(2) [of e] by (auto simp del: set_concat)
  ultimately show ?case unfolding split by blast
qed simp

lemma distinct_weight_paths: "distinct (map weightPath (collectWeights ovf hr))"
proof -
  have "distinct (map entry_index (collectWeights ovf hr))"
    using distinct_rule_entries [of ovf 0 "hr_rules hr"] by (simp add: collectWeights_def)
  then show ?thesis
    by (auto simp: distinct_map inj_on_def entry_index_def dest!: weightPath_inj)
qed

subsection \<open>Properties\<close>

text \<open>
  C5 The toggle is a round trip. When the route still has the weights that were read, the
  forward patch applies and raises every backend weight by one (an absent weight counts as
  1), and the restore patch then brings back exactly the original route, absent weights
  absent again.
\<close>

theorem toggle_roundtrip:
  assumes "up_to_date (collectWeights ovf hr) d"
  shows "\<exists>d1. run_ops (buildForwardPatches (collectWeights ovf hr)) d = Some d1 \<and>
     toggled (collectWeights ovf hr) d1 \<and>
     run_ops (buildRestorePatches (collectWeights ovf hr)) d1 = Some d"
proof -
  let ?es = "collectWeights ovf hr"
  note dist = distinct_weight_paths [of ovf hr]
  have "list_all (\<lambda>e. if we_fieldExists e then d (weightPath e) = Some (we_orig e) else True) ?es"
    using assms by (auto simp: up_to_date_def entry_value_def list_all_iff)
  then have "run_ops (buildForwardPatches ?es) d = Some (raise_weights ?es d)"
    by (simp only: run_forward [OF dist] if_True)
  moreover have t: "toggled ?es (raise_weights ?es d)"
    using raise_at [OF dist] by (auto simp: toggled_def list_all_iff)
  ultimately show ?thesis
    using assms by (simp add: run_restore [OF dist] reset_raise [OF dist])
qed

definition sample_route :: http_route where
  "sample_route = \<lparr>hr_GetNamespace = ''shop'', hr_GetName = ''web'',
     hr_rules = [AMap [(''backendRefs'', AList [AMap [(''name'', AString ''a''), (''weight'', AInt64 9)],
                                               AMap [(''name'', AString ''b'')]])]],
     hr_parentRefs = []\<rparr>"

lemma toggle_roundtrip_witness:
  "\<exists>d1. run_ops (buildForwardPatches (collectWeights (\<lambda>_. 0) sample_route)) [''/spec/rules/0/backendRefs/0/weight'' \<mapsto> 9] = Some d1 \<and>
     d1 ''/spec/rules/0/backendRefs/0/weight'' = Some 10 \<and> d1 ''/spec/rules/0/backendRefs/1/weight'' = Some 2 \<and>
     run_ops (buildRestorePatches (collectWeights (\<lambda>_. 0) sample_route)) d1 = Some [''/spec/rules/0/backendRefs/0/weight'' \<mapsto> 9]"
proof -
  let ?d = "[''/spec/rules/0/backendRefs/0/weight'' \<mapsto> 9] :: string \<rightharpoonup> int64"
  have es: "map (\<lambda>e. (weightPath e, we_orig e, we_fieldExists e)) (collectWeights (\<lambda>_. 0) sample_route) =
      [(''/spec/rules/0/backendRefs/0/weight'', 9, True), (''/spec/rules/0/backendRefs/1/weight'', 1, False)]"
    by code_simp
  have "up_to_date (collectWeights (\<lambda>_. 0) sample_route) ?d"
    using es by (auto simp: up_to_date_def entry_value_def list_all_iff)
  from toggle_roundtrip [OF this] es show ?thesis by (auto simp: toggled_def)
qed



lemma resync_dry_fold:
  "fold (resync_step K ovf True) ts (res, w) =
     (res\<lparr>rs_Resynced := rs_Resynced res @ map (\<lambda>hr. resynced_route hr False) ts\<rparr>, w)"
  by (induction ts arbitrary: res) (simp_all add: resync_step_def)

text \<open>
  A dry run reports every target as not applied, fails only when the targets cannot be
  resolved, and never writes: the world is the one it started from.
\<close>

theorem resync_dry_run:
  "ResyncHTTPRoutes K ovf (opts\<lparr>ro_DryRun := True\<rparr>) w =
     (case resolveTargets K opts w of
        Inl e \<Rightarrow> ((empty_result, Some e), w)
      | Inr ts \<Rightarrow> ((\<lparr>rs_Resynced = map (\<lambda>hr. resynced_route hr False) ts, rs_Errors = []\<rparr>, None), w))"
  by (simp add: ResyncHTTPRoutes_def resolveTargets_def resync_dry_fold empty_result_def split: sum.split)

definition target_key :: "http_route \<Rightarrow> string \<times> string" where
  "target_key hr = (hr_GetNamespace hr, hr_GetName hr)"

definition reported :: "'e ResyncResult \<Rightarrow> (string \<times> string) multiset" where
  "reported res = mset (map (\<lambda>r. (rr_Namespace r, rr_Name r)) (rs_Resynced res)) +
     mset (map (\<lambda>e. (re_Namespace e, re_Name e)) (rs_Errors res))"

lemma resync_fold_reported:
  "fold (resync_step K ovf dry) ts (res, w) = (res', w') \<Longrightarrow> reported res' = reported res + mset (map target_key ts)"
proof (induction ts arbitrary: res w)
  case (Cons hr ts)
  obtain res1 w1 where s: "resync_step K ovf dry hr (res, w) = (res1, w1)"
    by (cases "resync_step K ovf dry hr (res, w)")
  then have "reported res1 = reported res + {#target_key hr#}"
    by (auto simp: resync_step_def reported_def target_key_def resynced_route_def split: if_splits prod.splits option.splits)
  with Cons s show ?case by simp
qed simp

text \<open>
  Every target is accounted for exactly once, as resynced or as failed, one failure does not keep the
  others from being tried, and the command succeeds exactly when no target failed.
\<close>

theorem resync_accounts:
  "case ResyncHTTPRoutes K ovf opts w of ((res, err), w') \<Rightarrow>
     (case resolveTargets K opts w of
        Inl e \<Rightarrow> res = empty_result \<and> err = Some e \<and> w' = w
      | Inr ts \<Rightarrow> reported res = mset (map target_key ts) \<and>
          err = (if rs_Errors res = [] then None else Some (RoutesFailed (length (rs_Errors res)))))"
proof (cases "resolveTargets K opts w")
  case (Inr ts)
  obtain res w' where f: "fold (resync_step K ovf (ro_DryRun opts)) ts (empty_result, w) = (res, w')"
    by (cases "fold (resync_step K ovf (ro_DryRun opts)) ts (empty_result, w)")
  have "reported empty_result = {#}" by (simp add: reported_def empty_result_def)
  with resync_fold_reported [OF f] show ?thesis by (simp add: ResyncHTTPRoutes_def Inr f)
qed (simp add: ResyncHTTPRoutes_def)

end
