(* ===== verification/Watch.thy ===== *)
theory Watch
  imports Resync
begin

text \<open>
  \<open>pkg/bnk/watch.go\<close>: the daemon that resyncs an HTTPRoute when the EndpointSlices of a
  backend Service change. One established watch (\<open>watchOnce\<close>) is a step relation: its \<open>select\<close> loop
  takes one event at a time, the events come in any order, and a step is a whole loop body.
  The outer loop is a function of the sequence of its rounds' outcomes.
\<close>

subsection \<open>The service index\<close>

(* src/pkg/bnk/watch.go:26-29 routeKey *)
record routeKey =
  rk_ns :: string
  rk_name :: string

text \<open>The Go map as a function: a missing key reads as the nil slice.\<close>

type_synonym service_index = "string \<Rightarrow> routeKey list"

(* src/pkg/bnk/watch.go:230-237 containsRoute *)
fun containsRoute :: "routeKey list \<Rightarrow> routeKey \<Rightarrow> bool" where
  "containsRoute [] rk = False"
| "containsRoute (r # rs) rk = (if r = rk then True else containsRoute rs rk)"

(* src/pkg/bnk/watch.go:220-223 buildServiceIndex part *)
definition index_add :: "string \<Rightarrow> routeKey \<Rightarrow> service_index \<Rightarrow> service_index" where
  "index_add key rk index = (if containsRoute (index key) rk then index else index(key := index key @ [rk]))"

(* src/pkg/bnk/watch.go:204-219 buildServiceIndex part *)
fun service_key :: "string \<Rightarrow> any \<Rightarrow> string option" where
  "service_key route_ns (AMap b) =
     (let kind = string_in b ''kind''; name = string_in b ''name''; ns = string_in b ''namespace''
      in if (kind \<noteq> [] \<and> kind \<noteq> ''Service'') \<or> name = [] then None
         else Some ((if ns = [] then route_ns else ns) @ ''/'' @ name))"
| "service_key route_ns _ = None"

definition route_key :: "http_route \<Rightarrow> routeKey" where
  "route_key hr = \<lparr>rk_ns = hr_GetNamespace hr, rk_name = hr_GetName hr\<rparr>"

definition route_services :: "http_route \<Rightarrow> string list" where
  "route_services hr =
     List.map_filter (service_key (hr_GetNamespace hr)) (concat (map backend_refs (hr_rules hr)))"

definition index_route :: "http_route \<Rightarrow> service_index \<Rightarrow> service_index" where
  "index_route hr index = fold (\<lambda>key. index_add key (route_key hr)) (route_services hr) index"

(* src/pkg/bnk/watch.go:189-228 buildServiceIndex *)
definition buildServiceIndex ::
  "('w, 'e) kube \<Rightarrow> ResyncOptions \<Rightarrow> 'w \<Rightarrow> 'e resync_error + service_index" where
  "buildServiceIndex K opts w =
     (case resolveTargets K opts w of
        Inl e \<Rightarrow> Inl e
      | Inr targets \<Rightarrow> Inr (fold index_route targets (\<lambda>_. [])))"

(* src/pkg/bnk/watch.go:111-116 watchNamespace *)
definition watchNamespace :: "ResyncOptions \<Rightarrow> string" where
  "watchNamespace opts = (if ro_GatewayClass opts \<noteq> [] then [] else ro_Namespace opts)"

subsection \<open>One watch\<close>

(* src/pkg/bnk/watch.go:32-46 WatchOptions *)
record WatchOptions =
  wo_ResyncOptions :: ResyncOptions
  wo_Debounce :: int
  wo_IndexRefresh :: int

(* src/pkg/bnk/watch.go:60-65 WatchHTTPRoutes part *)
definition watch_defaults :: "WatchOptions \<Rightarrow> WatchOptions" where
  "watch_defaults o' =
     o'\<lparr>wo_Debounce := (if wo_Debounce o' \<le> 0 then 2 * Second else wo_Debounce o'),
        wo_IndexRefresh := (if wo_IndexRefresh o' \<le> 0 then 300 * Second else wo_IndexRefresh o')\<rparr>"

text \<open>
  The state of the loop: the queued routes, the time at which the armed debounce timer
  fires (\<open>None\<close> while \<open>debounceC\<close> is nil), the clock, the time of the refresh timer, the batches resynced so far, the
  world, and how the loop ended.
\<close>

datatype 'e watch_end = RefreshDue | StreamClosed | ContextDone 'e

record ('w, 'e) watch_state =
  ws_pending :: "routeKey set"
  ws_deadline :: "int option"
  ws_clock :: int
  ws_refreshAt :: int
  ws_batches :: "routeKey list list"
  ws_world :: 'w
  ws_end :: "'e watch_end option"

text \<open>
  The events \<open>select\<close> may take at time \<open>t\<close>. A slice event carries the object's namespace and
  its service-name label (empty when absent); \<open>OtherEvent\<close> is an event whose object has
  another type. \<open>DebounceFired\<close> carries the order in which the range loop visits the queue.
\<close>

datatype 'e watch_event =
    CtxDone int 'e
  | RefreshTick int
  | ChannelClosed int
  | OtherEvent int
  | SliceEvent int string string
  | DebounceFired int "routeKey list"

(* src/pkg/bnk/watch.go:154-167 watchOnce part *)
definition on_slice ::
  "service_index \<Rightarrow> int \<Rightarrow> int \<Rightarrow> string \<Rightarrow> string \<Rightarrow> ('w, 'e) watch_state \<Rightarrow> ('w, 'e) watch_state" where
  "on_slice index debounce t ns svc s =
     (if svc = [] then s\<lparr>ws_clock := t\<rparr>
      else let pending = ws_pending s \<union> set (index (ns @ ''/'' @ svc))
        in s\<lparr>ws_clock := t, ws_pending := pending,
             ws_deadline := (if pending \<noteq> {} \<and> ws_deadline s = None then Some (t + debounce) else ws_deadline s)\<rparr>)"

(* src/pkg/bnk/watch.go:170-178 watchOnce part *)
definition fire_batch ::
  "('w, 'e) kube \<Rightarrow> (f64 \<Rightarrow> int) \<Rightarrow> bool \<Rightarrow> routeKey list \<Rightarrow> 'w \<Rightarrow> 'w" where
  "fire_batch K ovf dry ks w =
     fold (\<lambda>rk w. snd (ResyncHTTPRoutes K ovf
        \<lparr>ro_Namespace = rk_ns rk, ro_Name = rk_name rk, ro_AllInNamespace = False, ro_GatewayClass = [],
         ro_DryRun = dry\<rparr> w)) ks w"

(* src/pkg/bnk/watch.go:169-180 watchOnce part *)
definition on_debounce ::
  "('w, 'e) kube \<Rightarrow> (f64 \<Rightarrow> int) \<Rightarrow> bool \<Rightarrow> int \<Rightarrow> routeKey list \<Rightarrow> ('w, 'e) watch_state \<Rightarrow> ('w, 'e) watch_state" where
  "on_debounce K ovf dry t ks s =
     s\<lparr>ws_clock := t, ws_pending := {}, ws_deadline := None, ws_batches := ws_batches s @ [ks],
       ws_world := fire_batch K ovf dry ks (ws_world s)\<rparr>"

text \<open>
  The step relation. \<open>C\<close> bundles what one watch was started with. Between two events the rest
  of the world may do anything, so the world after a step is only constrained through the
  batches.
\<close>

record ('w, 'e) watch_config =
  wc_kube :: "('w, 'e) kube"
  wc_overflow :: "f64 \<Rightarrow> int"
  wc_options :: WatchOptions
  wc_index :: service_index

(* src/pkg/bnk/watch.go:121-183 watchOnce *)
inductive watch_step ::
  "('w, 'e) watch_config \<Rightarrow> ('w, 'e) watch_state \<Rightarrow> 'e watch_event \<Rightarrow> ('w, 'e) watch_state \<Rightarrow> bool" for C where
  Cancel: "ws_end s = None \<Longrightarrow> ws_clock s \<le> t \<Longrightarrow>
     watch_step C s (CtxDone t e) (s\<lparr>ws_clock := t, ws_end := Some (ContextDone e)\<rparr>)"
| Refresh: "ws_end s = None \<Longrightarrow> ws_clock s \<le> t \<Longrightarrow> ws_refreshAt s \<le> t \<Longrightarrow>
     watch_step C s (RefreshTick t) (s\<lparr>ws_clock := t, ws_end := Some RefreshDue\<rparr>)"
| Closed: "ws_end s = None \<Longrightarrow> ws_clock s \<le> t \<Longrightarrow>
     watch_step C s (ChannelClosed t) (s\<lparr>ws_clock := t, ws_end := Some StreamClosed\<rparr>)"
| Other: "ws_end s = None \<Longrightarrow> ws_clock s \<le> t \<Longrightarrow>
     watch_step C s (OtherEvent t) (s\<lparr>ws_clock := t\<rparr>)"
| Slice: "ws_end s = None \<Longrightarrow> ws_clock s \<le> t \<Longrightarrow>
     watch_step C s (SliceEvent t ns svc) (on_slice (wc_index C) (wo_Debounce (wc_options C)) t ns svc s)"
| Fire: "ws_end s = None \<Longrightarrow> ws_clock s \<le> t \<Longrightarrow> ws_deadline s = Some d \<Longrightarrow> d \<le> t \<Longrightarrow>
     distinct ks \<Longrightarrow> set ks = ws_pending s \<Longrightarrow>
     watch_step C s (DebounceFired t ks)
       (on_debounce (wc_kube C) (wc_overflow C) (ro_DryRun (wo_ResyncOptions (wc_options C))) t ks s)"
| Outside: "ws_end s = None \<Longrightarrow> watch_step C s (OtherEvent (ws_clock s)) (s\<lparr>ws_world := w\<rparr>)"

inductive_cases watch_stepE: "watch_step C s ev s'"

inductive watch_run ::
  "('w, 'e) watch_config \<Rightarrow> ('w, 'e) watch_state \<Rightarrow> 'e watch_event list \<Rightarrow> ('w, 'e) watch_state \<Rightarrow> bool" for C where
  Start: "watch_run C s [] s"
| Step: "watch_step C s ev s' \<Longrightarrow> watch_run C s' evs s'' \<Longrightarrow> watch_run C s (ev # evs) s''"

inductive_cases watch_run_ConsE: "watch_run C s (ev # evs) s'"

(* src/pkg/bnk/watch.go:121-136 watchOnce part *)
definition watch_start :: "('w, 'e) watch_config \<Rightarrow> int \<Rightarrow> 'w \<Rightarrow> ('w, 'e) watch_state" where
  "watch_start C t w =
     \<lparr>ws_pending = {}, ws_deadline = None, ws_clock = t,
      ws_refreshAt = t + wo_IndexRefresh (wc_options C), ws_batches = [], ws_world = w, ws_end = None\<rparr>"

subsection \<open>The daemon\<close>

text \<open>
  A round of the outer loop: building the index fails, or the watch ends; then the sleep, unless the
  round was a refresh. \<open>cancelled\<close> is the context's error when it ends during the sleep.
\<close>

datatype 'e watch_round =
    IndexFailed 'e
  | Refreshed
  | Interrupted 'e
  | InterruptedDone 'e

datatype 'e watch_exit = TargetsUnresolved 'e | ContextError 'e

(* src/pkg/bnk/watch.go:59-103 WatchHTTPRoutes *)
fun watch_loop ::
  "bool \<Rightarrow> int \<Rightarrow> ('e watch_round \<times> 'e option) list \<Rightarrow> int list \<times> 'e watch_exit option" where
  "watch_loop first backoff [] = ([], None)"
| "watch_loop first backoff ((r, cancelled) # rs) =
     (case r of
        IndexFailed e \<Rightarrow> if first then ([], Some (TargetsUnresolved e))
          else (case cancelled of
              Some c \<Rightarrow> ([backoff], Some (ContextError c))
            | None \<Rightarrow> apfst ((#) backoff) (watch_loop first (if backoff < 30 * Second then backoff * 2 else backoff) rs))
      | Refreshed \<Rightarrow> watch_loop False Second rs
      | InterruptedDone c \<Rightarrow> ([], Some (ContextError c))
      | Interrupted e \<Rightarrow> (case cancelled of
            Some c \<Rightarrow> ([backoff], Some (ContextError c))
          | None \<Rightarrow> apfst ((#) backoff) (watch_loop False (if backoff < 30 * Second then backoff * 2 else backoff) rs)))"

end
