(* ===== verification/WatchClaims.thy ===== *)
theory WatchClaims
  imports Watch ResyncClaims
begin

text \<open>
  What the watch daemon guarantees: the index is exact, the debounce timer is armed exactly
  while routes are queued, no event of a guarded Service is lost while a watch runs, its batch is due
  within one debounce window of the event however many events follow, and the back-off is bounded. One
  property records what the refresh timer does to a queue.
\<close>

subsection \<open>The index\<close>

lemma containsRoute_set: "containsRoute rs rk \<longleftrightarrow> rk \<in> set rs"
  by (induction rs) auto

interpretation service_index: insert_once "\<lambda>_. True" "\<lambda>index. index key" "\<lambda>rk. index_add key rk" for key
  by unfold_locales (simp_all add: index_add_def containsRoute_set)

lemma index_add_at: "set (index_add key' rk index key) = set (index key) \<union> (if key = key' then {rk} else {})"
  by (auto simp: index_add_def containsRoute_set)

lemma index_add_distinct: "distinct (index key) \<Longrightarrow> distinct (index_add key' rk index key)"
  by (auto simp: index_add_def containsRoute_set)

lemma index_route_at:
  "set (index_route hr index key) = set (index key) \<union> (if key \<in> set (route_services hr) then {route_key hr} else {})"
proof -
  have "set (fold (\<lambda>key. index_add key rk) ks index key) = set (index key) \<union> (if key \<in> set ks then {rk} else {})" for rk ks
    by (induction ks arbitrary: index) (auto simp: index_add_at split: if_splits)
  then show ?thesis by (simp add: index_route_def)
qed

lemma index_route_distinct: "distinct (index key) \<Longrightarrow> distinct (index_route hr index key)"
proof -
  have "distinct (fold (\<lambda>key. index_add key rk) ks index key)" if "distinct (index key)" for rk ks
    using that by (induction ks arbitrary: index) (simp_all add: index_add_distinct)
  then show "distinct (index key) \<Longrightarrow> distinct (index_route hr index key)" by (simp add: index_route_def)
qed

lemma index_routes_at:
  "rk \<in> set (fold index_route hrs index key) \<longleftrightarrow>
     rk \<in> set (index key) \<or> (\<exists>hr\<in>set hrs. rk = route_key hr \<and> key \<in> set (route_services hr))"
  by (induction hrs arbitrary: index) (auto simp: index_route_at split: if_splits)

lemma index_routes_distinct: "distinct (index key) \<Longrightarrow> distinct (fold index_route hrs index key)"
  by (induction hrs arbitrary: index) (simp_all add: index_route_distinct)

text \<open>
  The service index is exact: a key lists, once each, just the targeted HTTPRoutes with a
  backendRef to that Service.
\<close>

theorem service_index_exact:
  "case buildServiceIndex K opts w of
     Inl e \<Rightarrow> resolveTargets K opts w = Inl e
   | Inr index \<Rightarrow> \<exists>ts. resolveTargets K opts w = Inr ts \<and>
       (\<forall>key. distinct (index key) \<and>
          set (index key) = {route_key hr | hr. hr \<in> set ts \<and> key \<in> set (route_services hr)})"
  by (auto simp: buildServiceIndex_def index_routes_at index_routes_distinct split: sum.split)

subsection \<open>Runs of one watch\<close>

definition armed_ok :: "int \<Rightarrow> ('w, 'e) watch_state \<Rightarrow> bool" where
  "armed_ok debounce s \<longleftrightarrow>
     (case ws_deadline s of
        None \<Rightarrow> ws_pending s = {}
      | Some d \<Rightarrow> ws_pending s \<noteq> {} \<and> d \<le> ws_clock s + debounce)"

lemma armed_step:
  "watch_step C s ev s' \<Longrightarrow> armed_ok (wo_Debounce (wc_options C)) s \<Longrightarrow> armed_ok (wo_Debounce (wc_options C)) s'"
  by (induction rule: watch_step.induct)
    (auto simp: armed_ok_def on_slice_def on_debounce_def Let_def split: option.splits)

lemma armed_run:
  "watch_run C s evs s' \<Longrightarrow> armed_ok (wo_Debounce (wc_options C)) s \<Longrightarrow> armed_ok (wo_Debounce (wc_options C)) s'"
  by (induction rule: watch_run.induct) (auto dest: armed_step)

lemma armed_start: "armed_ok d (watch_start C t w)"
  by (simp add: armed_ok_def watch_start_def)

lemma run_append:
  "watch_run C s (xs @ ys) s'' \<longleftrightarrow> (\<exists>s'. watch_run C s xs s' \<and> watch_run C s' ys s'')"
proof (induction xs arbitrary: s)
  case Nil
  have "watch_run C s [] s' \<longleftrightarrow> s' = s" for s'
    by (auto elim: watch_run.cases intro: watch_run.Start)
  then show ?case by simp
next
  case (Cons x xs)
  have "watch_run C s (x # zs) s'' \<longleftrightarrow> (\<exists>u. watch_step C s x u \<and> watch_run C u zs s'')" for zs s''
    by (auto elim: watch_run_ConsE intro: watch_run.Step)
  with Cons show ?case by simp metis
qed

text \<open>A queued route stays queued until a batch takes it.\<close>

lemma queued_step:
  "watch_step C s ev s' \<Longrightarrow> rk \<in> ws_pending s \<Longrightarrow>
   rk \<in> ws_pending s' \<or> (\<exists>t ks. ev = DebounceFired t ks \<and> rk \<in> set ks)"
  by (induction rule: watch_step.induct) (auto simp: on_slice_def on_debounce_def Let_def)

lemma queued_run:
  "watch_run C s evs s' \<Longrightarrow> rk \<in> ws_pending s \<Longrightarrow>
   rk \<in> ws_pending s' \<or> (\<exists>t ks. DebounceFired t ks \<in> set evs \<and> rk \<in> set ks)"
proof (induction rule: watch_run.induct)
  case (Step s ev s' evs s'')
  from queued_step [OF Step.hyps(1) Step.prems] show ?case
  proof
    assume "rk \<in> ws_pending s'"
    with Step.IH show ?thesis by auto
  qed auto
qed simp

text \<open>
  In every reachable state the debounce timer is armed exactly while routes are queued,
  and it fires at most one debounce window from now: later events do not push it out.
\<close>

theorem debounce_armed:
  assumes "watch_run C (watch_start C t w) evs s"
  shows "(ws_deadline s = None \<longleftrightarrow> ws_pending s = {}) \<and>
    (case ws_deadline s of None \<Rightarrow> True | Some d \<Rightarrow> d \<le> ws_clock s + wo_Debounce (wc_options C))"
  using armed_run [OF assms armed_start] by (auto simp: armed_ok_def split: option.splits)

text \<open>
  No change of a guarded Service is lost while the watch runs: after a slice event, each
  route of its Service is still queued or has been resynced by a later batch.
\<close>

theorem slice_event_served:
  assumes "watch_run C s (evs @ SliceEvent t ns svc # evs') s'"
    and "svc \<noteq> []" and "rk \<in> set (wc_index C (ns @ ''/'' @ svc))"
  shows "rk \<in> ws_pending s' \<or> (\<exists>t' ks. DebounceFired t' ks \<in> set evs' \<and> rk \<in> set ks)"
proof -
  obtain s1 s2 where "watch_step C s1 (SliceEvent t ns svc) s2" and run: "watch_run C s2 evs' s'"
    using assms(1) by (auto simp: run_append elim: watch_run_ConsE)
  then have "s2 = on_slice (wc_index C) (wo_Debounce (wc_options C)) t ns svc s1"
    by (auto elim: watch_stepE)
  then have "rk \<in> ws_pending s2" using assms(2,3) by (simp add: on_slice_def Let_def)
  with run show ?thesis by (rule queued_run)
qed

text \<open>A queued route with a deadline keeps both until a batch takes it.\<close>

lemma due_step:
  "watch_step C s ev s' \<Longrightarrow> rk \<in> ws_pending s \<Longrightarrow> ws_deadline s = Some d \<Longrightarrow>
   rk \<in> ws_pending s' \<and> ws_deadline s' = Some d \<or> (\<exists>t ks. ev = DebounceFired t ks \<and> rk \<in> set ks)"
  by (induction rule: watch_step.induct) (auto simp: on_slice_def on_debounce_def Let_def)

lemma due_run:
  "watch_run C s evs s' \<Longrightarrow> rk \<in> ws_pending s \<Longrightarrow> ws_deadline s = Some d \<Longrightarrow>
   rk \<in> ws_pending s' \<and> ws_deadline s' = Some d \<or> (\<exists>t ks. DebounceFired t ks \<in> set evs \<and> rk \<in> set ks)"
proof (induction rule: watch_run.induct)
  case (Step s ev s' evs s'')
  from due_step [OF Step.hyps(1) Step.prems] Step.IH show ?case by auto
qed simp

lemma finite_queue_step: "watch_step C s ev s' \<Longrightarrow> finite (ws_pending s) \<Longrightarrow> finite (ws_pending s')"
  by (induction rule: watch_step.induct) (auto simp: on_slice_def on_debounce_def Let_def)

lemma finite_queue: "watch_run C s evs s' \<Longrightarrow> finite (ws_pending s) \<Longrightarrow> finite (ws_pending s')"
  by (induction rule: watch_run.induct) (auto dest: finite_queue_step)

text \<open>What taking the batch does: all queued routes are resynced, each with its own selector.\<close>

lemma batch_enabled:
  assumes "ws_end s = None" and "ws_deadline s = Some d" and "finite (ws_pending s)"
  shows "\<exists>ks s'. watch_step C s (DebounceFired (max (ws_clock s) d) ks) s' \<and> distinct ks \<and> set ks = ws_pending s \<and>
    ws_pending s' = {} \<and> ws_deadline s' = None \<and> ws_batches s' = ws_batches s @ [ks] \<and>
    ws_world s' = fold (\<lambda>rk w. snd (ResyncHTTPRoutes (wc_kube C) (wc_overflow C)
      \<lparr>ro_Namespace = rk_ns rk, ro_Name = rk_name rk, ro_AllInNamespace = False, ro_GatewayClass = [],
       ro_DryRun = ro_DryRun (wo_ResyncOptions (wc_options C))\<rparr> w)) ks (ws_world s)"
proof -
  obtain ks where ks: "set ks = ws_pending s" "distinct ks"
    using finite_distinct_list [OF assms(3)] by blast
  have "watch_step C s (DebounceFired (max (ws_clock s) d) ks)
      (on_debounce (wc_kube C) (wc_overflow C) (ro_DryRun (wo_ResyncOptions (wc_options C))) (max (ws_clock s) d) ks s)"
    using assms(1,2) ks by (intro watch_step.Fire) auto
  with ks show ?thesis
    by (intro exI [of _ ks] exI) (auto simp: on_debounce_def fire_batch_def)
qed

lemma slice_deadline:
  assumes "armed_ok debounce s" and "ws_clock s \<le> t" and "svc \<noteq> []" and "rk \<in> set (index (ns @ ''/'' @ svc))"
  shows "\<exists>d \<le> t + debounce. ws_deadline (on_slice index debounce t ns svc s) = Some d"
  using assms by (cases "ws_deadline s") (auto simp: on_slice_def Let_def armed_ok_def)

text \<open>
  C34 The batch window is fixed: in every run of a watch, however many events follow an EndpointSlice event of a
  guarded Service at time \<open>t\<close>, each route of the Service has been resynced by a later batch, or it is queued
  and the batch is due no later than \<open>t\<close> plus the debounce interval. While the watch goes on, that batch can
  be taken as soon as it is due: it resyncs every queued route once and leaves nothing queued. (A refresh
  that comes first ends the watch, and its queue with it.)
\<close>

theorem batch_due_in_window:
  assumes "watch_run C (watch_start C t0 w) (evs @ SliceEvent t ns svc # evs') s"
    and "svc \<noteq> []" and "rk \<in> set (wc_index C (ns @ ''/'' @ svc))"
  shows "(\<exists>t' ks. DebounceFired t' ks \<in> set evs' \<and> rk \<in> set ks) \<or>
    rk \<in> ws_pending s \<and> (\<exists>d \<le> t + wo_Debounce (wc_options C). ws_deadline s = Some d \<and> (ws_end s = None \<longrightarrow>
      (\<exists>ks s'. watch_step C s (DebounceFired (max (ws_clock s) d) ks) s' \<and> distinct ks \<and> set ks = ws_pending s \<and>
         ws_pending s' = {} \<and> ws_deadline s' = None \<and> ws_batches s' = ws_batches s @ [ks] \<and>
         ws_world s' = fold (\<lambda>rk w. snd (ResyncHTTPRoutes (wc_kube C) (wc_overflow C)
           \<lparr>ro_Namespace = rk_ns rk, ro_Name = rk_name rk, ro_AllInNamespace = False, ro_GatewayClass = [],
            ro_DryRun = ro_DryRun (wo_ResyncOptions (wc_options C))\<rparr> w)) ks (ws_world s))))"
proof -
  obtain s1 s2 where before: "watch_run C (watch_start C t0 w) evs s1"
    and step: "watch_step C s1 (SliceEvent t ns svc) s2" and run: "watch_run C s2 evs' s"
    using assms(1) by (auto simp: run_append elim: watch_run_ConsE)
  from step have s2: "s2 = on_slice (wc_index C) (wo_Debounce (wc_options C)) t ns svc s1" "ws_clock s1 \<le> t"
    by (auto elim: watch_stepE)
  with assms(2,3) have queued: "rk \<in> ws_pending s2" by (simp add: on_slice_def Let_def)
  from slice_deadline [where index = "wc_index C", OF armed_run [OF before armed_start] s2(2) assms(2,3)]
  obtain d where d: "ws_deadline s2 = Some d" "d \<le> t + wo_Debounce (wc_options C)" unfolding s2(1) by blast
  have finite: "finite (ws_pending s)" by (rule finite_queue [OF assms(1)]) (simp add: watch_start_def)
  from due_run [OF run queued d(1)] show ?thesis
  proof
    assume due: "rk \<in> ws_pending s \<and> ws_deadline s = Some d"
    note batch = batch_enabled [OF _ conjunct2 [OF due] finite, of C]
    show ?thesis
      by (rule disjI2, rule conjI [OF conjunct1 [OF due]], rule exI [of _ d],
        rule conjI [OF d(2) conjI [OF conjunct2 [OF due] impI [OF batch]]])
  qed (rule disjI1)
qed

text \<open>
  The refresh timer drops a queue: an event that arrives less than a debounce window before the refresh
  queues its routes, the watch then ends normally for the refresh, and no batch has resynced
  them; the next watch starts with an empty queue.
\<close>

theorem refresh_drops_queue:
  "\<exists>s. watch_run (C\<lparr>wc_index := (wc_index C)(''shop/web'' := rk # rks)\<rparr>) (watch_start C t w)
     [SliceEvent t ''shop'' ''web'', RefreshTick (max t (t + wo_IndexRefresh (wc_options C)))] s \<and>
     ws_end s = Some RefreshDue \<and> ws_pending s = set (rk # rks) \<and> ws_batches s = [] \<and>
     ws_pending (watch_start C (ws_clock s) (ws_world s) :: ('w, 'e) watch_state) = {}"
proof -
  let ?C = "C\<lparr>wc_index := (wc_index C)(''shop/web'' := rk # rks)\<rparr>"
  let ?t2 = "max t (t + wo_IndexRefresh (wc_options C))"
  let ?s0 = "watch_start C t w"
  let ?s1 = "on_slice (wc_index ?C) (wo_Debounce (wc_options ?C)) t ''shop'' ''web'' ?s0"
  let ?s2 = "?s1\<lparr>ws_clock := ?t2, ws_end := Some RefreshDue\<rparr>"
  have step1: "watch_step ?C ?s0 (SliceEvent t ''shop'' ''web'') ?s1"
    by (rule watch_step.Slice) (simp_all add: watch_start_def)
  have step2: "watch_step ?C ?s1 (RefreshTick ?t2) ?s2"
    by (rule watch_step.Refresh) (simp_all add: watch_start_def on_slice_def Let_def)
  have "watch_run ?C ?s0 [SliceEvent t ''shop'' ''web'', RefreshTick ?t2] ?s2"
    by (rule watch_run.Step [OF step1 watch_run.Step [OF step2 watch_run.Start]])
  moreover have "ws_end ?s2 = Some RefreshDue" "ws_pending ?s2 = set (rk # rks)" "ws_batches ?s2 = []"
    by (simp_all add: on_slice_def watch_start_def Let_def)
  ultimately show ?thesis by (intro exI [of _ ?s2]) (simp add: watch_start_def)
qed

subsection \<open>A sample run\<close>

definition sample_key :: routeKey where
  "sample_key = \<lparr>rk_ns = ''shop'', rk_name = ''web''\<rparr>"

definition sample_config :: "(unit, unit) watch_config" where
  "sample_config =
     \<lparr>wc_kube = \<lparr>k_get_route = (\<lambda>_ _ _. Inr sample_route), k_list_routes = (\<lambda>_ _. Inr [sample_route]),
        k_list_gateways = (\<lambda>_. Inr []), k_patch_route = (\<lambda>_ _ _ w. (Inr ''1'', w)), k_wait = (\<lambda>w. (None, w))\<rparr>,
      wc_overflow = (\<lambda>_. 0),
      wc_options = \<lparr>wo_ResyncOptions = \<lparr>ro_Namespace = ''shop'', ro_Name = [], ro_AllInNamespace = True,
          ro_GatewayClass = [], ro_DryRun = False\<rparr>, wo_Debounce = 2, wo_IndexRefresh = 300\<rparr>,
      wc_index = (\<lambda>key. if key = ''shop/a'' then [sample_key] else [])\<rparr>"

definition sample_queued :: "(unit, unit) watch_state" where
  "sample_queued = on_slice (wc_index sample_config) 2 1 ''shop'' ''a'' (watch_start sample_config 0 ())"

lemma sample_queued_fields:
  "ws_pending sample_queued = {sample_key}" "ws_deadline sample_queued = Some 3" "ws_end sample_queued = None"
  "ws_clock sample_queued = 1"
  by (simp_all add: sample_queued_def on_slice_def sample_config_def watch_start_def Let_def)

lemma sample_run: "watch_run sample_config (watch_start sample_config 0 ()) ([] @ [SliceEvent 1 ''shop'' ''a'']) sample_queued"
proof -
  have "watch_step sample_config (watch_start sample_config 0 ()) (SliceEvent 1 ''shop'' ''a'')
      (on_slice (wc_index sample_config) (wo_Debounce (wc_options sample_config)) 1 ''shop'' ''a'' (watch_start sample_config 0 ()))"
    by (rule watch_step.Slice) (simp_all add: watch_start_def)
  then show ?thesis
    by (auto simp: sample_queued_def sample_config_def intro: watch_run.intros)
qed

lemma debounce_armed_witness: "ws_deadline sample_queued \<noteq> None \<and> ws_pending sample_queued \<noteq> {}"
  using debounce_armed [OF sample_run] by (simp add: sample_queued_fields)

lemma slice_event_served_witness: "sample_key \<in> ws_pending sample_queued"
  using slice_event_served [of sample_config _ "[]" 1 "''shop''" "''a''" "[]" sample_queued sample_key] sample_run
  by (simp add: sample_config_def)

lemma batch_due_in_window_witness:
  "ws_deadline sample_queued = Some 3 \<and> 3 \<le> 1 + wo_Debounce (wc_options sample_config) \<and>
   (\<exists>ks s'. watch_step sample_config sample_queued (DebounceFired 3 ks) s' \<and> set ks = {sample_key} \<and> ws_pending s' = {})"
proof -
  have "sample_key \<in> set (wc_index sample_config (''shop'' @ ''/'' @ ''a''))" "''a'' \<noteq> []"
    by (simp_all add: sample_config_def)
  from batch_due_in_window [OF sample_run this(2,1)] show ?thesis
    by (auto simp: sample_queued_fields)
qed

subsection \<open>The outer loop\<close>

lemma loop_backoff:
  "b \<in> {Second, 2 * Second, 4 * Second, 8 * Second, 16 * Second, 32 * Second} \<Longrightarrow>
   list_all (\<lambda>d. d \<in> {Second, 2 * Second, 4 * Second, 8 * Second, 16 * Second, 32 * Second}) (fst (watch_loop first b rs))"
proof (induction first b rs rule: watch_loop.induct)
  case (2 first b r cancelled rs)
  have nxt: "(if b < 30 * Second then b * 2 else b) \<in> {Second, 2 * Second, 4 * Second, 8 * Second, 16 * Second, 32 * Second}"
    using 2(4) by (auto simp: Second_def)
  show ?case
    using 2 nxt by (cases r; cases cancelled) (simp_all add: apfst_def map_prod_def split_def)
qed simp

text \<open>
  The daemon's retries are paced: each sleep of the outer loop is between one and 32
  seconds, and a power of two of seconds, whatever fails.
\<close>

theorem backoff_bounded:
  "list_all (\<lambda>d. d \<in> {Second, 2 * Second, 4 * Second, 8 * Second, 16 * Second, 32 * Second}) (fst (watch_loop True Second rounds))"
  by (rule loop_backoff) simp

end
