(* ===== verification/K8sWait.thy ===== *)
theory K8sWait
  imports GoAny
begin

text \<open>
  \<open>internal/k8s/wait.go\<close>: what it means for a Kubernetes object to be ready, and the waits.
  \<open>wait.PollUntilContextTimeout\<close> is apimachinery's: a parameter \<open>poll\<close> that is given the
  interval, the timeout and the condition, which may end the wait with an error. The API
  server is the world \<open>'w\<close>; reading an object yields \<open>None\<close> when the call fails.
\<close>

subsection \<open>Polling\<close>

datatype 'e polled = PollAgain | PollDone | PollFail 'e

type_synonym ('w, 'e) poller = "int \<Rightarrow> int \<Rightarrow> ('w \<Rightarrow> 'e polled) \<Rightarrow> 'w \<Rightarrow> 'e option \<times> 'w"

definition poll_when :: "bool \<Rightarrow> 'e polled" where
  "poll_when b = (if b then PollDone else PollAgain)"

text \<open>\<open>if err != nil { return false, nil }\<close>: a failed read keeps polling.\<close>

definition poll_read :: "('w \<Rightarrow> 'o option) \<Rightarrow> ('o \<Rightarrow> 'e polled) \<Rightarrow> 'w \<Rightarrow> 'e polled" where
  "poll_read get f w = (case get w of None \<Rightarrow> PollAgain | Some x \<Rightarrow> f x)"

subsection \<open>Deployments and DaemonSets\<close>

record deployment_status =
  ds_Replicas :: int
  ds_AvailableReplicas :: int

definition deployment_ready :: "deployment_status \<Rightarrow> bool" where
  "deployment_ready d \<longleftrightarrow> ds_Replicas d > 0 \<and> ds_AvailableReplicas d = ds_Replicas d"

(* src/internal/k8s/wait.go:23-40 WaitForDeploymentReady *)
definition WaitForDeploymentReady ::
  "('w, 'e) poller \<Rightarrow> ('w \<Rightarrow> deployment_status option) \<Rightarrow> int \<Rightarrow> 'w \<Rightarrow> 'e option \<times> 'w" where
  "WaitForDeploymentReady poll get timeout =
     poll (5 * Second) timeout (poll_read get (\<lambda>d. poll_when (deployment_ready d)))"

(* src/internal/k8s/wait.go:266-272 DeploymentReplicaStatus *)
definition DeploymentReplicaStatus :: "('w \<Rightarrow> 'e + deployment_status) \<Rightarrow> 'w \<Rightarrow> 'e + int \<times> int" where
  "DeploymentReplicaStatus get w =
     (case get w of Inl e \<Rightarrow> Inl e | Inr d \<Rightarrow> Inr (ds_AvailableReplicas d, ds_Replicas d))"

record daemonset_status =
  dm_Generation :: int
  dm_ObservedGeneration :: int
  dm_DesiredNumberScheduled :: int
  dm_UpdatedNumberScheduled :: int
  dm_NumberReady :: int
  dm_NumberAvailable :: int

definition daemonset_ready :: "daemonset_status \<Rightarrow> bool" where
  "daemonset_ready d \<longleftrightarrow> dm_DesiredNumberScheduled d > 0 \<and> dm_NumberReady d = dm_DesiredNumberScheduled d"

definition daemonset_rolled :: "daemonset_status \<Rightarrow> bool" where
  "daemonset_rolled d \<longleftrightarrow>
     \<not> (dm_ObservedGeneration d < dm_Generation d \<or> dm_DesiredNumberScheduled d = 0) \<and>
     dm_UpdatedNumberScheduled d = dm_DesiredNumberScheduled d \<and>
     dm_NumberReady d = dm_DesiredNumberScheduled d \<and>
     dm_NumberAvailable d = dm_DesiredNumberScheduled d"

(* src/internal/k8s/wait.go:115-131 WaitForDaemonSetReady *)
definition WaitForDaemonSetReady ::
  "('w, 'e) poller \<Rightarrow> ('w \<Rightarrow> daemonset_status option) \<Rightarrow> int \<Rightarrow> 'w \<Rightarrow> 'e option \<times> 'w" where
  "WaitForDaemonSetReady poll get timeout =
     poll (5 * Second) timeout (poll_read get (\<lambda>d. poll_when (daemonset_ready d)))"

(* src/internal/k8s/wait.go:278-295 WaitForDaemonSetRollout *)
definition WaitForDaemonSetRollout ::
  "('w, 'e) poller \<Rightarrow> ('w \<Rightarrow> daemonset_status option) \<Rightarrow> int \<Rightarrow> 'w \<Rightarrow> 'e option \<times> 'w" where
  "WaitForDaemonSetRollout poll get timeout =
     poll (5 * Second) timeout (poll_read get (\<lambda>d. poll_when (daemonset_rolled d)))"

text \<open>A finished rollout of a scheduled DaemonSet is ready in the weaker sense too.\<close>

lemma rolled_ready: "daemonset_rolled d \<Longrightarrow> 0 \<le> dm_DesiredNumberScheduled d \<Longrightarrow> daemonset_ready d"
  by (auto simp: daemonset_rolled_def daemonset_ready_def)

subsection \<open>Other objects\<close>

text \<open>\<open>obj[k].(map[string]interface{})\<close> and \<open>obj[k].([]interface{})\<close> with their \<open>ok\<close> results.\<close>

fun as_map :: "any option \<Rightarrow> (string \<times> any) list option" where
  "as_map (Some (AMap m)) = Some m"
| "as_map _ = None"

fun as_list :: "any option \<Rightarrow> any list option" where
  "as_list (Some (AList l)) = Some l"
| "as_list _ = None"

fun ready_condition :: "any \<Rightarrow> bool" where
  "ready_condition (AMap c) \<longleftrightarrow> string_in c ''type'' = ''Ready'' \<and> string_in c ''status'' = ''True''"
| "ready_condition _ \<longleftrightarrow> False"

(* src/internal/k8s/wait.go:70-92 IsCertificateReady *)
definition IsCertificateReady :: "(string \<times> any) list \<Rightarrow> bool" where
  "IsCertificateReady obj =
     (case as_map (map_of obj ''status'') of
        None \<Rightarrow> False
      | Some status \<Rightarrow>
          (case as_list (map_of status ''conditions'') of
             None \<Rightarrow> False
           | Some conditions \<Rightarrow> list_ex ready_condition conditions))"

(* src/internal/k8s/wait.go:55-66 WaitForCertificateReady *)
definition WaitForCertificateReady ::
  "('w, 'e) poller \<Rightarrow> ('w \<Rightarrow> (string \<times> any) list option) \<Rightarrow> int \<Rightarrow> 'w \<Rightarrow> 'e option \<times> 'w" where
  "WaitForCertificateReady poll get timeout =
     poll (5 * Second) timeout (poll_read get (\<lambda>obj. poll_when (IsCertificateReady obj)))"

text \<open>Any error of the read counts as gone.\<close>

(* src/internal/k8s/wait.go:96-108 WaitForNamespaceGone *)
definition WaitForNamespaceGone ::
  "('w, 'e) poller \<Rightarrow> ('w \<Rightarrow> 'o option) \<Rightarrow> int \<Rightarrow> 'w \<Rightarrow> 'e option \<times> 'w" where
  "WaitForNamespaceGone poll get timeout = poll (5 * Second) timeout (\<lambda>w. poll_when (get w = None))"

(* src/internal/k8s/wait.go:166-182 WaitForCRDExists *)
definition WaitForCRDExists ::
  "('w, 'e) poller \<Rightarrow> ('w \<Rightarrow> 'o option) \<Rightarrow> int \<Rightarrow> 'w \<Rightarrow> 'e option \<times> 'w" where
  "WaitForCRDExists poll get timeout = poll (5 * Second) timeout (poll_read get (\<lambda>_. PollDone))"

text \<open>
  Quantities are \<open>resource.Quantity\<close> values, third-party: \<open>parse\<close> and the order \<open>le\<close> are
  parameters. The node is its \<open>hugepages-2Mi\<close> capacity, if it has one.
\<close>

datatype ('p, 'e) hugepages_error = BadQuantity 'p | HugepagesWait 'e

(* src/internal/k8s/wait.go:141-161 WaitForNodeHugepagesCapacity *)
definition WaitForNodeHugepagesCapacity ::
  "('w, 'e) poller \<Rightarrow> (string \<Rightarrow> 'p + 'q) \<Rightarrow> ('q \<Rightarrow> 'q \<Rightarrow> bool) \<Rightarrow> ('w \<Rightarrow> 'q option option) \<Rightarrow> string \<Rightarrow> int \<Rightarrow>
   'w \<Rightarrow> ('p, 'e) hugepages_error option \<times> 'w" where
  "WaitForNodeHugepagesCapacity poll parse le get want timeout w =
     (case parse want of
        Inl e \<Rightarrow> (Some (BadQuantity e), w)
      | Inr wantQty \<Rightarrow>
          (case poll (10 * Second) timeout
             (poll_read get (\<lambda>cap. case cap of None \<Rightarrow> PollAgain | Some got \<Rightarrow> poll_when (le wantQty got))) w of
             (r, w') \<Rightarrow> (map_option HugepagesWait r, w')))"

datatype pod_phase = PodPending | PodRunning | PodSucceeded | PodFailed | PodUnknown

datatype 'e pod_wait_error = EnteredFailed string string | PodWait 'e

definition pod_condition :: "string \<Rightarrow> string \<Rightarrow> pod_phase \<Rightarrow> 'e pod_wait_error polled" where
  "pod_condition ns name ph =
     (case ph of PodSucceeded \<Rightarrow> PollDone | PodFailed \<Rightarrow> PollFail (EnteredFailed ns name) | _ \<Rightarrow> PollAgain)"

(* src/internal/k8s/wait.go:222-240 WaitForPodSucceeded *)
definition WaitForPodSucceeded ::
  "('w, 'e pod_wait_error) poller \<Rightarrow> ('w \<Rightarrow> pod_phase option) \<Rightarrow> string \<Rightarrow> string \<Rightarrow> int \<Rightarrow> 'w \<Rightarrow>
   'e pod_wait_error option \<times> 'w" where
  "WaitForPodSucceeded poll get ns name timeout =
     poll (5 * Second) timeout (poll_read get (pod_condition ns name))"

subsection \<open>Paths\<close>

text \<open>The loop of \<open>splitDotPath\<close>: \<open>cur\<close> is the segment \<open>path[start:i]\<close> read so far.\<close>

(* src/internal/k8s/wait.go:248-261 splitDotPath part *)
fun split_dots :: "string \<Rightarrow> string \<Rightarrow> string list" where
  "split_dots cur [] = (if cur \<noteq> [] then [cur] else [])"
| "split_dots cur (c # cs) =
     (if c = CHR ''.'' then (if cur \<noteq> [] then cur # split_dots [] cs else split_dots [] cs)
      else split_dots (cur @ [c]) cs)"

(* src/internal/k8s/wait.go:244-262 splitDotPath *)
definition splitDotPath :: "string \<Rightarrow> string list" where
  "splitDotPath path = (if path = [] then [] else split_dots [] path)"

lemma split_dots_append: "split_dots cur s = filter (\<lambda>p. p \<noteq> []) (split_on CHR ''.'' (cur @ s))"
  if "CHR ''.'' \<notin> set cur"
  using that
proof (induction cur s rule: split_dots.induct)
  case (1 cur)
  then show ?case by (simp add: split_on_notin)
next
  case (2 cur c cs)
  then show ?case by (cases "c = CHR ''.''") (simp_all add: split_on_append)
qed

text \<open>The segments are the non-empty pieces between dots.\<close>

lemma splitDotPath_split: "splitDotPath path = filter (\<lambda>p. p \<noteq> []) (split_on CHR ''.'' path)"
  using split_dots_append [of "[]" path] by (simp add: splitDotPath_def)

text \<open>
  \<open>nested\<close> is \<open>unstructured.NestedString\<close> of the object at the path. The error also prints the
  last value seen, which is left out.
\<close>

record 'e unstructured_wait_error =
  uw_jsonPath :: string
  uw_expected :: string
  uw_cause :: 'e

(* src/internal/k8s/wait.go:193-215 WaitForUnstructuredCondition *)
definition WaitForUnstructuredCondition ::
  "('w, 'e) poller \<Rightarrow> ('w \<Rightarrow> 'o option) \<Rightarrow> ('o \<Rightarrow> string list \<Rightarrow> string) \<Rightarrow> string \<Rightarrow> string \<Rightarrow> int \<Rightarrow> 'w \<Rightarrow>
   'e unstructured_wait_error option \<times> 'w" where
  "WaitForUnstructuredCondition poll get nested jsonPath expectedValue timeout w =
     (let fields = splitDotPath jsonPath
      in case poll (5 * Second) timeout (poll_read get (\<lambda>obj. poll_when (nested obj fields = expectedValue))) w of
           (r, w') \<Rightarrow> (map_option (\<lambda>e. \<lparr>uw_jsonPath = jsonPath, uw_expected = expectedValue, uw_cause = e\<rparr>) r, w'))"

end
