(* ===== verification/Multus.thy ===== *)
theory Multus
  imports K8sWait
begin

text \<open>
  \<open>internal/k8s/multusheal.go\<close>: the heal that makes the Multus DaemonSet watch its
  service-account token. The API server is a parameter on a world \<open>'w\<close>. A patch of the
  DaemonSet is the new argument list of its entrypoint container, which a strategic merge
  patch sets; everything else of the object stays.
\<close>

subsection \<open>Data\<close>

(* src/internal/k8s/multusheal.go:36-36 MultusContainer *)
definition MultusContainer :: string where
  "MultusContainer = ''kube-multus''"

(* src/internal/k8s/multusheal.go:41-41 MultusWatchFlag *)
definition MultusWatchFlag :: string where
  "MultusWatchFlag = ''--cleanup-config-on-exit=true''"

(* src/internal/k8s/multusheal.go:43-43 multusSkipWatchFlag *)
definition multusSkipWatchFlag :: string where
  "multusSkipWatchFlag = ''--skip-config-watch''"

(* src/internal/k8s/multusheal.go:46-46 multusRolloutWait *)
definition multusRolloutWait :: int where
  "multusRolloutWait = 180 * Second"

record container =
  ct_Name :: string
  ct_Image :: string
  ct_Command :: "string list"
  ct_Args :: "string list"

type_synonym daemonset = "container list"

(* src/internal/k8s/multusheal.go:50-64 MultusHealResult *)
record MultusHealResult =
  mh_Installed :: bool
  mh_WatchEnabled :: bool
  mh_Unauthorized :: bool
  mh_Patched :: bool
  mh_Restarted :: bool

(* src/internal/k8s/multusheal.go:67-73 MultusState *)
record MultusState =
  ms_Installed :: bool
  ms_WatchEnabled :: bool
  ms_Unauthorized :: string

text \<open>Times are nanoseconds; a zero time is \<open>None\<close>.\<close>

record k8s_event =
  ev_Reason :: string
  ev_Message :: string
  ev_LastTimestamp :: "int option"
  ev_EventTime :: "int option"
  ev_Namespace :: string
  ev_Name :: string

subsection \<open>Reading the DaemonSet\<close>

record watch_flags =
  wf_cleanup :: bool
  wf_skip :: bool
  wf_auto :: bool

(* src/internal/k8s/multusheal.go:91-103 MultusWatchEnabled part *)
definition read_flag :: "string \<Rightarrow> watch_flags \<Rightarrow> watch_flags" where
  "read_flag a f =
     (if a = ''--cleanup-config-on-exit'' \<or> a = MultusWatchFlag then f\<lparr>wf_cleanup := True\<rparr>
      else if a = ''--cleanup-config-on-exit=false'' then f\<lparr>wf_cleanup := False\<rparr>
      else if a = multusSkipWatchFlag \<or> a = multusSkipWatchFlag @ ''=true'' then f\<lparr>wf_skip := True\<rparr>
      else if has_prefix a ''--multus-conf-file='' \<and> a \<noteq> ''--multus-conf-file=auto'' then f\<lparr>wf_auto := False\<rparr>
      else f)"

definition no_flags :: watch_flags where
  "no_flags = \<lparr>wf_cleanup = False, wf_skip = False, wf_auto = True\<rparr>"

definition args_watch :: "string list \<Rightarrow> bool" where
  "args_watch args =
     (let f = fold read_flag args no_flags in wf_cleanup f \<and> \<not> wf_skip f \<and> wf_auto f)"

(* src/internal/k8s/multusheal.go:78-107 MultusWatchEnabled *)
definition MultusWatchEnabled :: "daemonset \<Rightarrow> bool" where
  "MultusWatchEnabled ds =
     (case find (\<lambda>c. ct_Name c = MultusContainer) ds of
        None \<Rightarrow> False
      | Some c \<Rightarrow>
          contains (ct_Image c) ''thick'' \<or> list_ex (\<lambda>cmd. contains cmd ''multus-daemon'') (ct_Command c) \<or>
          args_watch (ct_Args c))"

(* src/internal/k8s/multusheal.go:156-158 MultusUnauthorizedEvent *)
definition MultusUnauthorizedEvent :: "k8s_event \<Rightarrow> bool" where
  "MultusUnauthorizedEvent ev \<longleftrightarrow>
     ev_Reason ev = ''FailedCreatePodSandBox'' \<and> contains (ev_Message ev) ''multus'' \<and>
     contains (ev_Message ev) ''Unauthorized''"

text \<open>The newest start of the Multus pods, \<open>None\<close> for the zero time.\<close>

definition newest_start :: "int option list \<Rightarrow> int option" where
  "newest_start starts =
     fold (\<lambda>s newest. case s of
         None \<Rightarrow> newest
       | Some t \<Rightarrow> (case newest of None \<Rightarrow> Some t | Some n \<Rightarrow> if n < t then Some t else newest)) starts None"

definition event_time :: "k8s_event \<Rightarrow> int option" where
  "event_time ev = (case ev_LastTimestamp ev of None \<Rightarrow> ev_EventTime ev | Some t \<Rightarrow> Some t)"

definition older :: "int option \<Rightarrow> int option \<Rightarrow> bool" where
  "older ts newest \<longleftrightarrow> (case (ts, newest) of (Some t, Some n) \<Rightarrow> t < n | _ \<Rightarrow> False)"

datatype 'e multus_error =
    GetDaemonSet 'e
  | ListPods 'e
  | NoContainer
  | PatchArgs 'e
  | RestartPatch 'e
  | Rollout 'e

datatype ('o, 'e) got = GotNotFound 'e | GotError 'e | Got 'o

record ('w, 'e) multus_api =
  ma_get :: "'w \<Rightarrow> (daemonset, 'e) got"
  ma_starts :: "'w \<Rightarrow> 'e + int option list"
  ma_events :: "'w \<Rightarrow> 'e + k8s_event list"
  ma_patch_args :: "string list \<Rightarrow> 'w \<Rightarrow> 'e option \<times> 'w"
  ma_restart :: "'w \<Rightarrow> 'e option \<times> 'w"
  ma_status :: "'w \<Rightarrow> daemonset_status option"
  ma_poll :: "('w, 'e) poller"

definition no_multus :: MultusState where
  "no_multus = \<lparr>ms_Installed = False, ms_WatchEnabled = False, ms_Unauthorized = []\<rparr>"

text \<open>The state is returned beside an error, as the code does.\<close>

(* src/internal/k8s/multusheal.go:111-152 InspectMultus *)
definition InspectMultus ::
  "('w, 'e) multus_api \<Rightarrow> 'w \<Rightarrow> MultusState \<times> daemonset option \<times> 'e multus_error option" where
  "InspectMultus A w =
     (case ma_get A w of
        GotNotFound _ \<Rightarrow> (no_multus, None, None)
      | GotError e \<Rightarrow> (no_multus, None, Some (GetDaemonSet e))
      | Got ds \<Rightarrow>
          let st = \<lparr>ms_Installed = True, ms_WatchEnabled = MultusWatchEnabled ds, ms_Unauthorized = []\<rparr>
          in case ma_starts A w of
               Inl e \<Rightarrow> (st, Some ds, Some (ListPods e))
             | Inr starts \<Rightarrow>
                 (case ma_events A w of
                    Inl e \<Rightarrow> (st, Some ds, None)
                  | Inr evs \<Rightarrow>
                      (case find (\<lambda>ev. MultusUnauthorizedEvent ev \<and>
                               \<not> older (event_time ev) (newest_start starts)) evs of
                         None \<Rightarrow> (st, Some ds, None)
                       | Some ev \<Rightarrow>
                           (st\<lparr>ms_Unauthorized := ev_Namespace ev @ ''/'' @ ev_Name ev\<rparr>, Some ds, None))))"

subsection \<open>Healing\<close>

definition kept_arg :: "string \<Rightarrow> bool" where
  "kept_arg a \<longleftrightarrow>
     \<not> (a = ''--cleanup-config-on-exit'' \<or> has_prefix a ''--cleanup-config-on-exit='' \<or>
        a = multusSkipWatchFlag \<or> a = multusSkipWatchFlag @ ''=true'')"

(* src/internal/k8s/multusheal.go:167-183 EnableMultusTokenWatch part *)
definition healed_args :: "daemonset \<Rightarrow> string list" where
  "healed_args ds =
     concat (map (\<lambda>c. filter kept_arg (ct_Args c)) (filter (\<lambda>c. ct_Name c = MultusContainer) ds)) @ [MultusWatchFlag]"

(* src/internal/k8s/multusheal.go:163-193 EnableMultusTokenWatch *)
definition EnableMultusTokenWatch ::
  "('w, 'e) multus_api \<Rightarrow> daemonset \<Rightarrow> 'w \<Rightarrow> bool \<times> 'e multus_error option \<times> 'w" where
  "EnableMultusTokenWatch A ds w =
     (if MultusWatchEnabled ds then (False, None, w)
      else if \<not> list_ex (\<lambda>c. ct_Name c = MultusContainer) ds then (False, Some NoContainer, w)
      else (case ma_patch_args A (healed_args ds) w of
          (Some e, w1) \<Rightarrow> (False, Some (PatchArgs e), w1)
        | (None, w1) \<Rightarrow>
            (case WaitForDaemonSetRollout (ma_poll A) (ma_status A) multusRolloutWait w1 of
               (r, w2) \<Rightarrow> (True, map_option Rollout r, w2))))"

(* src/internal/k8s/multusheal.go:197-203 RestartMultus *)
definition RestartMultus :: "('w, 'e) multus_api \<Rightarrow> 'w \<Rightarrow> 'e multus_error option \<times> 'w" where
  "RestartMultus A w =
     (case ma_restart A w of
        (Some e, w1) \<Rightarrow> (Some (RestartPatch e), w1)
      | (None, w1) \<Rightarrow>
          (case WaitForDaemonSetRollout (ma_poll A) (ma_status A) multusRolloutWait w1 of
             (r, w2) \<Rightarrow> (map_option Rollout r, w2)))"

(* src/internal/k8s/multusheal.go:210-250 EnsureMultusTokenWatch *)
definition EnsureMultusTokenWatch ::
  "('w, 'e) multus_api \<Rightarrow> bool \<Rightarrow> 'w \<Rightarrow> MultusHealResult \<times> 'e multus_error option \<times> 'w" where
  "EnsureMultusTokenWatch A dryRun w =
     (case InspectMultus A w of (st, ds, err) \<Rightarrow>
        let res = \<lparr>mh_Installed = ms_Installed st, mh_WatchEnabled = ms_WatchEnabled st,
              mh_Unauthorized = (ms_Unauthorized st \<noteq> []), mh_Patched = False, mh_Restarted = False\<rparr>
        in if err \<noteq> None \<or> \<not> ms_Installed st then (res, err, w)
           else if \<not> ms_WatchEnabled st then
             (if dryRun then (res, None, w)
              else case EnableMultusTokenWatch A (the ds) w of
                  (patched, Some e, w') \<Rightarrow> (res, Some e, w')
                | (patched, None, w') \<Rightarrow> (res\<lparr>mh_Patched := patched\<rparr>, None, w'))
           else if ms_Unauthorized st \<noteq> [] then
             (if dryRun then (res, None, w)
              else case RestartMultus A w of
                  (Some e, w') \<Rightarrow> (res, Some e, w')
                | (None, w') \<Rightarrow> (res\<lparr>mh_Restarted := True\<rparr>, None, w'))
           else (res, None, w))"

subsection \<open>Facts\<close>

text \<open>Which flags a list of arguments ends up with.\<close>

definition sets_cleanup :: "string \<Rightarrow> bool" where
  "sets_cleanup a \<longleftrightarrow> a = ''--cleanup-config-on-exit'' \<or> a = MultusWatchFlag \<or> a = ''--cleanup-config-on-exit=false''"

definition sets_skip :: "string \<Rightarrow> bool" where
  "sets_skip a \<longleftrightarrow> a = multusSkipWatchFlag \<or> a = multusSkipWatchFlag @ ''=true''"

definition pins_conf_file :: "string \<Rightarrow> bool" where
  "pins_conf_file a \<longleftrightarrow> has_prefix a ''--multus-conf-file='' \<and> a \<noteq> ''--multus-conf-file=auto''"

lemma kept_not_watch: "kept_arg a \<Longrightarrow> \<not> sets_cleanup a \<and> \<not> sets_skip a"
  by (auto simp: kept_arg_def sets_cleanup_def sets_skip_def MultusWatchFlag_def has_prefix_def)

lemma read_kept:
  "kept_arg a \<Longrightarrow> read_flag a f = (if pins_conf_file a then f\<lparr>wf_auto := False\<rparr> else f)"
  using kept_not_watch [of a] by (simp add: read_flag_def sets_cleanup_def sets_skip_def pins_conf_file_def)

lemma read_kept_list:
  "list_all kept_arg as \<Longrightarrow>
   fold read_flag as f = f\<lparr>wf_auto := wf_auto f \<and> \<not> list_ex pins_conf_file as\<rparr>"
  by (induction as arbitrary: f) (auto simp: read_kept)

lemma args_watch_healed:
  "list_all kept_arg as \<Longrightarrow> args_watch (as @ [MultusWatchFlag]) \<longleftrightarrow> \<not> list_ex pins_conf_file as"
  by (simp add: args_watch_def read_kept_list no_flags_def Let_def read_flag_def)

end
