(* ===== verification/Polling.thy ===== *)
theory Polling
  imports Prelude
begin

text \<open>
  The two shapes of the program's hand-written wait loops, on a world \<open>'w\<close> with a clock and a
  sleep that may be interrupted. \<open>None\<close> is a loop that never ends.
\<close>

subsection \<open>Check, then look at the deadline\<close>

text \<open>
  The loop of \<open>waitControllerRendered\<close>, \<open>waitTMMReady\<close>, \<open>WaitConditionTrue\<close> and
  \<open>waitEICEDeleted\<close>: check, give up after the deadline, sleep, unless the context ends first.
  \<open>'l\<close> is what the loop remembers of its last check.
\<close>

datatype ('r, 'f, 'l) checked = Ready 'r | Broken 'f | Again 'l

datatype ('r, 'f, 'l, 'e) waited = Finished 'r | Errored 'f | TimedOut 'l | Interrupted_wait 'e 'l

partial_function (option) poll_loop ::
  "('w \<Rightarrow> int) \<Rightarrow> (int \<Rightarrow> 'w \<Rightarrow> 'e option \<times> 'w) \<Rightarrow> ('l \<Rightarrow> 'w \<Rightarrow> ('r, 'f, 'l) checked) \<Rightarrow> int \<Rightarrow> int \<Rightarrow>
   'l \<Rightarrow> 'w \<Rightarrow> (('r, 'f, 'l, 'e) waited \<times> 'w) option" where
  "poll_loop now sleep check deadline poll seen w =
     (case check seen w of
        Ready r \<Rightarrow> Some (Finished r, w)
      | Broken f \<Rightarrow> Some (Errored f, w)
      | Again l \<Rightarrow>
          if now w > deadline then Some (TimedOut l, w)
          else (case sleep poll w of
              (Some e, w') \<Rightarrow> Some (Interrupted_wait e l, w')
            | (None, w') \<Rightarrow> poll_loop now sleep check deadline poll l w'))"

declare poll_loop.simps [code]

text \<open>When every sleep lets the clock advance, the loop ends.\<close>

lemma poll_loop_terminates:
  assumes "\<And>w w'. sleep poll w = (None, w') \<Longrightarrow> now w < now w'"
  shows "\<exists>r. poll_loop now sleep check deadline poll seen w = Some r"
proof (induction "nat (deadline - now w + 1)" arbitrary: seen w rule: less_induct)
  case less
  show ?case
  proof (cases "check seen w")
    case (Again l)
    show ?thesis
    proof (cases "now w > deadline")
      case False
      obtain r w' where s: "sleep poll w = (r, w')" by (cases "sleep poll w")
      show ?thesis
      proof (cases r)
        case None
        from s None have "now w < now w'" by (simp add: assms)
        then have "nat (deadline - now w' + 1) < nat (deadline - now w + 1)" using False by simp
        from less [OF this, of l] None False Again s show ?thesis by (simp add: poll_loop.simps)
      qed (use False Again s in \<open>simp add: poll_loop.simps\<close>)
    qed (use Again in \<open>simp add: poll_loop.simps\<close>)
  qed (simp_all add: poll_loop.simps)
qed

subsection \<open>Look at the deadline, then check\<close>

text \<open>The loops of the form \<open>for time.Now().Before(deadline) { ... }\<close>.\<close>

datatype ('r, 'e) waited_before = Decided 'r | OutOfTime | Cut 'e

partial_function (option) poll_before ::
  "('w \<Rightarrow> int) \<Rightarrow> (int \<Rightarrow> 'w \<Rightarrow> 'e option \<times> 'w) \<Rightarrow> ('w \<Rightarrow> 'r option) \<Rightarrow> int \<Rightarrow> int \<Rightarrow> 'w \<Rightarrow>
   (('r, 'e) waited_before \<times> 'w) option" where
  "poll_before now sleep check deadline poll w =
     (if now w < deadline then
        (case check w of
           Some r \<Rightarrow> Some (Decided r, w)
         | None \<Rightarrow>
             (case sleep poll w of
                (Some e, w') \<Rightarrow> Some (Cut e, w')
              | (None, w') \<Rightarrow> poll_before now sleep check deadline poll w'))
      else Some (OutOfTime, w))"

declare poll_before.simps [code]

lemma poll_before_terminates:
  assumes "\<And>w w'. sleep poll w = (None, w') \<Longrightarrow> now w < now w'"
  shows "\<exists>r. poll_before now sleep check deadline poll w = Some r"
proof (induction "nat (deadline - now w)" arbitrary: w rule: less_induct)
  case less
  show ?case
  proof (cases "now w < deadline \<and> check w = None")
    case True
    obtain r w' where s: "sleep poll w = (r, w')" by (cases "sleep poll w")
    show ?thesis
    proof (cases r)
      case None
      from s None have "now w < now w'" by (simp add: assms)
      then have "nat (deadline - now w') < nat (deadline - now w)" using True by simp
      from less [OF this] None True s show ?thesis by (simp add: poll_before.simps)
    qed (use True s in \<open>simp add: poll_before.simps\<close>)
  next
    case False
    then show ?thesis by (subst poll_before.simps) (auto split: option.splits)
  qed
qed

text \<open>A decision is the check's own, in the world returned, and within the deadline.\<close>

lemma poll_before_Decided:
  assumes "poll_before now sleep check deadline poll w = Some (Decided r, w')"
  shows "check w' = Some r \<and> now w' < deadline"
proof -
  have "case fst y of Decided r \<Rightarrow> check (snd y) = Some r \<and> now (snd y) < deadline | _ \<Rightarrow> True"
    if "poll_before now sleep check deadline poll w = Some y" for y
    by (rule poll_before.raw_induct [OF _ that,
          where P = "\<lambda>now _ check deadline _ _ y.
            case fst y of Decided r \<Rightarrow> check (snd y) = Some r \<and> now (snd y) < deadline | _ \<Rightarrow> True"])
      (auto split: if_splits option.splits prod.splits)
  from this [OF assms] show ?thesis by simp
qed

subsection \<open>Act, then sleep\<close>

text \<open>A loop whose round may change the world and decides itself when to stop.\<close>

partial_function (option) poll_acting ::
  "(int \<Rightarrow> 'w \<Rightarrow> 'e option \<times> 'w) \<Rightarrow> ('w \<Rightarrow> bool \<times> 'w) \<Rightarrow> int \<Rightarrow> 'w \<Rightarrow> 'w option" where
  "poll_acting sleep act poll w =
     (case act w of (stop, w1) \<Rightarrow>
        if stop then Some w1
        else (case sleep poll w1 of
            (Some e, w2) \<Rightarrow> Some w2
          | (None, w2) \<Rightarrow> poll_acting sleep act poll w2))"

declare poll_acting.simps [code]

lemma poll_acting_terminates:
  assumes "\<And>w w'. sleep poll w = (None, w') \<Longrightarrow> now w < now w'"
    and "\<And>w w'. act w = (False, w') \<Longrightarrow> now w \<le> now w' \<and> now w' \<le> (deadline :: int)"
  shows "\<exists>w'. poll_acting sleep act poll w = Some w'"
proof (induction "nat (deadline - now w + 1)" arbitrary: w rule: less_induct)
  case less
  obtain b w1 where a: "act w = (b, w1)" by fastforce
  obtain r w2 where s: "sleep poll w1 = (r, w2)" by fastforce
  show ?case
  proof (cases "b \<or> r \<noteq> None")
    case False
    with a s have "act w = (False, w1)" "sleep poll w1 = (None, w2)" by simp_all
    from assms(2) [OF this(1)] assms(1) [OF this(2)] have "now w < now w2" "now w \<le> deadline" by linarith+
    then have "nat (deadline - now w2 + 1) < nat (deadline - now w + 1)" by simp
    from less [OF this] False a s show ?thesis by (simp add: poll_acting.simps)
  qed (use a s in \<open>auto simp: poll_acting.simps [of _ _ _ w]\<close>)
qed

text \<open>
  A loop that remembers something between its checks and tests the deadline before each: the check
  yields the result, or what to remember.
\<close>

partial_function (option) poll_remembering ::
  "('w \<Rightarrow> int) \<Rightarrow> (int \<Rightarrow> 'w \<Rightarrow> 'e option \<times> 'w) \<Rightarrow> ('l \<Rightarrow> 'w \<Rightarrow> 'r + 'l) \<Rightarrow> int \<Rightarrow> int \<Rightarrow> 'l \<Rightarrow> 'w \<Rightarrow>
   (('r, 'e) waited_before \<times> 'w) option" where
  "poll_remembering now sleep check deadline poll l w =
     (if now w < deadline then
        (case check l w of
           Inl r \<Rightarrow> Some (Decided r, w)
         | Inr l' \<Rightarrow>
             (case sleep poll w of
                (Some e, w') \<Rightarrow> Some (Cut e, w')
              | (None, w') \<Rightarrow> poll_remembering now sleep check deadline poll l' w'))
      else Some (OutOfTime, w))"

declare poll_remembering.simps [code]

lemma poll_remembering_terminates:
  assumes "\<And>w w'. sleep poll w = (None, w') \<Longrightarrow> now w < now w'"
  shows "\<exists>r. poll_remembering now sleep check deadline poll l w = Some r"
proof (induction "nat (deadline - now w)" arbitrary: l w rule: less_induct)
  case less
  obtain r w' where s: "sleep poll w = (r, w')" by fastforce
  show ?case
  proof (cases "now w < deadline \<and> r = None")
    case True
    from s True have "now w < now w'" by (simp add: assms)
    then have "nat (deadline - now w') < nat (deadline - now w)" using True by simp
    from less [OF this] True s show ?thesis by (auto simp: poll_remembering.simps [of _ _ _ _ _ l w] split: sum.splits)
  qed (use s in \<open>auto simp: poll_remembering.simps [of _ _ _ _ _ l w] split: sum.splits option.splits\<close>)
qed

lemma poll_remembering_Decided:
  assumes "poll_remembering now sleep check deadline poll l w = Some (Decided r, w')"
  shows "\<exists>l'. check l' w' = Inl r"
proof -
  have "case fst y of Decided r \<Rightarrow> \<exists>l'. check l' (snd y) = Inl r | _ \<Rightarrow> True"
    if "poll_remembering now sleep check deadline poll l w = Some y" for y
    by (rule poll_remembering.raw_induct [OF _ that,
          where P = "\<lambda>_ _ check _ _ _ _ y. case fst y of Decided r \<Rightarrow> \<exists>l'. check l' (snd y) = Inl r | _ \<Rightarrow> True"])
      (auto split: if_splits option.splits prod.splits sum.splits)
  from this [OF assms] show ?thesis by simp
qed

end
