(* ===== verification/Upgrade.thy ===== *)
theory Upgrade
  imports Multus Manifest Regex Polling
begin

text \<open>
  \<open>internal/k8s/migrate/upgrade.go\<close>: the in-place move of an installed 2.3 cluster to 2.4.
  Helm, the API server and the clock are parameters (\<open>upgrade_deps\<close>) on a world \<open>'w\<close>; a call that writes or waits
  returns the next world. An operation runs on the pair of the partial result and the
  world, and may end with an error that keeps both, as the code returns \<open>res\<close> beside its error.
\<close>

subsection \<open>Versions\<close>

definition version_triple :: regex where
  "version_triple = [many1 is_digit] @ lit ''.'' @ [many1 is_digit] @ lit ''.'' @ [many1 is_digit]"

definition documented_tails :: "string list" where
  "documented_tails = [''-3.3175.0-0.0.380'', ''-3.3175.0+0.0.380'']"

text \<open>The anchored pattern \<open>documentedSuffix\<close>: a version triple and one of two tails of equal length.\<close>

(* src/internal/k8s/migrate/upgrade.go:61-66 CanonicalManifestVersion *)
definition CanonicalManifestVersion :: "string \<Rightarrow> string \<times> bool" where
  "CanonicalManifestVersion v =
     (let n = length v - length (hd documented_tails); x = take n v
      in if drop n v \<in> set documented_tails \<and> matches version_triple x then (x, True) else (v, False))"

subsection \<open>Environment lists\<close>

(* src/internal/k8s/migrate/upgrade.go:42-42 UseGatewaySettingsEnv *)
definition UseGatewaySettingsEnv :: string where
  "UseGatewaySettingsEnv = ''USE_GATEWAY_SETTINGS''"

(* src/internal/k8s/migrate/upgrade.go:45-45 MaxActiveTMMEnv *)
definition MaxActiveTMMEnv :: string where
  "MaxActiveTMMEnv = ''MAX_ACTIVE_TMM_REPLICAS''"

(* src/internal/k8s/render/render.go:313-313 TMMK8sRoutesEnv part *)
definition TMMK8sRoutesEnv :: string where
  "TMMK8sRoutesEnv = ''TMM_K8S_ROUTES''"

definition env_entry :: "string \<Rightarrow> string \<Rightarrow> any" where
  "env_entry name value = AMap [(''name'', AString name), (''value'', AString value)]"

text \<open>\<open>m["name"] == name\<close> on an interface value: only a string compares equal.\<close>

fun names_entry :: "string \<Rightarrow> any \<Rightarrow> bool" where
  "names_entry name (AMap m) \<longleftrightarrow> map_of m ''name'' = Some (AString name)"
| "names_entry name _ \<longleftrightarrow> False"

fun has_value :: "string \<Rightarrow> any \<Rightarrow> bool" where
  "has_value value (AMap m) \<longleftrightarrow> map_of m ''value'' = Some (AString value)"
| "has_value value _ \<longleftrightarrow> False"

definition upsert_one :: "string \<Rightarrow> string \<Rightarrow> bool \<Rightarrow> any \<Rightarrow> any" where
  "upsert_one name value overwrite e =
     (if names_entry name e \<and> overwrite \<and> \<not> has_value value e then env_entry name value else e)"

(* src/internal/k8s/migrate/upgrade.go:416-440 upsertEnv *)
definition upsertEnv :: "any list \<Rightarrow> string \<Rightarrow> string \<Rightarrow> bool \<Rightarrow> any list \<times> bool" where
  "upsertEnv env name value overwrite =
     (let found = list_ex (names_entry name) env;
          changed = (overwrite \<and> list_ex (\<lambda>e. names_entry name e \<and> \<not> has_value value e) env);
          out = map (upsert_one name value overwrite) env
      in if found then (out, changed) else (out @ [env_entry name value], True))"

text \<open>The fields of a CNEInstance the patch reads and sets.\<close>

record cne_instance =
  cne_GetName :: string
  cne_manifestVersion :: string
  cne_controllerEnv :: "any list"
  cne_tmmEnv :: "any list"

record cne_patch =
  cp_manifestVersion :: string
  cp_controllerEnv :: "any list"
  cp_tmmEnv :: "any list"

(* src/internal/k8s/migrate/upgrade.go:389-412 cneInstancePatch *)
definition cneInstancePatch :: "cne_instance \<Rightarrow> string \<Rightarrow> string \<Rightarrow> cne_patch \<times> bool" where
  "cneInstancePatch cne target serviceCIDR =
     (let changed = (cne_manifestVersion cne \<noteq> target);
          (ctrl1, c1) = upsertEnv (cne_controllerEnv cne) UseGatewaySettingsEnv ''true'' True;
          (ctrl2, c2) = upsertEnv ctrl1 MaxActiveTMMEnv ''32'' False;
          (tmm1, c3) = upsertEnv (cne_tmmEnv cne) ''ZEBOS_STATE'' ''legacy'' False;
          (tmm2, c4) = (if serviceCIDR \<noteq> [] then upsertEnv tmm1 TMMK8sRoutesEnv serviceCIDR False else (tmm1, False))
      in (\<lparr>cp_manifestVersion = target, cp_controllerEnv = ctrl2, cp_tmmEnv = tmm2\<rparr>,
          changed \<or> c1 \<or> c2 \<or> c3 \<or> c4))"

subsection \<open>Data\<close>

(* src/internal/k8s/migrate/types.go:25-25 DefaultInstanceNamespace part *)
definition DefaultInstanceNamespace :: string where
  "DefaultInstanceNamespace = ''f5-cne-system''"

record 'v UpgradeOptions =
  uo_Namespace :: string
  uo_CNEInstanceName :: string
  uo_ManifestVersion :: string
  uo_FLOChart :: string
  uo_Values :: "'v option"
  uo_DryRun :: bool
  uo_Timeout :: int
  uo_Poll :: int
  uo_RenderWait :: int
  uo_ControllerRBAC :: string
  uo_ServiceCIDR :: string
  uo_RegistryHost :: string

(* src/internal/k8s/migrate/upgrade.go:125-153 UpgradeResult *)
record UpgradeResult =
  ur_Schema :: string
  ur_FLOFrom :: string
  ur_FLOTo :: string
  ur_FLOUpgraded :: bool
  ur_CNEInstance :: string
  ur_ManifestFrom :: string
  ur_ManifestTo :: string
  ur_Patched :: bool
  ur_ControllerReady :: bool
  ur_TMMReady :: int
  ur_TMMTotal :: int
  ur_DryRun :: bool
  ur_ControllerRecreated :: bool
  ur_RBACApplied :: bool
  ur_LogStreamEnabled :: bool
  ur_Multus :: "MultusHealResult option"

text \<open>A release's chart version is empty when the release carries no chart metadata.\<close>

record 'v helm_release =
  hl_chartVersion :: string
  hl_Config :: 'v

type_synonym container_env = "(string \<times> string) list"

record deployment =
  dp_containers :: "container_env list"
  dp_serviceAccount :: string

record pod =
  pd_containers :: "container_env list"
  pd_containersReady :: "bool list"

record cne_controller =
  cc_GetName :: string
  cc_owners :: "(string \<times> string) list"

datatype 'e upgrade_error =
    UnknownRelease string
  | NoHelmClient
  | ListRelease 'e
  | ReleaseNotFound
  | PullChart 'e
  | HelmUpgrade 'e
  | NoDynamicClient
  | GetCNE string string 'e
  | CNENotServed
  | ListCNE string 'e
  | NoCNE string
  | ManyCNE string "string list"
  | PatchCNE string 'e

datatype cond_desc =
    ConditionNotFound
  | NoConditionYet string
  | ConditionSeen string "any option" "any option" "any option"

datatype 'e rollout_error =
    InfraCRDMissing 'e
  | GetDeployment string 'e
  | Selector 'e
  | ListControllerPods 'e
  | ListTMMPods 'e
  | ControllerNotRendered
  | AfterRecreate "'e rollout_error"
  | ContextEnded 'e
  | DeleteController string 'e
  | ListControllers 'e
  | NoController string

datatype 'e readiness_error =
    DeploymentWait 'e
  | FlagMissing
  | GetCondition string 'e
  | ConditionTimeout string cond_desc
  | WaitCancelled 'e
  | TMMNotReady int int
  | AccessReview string 'e
  | RBACDecode 'e
  | RBACApply 'e
  | RestartDeployment 'e

datatype 'e up_error = Early "'e upgrade_error" | Rollout_failed "'e rollout_error" | Not_ready "'e readiness_error"

record ('w, 'e, 'c, 'v) upgrade_deps =
  ud_Helm :: bool
  ud_Dyn :: bool
  ud_K8s :: bool
  ud_Applier :: bool
  ud_multus :: "('w, 'e) multus_api"
  ud_helm_list :: "'w \<Rightarrow> 'e + 'v helm_release list"
  ud_helm_pull :: "string \<Rightarrow> string \<Rightarrow> 'w \<Rightarrow> 'e + 'c"
  ud_helm_upgrade :: "'c \<Rightarrow> 'v \<Rightarrow> 'w \<Rightarrow> 'e option \<times> 'w"
  ud_get_cne :: "string \<Rightarrow> string \<Rightarrow> 'w \<Rightarrow> 'e + cne_instance"
  ud_list_cne :: "string \<Rightarrow> 'w \<Rightarrow> (cne_instance list, 'e) got"
  ud_patch_cne :: "string \<Rightarrow> string \<Rightarrow> cne_patch \<Rightarrow> 'w \<Rightarrow> 'e option \<times> 'w"
  ud_crd :: "'w \<Rightarrow> unit option"
  ud_poll :: "('w, 'e) poller"
  ud_deployment :: "string \<Rightarrow> 'w \<Rightarrow> (deployment, 'e) got"
  ud_deployment_status :: "string \<Rightarrow> 'w \<Rightarrow> deployment_status option"
  ud_selector :: "deployment \<Rightarrow> 'e + string"
  ud_pods :: "string \<Rightarrow> string \<Rightarrow> 'w \<Rightarrow> 'e + pod list"
  ud_cne_conditions :: "string \<Rightarrow> string \<Rightarrow> 'w \<Rightarrow> (any list, 'e) got"
  ud_now :: "'w \<Rightarrow> int"
  ud_sleep :: "int \<Rightarrow> 'w \<Rightarrow> 'e option \<times> 'w"
  ud_delete_controller :: "string \<Rightarrow> string \<Rightarrow> 'w \<Rightarrow> (unit, 'e) got \<times> 'w"
  ud_list_controllers :: "string \<Rightarrow> 'w \<Rightarrow> 'e + cne_controller list"
  ud_access :: "string \<Rightarrow> 'w \<Rightarrow> 'e + bool"
  ud_yaml :: "string \<Rightarrow> 'e + (string \<times> any) list"
  ud_apply :: "(string \<times> any) list \<Rightarrow> 'w \<Rightarrow> 'e option \<times> 'w"
  ud_restart :: "string \<Rightarrow> 'w \<Rightarrow> 'e option \<times> 'w"

subsection \<open>Controller and TMM\<close>

(* src/internal/k8s/migrate/upgrade.go:33-33 ControllerDeployment *)
definition ControllerDeployment :: string where
  "ControllerDeployment = ''f5-cne-controller''"

definition carries_flag :: "container_env \<Rightarrow> bool" where
  "carries_flag env \<longleftrightarrow> (UseGatewaySettingsEnv, ''true'') \<in> set env"

(* src/internal/k8s/migrate/upgrade.go:509-525 deploymentHasFlag *)
definition deploymentHasFlag ::
  "('w, 'e, 'c, 'v) upgrade_deps \<Rightarrow> string \<Rightarrow> 'w \<Rightarrow> 'e rollout_error + bool \<times> bool" where
  "deploymentHasFlag D ns w =
     (case ud_deployment D ns w of
        GotNotFound _ \<Rightarrow> Inr (False, False)
      | GotError e \<Rightarrow> Inl (GetDeployment ns e)
      | Got dep \<Rightarrow> Inr (True, list_ex carries_flag (dp_containers dep)))"

(* src/internal/k8s/migrate/upgrade.go:444-474 controllerPodsHaveFlag *)
definition controllerPodsHaveFlag ::
  "('w, 'e, 'c, 'v) upgrade_deps \<Rightarrow> string \<Rightarrow> 'w \<Rightarrow> 'e rollout_error + bool" where
  "controllerPodsHaveFlag D ns w =
     (case ud_deployment D ns w of
        GotNotFound e \<Rightarrow> Inl (GetDeployment ns e)
      | GotError e \<Rightarrow> Inl (GetDeployment ns e)
      | Got dep \<Rightarrow>
          (case ud_selector D dep of
             Inl e \<Rightarrow> Inl (Selector e)
           | Inr sel \<Rightarrow>
               (case ud_pods D ns sel w of
                  Inl e \<Rightarrow> Inl (ListControllerPods e)
                | Inr pods \<Rightarrow> Inr (pods \<noteq> [] \<and> list_all (\<lambda>p. list_ex carries_flag (pd_containers p)) pods))))"

(* src/internal/k8s/migrate/upgrade.go:35-35 TMMLabelSelector *)
definition TMMLabelSelector :: string where
  "TMMLabelSelector = ''app=f5-tmm''"

definition pod_ready :: "pod \<Rightarrow> bool" where
  "pod_ready p \<longleftrightarrow> pd_containersReady p \<noteq> [] \<and> list_all (\<lambda>b. b) (pd_containersReady p)"

(* src/internal/k8s/migrate/upgrade.go:477-502 tmmReady *)
definition tmmReady :: "('w, 'e, 'c, 'v) upgrade_deps \<Rightarrow> string \<Rightarrow> 'w \<Rightarrow> 'e rollout_error + int \<times> int" where
  "tmmReady D ns w =
     (case ud_pods D ns TMMLabelSelector w of
        Inl e \<Rightarrow> Inl (ListTMMPods e)
      | Inr pods \<Rightarrow> Inr (int (length (filter pod_ready pods)), int (length pods)))"

(* src/internal/k8s/migrate/upgrade.go:529-548 waitControllerRendered *)
definition waitControllerRendered ::
  "('w, 'e, 'c, 'v) upgrade_deps \<Rightarrow> string \<Rightarrow> int \<Rightarrow> int \<Rightarrow> 'w \<Rightarrow> ('e rollout_error option \<times> 'w) option" where
  "waitControllerRendered D ns timeout poll w =
     map_option (\<lambda>(r, w'). (case r of
          Finished _ \<Rightarrow> None
        | Errored f \<Rightarrow> Some f
        | TimedOut _ \<Rightarrow> Some ControllerNotRendered
        | Interrupted_wait e _ \<Rightarrow> Some (ContextEnded e), w'))
       (poll_loop (ud_now D) (ud_sleep D)
         (\<lambda>_ w. case deploymentHasFlag D ns w of
              Inl f \<Rightarrow> Broken f
            | Inr (found, has) \<Rightarrow> if has then Ready () else Again ())
         (ud_now D w + timeout) poll () w)"

(* src/internal/k8s/migrate/upgrade.go:581-600 waitTMMReady *)
definition waitTMMReady ::
  "('w, 'e, 'c, 'v) upgrade_deps \<Rightarrow> string \<Rightarrow> int \<Rightarrow> int \<Rightarrow> 'w \<Rightarrow> ((int \<times> int \<times> 'e up_error option) \<times> 'w) option" where
  "waitTMMReady D ns timeout poll w =
     map_option (\<lambda>(r, w'). (case r of
          Finished (ready, all) \<Rightarrow> (ready, all, None)
        | Errored f \<Rightarrow> (0, 0, Some (Rollout_failed f))
        | TimedOut (ready, all) \<Rightarrow> (ready, all, Some (Not_ready (TMMNotReady ready all)))
        | Interrupted_wait e (ready, all) \<Rightarrow> (ready, all, Some (Rollout_failed (ContextEnded e))), w'))
       (poll_loop (ud_now D) (ud_sleep D)
         (\<lambda>_ w. case tmmReady D ns w of
              Inl f \<Rightarrow> Broken f
            | Inr (ready, all) \<Rightarrow> if all > 0 \<and> ready = all then Ready (ready, all) else Again (ready, all))
         (ud_now D w + timeout) poll (0, 0) w)"

fun condition_named :: "string \<Rightarrow> any \<Rightarrow> (string \<times> any) list option" where
  "condition_named condType (AMap m) = (if map_of m ''type'' = Some (AString condType) then Some m else None)"
| "condition_named condType _ = None"

(* src/internal/k8s/migrate/apply.go:128-142 conditionTrue *)
fun conditionTrue :: "string \<Rightarrow> cond_desc \<Rightarrow> any list \<Rightarrow> bool \<times> cond_desc" where
  "conditionTrue condType seen [] = (False, seen)"
| "conditionTrue condType seen (c # cs) =
     (case condition_named condType c of
        None \<Rightarrow> conditionTrue condType seen cs
      | Some m \<Rightarrow>
          if map_of m ''status'' = Some (AString ''True'') then (True, seen)
          else conditionTrue condType
            (ConditionSeen condType (map_of m ''status'') (map_of m ''reason'') (map_of m ''message'')) cs)"

(* src/internal/k8s/migrate/apply.go:101-124 WaitConditionTrue *)
definition WaitConditionTrue ::
  "('w, 'e, 'c, 'v) upgrade_deps \<Rightarrow> string \<Rightarrow> string \<Rightarrow> string \<Rightarrow> int \<Rightarrow> int \<Rightarrow> 'w \<Rightarrow>
   ('e readiness_error option \<times> 'w) option" where
  "WaitConditionTrue D ns name condType timeout poll w =
     map_option (\<lambda>(r, w'). (case r of
          Finished _ \<Rightarrow> None
        | Errored f \<Rightarrow> Some f
        | TimedOut l \<Rightarrow> Some (ConditionTimeout condType l)
        | Interrupted_wait e _ \<Rightarrow> Some (WaitCancelled e), w'))
       (poll_loop (ud_now D) (ud_sleep D)
         (\<lambda>seen w. case ud_cne_conditions D ns name w of
              GotNotFound _ \<Rightarrow> Again seen
            | GotError e \<Rightarrow> Broken (GetCondition name e)
            | Got conds \<Rightarrow>
                (case conditionTrue condType (NoConditionYet condType) conds of
                   (True, _) \<Rightarrow> Ready ()
                 | (False, desc) \<Rightarrow> Again desc))
         (ud_now D w + timeout) poll ConditionNotFound w)"

(* src/internal/k8s/migrate/upgrade.go:354-382 findCNEInstance *)
definition findCNEInstance ::
  "('w, 'e, 'c, 'v) upgrade_deps \<Rightarrow> string \<Rightarrow> string \<Rightarrow> 'w \<Rightarrow> 'e upgrade_error + cne_instance" where
  "findCNEInstance D ns name w =
     (if name \<noteq> [] then
        (case ud_get_cne D ns name w of Inl e \<Rightarrow> Inl (GetCNE ns name e) | Inr obj \<Rightarrow> Inr obj)
      else (case ud_list_cne D ns w of
          GotNotFound _ \<Rightarrow> Inl CNENotServed
        | GotError e \<Rightarrow> Inl (ListCNE ns e)
        | Got items \<Rightarrow>
            (case items of
               [] \<Rightarrow> Inl (NoCNE ns)
             | [obj] \<Rightarrow> Inr obj
             | _ \<Rightarrow> Inl (ManyCNE ns (map cne_GetName items)))))"

(* src/internal/k8s/migrate/upgrade.go:554-578 recreateCNEController *)
definition recreateCNEController ::
  "('w, 'e, 'c, 'v) upgrade_deps \<Rightarrow> string \<Rightarrow> string \<Rightarrow> 'w \<Rightarrow> 'e rollout_error option \<times> 'w" where
  "recreateCNEController D ns cneName w =
     (let name = ControllerDeployment @ ''-'' @ cneName
      in case ud_delete_controller D ns name w of
           (Got _, w1) \<Rightarrow> (None, w1)
         | (GotError e, w1) \<Rightarrow> (Some (DeleteController name e), w1)
         | (GotNotFound _, w1) \<Rightarrow>
             (case ud_list_controllers D ns w1 of
                Inl e \<Rightarrow> (Some (ListControllers e), w1)
              | Inr items \<Rightarrow>
                  (case find (\<lambda>c. (''CNEInstance'', cneName) \<in> set (cc_owners c)) items of
                     None \<Rightarrow> (Some (NoController cneName), w1)
                   | Some c \<Rightarrow>
                       (case ud_delete_controller D ns (cc_GetName c) w1 of
                          (Got _, w2) \<Rightarrow> (None, w2)
                        | (GotNotFound e, w2) \<Rightarrow> (Some (DeleteController (cc_GetName c) e), w2)
                        | (GotError e, w2) \<Rightarrow> (Some (DeleteController (cc_GetName c) e), w2)))))"

subsection \<open>The supplement to the controller's permissions\<close>

definition doc_separator :: string where
  "doc_separator = CHR 0x0A # ''---''"

text \<open>\<open>strings.Split(data, "\n---")\<close>: \<open>cur\<close> is the piece read so far.\<close>

(* src/internal/k8s/migrate/upgrade.go:676-676 decodeYAMLDocs part *)
fun split_docs :: "string \<Rightarrow> string \<Rightarrow> string list" where
  "split_docs cur [] = [cur]"
| "split_docs cur (c # cs) =
     (if has_prefix (c # cs) doc_separator then cur # split_docs [] (drop 3 cs) else split_docs (cur @ [c]) cs)"

fun decode_docs :: "(string \<Rightarrow> 'e + (string \<times> any) list) \<Rightarrow> string list \<Rightarrow> 'e + (string \<times> any) list list" where
  "decode_docs yaml [] = Inr []"
| "decode_docs yaml (doc # docs) =
     (if trim_space doc = [] then decode_docs yaml docs
      else case yaml doc of
          Inl e \<Rightarrow> Inl e
        | Inr m \<Rightarrow> if m = [] then decode_docs yaml docs else map_sum id ((#) m) (decode_docs yaml docs))"

(* src/internal/k8s/migrate/upgrade.go:674-690 decodeYAMLDocs *)
definition decodeYAMLDocs :: "(string \<Rightarrow> 'e + (string \<times> any) list) \<Rightarrow> string \<Rightarrow> 'e + (string \<times> any) list list" where
  "decodeYAMLDocs yaml data = decode_docs yaml (split_docs [] data)"

(* src/internal/k8s/migrate/upgrade.go:618-638 controllerCanGetEndpointSlices *)
definition controllerCanGetEndpointSlices ::
  "('w, 'e, 'c, 'v) upgrade_deps \<Rightarrow> string \<Rightarrow> 'w \<Rightarrow> 'e up_error + bool" where
  "controllerCanGetEndpointSlices D ns w =
     (case ud_deployment D ns w of
        GotNotFound e \<Rightarrow> Inl (Rollout_failed (GetDeployment ns e))
      | GotError e \<Rightarrow> Inl (Rollout_failed (GetDeployment ns e))
      | Got dep \<Rightarrow>
          let sa = (if dp_serviceAccount dep = [] then ''default'' else dp_serviceAccount dep)
          in (case ud_access D (''system:serviceaccount:'' @ ns @ '':'' @ sa) w of
                Inl e \<Rightarrow> Inl (Not_ready (AccessReview sa e))
              | Inr allowed \<Rightarrow> Inr allowed))"

fun apply_all ::
  "('w, 'e, 'c, 'v) upgrade_deps \<Rightarrow> (string \<times> any) list list \<Rightarrow> 'w \<Rightarrow> 'e option \<times> 'w" where
  "apply_all D [] w = (None, w)"
| "apply_all D (obj # objs) w =
     (case ud_apply D obj w of (Some e, w1) \<Rightarrow> (Some e, w1) | (None, w1) \<Rightarrow> apply_all D objs w1)"

definition wait_controller ::
  "('w, 'e, 'c, 'v) upgrade_deps \<Rightarrow> 'v UpgradeOptions \<Rightarrow> 'w \<Rightarrow> 'e option \<times> 'w" where
  "wait_controller D opts =
     WaitForDeploymentReady (ud_poll D) (ud_deployment_status D (uo_Namespace opts)) (uo_Timeout opts)"

(* src/internal/k8s/migrate/upgrade.go:643-671 ensureControllerRBAC *)
definition ensureControllerRBAC ::
  "('w, 'e, 'c, 'v) upgrade_deps \<Rightarrow> 'v UpgradeOptions \<Rightarrow> 'w \<Rightarrow> (bool \<times> 'e up_error option) \<times> 'w" where
  "ensureControllerRBAC D opts w =
     (case controllerCanGetEndpointSlices D (uo_Namespace opts) w of
        Inl e \<Rightarrow> ((False, Some e), w)
      | Inr ok \<Rightarrow>
          if ok then ((False, None), w)
          else (case decodeYAMLDocs (ud_yaml D) (uo_ControllerRBAC opts) of
              Inl e \<Rightarrow> ((False, Some (Not_ready (RBACDecode e))), w)
            | Inr objs \<Rightarrow>
                (case apply_all D objs w of
                   (Some e, w1) \<Rightarrow> ((False, Some (Not_ready (RBACApply e))), w1)
                 | (None, w1) \<Rightarrow>
                     (case ud_restart D (uo_Namespace opts) w1 of
                        (Some e, w2) \<Rightarrow> ((True, Some (Not_ready (RestartDeployment e))), w2)
                      | (None, w2) \<Rightarrow>
                          (case wait_controller D opts w2 of
                             (r, w3) \<Rightarrow> ((True, map_option (\<lambda>e. Not_ready (DeploymentWait e)) r), w3))))))"

subsection \<open>The upgrade\<close>

type_synonym ('w, 'e) progress = "('e up_error option \<times> UpgradeResult \<times> 'w) option"

definition failed :: "'e up_error \<Rightarrow> UpgradeResult \<Rightarrow> 'w \<Rightarrow> ('w, 'e) progress" where
  "failed e r w = Some (Some e, r, w)"

definition done_with :: "UpgradeResult \<Rightarrow> 'w \<Rightarrow> ('w, 'e) progress" where
  "done_with r w = Some (None, r, w)"

definition and_then ::
  "('w, 'e) progress \<Rightarrow> (UpgradeResult \<Rightarrow> 'w \<Rightarrow> ('w, 'e) progress) \<Rightarrow> ('w, 'e) progress" where
  "and_then x f =
     (case x of None \<Rightarrow> None | Some (Some e, r, w) \<Rightarrow> Some (Some e, r, w) | Some (None, r, w) \<Rightarrow> f r w)"

(* src/internal/k8s/migrate/upgrade.go:166-181 Upgrade part *)
definition upgrade_defaults :: "'v UpgradeOptions \<Rightarrow> 'v UpgradeOptions" where
  "upgrade_defaults opt =
     opt\<lparr>uo_Namespace := (if uo_Namespace opt = [] then DefaultInstanceNamespace else uo_Namespace opt),
       uo_Timeout := (if uo_Timeout opt \<le> 0 then 20 * 60 * Second else uo_Timeout opt),
       uo_Poll := (if uo_Poll opt \<le> 0 then 10 * Second else uo_Poll opt),
       uo_RenderWait := (if uo_RenderWait opt \<le> 0 then 3 * 60 * Second else uo_RenderWait opt)\<rparr>"

(* src/internal/k8s/migrate/upgrade.go:198-207 Upgrade part *)
definition upgrade_multus ::
  "('w, 'e, 'c, 'v) upgrade_deps \<Rightarrow> 'v UpgradeOptions \<Rightarrow> UpgradeResult \<Rightarrow> 'w \<Rightarrow> UpgradeResult \<times> 'w" where
  "upgrade_multus D opt r w =
     (if ud_K8s D \<and> \<not> uo_DryRun opt then
        (case EnsureMultusTokenWatch (ud_multus D) False w of
           (_, Some e, w1) \<Rightarrow> (r, w1)
         | (mh, None, w1) \<Rightarrow> (r\<lparr>ur_Multus := Some mh\<rparr>, w1))
      else (r, w))"

(* src/internal/k8s/migrate/upgrade.go:221-250 Upgrade part *)
definition upgrade_flo ::
  "('w, 'e, 'c, 'v) upgrade_deps \<Rightarrow> 'v UpgradeOptions \<Rightarrow> 'v helm_release \<Rightarrow> UpgradeResult \<Rightarrow> 'w \<Rightarrow>
   ('w, 'e) progress" where
  "upgrade_flo D opt existing r w =
     (let r1 = r\<lparr>ur_FLOFrom := hl_chartVersion existing\<rparr>;
          values = (case uo_Values opt of None \<Rightarrow> hl_Config existing | Some v \<Rightarrow> v);
          host = (if uo_RegistryHost opt = [] then FARRegistryHost else uo_RegistryHost opt);
          ref = ''oci://'' @ host @ ''/charts/f5-lifecycle-operator''
      in if ur_FLOFrom r1 = ur_FLOTo r1 then done_with r1 w
         else if uo_DryRun opt then done_with r1 w
         else (case ud_helm_pull D ref (ur_FLOTo r1) w of
             Inl e \<Rightarrow> failed (Early (PullChart e)) r1 w
           | Inr chart \<Rightarrow>
               (case ud_helm_upgrade D chart values w of
                  (Some e, w1) \<Rightarrow> failed (Early (HelmUpgrade e)) r1 w1
                | (None, w1) \<Rightarrow> done_with (r1\<lparr>ur_FLOUpgraded := True\<rparr>) w1)))"

(* src/internal/k8s/migrate/upgrade.go:252-278 Upgrade part *)
definition upgrade_cne ::
  "('w, 'e, 'c, 'v) upgrade_deps \<Rightarrow> 'v UpgradeOptions \<Rightarrow> UpgradeResult \<Rightarrow> 'w \<Rightarrow> ('w, 'e) progress" where
  "upgrade_cne D opt r w =
     (if \<not> ud_Dyn D then failed (Early NoDynamicClient) r w
      else (case findCNEInstance D (uo_Namespace opt) (uo_CNEInstanceName opt) w of
          Inl e \<Rightarrow> failed (Early e) r w
        | Inr cne \<Rightarrow>
            let r1 = r\<lparr>ur_CNEInstance := cne_GetName cne, ur_ManifestFrom := cne_manifestVersion cne\<rparr>;
                (patch, changed) = cneInstancePatch cne (ur_ManifestTo r) (uo_ServiceCIDR opt)
            in if \<not> changed then done_with r1 w
               else if uo_DryRun opt then done_with r1 w
               else (case ud_patch_cne D (uo_Namespace opt) (cne_GetName cne) patch w of
                   (Some e, w1) \<Rightarrow> failed (Early (PatchCNE (cne_GetName cne) e)) r1 w1
                 | (None, w1) \<Rightarrow> done_with (r1\<lparr>ur_Patched := True\<rparr>) w1)))"

text \<open>Step 3a: \<open>None\<close> from the first wait, or a second one after the controller was recreated.\<close>

(* src/internal/k8s/migrate/upgrade.go:290-308 Upgrade part *)
definition upgrade_rendered ::
  "('w, 'e, 'c, 'v) upgrade_deps \<Rightarrow> 'v UpgradeOptions \<Rightarrow> UpgradeResult \<Rightarrow> 'w \<Rightarrow> ('w, 'e) progress" where
  "upgrade_rendered D opt r w =
     (case waitControllerRendered D (uo_Namespace opt) (uo_RenderWait opt) (uo_Poll opt) w of
        None \<Rightarrow> None
      | Some (None, w1) \<Rightarrow> done_with r w1
      | Some (Some e, w1) \<Rightarrow>
          if e \<noteq> ControllerNotRendered then failed (Rollout_failed e) r w1
          else (case recreateCNEController D (uo_Namespace opt) (ur_CNEInstance r) w1 of
              (Some e', w2) \<Rightarrow> failed (Rollout_failed e') r w2
            | (None, w2) \<Rightarrow>
                (case waitControllerRendered D (uo_Namespace opt) (uo_Timeout opt) (uo_Poll opt) w2 of
                   None \<Rightarrow> None
                 | Some (None, w3) \<Rightarrow> done_with (r\<lparr>ur_ControllerRecreated := True\<rparr>) w3
                 | Some (Some e', w3) \<Rightarrow>
                     failed (Rollout_failed (AfterRecreate e')) (r\<lparr>ur_ControllerRecreated := True\<rparr>) w3)))"

(* src/internal/k8s/migrate/upgrade.go:309-320 Upgrade part *)
definition upgrade_controller ::
  "('w, 'e, 'c, 'v) upgrade_deps \<Rightarrow> 'v UpgradeOptions \<Rightarrow> UpgradeResult \<Rightarrow> 'w \<Rightarrow> ('w, 'e) progress" where
  "upgrade_controller D opt r w =
     (case wait_controller D opt w of
        (Some e, w1) \<Rightarrow> failed (Not_ready (DeploymentWait e)) r w1
      | (None, w1) \<Rightarrow>
          (case controllerPodsHaveFlag D (uo_Namespace opt) w1 of
             Inl e \<Rightarrow> failed (Rollout_failed e) r w1
           | Inr ok \<Rightarrow>
               if ok then done_with (r\<lparr>ur_ControllerReady := True\<rparr>) w1
               else failed (Not_ready FlagMissing) r w1))"

(* src/internal/k8s/migrate/upgrade.go:322-330 Upgrade part *)
definition upgrade_rbac ::
  "('w, 'e, 'c, 'v) upgrade_deps \<Rightarrow> 'v UpgradeOptions \<Rightarrow> UpgradeResult \<Rightarrow> 'w \<Rightarrow> ('w, 'e) progress" where
  "upgrade_rbac D opt r w =
     (if uo_ControllerRBAC opt \<noteq> [] \<and> ud_Applier D then
        (case ensureControllerRBAC D opt w of
           ((_, Some e), w1) \<Rightarrow> failed e r w1
         | ((applied, None), w1) \<Rightarrow> done_with (r\<lparr>ur_RBACApplied := applied\<rparr>) w1)
      else done_with r w)"

(* src/internal/k8s/migrate/upgrade.go:332-337 Upgrade part *)
definition upgrade_condition ::
  "('w, 'e, 'c, 'v) upgrade_deps \<Rightarrow> 'v UpgradeOptions \<Rightarrow> string \<Rightarrow> UpgradeResult \<Rightarrow> 'w \<Rightarrow> ('w, 'e) progress" where
  "upgrade_condition D opt cond r w =
     (case WaitConditionTrue D (uo_Namespace opt) (ur_CNEInstance r) cond (uo_Timeout opt) (uo_Poll opt) w of
        None \<Rightarrow> None
      | Some (None, w1) \<Rightarrow> done_with r w1
      | Some (Some e, w1) \<Rightarrow> failed (Not_ready e) r w1)"

(* src/internal/k8s/migrate/upgrade.go:338-348 Upgrade part *)
definition upgrade_tmm ::
  "('w, 'e, 'c, 'v) upgrade_deps \<Rightarrow> 'v UpgradeOptions \<Rightarrow> UpgradeResult \<Rightarrow> 'w \<Rightarrow> ('w, 'e) progress" where
  "upgrade_tmm D opt r w =
     (if ud_K8s D then
        (case waitTMMReady D (uo_Namespace opt) (uo_Timeout opt) (uo_Poll opt) w of
           None \<Rightarrow> None
         | Some ((ready, all, e), w1) \<Rightarrow> Some (e, r\<lparr>ur_TMMReady := ready, ur_TMMTotal := all\<rparr>, w1))
      else done_with (r\<lparr>ur_ControllerReady := True\<rparr>) w)"

(* src/internal/k8s/migrate/upgrade.go:285-350 Upgrade part *)
definition upgrade_rollout ::
  "('w, 'e, 'c, 'v) upgrade_deps \<Rightarrow> 'v UpgradeOptions \<Rightarrow> UpgradeResult \<Rightarrow> 'w \<Rightarrow> ('w, 'e) progress" where
  "upgrade_rollout D opt r w =
     (case WaitForCRDExists (ud_poll D) (ud_crd D) (uo_Timeout opt) w of
        (Some e, w1) \<Rightarrow> failed (Rollout_failed (InfraCRDMissing e)) r w1
      | (None, w1) \<Rightarrow>
          and_then (and_then (and_then
            (if ud_K8s D then
               and_then (and_then (upgrade_rendered D opt r w1) (upgrade_controller D opt)) (upgrade_rbac D opt)
             else done_with r w1)
            (upgrade_condition D opt ''CNEControllerAvailable''))
            (upgrade_condition D opt ''F5TmmAvailable''))
            (upgrade_tmm D opt))"

definition new_result :: "string \<Rightarrow> string \<Rightarrow> bool \<Rightarrow> UpgradeResult" where
  "new_result chart target dry =
     \<lparr>ur_Schema = ''awsbnkctl.bnk-upgrade/v1'', ur_FLOFrom = [], ur_FLOTo = chart, ur_FLOUpgraded = False,
      ur_CNEInstance = [], ur_ManifestFrom = [], ur_ManifestTo = target, ur_Patched = False,
      ur_ControllerReady = False, ur_TMMReady = 0, ur_TMMTotal = 0, ur_DryRun = dry,
      ur_ControllerRecreated = False, ur_RBACApplied = False, ur_LogStreamEnabled = False, ur_Multus = None\<rparr>"

definition upgrade_steps ::
  "('w, 'e, 'c, 'v) upgrade_deps \<Rightarrow> 'v UpgradeOptions \<Rightarrow> 'v helm_release \<Rightarrow> UpgradeResult \<Rightarrow> 'w \<Rightarrow> ('w, 'e) progress" where
  "upgrade_steps D opt existing r w =
     and_then (and_then (upgrade_flo D opt existing r w) (upgrade_cne D opt))
       (\<lambda>r' w'. if uo_DryRun opt then done_with r' w' else upgrade_rollout D opt r' w')"

text \<open>Without a result, the code returned \<open>nil\<close> beside its error.\<close>

(* src/internal/k8s/migrate/upgrade.go:165-351 Upgrade *)
definition Upgrade ::
  "('w, 'e, 'c, 'v) upgrade_deps \<Rightarrow> 'v UpgradeOptions \<Rightarrow> 'w \<Rightarrow>
   ('e up_error option \<times> UpgradeResult option \<times> 'w) option" where
  "Upgrade D opts w =
     (let opt = upgrade_defaults opts;
          version = fst (CanonicalManifestVersion (uo_ManifestVersion opt));
          target = (if version = [] then DefaultManifestVersion else version)
      in case (if uo_FLOChart opt \<noteq> [] then Some (uo_FLOChart opt) else FLOChartFor target) of
           None \<Rightarrow> Some (Some (Early (UnknownRelease target)), None, w)
         | Some chart \<Rightarrow>
             (case upgrade_multus D opt (new_result chart target (uo_DryRun opt)) w of (r, w1) \<Rightarrow>
                if \<not> ud_Helm D then Some (Some (Early NoHelmClient), None, w1)
                else (case ud_helm_list D w1 of
                    Inl e \<Rightarrow> Some (Some (Early (ListRelease e)), None, w1)
                  | Inr [] \<Rightarrow> Some (Some (Early ReleaseNotFound), None, w1)
                  | Inr (existing # _) \<Rightarrow>
                      map_option (\<lambda>(e, r', w'). (e, Some r', w')) (upgrade_steps D opt existing r w1))))"

end
