(* ===== verification/UpgradeClaims.thy ===== *)
theory UpgradeClaims
  imports Upgrade
begin

text \<open>
  What the in-place upgrade promises: its waits end, its patch of the CNEInstance settles
  after one application, and success means the cluster runs the target.
\<close>

subsection \<open>The waits\<close>

lemma poll_loop_Ready:
  assumes "poll_loop now sleep check deadline poll l w = Some (Finished r, w')"
  shows "\<exists>l'. check l' w' = Ready r"
proof -
  have "\<exists>l'. case fst y of Finished r \<Rightarrow> check l' (snd y) = Ready r | _ \<Rightarrow> True"
    if "poll_loop now sleep check deadline poll l w = Some y" for y
    by (rule poll_loop.raw_induct [OF _ that,
          where P = "\<lambda>_ _ check _ _ _ _ y. \<exists>l'. case fst y of Finished r \<Rightarrow> check l' (snd y) = Ready r | _ \<Rightarrow> True"])
      (auto split: checked.splits if_splits option.splits prod.splits)
  from this [OF assms] show ?thesis by simp
qed

text \<open>A positive sleep that is not interrupted lets the clock advance.\<close>

definition clock_advances :: "('w, 'e, 'c, 'v) upgrade_deps \<Rightarrow> bool" where
  "clock_advances D \<longleftrightarrow> (\<forall>d w w'. 0 < d \<and> ud_sleep D d w = (None, w') \<longrightarrow> ud_now D w < ud_now D w')"

lemma poll_loop_ends:
  assumes "clock_advances D" and "0 < poll"
  shows "\<exists>r w'. poll_loop (ud_now D) (ud_sleep D) check deadline poll l w = Some (r, w')"
  using poll_loop_terminates [of "ud_sleep D" poll "ud_now D" check deadline l w] assms
  by (auto simp: clock_advances_def)

lemma waitControllerRendered_ends:
  "clock_advances D \<Longrightarrow> 0 < poll \<Longrightarrow> waitControllerRendered D ns timeout poll w \<noteq> None"
  using poll_loop_ends by (auto simp: waitControllerRendered_def) fastforce

lemma waitTMMReady_ends:
  "clock_advances D \<Longrightarrow> 0 < poll \<Longrightarrow> waitTMMReady D ns timeout poll w \<noteq> None"
  using poll_loop_ends by (auto simp: waitTMMReady_def) fastforce

lemma WaitConditionTrue_ends:
  "clock_advances D \<Longrightarrow> 0 < poll \<Longrightarrow> WaitConditionTrue D ns name cond timeout poll w \<noteq> None"
  using poll_loop_ends by (auto simp: WaitConditionTrue_def) fastforce

lemma waitTMMReady_ok:
  assumes "waitTMMReady D ns timeout poll w = Some ((ready, all, None), w')"
  shows "0 < all \<and> ready = all \<and> tmmReady D ns w' = Inr (ready, all)"
proof -
  define check where "check = (\<lambda>(_ :: int \<times> int) w. case tmmReady D ns w of
      Inl f \<Rightarrow> Broken f
    | Inr (ready, all) \<Rightarrow> if all > 0 \<and> ready = all then Ready (ready, all) else Again (ready, all))"
  from assms obtain a where a:
      "poll_loop (ud_now D) (ud_sleep D) check (ud_now D w + timeout) poll (0, 0) w = Some (a, w')"
      "(case a of
          Finished (ready, all) \<Rightarrow> (ready, all, None)
        | Errored f \<Rightarrow> (0, 0, Some (Rollout_failed f))
        | TimedOut (ready, all) \<Rightarrow> (ready, all, Some (Not_ready (TMMNotReady ready all)))
        | Interrupted_wait e (ready, all) \<Rightarrow> (ready, all, Some (Rollout_failed (ContextEnded e)))) =
       (ready, all, None)"
    unfolding waitTMMReady_def check_def [symmetric] by auto
  then have "a = Finished (ready, all)" by (cases a) (auto split: prod.splits)
  with a have "poll_loop (ud_now D) (ud_sleep D) check (ud_now D w + timeout) poll (0, 0) w =
      Some (Finished (ready, all), w')" by simp
  from poll_loop_Ready [OF this] show ?thesis
    by (auto simp: check_def split: sum.splits prod.splits if_splits)
qed

text \<open>A condition the instance reports as true.\<close>

definition reports_true :: "string \<Rightarrow> any list \<Rightarrow> bool" where
  "reports_true cond conds \<longleftrightarrow> (\<exists>m. AMap m \<in> set conds \<and>
     map_of m ''type'' = Some (AString cond) \<and> map_of m ''status'' = Some (AString ''True''))"

lemma condition_named_Some: "condition_named cond c = Some m \<longleftrightarrow> c = AMap m \<and> map_of m ''type'' = Some (AString cond)"
  by (cases c) auto

lemma conditionTrue_reports: "fst (conditionTrue cond seen conds) \<Longrightarrow> reports_true cond conds"
  by (induction cond seen conds rule: conditionTrue.induct)
    (auto simp: reports_true_def condition_named_Some split: option.splits if_splits)

lemma WaitConditionTrue_ok:
  assumes "WaitConditionTrue D ns name cond timeout poll w = Some (None, w')"
  shows "\<exists>conds. ud_cne_conditions D ns name w' = Got conds \<and> reports_true cond conds"
proof -
  define check where "check = (\<lambda>seen w. case ud_cne_conditions D ns name w of
      GotNotFound _ \<Rightarrow> Again seen
    | GotError e \<Rightarrow> Broken (GetCondition name e)
    | Got conds \<Rightarrow>
        (case conditionTrue cond (NoConditionYet cond) conds of (True, _) \<Rightarrow> Ready () | (False, desc) \<Rightarrow> Again desc))"
  from assms obtain a where a:
      "poll_loop (ud_now D) (ud_sleep D) check (ud_now D w + timeout) poll ConditionNotFound w = Some (a, w')"
      "(case a of Finished _ \<Rightarrow> None | Errored f \<Rightarrow> Some f | TimedOut l \<Rightarrow> Some (ConditionTimeout cond l)
        | Interrupted_wait e _ \<Rightarrow> Some (WaitCancelled e)) = None"
    unfolding WaitConditionTrue_def check_def [symmetric] by auto
  then have "a = Finished ()" by (cases a) auto
  with a have "poll_loop (ud_now D) (ud_sleep D) check (ud_now D w + timeout) poll ConditionNotFound w =
      Some (Finished (), w')" by simp
  from poll_loop_Ready [OF this] obtain conds where "ud_cne_conditions D ns name w' = Got conds"
    "fst (conditionTrue cond (NoConditionYet cond) conds)"
    by (cases "ud_cne_conditions D ns name w'")
      (auto simp: check_def split: prod.splits if_splits bool.splits)
  with conditionTrue_reports show ?thesis by blast
qed

text \<open>What every sleep keeps, a wait keeps.\<close>

lemma poll_loop_keeps:
  assumes "\<And>w. hist w \<subseteq> hist (snd (sleep poll w))"
    and "poll_loop now sleep check deadline poll l w = Some (r, w')"
  shows "hist w \<subseteq> hist w'"
proof -
  have "(\<forall>w. hist w \<subseteq> hist (snd (sleep poll w))) \<longrightarrow> hist w \<subseteq> hist (snd y)"
    if "poll_loop now sleep check deadline poll l w = Some y" for y
    by (rule poll_loop.raw_induct [OF _ that,
          where P = "\<lambda>_ sleep _ _ poll _ w y. (\<forall>w. hist w \<subseteq> hist (snd (sleep poll w))) \<longrightarrow> hist w \<subseteq> hist (snd y)"])
      (auto split: checked.splits if_splits option.splits prod.splits; metis snd_conv subsetD)
  from this [OF assms(2)] assms(1) show ?thesis by simp
qed

subsection \<open>The steps\<close>

definition ends :: "('w, 'e) progress \<Rightarrow> bool" where
  "ends x \<longleftrightarrow> x \<noteq> None"

text \<open>What holds of the result and the world when a step succeeds.\<close>

definition post :: "(UpgradeResult \<Rightarrow> 'w \<Rightarrow> bool) \<Rightarrow> ('w, 'e) progress \<Rightarrow> bool" where
  "post Q x \<longleftrightarrow> (\<forall>r w. x = Some (None, r, w) \<longrightarrow> Q r w)"

text \<open>A step that leaves the world alone, whether it succeeds or not.\<close>

definition reads_only :: "'w \<Rightarrow> ('w, 'e) progress \<Rightarrow> bool" where
  "reads_only w x \<longleftrightarrow> (\<forall>e r w'. x = Some (e, r, w') \<longrightarrow> w' = w)"

named_theorems steps

lemma ends_simps [steps]: "ends (failed e r w)" "ends (done_with r w)" "ends (Some x)" "\<not> ends None"
  by (simp_all add: ends_def failed_def done_with_def)

lemma post_simps [steps]: "post Q (failed e r w)" "post Q (done_with r w) = Q r w" "post Q None"
  by (simp_all add: post_def failed_def done_with_def)

lemma reads_only_simps [steps]:
  "reads_only w (failed e r w')  \<longleftrightarrow> w' = w" "reads_only w (done_with r w') \<longleftrightarrow> w' = w" "reads_only w None"
  by (auto simp: reads_only_def failed_def done_with_def)

lemma ends_and_then: "ends x \<Longrightarrow> (\<And>r w. ends (f r w)) \<Longrightarrow> ends (and_then x f)"
  by (auto simp: ends_def and_then_def split: option.splits prod.splits)

lemma post_and_then: "post Q x \<Longrightarrow> (\<And>r w. Q r w \<Longrightarrow> post R (f r w)) \<Longrightarrow> post R (and_then x f)"
  by (auto simp: post_def and_then_def split: option.splits prod.splits)

lemma reads_only_and_then:
  "reads_only w x \<Longrightarrow> (\<And>r. reads_only w (f r w)) \<Longrightarrow> reads_only w (and_then x f)"
  by (fastforce simp: reads_only_def and_then_def split: option.splits prod.splits)

lemma upgrade_flo_ends: "ends (upgrade_flo D opt ex r w)"
  by (auto simp: upgrade_flo_def Let_def steps split: option.splits sum.splits prod.splits)

lemma upgrade_cne_ends: "ends (upgrade_cne D opt r w)"
  by (auto simp: upgrade_cne_def Let_def steps split: option.splits sum.splits prod.splits)

lemma upgrade_rbac_ends: "ends (upgrade_rbac D opt r w)"
  by (simp add: upgrade_rbac_def steps split: option.splits prod.splits)

lemma upgrade_controller_ends: "ends (upgrade_controller D opt r w)"
  by (simp add: upgrade_controller_def steps split: option.splits sum.splits prod.splits)

text \<open>Every step ends while the polls are positive.\<close>

lemma upgrade_rendered_ends:
  "clock_advances D \<Longrightarrow> 0 < uo_Poll opt \<Longrightarrow> ends (upgrade_rendered D opt r w)"
  by (auto simp: waitControllerRendered_ends upgrade_rendered_def steps split: option.splits prod.splits)

lemma upgrade_condition_ends:
  "clock_advances D \<Longrightarrow> 0 < uo_Poll opt \<Longrightarrow> ends (upgrade_condition D opt cond r w)"
  by (auto simp: WaitConditionTrue_ends upgrade_condition_def steps split: option.splits prod.splits)

lemma upgrade_tmm_ends:
  "clock_advances D \<Longrightarrow> 0 < uo_Poll opt \<Longrightarrow> ends (upgrade_tmm D opt r w)"
  by (auto simp: waitTMMReady_ends upgrade_tmm_def steps split: option.splits prod.splits)

lemma upgrade_rollout_ends:
  assumes "clock_advances D" and "0 < uo_Poll opt"
  shows "ends (upgrade_rollout D opt r w)"
  unfolding upgrade_rollout_def
  by (auto simp: steps split: option.splits prod.splits
      intro!: ends_and_then upgrade_rendered_ends upgrade_controller_ends upgrade_rbac_ends
        upgrade_condition_ends upgrade_tmm_ends assms)

lemma upgrade_steps_ends:
  assumes "clock_advances D" and "0 < uo_Poll opt"
  shows "ends (upgrade_steps D opt ex r w)"
  unfolding upgrade_steps_def
  by (auto simp: steps intro!: ends_and_then upgrade_flo_ends upgrade_cne_ends upgrade_rollout_ends assms)

lemma defaults_poll: "0 < uo_Poll (upgrade_defaults opts)"
  by (simp add: upgrade_defaults_def Second_def)

lemma defaults_fields [simp]:
  "uo_DryRun (upgrade_defaults opts) = uo_DryRun opts" "uo_FLOChart (upgrade_defaults opts) = uo_FLOChart opts"
  "uo_ManifestVersion (upgrade_defaults opts) = uo_ManifestVersion opts"
  by (simp_all add: upgrade_defaults_def)

text \<open>A dry run reads.\<close>

lemma flo_reads_only: "uo_DryRun opt \<Longrightarrow> reads_only w (upgrade_flo D opt ex r w)"
  by (simp add: upgrade_flo_def Let_def steps)

lemma cne_reads_only: "uo_DryRun opt \<Longrightarrow> reads_only w (upgrade_cne D opt r w)"
  by (auto simp: upgrade_cne_def Let_def steps split: sum.splits prod.splits)

lemma steps_reads_only: "uo_DryRun opt \<Longrightarrow> reads_only w (upgrade_steps D opt ex r w)"
  unfolding upgrade_steps_def
  by (auto simp: steps intro!: reads_only_and_then flo_reads_only cne_reads_only)

subsection \<open>What was done\<close>

text \<open>
  A world that remembers in \<open>hist\<close> which Helm upgrades and which patches of a CNEInstance the cluster
  took. A poll that ends well saw its condition.
\<close>

datatype ('c, 'v) upgrade_event = Helm_moved 'c 'v | Cne_patched string string cne_patch

definition tracks_upgrade ::
  "('w, 'e, 'c, 'v) upgrade_deps \<Rightarrow> ('w \<Rightarrow> ('c, 'v) upgrade_event set) \<Rightarrow> bool" where
  "tracks_upgrade D hist \<longleftrightarrow>
     (\<forall>chart values w. hist w \<subseteq> hist (snd (ud_helm_upgrade D chart values w)) \<and>
        (fst (ud_helm_upgrade D chart values w) = None \<longrightarrow>
           Helm_moved chart values \<in> hist (snd (ud_helm_upgrade D chart values w)))) \<and>
     (\<forall>ns name p w. hist w \<subseteq> hist (snd (ud_patch_cne D ns name p w)) \<and>
        (fst (ud_patch_cne D ns name p w) = None \<longrightarrow> Cne_patched ns name p \<in> hist (snd (ud_patch_cne D ns name p w)))) \<and>
     (\<forall>i t f w. hist w \<subseteq> hist (snd (ud_poll D i t f w)) \<and>
        (fst (ud_poll D i t f w) = None \<longrightarrow> f (snd (ud_poll D i t f w)) = PollDone)) \<and>
     (\<forall>d w. hist w \<subseteq> hist (snd (ud_sleep D d w))) \<and>
     (\<forall>ns name w. hist w \<subseteq> hist (snd (ud_delete_controller D ns name w))) \<and>
     (\<forall>m w. hist w \<subseteq> hist (snd (ud_apply D m w))) \<and> (\<forall>ns w. hist w \<subseteq> hist (snd (ud_restart D ns w)))"

text \<open>The operator's chart for the target was installed, unless the release already had it.\<close>

definition operator_moved ::
  "('w, 'e, 'c, 'v) upgrade_deps \<Rightarrow> ('w \<Rightarrow> ('c, 'v) upgrade_event set) \<Rightarrow> 'v UpgradeOptions \<Rightarrow> UpgradeResult \<Rightarrow>
   'w \<Rightarrow> bool" where
  "operator_moved D hist opt r w \<longleftrightarrow>
     (\<exists>ex others w0. ud_helm_list D w0 = Inr (ex # others) \<and> ur_FLOFrom r = hl_chartVersion ex \<and>
        (if hl_chartVersion ex = ur_FLOTo r then \<not> ur_FLOUpgraded r
         else ur_FLOUpgraded r \<and>
           (\<exists>chart w1. ud_helm_pull D (''oci://'' @ (if uo_RegistryHost opt = [] then FARRegistryHost else uo_RegistryHost opt) @
                ''/charts/f5-lifecycle-operator'') (ur_FLOTo r) w1 = Inr chart \<and>
              Helm_moved chart (case uo_Values opt of None \<Rightarrow> hl_Config ex | Some v \<Rightarrow> v) \<in> hist w)))"

text \<open>The CNEInstance was patched to the target manifest, unless the patch changes nothing.\<close>

definition instance_moved ::
  "('w, 'e, 'c, 'v) upgrade_deps \<Rightarrow> ('w \<Rightarrow> ('c, 'v) upgrade_event set) \<Rightarrow> 'v UpgradeOptions \<Rightarrow> UpgradeResult \<Rightarrow>
   'w \<Rightarrow> bool" where
  "instance_moved D hist opt r w \<longleftrightarrow>
     (\<exists>cne w0. findCNEInstance D (uo_Namespace opt) (uo_CNEInstanceName opt) w0 = Inr cne \<and>
        ur_CNEInstance r = cne_GetName cne \<and>
        (case cneInstancePatch cne (ur_ManifestTo r) (uo_ServiceCIDR opt) of (p, changed) \<Rightarrow>
           ur_Patched r = changed \<and> (changed \<longrightarrow> Cne_patched (uo_Namespace opt) (cne_GetName cne) p \<in> hist w)))"

definition moved ::
  "('w, 'e, 'c, 'v) upgrade_deps \<Rightarrow> ('w \<Rightarrow> ('c, 'v) upgrade_event set) \<Rightarrow> 'v UpgradeOptions \<Rightarrow> UpgradeResult \<Rightarrow>
   'w \<Rightarrow> bool" where
  "moved D hist opt r w \<longleftrightarrow> operator_moved D hist opt r w \<and> instance_moved D hist opt r w"

text \<open>After that the controller's deployment was available with the flag on every pod, at one moment.\<close>

definition controller_moved ::
  "('w, 'e, 'c, 'v) upgrade_deps \<Rightarrow> ('w \<Rightarrow> ('c, 'v) upgrade_event set) \<Rightarrow> 'v UpgradeOptions \<Rightarrow> UpgradeResult \<Rightarrow> bool" where
  "controller_moved D hist opt r \<longleftrightarrow>
     (\<exists>w d. ud_deployment_status D (uo_Namespace opt) w = Some d \<and> deployment_ready d \<and>
        controllerPodsHaveFlag D (uo_Namespace opt) w = Inr True \<and> moved D hist opt r w)"

definition condition_met ::
  "('w, 'e, 'c, 'v) upgrade_deps \<Rightarrow> ('w \<Rightarrow> ('c, 'v) upgrade_event set) \<Rightarrow> 'v UpgradeOptions \<Rightarrow> string \<Rightarrow>
   UpgradeResult \<Rightarrow> bool" where
  "condition_met D hist opt cond r \<longleftrightarrow>
     (\<exists>w conds. ud_cne_conditions D (uo_Namespace opt) (ur_CNEInstance r) w = Got conds \<and> reports_true cond conds \<and>
        moved D hist opt r w)"

lemma moved_later: "moved D hist opt r w \<Longrightarrow> hist w \<subseteq> hist w' \<Longrightarrow> moved D hist opt r w'"
  unfolding moved_def operator_moved_def instance_moved_def
  by (fastforce split: if_splits prod.splits)

lemma operator_moved_later: "operator_moved D hist opt r w \<Longrightarrow> hist w \<subseteq> hist w' \<Longrightarrow> operator_moved D hist opt r w'"
  unfolding operator_moved_def by (fastforce split: if_splits)

lemma operator_moved_updates [simp]:
  "operator_moved D hist opt (r\<lparr>ur_CNEInstance := a\<rparr>) w = operator_moved D hist opt r w"
  "operator_moved D hist opt (r\<lparr>ur_ManifestFrom := a\<rparr>) w = operator_moved D hist opt r w"
  "operator_moved D hist opt (r\<lparr>ur_Patched := b\<rparr>) w = operator_moved D hist opt r w"
  "operator_moved D hist opt (r\<lparr>ur_ControllerReady := b\<rparr>) w = operator_moved D hist opt r w"
  "operator_moved D hist opt (r\<lparr>ur_RBACApplied := b\<rparr>) w = operator_moved D hist opt r w"
  "operator_moved D hist opt (r\<lparr>ur_ControllerRecreated := b\<rparr>) w = operator_moved D hist opt r w"
  "operator_moved D hist opt (r\<lparr>ur_TMMReady := i\<rparr>) w = operator_moved D hist opt r w"
  "operator_moved D hist opt (r\<lparr>ur_TMMTotal := i\<rparr>) w = operator_moved D hist opt r w"
  by (simp_all add: operator_moved_def)

text \<open>What the rollout fills in of the result does not matter to what was done before.\<close>

lemma moved_updates [simp]:
  "moved D hist opt (r\<lparr>ur_ControllerReady := b\<rparr>) w = moved D hist opt r w"
  "moved D hist opt (r\<lparr>ur_RBACApplied := b\<rparr>) w = moved D hist opt r w"
  "moved D hist opt (r\<lparr>ur_ControllerRecreated := b\<rparr>) w = moved D hist opt r w"
  "moved D hist opt (r\<lparr>ur_TMMReady := i\<rparr>) w = moved D hist opt r w"
  "moved D hist opt (r\<lparr>ur_TMMTotal := i\<rparr>) w = moved D hist opt r w"
  by (simp_all add: moved_def instance_moved_def)

lemma controller_moved_updates [simp]:
  "controller_moved D hist opt (r\<lparr>ur_ControllerReady := b\<rparr>) = controller_moved D hist opt r"
  "controller_moved D hist opt (r\<lparr>ur_RBACApplied := b\<rparr>) = controller_moved D hist opt r"
  "controller_moved D hist opt (r\<lparr>ur_TMMReady := i\<rparr>) = controller_moved D hist opt r"
  "controller_moved D hist opt (r\<lparr>ur_TMMTotal := i\<rparr>) = controller_moved D hist opt r"
  by (simp_all add: controller_moved_def)

lemma condition_met_updates [simp]:
  "condition_met D hist opt cond (r\<lparr>ur_ControllerReady := b\<rparr>) = condition_met D hist opt cond r"
  "condition_met D hist opt cond (r\<lparr>ur_TMMReady := i\<rparr>) = condition_met D hist opt cond r"
  "condition_met D hist opt cond (r\<lparr>ur_TMMTotal := i\<rparr>) = condition_met D hist opt cond r"
  by (simp_all add: condition_met_def)

text \<open>What the result names as the target.\<close>

definition aims :: "string \<Rightarrow> string \<Rightarrow> UpgradeResult \<Rightarrow> bool" where
  "aims chart target r \<longleftrightarrow> ur_FLOTo r = chart \<and> ur_ManifestTo r = target"

lemma aims_updates [simp]:
  "aims c t (r\<lparr>ur_CNEInstance := a\<rparr>) = aims c t r" "aims c t (r\<lparr>ur_ManifestFrom := a\<rparr>) = aims c t r"
  "aims c t (r\<lparr>ur_FLOFrom := a\<rparr>) = aims c t r" "aims c t (r\<lparr>ur_FLOUpgraded := b\<rparr>) = aims c t r"
  "aims c t (r\<lparr>ur_Patched := b\<rparr>) = aims c t r" "aims c t (r\<lparr>ur_ControllerReady := b\<rparr>) = aims c t r"
  "aims c t (r\<lparr>ur_RBACApplied := b\<rparr>) = aims c t r" "aims c t (r\<lparr>ur_ControllerRecreated := b\<rparr>) = aims c t r"
  "aims c t (r\<lparr>ur_TMMReady := i\<rparr>) = aims c t r" "aims c t (r\<lparr>ur_TMMTotal := i\<rparr>) = aims c t r"
  by (simp_all add: aims_def)

subsection \<open>What each step establishes\<close>

lemma tracks_grow:
  assumes "tracks_upgrade D hist"
  shows "ud_helm_upgrade D chart values w = (e, w') \<Longrightarrow> hist w \<subseteq> hist w' \<and> (e = None \<longrightarrow> Helm_moved chart values \<in> hist w')"
    and "ud_patch_cne D ns name p w = (e, w') \<Longrightarrow> hist w \<subseteq> hist w' \<and> (e = None \<longrightarrow> Cne_patched ns name p \<in> hist w')"
    and "ud_poll D i t f w = (e, w') \<Longrightarrow> hist w \<subseteq> hist w' \<and> (e = None \<longrightarrow> f w' = PollDone)"
    and "hist w \<subseteq> hist (snd (ud_sleep D d w))"
    and "ud_delete_controller D ns name w = (g, w') \<Longrightarrow> hist w \<subseteq> hist w'"
    and "ud_apply D m w = (e, w') \<Longrightarrow> hist w \<subseteq> hist w'"
    and "ud_restart D ns w = (e, w') \<Longrightarrow> hist w \<subseteq> hist w'"
  using assms unfolding tracks_upgrade_def by (metis fst_conv snd_conv)+

lemma flo_post:
  assumes T: "tracks_upgrade D hist" and "\<not> uo_DryRun opt" and "\<not> ur_FLOUpgraded r" and "aims chart target r"
    and "ud_helm_list D w0 = Inr (ex # others)"
  shows "post (\<lambda>r' w'. aims chart target r' \<and> operator_moved D hist opt r' w') (upgrade_flo D opt ex r w)"
  using assms tracks_grow(1) [OF T]
  by (auto simp: upgrade_flo_def Let_def steps operator_moved_def split: sum.splits option.splits prod.splits) blast+

lemma cne_post:
  assumes T: "tracks_upgrade D hist" and "\<not> uo_DryRun opt" and "\<not> ur_Patched r" and "aims chart target r"
    and "operator_moved D hist opt r w"
  shows "post (\<lambda>r' w'. aims chart target r' \<and> moved D hist opt r' w') (upgrade_cne D opt r w)"
  using assms tracks_grow(2) [OF T] operator_moved_later [OF assms(5)]
  by (auto simp: upgrade_cne_def Let_def steps moved_def instance_moved_def
      split: sum.splits option.splits prod.splits)

lemma waitControllerRendered_keeps:
  assumes "tracks_upgrade D hist" and "waitControllerRendered D ns timeout poll w = Some (e, w')"
  shows "hist w \<subseteq> hist w'"
  using assms(2) poll_loop_keeps [where hist = hist and sleep = "ud_sleep D", OF tracks_grow(4) [OF assms(1)]]
  by (fastforce simp: waitControllerRendered_def)

lemma WaitConditionTrue_keeps:
  assumes "tracks_upgrade D hist" and "WaitConditionTrue D ns name cond timeout poll w = Some (e, w')"
  shows "hist w \<subseteq> hist w'"
  using assms(2) poll_loop_keeps [where hist = hist and sleep = "ud_sleep D", OF tracks_grow(4) [OF assms(1)]]
  by (fastforce simp: WaitConditionTrue_def)

lemma waitTMMReady_keeps:
  assumes "tracks_upgrade D hist" and "waitTMMReady D ns timeout poll w = Some (x, w')"
  shows "hist w \<subseteq> hist w'"
  using assms(2) poll_loop_keeps [where hist = hist and sleep = "ud_sleep D", OF tracks_grow(4) [OF assms(1)]]
  by (fastforce simp: waitTMMReady_def)

lemma recreate_keeps:
  assumes T: "tracks_upgrade D hist" and "recreateCNEController D ns name w = (e, w')"
  shows "hist w \<subseteq> hist w'"
  using assms(2)
  by (auto simp: recreateCNEController_def Let_def split: prod.splits got.splits sum.splits option.splits
      dest!: tracks_grow(5) [OF T])

lemma wait_controller_ok:
  assumes T: "tracks_upgrade D hist" and "wait_controller D opt w = (e, w')"
  shows "hist w \<subseteq> hist w' \<and>
    (e = None \<longrightarrow> (\<exists>d. ud_deployment_status D (uo_Namespace opt) w' = Some d \<and> deployment_ready d))"
  using tracks_grow(3) [OF T assms(2) [unfolded wait_controller_def WaitForDeploymentReady_def]]
  by (auto simp: poll_read_def poll_when_def split: option.splits if_splits)

lemma apply_all_keeps:
  assumes T: "tracks_upgrade D hist"
  shows "apply_all D objs w = (e, w') \<Longrightarrow> hist w \<subseteq> hist w'"
  by (induction objs arbitrary: w) (auto split: prod.splits option.splits dest: tracks_grow(6) [OF T])

lemma rbac_keeps:
  assumes T: "tracks_upgrade D hist" and "ensureControllerRBAC D opt w = (x, w')"
  shows "hist w \<subseteq> hist w'"
  using assms(2)
  by (auto simp: ensureControllerRBAC_def split: sum.splits if_splits prod.splits option.splits
      dest!: apply_all_keeps [OF T] tracks_grow(7) [OF T] wait_controller_ok [OF T])

text \<open>The state of a rollout before and after the controller was looked at.\<close>

definition on_target where
  "on_target D hist opt chart target r w \<longleftrightarrow> aims chart target r \<and> moved D hist opt r w"

definition on_controller where
  "on_controller D hist opt chart target r w \<longleftrightarrow> on_target D hist opt chart target r w \<and>
     controller_moved D hist opt r \<and> ur_ControllerReady r"

lemma on_target_later: "on_target D hist opt c t r w \<Longrightarrow> hist w \<subseteq> hist w' \<Longrightarrow> on_target D hist opt c t r w'"
  unfolding on_target_def by (auto intro: moved_later)

lemma on_controller_later:
  "on_controller D hist opt c t r w \<Longrightarrow> hist w \<subseteq> hist w' \<Longrightarrow> on_controller D hist opt c t r w'"
  unfolding on_controller_def by (auto intro: on_target_later)

lemma rendered_post:
  assumes T: "tracks_upgrade D hist" and "on_target D hist opt c t r w"
  shows "post (\<lambda>r' w'. on_target D hist opt c t r' w') (upgrade_rendered D opt r w)"
  using on_target_later [OF assms(2)]
  by (auto simp: upgrade_rendered_def steps on_target_def split: option.splits prod.splits
      dest!: waitControllerRendered_keeps [OF T] recreate_keeps [OF T])

lemma controller_post:
  assumes T: "tracks_upgrade D hist" and "on_target D hist opt c t r w"
  shows "post (\<lambda>r' w'. on_controller D hist opt c t r' w') (upgrade_controller D opt r w)"
proof -
  have "on_controller D hist opt c t (r\<lparr>ur_ControllerReady := True\<rparr>) w1"
    if w1: "wait_controller D opt w = (None, w1)" "controllerPodsHaveFlag D (uo_Namespace opt) w1 = Inr True" for w1
  proof -
    from wait_controller_ok [OF T w1(1)] obtain d where d: "hist w \<subseteq> hist w1"
      "ud_deployment_status D (uo_Namespace opt) w1 = Some d" "deployment_ready d" by auto
    have "on_target D hist opt c t r w1" using on_target_later [OF assms(2) d(1)] .
    with d(2,3) w1(2) show ?thesis by (auto simp: on_controller_def on_target_def controller_moved_def)
  qed
  then show ?thesis by (auto simp: upgrade_controller_def steps split: option.splits sum.splits prod.splits)
qed

lemma rbac_post:
  assumes T: "tracks_upgrade D hist" and "on_controller D hist opt c t r w"
  shows "post (\<lambda>r' w'. on_controller D hist opt c t r' w') (upgrade_rbac D opt r w)"
proof -
  have "on_controller D hist opt c t (r\<lparr>ur_RBACApplied := b\<rparr>) w1"
    if "ensureControllerRBAC D opt w = ((b, None), w1)" for b w1
    using on_controller_later [OF assms(2) rbac_keeps [OF T that]] by (simp add: on_controller_def on_target_def)
  with assms(2) show ?thesis by (auto simp: upgrade_rbac_def steps split: option.splits prod.splits)
qed

lemma condition_post:
  assumes T: "tracks_upgrade D hist" and "Q r w \<and> on_target D hist opt c t r w"
    and keep: "\<And>w'. hist w \<subseteq> hist w' \<Longrightarrow> Q r w'"
  shows "post (\<lambda>r' w'. Q r' w' \<and> on_target D hist opt c t r' w' \<and> condition_met D hist opt cond r')
    (upgrade_condition D opt cond r w)"
proof -
  have "Q r w1 \<and> on_target D hist opt c t r w1 \<and> condition_met D hist opt cond r"
    if w1: "WaitConditionTrue D (uo_Namespace opt) (ur_CNEInstance r) cond (uo_Timeout opt) (uo_Poll opt) w = Some (None, w1)"
    for w1
  proof -
    have "hist w \<subseteq> hist w1" using WaitConditionTrue_keeps [OF T w1] .
    then have "Q r w1" "on_target D hist opt c t r w1" using keep assms(2) by (auto intro: on_target_later)
    with WaitConditionTrue_ok [OF w1] show ?thesis by (auto simp: condition_met_def on_target_def)
  qed
  then show ?thesis by (auto simp: upgrade_condition_def steps split: option.splits prod.splits)
qed

text \<open>What a successful rollout leaves behind, and what holds of the world it ends in.\<close>

definition rolled_out ::
  "('w, 'e, 'c, 'v) upgrade_deps \<Rightarrow> 'v UpgradeOptions \<Rightarrow> UpgradeResult \<Rightarrow> 'w \<Rightarrow> bool" where
  "rolled_out D opt r w \<longleftrightarrow> ur_ControllerReady r \<and>
     (if ud_K8s D then
        0 < ur_TMMTotal r \<and> ur_TMMReady r = ur_TMMTotal r \<and>
        tmmReady D (uo_Namespace opt) w = Inr (ur_TMMReady r, ur_TMMTotal r)
      else True)"

definition controller_part where
  "controller_part D hist opt r \<longleftrightarrow> (if ud_K8s D then controller_moved D hist opt r \<and> ur_ControllerReady r else True)"

lemma tmm_post:
  assumes T: "tracks_upgrade D hist" and "on_target D hist opt c t r w" and "controller_part D hist opt r"
    and "condition_met D hist opt a r" and "condition_met D hist opt b r"
  shows "post (\<lambda>r' w'. on_target D hist opt c t r' w' \<and> rolled_out D opt r' w' \<and>
      (if ud_K8s D then controller_moved D hist opt r' else True) \<and>
      condition_met D hist opt a r' \<and> condition_met D hist opt b r') (upgrade_tmm D opt r w)"
proof (cases "ud_K8s D")
  case True
  have "on_target D hist opt c t r w1"
    if "waitTMMReady D (uo_Namespace opt) (uo_Timeout opt) (uo_Poll opt) w = Some (x, w1)" for x w1
    using on_target_later [OF assms(2) waitTMMReady_keeps [OF T that]] .
  with assms(3-5) True show ?thesis
    by (auto simp: upgrade_tmm_def steps rolled_out_def post_def controller_part_def on_target_def
        dest: waitTMMReady_ok split: option.splits prod.splits)
next
  case False
  with assms show ?thesis by (simp add: upgrade_tmm_def steps rolled_out_def on_target_def)
qed

definition success ::
  "('w, 'e, 'c, 'v) upgrade_deps \<Rightarrow> ('w \<Rightarrow> ('c, 'v) upgrade_event set) \<Rightarrow> 'v UpgradeOptions \<Rightarrow> string \<Rightarrow> string \<Rightarrow>
   UpgradeResult \<Rightarrow> 'w \<Rightarrow> bool" where
  "success D hist opt chart target r w \<longleftrightarrow> on_target D hist opt chart target r w \<and> rolled_out D opt r w \<and>
     (if ud_K8s D then controller_moved D hist opt r else True) \<and>
     condition_met D hist opt ''CNEControllerAvailable'' r \<and> condition_met D hist opt ''F5TmmAvailable'' r"

lemma rollout_post:
  assumes T: "tracks_upgrade D hist" and "on_target D hist opt c t r w"
  shows "post (\<lambda>r' w'. success D hist opt c t r' w') (upgrade_rollout D opt r w)"
proof -
  let ?R = "\<lambda>r' w'. controller_part D hist opt r' \<and> on_target D hist opt c t r' w'"
  have k8s: "post ?R (if ud_K8s D then
      and_then (and_then (upgrade_rendered D opt r w1) (upgrade_controller D opt)) (upgrade_rbac D opt)
      else done_with r w1)" if "on_target D hist opt c t r w1" for w1
  proof (cases "ud_K8s D")
    case True
    have "post (on_controller D hist opt c t)
        (and_then (and_then (upgrade_rendered D opt r w1) (upgrade_controller D opt)) (upgrade_rbac D opt))"
      by (rule post_and_then [OF post_and_then [OF rendered_post [OF T that] controller_post [OF T]] rbac_post [OF T]])
    with True show ?thesis by (auto simp: post_def on_controller_def controller_part_def)
  qed (use that in \<open>simp add: steps controller_part_def\<close>)
  have first: "post (\<lambda>r' w'. controller_part D hist opt r' \<and> on_target D hist opt c t r' w' \<and> condition_met D hist opt a r')
      (upgrade_condition D opt a r' w')" if "?R r' w'" for r' w' a
    using that by (intro condition_post [OF T, where Q = "\<lambda>r _. controller_part D hist opt r"]) simp_all
  have second: "post (\<lambda>r' w'. (controller_part D hist opt r' \<and> condition_met D hist opt a r') \<and>
        on_target D hist opt c t r' w' \<and> condition_met D hist opt b r')
      (upgrade_condition D opt b r' w')"
    if "controller_part D hist opt r' \<and> on_target D hist opt c t r' w' \<and> condition_met D hist opt a r'" for r' w' a b
    using that
    by (intro condition_post [OF T, where Q = "\<lambda>r _. controller_part D hist opt r \<and> condition_met D hist opt a r"]) simp_all
  have "post (\<lambda>r' w'. success D hist opt c t r' w')
      (and_then (and_then (and_then (if ud_K8s D then
          and_then (and_then (upgrade_rendered D opt r w1) (upgrade_controller D opt)) (upgrade_rbac D opt)
        else done_with r w1)
        (upgrade_condition D opt ''CNEControllerAvailable''))
        (upgrade_condition D opt ''F5TmmAvailable''))
        (upgrade_tmm D opt))" if "on_target D hist opt c t r w1" for w1
    by (rule post_and_then [OF post_and_then [OF post_and_then [OF k8s [OF that] first] second]])
      (auto simp: success_def intro!: tmm_post [OF T])
  then show ?thesis
    using on_target_later [OF assms(2)]
    unfolding upgrade_rollout_def WaitForCRDExists_def
    by (auto simp: steps split: option.splits prod.splits dest!: tracks_grow(3) [OF T])
qed

lemma steps_post:
  assumes T: "tracks_upgrade D hist" and "\<not> uo_DryRun opt" and "\<not> ur_FLOUpgraded r" and "\<not> ur_Patched r"
    and "aims chart target r" and "ud_helm_list D w0 = Inr (ex # others)"
  shows "post (\<lambda>r' w'. success D hist opt chart target r' w') (upgrade_steps D opt ex r w)"
proof -
  let ?Q = "\<lambda>r' w'. (aims chart target r' \<and> operator_moved D hist opt r' w') \<and> \<not> ur_Patched r'"
  have patched: "post (\<lambda>r' w'. \<not> ur_Patched r') (upgrade_flo D opt ex r w)"
    using assms(4) by (auto simp: upgrade_flo_def Let_def steps split: sum.splits option.splits prod.splits)
  have "post ?Q (upgrade_flo D opt ex r w)"
    using flo_post [OF T assms(2,3,5,6), of w] patched by (simp add: post_def)
  then have "post (\<lambda>r' w'. on_target D hist opt chart target r' w') (and_then (upgrade_flo D opt ex r w) (upgrade_cne D opt))"
    by (rule post_and_then) (use cne_post [OF T assms(2)] in \<open>auto simp: on_target_def\<close>)
  then show ?thesis
    unfolding upgrade_steps_def
    by (rule post_and_then) (use assms(2) rollout_post [OF T] in simp)
qed

subsection \<open>The patch\<close>

text \<open>A list that already carries what \<open>upsertEnv\<close> would set.\<close>

definition carries_env :: "string \<Rightarrow> string \<Rightarrow> bool \<Rightarrow> any list \<Rightarrow> bool" where
  "carries_env name value overwrite env \<longleftrightarrow>
     list_ex (names_entry name) env \<and>
     (if overwrite then list_all (\<lambda>e. if names_entry name e then has_value value e else True) env else True)"

lemma env_entry_facts [simp]:
  "names_entry n (env_entry m v) \<longleftrightarrow> m = n" "has_value v (env_entry m v') \<longleftrightarrow> v' = v"
  by (auto simp: env_entry_def)

lemma names_entry_unique: "names_entry n e \<Longrightarrow> names_entry m e \<longleftrightarrow> m = n"
  by (cases e) auto

lemma upsert_one_names [simp]: "names_entry m (upsert_one n v ow e) = names_entry m e"
  by (auto simp: upsert_one_def names_entry_unique)

lemma fst_upsertEnv:
  "fst (upsertEnv env n v ow) =
     map (upsert_one n v ow) env @ (if \<exists>e \<in> set env. names_entry n e then [] else [env_entry n v])"
  by (simp add: upsertEnv_def Let_def list_ex_iff)

lemma snd_upsertEnv:
  "snd (upsertEnv env n v ow) \<longleftrightarrow>
     \<not> (\<exists>e \<in> set env. names_entry n e) \<or> ow \<and> (\<exists>e \<in> set env. names_entry n e \<and> \<not> has_value v e)"
  by (auto simp: upsertEnv_def Let_def list_ex_iff)

lemma upsert_one_id: "\<not> (names_entry n e \<and> ow \<and> \<not> has_value v e) \<Longrightarrow> upsert_one n v ow e = e"
  by (auto simp: upsert_one_def)

lemma upserted_has: "names_entry n (upsert_one n v True e) \<Longrightarrow> has_value v (upsert_one n v True e)"
  by (auto simp: upsert_one_def)

lemma carries_env_iff:
  "carries_env n v ow env \<longleftrightarrow>
     (\<exists>e \<in> set env. names_entry n e) \<and> (ow \<longrightarrow> (\<forall>e \<in> set env. names_entry n e \<longrightarrow> has_value v e))"
  by (auto simp: carries_env_def list_ex_iff list_all_iff)

lemma upsertEnv_unchanged: "\<not> snd (upsertEnv env n v ow) \<Longrightarrow> fst (upsertEnv env n v ow) = env"
  by (auto simp: snd_upsertEnv fst_upsertEnv intro!: map_idI upsert_one_id)

lemma upsertEnv_same: "upsertEnv env n v ow = (env', False) \<Longrightarrow> env' = env"
  using upsertEnv_unchanged [of env n v ow] by simp

lemma upsertEnv_carried: "carries_env n v ow env \<Longrightarrow> upsertEnv env n v ow = (env, False)"
  using upsertEnv_unchanged [of env n v ow]
  by (auto simp: carries_env_iff snd_upsertEnv intro!: prod_eqI)

lemma upsertEnv_carries: "carries_env n v ow (fst (upsertEnv env n v ow))"
  by (cases ow) (auto simp: carries_env_iff fst_upsertEnv intro: upserted_has)

lemma upsertEnv_keeps:
  "n \<noteq> m \<Longrightarrow> carries_env m v ow env \<Longrightarrow> carries_env m v ow (fst (upsertEnv env n v' ow'))"
  by (auto simp: carries_env_iff fst_upsertEnv upsert_one_def names_entry_unique)

lemma upsertEnv_others:
  "(\<And>e. names_entry n e \<Longrightarrow> \<not> P e) \<Longrightarrow> filter P (fst (upsertEnv env n v ow)) = filter P env"
proof -
  assume no: "\<And>e. names_entry n e \<Longrightarrow> \<not> P e"
  then have "filter P (map (upsert_one n v ow) es) = filter P es" for es
    by (induction es) (auto simp: upsert_one_def)
  with no show ?thesis by (simp add: fst_upsertEnv)
qed

text \<open>The four lists the patch goes through.\<close>

definition ctrl_upserts :: "any list \<Rightarrow> any list" where
  "ctrl_upserts env = fst (upsertEnv (fst (upsertEnv env UseGatewaySettingsEnv ''true'' True)) MaxActiveTMMEnv ''32'' False)"

definition tmm_upserts :: "string \<Rightarrow> any list \<Rightarrow> any list" where
  "tmm_upserts cidr env =
     (let env1 = fst (upsertEnv env ''ZEBOS_STATE'' ''legacy'' False)
      in if cidr \<noteq> [] then fst (upsertEnv env1 TMMK8sRoutesEnv cidr False) else env1)"

lemmas env_names = UseGatewaySettingsEnv_def MaxActiveTMMEnv_def TMMK8sRoutesEnv_def

lemma cneInstancePatch_fst:
  "fst (cneInstancePatch cne target cidr) =
     \<lparr>cp_manifestVersion = target, cp_controllerEnv = ctrl_upserts (cne_controllerEnv cne),
      cp_tmmEnv = tmm_upserts cidr (cne_tmmEnv cne)\<rparr>"
  by (simp add: cneInstancePatch_def ctrl_upserts_def tmm_upserts_def Let_def split: prod.splits)

lemma ctrl_upserts_carry:
  "carries_env UseGatewaySettingsEnv ''true'' True (ctrl_upserts env)"
  "carries_env MaxActiveTMMEnv ''32'' False (ctrl_upserts env)"
  by (simp_all add: ctrl_upserts_def upsertEnv_carries upsertEnv_keeps env_names)

lemma tmm_upserts_carry:
  "carries_env ''ZEBOS_STATE'' ''legacy'' False (tmm_upserts cidr env)"
  "cidr \<noteq> [] \<Longrightarrow> carries_env TMMK8sRoutesEnv cidr False (tmm_upserts cidr env)"
  by (simp_all add: tmm_upserts_def Let_def upsertEnv_carries upsertEnv_keeps env_names)

lemma cneInstancePatch_settled:
  assumes "cne_manifestVersion cne = target"
    and "carries_env UseGatewaySettingsEnv ''true'' True (cne_controllerEnv cne)"
    and "carries_env MaxActiveTMMEnv ''32'' False (cne_controllerEnv cne)"
    and "carries_env ''ZEBOS_STATE'' ''legacy'' False (cne_tmmEnv cne)"
    and "cidr \<noteq> [] \<Longrightarrow> carries_env TMMK8sRoutesEnv cidr False (cne_tmmEnv cne)"
  shows "cneInstancePatch cne target cidr =
     (\<lparr>cp_manifestVersion = target, cp_controllerEnv = cne_controllerEnv cne, cp_tmmEnv = cne_tmmEnv cne\<rparr>, False)"
  using assms by (simp add: cneInstancePatch_def upsertEnv_carried)

text \<open>The instance after the merge patch.\<close>

definition patched_cne :: "cne_patch \<Rightarrow> cne_instance \<Rightarrow> cne_instance" where
  "patched_cne p cne =
     cne\<lparr>cne_manifestVersion := cp_manifestVersion p, cne_controllerEnv := cp_controllerEnv p,
         cne_tmmEnv := cp_tmmEnv p\<rparr>"

definition foreign_entry :: "string list \<Rightarrow> any \<Rightarrow> bool" where
  "foreign_entry names e \<longleftrightarrow> \<not> list_ex (\<lambda>n. names_entry n e) names"

lemma ctrl_upserts_foreign:
  "filter (foreign_entry [UseGatewaySettingsEnv, MaxActiveTMMEnv]) (ctrl_upserts env) =
   filter (foreign_entry [UseGatewaySettingsEnv, MaxActiveTMMEnv]) env"
  by (simp add: ctrl_upserts_def upsertEnv_others foreign_entry_def)

lemma tmm_upserts_foreign:
  "filter (foreign_entry [''ZEBOS_STATE'', TMMK8sRoutesEnv]) (tmm_upserts cidr env) =
   filter (foreign_entry [''ZEBOS_STATE'', TMMK8sRoutesEnv]) env"
  by (simp add: tmm_upserts_def Let_def upsertEnv_others foreign_entry_def)

subsection \<open>The whole upgrade\<close>

text \<open>Either an early error without a result, or the steps from a fresh result.\<close>

definition fresh_result :: "'v UpgradeOptions \<Rightarrow> UpgradeResult \<Rightarrow> bool" where
  "fresh_result opts r \<longleftrightarrow> \<not> ur_FLOUpgraded r \<and> \<not> ur_Patched r \<and> (if uo_DryRun opts then ur_Multus r = None else True)"

lemma multus_fresh:
  assumes "upgrade_multus D (upgrade_defaults opts) (new_result chart target dry) w = (r, w1)"
  shows "fresh_result opts r \<and> (uo_DryRun opts \<longrightarrow> w1 = w)"
  using assms
  by (auto simp: upgrade_multus_def fresh_result_def new_result_def split: if_splits prod.splits option.splits)

lemma multus_aims:
  "upgrade_multus D opt (new_result chart target dry) w = (r, w1) \<Longrightarrow> aims chart target r"
  by (auto simp: upgrade_multus_def aims_def new_result_def split: if_splits prod.splits option.splits)

text \<open>The manifest version asked for, and the chart that goes with it.\<close>

definition asked_manifest :: "'v UpgradeOptions \<Rightarrow> string" where
  "asked_manifest opts =
     (case fst (CanonicalManifestVersion (uo_ManifestVersion opts)) of [] \<Rightarrow> DefaultManifestVersion | v \<Rightarrow> v)"

definition asked_chart :: "'v UpgradeOptions \<Rightarrow> string option" where
  "asked_chart opts = (if uo_FLOChart opts \<noteq> [] then Some (uo_FLOChart opts) else FLOChartFor (asked_manifest opts))"

lemma Upgrade_cases:
  obtains (early) e w1 where "Upgrade D opts w = Some (Some (Early e), None, w1)" "uo_DryRun opts \<longrightarrow> w1 = w"
  | (steps) ex r w1 where
      "Upgrade D opts w =
         map_option (\<lambda>(e, r', w'). (e, Some r', w')) (upgrade_steps D (upgrade_defaults opts) ex r w1)"
      "fresh_result opts r" "uo_DryRun opts \<longrightarrow> w1 = w"
      "\<exists>chart. asked_chart opts = Some chart \<and> aims chart (asked_manifest opts) r"
      "\<exists>others. ud_helm_list D w1 = Inr (ex # others)"
proof -
  have asked: "asked_manifest opts = (if fst (CanonicalManifestVersion (uo_ManifestVersion opts)) = []
      then DefaultManifestVersion else fst (CanonicalManifestVersion (uo_ManifestVersion opts)))"
    by (simp add: asked_manifest_def split: list.split)
  define target where "target = asked_manifest opts"
  define chart where "chart = asked_chart opts"
  define start where "start ch = upgrade_multus D (upgrade_defaults opts) (new_result ch target (uo_DryRun opts)) w" for ch
  have U: "Upgrade D opts w =
    (case chart of None \<Rightarrow> Some (Some (Early (UnknownRelease target)), None, w)
     | Some ch \<Rightarrow> (case start ch of (r, w1) \<Rightarrow>
         if \<not> ud_Helm D then Some (Some (Early NoHelmClient), None, w1)
         else (case ud_helm_list D w1 of
             Inl e \<Rightarrow> Some (Some (Early (ListRelease e)), None, w1)
           | Inr [] \<Rightarrow> Some (Some (Early ReleaseNotFound), None, w1)
           | Inr (existing # _) \<Rightarrow>
               map_option (\<lambda>(e, r', w'). (e, Some r', w')) (upgrade_steps D (upgrade_defaults opts) existing r w1))))"
    by (simp only: Upgrade_def Let_def target_def chart_def start_def defaults_fields asked_chart_def asked)
  show ?thesis
  proof (cases chart)
    case None
    with U early show ?thesis by simp
  next
    case (Some ch)
    obtain r w1 where r: "start ch = (r, w1)" by fastforce
    note fresh = multus_fresh [OF r [unfolded start_def]] multus_aims [OF r [unfolded start_def]]
    show ?thesis
    proof (cases "ud_Helm D \<and> (\<exists>ex exs. ud_helm_list D w1 = Inr (ex # exs))")
      case True
      with U Some r fresh steps show ?thesis by (auto simp: chart_def target_def)
    next
      case False
      with U Some r fresh early show ?thesis by (auto split: sum.splits list.splits if_splits)
    qed
  qed
qed

subsection \<open>Claims\<close>

text \<open>
  C35 The patch of a CNEInstance settles after one application: on the patched instance it is the
  same patch and reports no change, so a repeated upgrade patches nothing. The patch leaves every
  other environment entry in place and in order, and every USE_GATEWAY_SETTINGS entry of the
  controller reads "true" afterwards; when it reports no change it is the instance as it is.
\<close>
theorem cne_patch_settles:
  "case cneInstancePatch cne target cidr of (p, changed) \<Rightarrow>
     cneInstancePatch (patched_cne p cne) target cidr = (p, False) \<and>
     filter (foreign_entry [UseGatewaySettingsEnv, MaxActiveTMMEnv]) (cp_controllerEnv p) =
       filter (foreign_entry [UseGatewaySettingsEnv, MaxActiveTMMEnv]) (cne_controllerEnv cne) \<and>
     filter (foreign_entry [''ZEBOS_STATE'', TMMK8sRoutesEnv]) (cp_tmmEnv p) =
       filter (foreign_entry [''ZEBOS_STATE'', TMMK8sRoutesEnv]) (cne_tmmEnv cne) \<and>
     carries_env UseGatewaySettingsEnv ''true'' True (cp_controllerEnv p) \<and>
     (changed \<or> patched_cne p cne = cne)"
proof -
  obtain p changed where p: "cneInstancePatch cne target cidr = (p, changed)" by fastforce
  then have p': "p = \<lparr>cp_manifestVersion = target, cp_controllerEnv = ctrl_upserts (cne_controllerEnv cne),
      cp_tmmEnv = tmm_upserts cidr (cne_tmmEnv cne)\<rparr>"
    using cneInstancePatch_fst [of cne target cidr] by simp
  then have "cneInstancePatch (patched_cne p cne) target cidr = (p, False)"
    by (simp add: patched_cne_def cneInstancePatch_settled ctrl_upserts_carry tmm_upserts_carry)
  moreover have "patched_cne p cne = cne" if "\<not> changed"
    using that p by (auto simp: cneInstancePatch_def patched_cne_def Let_def
        dest!: upsertEnv_same split: prod.splits if_splits)
  ultimately show ?thesis
    using p p' by (auto simp: ctrl_upserts_foreign tmm_upserts_foreign ctrl_upserts_carry)
qed


text \<open>
  C7 A dry run of the upgrade leaves the cluster as it is. A run that succeeds without being dry has
  named the chart and manifest asked for, and: Helm installed that chart, unless the release had it;
  the CNEInstance took the patch for that manifest, unless nothing was to change; given a typed client
  the controller's deployment was seen available with the flag on all its pods after both; each of the
  two conditions was seen true after both; and every TMM pod, at least one, is ready at the end.
\<close>
theorem upgrade_success:
  assumes "tracks_upgrade D hist" and "Upgrade D opts w = Some (e, r, w')"
  shows "if uo_DryRun opts then w' = w
    else case e of Some _ \<Rightarrow> True
      | None \<Rightarrow> (case r of None \<Rightarrow> False
          | Some res \<Rightarrow> (let opt = upgrade_defaults opts in
              asked_chart opts = Some (ur_FLOTo res) \<and> ur_ManifestTo res = asked_manifest opts \<and>
              operator_moved D hist opt res w' \<and> instance_moved D hist opt res w' \<and>
              (if ud_K8s D then controller_moved D hist opt res else True) \<and>
              condition_met D hist opt ''CNEControllerAvailable'' res \<and> condition_met D hist opt ''F5TmmAvailable'' res \<and>
              rolled_out D opt res w'))"
proof (cases D opts w rule: Upgrade_cases)
  case (steps ex r0 w1)
  from steps(1) assms(2)
  have "map_option (\<lambda>(e, r', w'). (e, Some r', w')) (upgrade_steps D (upgrade_defaults opts) ex r0 w1) = Some (e, r, w')"
    by simp
  then obtain res where s: "upgrade_steps D (upgrade_defaults opts) ex r0 w1 = Some (e, res, w')" "r = Some res"
    by (auto simp: map_option_eq_Some)
  show ?thesis
  proof (cases "uo_DryRun opts")
    case True
    with s steps steps_reads_only [of "upgrade_defaults opts" w1 D ex r0] show ?thesis
      by (auto simp: reads_only_def)
  next
    case False
    obtain chart others where c: "asked_chart opts = Some chart" "aims chart (asked_manifest opts) r0"
      "ud_helm_list D w1 = Inr (ex # others)" using steps(4,5) by blast
    have "post (\<lambda>r' w'. success D hist (upgrade_defaults opts) chart (asked_manifest opts) r' w')
        (upgrade_steps D (upgrade_defaults opts) ex r0 w1)"
      by (rule steps_post [OF assms(1) _ _ _ c(2,3)]) (use False steps(2) in \<open>simp_all add: fresh_result_def\<close>)
    with False s c(1) show ?thesis
      by (auto simp: post_def success_def on_target_def aims_def moved_def Let_def split: option.splits)
  qed
qed (use assms(2) in \<open>auto\<close>)

subsection \<open>Witnesses\<close>

text \<open>
  A cluster whose state is its clock and what was done to it: one release at the 2.3 chart, one CNEInstance, a controller
  that carries the flag from time 20 on and one ready TMM pod.
\<close>

definition sample_cne :: cne_instance where
  "sample_cne = \<lparr>cne_GetName = ''cne'', cne_manifestVersion = ''2.3.0'', cne_controllerEnv = [], cne_tmmEnv = []\<rparr>"

definition sample_multus :: "('w, string) multus_api" where
  "sample_multus = \<lparr>ma_get = \<lambda>_. GotNotFound ''no DaemonSet'', ma_starts = \<lambda>_. Inr [], ma_events = \<lambda>_. Inr [],
     ma_patch_args = \<lambda>_ w. (None, w), ma_restart = \<lambda>w. (None, w), ma_status = \<lambda>_. None,
     ma_poll = \<lambda>_ _ _ w. (None, w)\<rparr>"

type_synonym sample_world = "int \<times> (string, string) upgrade_event list"

definition sample_deps :: "(sample_world, string, string, string) upgrade_deps" where
  "sample_deps = \<lparr>ud_Helm = True, ud_Dyn = True, ud_K8s = True, ud_Applier = False, ud_multus = sample_multus,
     ud_helm_list = \<lambda>_. Inr [\<lparr>hl_chartVersion = ''2.21'', hl_Config = ''values''\<rparr>],
     ud_helm_pull = \<lambda>_ v _. Inr v, ud_helm_upgrade = \<lambda>c v (t, h). (None, t, Helm_moved c v # h),
     ud_get_cne = \<lambda>_ _ _. Inr sample_cne, ud_list_cne = \<lambda>_ _. Got [sample_cne],
     ud_patch_cne = \<lambda>ns name p (t, h). (None, t, Cne_patched ns name p # h), ud_crd = \<lambda>_. Some (),
     ud_poll = \<lambda>_ _ f w. (case f w of PollDone \<Rightarrow> None | _ \<Rightarrow> Some ''timed out'', w),
     ud_deployment = \<lambda>_ w. Got \<lparr>dp_containers = (if fst w < 20 then [] else [[(UseGatewaySettingsEnv, ''true'')]]),
       dp_serviceAccount = []\<rparr>,
     ud_deployment_status = \<lambda>_ _. Some \<lparr>ds_Replicas = 1, ds_AvailableReplicas = 1\<rparr>,
     ud_selector = \<lambda>_. Inr ''app=controller'',
     ud_pods = \<lambda>_ _ _. Inr [\<lparr>pd_containers = [[(UseGatewaySettingsEnv, ''true'')]], pd_containersReady = [True]\<rparr>],
     ud_cne_conditions = \<lambda>_ _ _. Got
       [AMap [(''type'', AString ''CNEControllerAvailable''), (''status'', AString ''True'')],
        AMap [(''type'', AString ''F5TmmAvailable''), (''status'', AString ''True'')]],
     ud_now = fst, ud_sleep = \<lambda>d (t, h). (None, t + d, h),
     ud_delete_controller = \<lambda>_ _ w. (Got (), w), ud_list_controllers = \<lambda>_ _. Inr [],
     ud_access = \<lambda>_ _. Inr True, ud_yaml = \<lambda>_. Inr [], ud_apply = \<lambda>_ w. (None, w), ud_restart = \<lambda>_ w. (None, w)\<rparr>"

definition sample_options :: "string UpgradeOptions" where
  "sample_options = \<lparr>uo_Namespace = [], uo_CNEInstanceName = [], uo_ManifestVersion = ''2.4.0'', uo_FLOChart = ''2.30'',
     uo_Values = None, uo_DryRun = False, uo_Timeout = 100, uo_Poll = 10, uo_RenderWait = 100,
     uo_ControllerRBAC = [], uo_ServiceCIDR = [], uo_RegistryHost = []\<rparr>"

lemma sample_clock: "clock_advances sample_deps"
  by (simp add: clock_advances_def sample_deps_def)

lemma sample_tracks: "tracks_upgrade sample_deps (\<lambda>w. set (snd w))"
  by (auto simp: tracks_upgrade_def sample_deps_def split: polled.splits)


lemma sample_upgrade_run:
  "case Upgrade sample_deps sample_options (0, []) of
     Some (None, Some r, t, h) \<Rightarrow> t = 20 \<and> length h = 2 \<and> ur_FLOUpgraded r \<and> ur_Patched r \<and> ur_TMMReady r = 1 | _ \<Rightarrow> False"
  by code_simp

theorem upgrade_success_witness:
  "\<exists>r h. Upgrade sample_deps sample_options (0, []) = Some (None, Some r, 20, h) \<and> ur_FLOFrom r \<noteq> ur_FLOTo r \<and>
     Helm_moved ''2.30'' ''values'' \<in> set h \<and>
     controller_moved sample_deps (\<lambda>w. set (snd w)) (upgrade_defaults sample_options) r \<and>
     rolled_out sample_deps (upgrade_defaults sample_options) r (20, h)"
proof -
  obtain r h where r: "Upgrade sample_deps sample_options (0, []) = Some (None, Some r, 20, h)" "ur_FLOUpgraded r"
  proof (cases "Upgrade sample_deps sample_options (0, [])")
    case None
    with sample_upgrade_run show ?thesis by simp
  next
    case (Some y)
    obtain e r t h where "y = (e, r, t, h)" by (cases y)
    with Some sample_upgrade_run that show ?thesis by (cases e; cases r) simp_all
  qed
  have fields: "\<not> uo_DryRun sample_options" "uo_FLOChart sample_options = ''2.30''" "uo_Values (upgrade_defaults sample_options) = None"
    "ud_K8s sample_deps" by (simp_all add: sample_options_def upgrade_defaults_def sample_deps_def)
  note won = upgrade_success [OF sample_tracks r(1), unfolded Let_def, simplified fields if_False option.case]
  from won have chart: "ur_FLOTo r = ''2.30''" by (simp add: asked_chart_def fields)
  from won have "operator_moved sample_deps (\<lambda>w. set (snd w)) (upgrade_defaults sample_options) r (20, h)" by simp
  with r(2) have "ur_FLOFrom r \<noteq> ur_FLOTo r \<and> Helm_moved ''2.30'' ''values'' \<in> set h"
    unfolding operator_moved_def chart fields option.case by (auto simp: sample_deps_def split: if_splits)
  with won r(1) show ?thesis by (auto simp: fields)
qed

end
