(* ===== verification/PhaseBase.thy ===== *)
theory PhaseBase
  imports IntentTypes StateEnv Tags GoAny Polling
begin

text \<open>
  What the provisioning phases of \<open>internal/aws/phases\<close> share: a computation on the cluster
  intent, the state and the AWS account, which may fail and (through its waits) may run for ever;
  the EC2 calls as parameters; the helpers of \<open>clients.go\<close>.
\<close>

subsection \<open>Computations\<close>

text \<open>
  A phase runs with the intent (\<open>cl\<close>, which phase 03 rewrites), the in-memory state (\<open>st\<close>) and
  the account and file system \<open>'w\<close>. \<open>None\<close> is divergence, \<open>Inl\<close> a returned error.
\<close>

record 'w run_state =
  rs_cl :: Cluster
  rs_st :: state
  rs_world :: 'w

type_synonym ('w, 'f, 'a) phase = "'w run_state \<Rightarrow> (('f + 'a) \<times> 'w run_state) option"

definition give :: "'a \<Rightarrow> ('w, 'f, 'a) phase" where
  "give x = (\<lambda>s. Some (Inr x, s))"

definition raise :: "'f \<Rightarrow> ('w, 'f, 'a) phase" where
  "raise e = (\<lambda>s. Some (Inl e, s))"

definition and_do :: "('w, 'f, 'a) phase \<Rightarrow> ('a \<Rightarrow> ('w, 'f, 'b) phase) \<Rightarrow> ('w, 'f, 'b) phase" where
  "and_do m f = (\<lambda>s. case m s of
       None \<Rightarrow> None
     | Some (Inl e, s') \<Rightarrow> Some (Inl e, s')
     | Some (Inr x, s') \<Rightarrow> f x s')"

text \<open>\<open>x, err := ...\<close> for code that goes on after an error.\<close>

definition outcome :: "('w, 'f, 'a) phase \<Rightarrow> ('w, 'g, 'f + 'a) phase" where
  "outcome m = (\<lambda>s. case m s of None \<Rightarrow> None | Some (r, s') \<Rightarrow> Some (Inr r, s'))"

definition ignoring :: "('w, 'f, 'a) phase \<Rightarrow> ('w, 'g, unit) phase" where
  "ignoring m = and_do (outcome m) (\<lambda>_. give ())"

fun for_each :: "('a \<Rightarrow> ('w, 'f, unit) phase) \<Rightarrow> 'a list \<Rightarrow> ('w, 'f, unit) phase" where
  "for_each f [] = give ()"
| "for_each f (x # xs) = and_do (f x) (\<lambda>_. for_each f xs)"

fun collect :: "('a \<Rightarrow> ('w, 'f, 'b) phase) \<Rightarrow> 'a list \<Rightarrow> ('w, 'f, 'b list) phase" where
  "collect f [] = give []"
| "collect f (x # xs) = and_do (f x) (\<lambda>y. and_do (collect f xs) (\<lambda>ys. give (y # ys)))"

definition intent :: "('w, 'f, Cluster) phase" where
  "intent = (\<lambda>s. Some (Inr (rs_cl s), s))"

definition set_intent :: "Cluster \<Rightarrow> ('w, 'f, unit) phase" where
  "set_intent c = (\<lambda>s. Some (Inr (), s\<lparr>rs_cl := c\<rparr>))"

definition st_get :: "string \<Rightarrow> ('w, 'f, string) phase" where
  "st_get key = (\<lambda>s. Some (Inr (Get (rs_st s) key), s))"

definition st_set :: "string \<Rightarrow> string \<Rightarrow> ('w, 'f, unit) phase" where
  "st_set key value = (\<lambda>s. Some (Inr (), s\<lparr>rs_st := Set_key key value (rs_st s)\<rparr>))"

text \<open>A call that reads the account, and one that may change it; the result may be an error.\<close>

definition query :: "('w \<Rightarrow> 'x) \<Rightarrow> ('w, 'f, 'x) phase" where
  "query q = (\<lambda>s. Some (Inr (q (rs_world s)), s))"

definition call :: "('w \<Rightarrow> 'x \<times> 'w) \<Rightarrow> ('w, 'f, 'x) phase" where
  "call c = (\<lambda>s. case c (rs_world s) of (x, w) \<Rightarrow> Some (Inr x, s\<lparr>rs_world := w\<rparr>))"

definition check_result :: "('e \<Rightarrow> 'f) \<Rightarrow> 'e + 'x \<Rightarrow> ('w, 'f, 'x) phase" where
  "check_result wrap r = (case r of Inl e \<Rightarrow> raise (wrap e) | Inr x \<Rightarrow> give x)"

definition check_err :: "('e \<Rightarrow> 'f) \<Rightarrow> 'e option \<Rightarrow> ('w, 'f, unit) phase" where
  "check_err wrap r = (case r of Some e \<Rightarrow> raise (wrap e) | None \<Rightarrow> give ())"

definition wrapping :: "('f \<Rightarrow> 'g) \<Rightarrow> ('w, 'f, 'a) phase \<Rightarrow> ('w, 'g, 'a) phase" where
  "wrapping wrap m = and_do (outcome m) (check_result wrap)"

subsection \<open>EC2\<close>

datatype selector = ByFilters "ec2_filter list" | ByIds "string list"

definition plain_filter :: "string \<Rightarrow> string list \<Rightarrow> ec2_filter" where
  "plain_filter name values = \<lparr>filter_Name = name, filter_Values = values\<rparr>"

record zone =
  zn_name :: "string option"
  zn_type :: "string option"

record subnet =
  su_id :: "string option"
  su_tags :: "(string option \<times> string option) list"

record igw =
  ig_id :: "string option"
  ig_vpcs :: "string option list"

datatype nat_state = NatPending | NatAvailable | NatFailed | NatDeleting | NatDeleted

record nat_gateway =
  ng_id :: "string option"
  ng_state :: nat_state
  ng_allocs :: "string option list"

record address =
  ad_alloc :: "string option"
  ad_assoc :: "string option"

record association =
  as_main :: bool
  as_id :: "string option"
  as_subnet :: "string option"

record route_table =
  rt_id :: "string option"
  rt_assocs :: "association list"

record attachment =
  at_id :: "string option"
  at_device :: "int option"

record eni =
  en_id :: "string option"
  en_available :: bool
  en_attachment :: "attachment option"

record instance_info =
  ii_id :: "string option"
  ii_terminated :: bool

datatype eice_state = EiceDeleted | EiceDeleteFailed string | EiceOther

record eice =
  ei_id :: "string option"
  ei_state :: eice_state

record security_group =
  sg_id :: "string option"
  sg_name :: "string option"
  sg_ingress :: "string list"
  sg_egress :: "string list"

datatype vpc_attribute = EnableDnsSupport | EnableDnsHostnames

datatype route_target = ViaGateway string | ViaNat string | ViaNothing

text \<open>
  The calls on the account. \<open>ec_codes\<close> are the error codes along an error's chain, outermost
  first. Instances come by reservation. \<open>ec_save\<close> is \<open>State.Save\<close>.
\<close>

record ('w, 'e) ec2 =
  ec_codes :: "'e \<Rightarrow> string list"
  ec_iter :: iteration
  ec_now :: "'w \<Rightarrow> int"
  ec_sleep :: "int \<Rightarrow> 'w \<Rightarrow> 'e option \<times> 'w"
  ec_save :: "state \<Rightarrow> 'w \<Rightarrow> 'e option \<times> 'w"
  ec_zones :: "ec2_filter list \<Rightarrow> 'w \<Rightarrow> 'e + zone list"
  ec_vpcs :: "ec2_filter list \<Rightarrow> 'w \<Rightarrow> 'e + string option list"
  ec_create_vpc :: "string \<Rightarrow> ec2_tag list \<Rightarrow> 'w \<Rightarrow> ('e + string) \<times> 'w"
  ec_modify_vpc :: "string \<Rightarrow> vpc_attribute \<Rightarrow> 'w \<Rightarrow> 'e option \<times> 'w"
  ec_delete_vpc :: "string \<Rightarrow> 'w \<Rightarrow> 'e option \<times> 'w"
  ec_subnets :: "ec2_filter list \<Rightarrow> 'w \<Rightarrow> 'e + subnet list"
  ec_create_subnet :: "string \<Rightarrow> string \<Rightarrow> string \<Rightarrow> ec2_tag list \<Rightarrow> 'w \<Rightarrow> ('e + string) \<times> 'w"
  ec_map_public :: "string \<Rightarrow> 'w \<Rightarrow> 'e option \<times> 'w"
  ec_delete_subnet :: "string \<Rightarrow> 'w \<Rightarrow> 'e option \<times> 'w"
  ec_igws :: "selector \<Rightarrow> 'w \<Rightarrow> 'e + igw list"
  ec_create_igw :: "ec2_tag list \<Rightarrow> 'w \<Rightarrow> ('e + string) \<times> 'w"
  ec_attach_igw :: "string \<Rightarrow> string \<Rightarrow> 'w \<Rightarrow> 'e option \<times> 'w"
  ec_detach_igw :: "string \<Rightarrow> string \<Rightarrow> 'w \<Rightarrow> 'e option \<times> 'w"
  ec_delete_igw :: "string \<Rightarrow> 'w \<Rightarrow> 'e option \<times> 'w"
  ec_addresses :: "selector \<Rightarrow> 'w \<Rightarrow> 'e + address list"
  ec_allocate :: "ec2_tag list \<Rightarrow> 'w \<Rightarrow> ('e + string) \<times> 'w"
  ec_release :: "string \<Rightarrow> 'w \<Rightarrow> 'e option \<times> 'w"
  ec_nats :: "selector \<Rightarrow> 'w \<Rightarrow> 'e + nat_gateway list"
  ec_create_nat :: "string \<Rightarrow> string \<Rightarrow> ec2_tag list \<Rightarrow> 'w \<Rightarrow> ('e + string) \<times> 'w"
  ec_delete_nat :: "string \<Rightarrow> 'w \<Rightarrow> 'e option \<times> 'w"
  ec_rtbs :: "ec2_filter list \<Rightarrow> 'w \<Rightarrow> 'e + route_table list"
  ec_create_rtb :: "string \<Rightarrow> ec2_tag list \<Rightarrow> 'w \<Rightarrow> ('e + string) \<times> 'w"
  ec_create_route :: "string \<Rightarrow> string \<Rightarrow> route_target \<Rightarrow> 'w \<Rightarrow> 'e option \<times> 'w"
  ec_associate :: "string \<Rightarrow> string \<Rightarrow> 'w \<Rightarrow> 'e option \<times> 'w"
  ec_disassociate :: "string \<Rightarrow> 'w \<Rightarrow> 'e option \<times> 'w"
  ec_delete_rtb :: "string \<Rightarrow> 'w \<Rightarrow> 'e option \<times> 'w"
  ec_enis :: "selector \<Rightarrow> 'w \<Rightarrow> 'e + eni list"
  ec_detach_eni :: "string \<Rightarrow> 'w \<Rightarrow> 'e option \<times> 'w"
  ec_delete_eni :: "string \<Rightarrow> 'w \<Rightarrow> 'e option \<times> 'w"
  ec_instances :: "selector \<Rightarrow> 'w \<Rightarrow> 'e + instance_info list list"
  ec_terminate :: "string list \<Rightarrow> 'w \<Rightarrow> 'e option \<times> 'w"
  ec_eices :: "selector \<Rightarrow> 'w \<Rightarrow> 'e + eice list"
  ec_delete_eice :: "string \<Rightarrow> 'w \<Rightarrow> 'e option \<times> 'w"
  ec_sgs :: "ec2_filter list \<Rightarrow> 'w \<Rightarrow> 'e + security_group list"
  ec_revoke_ingress :: "string \<Rightarrow> string list \<Rightarrow> 'w \<Rightarrow> 'e option \<times> 'w"
  ec_revoke_egress :: "string \<Rightarrow> string list \<Rightarrow> 'w \<Rightarrow> 'e option \<times> 'w"
  ec_delete_sg :: "string \<Rightarrow> 'w \<Rightarrow> 'e option \<times> 'w"

text \<open>The errors of the phases; \<open>NilPointer\<close> is a dereference of nil, which panics.\<close>

datatype 'e phase_error =
    Sdk string 'e
  | NotInState string
  | NatEnteredFailed string
  | WaitedTooLong string string
  | WaitCut 'e
  | EiceFailed string string
  | SaveFailed 'e
  | NilPointer
  | NoClusterBlock
  | FailedStatus string string
  | UnexpectedStatus string string
  | MissingFields string
  | NoSubnetInZone string
  | NoZones string
  | NoCapacity string "(string \<times> string) list"
  | TooLarge string
  | NoTemplate string

definition deref :: "'a option \<Rightarrow> ('w, 'e phase_error, 'a) phase" where
  "deref p = (case p of None \<Rightarrow> raise NilPointer | Some x \<Rightarrow> give x)"

definition save_state :: "('w, 'e) ec2 \<Rightarrow> ('w, 'e phase_error, unit) phase" where
  "save_state A = (\<lambda>s. case ec_save A (rs_st s) (rs_world s) of
       (None, w) \<Rightarrow> Some (Inr (), s\<lparr>rs_world := w\<rparr>)
     | (Some e, w) \<Rightarrow> Some (Inl (SaveFailed e), s\<lparr>rs_world := w\<rparr>))"

subsection \<open>Error codes\<close>

(* src/internal/aws/phases/clients.go:366-385 isNotFoundCode *)
definition isNotFoundCode :: "string \<Rightarrow> bool" where
  "isNotFoundCode code \<longleftrightarrow> code \<in>
     {''InvalidVpcID.NotFound'', ''InvalidSubnetID.NotFound'', ''InvalidRouteTableID.NotFound'',
      ''InvalidInternetGatewayID.NotFound'', ''InvalidNatGatewayID.NotFound'',
      ''InvalidAllocationID.NotFound'', ''InvalidNetworkInterfaceID.NotFound'',
      ''InvalidInstanceID.NotFound'', ''InvalidGroup.NotFound'',
      ''InvalidInstanceConnectEndpoint.NotFound'', ''InvalidInstanceConnectEndpointId.NotFound'',
      ''InvalidLaunchTemplateId.NotFound'', ''InvalidLaunchTemplateName.NotFoundException'',
      ''InvalidKeyPair.NotFound''}"

text \<open>Only the outermost code counts.\<close>

(* src/internal/aws/phases/clients.go:389-414 ignoreNotFound *)
definition ignoreNotFound :: "('w, 'e) ec2 \<Rightarrow> 'e option \<Rightarrow> 'e option" where
  "ignoreNotFound A err =
     (case err of
        None \<Rightarrow> None
      | Some e \<Rightarrow> (case ec_codes A e of
            [] \<Rightarrow> Some e
          | code # _ \<Rightarrow> if isNotFoundCode code then None else Some e))"

text \<open>Any code of the chain counts.\<close>

(* src/internal/aws/phases/clients.go:417-435 isDependencyViolation *)
definition isDependencyViolation :: "('w, 'e) ec2 \<Rightarrow> 'e option \<Rightarrow> bool" where
  "isDependencyViolation A err \<longleftrightarrow>
     (case err of None \<Rightarrow> False | Some e \<Rightarrow> ''DependencyViolation'' \<in> set (ec_codes A e))"

(* src/internal/aws/phases/phase04_igw.go:188-209 isDetachError *)
definition isDetachError :: "('w, 'e) ec2 \<Rightarrow> 'e option \<Rightarrow> bool" where
  "isDetachError A err \<longleftrightarrow>
     (case err of None \<Rightarrow> False
      | Some e \<Rightarrow> list_ex (\<lambda>c. c = ''Gateway.NotAttached'' \<or> c = ''InvalidInternetGatewayID.NotFound'') (ec_codes A e))"

subsection \<open>Waiting\<close>

text \<open>A check yields the error or success the loop returns, or \<open>None\<close> to go on.\<close>

definition wait_before ::
  "('w, 'e) ec2 \<Rightarrow> ('w \<Rightarrow> 'e phase_error option option) \<Rightarrow> int \<Rightarrow> int \<Rightarrow> 'e phase_error \<Rightarrow> ('w, 'e phase_error, unit) phase" where
  "wait_before A check timeout poll late = (\<lambda>s.
     map_option (\<lambda>(r, w). (case r of
          Decided None \<Rightarrow> Inr ()
        | Decided (Some e) \<Rightarrow> Inl e
        | OutOfTime \<Rightarrow> Inl late
        | Cut e \<Rightarrow> Inl (WaitCut e), s\<lparr>rs_world := w\<rparr>))
       (poll_before (ec_now A) (ec_sleep A) check (ec_now A (rs_world s) + timeout) poll (rs_world s)))"

definition Minute :: int where
  "Minute = 60 * Second"

subsection \<open>Rules\<close>

text \<open>
  \<open>keeps R m\<close>: whatever \<open>m\<close> returns, the state it leaves is related by \<open>R\<close> to the one it was
  given. \<open>returns m\<close>: \<open>m\<close> does not diverge.
\<close>

definition keeps :: "('w run_state \<Rightarrow> 'w run_state \<Rightarrow> bool) \<Rightarrow> ('w, 'f, 'a) phase \<Rightarrow> bool" where
  "keeps R m \<longleftrightarrow> (\<forall>s r s'. m s = Some (r, s') \<longrightarrow> R s s')"

definition preorder :: "('s \<Rightarrow> 's \<Rightarrow> bool) \<Rightarrow> bool" where
  "preorder R \<longleftrightarrow> (\<forall>s. R s s) \<and> (\<forall>a b c. R a b \<longrightarrow> R b c \<longrightarrow> R a c)"

named_theorems keeps_rules

lemma keeps_give [keeps_rules]: "preorder R \<Longrightarrow> keeps R (give x)"
  by (simp add: keeps_def give_def preorder_def)

lemma keeps_raise [keeps_rules]: "preorder R \<Longrightarrow> keeps R (raise e)"
  by (simp add: keeps_def raise_def preorder_def)

lemma keeps_and_do [keeps_rules]:
  "preorder R \<Longrightarrow> keeps R m \<Longrightarrow> (\<And>x. keeps R (f x)) \<Longrightarrow> keeps R (and_do m f)"
  by (fastforce simp: keeps_def and_do_def preorder_def split: option.splits prod.splits sum.splits)

lemma keeps_outcome [keeps_rules]: "keeps R m \<Longrightarrow> keeps R (outcome m)"
  by (fastforce simp: keeps_def outcome_def split: option.splits prod.splits)

lemma keeps_ignoring [keeps_rules]: "preorder R \<Longrightarrow> keeps R m \<Longrightarrow> keeps R (ignoring m)"
  by (simp add: ignoring_def keeps_rules)

lemma keeps_for_each [keeps_rules]: "preorder R \<Longrightarrow> (\<And>x. keeps R (f x)) \<Longrightarrow> keeps R (for_each f xs)"
  by (induction xs) (simp_all add: keeps_rules)

lemma keeps_collect [keeps_rules]: "preorder R \<Longrightarrow> (\<And>x. keeps R (f x)) \<Longrightarrow> keeps R (collect f xs)"
  by (induction xs) (simp_all add: keeps_rules)

lemma keeps_intent [keeps_rules]: "preorder R \<Longrightarrow> keeps R intent"
  by (simp add: keeps_def intent_def preorder_def)

lemma keeps_st_get [keeps_rules]: "preorder R \<Longrightarrow> keeps R (st_get k)"
  by (simp add: keeps_def st_get_def preorder_def)

lemma keeps_query [keeps_rules]: "preorder R \<Longrightarrow> keeps R (query q)"
  by (simp add: keeps_def query_def preorder_def)

lemma keeps_check_result [keeps_rules]: "preorder R \<Longrightarrow> keeps R (check_result w r)"
  by (auto simp: check_result_def intro: keeps_rules split: sum.splits)

lemma keeps_check_err [keeps_rules]: "preorder R \<Longrightarrow> keeps R (check_err w r)"
  by (auto simp: check_err_def intro: keeps_rules split: option.splits)

lemma keeps_wrapping [keeps_rules]: "preorder R \<Longrightarrow> keeps R m \<Longrightarrow> keeps R (wrapping w m)"
  by (simp add: wrapping_def keeps_rules)

lemma keeps_deref [keeps_rules]: "preorder R \<Longrightarrow> keeps R (deref p)"
  by (auto simp: deref_def intro: keeps_rules split: option.splits)

lemma keeps_if [keeps_rules]: "keeps R a \<Longrightarrow> keeps R b \<Longrightarrow> keeps R (if c then a else b)"
  by simp

text \<open>The account is untouched.\<close>

definition same_world :: "'w run_state \<Rightarrow> 'w run_state \<Rightarrow> bool" where
  "same_world s s' \<longleftrightarrow> rs_world s' = rs_world s"

lemma preorder_same_world [simp]: "preorder same_world"
  by (simp add: preorder_def same_world_def)

lemma same_world_st_set [keeps_rules]: "keeps same_world (st_set k v)"
  by (simp add: keeps_def st_set_def same_world_def)

lemma same_world_set_intent [keeps_rules]: "keeps same_world (set_intent c)"
  by (simp add: keeps_def set_intent_def same_world_def)

end
