(* ===== verification/PhaseNet.thy ===== *)
theory PhaseNet
  imports PhaseBase
begin

text \<open>
  Phases 02 to 06 of \<open>awsbnkctl up\<close> (\<open>internal/aws/phases/phase02_vpc.go\<close> to
  \<open>phase06_routetables.go\<close>): the VPC, its subnets, the internet gateway, the NAT gateway with its
  address, and the route tables. Each adopts what a tag query finds and creates the rest.
\<close>

definition query_sdk :: "string \<Rightarrow> ('w \<Rightarrow> 'e + 'x) \<Rightarrow> ('w, 'e phase_error, 'x) phase" where
  "query_sdk what q = and_do (query q) (check_result (Sdk what))"

definition call_sdk :: "string \<Rightarrow> ('w \<Rightarrow> ('e + 'x) \<times> 'w) \<Rightarrow> ('w, 'e phase_error, 'x) phase" where
  "call_sdk what c = and_do (call c) (check_result (Sdk what))"

definition run_sdk :: "string \<Rightarrow> ('w \<Rightarrow> 'e option \<times> 'w) \<Rightarrow> ('w, 'e phase_error, unit) phase" where
  "run_sdk what c = and_do (call c) (check_err (Sdk what))"

text \<open>The tags every resource of a component carries.\<close>

definition resource_tags :: "('w, 'e) ec2 \<Rightarrow> Cluster \<Rightarrow> string \<Rightarrow> ec2_tag list" where
  "resource_tags A cl component =
     Merge (ec_iter A) [Required (md_Name (cl_Metadata cl)) component, cl_Tags cl, md_Labels (cl_Metadata cl)]"

text \<open>The same with a \<open>Name\<close> of its own.\<close>

definition named_tags :: "('w, 'e) ec2 \<Rightarrow> Cluster \<Rightarrow> string \<Rightarrow> string \<Rightarrow> ec2_tag list" where
  "named_tags A cl component suffix =
     Merge (ec_iter A) [Required (md_Name (cl_Metadata cl)) component,
       [KeyName \<mapsto> md_Name (cl_Metadata cl) @ ''-'' @ suffix], cl_Tags cl, md_Labels (cl_Metadata cl)]"

subsection \<open>Phase 02: VPC\<close>

(* src/internal/aws/phases/phase02_vpc.go:336-352 findVPCsByTag *)
definition findVPCsByTag :: "('w, 'e) ec2 \<Rightarrow> string \<Rightarrow> 'w \<Rightarrow> 'e + string list" where
  "findVPCsByTag A name w =
     map_sum id (\<lambda>vpcs. filter (\<lambda>v. v \<noteq> []) (List.map_filter id vpcs)) (ec_vpcs A [ClusterFilter name] w)"

(* src/internal/aws/phases/phase02_vpc.go:327-333 findVPCByTag *)
definition findVPCByTag :: "('w, 'e) ec2 \<Rightarrow> string \<Rightarrow> 'w \<Rightarrow> 'e + string" where
  "findVPCByTag A name w =
     (case findVPCsByTag A name w of Inl e \<Rightarrow> Inl e | Inr [] \<Rightarrow> Inr [] | Inr (i # _) \<Rightarrow> Inr i)"

(* src/internal/aws/phases/phase02_vpc.go:20-76 Phase02VPC *)
definition Phase02VPC :: "('w, 'e) ec2 \<Rightarrow> bool \<Rightarrow> ('w, 'e phase_error, unit) phase" where
  "Phase02VPC A dryRun = and_do intent (\<lambda>cl.
     if dryRun then st_set ''VPC_ID'' ''dry-run-vpc''
     else
       and_do (query_sdk ''phase02: listing VPCs by tag'' (findVPCByTag A (md_Name (cl_Metadata cl)))) (\<lambda>existing.
       if existing \<noteq> [] then and_do (st_set ''VPC_ID'' existing) (\<lambda>_. save_state A)
       else
         and_do (call_sdk ''phase02: ec2:CreateVpc''
           (ec_create_vpc A (nw_VPCCidr (cl_Network cl)) (resource_tags A cl ''vpc''))) (\<lambda>vpcID.
         and_do (run_sdk ''phase02: enable DNS support'' (ec_modify_vpc A vpcID EnableDnsSupport)) (\<lambda>_.
         and_do (run_sdk ''phase02: enable DNS hostnames'' (ec_modify_vpc A vpcID EnableDnsHostnames)) (\<lambda>_.
         and_do (st_set ''VPC_ID'' vpcID) (\<lambda>_. save_state A))))))"

subsection \<open>Phase 03: subnets\<close>

definition zone_usable :: "zone \<Rightarrow> string option" where
  "zone_usable z =
     (case zn_name z of
        None \<Rightarrow> None
      | Some n \<Rightarrow>
          if n = [] then None
          else (case zn_type z of
              None \<Rightarrow> Some n
            | Some t \<Rightarrow> if t \<noteq> [] \<and> t \<noteq> ''availability-zone'' then None else Some n))"

definition zone_filters :: "ec2_filter list" where
  "zone_filters = [plain_filter ''state'' [''available''],
     plain_filter ''opt-in-status'' [''opt-in-not-required'', ''opted-in'']]"

definition zone_bad :: "string list \<Rightarrow> string \<Rightarrow> bool" where
  "zone_bad avail az \<longleftrightarrow> az = [] \<or> az = ''auto'' \<or> az \<notin> set avail"

definition cluster_zones :: "string list \<Rightarrow> string list \<Rightarrow> string list" where
  "cluster_zones avail azs =
     (if azs = [] \<or> list_ex (zone_bad avail) azs
      then take (min (length avail) (max 2 (length azs))) avail else azs)"

definition remap_subnets :: "string list \<Rightarrow> string list \<Rightarrow> SubnetSpec list \<Rightarrow> SubnetSpec list" where
  "remap_subnets avail azs sns =
     map (\<lambda>(i, sn). if zone_bad avail (sn_AZ sn) then sn\<lparr>sn_AZ := azs ! (i mod length azs)\<rparr> else sn)
       (enumerate 0 sns)"

definition remap_data_subnet :: "string list \<Rightarrow> string list \<Rightarrow> SubnetSpec \<Rightarrow> SubnetSpec" where
  "remap_data_subnet avail azs sn =
     (if sn_CIDR sn \<noteq> [] \<and> zone_bad avail (sn_AZ sn) then sn\<lparr>sn_AZ := azs ! 0\<rparr> else sn)"

text \<open>The new network, given the usable zones, sorted.\<close>

(* src/internal/aws/phases/phase03_subnets.go:50-95 resolveClusterAZs part *)
definition remap_network :: "string list \<Rightarrow> Network \<Rightarrow> Network" where
  "remap_network avail nw =
     (let azs = cluster_zones avail (nw_AZs nw);
          sns = nw_Subnets nw
      in nw\<lparr>nw_AZs := azs,
           nw_Subnets := sns\<lparr>sns_Public := remap_subnets avail azs (sns_Public sns),
             sns_Private := remap_subnets avail azs (sns_Private sns)\<rparr>,
           nw_DataPath := map_option (\<lambda>dp. dp\<lparr>dp_External := remap_data_subnet avail azs (dp_External dp),
             dp_Internal := remap_data_subnet avail azs (dp_Internal dp)\<rparr>) (nw_DataPath nw)\<rparr>)"

(* src/internal/aws/phases/phase03_subnets.go:18-98 resolveClusterAZs *)
definition resolveClusterAZs :: "('w, 'e) ec2 \<Rightarrow> ('w, 'f, unit) phase" where
  "resolveClusterAZs A = and_do intent (\<lambda>cl. and_do (query (ec_zones A zone_filters)) (\<lambda>r.
     case r of
       Inl _ \<Rightarrow> give ()
     | Inr zones \<Rightarrow>
         let avail = sort (List.map_filter zone_usable zones)
         in if avail = [] then give ()
            else set_intent (cl\<lparr>cl_Network := remap_network avail (cl_Network cl)\<rparr>)))"

(* src/internal/aws/phases/phase03_subnets.go:337-353 findSubnetByCIDR *)
definition findSubnetByCIDR ::
  "('w, 'e) ec2 \<Rightarrow> string \<Rightarrow> string \<Rightarrow> string \<Rightarrow> string \<Rightarrow> ('w, 'e phase_error, string) phase" where
  "findSubnetByCIDR A what name vpcID cidr =
     and_do (query_sdk what (ec_subnets A
       [ClusterFilter name, plain_filter ''vpc-id'' [vpcID], plain_filter ''cidrBlock'' [cidr]])) (\<lambda>sns.
     case sns of [] \<Rightarrow> give [] | sn # _ \<Rightarrow> deref (su_id sn))"

definition CompSubnetPublic :: string where "CompSubnetPublic = ''subnet-public''"
definition CompSubnetPrivate :: string where "CompSubnetPrivate = ''subnet-private''"
definition CompSubnetBNKExt :: string where "CompSubnetBNKExt = ''subnet-bnk-ext''"
definition CompSubnetBNKInt :: string where "CompSubnetBNKInt = ''subnet-bnk-int''"

(* src/internal/aws/phases/phase03_subnets.go:234-269 ensureDataPathSubnet *)
definition ensureDataPathSubnet ::
  "('w, 'e) ec2 \<Rightarrow> Cluster \<Rightarrow> string \<Rightarrow> SubnetSpec \<Rightarrow> string \<Rightarrow> ('w, 'e phase_error, string) phase" where
  "ensureDataPathSubnet A cl vpcID spec component =
     and_do (findSubnetByCIDR A ''listing data-path subnets'' (md_Name (cl_Metadata cl)) vpcID (sn_CIDR spec)) (\<lambda>existing.
     if existing \<noteq> [] then give existing
     else call_sdk ''ec2:CreateSubnet''
       (ec_create_subnet A vpcID (sn_CIDR spec) (sn_AZ spec) (named_tags A cl component component)))"

text \<open>One round of the loop of \<open>provisionSubnets\<close>, which is only called outside a dry run.\<close>

definition provision_one ::
  "('w, 'e) ec2 \<Rightarrow> Cluster \<Rightarrow> string \<Rightarrow> string \<Rightarrow> bool \<Rightarrow> nat \<times> SubnetSpec \<Rightarrow> ('w, 'e phase_error, string) phase" where
  "provision_one A cl vpcID component mapPublicIP = (\<lambda>(i, spec).
     and_do (findSubnetByCIDR A ''listing subnets'' (md_Name (cl_Metadata cl)) vpcID (sn_CIDR spec)) (\<lambda>existing.
     if existing \<noteq> [] then give existing
     else
       and_do (call_sdk ''ec2:CreateSubnet''
         (ec_create_subnet A vpcID (sn_CIDR spec) (sn_AZ spec)
           (named_tags A cl component (component @ ''-'' @ dec_nat (i + 1))))) (\<lambda>sid.
       and_do (if mapPublicIP then run_sdk ''ec2:ModifySubnetAttribute'' (ec_map_public A sid) else give ()) (\<lambda>_.
       give sid))))"

(* src/internal/aws/phases/phase03_subnets.go:273-333 provisionSubnets *)
definition provisionSubnets ::
  "('w, 'e) ec2 \<Rightarrow> Cluster \<Rightarrow> string \<Rightarrow> SubnetSpec list \<Rightarrow> string \<Rightarrow> bool \<Rightarrow> ('w, 'e phase_error, string list) phase" where
  "provisionSubnets A cl vpcID specs component mapPublicIP =
     collect (provision_one A cl vpcID component mapPublicIP) (enumerate 0 specs)"

(* src/internal/aws/phases/phase03_subnets.go:358-364 makeDryRunSubnetIDs *)
definition makeDryRunSubnetIDs :: "string \<Rightarrow> nat \<Rightarrow> string list" where
  "makeDryRunSubnetIDs label n = map (\<lambda>i. ''dry-run-subnet-'' @ label @ ''-'' @ dec_nat (i + 1)) [0..<n]"

text \<open>The comma-separated lists of the state.\<close>

definition join_csv :: "string list \<Rightarrow> string" where
  "join_csv ids = join_with '','' ids"

definition dry_subnets :: "Cluster \<Rightarrow> ('w, 'f, unit) phase" where
  "dry_subnets cl =
     and_do (st_set ''PUBLIC_SUBNETS'' (join_csv (makeDryRunSubnetIDs ''pub'' (length (sns_Public (nw_Subnets (cl_Network cl))))))) (\<lambda>_.
     and_do (st_set ''PRIVATE_SUBNETS'' (join_csv (makeDryRunSubnetIDs ''priv'' (length (sns_Private (nw_Subnets (cl_Network cl))))))) (\<lambda>_.
     if IsBNKPattern cl \<and> nw_DataPath (cl_Network cl) \<noteq> None then
       and_do (st_set ''BNK_EXT_SUBNET'' ''dry-run-subnet-bnk-ext'') (\<lambda>_.
       if HasInternalInterface cl then st_set ''BNK_INT_SUBNET'' ''dry-run-subnet-bnk-int'' else give ())
     else give ()))"

definition data_path_subnets :: "('w, 'e) ec2 \<Rightarrow> Cluster \<Rightarrow> string \<Rightarrow> ('w, 'e phase_error, unit) phase" where
  "data_path_subnets A cl vpcID =
     (case nw_DataPath (cl_Network cl) of
        None \<Rightarrow> give ()
      | Some dp \<Rightarrow>
          if IsBNKPattern cl then
            and_do (ensureDataPathSubnet A cl vpcID (dp_External dp) CompSubnetBNKExt) (\<lambda>extID.
            and_do (st_set ''BNK_EXT_SUBNET'' extID) (\<lambda>_.
            if HasInternalInterface cl then
              and_do (ensureDataPathSubnet A cl vpcID (dp_Internal dp) CompSubnetBNKInt) (\<lambda>intID.
              st_set ''BNK_INT_SUBNET'' intID)
            else give ()))
          else give ())"

(* src/internal/aws/phases/phase03_subnets.go:106-179 Phase03Subnets *)
definition Phase03Subnets :: "('w, 'e) ec2 \<Rightarrow> bool \<Rightarrow> ('w, 'e phase_error, unit) phase" where
  "Phase03Subnets A dryRun =
     and_do (st_get ''VPC_ID'') (\<lambda>vpcID.
     if vpcID = [] then raise (NotInState ''VPC_ID'')
     else if dryRun then and_do intent dry_subnets
     else
       and_do (resolveClusterAZs A) (\<lambda>_. and_do intent (\<lambda>cl.
       and_do (if nw_AZs (cl_Network cl) \<noteq> [] then st_set ''ACTIVE_AZS'' (join_csv (nw_AZs (cl_Network cl))) else give ()) (\<lambda>_.
       and_do (provisionSubnets A cl vpcID (sns_Public (nw_Subnets (cl_Network cl))) CompSubnetPublic True) (\<lambda>publicIDs.
       and_do (provisionSubnets A cl vpcID (sns_Private (nw_Subnets (cl_Network cl))) CompSubnetPrivate False) (\<lambda>privateIDs.
       and_do (st_set ''PUBLIC_SUBNETS'' (join_csv publicIDs)) (\<lambda>_.
       and_do (st_set ''PRIVATE_SUBNETS'' (join_csv privateIDs)) (\<lambda>_.
       and_do (data_path_subnets A cl vpcID) (\<lambda>_.
       save_state A)))))))))"

subsection \<open>Phase 04: internet gateway\<close>

(* src/internal/aws/phases/phase04_igw.go:147-158 findIGWByTag *)
definition findIGWByTag :: "('w, 'e) ec2 \<Rightarrow> string \<Rightarrow> string \<Rightarrow> ('w, 'e phase_error, string) phase" where
  "findIGWByTag A what name =
     and_do (query_sdk what (ec_igws A (ByFilters [ClusterFilter name]))) (\<lambda>igws.
     case igws of [] \<Rightarrow> give [] | g # _ \<Rightarrow> deref (ig_id g))"

(* src/internal/aws/phases/phase04_igw.go:161-184 ensureIGWAttached *)
definition ensureIGWAttached :: "('w, 'e) ec2 \<Rightarrow> string \<Rightarrow> string \<Rightarrow> ('w, 'e phase_error, unit) phase" where
  "ensureIGWAttached A igwID vpcID =
     and_do (query_sdk ''phase04: attaching IGW'' (ec_igws A (ByFilters [plain_filter ''internet-gateway-id'' [igwID]]))) (\<lambda>igws.
     if (case igws of [] \<Rightarrow> False | g # _ \<Rightarrow> Some vpcID \<in> set (ig_vpcs g)) then give ()
     else run_sdk ''phase04: attaching IGW'' (ec_attach_igw A igwID vpcID))"

(* src/internal/aws/phases/phase04_igw.go:18-68 Phase04IGW *)
definition Phase04IGW :: "('w, 'e) ec2 \<Rightarrow> bool \<Rightarrow> ('w, 'e phase_error, unit) phase" where
  "Phase04IGW A dryRun = and_do intent (\<lambda>cl.
     and_do (st_get ''VPC_ID'') (\<lambda>vpcID.
     if vpcID = [] then raise (NotInState ''VPC_ID'')
     else if dryRun then st_set ''IGW_ID'' ''dry-run-igw''
     else
       and_do (findIGWByTag A ''phase04: listing IGWs by tag'' (md_Name (cl_Metadata cl))) (\<lambda>existing.
       and_do (if existing \<noteq> [] then give existing
               else call_sdk ''phase04: ec2:CreateInternetGateway'' (ec_create_igw A (resource_tags A cl ''igw''))) (\<lambda>igwID.
       and_do (ensureIGWAttached A igwID vpcID) (\<lambda>_.
       and_do (st_set ''IGW_ID'' igwID) (\<lambda>_. save_state A))))))"

subsection \<open>Phase 05: NAT gateway\<close>

(* src/internal/aws/phases/phase05_nat.go:287-294 splitFirst *)
definition splitFirst :: "string \<Rightarrow> string" where
  "splitFirst csv = takeWhile (\<lambda>c. c \<noteq> CHR '','') csv"

(* src/internal/aws/phases/phase05_nat.go:172-183 findEIPByTag *)
definition findEIPByTag :: "('w, 'e) ec2 \<Rightarrow> string \<Rightarrow> string \<Rightarrow> ('w, 'e phase_error, string) phase" where
  "findEIPByTag A what name =
     and_do (query_sdk what (ec_addresses A (ByFilters [ClusterFilter name]))) (\<lambda>ads.
     case ads of [] \<Rightarrow> give [] | a # _ \<Rightarrow> deref (ad_alloc a))"

(* src/internal/aws/phases/phase05_nat.go:185-201 findNATByTag *)
definition findNATByTag :: "('w, 'e) ec2 \<Rightarrow> string \<Rightarrow> string \<Rightarrow> ('w, 'e phase_error, string) phase" where
  "findNATByTag A what name =
     and_do (query_sdk what (ec_nats A (ByFilters
       [plain_filter (''tag:'' @ KeyCluster) [name], plain_filter ''state'' [''pending'', ''available'']]))) (\<lambda>nats.
     case nats of [] \<Rightarrow> give [] | n # _ \<Rightarrow> deref (ng_id n))"

(* src/internal/aws/phases/phase05_nat.go:218-246 pollNATState part *)
definition nat_check :: "('w, 'e) ec2 \<Rightarrow> string \<Rightarrow> nat_state \<Rightarrow> 'w \<Rightarrow> 'e phase_error option option" where
  "nat_check A natID want w =
     (case ec_nats A (ByIds [natID]) w of
        Inl e \<Rightarrow>
          (case ignoreNotFound A (Some e) of
             None \<Rightarrow> if want = NatDeleted then Some None else None
           | Some e' \<Rightarrow> Some (Some (Sdk ''DescribeNatGateways'' e')))
      | Inr [] \<Rightarrow> if want = NatDeleted then Some None else None
      | Inr (n # _) \<Rightarrow>
          if ng_state n = want then Some None
          else if ng_state n = NatFailed then Some (Some (NatEnteredFailed natID))
          else None)"

(* src/internal/aws/phases/phase05_nat.go:215-253 pollNATState *)
definition pollNATState ::
  "('w, 'e) ec2 \<Rightarrow> string \<Rightarrow> nat_state \<Rightarrow> int \<Rightarrow> ('w, 'e phase_error, unit) phase" where
  "pollNATState A natID want timeout =
     wait_before A (nat_check A natID want) timeout (10 * Second) (WaitedTooLong ''NAT GW'' natID)"

(* src/internal/aws/phases/phase05_nat.go:205-207 waitNATAvailable *)
definition waitNATAvailable :: "('w, 'e) ec2 \<Rightarrow> string \<Rightarrow> ('w, 'e phase_error, unit) phase" where
  "waitNATAvailable A natID = pollNATState A natID NatAvailable (5 * Minute)"

(* src/internal/aws/phases/phase05_nat.go:211-213 waitNATDeleted *)
definition waitNATDeleted :: "('w, 'e) ec2 \<Rightarrow> string \<Rightarrow> ('w, 'e phase_error, unit) phase" where
  "waitNATDeleted A natID = pollNATState A natID NatDeleted (10 * Minute)"

(* src/internal/aws/phases/phase05_nat.go:22-102 Phase05NAT *)
definition Phase05NAT :: "('w, 'e) ec2 \<Rightarrow> bool \<Rightarrow> ('w, 'e phase_error, unit) phase" where
  "Phase05NAT A dryRun = and_do intent (\<lambda>cl.
     and_do (st_get ''PUBLIC_SUBNETS'') (\<lambda>csv.
     if csv = [] then raise (NotInState ''PUBLIC_SUBNETS'')
     else if dryRun then
       and_do (st_set ''NAT_EIP_ALLOC'' ''dry-run-eip'') (\<lambda>_. st_set ''NAT_GW_ID'' ''dry-run-nat'')
     else
       and_do (findEIPByTag A ''phase05: listing EIPs by tag'' (md_Name (cl_Metadata cl))) (\<lambda>found.
       and_do (if found = [] then call_sdk ''phase05: ec2:AllocateAddress'' (ec_allocate A (resource_tags A cl ''eip''))
               else give found) (\<lambda>eipAllocID.
       and_do (st_set ''NAT_EIP_ALLOC'' eipAllocID) (\<lambda>_.
       and_do (findNATByTag A ''phase05: listing NAT GWs by tag'' (md_Name (cl_Metadata cl))) (\<lambda>existing.
       and_do (if existing \<noteq> [] then give existing
               else
                 and_do (call_sdk ''phase05: ec2:CreateNatGateway''
                   (ec_create_nat A (splitFirst csv) eipAllocID (resource_tags A cl ''nat''))) (\<lambda>natID.
                 and_do (waitNATAvailable A natID) (\<lambda>_. give natID))) (\<lambda>natID.
       and_do (st_set ''NAT_GW_ID'' natID) (\<lambda>_. save_state A))))))))"

subsection \<open>Phase 06: route tables\<close>

(* src/internal/aws/phases/phase06_routetables.go:343-356 splitCSV *)
definition splitCSV :: "string \<Rightarrow> string list" where
  "splitCSV csv =
     (if csv = [] then [] else filter (\<lambda>p. p \<noteq> []) (map trim_space (split_on CHR '','' csv)))"

(* src/internal/aws/phases/phase06_routetables.go:248-264 findRTBByTagAndVPC *)
definition findRTBByTagAndVPC ::
  "('w, 'e) ec2 \<Rightarrow> string \<Rightarrow> string \<Rightarrow> string \<Rightarrow> string \<Rightarrow> ('w, 'e phase_error, string) phase" where
  "findRTBByTagAndVPC A what name vpcID visibility =
     and_do (query_sdk what (ec_rtbs A [ClusterFilter name, plain_filter ''vpc-id'' [vpcID],
       plain_filter (''tag:'' @ KeyName) [name @ ''-rtb-'' @ visibility]])) (\<lambda>rts.
     case rts of [] \<Rightarrow> give [] | r # _ \<Rightarrow> deref (rt_id r))"

(* src/internal/aws/phases/phase06_routetables.go:165-185 createRTB *)
definition createRTB :: "('w, 'e) ec2 \<Rightarrow> Cluster \<Rightarrow> string \<Rightarrow> string \<Rightarrow> string \<Rightarrow> ('w, 'e phase_error, string) phase" where
  "createRTB A cl what vpcID visibility =
     call_sdk what (ec_create_rtb A vpcID (named_tags A cl ''rtb'' (''rtb-'' @ visibility)))"

(* src/internal/aws/phases/phase06_routetables.go:189-220 ensureRoute *)
definition ensureRoute ::
  "('w, 'e) ec2 \<Rightarrow> string \<Rightarrow> string \<Rightarrow> string \<Rightarrow> string \<Rightarrow> string \<Rightarrow> ('w, 'e phase_error, unit) phase" where
  "ensureRoute A what rtbID cidr igwID natGWID =
     and_do (call (ec_create_route A rtbID cidr
       (if igwID \<noteq> [] then ViaGateway igwID else if natGWID \<noteq> [] then ViaNat natGWID else ViaNothing))) (\<lambda>r.
     case r of
       None \<Rightarrow> give ()
     | Some e \<Rightarrow> if ''RouteAlreadyExists'' \<in> set (ec_codes A e) then give () else raise (Sdk what e))"

(* src/internal/aws/phases/phase06_routetables.go:223-244 ensureRTBAssociation *)
definition ensureRTBAssociation ::
  "('w, 'e) ec2 \<Rightarrow> string \<Rightarrow> string \<Rightarrow> string \<Rightarrow> ('w, 'e phase_error, unit) phase" where
  "ensureRTBAssociation A what rtbID subnetID =
     and_do (query_sdk what (ec_rtbs A [plain_filter ''route-table-id'' [rtbID]])) (\<lambda>rts.
     if (case rts of [] \<Rightarrow> False | r # _ \<Rightarrow> list_ex (\<lambda>a. as_subnet a = Some subnetID) (rt_assocs r)) then give ()
     else run_sdk what (ec_associate A rtbID subnetID))"

definition find_or_create_rtb ::
  "('w, 'e) ec2 \<Rightarrow> Cluster \<Rightarrow> string \<Rightarrow> string \<Rightarrow> ('w, 'e phase_error, string) phase" where
  "find_or_create_rtb A cl vpcID visibility =
     and_do (findRTBByTagAndVPC A (''phase06: listing RTBs'') (md_Name (cl_Metadata cl)) vpcID visibility) (\<lambda>found.
     if found = [] then createRTB A cl ''phase06: create RTB'' vpcID visibility else give found)"

definition associate_all :: "('w, 'e) ec2 \<Rightarrow> string \<Rightarrow> string \<Rightarrow> string list \<Rightarrow> ('w, 'e phase_error, unit) phase" where
  "associate_all A what rtbID sids = for_each (ensureRTBAssociation A what rtbID) sids"

definition associate_data_path :: "('w, 'e) ec2 \<Rightarrow> string \<Rightarrow> ('w, 'e phase_error, unit) phase" where
  "associate_data_path A rtbID =
     for_each (\<lambda>key. and_do (st_get key) (\<lambda>sid.
       if sid = [] \<or> has_prefix sid ''dry-run'' then give ()
       else ensureRTBAssociation A ''phase06: associate data-path subnet'' rtbID sid))
       [''BNK_EXT_SUBNET'', ''BNK_INT_SUBNET'']"

definition public_table :: "('w, 'e) ec2 \<Rightarrow> Cluster \<Rightarrow> string \<Rightarrow> string \<Rightarrow> ('w, 'e phase_error, unit) phase" where
  "public_table A cl vpcID igwID =
     and_do (find_or_create_rtb A cl vpcID ''public'') (\<lambda>rtb.
     if rtb = [] then give ()
     else
       and_do (ensureRoute A ''phase06: public route'' rtb ''0.0.0.0/0'' igwID []) (\<lambda>_.
       and_do (st_get ''PUBLIC_SUBNETS'') (\<lambda>csv.
       and_do (associate_all A ''phase06: associate public subnet'' rtb (splitCSV csv)) (\<lambda>_.
       st_set ''PUBLIC_RTB'' rtb))))"

definition private_table :: "('w, 'e) ec2 \<Rightarrow> Cluster \<Rightarrow> string \<Rightarrow> string \<Rightarrow> ('w, 'e phase_error, unit) phase" where
  "private_table A cl vpcID natID =
     and_do (find_or_create_rtb A cl vpcID ''private'') (\<lambda>rtb.
     if rtb = [] then give ()
     else
       and_do (ensureRoute A ''phase06: private route'' rtb ''0.0.0.0/0'' [] natID) (\<lambda>_.
       and_do (st_get ''PRIVATE_SUBNETS'') (\<lambda>csv.
       and_do (associate_all A ''phase06: associate private subnet'' rtb (splitCSV csv)) (\<lambda>_.
       and_do (associate_data_path A rtb) (\<lambda>_.
       st_set ''PRIVATE_RTB'' rtb)))))"

(* src/internal/aws/phases/phase06_routetables.go:23-132 Phase06RouteTables *)
definition Phase06RouteTables :: "('w, 'e) ec2 \<Rightarrow> bool \<Rightarrow> ('w, 'e phase_error, unit) phase" where
  "Phase06RouteTables A dryRun = and_do intent (\<lambda>cl.
     and_do (st_get ''VPC_ID'') (\<lambda>vpcID. and_do (st_get ''IGW_ID'') (\<lambda>igwID. and_do (st_get ''NAT_GW_ID'') (\<lambda>natID.
     if vpcID = [] then raise (NotInState ''VPC_ID'')
     else if igwID = [] then raise (NotInState ''IGW_ID'')
     else if dryRun then
       and_do (st_set ''PUBLIC_RTB'' ''dry-run-rtb-pub'') (\<lambda>_.
       if natID \<noteq> [] then st_set ''PRIVATE_RTB'' ''dry-run-rtb-priv'' else give ())
     else
       and_do (public_table A cl vpcID igwID) (\<lambda>_.
       and_do (if natID \<noteq> [] then private_table A cl vpcID natID else give ()) (\<lambda>_.
       save_state A))))))"

end
