(* ===== verification/PhaseNetDown.thy ===== *)
theory PhaseNetDown
  imports PhaseNet
begin

text \<open>
  The teardown of phases 02 to 06, in the same files, with the sweeps that remove what blocks a
  deletion, and \<open>HydrateMissingStateFromAWS\<close> (\<open>down.go\<close>), which refills an incomplete state
  from tags. Ids come from the state and from tag queries; what is already gone is no error.
\<close>

text \<open>The \<open>seen\<close> maps with their slices: ids in order, once each.\<close>

definition add_id :: "string \<Rightarrow> string list \<Rightarrow> string list" where
  "add_id i ids = (if i = [] \<or> i \<in> set ids then ids else ids @ [i])"

definition add_all :: "string list \<Rightarrow> string list \<Rightarrow> string list" where
  "add_all is ids = fold add_id is ids"

definition ok_list :: "'e + 'a list \<Rightarrow> 'a list" where
  "ok_list r = (case r of Inl _ \<Rightarrow> [] | Inr xs \<Rightarrow> xs)"

text \<open>\<open>if err := ignoreNotFound(err); err != nil { return ... }\<close>.\<close>

definition run_tolerant :: "('w, 'e) ec2 \<Rightarrow> string \<Rightarrow> ('w \<Rightarrow> 'e option \<times> 'w) \<Rightarrow> ('w, 'e phase_error, unit) phase" where
  "run_tolerant A what c = and_do (call c) (\<lambda>r. check_err (Sdk what) (ignoreNotFound A r))"

definition best_effort :: "('w \<Rightarrow> 'e option \<times> 'w) \<Rightarrow> ('w, 'f, unit) phase" where
  "best_effort c = and_do (call c) (\<lambda>_. give ())"

subsection \<open>Waits of the teardown\<close>

(* src/internal/aws/phases/phase05_nat.go:258-284 waitEIPUnassociated *)
definition waitEIPUnassociated :: "('w, 'e) ec2 \<Rightarrow> string \<Rightarrow> ('w, 'e phase_error, unit) phase" where
  "waitEIPUnassociated A allocID =
     wait_before A (\<lambda>w. case ec_addresses A (ByIds [allocID]) w of
         Inl e \<Rightarrow> Some (map_option (Sdk ''DescribeAddresses'') (ignoreNotFound A (Some e)))
       | Inr [] \<Rightarrow> Some None
       | Inr (a # _) \<Rightarrow> if ad_assoc a = None \<or> ad_assoc a = Some [] then Some None else None)
       (5 * Minute) (10 * Second) (WaitedTooLong ''EIP'' allocID)"

(* src/internal/aws/phases/phase17_secondary_enis.go:415-440 waitENIDetached *)
definition waitENIDetached :: "('w, 'e) ec2 \<Rightarrow> string \<Rightarrow> ('w, 'e phase_error, unit) phase" where
  "waitENIDetached A eniID =
     wait_before A (\<lambda>w. case ec_enis A (ByIds [eniID]) w of
         Inl e \<Rightarrow> Some (map_option (Sdk ''DescribeNetworkInterfaces'') (ignoreNotFound A (Some e)))
       | Inr [] \<Rightarrow> Some None
       | Inr (n # _) \<Rightarrow> if en_available n then Some None else None)
       (3 * Minute) (5 * Second) (WaitedTooLong ''ENI'' eniID)"

text \<open>A describe error other than not-found keeps waiting.\<close>

(* src/internal/aws/phases/phase17b_jumphost.go:791-817 waitInstanceTerminated *)
definition waitInstanceTerminated :: "('w, 'e) ec2 \<Rightarrow> string \<Rightarrow> ('w, 'e phase_error, unit) phase" where
  "waitInstanceTerminated A instanceID =
     wait_before A (\<lambda>w. case ec_instances A (ByIds [instanceID]) w of
         Inl e \<Rightarrow> (case ignoreNotFound A (Some e) of None \<Rightarrow> Some None | Some _ \<Rightarrow> None)
       | Inr [] \<Rightarrow> Some None
       | Inr ([] # _) \<Rightarrow> None
       | Inr ((i # _) # _) \<Rightarrow> if ii_terminated i then Some None else None)
       (10 * Minute) (5 * Second) (WaitedTooLong ''instance'' instanceID)"

(* src/internal/aws/phases/phase17b_jumphost.go:870-904 waitEICEDeleted *)
definition waitEICEDeleted :: "('w, 'e) ec2 \<Rightarrow> string \<Rightarrow> ('w, 'e phase_error, unit) phase" where
  "waitEICEDeleted A eiceID = (\<lambda>s.
     map_option (\<lambda>(r, w). (case r of
          Finished _ \<Rightarrow> Inr ()
        | Errored e \<Rightarrow> Inl e
        | TimedOut _ \<Rightarrow> Inl (WaitedTooLong ''EICE'' eiceID)
        | Interrupted_wait e _ \<Rightarrow> Inl (WaitCut e), s\<lparr>rs_world := w\<rparr>))
       (poll_loop (ec_now A) (ec_sleep A) (\<lambda>_ w. case ec_eices A (ByIds [eiceID]) w of
           Inl e \<Rightarrow> (case ignoreNotFound A (Some e) of None \<Rightarrow> Ready () | Some _ \<Rightarrow> Again ())
         | Inr [] \<Rightarrow> Ready ()
         | Inr (e # _) \<Rightarrow>
             (case ei_state e of
                EiceDeleted \<Rightarrow> Ready ()
              | EiceDeleteFailed msg \<Rightarrow> Broken (EiceFailed eiceID msg)
              | EiceOther \<Rightarrow> Again ()))
         (ec_now A (rs_world s) + 10 * Minute) (5 * Second) () (rs_world s)))"

subsection \<open>Sweeps\<close>

(* src/internal/aws/phases/phase17_secondary_enis.go:368-412 detachAndDeleteENI *)
definition detachAndDeleteENI :: "('w, 'e) ec2 \<Rightarrow> string \<Rightarrow> ('w, 'e phase_error, unit) phase" where
  "detachAndDeleteENI A eniID =
     and_do (query (ec_enis A (ByIds [eniID]))) (\<lambda>r.
     case r of
       Inl e \<Rightarrow> check_err (Sdk ''ec2:DescribeNetworkInterfaces'') (ignoreNotFound A (Some e))
     | Inr [] \<Rightarrow> give ()
     | Inr (n # _) \<Rightarrow>
         and_do (case Option.bind (en_attachment n) at_id of
             None \<Rightarrow> give ()
           | Some attID \<Rightarrow>
               and_do (run_tolerant A ''ec2:DetachNetworkInterface'' (ec_detach_eni A attID)) (\<lambda>_.
               waitENIDetached A eniID)) (\<lambda>_.
         run_tolerant A ''ec2:DeleteNetworkInterface'' (ec_delete_eni A eniID)))"

definition live_states :: "string list" where
  "live_states = [''pending'', ''running'', ''stopping'', ''stopped'', ''shutting-down'']"

definition sweep_eni :: "('w, 'e) ec2 \<Rightarrow> eni \<Rightarrow> ('w, 'f, unit) phase" where
  "sweep_eni A n =
     (case en_id n of
        None \<Rightarrow> give ()
      | Some i \<Rightarrow>
          if i = [] \<or> Option.bind (en_attachment n) at_device = Some 0 \<and> \<not> en_available n then give ()
          else ignoring (detachAndDeleteENI A i))"

(* src/internal/aws/phases/phase02_vpc.go:133-182 sweepVPCInstancesAndENIs *)
definition sweepVPCInstancesAndENIs :: "('w, 'e) ec2 \<Rightarrow> string \<Rightarrow> ('w, 'f, unit) phase" where
  "sweepVPCInstancesAndENIs A vpcID =
     (if vpcID = [] then give ()
      else
        and_do (query (ec_instances A (ByFilters
          [plain_filter ''vpc-id'' [vpcID], plain_filter ''instance-state-name'' live_states]))) (\<lambda>r.
        and_do (let ids = filter (\<lambda>i. i \<noteq> []) (List.map_filter ii_id (concat (ok_list r)))
                in if ids = [] then give ()
                   else and_do (best_effort (ec_terminate A ids)) (\<lambda>_.
                     for_each (\<lambda>i. ignoring (waitInstanceTerminated A i)) ids)) (\<lambda>_.
        and_do (query (ec_enis A (ByFilters [plain_filter ''vpc-id'' [vpcID]]))) (\<lambda>r.
        for_each (sweep_eni A) (ok_list r)))))"

definition sweep_eice :: "('w, 'e) ec2 \<Rightarrow> eice \<Rightarrow> ('w, 'f, unit) phase" where
  "sweep_eice A ep =
     (case ei_id ep of
        None \<Rightarrow> give ()
      | Some i \<Rightarrow>
          if ei_state ep = EiceDeleted then give ()
          else and_do (call (ec_delete_eice A i)) (\<lambda>r.
            case r of None \<Rightarrow> ignoring (waitEICEDeleted A i) | Some _ \<Rightarrow> give ()))"

definition sweep_available_eni :: "('w, 'e) ec2 \<Rightarrow> eni \<Rightarrow> ('w, 'f, unit) phase" where
  "sweep_available_eni A n =
     (case en_id n of
        None \<Rightarrow> give ()
      | Some i \<Rightarrow> if en_available n then best_effort (ec_delete_eni A i) else give ())"

definition revoke_rules :: "('w, 'e) ec2 \<Rightarrow> security_group \<Rightarrow> ('w, 'f, unit) phase" where
  "revoke_rules A g =
     and_do (if sg_ingress g \<noteq> [] then best_effort (ec_revoke_ingress A (the (sg_id g)) (sg_ingress g)) else give ()) (\<lambda>_.
     if sg_egress g \<noteq> [] then best_effort (ec_revoke_egress A (the (sg_id g)) (sg_egress g)) else give ())"

definition sweep_groups :: "('w, 'e) ec2 \<Rightarrow> security_group list \<Rightarrow> ('w, 'f, unit) phase" where
  "sweep_groups A groups =
     (let sgs = filter (\<lambda>g. sg_id g \<noteq> None \<and> sg_name g \<noteq> Some ''default'') groups
      in and_do (for_each (revoke_rules A) sgs) (\<lambda>_.
         for_each (\<lambda>g. best_effort (ec_delete_sg A (the (sg_id g)))) sgs))"

definition is_main :: "route_table \<Rightarrow> bool" where
  "is_main rt \<longleftrightarrow> list_ex as_main (rt_assocs rt)"

definition sweep_rtb :: "('w, 'e) ec2 \<Rightarrow> route_table \<Rightarrow> ('w, 'f, unit) phase" where
  "sweep_rtb A rt =
     (case rt_id rt of
        None \<Rightarrow> give ()
      | Some i \<Rightarrow>
          and_do (for_each (\<lambda>a. if as_main a then give ()
              else case as_id a of None \<Rightarrow> give () | Some aid \<Rightarrow> best_effort (ec_disassociate A aid)) (rt_assocs rt)) (\<lambda>_.
          if is_main rt then give () else best_effort (ec_delete_rtb A i)))"

definition sweep_igw :: "('w, 'e) ec2 \<Rightarrow> string \<Rightarrow> igw \<Rightarrow> ('w, 'f, unit) phase" where
  "sweep_igw A vpcID g =
     (case ig_id g of
        None \<Rightarrow> give ()
      | Some i \<Rightarrow> and_do (best_effort (ec_detach_igw A i vpcID)) (\<lambda>_. best_effort (ec_delete_igw A i)))"

text \<open>Ask, and work through what a query without an error found.\<close>

definition sweep_found ::
  "('w \<Rightarrow> 'e + 'x list) \<Rightarrow> ('x list \<Rightarrow> ('w, 'f, unit) phase) \<Rightarrow> ('w, 'f, unit) phase" where
  "sweep_found q f = and_do (query q) (\<lambda>r. f (ok_list r))"

(* src/internal/aws/phases/phase02_vpc.go:187-323 sweepVPCResiduals *)
definition sweepVPCResiduals :: "('w, 'e) ec2 \<Rightarrow> string \<Rightarrow> ('w, 'f, unit) phase" where
  "sweepVPCResiduals A vpcID =
     (let inVPC = [plain_filter ''vpc-id'' [vpcID]]
      in and_do (sweepVPCInstancesAndENIs A vpcID) (\<lambda>_.
         and_do (sweep_found (ec_eices A (ByFilters inVPC)) (for_each (sweep_eice A))) (\<lambda>_.
         and_do (sweep_found (ec_enis A (ByFilters inVPC)) (for_each (sweep_available_eni A))) (\<lambda>_.
         and_do (sweep_found (ec_sgs A inVPC) (sweep_groups A)) (\<lambda>_.
         and_do (sweep_found (ec_subnets A inVPC) (for_each (\<lambda>sn.
           case su_id sn of None \<Rightarrow> give () | Some i \<Rightarrow> best_effort (ec_delete_subnet A i)))) (\<lambda>_.
         and_do (sweep_found (ec_rtbs A inVPC) (for_each (sweep_rtb A))) (\<lambda>_.
         sweep_found (ec_igws A (ByFilters [plain_filter ''attachment.vpc-id'' [vpcID]])) (for_each (sweep_igw A vpcID)))))))))"

subsection \<open>Phase 06 down\<close>

(* src/internal/aws/phases/phase06_routetables.go:269-307 collectRTBIDs *)
definition collectRTBIDs :: "('w, 'e) ec2 \<Rightarrow> string \<Rightarrow> string \<Rightarrow> ('w, 'f, string list) phase" where
  "collectRTBIDs A name vpcID =
     and_do (st_get ''PUBLIC_RTB'') (\<lambda>pub. and_do (st_get ''PRIVATE_RTB'') (\<lambda>priv.
     and_do (query (ec_rtbs A ([ClusterFilter name] @ (if vpcID \<noteq> [] then [plain_filter ''vpc-id'' [vpcID]] else [])))) (\<lambda>r.
     give (add_all ([pub, priv] @ List.map_filter (\<lambda>rt. if is_main rt then None else rt_id rt) (ok_list r)) []))))"

(* src/internal/aws/phases/phase06_routetables.go:311-340 disassociateRTB *)
definition disassociateRTB :: "('w, 'e) ec2 \<Rightarrow> string \<Rightarrow> ('w, 'e phase_error, unit) phase" where
  "disassociateRTB A rtbID =
     and_do (query (ec_rtbs A [plain_filter ''route-table-id'' [rtbID]])) (\<lambda>r.
     case r of
       Inl e \<Rightarrow> check_err (Sdk ''phase06 down: disassociate RTB'') (ignoreNotFound A (Some e))
     | Inr rts \<Rightarrow>
         for_each (\<lambda>rt. for_each (\<lambda>a.
           if as_main a then give ()
           else case as_id a of
               None \<Rightarrow> give ()
             | Some aid \<Rightarrow> run_tolerant A ''phase06 down: disassociate RTB'' (ec_disassociate A aid)) (rt_assocs rt)) rts)"

(* src/internal/aws/phases/phase06_routetables.go:135-161 Phase06RouteTablesDown *)
definition Phase06RouteTablesDown :: "('w, 'e) ec2 \<Rightarrow> ('w, 'e phase_error, unit) phase" where
  "Phase06RouteTablesDown A = and_do intent (\<lambda>cl. and_do (st_get ''VPC_ID'') (\<lambda>vpcID.
     and_do (collectRTBIDs A (md_Name (cl_Metadata cl)) vpcID) (\<lambda>ids.
     and_do (for_each (\<lambda>i. and_do (disassociateRTB A i) (\<lambda>_.
         run_tolerant A ''phase06 down: ec2:DeleteRouteTable'' (ec_delete_rtb A i))) ids) (\<lambda>_.
     and_do (st_set ''PUBLIC_RTB'' []) (\<lambda>_. and_do (st_set ''PRIVATE_RTB'' []) (\<lambda>_. save_state A))))))"

subsection \<open>Phase 05 down\<close>

text \<open>An id of the state, or else what a tag query finds.\<close>

definition state_or :: "string \<Rightarrow> ('w, 'f, string) phase \<Rightarrow> ('w, 'f, string) phase" where
  "state_or key look = and_do (st_get key) (\<lambda>i. if i = [] then look else give i)"

(* src/internal/aws/phases/phase05_nat.go:111-168 Phase05NATDown *)
definition Phase05NATDown :: "('w, 'e) ec2 \<Rightarrow> ('w, 'e phase_error, unit) phase" where
  "Phase05NATDown A = and_do intent (\<lambda>cl. let name = md_Name (cl_Metadata cl) in
     and_do (state_or ''NAT_GW_ID'' (findNATByTag A ''phase05 down: tag-discovery NAT'' name)) (\<lambda>natID.
     and_do (if natID = [] then give ()
             else
               and_do (run_tolerant A ''phase05 down: ec2:DeleteNatGateway'' (ec_delete_nat A natID)) (\<lambda>_.
               waitNATDeleted A natID)) (\<lambda>_.
     and_do (st_set ''NAT_GW_ID'' []) (\<lambda>_.
     and_do (state_or ''NAT_EIP_ALLOC'' (findEIPByTag A ''phase05 down: tag-discovery EIP'' name)) (\<lambda>eip.
     and_do (if eip = [] then give ()
             else
               and_do (waitEIPUnassociated A eip) (\<lambda>_.
               run_tolerant A ''phase05 down: ec2:ReleaseAddress'' (ec_release A eip))) (\<lambda>_.
     and_do (st_set ''NAT_EIP_ALLOC'' []) (\<lambda>_. save_state A)))))))"

subsection \<open>Phase 04 down\<close>

definition detach_ok :: "('w, 'e) ec2 \<Rightarrow> 'e option \<Rightarrow> bool" where
  "detach_ok A r \<longleftrightarrow> ignoreNotFound A r = None \<or> isDetachError A (ignoreNotFound A r)"

text \<open>\<open>True\<close>: go on to the deletion; \<open>False\<close>: it is left to the sweep of phase 02.\<close>

(* src/internal/aws/phases/phase04_igw.go:108-129 Phase04IGWDown part *)
definition detach_igw :: "('w, 'e) ec2 \<Rightarrow> string \<Rightarrow> string \<Rightarrow> ('w, 'e phase_error, bool) phase" where
  "detach_igw A igwID vpcID =
     (if vpcID = [] then give True
      else and_do (call (ec_detach_igw A igwID vpcID)) (\<lambda>r.
        if detach_ok A r then give True
        else if isDependencyViolation A (ignoreNotFound A r) then
          and_do (sweepVPCInstancesAndENIs A vpcID) (\<lambda>_.
          and_do (call (ec_detach_igw A igwID vpcID)) (\<lambda>r'.
          if detach_ok A r' then give True
          else if isDependencyViolation A (ignoreNotFound A r') then give False
          else and_do (check_err (Sdk ''phase04 down: ec2:DetachInternetGateway'') (ignoreNotFound A r')) (\<lambda>_. give True)))
        else and_do (check_err (Sdk ''phase04 down: ec2:DetachInternetGateway'') (ignoreNotFound A r)) (\<lambda>_. give True)))"

definition attached_vpc :: "'e + igw list \<Rightarrow> string" where
  "attached_vpc r = (case ok_list r of
       [] \<Rightarrow> []
     | g # _ \<Rightarrow> (case ig_vpcs g of Some v # _ \<Rightarrow> v | _ \<Rightarrow> []))"

(* src/internal/aws/phases/phase04_igw.go:71-144 Phase04IGWDown *)
definition Phase04IGWDown :: "('w, 'e) ec2 \<Rightarrow> ('w, 'e phase_error, unit) phase" where
  "Phase04IGWDown A = and_do intent (\<lambda>cl.
     and_do (state_or ''IGW_ID'' (findIGWByTag A ''phase04 down: tag-discovery'' (md_Name (cl_Metadata cl)))) (\<lambda>igwID.
     if igwID = [] then give ()
     else
       and_do (state_or ''VPC_ID'' (and_do (query (ec_igws A (ByIds [igwID]))) (\<lambda>r. give (attached_vpc r)))) (\<lambda>vpcID.
       and_do (detach_igw A igwID vpcID) (\<lambda>go_on.
       if \<not> go_on then give ()
       else
         and_do (call (ec_delete_igw A igwID)) (\<lambda>r.
         if isDependencyViolation A (ignoreNotFound A r) then give ()
         else
           and_do (check_err (Sdk ''phase04 down: ec2:DeleteInternetGateway'') (ignoreNotFound A r)) (\<lambda>_.
           and_do (st_set ''IGW_ID'' []) (\<lambda>_. save_state A)))))))"

subsection \<open>Phase 03 down\<close>

(* src/internal/aws/phases/phase03_subnets.go:368-412 collectSubnetIDs *)
definition collectSubnetIDs :: "('w, 'e) ec2 \<Rightarrow> string \<Rightarrow> ('w, 'f, string list) phase" where
  "collectSubnetIDs A name =
     and_do (st_get ''PUBLIC_SUBNETS'') (\<lambda>pub. and_do (st_get ''PRIVATE_SUBNETS'') (\<lambda>priv. and_do (st_get ''VPC_ID'') (\<lambda>vpcID.
     and_do (query (ec_subnets A [ClusterFilter name])) (\<lambda>tagged.
     and_do (if vpcID = [] then give [] else and_do (query (ec_subnets A [plain_filter ''vpc-id'' [vpcID]])) (\<lambda>r. give (ok_list r))) (\<lambda>inVPC.
     give (add_all (map trim_space
       ((if pub = [] then [] else split_on CHR '','' pub) @ (if priv = [] then [] else split_on CHR '','' priv) @
        List.map_filter su_id (ok_list tagged) @ List.map_filter su_id inVPC)) []))))))"

text \<open>The closure \<open>deleteOneSubnet\<close>; the flag \<open>swept\<close> is passed along.\<close>

definition delete_subnet ::
  "('w, 'e) ec2 \<Rightarrow> string \<Rightarrow> bool \<Rightarrow> string \<Rightarrow> ('w, 'e phase_error, bool) phase" where
  "delete_subnet A vpcID swept sid =
     and_do (call (ec_delete_subnet A sid)) (\<lambda>r.
     if isDependencyViolation A (ignoreNotFound A r) \<and> \<not> swept then
       and_do (if vpcID \<noteq> [] then sweepVPCInstancesAndENIs A vpcID else give ()) (\<lambda>_.
       and_do (run_tolerant A ''phase03 down: ec2:DeleteSubnet'' (ec_delete_subnet A sid)) (\<lambda>_. give True))
     else
       and_do (check_err (Sdk ''phase03 down: ec2:DeleteSubnet'') (ignoreNotFound A r)) (\<lambda>_. give swept))"

fun delete_subnets ::
  "('w, 'e) ec2 \<Rightarrow> string \<Rightarrow> bool \<Rightarrow> string list \<Rightarrow> ('w, 'e phase_error, unit) phase" where
  "delete_subnets A vpcID swept [] = give ()"
| "delete_subnets A vpcID swept (sid # sids) =
     and_do (delete_subnet A vpcID swept sid) (\<lambda>swept'. delete_subnets A vpcID swept' sids)"

fun delete_data_path ::
  "('w, 'e) ec2 \<Rightarrow> string \<Rightarrow> bool \<Rightarrow> string list \<Rightarrow> ('w, 'e phase_error, bool) phase" where
  "delete_data_path A vpcID swept [] = give swept"
| "delete_data_path A vpcID swept (key # keys) =
     and_do (st_get key) (\<lambda>sid.
     if sid = [] then delete_data_path A vpcID swept keys
     else
       and_do (delete_subnet A vpcID swept sid) (\<lambda>swept'.
       and_do (st_set key []) (\<lambda>_. delete_data_path A vpcID swept' keys)))"

(* src/internal/aws/phases/phase03_subnets.go:184-230 Phase03SubnetsDown *)
definition Phase03SubnetsDown :: "('w, 'e) ec2 \<Rightarrow> ('w, 'e phase_error, unit) phase" where
  "Phase03SubnetsDown A = and_do intent (\<lambda>cl. and_do (st_get ''VPC_ID'') (\<lambda>vpcID.
     and_do (delete_data_path A vpcID False [''BNK_INT_SUBNET'', ''BNK_EXT_SUBNET'']) (\<lambda>swept.
     and_do (collectSubnetIDs A (md_Name (cl_Metadata cl))) (\<lambda>ids.
     and_do (delete_subnets A vpcID swept ids) (\<lambda>_.
     and_do (st_set ''PUBLIC_SUBNETS'' []) (\<lambda>_. and_do (st_set ''PRIVATE_SUBNETS'' []) (\<lambda>_.
     and_do (st_set ''ACTIVE_AZS'' []) (\<lambda>_. save_state A))))))))"

subsection \<open>Phase 02 down\<close>

definition delete_vpcs :: "('w, 'e) ec2 \<Rightarrow> string list \<Rightarrow> ('w, 'e phase_error, unit) phase" where
  "delete_vpcs A ids =
     (if ids = [] then give ()
      else
        and_do (for_each (\<lambda>i. and_do (sweepVPCResiduals A i) (\<lambda>_.
          run_tolerant A ''phase02 down: ec2:DeleteVpc'' (ec_delete_vpc A i))) ids) (\<lambda>_.
        and_do (st_set ''VPC_ID'' []) (\<lambda>_. save_state A)))"

definition real_vpcs :: "string list \<Rightarrow> string list" where
  "real_vpcs ids = filter (\<lambda>i. i \<noteq> ''dry-run-vpc'') ids"

(* src/internal/aws/phases/phase02_vpc.go:82-126 Phase02VPCDown *)
definition Phase02VPCDown :: "('w, 'e) ec2 \<Rightarrow> ('w, 'e phase_error, unit) phase" where
  "Phase02VPCDown A = and_do intent (\<lambda>cl. and_do (st_get ''VPC_ID'') (\<lambda>stored.
     let known = add_all (real_vpcs [stored]) []
     in and_do (query (findVPCsByTag A (md_Name (cl_Metadata cl)))) (\<lambda>r.
        case r of
          Inl e \<Rightarrow> if known = [] then raise (Sdk ''phase02 down: tag-discovery'' e) else delete_vpcs A known
        | Inr tagged \<Rightarrow> delete_vpcs A (add_all (real_vpcs tagged) known))))"

subsection \<open>Refilling the state\<close>

definition when_missing :: "string \<Rightarrow> ('w, 'f, unit) phase \<Rightarrow> ('w, 'f, unit) phase" where
  "when_missing key m = and_do (st_get key) (\<lambda>v. if v = [] then m else give ())"

definition set_missing :: "string \<Rightarrow> string \<Rightarrow> ('w, 'f, unit) phase" where
  "set_missing key v = when_missing key (st_set key v)"

record subnet_tags =
  tg_role :: string
  tg_comp :: string
  tg_name :: string

definition read_tag :: "string option \<times> string option \<Rightarrow> subnet_tags \<Rightarrow> subnet_tags" where
  "read_tag t g =
     (case t of
        (Some k, Some v) \<Rightarrow>
          if k = ''bnk:subnet-role'' \<or> k = ''f5-bnk:subnet-role'' then g\<lparr>tg_role := v\<rparr>
          else if k = KeyComponent then g\<lparr>tg_comp := v\<rparr>
          else if k = ''Name'' then g\<lparr>tg_name := v\<rparr>
          else g
      | _ \<Rightarrow> g)"

definition subnet_facts :: "subnet \<Rightarrow> subnet_tags" where
  "subnet_facts sn = fold read_tag (su_tags sn) \<lparr>tg_role = [], tg_comp = [], tg_name = []\<rparr>"

datatype subnet_kind = BnkExternal | BnkInternal | PublicSubnet | PrivateSubnet | OtherSubnet

text \<open>The cases in the order of the switch.\<close>

(* src/internal/aws/phases/down.go:76-89 HydrateMissingStateFromAWS part *)
definition subnet_kind :: "subnet_tags \<Rightarrow> subnet_kind" where
  "subnet_kind g =
     (if tg_comp g = CompSubnetBNKExt \<or> tg_role g = ''bnk-external'' \<or> has_suffix (tg_name g) ''-bnk-ext'' then BnkExternal
      else if tg_comp g = CompSubnetBNKInt \<or> tg_role g = ''bnk-internal'' \<or> has_suffix (tg_name g) ''-bnk-int'' then BnkInternal
      else if tg_comp g = CompSubnetPublic \<or> contains (tg_name g) ''public'' then PublicSubnet
      else if tg_comp g = CompSubnetPrivate \<or> contains (tg_name g) ''private'' then PrivateSubnet
      else OtherSubnet)"

definition ids_of_kind :: "subnet_kind \<Rightarrow> subnet list \<Rightarrow> string list" where
  "ids_of_kind k sns = List.map_filter su_id (filter (\<lambda>sn. subnet_kind (subnet_facts sn) = k) sns)"

definition hydrate_subnets :: "subnet list \<Rightarrow> ('w, 'f, unit) phase" where
  "hydrate_subnets sns =
     and_do (for_each (set_missing ''BNK_EXT_SUBNET'') (ids_of_kind BnkExternal sns)) (\<lambda>_.
     and_do (for_each (set_missing ''BNK_INT_SUBNET'') (ids_of_kind BnkInternal sns)) (\<lambda>_.
     and_do (if ids_of_kind PublicSubnet sns \<noteq> [] then set_missing ''PUBLIC_SUBNETS'' (join_csv (ids_of_kind PublicSubnet sns)) else give ()) (\<lambda>_.
     if ids_of_kind PrivateSubnet sns \<noteq> [] then set_missing ''PRIVATE_SUBNETS'' (join_csv (ids_of_kind PrivateSubnet sns)) else give ())))"

definition first_live_nat :: "nat_gateway list \<Rightarrow> nat_gateway option" where
  "first_live_nat nats = find (\<lambda>n. ng_state n \<noteq> NatDeleted \<and> ng_id n \<noteq> None) nats"

text \<open>What the EKS side of the refill uses: a described cluster with every field the code needs.\<close>

record kubeconfig_data =
  kc_arn :: string
  kc_endpoint :: string
  kc_ca :: string
  kc_region :: string
  kc_cluster :: string

record 'w eks_access =
  ek_missing :: "string \<Rightarrow> 'w \<Rightarrow> bool"
  ek_describe :: "(string \<Rightarrow> 'w \<Rightarrow> (string \<times> string \<times> string) option) option"
  ek_write :: "string \<Rightarrow> kubeconfig_data \<Rightarrow> 'w \<Rightarrow> bool \<times> 'w"

(* src/internal/aws/phases/down.go:150-156 fileMissing *)
definition fileMissing :: "'w eks_access \<Rightarrow> string \<Rightarrow> 'w \<Rightarrow> bool" where
  "fileMissing K p w \<longleftrightarrow> p = [] \<or> ek_missing K p w"

definition hydrate_kubeconfig :: "'w eks_access \<Rightarrow> Cluster \<Rightarrow> ('w, 'f, unit) phase" where
  "hydrate_kubeconfig K cl =
     and_do (st_get ''KUBECONFIG_PATH'') (\<lambda>p. and_do (query (fileMissing K p)) (\<lambda>missing.
     case ek_describe K of
       None \<Rightarrow> give ()
     | Some describe \<Rightarrow>
         if \<not> missing then give ()
         else and_do (query (describe (md_Name (cl_Metadata cl)))) (\<lambda>d.
           case d of
             None \<Rightarrow> give ()
           | Some (arn, endpoint, ca) \<Rightarrow>
               let target = StateDir cl @ ''/kubeconfig''
               in and_do (call (ek_write K target \<lparr>kc_arn = arn, kc_endpoint = endpoint, kc_ca = ca,
                    kc_region = md_Region (cl_Metadata cl), kc_cluster = md_Name (cl_Metadata cl)\<rparr>)) (\<lambda>ok.
                  if ok then
                    and_do (st_set ''KUBECONFIG_PATH'' target) (\<lambda>_.
                    st_set ''EKS_CLUSTER_NAME'' (md_Name (cl_Metadata cl)))
                  else give ()))))"

text \<open>Without EC2 clients (\<open>None\<close>) nothing happens.\<close>

(* src/internal/aws/phases/down.go:28-148 HydrateMissingStateFromAWS *)
definition HydrateMissingStateFromAWS ::
  "('w, 'e) ec2 option \<Rightarrow> 'w eks_access \<Rightarrow> ('w, 'f, unit) phase" where
  "HydrateMissingStateFromAWS ec2 K = (case ec2 of None \<Rightarrow> give () | Some A \<Rightarrow> and_do intent (\<lambda>cl.
     let byCluster = ClusterFilter (md_Name (cl_Metadata cl)) in
     and_do (when_missing ''VPC_ID'' (and_do (query (ec_vpcs A [byCluster])) (\<lambda>r.
       case ok_list r of Some i # _ \<Rightarrow> st_set ''VPC_ID'' i | _ \<Rightarrow> give ()))) (\<lambda>_.
     and_do (st_get ''VPC_ID'') (\<lambda>vpcID.
     and_do (st_get ''PUBLIC_SUBNETS'') (\<lambda>pub. and_do (st_get ''PRIVATE_SUBNETS'') (\<lambda>priv.
     and_do (st_get ''BNK_EXT_SUBNET'') (\<lambda>ext. and_do (st_get ''BNK_INT_SUBNET'') (\<lambda>int.
     and_do (if pub = [] \<or> priv = [] \<or> ext = [] \<or> int = [] then
         and_do (query (ec_subnets A ([byCluster] @ (if vpcID \<noteq> [] then [plain_filter ''vpc-id'' [vpcID]] else [])))) (\<lambda>r.
         hydrate_subnets (ok_list r)) else give ()) (\<lambda>_.
     and_do (when_missing ''IGW_ID'' (and_do (query (ec_igws A (ByFilters [byCluster]))) (\<lambda>r.
       case ok_list r of
         [] \<Rightarrow> give ()
       | g # _ \<Rightarrow> (case ig_id g of None \<Rightarrow> give () | Some i \<Rightarrow> st_set ''IGW_ID'' i)))) (\<lambda>_.
     and_do (when_missing ''NAT_GW_ID'' (and_do (query (ec_nats A (ByFilters [byCluster]))) (\<lambda>r.
       case first_live_nat (ok_list r) of
         None \<Rightarrow> give ()
       | Some n \<Rightarrow>
           and_do (st_set ''NAT_GW_ID'' (the (ng_id n))) (\<lambda>_.
           case ng_allocs n of Some a # _ \<Rightarrow> set_missing ''NAT_EIP_ALLOC'' a | _ \<Rightarrow> give ())))) (\<lambda>_.
     and_do (hydrate_kubeconfig K cl) (\<lambda>_.
     ignoring (save_state A)))))))))))))"

end
