(* ===== verification/PhaseClaims.thy ===== *)
theory PhaseClaims
  imports PhaseNetDown IntentSpec
begin

text \<open>
  What the network phases guarantee: a dry run plans without touching the account, the zones they
  settle on are available, no phase or teardown waits for ever, and the teardown misses no id.
\<close>

subsection \<open>Rules for returning\<close>

text \<open>\<open>returns m\<close>: the computation ends, with a result or an error.\<close>

definition returns :: "('w, 'f, 'a) phase \<Rightarrow> bool" where
  "returns m \<longleftrightarrow> (\<forall>s. m s \<noteq> None)"

named_theorems returns_rules

lemma returns_basic [returns_rules]:
  "returns (give x)" "returns (raise e)" "returns intent" "returns (set_intent c)" "returns (st_get k)"
  "returns (st_set k v)" "returns (query q)" "returns (call f)" "returns (save_state A)"
  by (auto simp: returns_def give_def raise_def intent_def set_intent_def st_get_def st_set_def query_def
      call_def save_state_def split: prod.splits option.splits)

lemma returns_and_do [returns_rules]: "returns m \<Longrightarrow> (\<And>x. returns (f x)) \<Longrightarrow> returns (and_do m f)"
  by (auto simp: returns_def and_do_def split: option.splits sum.splits prod.splits)

lemma returns_outcome [returns_rules]: "returns m \<Longrightarrow> returns (outcome m)"
  by (auto simp: returns_def outcome_def split: option.splits prod.splits)

lemma returns_for_each [returns_rules]: "(\<And>x. returns (f x)) \<Longrightarrow> returns (for_each f xs)"
  by (induction xs) (simp_all add: returns_rules)

lemma returns_collect [returns_rules]: "(\<And>x. returns (f x)) \<Longrightarrow> returns (collect f xs)"
  by (induction xs) (simp_all add: returns_rules)

lemma returns_checks [returns_rules]:
  "returns (check_result w r)" "returns (check_err w e)" "returns (deref p)"
  by (simp_all add: check_result_def check_err_def deref_def returns_rules split: sum.splits option.splits)

lemma returns_sdk [returns_rules]:
  "returns (query_sdk what q)" "returns (call_sdk what f)" "returns (run_sdk what c')" "returns (run_tolerant A what c')"
  "returns (best_effort c')"
  by (auto simp: query_sdk_def call_sdk_def run_sdk_def run_tolerant_def best_effort_def intro!: returns_rules)

lemma returns_more [returns_rules]:
  "returns m \<Longrightarrow> returns (ignoring m)" "returns m \<Longrightarrow> returns (wrapping wr m)"
  "returns m1 \<Longrightarrow> returns (state_or key m1)" "returns m2 \<Longrightarrow> returns (when_missing key m2)" "returns (set_missing key v)"
  by (auto simp: ignoring_def wrapping_def state_or_def set_missing_def when_missing_def intro!: returns_rules)

text \<open>A positive sleep that is not interrupted lets the clock advance.\<close>

definition ec2_clock :: "('w, 'e) ec2 \<Rightarrow> bool" where
  "ec2_clock A \<longleftrightarrow> (\<forall>d w w'. 0 < d \<and> ec_sleep A d w = (None, w') \<longrightarrow> ec_now A w < ec_now A w')"

lemma clock_step: "ec2_clock A \<Longrightarrow> 0 < d \<Longrightarrow> ec_sleep A d w = (None, w') \<Longrightarrow> ec_now A w < ec_now A w'"
  unfolding ec2_clock_def by blast

lemma returns_wait_before:
  assumes "ec2_clock A" and "0 < poll"
  shows "returns (wait_before A check timeout poll late)"
proof -
  have "\<exists>r. poll_before (ec_now A) (ec_sleep A) check deadline poll w = Some r" for deadline w
    by (rule poll_before_terminates) (use assms in \<open>auto simp: ec2_clock_def\<close>)
  then show ?thesis by (fastforce simp: returns_def wait_before_def)
qed

lemma returns_waits:
  assumes "ec2_clock A"
  shows "returns (pollNATState A n want t)" "returns (waitEIPUnassociated A i)" "returns (waitENIDetached A i)"
    "returns (waitInstanceTerminated A i)"
  by (simp_all add: pollNATState_def waitEIPUnassociated_def waitENIDetached_def waitInstanceTerminated_def
      returns_wait_before assms Second_def)

lemma returns_waitEICEDeleted:
  assumes "ec2_clock A"
  shows "returns (waitEICEDeleted A i)"
proof -
  have "\<exists>r. poll_loop (ec_now A) (ec_sleep A) check deadline (5 * Second) l w = Some r" for check deadline l w
    by (rule poll_loop_terminates, rule clock_step [OF assms]) (simp_all add: Second_def)
  then show ?thesis by (fastforce simp: returns_def waitEICEDeleted_def)
qed

lemma returns_NAT: "ec2_clock A \<Longrightarrow> returns (waitNATAvailable A i)" "ec2_clock A \<Longrightarrow> returns (waitNATDeleted A i)"
  by (simp_all add: waitNATAvailable_def waitNATDeleted_def returns_waits)

lemma returns_detach:
  assumes "ec2_clock A"
  shows "returns (detachAndDeleteENI A i)"
  unfolding detachAndDeleteENI_def
  by (auto intro!: returns_rules returns_waits assms split: sum.splits list.splits option.splits)

lemma returns_sweep1:
  assumes "ec2_clock A"
  shows "returns (sweepVPCInstancesAndENIs A vpc)"
proof -
  have "returns (sweep_eni A n)" for n
    unfolding sweep_eni_def by (auto intro!: returns_rules returns_detach assms split: option.splits)
  then show ?thesis
    unfolding sweepVPCInstancesAndENIs_def Let_def by (auto intro!: returns_rules returns_waits assms)
qed

lemma returns_sweep2:
  assumes "ec2_clock A"
  shows "returns (sweepVPCResiduals A vpc)"
proof -
  have "returns (sweep_eice A e)" "returns (sweep_available_eni A n)" "returns (sweep_groups A gs)"
    "returns (sweep_rtb A rt)" "returns (sweep_igw A v g)" for e n gs rt v g
    unfolding sweep_eice_def sweep_available_eni_def sweep_groups_def revoke_rules_def sweep_rtb_def sweep_igw_def Let_def
    by (auto intro!: returns_rules returns_waitEICEDeleted assms split: option.splits)
  then show ?thesis
    unfolding sweepVPCResiduals_def sweep_found_def Let_def
    by (auto intro!: returns_rules returns_sweep1 assms split: option.splits)
qed

subsection \<open>Every network phase returns\<close>

lemma returns_find [returns_rules]:
  "returns (findSubnetByCIDR A what n v c)" "returns (findIGWByTag A what n)" "returns (findEIPByTag A what n)"
  "returns (findNATByTag A what n)" "returns (findRTBByTagAndVPC A what n v vis)"
  unfolding findSubnetByCIDR_def findIGWByTag_def findEIPByTag_def findNATByTag_def findRTBByTagAndVPC_def
  by (auto intro!: returns_rules split: list.splits)

lemma returns_Phase02: "returns (Phase02VPC A dry)"
  unfolding Phase02VPC_def by (auto intro!: returns_rules)

lemma returns_Phase03: "returns (Phase03Subnets A dry)"
proof -
  have "returns (resolveClusterAZs A)" for A :: "('a, 'b) ec2"
    unfolding resolveClusterAZs_def Let_def by (auto intro!: returns_rules split: sum.splits)
  moreover have "returns (provision_one A cl v c m x)" for cl v c m x
    unfolding provision_one_def by (auto intro!: returns_rules split: prod.splits)
  moreover have "returns (ensureDataPathSubnet A cl v sn c)" for cl v sn c
    unfolding ensureDataPathSubnet_def by (auto intro!: returns_rules)
  ultimately show ?thesis
    unfolding Phase03Subnets_def provisionSubnets_def data_path_subnets_def dry_subnets_def
    by (auto intro!: returns_rules split: option.splits)
qed

lemma returns_Phase04: "returns (Phase04IGW A dry)"
  unfolding Phase04IGW_def ensureIGWAttached_def by (auto intro!: returns_rules)

lemma returns_Phase05: "ec2_clock A \<Longrightarrow> returns (Phase05NAT A dry)"
  unfolding Phase05NAT_def by (auto intro!: returns_rules returns_NAT)

lemma returns_Phase06: "returns (Phase06RouteTables A dry)"
proof -
  have assoc: "returns (ensureRTBAssociation A what r i)" for what r i
    unfolding ensureRTBAssociation_def by (auto intro!: returns_rules)
  have route: "returns (ensureRoute A what r c g n)" for what r c g n
    unfolding ensureRoute_def by (auto intro!: returns_rules split: option.splits)
  have table: "returns (find_or_create_rtb A cl v vis)" for cl v vis
    unfolding find_or_create_rtb_def createRTB_def by (auto intro!: returns_rules)
  show ?thesis
    unfolding Phase06RouteTables_def public_table_def private_table_def associate_all_def associate_data_path_def
    by (auto intro!: returns_rules assoc route table)
qed

lemma returns_Phase06Down: "returns (Phase06RouteTablesDown A)"
proof -
  have "returns (disassociateRTB A i)" for i
    unfolding disassociateRTB_def by (auto intro!: returns_rules split: sum.splits option.splits)
  then show ?thesis
    unfolding Phase06RouteTablesDown_def collectRTBIDs_def by (auto intro!: returns_rules)
qed

lemma returns_Phase05Down: "ec2_clock A \<Longrightarrow> returns (Phase05NATDown A)"
  unfolding Phase05NATDown_def Let_def by (auto intro!: returns_rules returns_NAT returns_waits)

lemma returns_Phase04Down:
  assumes "ec2_clock A" shows "returns (Phase04IGWDown A)"
proof -
  have "returns (detach_igw A i v)" for i v
    unfolding detach_igw_def by (auto intro!: returns_rules returns_sweep1 assms)
  then show ?thesis
    unfolding Phase04IGWDown_def by (auto intro!: returns_rules)
qed

lemma returns_Phase03Down:
  assumes "ec2_clock A" shows "returns (Phase03SubnetsDown A)"
proof -
  have one: "returns (delete_subnet A v b i)" for v b i
    unfolding delete_subnet_def by (auto intro!: returns_rules returns_sweep1 assms)
  have many: "returns (delete_subnets A v b is)" for v b "is"
    by (induction "is" arbitrary: b) (auto intro!: returns_rules one)
  have data: "returns (delete_data_path A v b ks)" for v b ks
    by (induction ks arbitrary: b) (auto intro!: returns_rules one)
  show ?thesis
    unfolding Phase03SubnetsDown_def collectSubnetIDs_def by (auto intro!: returns_rules one many data)
qed

lemma returns_Phase02Down:
  assumes "ec2_clock A" shows "returns (Phase02VPCDown A)"
proof -
  have "returns (delete_vpcs A ids)" for ids
    unfolding delete_vpcs_def by (auto intro!: returns_rules returns_sweep2 assms)
  then show ?thesis
    unfolding Phase02VPCDown_def Let_def by (auto intro!: returns_rules split: sum.splits)
qed

lemma returns_hydrate:
  "returns (HydrateMissingStateFromAWS ec2 K)"
proof -
  have "returns (hydrate_kubeconfig K cl)" for cl
    unfolding hydrate_kubeconfig_def Let_def by (auto intro!: returns_rules split: option.splits)
  moreover have "returns (hydrate_subnets sns)" for sns
    unfolding hydrate_subnets_def by (auto intro!: returns_rules)
  ultimately show ?thesis
    unfolding HydrateMissingStateFromAWS_def Let_def
    by (auto intro!: returns_rules split: option.splits list.splits)
qed

text \<open>The network phases in the order \<open>up\<close> and \<open>down\<close> run them.\<close>

definition network_up :: "('w, 'e) ec2 \<Rightarrow> bool \<Rightarrow> ('w, 'e phase_error, unit) phase list" where
  "network_up A dryRun =
     [Phase02VPC A dryRun, Phase03Subnets A dryRun, Phase04IGW A dryRun, Phase05NAT A dryRun,
      Phase06RouteTables A dryRun]"

definition network_down :: "('w, 'e) ec2 \<Rightarrow> ('w, 'e phase_error, unit) phase list" where
  "network_down A =
     [Phase06RouteTablesDown A, Phase05NATDown A, Phase04IGWDown A, Phase03SubnetsDown A, Phase02VPCDown A]"

subsection \<open>Zones\<close>

lemma cluster_zones_ok:
  assumes "avail \<noteq> []"
  shows "set (cluster_zones avail azs) \<subseteq> set avail" and "cluster_zones avail azs \<noteq> []"
  using assms by (auto simp: cluster_zones_def zone_bad_def list_ex_iff dest: in_set_takeD)

lemma remap_subnets_nth:
  "i < length sns \<Longrightarrow> remap_subnets avail azs sns ! i =
     (let sn = sns ! i in if zone_bad avail (sn_AZ sn) then sn\<lparr>sn_AZ := azs ! (i mod length azs)\<rparr> else sn)"
  by (simp add: remap_subnets_def nth_enumerate_eq Let_def)

lemma remap_subnets_length: "length (remap_subnets avail azs sns) = length sns"
  by (simp add: remap_subnets_def)

lemma remap_subnets_ok:
  assumes "azs \<noteq> []" and "set azs \<subseteq> set avail" and "sn \<in> set (remap_subnets avail azs sns)"
  shows "sn_AZ sn \<in> set avail"
proof -
  from assms(3) obtain i where i: "i < length sns" "sn = remap_subnets avail azs sns ! i"
    by (auto simp: in_set_conv_nth remap_subnets_length)
  moreover have "azs ! (i mod length azs) \<in> set avail" using assms by auto
  ultimately show ?thesis by (auto simp: remap_subnets_nth Let_def zone_bad_def)
qed

lemma remap_subnets_fixed:
  "\<forall>sn \<in> set sns. \<not> zone_bad avail (sn_AZ sn) \<Longrightarrow> remap_subnets avail azs sns = sns"
  by (rule nth_equalityI) (auto simp: remap_subnets_length remap_subnets_nth Let_def)

text \<open>A network whose zones are all available.\<close>

definition zones_available :: "string list \<Rightarrow> Network \<Rightarrow> bool" where
  "zones_available avail nw \<longleftrightarrow>
     nw_AZs nw \<noteq> [] \<and> list_all (\<lambda>az. az \<in> set avail) (nw_AZs nw) \<and>
     list_all (\<lambda>sn. sn_AZ sn \<in> set avail) (sns_Public (nw_Subnets nw) @ sns_Private (nw_Subnets nw)) \<and>
     (case nw_DataPath nw of
        None \<Rightarrow> True
      | Some dp \<Rightarrow> list_all (\<lambda>sn. sn_CIDR sn = [] \<or> sn_AZ sn \<in> set avail) [dp_External dp, dp_Internal dp])"

lemma remap_data_subnet_CIDR [simp]: "sn_CIDR (remap_data_subnet avail azs sn) = sn_CIDR sn"
  by (simp add: remap_data_subnet_def)

lemma remap_data_subnet_ok:
  "azs \<noteq> [] \<Longrightarrow> set azs \<subseteq> set avail \<Longrightarrow> sn_CIDR sn = [] \<or> sn_AZ (remap_data_subnet avail azs sn) \<in> set avail"
  by (auto simp: remap_data_subnet_def zone_bad_def)

lemma remap_network_ok:
  assumes "avail \<noteq> []"
  shows "zones_available avail (remap_network avail nw)"
proof -
  let ?azs = "cluster_zones avail (nw_AZs nw)"
  note ok = cluster_zones_ok [OF assms, of "nw_AZs nw"]
  have "sn_AZ sn \<in> set avail" if "sn \<in> set (remap_subnets avail ?azs sns)" for sn sns
    using remap_subnets_ok [OF ok(2) ok(1) that] .
  then show ?thesis
    using ok remap_data_subnet_ok [OF ok(2) ok(1)]
    by (auto simp: zones_available_def remap_network_def Let_def list_all_iff split: option.splits)
qed

lemma zones_not_bad: "[] \<notin> set avail \<Longrightarrow> ''auto'' \<notin> set avail \<Longrightarrow> az \<in> set avail \<Longrightarrow> \<not> zone_bad avail az"
  by (auto simp: zone_bad_def)

lemma remap_network_fixed:
  assumes "[] \<notin> set avail" and "''auto'' \<notin> set avail" and "zones_available avail nw"
  shows "remap_network avail nw = nw"
proof -
  note bad = zones_not_bad [OF assms(1,2)]
  have azs: "cluster_zones avail (nw_AZs nw) = nw_AZs nw"
    using assms(3) bad by (auto simp: zones_available_def cluster_zones_def list_ex_iff list_all_iff)
  have data: "remap_data_subnet avail (nw_AZs nw) sn = sn" if "sn_CIDR sn = [] \<or> sn_AZ sn \<in> set avail" for sn
    using that bad by (auto simp: remap_data_subnet_def)
  show ?thesis
    using assms(3) bad
    by (cases "nw_DataPath nw")
      (auto simp: remap_network_def azs Let_def zones_available_def list_all_iff data remap_subnets_fixed)
qed

subsection \<open>Ids\<close>

lemma add_all_props:
  "distinct ids \<Longrightarrow> [] \<notin> set ids \<Longrightarrow>
   distinct (add_all is ids) \<and> set (add_all is ids) = set ids \<union> (set is - {[]})"
proof (induction "is" arbitrary: ids)
  case (Cons i "is")
  have "distinct (add_id i ids)" "[] \<notin> set (add_id i ids)" "set (add_id i ids) = set ids \<union> ({i} - {[]})"
    using Cons.prems by (auto simp: add_id_def)
  with Cons.IH [of "add_id i ids"] show ?case by (auto simp: add_all_def)
qed (simp add: add_all_def)

text \<open>The ids a comma-separated value of the state names.\<close>

definition csv_ids :: "state \<Rightarrow> string \<Rightarrow> string set" where
  "csv_ids st key = set (map trim_space (split_on CHR '','' (Get st key))) - {[]}"

definition query_ids :: "('w, 'e) ec2 \<Rightarrow> ec2_filter list \<Rightarrow> 'w \<Rightarrow> string set" where
  "query_ids A fs w = trim_space ` set (List.map_filter su_id (ok_list (ec_subnets A fs w))) - {[]}"

lemma csv_ids_eq: "csv_ids st key = trim_space ` set (if Get st key = [] then [] else split_on CHR '','' (Get st key)) - {[]}"
proof (cases "Get st key = []")
  case True
  moreover have "trim_space [] = []" by code_simp
  ultimately show ?thesis by (simp add: csv_ids_def)
qed (simp add: csv_ids_def)

subsection \<open>Claims\<close>

text \<open>
  A dry run of the network phases 02 to 06 makes no call that changes the account or writes a file,
  leaves the intent as it is, and, from any state, plans through to the end, or stops in phase 05
  exactly when the intent has no public subnet.
\<close>
theorem network_dry_run:
  "\<exists>s'. for_each (\<lambda>m. m) (network_up A True) s =
      Some (if sns_Public (nw_Subnets (cl_Network (rs_cl s))) = [] then Inl (NotInState ''PUBLIC_SUBNETS'') else Inr (), s') \<and>
    rs_world s' = rs_world s \<and> rs_cl s' = rs_cl s"
proof -
  have ne: "join_csv (makeDryRunSubnetIDs l n) = [] \<longleftrightarrow> n = 0" for l n
    by (cases n; cases "n - 1") (auto simp: join_csv_def makeDryRunSubnetIDs_def upt_rec)
  show ?thesis
    by (simp add: network_up_def Phase02VPC_def Phase03Subnets_def Phase04IGW_def Phase05NAT_def Phase06RouteTables_def
        dry_subnets_def and_do_def intent_def st_get_def st_set_def give_def raise_def Get_def Set_key_def ne)
qed

text \<open>
  Every network phase, every teardown of one and the refilling of the state return: when a sleep
  lets the clock advance, none of their waits, also those inside the sweeps, runs for ever.
\<close>
theorem network_phases_return:
  assumes "ec2_clock A" and "m \<in> set (network_up A dryRun @ network_down A @ [HydrateMissingStateFromAWS ec2 K])"
  shows "\<exists>r s'. m s = Some (r, s')"
proof -
  have "returns m"
    using assms returns_Phase02 returns_Phase03 returns_Phase04 returns_Phase05 returns_Phase06 returns_Phase06Down
      returns_Phase05Down returns_Phase04Down returns_Phase03Down returns_Phase02Down returns_hydrate
    by (auto simp: network_up_def network_down_def)
  then show ?thesis by (auto simp: returns_def)
qed

text \<open>The intent with every zone blanked, and the zones of the operator that must stay as they are.\<close>

definition without_zone :: "SubnetSpec \<Rightarrow> SubnetSpec" where
  "without_zone sn = sn\<lparr>sn_AZ := []\<rparr>"

definition without_zones :: "Cluster \<Rightarrow> Cluster" where
  "without_zones cl =
     (let nw = cl_Network cl; sns = nw_Subnets nw
      in cl\<lparr>cl_Network := nw\<lparr>nw_AZs := [],
           nw_Subnets := sns\<lparr>sns_Public := map without_zone (sns_Public sns), sns_Private := map without_zone (sns_Private sns)\<rparr>,
           nw_DataPath := map_option (\<lambda>dp. dp\<lparr>dp_External := without_zone (dp_External dp),
             dp_Internal := without_zone (dp_Internal dp)\<rparr>) (nw_DataPath nw)\<rparr>\<rparr>)"

definition usable_names :: "string list \<Rightarrow> string set" where
  "usable_names avail = set avail - {[], ''auto''}"

definition zone_kept :: "string list \<Rightarrow> SubnetSpec \<Rightarrow> SubnetSpec \<Rightarrow> bool" where
  "zone_kept avail sn sn' \<longleftrightarrow> sn_AZ sn \<notin> usable_names avail \<or> sn_AZ sn' = sn_AZ sn"

definition operator_zones_kept :: "string list \<Rightarrow> Network \<Rightarrow> Network \<Rightarrow> bool" where
  "operator_zones_kept avail nw nw' \<longleftrightarrow>
     (nw_AZs nw = [] \<or> \<not> set (nw_AZs nw) \<subseteq> usable_names avail \<or> nw_AZs nw' = nw_AZs nw) \<and>
     list_all2 (zone_kept avail) (sns_Public (nw_Subnets nw)) (sns_Public (nw_Subnets nw')) \<and>
     list_all2 (zone_kept avail) (sns_Private (nw_Subnets nw)) (sns_Private (nw_Subnets nw')) \<and>
     rel_option (\<lambda>d d'. zone_kept avail (dp_External d) (dp_External d') \<and> zone_kept avail (dp_Internal d) (dp_Internal d'))
       (nw_DataPath nw) (nw_DataPath nw')"

lemma zone_bad_iff: "zone_bad avail az \<longleftrightarrow> az \<notin> usable_names avail"
  by (auto simp: zone_bad_def usable_names_def)

lemma remap_subnets_kept:
  "map without_zone (remap_subnets avail azs sns) = map without_zone sns"
  "list_all2 (zone_kept avail) sns (remap_subnets avail azs sns)"
proof -
  have kept: "map without_zone (map (\<lambda>(i, sn). if zone_bad avail (sn_AZ sn) then sn\<lparr>sn_AZ := f i\<rparr> else sn) (enumerate n sns)) =
      map without_zone sns \<and>
    list_all2 (zone_kept avail) sns (map (\<lambda>(i, sn). if zone_bad avail (sn_AZ sn) then sn\<lparr>sn_AZ := f i\<rparr> else sn) (enumerate n sns))"
    for n f
    by (induction sns arbitrary: n) (simp_all add: without_zone_def zone_kept_def zone_bad_iff)
  show "map without_zone (remap_subnets avail azs sns) = map without_zone sns"
    "list_all2 (zone_kept avail) sns (remap_subnets avail azs sns)"
    using kept [where n = 0 and f = "\<lambda>i. azs ! (i mod length azs)"] by (simp_all add: remap_subnets_def)
qed

lemma remap_data_kept:
  "without_zone (remap_data_subnet avail azs sn) = without_zone sn" "zone_kept avail sn (remap_data_subnet avail azs sn)"
  by (auto simp: remap_data_subnet_def without_zone_def zone_kept_def zone_bad_iff)

lemma remap_network_kept:
  "without_zones (cl\<lparr>cl_Network := remap_network avail (cl_Network cl)\<rparr>) = without_zones cl"
  "operator_zones_kept avail nw (remap_network avail nw)"
proof -
  show "without_zones (cl\<lparr>cl_Network := remap_network avail (cl_Network cl)\<rparr>) = without_zones cl"
    by (simp add: without_zones_def remap_network_def Let_def remap_subnets_kept remap_data_kept option.map_comp comp_def)
  show "operator_zones_kept avail nw (remap_network avail nw)"
    by (cases "nw_DataPath nw")
      (auto simp: operator_zones_kept_def remap_network_def Let_def remap_subnets_kept remap_data_kept cluster_zones_def
        list_ex_iff zone_bad_iff)
qed

text \<open>
  C10 When EC2 reports at least one usable zone, phase 03 settles on a network all of whose zones,
  those of the cluster, of every public and private subnet and of the data-path subnets, are usable
  ones. It changes zones only: with the zones blanked the intent is the same, and a usable zone the
  operator gave a subnet stays, as does a list of cluster zones that are all usable. Doing it again
  changes nothing, as long as no zone is called auto.
\<close>
theorem zones_resolved:
  assumes "ec_zones A zone_filters (rs_world s) = Inr zones"
    and "avail = sort (List.map_filter zone_usable zones)" and "avail \<noteq> []"
  shows "\<exists>s'. resolveClusterAZs A s = Some (Inr (), s') \<and>
    zones_available avail (cl_Network (rs_cl s')) \<and>
    without_zones (rs_cl s') = without_zones (rs_cl s) \<and>
    operator_zones_kept avail (cl_Network (rs_cl s)) (cl_Network (rs_cl s')) \<and>
    rs_st s' = rs_st s \<and> rs_world s' = rs_world s \<and>
    (''auto'' \<in> set avail \<or> resolveClusterAZs A s' = Some (Inr (), s'))"
proof -
  define s' where "s' = s\<lparr>rs_cl := (rs_cl s)\<lparr>cl_Network := remap_network avail (cl_Network (rs_cl s))\<rparr>\<rparr>"
  have run: "resolveClusterAZs A t = Some (Inr (), t\<lparr>rs_cl := (rs_cl t)\<lparr>cl_Network := remap_network avail (cl_Network (rs_cl t))\<rparr>\<rparr>)"
    if "rs_world t = rs_world s" for t
    using assms that by (simp add: resolveClusterAZs_def and_do_def intent_def query_def set_intent_def Let_def)
  have "n \<noteq> []" if "zone_usable z = Some n" for z n
    using that by (simp add: zone_usable_def split: option.splits if_splits)
  then have ne: "[] \<notin> set avail"
    unfolding assms(2) set_sort by (auto simp: List.map_filter_def) blast
  have fixed: "remap_network avail (cl_Network (rs_cl s')) = cl_Network (rs_cl s')" if "''auto'' \<notin> set avail"
    using remap_network_fixed [OF ne that remap_network_ok [OF assms(3)]] by (simp add: s'_def)
  have "resolveClusterAZs A s' = Some (Inr (), s')" if "''auto'' \<notin> set avail"
    using run [of s'] fixed [OF that] by (simp add: s'_def)
  moreover have "resolveClusterAZs A s = Some (Inr (), s')"
    using run [of s] by (simp add: s'_def)
  ultimately show ?thesis
    using remap_network_ok [OF assms(3)] remap_network_kept
    by (intro exI [of _ s']) (auto simp: s'_def)
qed

text \<open>
  The teardown of the subnets works through exactly the ids the state lists, the ids a tag query
  finds and, when the VPC is known, the ids of every subnet in it: each once, none empty. A query
  that fails contributes nothing.
\<close>
theorem teardown_subnets_exact:
  "\<exists>ids. collectSubnetIDs A name s = Some (Inr ids, s) \<and> distinct ids \<and>
     set ids = csv_ids (rs_st s) ''PUBLIC_SUBNETS'' \<union> csv_ids (rs_st s) ''PRIVATE_SUBNETS'' \<union>
       query_ids A [ClusterFilter name] (rs_world s) \<union>
       (if Get (rs_st s) ''VPC_ID'' = [] then {}
        else query_ids A [plain_filter ''vpc-id'' [Get (rs_st s) ''VPC_ID'']] (rs_world s))"
proof -
  define pieces where "pieces key = (if Get (rs_st s) key = [] then [] else split_on CHR '','' (Get (rs_st s) key))" for key
  define found where "found fs = List.map_filter su_id (ok_list (ec_subnets A fs (rs_world s)))" for fs
  define rest where "rest = (if Get (rs_st s) ''VPC_ID'' = [] then []
    else found [plain_filter ''vpc-id'' [Get (rs_st s) ''VPC_ID'']])"
  define all_ids where "all_ids = map trim_space
    (pieces ''PUBLIC_SUBNETS'' @ pieces ''PRIVATE_SUBNETS'' @ found [ClusterFilter name] @ rest)"
  have "collectSubnetIDs A name s = Some (Inr (add_all all_ids []), s)"
    by (simp add: collectSubnetIDs_def and_do_def st_get_def query_def give_def all_ids_def pieces_def found_def rest_def
        map_filter_def)
  moreover have "distinct (add_all all_ids []) \<and> set (add_all all_ids []) = set all_ids - {[]}"
    using add_all_props [of "[]" all_ids] by simp
  moreover have "set all_ids - {[]} = csv_ids (rs_st s) ''PUBLIC_SUBNETS'' \<union> csv_ids (rs_st s) ''PRIVATE_SUBNETS'' \<union>
       query_ids A [ClusterFilter name] (rs_world s) \<union>
       (if Get (rs_st s) ''VPC_ID'' = [] then {}
        else query_ids A [plain_filter ''vpc-id'' [Get (rs_st s) ''VPC_ID'']] (rs_world s))"
    unfolding all_ids_def csv_ids_eq pieces_def [symmetric] query_ids_def found_def [symmetric]
    by (auto simp: rest_def)
  ultimately show ?thesis by metis
qed

subsection \<open>Witnesses\<close>

text \<open>An account with two zones, empty otherwise, whose state is a clock; every call succeeds.\<close>

definition empty_account :: "(int, string) ec2" where
  "empty_account = \<lparr>ec_codes = \<lambda>e. [e], ec_iter = \<lambda>_. [], ec_now = \<lambda>w. w, ec_sleep = \<lambda>d w. (None, w + d),
     ec_save = \<lambda>_ w. (None, w),
     ec_zones = \<lambda>_ _. Inr [\<lparr>zn_name = Some ''us-east-1b'', zn_type = None\<rparr>, \<lparr>zn_name = Some ''us-east-1a'', zn_type = None\<rparr>],
     ec_vpcs = \<lambda>_ _. Inr [], ec_create_vpc = \<lambda>_ _ w. (Inr ''vpc-1'', w), ec_modify_vpc = \<lambda>_ _ w. (None, w),
     ec_delete_vpc = \<lambda>_ w. (None, w), ec_subnets = \<lambda>_ _. Inr [], ec_create_subnet = \<lambda>_ c _ _ w. (Inr c, w),
     ec_map_public = \<lambda>_ w. (None, w), ec_delete_subnet = \<lambda>_ w. (None, w), ec_igws = \<lambda>_ _. Inr [],
     ec_create_igw = \<lambda>_ w. (Inr ''igw-1'', w), ec_attach_igw = \<lambda>_ _ w. (None, w), ec_detach_igw = \<lambda>_ _ w. (None, w),
     ec_delete_igw = \<lambda>_ w. (None, w), ec_addresses = \<lambda>_ _. Inr [], ec_allocate = \<lambda>_ w. (Inr ''eip-1'', w),
     ec_release = \<lambda>_ w. (None, w), ec_nats = \<lambda>_ _. Inr [], ec_create_nat = \<lambda>_ _ _ w. (Inr ''nat-1'', w),
     ec_delete_nat = \<lambda>_ w. (None, w), ec_rtbs = \<lambda>_ _. Inr [], ec_create_rtb = \<lambda>_ _ w. (Inr ''rtb-1'', w),
     ec_create_route = \<lambda>_ _ _ w. (None, w), ec_associate = \<lambda>_ _ w. (None, w), ec_disassociate = \<lambda>_ w. (None, w),
     ec_delete_rtb = \<lambda>_ w. (None, w), ec_enis = \<lambda>_ _. Inr [], ec_detach_eni = \<lambda>_ w. (None, w),
     ec_delete_eni = \<lambda>_ w. (None, w), ec_instances = \<lambda>_ _. Inr [], ec_terminate = \<lambda>_ w. (None, w),
     ec_eices = \<lambda>_ _. Inr [], ec_delete_eice = \<lambda>_ w. (None, w), ec_sgs = \<lambda>_ _. Inr [],
     ec_revoke_ingress = \<lambda>_ _ w. (None, w), ec_revoke_egress = \<lambda>_ _ w. (None, w), ec_delete_sg = \<lambda>_ w. (None, w)\<rparr>"

lemma empty_account_clock: "ec2_clock empty_account"
  by (simp add: ec2_clock_def empty_account_def)

theorem network_phases_return_witness:
  "ec2_clock empty_account \<and> (\<forall>s. \<exists>r s'. Phase05NAT empty_account False s = Some (r, s'))"
  using network_phases_return [OF empty_account_clock, of "Phase05NAT empty_account False" False] empty_account_clock
  by (simp add: network_up_def)

definition two_zones :: "zone list" where
  "two_zones = [\<lparr>zn_name = Some ''us-east-1b'', zn_type = None\<rparr>, \<lparr>zn_name = Some ''us-east-1a'', zn_type = None\<rparr>]"

lemma two_zones_usable: "List.map_filter zone_usable two_zones = [''us-east-1b'', ''us-east-1a'']"
  by (simp add: two_zones_def zone_usable_def List.map_filter_def)

theorem zones_resolved_witness:
  "\<forall>s. \<exists>s'. resolveClusterAZs empty_account s = Some (Inr (), s') \<and>
     zones_available [''us-east-1a'', ''us-east-1b''] (cl_Network (rs_cl s')) \<and>
     without_zones (rs_cl s') = without_zones (rs_cl s) \<and>
     operator_zones_kept [''us-east-1a'', ''us-east-1b''] (cl_Network (rs_cl s)) (cl_Network (rs_cl s'))"
proof
  fix s :: "int run_state"
  have sorted: "sort (List.map_filter zone_usable two_zones) = [''us-east-1a'', ''us-east-1b'']"
    unfolding two_zones_usable by code_simp
  have "ec_zones empty_account zone_filters (rs_world s) = Inr two_zones"
    by (simp add: empty_account_def two_zones_def)
  from zones_resolved [OF this sorted [symmetric]]
  show "\<exists>s'. resolveClusterAZs empty_account s = Some (Inr (), s') \<and>
     zones_available [''us-east-1a'', ''us-east-1b''] (cl_Network (rs_cl s')) \<and>
     without_zones (rs_cl s') = without_zones (rs_cl s) \<and>
     operator_zones_kept [''us-east-1a'', ''us-east-1b''] (cl_Network (rs_cl s)) (cl_Network (rs_cl s'))"
    by auto
qed

end
