(* ===== verification/Lifecycle.thy ===== *)
theory Lifecycle
  imports IntentValidate PhaseNetDown
begin

text \<open>
  \<open>internal/cli/lifecycle.go\<close>: \<open>awsbnkctl up\<close> and \<open>awsbnkctl down\<close>. Loading the intent, the state
  and the demo rules are the functions of the other theories. A phase is a parameter under its
  stage name (\<open>PhaseNet\<close> and \<open>PhaseNetDown\<close> give those of the network), told whether the AWS clients
  exist and whether the run is dry. The progress display is left out.
\<close>

record forge_request =
  fr_WorkspaceName :: string
  fr_WorkspaceDir :: string
  fr_ProjectName :: string
  fr_ClusterName :: string
  fr_Region :: string
  fr_Kubeconfig :: string

record ('w, 'e, 'r, 'd) lifecycle =
  lc_read :: "'w \<Rightarrow> string \<Rightarrow> 'r + string"
  lc_decode :: "string \<Rightarrow> 'd + Cluster"
  lc_env :: environment
  lc_clients :: "string \<Rightarrow> 'w \<Rightarrow> 'e option"
  lc_open :: "'w \<Rightarrow> fpath \<Rightarrow> 'e opened"
  lc_now :: "'w \<Rightarrow> int"
  lc_rfc3339 :: "int \<Rightarrow> string"
  lc_save :: "state \<Rightarrow> 'w \<Rightarrow> 'e option \<times> 'w"
  lc_phase :: "string \<Rightarrow> bool \<Rightarrow> bool \<Rightarrow> ('w, 'e, unit) phase"
  lc_attach :: "string \<Rightarrow> 'w \<Rightarrow> 'e option \<times> 'w"
  lc_kubeconfig :: "string \<Rightarrow> string \<Rightarrow> 'w \<Rightarrow> 'e + string"
  lc_register :: "string \<Rightarrow> forge_request \<Rightarrow> 'w \<Rightarrow> 'e option \<times> 'w"
  lc_hydrate :: "('w, 'e, unit) phase"
  lc_cleanup :: "'w \<Rightarrow> 'w"
  lc_use_cases :: "string list"
  lc_kube_context :: "string \<Rightarrow> 'w \<Rightarrow> bool"
  lc_clean_case :: "string \<Rightarrow> 'w \<Rightarrow> 'e option \<times> 'w"
  lc_down :: "string \<Rightarrow> bool \<Rightarrow> ('w, 'e, unit) phase"

datatype ('e, 'r, 'd) run_error =
    NoConfig
  | IntentError "('r, 'd) IntentValidate.load_error"
  | DemoError testing_error
  | SkipAuthLive
  | ClientsError 'e
  | StateError "'e StateEnv.load_error"
  | MarkersError 'e
  | StageError string 'e
  | NoKubeconfigPath
  | AttachError 'e
  | EmptyName
  | EmptyRegion
  | RegisterError 'e

type_synonym ('w, 'e, 'r, 'd) run_result = "(('e, 'r, 'd) run_error option \<times> 'w) option"

definition stop :: "('e, 'r, 'd) run_error \<Rightarrow> 'w \<Rightarrow> ('w, 'e, 'r, 'd) run_result" where
  "stop e w = Some (Some e, w)"

definition succeed :: "'w \<Rightarrow> ('w, 'e, 'r, 'd) run_result" where
  "succeed w = Some (None, w)"

definition run_phase ::
  "('w, ('e, 'r, 'd) run_error, unit) phase \<Rightarrow> 'w run_state \<Rightarrow>
   ('w run_state \<Rightarrow> ('w, 'e, 'r, 'd) run_result) \<Rightarrow> ('w, 'e, 'r, 'd) run_result" where
  "run_phase m s k =
     (case m s of
        None \<Rightarrow> None
      | Some (Inl e, s') \<Rightarrow> stop e (rs_world s')
      | Some (Inr _, s') \<Rightarrow> k s')"

subsection \<open>Up\<close>

text \<open>The conditions are read when the stage comes up.\<close>

datatype step = Stage nat string | StageIf "Cluster \<Rightarrow> bool" nat string | AttachK8s

(* src/internal/cli/lifecycle.go:385-455 runPhasedUp part *)
definition up_infrastructure :: "step list" where
  "up_infrastructure =
     [Stage 1 ''preflight'', Stage 1 ''vpc'', Stage 1 ''subnets'', Stage 1 ''igw'', Stage 1 ''nat'',
      Stage 1 ''route-tables'', Stage 1 ''iam'', Stage 2 ''eks-cluster'', Stage 2 ''forge-register'',
      Stage 2 ''vpc-cni-prefix'', Stage 2 ''metrics-server'', Stage 3 ''node-group'', Stage 3 ''kubeconfig'']"

(* src/internal/cli/lifecycle.go:456-530 runPhasedUp part *)
definition up_nodes :: "step list" where
  "up_nodes =
     [AttachK8s, Stage 3 ''tmm-node-label'', Stage 3 ''nvidia-device-plugin'',
      StageIf SageMakerEnabled 3 ''sagemaker-lmi'', Stage 3 ''secondary-enis'', Stage 3 ''jumphost'',
      Stage 3 ''bigip-ve'', Stage 3 ''iface-discovery'', StageIf DemoEnabled 3 ''demo-stage'', Stage 3 ''irsa-oidc'']"

(* src/internal/cli/lifecycle.go:532-670 runPhasedUp part *)
definition up_bnk :: "step list" where
  "up_bnk =
     [Stage 4 ''ebs-csi-hugepages'', Stage 4 ''k8s-foundation'', Stage 4 ''flo-helm'', Stage 4 ''lb-controller'',
      Stage 4 ''otel-certs'', Stage 4 ''cloud-network-mapping'', Stage 4 ''nads'', Stage 4 ''sriov-dataplane'',
      Stage 4 ''cne-instance'', Stage 4 ''irsa-sa'', Stage 4 ''license'', Stage 4 ''spk-vlan-gateway-class'',
      Stage 4 ''cwc-heal'', Stage 4 ''dssm-overlay'', Stage 4 ''tmm-log-stream'', Stage 4 ''pod-manager-heal'',
      Stage 4 ''activation-poll'', Stage 4 ''bigip-onboard'', Stage 4 ''postflight'']"

definition up_steps :: "step list" where
  "up_steps = up_infrastructure @ up_nodes @ up_bnk"

definition run_stage ::
  "('w, 'e, 'r, 'd) lifecycle \<Rightarrow> bool \<Rightarrow> bool \<Rightarrow> string \<Rightarrow> ('w, ('e, 'r, 'd) run_error, unit) phase" where
  "run_stage L clients dryRun name = wrapping (StageError name) (lc_phase L name clients dryRun)"

definition attach_k8s :: "('w, 'e, 'r, 'd) lifecycle \<Rightarrow> ('w, ('e, 'r, 'd) run_error, unit) phase" where
  "attach_k8s L = and_do (st_get ''KUBECONFIG_PATH'') (\<lambda>path.
     if path = [] then raise NoKubeconfigPath
     else and_do (call (lc_attach L path)) (check_err AttachError))"

definition run_step ::
  "('w, 'e, 'r, 'd) lifecycle \<Rightarrow> bool \<Rightarrow> bool \<Rightarrow> step \<Rightarrow> ('w, ('e, 'r, 'd) run_error, unit) phase" where
  "run_step L clients dryRun st =
     (case st of
        Stage _ name \<Rightarrow> run_stage L clients dryRun name
      | StageIf enabled _ name \<Rightarrow>
          and_do intent (\<lambda>cl. if enabled cl then run_stage L clients dryRun name else give ())
      | AttachK8s \<Rightarrow> if dryRun then give () else attach_k8s L)"

(* src/internal/cli/lifecycle.go:182-248 registerWithForgePostApply *)
definition registerWithForgePostApply ::
  "('w, 'e, 'r, 'd) lifecycle \<Rightarrow> Cluster \<Rightarrow> 'w \<Rightarrow> ('w, 'e, 'r, 'd) run_result" where
  "registerWithForgePostApply L cl w =
     (let name = md_Name (cl_Metadata cl); region = md_Region (cl_Metadata cl)
      in if name = [] then stop EmptyName w
         else if region = [] then stop EmptyRegion w
         else (case lc_kubeconfig L region name w of
             Inl e \<Rightarrow> stop (RegisterError e) w
           | Inr yaml \<Rightarrow>
               (case lc_register L (forge_field forge_MCPURL (cl_Forge cl))
                  \<lparr>fr_WorkspaceName = name, fr_WorkspaceDir = StateDir cl,
                   fr_ProjectName = forge_field forge_ProjectName (cl_Forge cl),
                   fr_ClusterName = name, fr_Region = region, fr_Kubeconfig = yaml\<rparr> w of
                  (Some e, w1) \<Rightarrow> stop (RegisterError e) w1
                | (None, w1) \<Rightarrow> succeed w1)))"

text \<open>The demo markers, with the expiry in the state and in the tags of the intent.\<close>

definition demo_ttl :: "Cluster \<Rightarrow> int" where
  "demo_ttl cl =
     (case parse_duration (case cl_Demo cl of None \<Rightarrow> [] | Some d \<Rightarrow> demo_TTL d) of
        Some t \<Rightarrow> if t \<le> 0 then the (parse_duration DefaultDemoTTL) else t
      | None \<Rightarrow> the (parse_duration DefaultDemoTTL))"

(* src/internal/cli/lifecycle.go:325-350 runPhasedUp part *)
definition mark_demo ::
  "('w, 'e, 'r, 'd) lifecycle \<Rightarrow> bool \<Rightarrow> ('w, ('e, 'r, 'd) run_error, unit) phase" where
  "mark_demo L dryRun = and_do intent (\<lambda>cl.
     if \<not> DemoEnabled cl then give ()
     else
       and_do (query (lc_now L)) (\<lambda>now.
       let expiry = lc_rfc3339 L (now + demo_ttl cl) in
       and_do (st_set ''DEMO_MODE'' ''true'') (\<lambda>_.
       and_do (st_set ''DEMO_STAGED_AT'' (lc_rfc3339 L now)) (\<lambda>_.
       and_do (st_set ''DEMO_EXPIRY'' expiry) (\<lambda>_.
       and_do (set_intent (SetDemoTags expiry cl)) (\<lambda>_.
       if dryRun then give ()
       else (\<lambda>s. case lc_save L (rs_st s) (rs_world s) of
           (r, w) \<Rightarrow> check_err MarkersError r (s\<lparr>rs_world := w\<rparr>))))))))"

record run_flags =
  rf_dryRun :: bool
  rf_demo :: bool
  rf_skipAuth :: bool
  rf_register :: bool

definition live_clients :: "run_flags \<Rightarrow> bool" where
  "live_clients F \<longleftrightarrow> \<not> (rf_dryRun F \<and> rf_skipAuth F)"

text \<open>Loading, with \<open>--demo\<close> applied and the demo rules checked again.\<close>

definition load_for_up ::
  "('w, 'e, 'r, 'd) lifecycle \<Rightarrow> string \<Rightarrow> run_flags \<Rightarrow> 'w \<Rightarrow> ('e, 'r, 'd) run_error + Cluster" where
  "load_for_up L path F w =
     (case snd (IntentValidate.Load (lc_read L w) (lc_decode L) (lc_env L) path) of
        Inl e \<Rightarrow> Inl (IntentError e)
      | Inr c \<Rightarrow>
          let cl = (if rf_demo F then EnableDemo c else c)
          in if DemoEnabled cl then
               (case snd (ValidateDemo cl) of Some e \<Rightarrow> Inl (DemoError e) | None \<Rightarrow> Inr cl)
             else Inr cl)"

(* src/internal/cli/lifecycle.go:269-686 runPhasedUp *)
definition runPhasedUp ::
  "('w, 'e, 'r, 'd) lifecycle \<Rightarrow> string \<Rightarrow> run_flags \<Rightarrow> 'w \<Rightarrow> ('w, 'e, 'r, 'd) run_result" where
  "runPhasedUp L path F w =
     (case load_for_up L path F w of
        Inl e \<Rightarrow> stop e w
      | Inr cl \<Rightarrow>
          if rf_skipAuth F \<and> \<not> rf_dryRun F then stop SkipAuthLive w
          else (case (if live_clients F then lc_clients L (md_Region (cl_Metadata cl)) w else None) of
              Some e \<Rightarrow> stop (ClientsError e) w
            | None \<Rightarrow>
                (case Load_state (lc_open L w) (StateDir cl) of
                   Inl e \<Rightarrow> stop (StateError e) w
                 | Inr st0 \<Rightarrow>
                     let st = (if rf_dryRun F then MarkReadOnly st0 else st0)
                     in run_phase (and_do (mark_demo L (rf_dryRun F)) (\<lambda>_.
                            for_each (run_step L (live_clients F) (rf_dryRun F)) up_steps))
                          \<lparr>rs_cl = cl, rs_st = st, rs_world = w\<rparr>
                          (\<lambda>s. if rf_register F \<and> \<not> rf_dryRun F
                               then registerWithForgePostApply L (rs_cl s) (rs_world s)
                               else succeed (rs_world s)))))"

(* src/internal/cli/lifecycle.go:166-171 runUp *)
definition runUp ::
  "('w, 'e, 'r, 'd) lifecycle \<Rightarrow> string \<Rightarrow> run_flags \<Rightarrow> 'w \<Rightarrow> ('w, 'e, 'r, 'd) run_result" where
  "runUp L config F w = (if config = [] then stop NoConfig w else runPhasedUp L config F w)"

subsection \<open>Down\<close>

text \<open>\<open>bufio.Scanner\<close> on the input: the first line, without a carriage return, must be the word.\<close>

(* src/internal/cli/lifecycle.go:693-702 confirmDestroy *)
definition confirmDestroy :: "string \<Rightarrow> bool" where
  "confirmDestroy input =
     (case scan_lines input of
        [] \<Rightarrow> False
      | l # _ \<Rightarrow> int (length l) < MaxScanTokenSize \<and> drop_cr l = ''destroy'')"

text \<open>The steps in order; the flag of \<open>lc_down\<close> is the retention flag of the step.\<close>

record down_flags =
  df_yes :: bool
  df_dryRun :: bool
  df_skipAuth :: bool
  df_keepIRSA :: bool
  df_keepForgeLink :: bool

(* src/internal/cli/lifecycle.go:812-830 runPhasedDown part *)
definition down_bnk :: "string list" where
  "down_bnk =
     [''otel-certs'', ''lb-controller'', ''activation-poll'', ''pod-manager-heal'', ''dssm-overlay'', ''cwc-heal'',
      ''spk-vlan-gateway-class'', ''license'', ''cne-instance'', ''irsa-sa'', ''sriov-dataplane'', ''nads'',
      ''cloud-network-mapping'', ''flo-helm'', ''k8s-foundation'']"

(* src/internal/cli/lifecycle.go:831-860 runPhasedDown part *)
definition down_nodes :: "string list" where
  "down_nodes =
     [''ebs-csi-hugepages'', ''nvidia-device-plugin'', ''sagemaker-lmi'', ''kubeconfig'', ''irsa-oidc'', ''demo-stage'',
      ''iface-discovery'', ''bigip-ve'', ''jumphost'', ''secondary-enis'', ''tmm-node-label'', ''node-group'']"

(* src/internal/cli/lifecycle.go:861-874 runPhasedDown part *)
definition down_infrastructure :: "string list" where
  "down_infrastructure =
     [''forge-benchmark-cleanup'', ''forge-register'', ''metrics-server'', ''vpc-cni-prefix'', ''eks-cluster'',
      ''iam'', ''route-tables'', ''nat'', ''igw'', ''subnets'', ''vpc'']"

definition down_steps :: "string list" where
  "down_steps = down_bnk @ down_nodes @ down_infrastructure"

definition retention :: "down_flags \<Rightarrow> string \<Rightarrow> bool" where
  "retention F name =
     (if name = ''irsa-oidc'' then df_keepIRSA F
      else if name = ''forge-register'' then df_keepForgeLink F
      else False)"

definition down_step ::
  "('w, 'e, 'r, 'd) lifecycle \<Rightarrow> down_flags \<Rightarrow> string \<Rightarrow> ('w, ('e, 'r, 'd) run_error, unit) phase" where
  "down_step L F name =
     and_do intent (\<lambda>cl.
       if name = ''sagemaker-lmi'' \<and> \<not> SageMakerEnabled cl then give ()
       else wrapping (StageError name) (lc_down L name (retention F name)))"

text \<open>No error of the demo clean-up reaches the caller.\<close>

(* src/internal/cli/lifecycle.go:999-1024 runDemoCleanDown *)
definition runDemoCleanDown :: "('w, 'e, 'r, 'd) lifecycle \<Rightarrow> ('w, 'f, unit) phase" where
  "runDemoCleanDown L = and_do intent (\<lambda>cl. and_do (st_get ''DEMO_MODE'') (\<lambda>mode.
     if mode \<noteq> ''true'' \<or> lc_use_cases L = [] then give ()
     else and_do (query (lc_kube_context L (StateDir cl @ ''/kubeconfig''))) (\<lambda>ok.
       if \<not> ok then give ()
       else for_each (\<lambda>uc. and_do (call (lc_clean_case L uc)) (\<lambda>_. give ())) (lc_use_cases L))))"

text \<open>With a kubeconfig, and clients that attach to it, the overlay is cleaned up first.\<close>

definition clean_overlay :: "('w, 'e, 'r, 'd) lifecycle \<Rightarrow> ('w, 'f, unit) phase" where
  "clean_overlay L = and_do (st_get ''KUBECONFIG_PATH'') (\<lambda>path.
     if path = [] then give ()
     else and_do (call (lc_attach L path)) (\<lambda>r.
       case r of Some _ \<Rightarrow> give () | None \<Rightarrow> call (\<lambda>w. ((), lc_cleanup L w))))"

definition destroy :: "('w, 'e, 'r, 'd) lifecycle \<Rightarrow> down_flags \<Rightarrow> ('w, ('e, 'r, 'd) run_error, unit) phase" where
  "destroy L F = and_do (clean_overlay L) (\<lambda>_. and_do (runDemoCleanDown L) (\<lambda>_. for_each (down_step L F) down_steps))"

text \<open>
  \<open>input\<close> is what standard input holds. The live path always has clients, so the state is
  refilled before the prompt.
\<close>

(* src/internal/cli/lifecycle.go:718-888 runPhasedDown *)
definition runPhasedDown ::
  "('w, 'e, 'r, 'd) lifecycle \<Rightarrow> string \<Rightarrow> down_flags \<Rightarrow> string \<Rightarrow> 'w \<Rightarrow> ('w, 'e, 'r, 'd) run_result" where
  "runPhasedDown L path F input w =
     (case snd (IntentValidate.Load (lc_read L w) (lc_decode L) (lc_env L) path) of
        Inl e \<Rightarrow> stop (IntentError e) w
      | Inr cl \<Rightarrow>
          if df_skipAuth F \<and> \<not> df_dryRun F then stop SkipAuthLive w
          else (case (if df_dryRun F \<and> df_skipAuth F then None else lc_clients L (md_Region (cl_Metadata cl)) w) of
              Some e \<Rightarrow> stop (ClientsError e) w
            | None \<Rightarrow>
                (case Load_state (lc_open L w) (StateDir cl) of
                   Inl e \<Rightarrow> stop (StateError e) w
                 | Inr st \<Rightarrow>
                     if df_dryRun F then succeed w
                     else run_phase (ignoring (lc_hydrate L)) \<lparr>rs_cl = cl, rs_st = st, rs_world = w\<rparr> (\<lambda>s.
                       if \<not> df_yes F \<and> \<not> confirmDestroy input then succeed (rs_world s)
                       else run_phase (destroy L F) s (\<lambda>s'. succeed (rs_world s'))))))"

(* src/internal/cli/lifecycle.go:250-255 runDown *)
definition runDown ::
  "('w, 'e, 'r, 'd) lifecycle \<Rightarrow> string \<Rightarrow> down_flags \<Rightarrow> string \<Rightarrow> 'w \<Rightarrow> ('w, 'e, 'r, 'd) run_result" where
  "runDown L config F input w = (if config = [] then stop NoConfig w else runPhasedDown L config F input w)"

subsection \<open>The destroy plan\<close>

(* src/internal/cli/lifecycle.go:902-961 printDownPlan part *)
definition plan_entries :: "(string \<times> string) list" where
  "plan_entries =
     [(''demo use-cases'', ''DEMO_MODE''),
      (''OTEL server cert'', ''OTEL_SVR_CERT_NAME''),
      (''OTEL f5ing cert'', ''OTEL_F5ING_CERT_NAME''),
      (''GatewayClass + Infra'', ''GATEWAYCLASS_NAME''),
      (''License CR'', ''LICENSE_NAME''),
      (''CNEInstance CR'', ''CNEINSTANCE_NAME''),
      (''internal NAD'', ''INTERNAL_NAD''),
      (''external NAD'', ''EXTERNAL_NAD''),
      (''LBC helm release + NLBs'', ''LB_CONTROLLER_RELEASE_NAME''),
      (''LBC IAM policy'', ''LB_CONTROLLER_POLICY_ARN''),
      (''LBC IRSA role'', ''LB_CONTROLLER_IAM_ROLE_ARN''),
      (''FLO helm release'', ''FLO_RELEASE_NAME''),
      (''EBS CSI addon'', ''EBS_CSI_ADDON_STATUS''),
      (''kubeconfig (local file)'', ''KUBECONFIG_PATH''),
      (''OIDC provider'', ''OIDC_PROVIDER_ARN''),
      (''CNE IRSA role'', ''CNE_IRSA_ROLE_NAME''),
      (''BIG-IP VE instance'', ''BIGIP_INSTANCE_ID''),
      (''BIG-IP mgmt SG'', ''BIGIP_MGMT_SG_ID''),
      (''BIG-IP mgmt ENI'', ''BIGIP_MGMT_ENI_ID''),
      (''BIG-IP ext ENI (VIP)'', ''BIGIP_EXT_ENI_ID''),
      (''BIG-IP int ENI'', ''BIGIP_INT_ENI_ID''),
      (''BIG-IP key pair'', ''BIGIP_KEY_NAME''),
      (''jumphost instance'', ''JUMPHOST_INSTANCE_ID''),
      (''jumphost IAM role'', ''JUMPHOST_ROLE_NAME''),
      (''jumphost instance profile'', ''JUMPHOST_INSTANCE_PROFILE_NAME''),
      (''jumphost EICE'', ''JUMPHOST_EICE_ID''),
      (''jumphost SG'', ''JUMPHOST_SG_ID''),
      (''jumphost EICE SG'', ''JUMPHOST_EICE_SG_ID''),
      (''jumphost mgmt ENI'', ''JUMPHOST_MGMT_ENI_ID''),
      (''jumphost data-path ENI'', ''JUMPHOST_BNK_EXT_ENI_ID''),
      (''external secondary ENI'', ''EXTERNAL_ENI''),
      (''internal secondary ENI'', ''INTERNAL_ENI''),
      (''node group'', ''NODEGROUP_DEFAULT_NAME''),
      (''launch template'', ''LT_ID''),
      (''forge registration'', ''FORGE_CLUSTER_ID''),
      (''EKS cluster'', ''EKS_CLUSTER_NAME''),
      (''EKS node role'', ''EKS_NODE_ROLE_ARN''),
      (''EKS cluster role'', ''EKS_CLUSTER_ROLE_ARN''),
      (''node instance profile'', ''NODE_INSTANCE_PROFILE_NAME''),
      (''BNK data SG'', ''SG_BNK_DATA''),
      (''public route table'', ''PUBLIC_RTB''),
      (''private route table'', ''PRIVATE_RTB''),
      (''NAT gateway'', ''NAT_GW_ID''),
      (''NAT Elastic IP'', ''NAT_EIP_ALLOC''),
      (''internet gateway'', ''IGW_ID''),
      (''public subnets'', ''PUBLIC_SUBNETS''),
      (''private subnets'', ''PRIVATE_SUBNETS''),
      (''BNK external subnet'', ''BNK_EXT_SUBNET''),
      (''BNK internal subnet'', ''BNK_INT_SUBNET''),
      (''VPC'', ''VPC_ID'')]"

datatype plan_line = Retain string string | Delete string string

definition plan_line :: "down_flags \<Rightarrow> state \<Rightarrow> string \<times> string \<Rightarrow> plan_line option" where
  "plan_line F st e =
     (case e of (label, key) \<Rightarrow>
        let val = Get st key
        in if val = [] then None
           else if df_keepIRSA F \<and> (key = ''OIDC_PROVIDER_ARN'' \<or> key = ''CNE_IRSA_ROLE_NAME'') then Some (Retain label val)
           else if df_keepForgeLink F \<and> key = ''FORGE_CLUSTER_ID'' then Some (Retain label val)
           else Some (Delete label val))"

text \<open>The lines printed, and the number of resources that would be destroyed.\<close>

(* src/internal/cli/lifecycle.go:898-986 printDownPlan *)
definition printDownPlan :: "down_flags \<Rightarrow> state \<Rightarrow> plan_line list \<times> nat" where
  "printDownPlan F st =
     (let ls = List.map_filter (plan_line F st) plan_entries
      in (ls, length (filter (\<lambda>l. case l of Delete _ _ \<Rightarrow> True | Retain _ _ \<Rightarrow> False) ls)))"

end
