(* ===== verification/LifecycleClaims.thy ===== *)
theory LifecycleClaims
  imports Lifecycle PhaseClaims IntentClaims "HOL-Library.Sublist"
begin

text \<open>
  What the lifecycle commands guarantee whatever the phases do: a dry run changes nothing, \<open>up\<close> runs
  its stages in order and stops at the first failure, \<open>down\<close> destroys nothing unasked and works
  backwards.
\<close>

subsection \<open>Running a phase\<close>

lemma wrapping_Some:
  "wrapping f m s = Some (r, s') \<longleftrightarrow>
     (\<exists>r0. m s = Some (r0, s') \<and> r = (case r0 of Inl e \<Rightarrow> Inl (f e) | Inr x \<Rightarrow> Inr x))"
  by (auto simp: wrapping_def and_do_def outcome_def check_result_def raise_def give_def
      split: option.splits sum.splits prod.splits)

lemma and_do_Some:
  "and_do m f s = Some (r, s') \<longleftrightarrow>
     (\<exists>e. m s = Some (Inl e, s') \<and> r = Inl e) \<or> (\<exists>x t. m s = Some (Inr x, t) \<and> f x t = Some (r, s'))"
  by (auto simp: and_do_def split: option.splits sum.splits prod.splits)

lemma keepsD: "keeps R m \<Longrightarrow> m s = Some (r, s') \<Longrightarrow> R s s'"
  by (simp add: keeps_def)

lemma run_phase_Some:
  "run_phase m s k = Some (e, w') \<Longrightarrow>
   (\<exists>x s'. m s = Some (Inl x, s') \<and> e = Some x \<and> w' = rs_world s') \<or> (\<exists>s'. m s = Some (Inr (), s') \<and> k s' = Some (e, w'))"
  by (auto simp: run_phase_def stop_def split: option.splits sum.splits prod.splits)

subsection \<open>A dry run of up\<close>

lemma mark_demo_dry: "keeps same_world (mark_demo L True)"
  unfolding mark_demo_def Let_def by (auto intro!: keeps_rules)

lemma run_step_dry:
  "(\<And>name c. keeps same_world (lc_phase L name c True)) \<Longrightarrow> keeps same_world (run_step L c True st)"
  unfolding run_step_def run_stage_def by (auto intro!: keeps_rules split: step.splits)

subsection \<open>The stages that ran\<close>

text \<open>
  The stages of a plan for an intent, and a world that records in \<open>hist\<close> which phases ran: every phase
  appends its name and keeps what the plan depends on, everything else leaves the record alone.
\<close>

fun planned :: "Cluster \<Rightarrow> step list \<Rightarrow> string list" where
  "planned cl [] = []"
| "planned cl (Stage _ name # steps) = name # planned cl steps"
| "planned cl (StageIf enabled _ name # steps) = (if enabled cl then name # planned cl steps else planned cl steps)"
| "planned cl (AttachK8s # steps) = planned cl steps"

definition same_plan :: "Cluster \<Rightarrow> Cluster \<Rightarrow> bool" where
  "same_plan c c' \<longleftrightarrow> SageMakerEnabled c' = SageMakerEnabled c \<and> DemoEnabled c' = DemoEnabled c"

definition logs :: "('w \<Rightarrow> string list) \<Rightarrow> string \<Rightarrow> 'w run_state \<Rightarrow> 'w run_state \<Rightarrow> bool" where
  "logs hist name s s' \<longleftrightarrow> hist (rs_world s') = hist (rs_world s) @ [name] \<and> same_plan (rs_cl s) (rs_cl s')"

text \<open>The same with the outcome of each phase, for \<open>up\<close>.\<close>

type_synonym 'e stage_log = "(string \<times> ('e + unit)) list"

definition recording :: "('w, 'e, 'r, 'd) lifecycle \<Rightarrow> ('w \<Rightarrow> 'e stage_log) \<Rightarrow> bool" where
  "recording L hist \<longleftrightarrow>
     (\<forall>name c d s r s'. lc_phase L name c d s = Some (r, s') \<longrightarrow>
        hist (rs_world s') = hist (rs_world s) @ [(name, r)] \<and> same_plan (rs_cl s) (rs_cl s')) \<and>
     (\<forall>path w. hist (snd (lc_attach L path w)) = hist w) \<and>
     (\<forall>st w. hist (snd (lc_save L st w)) = hist w) \<and>
     (\<forall>u q w. hist (snd (lc_register L u q w)) = hist w)"

definition unlogged :: "('w \<Rightarrow> 'a list) \<Rightarrow> 'w run_state \<Rightarrow> 'w run_state \<Rightarrow> bool" where
  "unlogged hist s s' \<longleftrightarrow> hist (rs_world s') = hist (rs_world s) \<and> same_plan (rs_cl s) (rs_cl s')"

lemma same_plan_refl [simp]: "same_plan c c"
  by (simp add: same_plan_def)

lemma same_plan_trans: "same_plan a b \<Longrightarrow> same_plan b c \<Longrightarrow> same_plan a c"
  by (simp add: same_plan_def)

lemma preorder_unlogged [simp]: "preorder (unlogged hist)"
  by (auto simp: preorder_def unlogged_def intro: same_plan_trans)

text \<open>Plans whose conditions are the two the code has.\<close>

definition two_conditions :: "step list \<Rightarrow> bool" where
  "two_conditions steps \<longleftrightarrow> (\<forall>enabled n name. StageIf enabled n name \<in> set steps \<longrightarrow>
     enabled = SageMakerEnabled \<or> enabled = DemoEnabled)"

lemma two_conditions_Cons: "two_conditions (st # steps) \<Longrightarrow> two_conditions steps"
  by (simp add: two_conditions_def)

lemma two_conditions_up: "two_conditions up_steps"
  by (simp add: two_conditions_def up_steps_def up_infrastructure_def up_nodes_def up_bnk_def)

lemma planned_same: "two_conditions steps \<Longrightarrow> same_plan c c' \<Longrightarrow> planned c' steps = planned c steps"
proof (induction c steps rule: planned.induct)
  case (3 c enabled n name steps)
  then have "enabled = SageMakerEnabled \<or> enabled = DemoEnabled" by (simp add: two_conditions_def)
  with 3 show ?case by (auto simp: same_plan_def dest: two_conditions_Cons)
qed (auto dest: two_conditions_Cons)

text \<open>A list of steps runs a prefix of its plan, all of it when it succeeds.\<close>

definition ran_prefix :: "('w \<Rightarrow> string list) \<Rightarrow> string list \<Rightarrow> bool \<Rightarrow> 'w run_state \<Rightarrow> 'w run_state \<Rightarrow> bool" where
  "ran_prefix hist names ok s s' \<longleftrightarrow> same_plan (rs_cl s) (rs_cl s') \<and>
     (\<exists>done. hist (rs_world s') = hist (rs_world s) @ done \<and> prefix done names \<and> (ok \<longrightarrow> done = names))"

lemma ran_prefix_Nil: "unlogged hist s s' \<Longrightarrow> ran_prefix hist [] ok s s'"
  by (auto simp: ran_prefix_def unlogged_def)

lemma ran_prefix_skip: "unlogged hist s t \<Longrightarrow> ran_prefix hist names ok t s' \<Longrightarrow> ran_prefix hist names ok s s'"
  by (auto simp: ran_prefix_def unlogged_def intro: same_plan_trans)

lemma ran_prefix_failed: "unlogged hist s s' \<Longrightarrow> ran_prefix hist names False s s'"
  by (auto simp: ran_prefix_def unlogged_def)

lemma ran_prefix_failed1: "logs hist n s s' \<Longrightarrow> ran_prefix hist (n # names) False s s'"
  by (auto simp: ran_prefix_def logs_def)

lemma ran_prefix_Cons: "logs hist n s t \<Longrightarrow> ran_prefix hist names ok t s' \<Longrightarrow> ran_prefix hist (n # names) ok s s'"
  by (auto simp: ran_prefix_def logs_def intro: same_plan_trans)

text \<open>
  How a log ends: with the whole plan when the run succeeds, with the failing stage when a stage is
  what failed. Every other stage in it succeeded.
\<close>

definition all_passed :: "'e stage_log \<Rightarrow> bool" where
  "all_passed lg \<longleftrightarrow> (\<forall>(name, r) \<in> set lg. r = Inr ())"

definition log_ends :: "'e stage_log \<Rightarrow> string list \<Rightarrow> ('e, 'r, 'd) run_error option \<Rightarrow> bool" where
  "log_ends lg names e \<longleftrightarrow>
     (case e of
        None \<Rightarrow> map fst lg = names \<and> all_passed lg
      | Some (StageError name x) \<Rightarrow> (\<exists>before. lg = before @ [(name, Inl x)] \<and> all_passed before)
      | Some _ \<Rightarrow> all_passed lg)"

definition error_of :: "'f + unit \<Rightarrow> 'f option" where
  "error_of r = (case r of Inl e \<Rightarrow> Some e | Inr _ \<Rightarrow> None)"

lemma error_of_simps [simp]: "error_of (Inl e) = Some e" "error_of (Inr u) = None"
  by (simp_all add: error_of_def)

lemma all_passed_simps [simp]:
  "all_passed []" "all_passed ((name, r) # lg) \<longleftrightarrow> r = Inr () \<and> all_passed lg"
  by (auto simp: all_passed_def)

definition stage_failure :: "('e, 'r, 'd) run_error \<Rightarrow> bool" where
  "stage_failure e \<longleftrightarrow> (case e of StageError _ _ \<Rightarrow> True | _ \<Rightarrow> False)"

lemma log_ends_Nil: "log_ends [] [] None"
  by (simp add: log_ends_def)

lemma log_ends_other: "\<not> stage_failure e \<Longrightarrow> log_ends [] names (Some e)"
  by (simp add: log_ends_def stage_failure_def split: run_error.splits)

lemma log_ends_failed: "log_ends [(name, Inl x)] names (Some (StageError name x))"
  by (simp add: log_ends_def)

lemma log_ends_Cons: "log_ends lg names e \<Longrightarrow> log_ends ((name, Inr ()) # lg) (name # names) e"
  by (cases e) (auto simp: log_ends_def split: run_error.splits intro: exI [of _ "(name, Inr ()) # _"])

definition ran_log ::
  "('w \<Rightarrow> 'e stage_log) \<Rightarrow> string list \<Rightarrow> ('e, 'r, 'd) run_error + unit \<Rightarrow> 'w run_state \<Rightarrow> 'w run_state \<Rightarrow> bool" where
  "ran_log hist names r s s' \<longleftrightarrow> same_plan (rs_cl s) (rs_cl s') \<and>
     (\<exists>lg. hist (rs_world s') = hist (rs_world s) @ lg \<and> prefix (map fst lg) names \<and> log_ends lg names (error_of r))"

lemma ran_log_Nil: "ran_log hist [] (Inr ()) s s"
  by (simp add: ran_log_def log_ends_Nil)

lemma ran_log_quiet_error: "unlogged hist s s' \<Longrightarrow> \<not> stage_failure e \<Longrightarrow> ran_log hist names (Inl e) s s'"
  by (auto simp: ran_log_def unlogged_def log_ends_other)

lemma ran_log_skip: "unlogged hist s t \<Longrightarrow> ran_log hist names r t s' \<Longrightarrow> ran_log hist names r s s'"
  by (auto simp: ran_log_def unlogged_def intro: same_plan_trans)

lemma run_stage_cases:
  assumes "run_stage L c d n s = Some (r, s')"
  obtains (failed) x where "r = Inl (StageError n x)" "lc_phase L n c d s = Some (Inl x, s')"
    | (passed) "r = Inr ()" "lc_phase L n c d s = Some (Inr (), s')"
proof -
  obtain r0 where "lc_phase L n c d s = Some (r0, s')"
    "r = (case r0 of Inl e \<Rightarrow> Inl (StageError n e) | Inr x \<Rightarrow> Inr x)"
    using assms unfolding run_stage_def wrapping_Some by blast
  then show thesis using that by (cases r0) auto
qed

lemma run_stage_failed:
  assumes L: "recording L hist" and m: "run_stage L c d n s = Some (Inl e, s')"
  shows "ran_log hist (n # names) (Inl e) s s'"
proof -
  obtain x where x: "e = StageError n x" "lc_phase L n c d s = Some (Inl x, s')"
    using m by (cases rule: run_stage_cases) auto
  with L have "hist (rs_world s') = hist (rs_world s) @ [(n, Inl x)] \<and> same_plan (rs_cl s) (rs_cl s')"
    unfolding recording_def by blast
  then show ?thesis by (auto simp: ran_log_def x(1) log_ends_failed intro: exI [of _ "[(n, Inl x)]"])
qed

lemma run_stage_passed:
  assumes L: "recording L hist" and m: "run_stage L c d n s = Some (Inr (), t)"
  shows "same_plan (rs_cl s) (rs_cl t)"
    and "ran_log hist names r t s' \<Longrightarrow> ran_log hist (n # names) r s s'"
proof -
  have t: "hist (rs_world t) = hist (rs_world s) @ [(n, Inr ())] \<and> same_plan (rs_cl s) (rs_cl t)"
    using m L unfolding recording_def by (cases rule: run_stage_cases) auto
  then show "same_plan (rs_cl s) (rs_cl t)" by simp
  assume "ran_log hist names r t s'"
  then obtain lg where lg: "same_plan (rs_cl t) (rs_cl s')" "hist (rs_world s') = hist (rs_world t) @ lg"
    "prefix (map fst lg) names" "log_ends lg names (error_of r)" by (auto simp: ran_log_def)
  with t show "ran_log hist (n # names) r s s'"
    by (auto simp: ran_log_def intro: same_plan_trans log_ends_Cons intro!: exI [of _ "(n, Inr ()) # lg"])
qed

lemma call_unlogged: "(\<And>w. hist (snd (c w)) = hist w) \<Longrightarrow> keeps (unlogged hist) (call c)"
  by (auto simp: keeps_def call_def unlogged_def split: prod.splits) (metis snd_conv)

lemma attach_unlogged:
  assumes "recording L hist" shows "keeps (unlogged hist) (attach_k8s L)"
  unfolding attach_k8s_def
  by (auto intro!: keeps_rules call_unlogged) (use assms in \<open>simp add: recording_def\<close>)

lemma attach_failure: "attach_k8s L s = Some (Inl e, s') \<Longrightarrow> \<not> stage_failure e"
  by (auto simp: attach_k8s_def and_do_def st_get_def call_def check_err_def raise_def give_def stage_failure_def
      split: if_splits option.splits prod.splits)

lemma run_step_failed:
  assumes L: "recording L hist" and "run_step L cs d st s = Some (Inl e, s')"
  shows "ran_log hist (planned (rs_cl s) (st # steps)) (Inl e) s s'"
proof (cases "attach_k8s L s = Some (Inl e, s') \<and> st = AttachK8s")
  case True
  then have m: "attach_k8s L s = Some (Inl e, s')" and st: "st = AttachK8s" by simp_all
  from ran_log_quiet_error [OF keepsD [OF attach_unlogged [OF L] m] attach_failure [OF m]] st
  show ?thesis by simp
next
  case False
  with assms(2) show ?thesis
    by (cases st)
      (auto simp: run_step_def and_do_Some intent_def give_def split: if_splits intro: run_stage_failed [OF L])
qed

lemma run_step_passed:
  assumes L: "recording L hist" and "run_step L cs d st s = Some (Inr (), t)"
  shows "same_plan (rs_cl s) (rs_cl t)"
    and "ran_log hist (planned (rs_cl s) steps) r t s' \<Longrightarrow> ran_log hist (planned (rs_cl s) (st # steps)) r s s'"
proof -
  have quiet: "unlogged hist s t" if "attach_k8s L s = Some (Inr (), t)"
    using keepsD [OF attach_unlogged [OF L] that] .
  show "same_plan (rs_cl s) (rs_cl t)"
    using assms(2) quiet
    by (cases st) (auto simp: run_step_def and_do_Some intent_def give_def unlogged_def split: if_splits
        dest: run_stage_passed(1) [OF L])
  show "ran_log hist (planned (rs_cl s) steps) r t s' \<Longrightarrow> ran_log hist (planned (rs_cl s) (st # steps)) r s s'"
    using assms(2) quiet
    by (cases st) (auto simp: run_step_def and_do_Some intent_def give_def split: if_splits
        intro: ran_log_skip run_stage_passed(2) [OF L])
qed

lemma for_each_plan:
  assumes L: "recording L hist"
  shows "two_conditions steps \<Longrightarrow> for_each (run_step L cs d) steps s = Some (r, s') \<Longrightarrow>
    ran_log hist (planned (rs_cl s) steps) r s s'"
proof (induction steps arbitrary: s)
  case Nil
  then show ?case by (auto simp: give_def intro: ran_log_Nil)
next
  case (Cons st steps)
  note two = two_conditions_Cons [OF Cons.prems(1)]
  consider (failed) e where "run_step L cs d st s = Some (Inl e, s')" "r = Inl e"
    | (went_on) t where "run_step L cs d st s = Some (Inr (), t)" "for_each (run_step L cs d) steps t = Some (r, s')"
    using Cons.prems(2) by (auto simp: and_do_Some)
  then show ?case
  proof cases
    case failed
    then show ?thesis using run_step_failed [OF L failed(1)] by simp
  next
    case went_on
    have "planned (rs_cl t) steps = planned (rs_cl s) steps"
      using planned_same [OF two run_step_passed(1) [OF L went_on(1)]] .
    with Cons.IH [OF two went_on(2)] show ?thesis
      by (intro run_step_passed(2) [OF L went_on(1)]) simp
  qed
qed

definition demo_marked :: "('w, 'e, 'r, 'd) lifecycle \<Rightarrow> 'w run_state \<Rightarrow> 'w run_state" where
  "demo_marked L s =
     (let now = lc_now L (rs_world s); expiry = lc_rfc3339 L (now + demo_ttl (rs_cl s))
      in s\<lparr>rs_st := Set_key ''DEMO_EXPIRY'' expiry (Set_key ''DEMO_STAGED_AT'' (lc_rfc3339 L now)
             (Set_key ''DEMO_MODE'' ''true'' (rs_st s))),
           rs_cl := SetDemoTags expiry (rs_cl s)\<rparr>)"

lemma mark_demo_eq:
  "mark_demo L d s =
     (if \<not> DemoEnabled (rs_cl s) then Some (Inr (), s)
      else if d then Some (Inr (), demo_marked L s)
      else (case lc_save L (rs_st (demo_marked L s)) (rs_world s) of
          (r, w) \<Rightarrow> check_err MarkersError r ((demo_marked L s)\<lparr>rs_world := w\<rparr>)))"
  by (simp add: mark_demo_def and_do_def intent_def query_def st_set_def set_intent_def give_def demo_marked_def Let_def)

lemma demo_marked_plan: "same_plan (rs_cl s) (rs_cl (demo_marked L s))"
  by (simp add: demo_marked_def Let_def same_plan_def SetDemoTags_def SageMakerEnabled_def DemoEnabled_def)

lemma demo_marked_world [simp]: "rs_world (demo_marked L s) = rs_world s"
  by (simp add: demo_marked_def Let_def)

lemma check_err_state: "check_err f r s = Some (x, s') \<Longrightarrow> s' = s"
  by (auto simp: check_err_def raise_def give_def split: option.splits)

lemma mark_demo_unlogged:
  assumes "recording L hist" shows "keeps (unlogged hist) (mark_demo L d)"
proof -
  have save: "hist (snd (lc_save L st w)) = hist w" for st w using assms by (simp add: recording_def)
  have "unlogged hist s s'" if "mark_demo L d s = Some (r, s')" for s r s'
  proof (cases "\<not> DemoEnabled (rs_cl s) \<or> d")
    case True
    then show ?thesis using that demo_marked_plan [of s L]
      by (auto simp: mark_demo_eq unlogged_def split: if_splits)
  next
    case False
    obtain x w where lw: "lc_save L (rs_st (demo_marked L s)) (rs_world s) = (x, w)" by fastforce
    with False that have "s' = (demo_marked L s)\<lparr>rs_world := w\<rparr>"
      by (auto simp: mark_demo_eq dest: check_err_state)
    then show ?thesis using save [of "rs_st (demo_marked L s)" "rs_world s"] lw demo_marked_plan [of s L]
      by (simp add: unlogged_def)
  qed
  then show ?thesis by (auto simp: keeps_def)
qed

lemma register_unlogged:
  assumes "recording L hist" and "registerWithForgePostApply L cl w = Some (e, w')"
  shows "hist w' = hist w"
  using assms
  by (auto simp: registerWithForgePostApply_def Let_def stop_def succeed_def recording_def
      split: if_splits sum.splits option.splits prod.splits) (metis snd_conv)+

lemma register_failure: "registerWithForgePostApply L cl w = Some (Some e, w') \<Longrightarrow> \<not> stage_failure e"
  by (auto simp: registerWithForgePostApply_def Let_def stop_def succeed_def stage_failure_def
      split: if_splits sum.splits option.splits prod.splits)

lemma mark_demo_failure: "mark_demo L d s = Some (Inl e, s') \<Longrightarrow> \<not> stage_failure e"
  by (auto simp: mark_demo_eq check_err_def raise_def give_def stage_failure_def
      split: if_splits option.splits prod.splits)

lemma up_phase_plan:
  assumes L: "recording L hist"
    and m: "and_do (mark_demo L d) (\<lambda>_. for_each (run_step L cs d) up_steps) s = Some (r, s')"
  shows "ran_log hist (planned (rs_cl s) up_steps) r s s'"
proof -
  from m consider (failed) e where "mark_demo L d s = Some (Inl e, s')" "r = Inl e"
    | (went_on) t where "mark_demo L d s = Some (Inr (), t)" "for_each (run_step L cs d) up_steps t = Some (r, s')"
    by (auto simp: and_do_Some)
  then show ?thesis
  proof cases
    case failed
    with ran_log_quiet_error [OF keepsD [OF mark_demo_unlogged [OF L] failed(1)] mark_demo_failure [OF failed(1)]]
    show ?thesis by simp
  next
    case went_on
    have u: "unlogged hist s t" using keepsD [OF mark_demo_unlogged [OF L] went_on(1)] .
    then have "planned (rs_cl t) up_steps = planned (rs_cl s) up_steps"
      using planned_same [OF two_conditions_up] by (simp add: unlogged_def)
    with for_each_plan [OF L two_conditions_up went_on(2)] u show ?thesis
      by (metis ran_log_skip)
  qed
qed

text \<open>The plan of an intent, written out.\<close>

definition stage_plan :: "Cluster \<Rightarrow> string list" where
  "stage_plan cl =
     [''preflight'', ''vpc'', ''subnets'', ''igw'', ''nat'', ''route-tables'', ''iam'', ''eks-cluster'',
      ''forge-register'', ''vpc-cni-prefix'', ''metrics-server'', ''node-group'', ''kubeconfig'', ''tmm-node-label'',
      ''nvidia-device-plugin''] @
     (if SageMakerEnabled cl then [''sagemaker-lmi''] else []) @
     [''secondary-enis'', ''jumphost'', ''bigip-ve'', ''iface-discovery''] @
     (if DemoEnabled cl then [''demo-stage''] else []) @
     [''irsa-oidc'', ''ebs-csi-hugepages'', ''k8s-foundation'', ''flo-helm'', ''lb-controller'', ''otel-certs'',
      ''cloud-network-mapping'', ''nads'', ''sriov-dataplane'', ''cne-instance'', ''irsa-sa'', ''license'',
      ''spk-vlan-gateway-class'', ''cwc-heal'', ''dssm-overlay'', ''tmm-log-stream'', ''pod-manager-heal'',
      ''activation-poll'', ''bigip-onboard'', ''postflight'']"

lemma planned_up: "planned cl up_steps = stage_plan cl"
  by (simp add: up_steps_def up_infrastructure_def up_nodes_def up_bnk_def stage_plan_def)

subsection \<open>The steps of a teardown that ran\<close>

definition recording_down :: "('w, 'e, 'r, 'd) lifecycle \<Rightarrow> ('w \<Rightarrow> string list) \<Rightarrow> bool" where
  "recording_down L hist \<longleftrightarrow>
     (\<forall>name k. keeps (logs hist name) (lc_down L name k)) \<and> keeps (unlogged hist) (lc_hydrate L) \<and>
     (\<forall>path w. hist (snd (lc_attach L path w)) = hist w) \<and> (\<forall>w. hist (lc_cleanup L w) = hist w) \<and>
     (\<forall>uc w. hist (snd (lc_clean_case L uc w)) = hist w)"

definition planned_down :: "Cluster \<Rightarrow> string list \<Rightarrow> string list" where
  "planned_down cl names = filter (\<lambda>n. n \<noteq> ''sagemaker-lmi'' \<or> SageMakerEnabled cl) names"

lemma planned_down_same: "same_plan c c' \<Longrightarrow> planned_down c' names = planned_down c names"
  by (simp add: planned_down_def same_plan_def)

lemma down_step_logs:
  assumes "recording_down L hist" and "down_step L F n s = Some (r, s')"
  shows "if planned_down (rs_cl s) [n] = [] then s' = s \<and> r = Inr () else logs hist n s s'"
  using assms
  by (auto simp: down_step_def and_do_def intent_def give_def wrapping_Some recording_down_def keeps_def planned_down_def
      split: if_splits)

lemma for_each_down:
  assumes L: "recording_down L hist"
  shows "for_each (down_step L F) names s = Some (r, s') \<Longrightarrow>
    ran_prefix hist (planned_down (rs_cl s) names) (r = Inr ()) s s'"
proof (induction names arbitrary: s)
  case Nil
  then show ?case by (auto simp: give_def unlogged_def planned_down_def intro!: ran_prefix_Nil)
next
  case (Cons n names)
  consider (failed) e where "down_step L F n s = Some (Inl e, s')" "r = Inl e"
    | (went_on) t where "down_step L F n s = Some (Inr (), t)" "for_each (down_step L F) names t = Some (r, s')"
    using Cons.prems by (auto simp: and_do_Some)
  then show ?case
  proof cases
    case failed
    with down_step_logs [OF L failed(1)] show ?thesis
      by (auto simp: planned_down_def intro: ran_prefix_failed1 split: if_splits)
  next
    case went_on
    have IH: "ran_prefix hist (planned_down (rs_cl t) names) (r = Inr ()) t s'"
      using Cons.IH [OF went_on(2)] .
    show ?thesis
    proof (cases "planned_down (rs_cl s) [n] = []")
      case True
      with down_step_logs [OF L went_on(1)] IH show ?thesis by (simp add: planned_down_def split: if_splits)
    next
      case False
      with down_step_logs [OF L went_on(1)] have l: "logs hist n s t" by simp
      then have "planned_down (rs_cl t) names = planned_down (rs_cl s) names"
        by (simp add: logs_def planned_down_same)
      moreover have "planned_down (rs_cl s) (n # names) = n # planned_down (rs_cl s) names"
        using False by (simp add: planned_down_def split: if_splits)
      ultimately show ?thesis using ran_prefix_Cons [OF l IH] by simp
    qed
  qed
qed

lemma before_down_unlogged:
  assumes "recording_down L hist"
  shows "keeps (unlogged hist) (clean_overlay L)" and "keeps (unlogged hist) (runDemoCleanDown L)"
    and "keeps (unlogged hist) (ignoring (lc_hydrate L))"
  unfolding clean_overlay_def runDemoCleanDown_def
  by (auto intro!: keeps_rules call_unlogged split: option.splits) (use assms in \<open>simp_all add: recording_down_def\<close>)

lemma destroy_plan:
  assumes L: "recording_down L hist" and m: "destroy L F s = Some (r, s')"
  shows "ran_prefix hist (planned_down (rs_cl s) down_steps) (r = Inr ()) s s'"
proof -
  note quiet = before_down_unlogged [OF L]
  have skip: "ran_prefix hist (planned_down (rs_cl a) down_steps) ok a c"
    if "unlogged hist a b" "ran_prefix hist (planned_down (rs_cl b) down_steps) ok b c" for a b c :: "'a run_state" and ok
    using that planned_down_same [of "rs_cl a" "rs_cl b"] ran_prefix_skip by (metis unlogged_def)
  from m show ?thesis
    unfolding destroy_def and_do_Some
    by (elim disjE exE conjE)
      (auto intro: ran_prefix_failed keepsD [OF quiet(1)] skip [OF keepsD [OF quiet(1)] ran_prefix_failed]
        keepsD [OF quiet(2)]
        skip [OF keepsD [OF quiet(1)] skip [OF keepsD [OF quiet(2)] for_each_down [OF L]]])
qed

subsection \<open>Claims\<close>

text \<open>
  C20 A dry run of \<open>awsbnkctl up\<close> changes nothing, on AWS or on disk, whatever it returns, provided the
  dry run of each phase changes nothing: no demo marker is saved, no cluster attached, no cluster
  registered.
\<close>
theorem up_dry_run:
  assumes "rf_dryRun F" and "\<And>name clients. keeps same_world (lc_phase L name clients True)"
    and "runPhasedUp L path F w = Some (e, w')"
  shows "w' = w"
proof -
  have k: "keeps same_world (and_do (mark_demo L True) (\<lambda>_. for_each (run_step L c True) up_steps))" for c
    using mark_demo_dry run_step_dry [of L] assms(2) by (auto intro!: keeps_rules)
  from assms(1,3) show ?thesis
    by (auto simp: runPhasedUp_def stop_def succeed_def Let_def same_world_def
        split: sum.splits option.splits if_splits dest!: run_phase_Some keepsD [OF k])
qed

text \<open>
  C2 \<open>awsbnkctl up\<close> runs the stages of its plan in order and stops at the first that fails. \<open>hist\<close> is the
  log of the phases called with what each returned. The names logged are a prefix of the written-out
  plan of the loaded intent. On success it is the whole plan and every phase succeeded; when the run
  ends with the error of a stage, that call with that error is the last of the log and all before it
  succeeded; on any other error no phase called failed. A rejected intent runs nothing.
\<close>
theorem up_runs_plan:
  fixes L :: "('w, 'e, 'r, 'd) lifecycle"
  assumes "recording L hist" and "runPhasedUp L path F w = Some (e, w')"
  shows "case load_for_up L path F w of
      Inl e0 \<Rightarrow> e = Some e0 \<and> w' = w
    | Inr cl \<Rightarrow> \<exists>lg. hist w' = hist w @ lg \<and> prefix (map fst lg) (stage_plan cl) \<and>
        (case e of
           None \<Rightarrow> map fst lg = stage_plan cl \<and> all_passed lg
         | Some (StageError name x) \<Rightarrow> (\<exists>before. lg = before @ [(name, Inl x)] \<and> all_passed before)
         | Some _ \<Rightarrow> all_passed lg)"
proof (cases "load_for_up L path F w")
  case (Inl e0)
  with assms(2) show ?thesis by (simp add: runPhasedUp_def stop_def)
next
  case (Inr cl)
  define m where "m = and_do (mark_demo L (rf_dryRun F)) (\<lambda>_. for_each (run_step L (live_clients F) (rf_dryRun F)) up_steps)"
  define k where "k = (\<lambda>s :: 'w run_state. if rf_register F \<and> \<not> rf_dryRun F then registerWithForgePostApply L (rs_cl s) (rs_world s)
    else succeed (rs_world s))"
  have run: "runPhasedUp L path F w =
      (if rf_skipAuth F \<and> \<not> rf_dryRun F then stop SkipAuthLive w
       else (case (if live_clients F then lc_clients L (md_Region (cl_Metadata cl)) w else None) of
           Some e \<Rightarrow> stop (ClientsError e) w
         | None \<Rightarrow>
             (case Load_state (lc_open L w) (StateDir cl) of
                Inl e \<Rightarrow> stop (StateError e) w
              | Inr st0 \<Rightarrow> run_phase m \<lparr>rs_cl = cl, rs_st = (if rf_dryRun F then MarkReadOnly st0 else st0), rs_world = w\<rparr> k)))"
    by (simp only: runPhasedUp_def Inr sum.case Let_def m_def k_def)
  have "\<exists>lg. hist w' = hist w @ lg \<and> prefix (map fst lg) (stage_plan cl) \<and> log_ends lg (stage_plan cl) e"
  proof -
    consider (early) x where "e = Some x" "\<not> stage_failure x" "w' = w"
      | (ran_all) st where "run_phase m \<lparr>rs_cl = cl, rs_st = st, rs_world = w\<rparr> k = Some (e, w')"
      using assms(2) unfolding run by (auto simp: stop_def stage_failure_def split: if_splits option.splits sum.splits)
    then show ?thesis
    proof cases
      case early
      then show ?thesis by (auto intro!: exI [of _ "[]"] log_ends_other)
    next
      case ran_all
      note plan = up_phase_plan [OF assms(1), of "rf_dryRun F" "live_clients F" "\<lparr>rs_cl = cl, rs_st = st, rs_world = w\<rparr>",
          folded m_def, unfolded planned_up]
      from run_phase_Some [OF ran_all] show ?thesis
      proof (elim disjE exE conjE)
        fix x s' assume "m \<lparr>rs_cl = cl, rs_st = st, rs_world = w\<rparr> = Some (Inl x, s')" "e = Some x" "w' = rs_world s'"
        with plan show ?thesis by (fastforce simp: ran_log_def)
      next
        fix s' assume s': "m \<lparr>rs_cl = cl, rs_st = st, rs_world = w\<rparr> = Some (Inr (), s')" "k s' = Some (e, w')"
        then have "hist w' = hist (rs_world s')" "case e of None \<Rightarrow> True | Some x \<Rightarrow> \<not> stage_failure x"
          using register_unlogged [OF assms(1)] register_failure
          by (fastforce simp: k_def succeed_def split: if_splits option.splits)+
        moreover have "log_ends lg (stage_plan cl) e" if "log_ends lg (stage_plan cl) None" for lg
          using that calculation(2)
          by (auto simp: log_ends_def stage_failure_def split: option.splits run_error.splits)
        ultimately show ?thesis using plan [OF s'(1)] by (auto simp: ran_log_def)
      qed
    qed
  qed
  with Inr show ?thesis by (simp add: log_ends_def)
qed

text \<open>
  C1 \<open>awsbnkctl down\<close> destroys only what it was asked to. A dry run changes nothing; without \<open>--yes\<close>
  and without the word typed no teardown step runs; otherwise the steps that ran are a prefix of the
  plan, all of it when it succeeds. A step counts as run when its teardown phase was called.
\<close>
theorem down_destroys_as_asked:
  fixes L :: "('w, 'e, 'r, 'd) lifecycle"
  assumes "recording_down L hist" and "runPhasedDown L path F input w = Some (e, w')"
  shows "if df_dryRun F then w' = w
    else case snd (IntentValidate.Load (lc_read L w) (lc_decode L) (lc_env L) path) of
        Inl _ \<Rightarrow> w' = w
      | Inr cl \<Rightarrow> \<exists>names. hist w' = hist w @ names \<and>
          (if df_yes F \<or> confirmDestroy input then
             prefix names (planned_down cl down_steps) \<and>
             (case e of None \<Rightarrow> names = planned_down cl down_steps | Some _ \<Rightarrow> True)
           else names = [])"
proof (cases "snd (IntentValidate.Load (lc_read L w) (lc_decode L) (lc_env L) path)")
  case (Inl e0)
  with assms(2) show ?thesis by (simp add: runPhasedDown_def stop_def)
next
  case (Inr cl)
  define k where "k = (\<lambda>s :: 'w run_state. if \<not> df_yes F \<and> \<not> confirmDestroy input then succeed (rs_world s)
    else run_phase (destroy L F) s (\<lambda>s'. succeed (rs_world s')))"
  consider (early) "w' = w" "df_dryRun F \<or> e \<noteq> None"
    | (asked) st where "\<not> df_dryRun F" "run_phase (ignoring (lc_hydrate L)) \<lparr>rs_cl = cl, rs_st = st, rs_world = w\<rparr> k = Some (e, w')"
    using assms(2) Inr
    by (auto simp: runPhasedDown_def stop_def succeed_def k_def split: if_splits option.splits sum.splits)
  then show ?thesis
  proof cases
    case early
    with Inr show ?thesis by (auto intro!: exI [of _ "[]"] split: option.splits)
  next
    case asked
    from run_phase_Some [OF asked(2)] obtain s1 where s1:
      "ignoring (lc_hydrate L) \<lparr>rs_cl = cl, rs_st = st, rs_world = w\<rparr> =
         Some (Inr () :: ('e, 'r, 'd) run_error + unit, s1)" "k s1 = Some (e, w')"
      by (auto simp: ignoring_def and_do_def outcome_def give_def split: option.splits prod.splits)
    have h: "hist (rs_world s1) = hist w" "planned_down (rs_cl s1) down_steps = planned_down cl down_steps"
      using keepsD [OF before_down_unlogged(3) [OF assms(1)] s1(1)]
      by (auto simp: unlogged_def planned_down_same)
    show ?thesis
    proof (cases "df_yes F \<or> confirmDestroy input")
      case True
      with s1(2) have "run_phase (destroy L F) s1 (\<lambda>s'. succeed (rs_world s')) = Some (e, w')" by (auto simp: k_def)
      then obtain r s' where "destroy L F s1 = Some (r, s')" "w' = rs_world s'" "e = None \<longleftrightarrow> r = Inr ()"
        by (auto dest!: run_phase_Some simp: succeed_def)
      with destroy_plan [OF assms(1)] h Inr asked(1) True show ?thesis
        by (fastforce simp: ran_prefix_def split: option.splits)
    next
      case False
      with s1(2) h Inr asked(1) show ?thesis by (auto simp: k_def succeed_def)
    qed
  qed
qed

text \<open>The stages of \<open>up\<close> by name.\<close>

definition step_names :: "step list \<Rightarrow> string list" where
  "step_names steps = List.map_filter (\<lambda>st. case st of Stage _ n \<Rightarrow> Some n | StageIf _ _ n \<Rightarrow> Some n | AttachK8s \<Rightarrow> None) steps"

text \<open>The seven steps \<open>down\<close> takes earlier than the reverse order of \<open>up\<close> would.\<close>

definition moved_steps :: "string list" where
  "moved_steps = [''otel-certs'', ''lb-controller'', ''cne-instance'', ''nvidia-device-plugin'', ''sagemaker-lmi'',
     ''kubeconfig'', ''forge-register'']"

text \<open>
  The teardown works backwards: every step runs once, every stage of \<open>up\<close> but the four that create
  nothing has a step, and apart from seven steps that come earlier the order is the reverse of
  \<open>up\<close>'s. The load-balancer controller goes before the lifecycle operator and the identity provider.
\<close>
theorem down_reverses_up:
  "distinct down_steps \<and>
   filter (\<lambda>n. n \<notin> set down_steps) (step_names up_steps) =
     [''preflight'', ''tmm-log-stream'', ''bigip-onboard'', ''postflight''] \<and>
   filter (\<lambda>n. n \<notin> set moved_steps \<and> n \<noteq> ''forge-benchmark-cleanup'') down_steps =
     rev (filter (\<lambda>n. n \<notin> set moved_steps \<and> n \<in> set down_steps) (step_names up_steps)) \<and>
   subseq [''lb-controller'', ''flo-helm'', ''irsa-oidc''] down_steps"
  by code_simp

subsection \<open>Runs of the sample intent\<close>

text \<open>
  A world that is the list of the phases that ran. Every call succeeds but the phase named \<open>bad\<close>,
  and with \<open>quiet\<close> a dry phase does nothing.
\<close>

definition sample_phase :: "string \<Rightarrow> string \<Rightarrow> (string list, string, unit) phase" where
  "sample_phase bad name s =
     Some (if name = bad then Inl ''throttled'' else Inr (), s\<lparr>rs_world := rs_world s @ [name]\<rparr>)"

definition sample_lifecycle ::
  "(string \<Rightarrow> bool \<Rightarrow> ('w, string, unit) phase) \<Rightarrow> ('w, string, string, string) lifecycle" where
  "sample_lifecycle ph = \<lparr>lc_read = \<lambda>_ _. Inr [], lc_decode = \<lambda>_. Inr sample_intent, lc_env = no_env,
     lc_clients = \<lambda>_ _. None, lc_open = \<lambda>_ _. NotExist, lc_now = \<lambda>_. 0, lc_rfc3339 = \<lambda>_. ''2026-01-01T00:00:00Z'',
     lc_save = \<lambda>_ w. (None, w), lc_phase = \<lambda>name _ dry. ph name dry,
     lc_attach = \<lambda>_ w. (None, w), lc_kubeconfig = \<lambda>_ _ _. Inr [], lc_register = \<lambda>_ _ w. (None, w),
     lc_hydrate = give (), lc_cleanup = \<lambda>w. w, lc_use_cases = [], lc_kube_context = \<lambda>_ _. False,
     lc_clean_case = \<lambda>_ w. (None, w), lc_down = \<lambda>name _. ph name False\<rparr>"

definition sample_run :: "bool \<Rightarrow> string \<Rightarrow> (string list, string, string, string) lifecycle" where
  "sample_run quiet bad = sample_lifecycle (\<lambda>name dry. if quiet \<and> dry then give () else sample_phase bad name)"

text \<open>The same with outcomes in the record.\<close>

definition sample_stage :: "string \<Rightarrow> string \<Rightarrow> (string stage_log, string, unit) phase" where
  "sample_stage bad name s =
     (let r = (if name = bad then Inl ''throttled'' else Inr ()) in Some (r, s\<lparr>rs_world := rs_world s @ [(name, r)]\<rparr>))"

definition sample_up :: "string \<Rightarrow> (string stage_log, string, string, string) lifecycle" where
  "sample_up bad = sample_lifecycle (\<lambda>name _. sample_stage bad name)"

definition up_flags :: "bool \<Rightarrow> run_flags" where
  "up_flags dry = \<lparr>rf_dryRun = dry, rf_demo = True, rf_skipAuth = False, rf_register = True\<rparr>"

definition down_ask :: down_flags where
  "down_ask = \<lparr>df_yes = False, df_dryRun = False, df_skipAuth = False, df_keepIRSA = False, df_keepForgeLink = False\<rparr>"

lemma logs_sample_phase: "keeps (logs (\<lambda>w. w) name) (sample_phase bad name)"
  by (simp add: keeps_def logs_def sample_phase_def)

lemma recording_sample: "recording (sample_up bad) (\<lambda>w. w)" "recording_down (sample_run q bad) (\<lambda>w. w)"
  by (auto simp: recording_def recording_down_def sample_run_def sample_up_def sample_lifecycle_def logs_sample_phase
      sample_stage_def Let_def)
    (simp add: keeps_def give_def unlogged_def)

theorem up_dry_run_witness:
  "\<exists>e. runPhasedUp (sample_run True []) ''cluster.yaml'' (up_flags True) [] = Some (e, [])"
proof -
  have "keeps same_world (lc_phase (sample_run True []) name clients True)" for name clients
    by (auto simp: sample_run_def sample_lifecycle_def intro!: keeps_rules)
  moreover have "runPhasedUp (sample_run True []) ''cluster.yaml'' (up_flags True) [] \<noteq> None"
    by code_simp
  ultimately show ?thesis
    using up_dry_run [of "up_flags True" "sample_run True []" "''cluster.yaml''" "[]"]
    by (force simp: up_flags_def)
qed

lemmas sample_step_defs = run_step_def run_stage_def wrapping_def and_do_def outcome_def check_result_def raise_def
  give_def sample_phase_def sample_run_def sample_stage_def sample_up_def sample_lifecycle_def run_phase_def stop_def

lemma sample_loads:
  "\<exists>cl. snd (IntentValidate.Load (lc_read (sample_run q bad) w) (lc_decode (sample_run q bad)) (lc_env (sample_run q bad))
     ''cluster.yaml'') = Inr cl"
  "\<exists>cl. load_for_up (sample_up bad) ''cluster.yaml'' (up_flags False) v = Inr cl"
proof -
  have "case snd (IntentValidate.Load (\<lambda>_. Inr []) (\<lambda>_. Inr sample_intent) no_env ''cluster.yaml'')
      :: (string, string) IntentValidate.load_error + Cluster of Inl _ \<Rightarrow> False
      | Inr cl \<Rightarrow> DemoEnabled (EnableDemo cl) \<and> snd (ValidateDemo (EnableDemo cl)) = None"
    by code_simp
  then show "\<exists>cl. snd (IntentValidate.Load (lc_read (sample_run q bad) w) (lc_decode (sample_run q bad))
       (lc_env (sample_run q bad)) ''cluster.yaml'') = Inr cl"
    "\<exists>cl. load_for_up (sample_up bad) ''cluster.yaml'' (up_flags False) v = Inr cl"
    by (auto simp: sample_run_def sample_up_def sample_lifecycle_def load_for_up_def up_flags_def Let_def split: sum.splits)
qed

theorem up_runs_plan_witness:
  "\<exists>cl before. runPhasedUp (sample_up ''vpc'') ''cluster.yaml'' (up_flags False) [] =
       Some (Some (StageError ''vpc'' ''throttled''), [(''preflight'', Inr ()), (''vpc'', Inl ''throttled'')]) \<and>
     load_for_up (sample_up ''vpc'') ''cluster.yaml'' (up_flags False) [] = Inr cl \<and>
     prefix [''preflight'', ''vpc''] (stage_plan cl) \<and>
     [(''preflight'', Inr ()), (''vpc'', Inl ''throttled'')] = before @ [(''vpc'', Inl ''throttled'' :: string + unit)] \<and>
     all_passed before"
proof -
  obtain cl where cl: "load_for_up (sample_up ''vpc'') ''cluster.yaml'' (up_flags False) [] = Inr cl"
    using sample_loads(2) by blast
  have run: "runPhasedUp (sample_up ''vpc'') ''cluster.yaml'' (up_flags False) [] =
       Some (Some (StageError ''vpc'' ''throttled''), [(''preflight'', Inr ()), (''vpc'', Inl ''throttled'')])"
    by (simp add: runPhasedUp_def cl)
      (simp add: up_steps_def up_infrastructure_def up_flags_def live_clients_def mark_demo_eq demo_marked_def Let_def
        sample_step_defs Load_state_def check_err_def)
  from up_runs_plan [OF recording_sample(1) run] cl run show ?thesis by auto
qed

theorem down_destroys_as_asked_witness:
  "\<exists>cl. runPhasedDown (sample_run True ''lb-controller'') ''cluster.yaml'' down_ask ''destroy'' [] =
       Some (Some (StageError ''lb-controller'' ''throttled''), [''otel-certs'', ''lb-controller'']) \<and>
     prefix [''otel-certs'', ''lb-controller''] (planned_down cl down_steps)"
proof -
  obtain cl where cl: "snd (IntentValidate.Load (lc_read (sample_run True ''lb-controller'') []) (lc_decode (sample_run True ''lb-controller''))
      (lc_env (sample_run True ''lb-controller'')) ''cluster.yaml'') = Inr cl"
    using sample_loads(1) by blast
  have typed: "confirmDestroy ''destroy''" by code_simp
  have run: "runPhasedDown (sample_run True ''lb-controller'') ''cluster.yaml'' down_ask ''destroy'' [] =
       Some (Some (StageError ''lb-controller'' ''throttled''), [''otel-certs'', ''lb-controller''])"
    by (simp add: runPhasedDown_def cl typed)
      (simp add: down_ask_def destroy_def clean_overlay_def runDemoCleanDown_def down_step_def down_steps_def down_bnk_def
        ignoring_def st_get_def intent_def Get_def sample_step_defs Load_state_def typed)
  from down_destroys_as_asked [OF recording_sample(2) run] cl run typed show ?thesis
    by (auto simp: down_ask_def)
qed

end
