(* ===== verification/EksBase.thy ===== *)
theory EksBase
  imports PhaseNetDown "HOL-Library.Word"
begin

text \<open>
  What the EKS phases (08 and 10) use beside EC2: the control plane, its node groups, their launch
  templates and auto-scaling groups, and the volumes a cluster leaves. Statuses are the SDK's
  strings. \<open>ek_not_found\<close> and \<open>ek_in_use\<close> are \<open>errors.As\<close> for the two exceptions the code looks for.
\<close>

record cluster_info =
  ci_status :: string
  ci_name :: "string option"
  ci_arn :: "string option"
  ci_endpoint :: "string option"
  ci_ca :: "string option option"
  ci_issuer :: "string option"
  ci_security_group :: "string option"
  ci_version :: "string option"
  ci_service_cidr :: "string option"

record cluster_request =
  cq_name :: string
  cq_role :: string
  cq_version :: string
  cq_subnets :: "string list"
  cq_public_cidrs :: "string list"
  cq_tags :: tags

record group_info =
  gi_status :: string
  gi_name :: "string option"
  gi_arn :: "string option"
  gi_asgs :: "string option list"

datatype ami_type = Al2023Standard | Al2023Nvidia

datatype capacity_type = OnDemand | Spot

datatype taint_effect = NoSchedule | NoExecute | PreferNoSchedule | NoEffect

record eks_taint =
  et_key :: string
  et_value :: string
  et_effect :: taint_effect

record group_request =
  gq_cluster :: string
  gq_name :: string
  gq_role :: string
  gq_subnets :: "string list"
  gq_ami :: ami_type
  gq_capacity :: capacity_type
  gq_instance :: string
  gq_desired :: "32 word"
  gq_min :: "32 word"
  gq_max :: "32 word"
  gq_taints :: "eks_taint list"
  gq_labels :: "string \<rightharpoonup> string"
  gq_tags :: tags
  gq_template :: string

datatype user_data = NoUserData | BnkUserData

datatype volume_type = Gp2 | Gp3

record template_request =
  lq_name :: string
  lq_tags :: "ec2_tag list"
  lq_user_data :: user_data
  lq_hop_limit :: int
  lq_volume :: volume_type
  lq_size :: "32 word"

datatype volume_state = VolumeAvailable | VolumeDeleting | VolumeDeleted | VolumeInUse

record scaling_activity =
  sa_failed :: bool
  sa_message :: "string option"

record ('w, 'e) eks =
  ek_not_found :: "'e \<Rightarrow> bool"
  ek_in_use :: "'e \<Rightarrow> bool"
  ek_cluster :: "string \<Rightarrow> 'w \<Rightarrow> 'e + cluster_info"
  ek_create_cluster :: "cluster_request \<Rightarrow> 'w \<Rightarrow> 'e option \<times> 'w"
  ek_delete_cluster :: "string \<Rightarrow> 'w \<Rightarrow> 'e option \<times> 'w"
  ek_group :: "string \<Rightarrow> string \<Rightarrow> 'w \<Rightarrow> 'e + group_info"
  ek_create_group :: "group_request \<Rightarrow> 'w \<Rightarrow> 'e option \<times> 'w"
  ek_delete_group :: "string \<Rightarrow> string \<Rightarrow> 'w \<Rightarrow> 'e option \<times> 'w"
  ek_templates :: "string \<Rightarrow> 'w \<Rightarrow> 'e + string option list"
  ek_create_template :: "template_request \<Rightarrow> 'w \<Rightarrow> ('e + string option) \<times> 'w"
  ek_delete_template :: "string \<Rightarrow> 'w \<Rightarrow> 'e option \<times> 'w"
  ek_autoscaling :: bool
  ek_activities :: "string \<Rightarrow> 'w \<Rightarrow> 'e + scaling_activity list"
  ek_instances :: "string \<Rightarrow> 'w \<Rightarrow> 'e + string list list"
  ek_volumes :: "string \<Rightarrow> 'w \<Rightarrow> 'e + (string option \<times> volume_state) list"
  ek_delete_volume :: "string option \<Rightarrow> 'w \<Rightarrow> 'e option \<times> 'w"

text \<open>A wait that ends in a value or an error.\<close>

definition wait_value ::
  "('w, 'e) ec2 \<Rightarrow> ('w \<Rightarrow> ('e phase_error + 'x) option) \<Rightarrow> int \<Rightarrow> int \<Rightarrow> 'e phase_error \<Rightarrow> ('w, 'e phase_error, 'x) phase" where
  "wait_value A check timeout poll late = (\<lambda>s.
     map_option (\<lambda>(r, w). (case r of Decided x \<Rightarrow> x | OutOfTime \<Rightarrow> Inl late | Cut e \<Rightarrow> Inl (WaitCut e), s\<lparr>rs_world := w\<rparr>))
       (poll_before (ec_now A) (ec_sleep A) check (ec_now A (rs_world s) + timeout) poll (rs_world s)))"

text \<open>A local zone has one more dash in its name.\<close>

definition local_zone :: "string \<Rightarrow> bool" where
  "local_zone az \<longleftrightarrow> 2 < length (filter (\<lambda>c. c = CHR ''-'') az)"

definition upper_char :: "char \<Rightarrow> char" where
  "upper_char c = (if is_lower c then char_of (of_char c - (32 :: nat)) else c)"

text \<open>\<open>strings.ToUpper\<close> on the names of node groups, which EKS restricts to ASCII.\<close>

definition to_upper :: "string \<Rightarrow> string" where
  "to_upper = map upper_char"

subsection \<open>The volumes of a cluster\<close>

definition volumeSweepTimeout :: int where
  "volumeSweepTimeout = 2 * Minute"

definition volumeSweepInterval :: int where
  "volumeSweepInterval = 10 * Second"

fun sweep_volumes :: "('w, 'e) eks \<Rightarrow> (string option \<times> volume_state) list \<Rightarrow> 'w \<Rightarrow> 'w" where
  "sweep_volumes E [] w = w"
| "sweep_volumes E ((i, VolumeAvailable) # vs) w = sweep_volumes E vs (snd (ek_delete_volume E i w))"
| "sweep_volumes E (_ # vs) w = sweep_volumes E vs w"

text \<open>One round of the loop; the result of the whole sweep is only logged.\<close>

definition sweep_round :: "('w, 'e) ec2 \<Rightarrow> ('w, 'e) eks \<Rightarrow> string \<Rightarrow> int \<Rightarrow> 'w \<Rightarrow> bool \<times> 'w" where
  "sweep_round A E clusterName deadline w =
     (case ek_volumes E (''kubernetes.io/cluster/'' @ clusterName) w of
        Inl _ \<Rightarrow> (True, w)
      | Inr vs \<Rightarrow>
          let w' = sweep_volumes E vs w
          in (\<not> list_ex (\<lambda>v. snd v = VolumeInUse) vs \<or> deadline < ec_now A w', w'))"

(* src/internal/aws/phases/phase11b_ebs_csi_hugepages.go:208-248 deleteClusterVolumes *)
definition deleteClusterVolumes :: "('w, 'e) ec2 \<Rightarrow> ('w, 'e) eks \<Rightarrow> string \<Rightarrow> ('w, 'f, unit) phase" where
  "deleteClusterVolumes A E clusterName = (\<lambda>s.
     map_option (\<lambda>w. (Inr (), s\<lparr>rs_world := w\<rparr>))
       (poll_acting (ec_sleep A) (sweep_round A E clusterName (ec_now A (rs_world s) + volumeSweepTimeout))
         volumeSweepInterval (rs_world s)))"

end
