(* ===== verification/EksCluster.thy ===== *)
theory EksCluster
  imports EksBase
begin

text \<open>
  Phase 08, the EKS control plane (\<open>internal/aws/phases/phase08_eks_cluster.go\<close>): adopt or create
  the cluster, wait until it is active and record what it answers; and its deletion.
\<close>

(* src/internal/aws/phases/phase08_eks_cluster.go:241-265 populateClusterState *)
definition populateClusterState :: "('w, 'e) ec2 \<Rightarrow> cluster_info \<Rightarrow> ('w, 'e phase_error, unit) phase" where
  "populateClusterState A c =
     (case (ci_arn c, ci_endpoint c, ci_ca c) of
        (Some arn, Some endpoint, Some ca) \<Rightarrow>
          and_do (deref (ci_name c)) (\<lambda>name.
          and_do (st_set ''EKS_CLUSTER_NAME'' name) (\<lambda>_.
          and_do (st_set ''EKS_CLUSTER_ARN'' arn) (\<lambda>_.
          and_do (st_set ''EKS_ENDPOINT'' endpoint) (\<lambda>_.
          and_do (case ca of None \<Rightarrow> give () | Some d \<Rightarrow> st_set ''EKS_CA'' d) (\<lambda>_.
          and_do (st_set ''EKS_OIDC_URL'' (case ci_issuer c of None \<Rightarrow> [] | Some u \<Rightarrow> u)) (\<lambda>_.
          and_do (case ci_security_group c of None \<Rightarrow> give () | Some g \<Rightarrow> st_set ''EKS_SECURITY_GROUP'' g) (\<lambda>_.
          and_do (case ci_version c of None \<Rightarrow> give () | Some v \<Rightarrow> st_set ''EKS_VERSION'' v) (\<lambda>_.
          and_do (case ci_service_cidr c of
              None \<Rightarrow> give ()
            | Some r \<Rightarrow> and_do (st_set ''EKS_SERVICE_CIDR'' r) (\<lambda>_. st_set ''SERVICE_CIDR'' r)) (\<lambda>_.
          save_state A)))))))))
      | _ \<Rightarrow> raise (MissingFields ''cluster''))"

(* src/internal/aws/phases/phase08_eks_cluster.go:177-211 waitAndPopulateCluster *)
definition waitAndPopulateCluster :: "('w, 'e) ec2 \<Rightarrow> ('w, 'e) eks \<Rightarrow> string \<Rightarrow> ('w, 'e phase_error, unit) phase" where
  "waitAndPopulateCluster A E name =
     and_do (wait_value A (\<lambda>w. case ek_cluster E name w of
         Inl e \<Rightarrow> Some (Inl (Sdk ''waitAndPopulateCluster: DescribeCluster'' e))
       | Inr c \<Rightarrow>
           if ci_status c = ''ACTIVE'' then Some (Inr c)
           else if ci_status c = ''FAILED'' then Some (Inl (FailedStatus name (ci_status c)))
           else if ci_status c = ''CREATING'' \<or> ci_status c = ''UPDATING'' then None
           else Some (Inl (UnexpectedStatus name (ci_status c))))
       (30 * Minute) (30 * Second) (WaitedTooLong ''cluster'' name)) (populateClusterState A)"

(* src/internal/aws/phases/phase08_eks_cluster.go:213-239 waitClusterDeleted *)
definition waitClusterDeleted :: "('w, 'e) ec2 \<Rightarrow> ('w, 'e) eks \<Rightarrow> string \<Rightarrow> ('w, 'e phase_error, unit) phase" where
  "waitClusterDeleted A E name =
     wait_before A (\<lambda>w. case ek_cluster E name w of
         Inl e \<Rightarrow> Some (if ek_not_found E e then None else Some (Sdk ''waitClusterDeleted: DescribeCluster'' e))
       | Inr c \<Rightarrow> if ci_status c = ''FAILED'' then Some (Some (FailedStatus name (ci_status c))) else None)
       (15 * Minute) (30 * Second) (WaitedTooLong ''cluster deletion'' name)"

(* src/internal/aws/phases/phase08_eks_cluster.go:267-277 clearClusterState *)
definition clearClusterState :: "('w, 'f, unit) phase" where
  "clearClusterState = for_each (\<lambda>key. st_set key [])
     [''EKS_CLUSTER_NAME'', ''EKS_CLUSTER_ARN'', ''EKS_ENDPOINT'', ''EKS_CA'', ''EKS_OIDC_URL'',
      ''EKS_SECURITY_GROUP'', ''EKS_VERSION'', ''EKS_SERVICE_CIDR'', ''SERVICE_CIDR'']"

text \<open>The subnets of the control plane: those of the state but the ones whose spec, by position, is in a local zone.\<close>

(* src/internal/aws/phases/phase08_eks_cluster.go:56-71 Phase08EKSCluster part *)
definition control_plane_subnets :: "SubnetSpec list \<Rightarrow> string list \<Rightarrow> string list" where
  "control_plane_subnets specs ids =
     map snd (filter (\<lambda>(i, _). \<not> (i < length specs \<and> local_zone (sn_AZ (specs ! i)))) (enumerate 0 ids))"

(* src/internal/aws/phases/phase08_eks_cluster.go:27-127 Phase08EKSCluster *)
definition Phase08EKSCluster :: "('w, 'e) ec2 \<Rightarrow> ('w, 'e) eks \<Rightarrow> bool \<Rightarrow> ('w, 'e phase_error, unit) phase" where
  "Phase08EKSCluster A E dryRun = and_do intent (\<lambda>cl.
     let name = md_Name (cl_Metadata cl) in
     case cl_ClusterSpec cl of
       None \<Rightarrow> raise NoClusterBlock
     | Some spec \<Rightarrow>
         if dryRun then
           for_each (\<lambda>(key, value). st_set key value)
             [(''EKS_CLUSTER_NAME'', name),
              (''EKS_CLUSTER_ARN'', ''arn:aws:eks:dry-run:cluster/'' @ name),
              (''EKS_ENDPOINT'', ''https://dry-run.eks''),
              (''EKS_CA'', ''dry-run-ca''),
              (''EKS_OIDC_URL'', ''https://oidc.eks.dry-run/id/dry-run''),
              (''EKS_SECURITY_GROUP'', ''sg-dry-run''),
              (''EKS_VERSION'', cs_KubernetesVersion spec),
              (''EKS_SERVICE_CIDR'', ''172.20.0.0/16'')]
         else
           and_do (st_get ''EKS_CLUSTER_ROLE_ARN'') (\<lambda>role.
           if role = [] then raise (NotInState ''EKS_CLUSTER_ROLE_ARN'')
           else
             and_do (st_get ''PUBLIC_SUBNETS'') (\<lambda>pub. and_do (st_get ''PRIVATE_SUBNETS'') (\<lambda>priv.
             let ids = splitCSV pub @ splitCSV priv; sns = nw_Subnets (cl_Network cl) in
             if ids = [] then raise (NotInState ''subnets'')
             else
               and_do (query (ek_cluster E name)) (\<lambda>r.
               case r of
                 Inr c \<Rightarrow>
                   if ci_status c = ''ACTIVE'' then populateClusterState A c
                   else if ci_status c = ''CREATING'' \<or> ci_status c = ''UPDATING'' then waitAndPopulateCluster A E name
                   else if ci_status c = ''FAILED'' then raise (FailedStatus name (ci_status c))
                   else raise (UnexpectedStatus name (ci_status c))
               | Inl e \<Rightarrow>
                   if \<not> ek_not_found E e then raise (Sdk ''phase08: DescribeCluster'' e)
                   else
                     and_do (run_sdk ''phase08: CreateCluster'' (ek_create_cluster E
                       \<lparr>cq_name = name, cq_role = role, cq_version = cs_KubernetesVersion spec,
                        cq_subnets = control_plane_subnets (sns_Public sns @ sns_Private sns) ids,
                        cq_public_cidrs = (case cs_EndpointAccess spec of
                            Some ea \<Rightarrow> if ea_PublicAccessCidrs ea \<noteq> [] then ea_PublicAccessCidrs ea else [''0.0.0.0/0'']
                          | None \<Rightarrow> [''0.0.0.0/0'']),
                        cq_tags = EKSTags [Required name ''eks-cluster'', cl_Tags cl, md_Labels (cl_Metadata cl)]\<rparr>))
                     (\<lambda>_. waitAndPopulateCluster A E name))))))"

subsection \<open>Deletion\<close>

definition pause :: "('w, 'e) ec2 \<Rightarrow> int \<Rightarrow> ('w, 'e phase_error, unit) phase" where
  "pause A d = and_do (call (ec_sleep A d)) (check_err WaitCut)"

text \<open>The attempts that are left; the result is whether a deletion is under way.\<close>

fun delete_attempts :: "('w, 'e) ec2 \<Rightarrow> ('w, 'e) eks \<Rightarrow> string \<Rightarrow> nat \<Rightarrow> ('w, 'e phase_error, bool) phase" where
  "delete_attempts A E name 0 = give True"
| "delete_attempts A E name (Suc left) =
     and_do (call (ek_delete_cluster E name)) (\<lambda>r.
     case r of
       None \<Rightarrow> give True
     | Some e \<Rightarrow>
         if ek_not_found E e then give False
         else if (ek_in_use E e \<or> isDependencyViolation A (Some e)) \<and> 0 < left then
           and_do (pause A (15 * Second)) (\<lambda>_. delete_attempts A E name left)
         else raise (Sdk ''phase08 down: DeleteCluster'' e))"

(* src/internal/aws/phases/phase08_eks_cluster.go:131-171 Phase08EKSClusterDown *)
definition Phase08EKSClusterDown :: "('w, 'e) ec2 \<Rightarrow> ('w, 'e) eks \<Rightarrow> ('w, 'e phase_error, unit) phase" where
  "Phase08EKSClusterDown A E = and_do intent (\<lambda>cl.
     and_do (st_get ''EKS_CLUSTER_NAME'') (\<lambda>recorded.
     let clusterName = (if recorded = [] then md_Name (cl_Metadata cl) else recorded) in
     and_do (delete_attempts A E clusterName 20) (\<lambda>requested.
     and_do (if requested then waitClusterDeleted A E clusterName else give ()) (\<lambda>_.
     and_do clearClusterState (\<lambda>_. save_state A)))))"

end
