(* ===== verification/NodeGroups.thy ===== *)
theory NodeGroups
  imports EksBase IntentValidate
begin

text \<open>
  Phase 10, the managed node groups (\<open>internal/aws/phases/phase10_nodegroup.go\<close>): two launch
  templates, the BNK groups pinned to the zone of the data path, and the GPU groups, tried zone by
  zone until one has capacity. Sizes become 32-bit integers, as in the requests.
\<close>

definition int32 :: "int \<Rightarrow> 32 word" where
  "int32 i = word_of_int i"

subsection \<open>Recording and waiting\<close>

(* src/internal/aws/phases/phase10_nodegroup.go:644-651 populateNodeGroupState *)
definition populateNodeGroupState :: "('w, 'e) ec2 \<Rightarrow> group_info \<Rightarrow> string \<Rightarrow> ('w, 'e phase_error, unit) phase" where
  "populateNodeGroupState A g upper =
     (case gi_arn g of
        None \<Rightarrow> raise (MissingFields ''nodegroup'')
      | Some arn \<Rightarrow>
          and_do (deref (gi_name g)) (\<lambda>name.
          and_do (st_set (''NODEGROUP_'' @ upper @ ''_NAME'') name) (\<lambda>_.
          and_do (st_set (''NODEGROUP_'' @ upper @ ''_ARN'') arn) (\<lambda>_. save_state A))))"

definition group_failed :: "string \<Rightarrow> bool" where
  "group_failed status \<longleftrightarrow> status = ''CREATE_FAILED'' \<or> status = ''DELETE_FAILED''"

definition group_pending :: "string \<Rightarrow> bool" where
  "group_pending status \<longleftrightarrow> status = ''CREATING'' \<or> status = ''UPDATING''"

(* src/internal/aws/phases/phase10_nodegroup.go:609-642 waitAndPopulateNodeGroup *)
definition waitAndPopulateNodeGroup ::
  "('w, 'e) ec2 \<Rightarrow> ('w, 'e) eks \<Rightarrow> string \<Rightarrow> string \<Rightarrow> string \<Rightarrow> ('w, 'e phase_error, unit) phase" where
  "waitAndPopulateNodeGroup A E clusterName ngName upper =
     and_do (wait_value A (\<lambda>w. case ek_group E clusterName ngName w of
         Inl e \<Rightarrow> Some (Inl (Sdk ''waitAndPopulateNodeGroup: DescribeNodegroup'' e))
       | Inr g \<Rightarrow>
           if gi_status g = ''ACTIVE'' then Some (Inr g)
           else if group_failed (gi_status g) then Some (Inl (FailedStatus ngName (gi_status g)))
           else if group_pending (gi_status g) then None
           else Some (Inl (UnexpectedStatus ngName (gi_status g))))
       (20 * Minute) (30 * Second) (WaitedTooLong ''node group'' ngName)) (\<lambda>g. populateNodeGroupState A g upper)"

(* src/internal/aws/phases/phase10_nodegroup.go:669-695 waitNodeGroupDeleted *)
definition waitNodeGroupDeleted ::
  "('w, 'e) ec2 \<Rightarrow> ('w, 'e) eks \<Rightarrow> string \<Rightarrow> string \<Rightarrow> ('w, 'e phase_error, unit) phase" where
  "waitNodeGroupDeleted A E clusterName ngName =
     wait_before A (\<lambda>w. case ek_group E clusterName ngName w of
         Inl e \<Rightarrow> Some (if ek_not_found E e then None else Some (Sdk ''waitNodeGroupDeleted: DescribeNodegroup'' e))
       | Inr _ \<Rightarrow> None)
       (15 * Minute) (30 * Second) (WaitedTooLong ''node group deletion'' ngName)"

(* src/internal/aws/phases/phase10_nodegroup.go:653-667 deleteNodeGroup *)
definition deleteNodeGroup ::
  "('w, 'e) ec2 \<Rightarrow> ('w, 'e) eks \<Rightarrow> string \<Rightarrow> string \<Rightarrow> ('w, 'e phase_error, unit) phase" where
  "deleteNodeGroup A E clusterName ngName =
     and_do (call (ek_delete_group E clusterName ngName)) (\<lambda>r.
     case r of
       Some e \<Rightarrow> if ek_not_found E e then give () else raise (Sdk ''DeleteNodegroup'' e)
     | None \<Rightarrow> waitNodeGroupDeleted A E clusterName ngName)"

text \<open>The same; its result is dropped by the only caller.\<close>

(* src/internal/aws/phases/phase10_nodegroup.go:1126-1139 deleteNodeGroupFast *)
definition deleteNodeGroupFast ::
  "('w, 'e) ec2 \<Rightarrow> ('w, 'e) eks \<Rightarrow> string \<Rightarrow> string \<Rightarrow> ('w, 'e phase_error, unit) phase" where
  "deleteNodeGroupFast A E clusterName ngName =
     and_do (call (ek_delete_group E clusterName ngName)) (\<lambda>r.
     case r of
       Some e \<Rightarrow> if ek_not_found E e then give () else raise (Sdk ''DeleteNodegroup'' e)
     | None \<Rightarrow> waitNodeGroupDeleted A E clusterName ngName)"

subsection \<open>Requests\<close>

definition taint_effect :: "string \<Rightarrow> taint_effect" where
  "taint_effect e =
     (if e = ''NoSchedule'' then NoSchedule
      else if e = ''NoExecute'' then NoExecute
      else if e = ''PreferNoSchedule'' then PreferNoSchedule
      else NoEffect)"

definition eks_taints :: "NodeTaintSpec list \<Rightarrow> eks_taint list" where
  "eks_taints ts = map (\<lambda>t. \<lparr>et_key = taint_Key t, et_value = taint_Value t, et_effect = taint_effect (taint_Effect t)\<rparr>) ts"

definition too_large :: "NodeGroupSpec \<Rightarrow> bool" where
  "too_large ng \<longleftrightarrow>
     2 ^ 30 < ng_DiskSize ng \<or> 2 ^ 30 < ng_DesiredSize ng \<or> 2 ^ 30 < ng_MinSize ng \<or> 2 ^ 30 < ng_MaxSize ng"

definition group_request ::
  "Cluster \<Rightarrow> string \<Rightarrow> string \<Rightarrow> string list \<Rightarrow> ami_type \<Rightarrow> string \<Rightarrow> NodeGroupSpec \<Rightarrow> (string \<rightharpoonup> string) \<Rightarrow> group_request" where
  "group_request cl clusterName role subnets ami template ng labels =
     \<lparr>gq_cluster = clusterName, gq_name = clusterName @ ''-ng-'' @ ng_Name ng, gq_role = role, gq_subnets = subnets,
      gq_ami = ami, gq_capacity = (if ng_CapacityType ng = ''spot'' then Spot else OnDemand),
      gq_instance = ng_InstanceType ng,
      gq_desired = int32 (ng_DesiredSize ng), gq_min = int32 (ng_MinSize ng), gq_max = int32 (ng_MaxSize ng),
      gq_taints = eks_taints (ng_Taints ng), gq_labels = labels,
      gq_tags = EKSTags [Required (md_Name (cl_Metadata cl)) ''eks-nodegroup'', cl_Tags cl, md_Labels (cl_Metadata cl)],
      gq_template = template\<rparr>"

text \<open>The labels of the two paths: the one overrides the operator's \<open>awsbnkctl.io/gpu\<close>, the other does not.\<close>

definition node_labels :: "Cluster \<Rightarrow> NodeGroupSpec \<Rightarrow> string \<rightharpoonup> string" where
  "node_labels cl ng =
     (let m = [''awsbnkctl.io/cluster'' \<mapsto> md_Name (cl_Metadata cl)] ++ ng_Labels ng
      in if IsGPU ng then m(''awsbnkctl.io/gpu'' \<mapsto> ''true'') else m)"

definition gpu_labels :: "Cluster \<Rightarrow> NodeGroupSpec \<Rightarrow> string \<rightharpoonup> string" where
  "gpu_labels cl ng =
     [''awsbnkctl.io/cluster'' \<mapsto> md_Name (cl_Metadata cl), ''awsbnkctl.io/gpu'' \<mapsto> ''true''] ++ ng_Labels ng"

(* src/internal/aws/phases/phase10_nodegroup.go:281-452 ensureNodeGroup *)
definition ensureNodeGroup ::
  "('w, 'e) ec2 \<Rightarrow> ('w, 'e) eks \<Rightarrow> Cluster \<Rightarrow> string \<Rightarrow> string \<Rightarrow> string list \<Rightarrow> string \<Rightarrow> string \<Rightarrow> NodeGroupSpec \<Rightarrow>
   ('w, 'e phase_error, unit) phase" where
  "ensureNodeGroup A E cl clusterName role subnets ltID gpuLTID ng =
     (let upper = to_upper (ng_Name ng); ngName = clusterName @ ''-ng-'' @ ng_Name ng in
      and_do (query (ek_group E clusterName ngName)) (\<lambda>r.
      case r of
        Inr g \<Rightarrow>
          if gi_status g = ''ACTIVE'' then populateNodeGroupState A g upper
          else if group_pending (gi_status g) then waitAndPopulateNodeGroup A E clusterName ngName upper
          else if group_failed (gi_status g) then raise (FailedStatus ngName (gi_status g))
          else raise (UnexpectedStatus ngName (gi_status g))
      | Inl e \<Rightarrow>
          if \<not> ek_not_found E e then raise (Sdk ''DescribeNodegroup'' e)
          else if too_large ng then raise (TooLarge ngName)
          else if IsGPU ng \<and> gpuLTID = [] then raise (NoTemplate ngName)
          else
            and_do (run_sdk ''CreateNodegroup'' (ek_create_group E
              (group_request cl clusterName role subnets (if IsGPU ng then Al2023Nvidia else Al2023Standard)
                (if IsGPU ng then gpuLTID else ltID) ng (node_labels cl ng)))) (\<lambda>_.
            waitAndPopulateNodeGroup A E clusterName ngName upper)))"

(* src/internal/aws/phases/phase10_nodegroup.go:993-1075 createGPUNodegroup *)
definition createGPUNodegroup ::
  "('w, 'e) eks \<Rightarrow> Cluster \<Rightarrow> string \<Rightarrow> string \<Rightarrow> string list \<Rightarrow> string \<Rightarrow> NodeGroupSpec \<Rightarrow> ('w, 'e phase_error, unit) phase" where
  "createGPUNodegroup E cl clusterName role azSubnets gpuLTID ng =
     (let ngName = clusterName @ ''-ng-'' @ ng_Name ng in
      if gpuLTID = [] then raise (NoTemplate ngName)
      else if too_large ng then raise (TooLarge ngName)
      else run_sdk ''CreateNodegroup'' (ek_create_group E
        (group_request cl clusterName role azSubnets Al2023Nvidia gpuLTID ng (gpu_labels cl ng))))"

subsection \<open>Launch templates\<close>

text \<open>A failed lookup counts as none.\<close>

(* src/internal/aws/phases/phase10_nodegroup.go:597-607 lookupLTByName *)
definition lookupLTByName :: "('w, 'e) eks \<Rightarrow> string \<Rightarrow> ('w, 'e phase_error, string) phase" where
  "lookupLTByName E ltName =
     and_do (query (ek_templates E ltName)) (\<lambda>r. case r of Inr (t # _) \<Rightarrow> deref t | _ \<Rightarrow> give [])"

definition create_template ::
  "('w, 'e) eks \<Rightarrow> template_request \<Rightarrow> ('w, 'e phase_error, string) phase" where
  "create_template E q = and_do (call_sdk ''ec2:CreateLaunchTemplate'' (ek_create_template E q)) deref"

(* src/internal/aws/phases/phase10_nodegroup.go:460-525 ensureLaunchTemplate *)
definition ensureLaunchTemplate ::
  "('w, 'e) ec2 \<Rightarrow> ('w, 'e) eks \<Rightarrow> Cluster \<Rightarrow> string \<Rightarrow> 32 word \<Rightarrow> bool \<Rightarrow> ('w, 'e phase_error, string) phase" where
  "ensureLaunchTemplate A E cl ltName diskSize isLocalZone =
     and_do (query (ek_templates E ltName)) (\<lambda>r.
     case r of
       Inr (t # _) \<Rightarrow> deref t
     | _ \<Rightarrow> create_template E
         \<lparr>lq_name = ltName, lq_tags = resource_tags A cl ''launch-template'', lq_user_data = BnkUserData, lq_hop_limit = 2,
          lq_volume = (if isLocalZone then Gp2 else Gp3), lq_size = diskSize\<rparr>)"

(* src/internal/aws/phases/phase10_nodegroup.go:535-593 ensureGPULaunchTemplate *)
definition ensureGPULaunchTemplate ::
  "('w, 'e) ec2 \<Rightarrow> ('w, 'e) eks \<Rightarrow> Cluster \<Rightarrow> string \<Rightarrow> 32 word \<Rightarrow> ('w, 'e phase_error, string) phase" where
  "ensureGPULaunchTemplate A E cl ltName diskSize =
     and_do (query (ek_templates E ltName)) (\<lambda>r.
     case r of
       Inr (t # _) \<Rightarrow> deref t
     | _ \<Rightarrow> create_template E
         \<lparr>lq_name = ltName, lq_tags = resource_tags A cl ''launch-template'', lq_user_data = NoUserData, lq_hop_limit = 2,
          lq_volume = Gp3, lq_size = diskSize\<rparr>)"

subsection \<open>Zones\<close>

(* src/internal/aws/phases/phase10_nodegroup.go:704-716 filterSubnetsByAZ *)
definition filterSubnetsByAZ :: "string list \<Rightarrow> SubnetSpec list \<Rightarrow> string \<Rightarrow> string list" where
  "filterSubnetsByAZ ids specs az =
     (if length ids \<noteq> length specs then ids
      else map fst (filter (\<lambda>(_, sn). sn_AZ sn = az) (zip ids specs)))"

text \<open>The deny table, read again: one entry of the environment variable for the region.\<close>

definition denied_by_entry :: "string \<Rightarrow> string \<Rightarrow> string list" where
  "denied_by_entry region entry =
     (case cut_at CHR '':'' (trim_space entry) of
        None \<Rightarrow> []
      | Some (r, azs) \<Rightarrow>
          if trim_space r \<noteq> region then []
          else filter (\<lambda>az. az \<noteq> []) (map trim_space (split_on CHR '','' azs)))"

(* src/internal/aws/phases/phase10_nodegroup.go:733-774 buildGPUCandidateAZs *)
definition buildGPUCandidateAZs :: "environment \<Rightarrow> NodeGroupSpec \<Rightarrow> Cluster \<Rightarrow> string list" where
  "buildGPUCandidateAZs env ng cl =
     (let region = md_Region (cl_Metadata cl);
          staticDeny = (if region = ''ap-southeast-2'' then [''ap-southeast-2b''] else []);
          envVal = env ''AWSBNKCTL_GPU_AZ_DENY'';
          deny = staticDeny @
            (if envVal \<noteq> [] then concat (map (denied_by_entry region) (split_on CHR '';'' envVal)) else []);
          src = (if ng_AZs ng = [] then nw_AZs (cl_Network cl) else ng_AZs ng)
      in filter (\<lambda>az. az \<notin> set deny) src)"

subsection \<open>One zone\<close>

definition capacityErrorSubstrings :: "string list" where
  "capacityErrorSubstrings = [''InsufficientInstanceCapacity'', ''UnfulfillableCapacity'', ''Could not launch'']"

text \<open>The message of the first failed activity that speaks of capacity.\<close>

fun capacity_message :: "scaling_activity list \<Rightarrow> string" where
  "capacity_message [] = []"
| "capacity_message (a # as) =
     (let msg = (case sa_message a of None \<Rightarrow> [] | Some m \<Rightarrow> m)
      in if sa_failed a \<and> list_ex (contains msg) capacityErrorSubstrings then msg else capacity_message as)"

(* src/internal/aws/phases/phase10_nodegroup.go:1080-1121 checkASGCapacityError *)
definition checkASGCapacityError :: "('w, 'e) eks \<Rightarrow> string \<Rightarrow> 'w \<Rightarrow> 'e + string \<times> bool" where
  "checkASGCapacityError E asgName w =
     (case ek_activities E asgName w of
        Inl e \<Rightarrow> Inl e
      | Inr acts \<Rightarrow>
          let msg = capacity_message acts
          in if msg = [] then Inr ([], False)
             else (case ek_instances E asgName w of
                 Inl e \<Rightarrow> Inl e
               | Inr [] \<Rightarrow> Inr (msg, True)
               | Inr (g # _) \<Rightarrow> Inr (msg, g = [])))"

datatype sweep_end = GroupReady group_info | GroupStarved string

text \<open>One round of the loop, which remembers the name of the auto-scaling group.\<close>

(* src/internal/aws/phases/phase10_nodegroup.go:930-988 tryGPUNodeGroupInAZ part *)
definition gpu_poll ::
  "('w, 'e) eks \<Rightarrow> string \<Rightarrow> string \<Rightarrow> string \<Rightarrow> 'w \<Rightarrow> ('e phase_error + sweep_end) + string" where
  "gpu_poll E clusterName ngName asgName w =
     (case ek_group E clusterName ngName w of
        Inl e \<Rightarrow> Inl (Inl (Sdk ''DescribeNodegroup poll'' e))
      | Inr g \<Rightarrow>
          if gi_status g = ''ACTIVE'' then Inl (Inr (GroupReady g))
          else if group_failed (gi_status g) then Inl (Inl (FailedStatus ngName (gi_status g)))
          else if group_pending (gi_status g) then
            let asg = (if asgName = [] \<and> ek_autoscaling E
                       then (case gi_asgs g of Some n # _ \<Rightarrow> n | _ \<Rightarrow> asgName) else asgName)
            in if asg \<noteq> [] \<and> ek_autoscaling E
               then (case checkASGCapacityError E asg w of
                   Inl _ \<Rightarrow> Inr asg
                 | Inr (msg, noInstance) \<Rightarrow>
                     if msg \<noteq> [] \<and> noInstance then Inl (Inr (GroupStarved msg)) else Inr asg)
               else Inr asg
          else Inl (Inl (UnexpectedStatus ngName (gi_status g))))"

definition wait_gpu ::
  "('w, 'e) ec2 \<Rightarrow> ('w, 'e) eks \<Rightarrow> string \<Rightarrow> string \<Rightarrow> ('w, 'e phase_error, sweep_end) phase" where
  "wait_gpu A E clusterName ngName = (\<lambda>s.
     map_option (\<lambda>(r, w). (case r of
          Decided x \<Rightarrow> x
        | OutOfTime \<Rightarrow> Inl (WaitedTooLong ''GPU nodegroup'' ngName)
        | Cut e \<Rightarrow> Inl (WaitCut e), s\<lparr>rs_world := w\<rparr>))
       (poll_remembering (ec_now A) (ec_sleep A) (gpu_poll E clusterName ngName)
         (ec_now A (rs_world s) + 20 * Minute) (15 * Second) [] (rs_world s)))"

text \<open>The result: the zone worked, or it is exhausted and the group deleted again.\<close>

datatype az_result = AzSuccess | AzExhaust string

(* src/internal/aws/phases/phase10_nodegroup.go:878-988 tryGPUNodeGroupInAZ *)
definition tryGPUNodeGroupInAZ ::
  "('w, 'e) ec2 \<Rightarrow> ('w, 'e) eks \<Rightarrow> Cluster \<Rightarrow> string \<Rightarrow> string \<Rightarrow> string list \<Rightarrow> string \<Rightarrow> NodeGroupSpec \<Rightarrow>
   ('w, 'e phase_error, az_result) phase" where
  "tryGPUNodeGroupInAZ A E cl clusterName role azSubnets gpuLTID ng =
     (let upper = to_upper (ng_Name ng); ngName = clusterName @ ''-ng-'' @ ng_Name ng;
          poll = and_do (wait_gpu A E clusterName ngName) (\<lambda>r.
            case r of
              GroupReady g \<Rightarrow> and_do (populateNodeGroupState A g upper) (\<lambda>_. give AzSuccess)
            | GroupStarved msg \<Rightarrow>
                and_do (ignoring (deleteNodeGroupFast A E clusterName ngName)) (\<lambda>_. give (AzExhaust msg)))
      in and_do (query (ek_group E clusterName ngName)) (\<lambda>r.
         case r of
           Inr g \<Rightarrow>
             if gi_status g = ''ACTIVE'' then and_do (populateNodeGroupState A g upper) (\<lambda>_. give AzSuccess)
             else if group_pending (gi_status g) then poll
             else if group_failed (gi_status g) then raise (FailedStatus ngName (gi_status g))
             else raise (UnexpectedStatus ngName (gi_status g))
         | Inl e \<Rightarrow>
             if \<not> ek_not_found E e then raise (Sdk ''DescribeNodegroup'' e)
             else and_do (createGPUNodegroup E cl clusterName role azSubnets gpuLTID ng) (\<lambda>_. poll)))"

subsection \<open>The sweep\<close>

text \<open>
  \<open>sweepOnce\<close>: the attempts of an exhausted sweep; none (Go's nil) is success.
\<close>

fun sweep_zones ::
  "(string \<Rightarrow> ('w, 'f, az_result) phase) \<Rightarrow> string list \<Rightarrow> (string \<times> string) list \<Rightarrow>
   ('w, 'f, (string \<times> string) list) phase" where
  "sweep_zones try [] tried = give tried"
| "sweep_zones try (az # azs) tried =
     and_do (try az) (\<lambda>r.
     case r of
       AzSuccess \<Rightarrow> give []
     | AzExhaust msg \<Rightarrow> sweep_zones try azs (tried @ [(az, msg)]))"

definition try_zone ::
  "('w, 'e) ec2 \<Rightarrow> ('w, 'e) eks \<Rightarrow> Cluster \<Rightarrow> string \<Rightarrow> string \<Rightarrow> string list \<Rightarrow> SubnetSpec list \<Rightarrow> string \<Rightarrow> NodeGroupSpec \<Rightarrow>
   string \<Rightarrow> string \<Rightarrow> ('w, 'e phase_error, az_result) phase" where
  "try_zone A E cl clusterName role publicSubnets specSubnets gpuLTID ng capType az =
     (let azSubnets = filterSubnetsByAZ publicSubnets specSubnets az
      in if azSubnets = [] then raise (NoSubnetInZone az)
         else tryGPUNodeGroupInAZ A E cl clusterName role azSubnets gpuLTID (ng\<lparr>ng_CapacityType := capType\<rparr>))"

(* src/internal/aws/phases/phase10_nodegroup.go:790-869 ensureGPUNodeGroupWithAZSweep *)
definition ensureGPUNodeGroupWithAZSweep ::
  "('w, 'e) ec2 \<Rightarrow> ('w, 'e) eks \<Rightarrow> Cluster \<Rightarrow> string \<Rightarrow> string \<Rightarrow> string list \<Rightarrow> SubnetSpec list \<Rightarrow> string \<Rightarrow> NodeGroupSpec \<Rightarrow>
   string list \<Rightarrow> ('w, 'e phase_error, unit) phase" where
  "ensureGPUNodeGroupWithAZSweep A E cl clusterName role publicSubnets specSubnets gpuLTID ng candidateAZs =
     (let sweepOnce = (\<lambda>capType.
            sweep_zones (try_zone A E cl clusterName role publicSubnets specSubnets gpuLTID ng capType) candidateAZs [])
      in and_do (sweepOnce (ng_CapacityType ng)) (\<lambda>tried.
         if tried = [] then give ()
         else if ng_CapacityType ng = ''spot'' \<and> ng_OnDemandFallback ng then
           and_do (sweepOnce ''on-demand'') (\<lambda>triedOD.
           if triedOD = [] then give () else raise (NoCapacity (ng_Name ng) (tried @ triedOD)))
         else raise (NoCapacity (ng_Name ng) tried)))"

subsection \<open>The phase\<close>

text \<open>The largest 32-bit size of the chosen groups, at least 0; the comparison is signed.\<close>

definition max_disk :: "(NodeGroupSpec \<Rightarrow> bool) \<Rightarrow> NodeGroupSpec list \<Rightarrow> 32 word" where
  "max_disk P ngs =
     fold (\<lambda>ng m. if P ng \<and> sint m < sint (int32 (ng_DiskSize ng)) then int32 (ng_DiskSize ng) else m) ngs 0"

(* src/internal/aws/phases/phase10_nodegroup.go:76-89 Phase10NodeGroup part *)
definition dry_groups :: "Cluster \<Rightarrow> ClusterSpec \<Rightarrow> ('w, 'f, unit) phase" where
  "dry_groups cl spec =
     (let name = md_Name (cl_Metadata cl) in
      and_do (st_set ''LT_ID'' ''lt-dry-run'') (\<lambda>_.
      and_do (if HasGPUNodeGroup cl then st_set ''GPU_LT_ID'' ''lt-gpu-dry-run'' else give ()) (\<lambda>_.
      for_each (\<lambda>ng.
        let upper = to_upper (ng_Name ng); ngName = name @ ''-ng-'' @ ng_Name ng
        in and_do (st_set (''NODEGROUP_'' @ upper @ ''_NAME'') (''dry-run-ng-'' @ ng_Name ng)) (\<lambda>_.
           st_set (''NODEGROUP_'' @ upper @ ''_ARN'') (''arn:aws:eks:dry-run:nodegroup/'' @ name @ ''/'' @ ngName @ ''/dry-run'')))
        (cs_NodeGroups spec))))"

text \<open>The subnets of the BNK groups: those in the zone of the external data-path subnet.\<close>

definition bnk_subnets :: "Cluster \<Rightarrow> string list \<Rightarrow> ('w, 'e phase_error, string list) phase" where
  "bnk_subnets cl publicSubnets =
     (case nw_DataPath (cl_Network cl) of
        Some dp \<Rightarrow>
          if IsBNKPattern cl then
            let az = sn_AZ (dp_External dp);
                filtered = filterSubnetsByAZ publicSubnets (sns_Public (nw_Subnets (cl_Network cl))) az
            in if filtered = [] then raise (NoSubnetInZone az) else give filtered
          else give publicSubnets
      | None \<Rightarrow> give publicSubnets)"

definition ensure_group ::
  "('w, 'e) ec2 \<Rightarrow> ('w, 'e) eks \<Rightarrow> environment \<Rightarrow> Cluster \<Rightarrow> string \<Rightarrow> string \<Rightarrow> string list \<Rightarrow> string list \<Rightarrow> string \<Rightarrow> string \<Rightarrow>
   NodeGroupSpec \<Rightarrow> ('w, 'e phase_error, unit) phase" where
  "ensure_group A E env cl clusterName role publicSubnets bnkSubnets ltID gpuLTID ng =
     (if IsGPU ng then
        let candidateAZs = buildGPUCandidateAZs env ng cl
        in if candidateAZs = [] then raise (NoZones (ng_Name ng))
           else ensureGPUNodeGroupWithAZSweep A E cl clusterName role publicSubnets
             (sns_Public (nw_Subnets (cl_Network cl))) gpuLTID ng candidateAZs
      else ensureNodeGroup A E cl clusterName role bnkSubnets ltID gpuLTID ng)"

(* src/internal/aws/phases/phase10_nodegroup.go:63-204 Phase10NodeGroup *)
definition Phase10NodeGroup ::
  "('w, 'e) ec2 \<Rightarrow> ('w, 'e) eks \<Rightarrow> environment \<Rightarrow> bool \<Rightarrow> ('w, 'e phase_error, unit) phase" where
  "Phase10NodeGroup A E env dryRun = and_do intent (\<lambda>cl.
     let name = md_Name (cl_Metadata cl); ltName = name @ ''-bnk-lt''; gpuLTName = name @ ''-gpu-lt'' in
     case cl_ClusterSpec cl of
       None \<Rightarrow> raise NoClusterBlock
     | Some spec \<Rightarrow>
         if dryRun then dry_groups cl spec
         else
           and_do (st_get ''EKS_CLUSTER_NAME'') (\<lambda>clusterName.
           if clusterName = [] then raise (NotInState ''EKS_CLUSTER_NAME'')
           else and_do (st_get ''EKS_NODE_ROLE_ARN'') (\<lambda>role.
           if role = [] then raise (NotInState ''EKS_NODE_ROLE_ARN'')
           else and_do (st_get ''PUBLIC_SUBNETS'') (\<lambda>csv.
           let publicSubnets = splitCSV csv; ngs = cs_NodeGroups spec in
           if publicSubnets = [] then raise (NotInState ''PUBLIC_SUBNETS'')
           else and_do (bnk_subnets cl publicSubnets) (\<lambda>bnkSubnets.
             let isLocalZone = list_ex (\<lambda>sn. local_zone (sn_AZ sn)) (sns_Public (nw_Subnets (cl_Network cl)));
                 size = max_disk (\<lambda>ng. \<not> IsGPU ng) ngs;
                 maxDiskSize = (if size = 0 then 50 else size)
             in and_do (ensureLaunchTemplate A E cl ltName maxDiskSize isLocalZone) (\<lambda>ltID.
                and_do (st_set ''LT_ID'' ltID) (\<lambda>_.
                and_do (if HasGPUNodeGroup cl
                        then and_do (ensureGPULaunchTemplate A E cl gpuLTName (max_disk IsGPU ngs)) (\<lambda>i.
                          and_do (st_set ''GPU_LT_ID'' i) (\<lambda>_. give i))
                        else give []) (\<lambda>gpuLTID.
                and_do (for_each (ensure_group A E env cl clusterName role publicSubnets bnkSubnets ltID gpuLTID) ngs)
                  (\<lambda>_. save_state A)))))))))"

definition delete_template ::
  "('w, 'e) ec2 \<Rightarrow> ('w, 'e) eks \<Rightarrow> string \<Rightarrow> string \<Rightarrow> ('w, 'e phase_error, unit) phase" where
  "delete_template A E key ltName =
     and_do (st_get key) (\<lambda>recorded.
     and_do (if recorded = [] then lookupLTByName E ltName else give recorded) (\<lambda>ltID.
     and_do (if ltID \<noteq> [] then run_tolerant A ''phase10 down: DeleteLaunchTemplate'' (ek_delete_template E ltID) else give ())
       (\<lambda>_. st_set key [])))"

(* src/internal/aws/phases/phase10_nodegroup.go:208-277 Phase10NodeGroupDown *)
definition Phase10NodeGroupDown :: "('w, 'e) ec2 \<Rightarrow> ('w, 'e) eks \<Rightarrow> ('w, 'e phase_error, unit) phase" where
  "Phase10NodeGroupDown A E = and_do intent (\<lambda>cl.
     and_do (st_get ''EKS_CLUSTER_NAME'') (\<lambda>recorded.
     let name = md_Name (cl_Metadata cl); clusterName = (if recorded = [] then name else recorded) in
     case cl_ClusterSpec cl of
       None \<Rightarrow> give ()
     | Some spec \<Rightarrow>
         and_do (for_each (\<lambda>ng.
           let upper = to_upper (ng_Name ng) in
           and_do (st_get (''NODEGROUP_'' @ upper @ ''_NAME'')) (\<lambda>n.
           and_do (deleteNodeGroup A E clusterName (if n = [] then clusterName @ ''-ng-'' @ ng_Name ng else n)) (\<lambda>_.
           and_do (st_set (''NODEGROUP_'' @ upper @ ''_NAME'') []) (\<lambda>_.
           st_set (''NODEGROUP_'' @ upper @ ''_ARN'') [])))) (cs_NodeGroups spec)) (\<lambda>_.
         and_do (deleteClusterVolumes A E clusterName) (\<lambda>_.
         and_do (delete_template A E ''LT_ID'' (name @ ''-bnk-lt'')) (\<lambda>_.
         and_do (delete_template A E ''GPU_LT_ID'' (name @ ''-gpu-lt'')) (\<lambda>_. save_state A))))))"

end
