(* ===== verification/NodeGroupClaims.thy ===== *)
theory NodeGroupClaims
  imports EksCluster NodeGroups PhaseClaims IntentClaims
begin

text \<open>
  What the EKS phases guarantee: they end, what they record was seen active, a GPU group is given up
  only after every zone, the zones tried are those the intent's validation allows, and the sizes
  requested are the operator's.
\<close>

subsection \<open>Rules for results and errors\<close>

text \<open>\<open>yields Q m\<close>: when \<open>m\<close> succeeds its result and state satisfy \<open>Q\<close>. \<open>fails P m\<close>: its errors satisfy \<open>P\<close>.\<close>

definition yields :: "('a \<Rightarrow> 'w run_state \<Rightarrow> bool) \<Rightarrow> ('w, 'f, 'a) phase \<Rightarrow> bool" where
  "yields Q m \<longleftrightarrow> (\<forall>s x s'. m s = Some (Inr x, s') \<longrightarrow> Q x s')"

definition fails :: "('f \<Rightarrow> bool) \<Rightarrow> ('w, 'f, 'a) phase \<Rightarrow> bool" where
  "fails P m \<longleftrightarrow> (\<forall>s e s'. m s = Some (Inl e, s') \<longrightarrow> P e)"

named_theorems fails_rules

lemma yields_raise [simp]: "yields Q (raise e)"
  by (simp add: yields_def raise_def)

lemma yields_and_do: "(\<And>x. yields Q (f x)) \<Longrightarrow> yields Q (and_do m f)"
  by (fastforce simp: yields_def and_do_def split: option.splits sum.splits prod.splits)

lemma yieldsD: "yields Q m \<Longrightarrow> m s = Some (Inr x, s') \<Longrightarrow> Q x s'"
  by (simp add: yields_def)

lemma fails_and_do [fails_rules]: "fails P m \<Longrightarrow> (\<And>x. fails P (f x)) \<Longrightarrow> fails P (and_do m f)"
  by (fastforce simp: fails_def and_do_def split: option.splits sum.splits prod.splits)

lemma fails_basic [fails_rules]:
  "fails P (give x)" "fails P intent" "fails P (st_get k)" "fails P (st_set k v)" "fails P (query q)"
  "fails P (call f)" "fails P (outcome m)"
  by (auto simp: fails_def give_def intent_def st_get_def st_set_def query_def call_def outcome_def
      split: prod.splits option.splits)

lemma fails_raise [fails_rules]: "P e \<Longrightarrow> fails P (raise e)"
  by (simp add: fails_def raise_def)

lemma fails_ignoring [fails_rules]: "fails P (ignoring m)"
  unfolding ignoring_def by (intro fails_rules)

lemma fails_deref [fails_rules]: "P NilPointer \<Longrightarrow> fails P (deref p)"
  by (auto simp: deref_def intro: fails_rules split: option.splits)

lemma fails_run_sdk [fails_rules]: "(\<And>e. P (Sdk what e)) \<Longrightarrow> fails P (run_sdk what c)"
  by (auto simp: run_sdk_def check_err_def intro!: fails_rules split: option.splits)

lemma fails_save_state [fails_rules]: "(\<And>e. P (SaveFailed e)) \<Longrightarrow> fails P (save_state A)"
  by (auto simp: fails_def save_state_def split: prod.splits option.splits)

lemma keepsD': "keeps R m \<Longrightarrow> m s = Some (r, s') \<Longrightarrow> R s s'"
  by (simp add: keeps_def)

subsection \<open>Ending\<close>

lemma returns_wait_value:
  assumes "ec2_clock A" and "0 < poll"
  shows "returns (wait_value A check timeout poll late)"
proof -
  have "\<exists>r. poll_before (ec_now A) (ec_sleep A) check deadline poll w = Some r" for deadline w
    by (rule poll_before_terminates) (use assms in \<open>auto simp: ec2_clock_def\<close>)
  then show ?thesis by (fastforce simp: returns_def wait_value_def)
qed

lemma returns_wait_gpu:
  assumes "ec2_clock A"
  shows "returns (wait_gpu A E c n)"
proof -
  have "\<exists>r. poll_remembering (ec_now A) (ec_sleep A) check deadline (15 * Second) l w = Some r" for check deadline l w
    by (rule poll_remembering_terminates, rule clock_step [OF assms]) (simp_all add: Second_def)
  then show ?thesis by (fastforce simp: returns_def wait_gpu_def)
qed

text \<open>Deleting a volume does not turn the clock back.\<close>

definition eks_clock :: "('w, 'e) ec2 \<Rightarrow> ('w, 'e) eks \<Rightarrow> bool" where
  "eks_clock A E \<longleftrightarrow> ec2_clock A \<and> (\<forall>i w. ec_now A w \<le> ec_now A (snd (ek_delete_volume E i w)))"

lemma sweep_volumes_clock: "eks_clock A E \<Longrightarrow> ec_now A w \<le> ec_now A (sweep_volumes E vs w)"
proof (induction E vs w rule: sweep_volumes.induct)
  case (2 E i vs w)
  have "ec_now A w \<le> ec_now A (snd (ek_delete_volume E i w))" using 2(2) by (simp add: eks_clock_def)
  also have "\<dots> \<le> ec_now A (sweep_volumes E vs (snd (ek_delete_volume E i w)))" using 2 by blast
  finally show ?case by simp
qed simp_all

lemma returns_deleteClusterVolumes:
  assumes "eks_clock A E"
  shows "returns (deleteClusterVolumes A E c)"
proof -
  have clock: "ec2_clock A" using assms by (simp add: eks_clock_def)
  have "\<exists>w'. poll_acting (ec_sleep A) (sweep_round A E c deadline) volumeSweepInterval w = Some w'" for deadline w
    by (rule poll_acting_terminates [where now = "ec_now A" and deadline = deadline], rule clock_step [OF clock])
      (use sweep_volumes_clock [OF assms] in
        \<open>auto simp: volumeSweepInterval_def Second_def sweep_round_def Let_def split: sum.splits\<close>)
  then show ?thesis by (fastforce simp: returns_def deleteClusterVolumes_def)
qed

lemma returns_populate [returns_rules]:
  "returns (populateNodeGroupState A g u)" "returns (populateClusterState A c)"
  unfolding populateNodeGroupState_def populateClusterState_def
  by (auto intro!: returns_rules split: option.splits)

lemma returns_eks_waits:
  assumes "ec2_clock A"
  shows "returns (waitAndPopulateCluster A E n)" "returns (waitClusterDeleted A E n)"
    "returns (waitAndPopulateNodeGroup A E c n u)" "returns (waitNodeGroupDeleted A E c n)"
  unfolding waitAndPopulateCluster_def waitClusterDeleted_def waitAndPopulateNodeGroup_def waitNodeGroupDeleted_def
  by (auto intro!: returns_rules returns_wait_value returns_wait_before assms simp: Second_def)

lemma returns_deletes:
  assumes "ec2_clock A"
  shows "returns (deleteNodeGroup A E c n)" "returns (deleteNodeGroupFast A E c n)"
  unfolding deleteNodeGroup_def deleteNodeGroupFast_def
  by (auto intro!: returns_rules returns_eks_waits assms split: option.splits)

lemma returns_templates [returns_rules]:
  "returns (lookupLTByName E n)" "returns (ensureLaunchTemplate A E cl n d z)" "returns (ensureGPULaunchTemplate A E cl n d)"
  "returns (delete_template A E k n)"
  unfolding delete_template_def lookupLTByName_def ensureLaunchTemplate_def ensureGPULaunchTemplate_def create_template_def
  by (auto intro!: returns_rules split: sum.splits list.splits)

lemma returns_tryGPU:
  assumes "ec2_clock A"
  shows "returns (tryGPUNodeGroupInAZ A E cl c r sns t ng)"
  unfolding tryGPUNodeGroupInAZ_def createGPUNodegroup_def Let_def
  by (auto intro!: returns_rules returns_wait_gpu returns_deletes assms split: sum.splits sweep_end.splits)

lemma returns_sweep_zones: "(\<And>az. returns (try az)) \<Longrightarrow> returns (sweep_zones try azs tried)"
  by (induction azs arbitrary: tried) (auto intro!: returns_rules split: az_result.splits)

lemma returns_ensure_group:
  assumes "ec2_clock A"
  shows "returns (ensure_group A E env cl c r pub bnk lt glt ng)"
proof -
  have "returns (try_zone A E cl c r pub specs glt ng cap az)" for specs cap az
    unfolding try_zone_def Let_def by (auto intro!: returns_rules returns_tryGPU assms)
  then show ?thesis
    unfolding ensure_group_def ensureNodeGroup_def ensureGPUNodeGroupWithAZSweep_def Let_def
    by (auto intro!: returns_rules returns_sweep_zones returns_eks_waits assms split: sum.splits)
qed

lemma returns_Phase08: "ec2_clock A \<Longrightarrow> returns (Phase08EKSCluster A E dry)"
  unfolding Phase08EKSCluster_def Let_def
  by (auto intro!: returns_rules returns_eks_waits split: option.splits sum.splits)

lemma returns_Phase08Down:
  assumes "ec2_clock A" shows "returns (Phase08EKSClusterDown A E)"
proof -
  have "returns (delete_attempts A E n k)" for n k
    by (induction k) (auto intro!: returns_rules simp: pause_def split: option.splits)
  then show ?thesis
    unfolding Phase08EKSClusterDown_def clearClusterState_def Let_def
    by (auto intro!: returns_rules returns_eks_waits assms)
qed

lemma returns_Phase10: "ec2_clock A \<Longrightarrow> returns (Phase10NodeGroup A E env dry)"
  unfolding Phase10NodeGroup_def dry_groups_def bnk_subnets_def Let_def
  by (auto intro!: returns_rules returns_ensure_group split: option.splits)

lemma returns_Phase10Down: "eks_clock A E \<Longrightarrow> returns (Phase10NodeGroupDown A E)"
  unfolding Phase10NodeGroupDown_def Let_def
  by (auto intro!: returns_rules returns_deletes returns_deleteClusterVolumes simp: eks_clock_def split: option.splits)

subsection \<open>What an error of the sweep says\<close>

definition not_exhausted :: "'e phase_error \<Rightarrow> bool" where
  "not_exhausted e \<longleftrightarrow> (\<forall>n tried. e \<noteq> NoCapacity n tried)"

lemma not_exhausted_simps [simp]:
  "not_exhausted (Sdk what e)" "not_exhausted NilPointer" "not_exhausted (SaveFailed e)"
  "not_exhausted (MissingFields f)" "not_exhausted (FailedStatus n st)" "not_exhausted (UnexpectedStatus n st)"
  "not_exhausted (NoTemplate n)" "not_exhausted (TooLarge n)" "not_exhausted (NoSubnetInZone az)"
  "not_exhausted (WaitedTooLong k n)" "not_exhausted (WaitCut e)"
  by (simp_all add: not_exhausted_def)

lemma fails_populate: "fails not_exhausted (populateNodeGroupState A g u)"
  unfolding populateNodeGroupState_def by (auto intro!: fails_rules split: option.splits)

lemma gpu_poll_error: "gpu_poll E c n l w = Inl (Inl e) \<Longrightarrow> not_exhausted e"
  by (auto simp: gpu_poll_def Let_def split: sum.splits if_splits prod.splits)

lemma wait_gpu_Some:
  assumes "wait_gpu A E c n s = Some (r, s')"
  shows "rs_st s' = rs_st s \<and>
    ((\<exists>l. gpu_poll E c n l (rs_world s') = Inl r) \<or> r = Inl (WaitedTooLong ''GPU nodegroup'' n) \<or> (\<exists>e. r = Inl (WaitCut e)))"
proof -
  obtain d w where "poll_remembering (ec_now A) (ec_sleep A) (gpu_poll E c n) (ec_now A (rs_world s) + 20 * Minute)
      (15 * Second) [] (rs_world s) = Some (d, w)"
    using assms by (auto simp: wait_gpu_def)
  with assms show ?thesis
    by (cases d) (auto simp: wait_gpu_def dest: poll_remembering_Decided)
qed

lemma wait_value_Some:
  assumes "wait_value A check timeout poll late s = Some (r, s')"
  shows "rs_st s' = rs_st s \<and> (check (rs_world s') = Some r \<or> r = Inl late \<or> (\<exists>e. r = Inl (WaitCut e)))"
proof -
  obtain d w where "poll_before (ec_now A) (ec_sleep A) check (ec_now A (rs_world s) + timeout) poll (rs_world s) = Some (d, w)"
    using assms by (auto simp: wait_value_def)
  with assms show ?thesis
    by (cases d) (auto simp: wait_value_def dest: poll_before_Decided)
qed

lemma fails_wait_gpu: "fails not_exhausted (wait_gpu A E c n)"
  by (auto simp: fails_def dest!: wait_gpu_Some gpu_poll_error)

lemma fails_try_zone: "fails not_exhausted (try_zone A E cl c r pub specs t ng cap az)"
  unfolding try_zone_def tryGPUNodeGroupInAZ_def createGPUNodegroup_def Let_def
  by (auto intro!: fails_rules fails_wait_gpu fails_populate split: sum.splits sweep_end.splits)

lemma sweep_zones_tried:
  "sweep_zones try azs tried s = Some (Inr r, s') \<Longrightarrow> r \<noteq> [] \<Longrightarrow> map fst r = map fst tried @ azs"
proof (induction azs arbitrary: tried s)
  case (Cons az azs)
  from Cons.prems obtain x t where "try az s = Some (Inr x, t)"
    "(case x of AzSuccess \<Rightarrow> give [] | AzExhaust msg \<Rightarrow> sweep_zones try azs (tried @ [(az, msg)])) t = Some (Inr r, s')"
    by (auto simp: and_do_def split: option.splits sum.splits prod.splits)
  with Cons.IH Cons.prems(2) show ?case by (fastforce simp: give_def split: az_result.splits)
qed (simp add: give_def)

lemma sweep_zones_error:
  assumes "\<And>az. fails P (try az)" shows "fails P (sweep_zones try azs tried)"
  by (induction azs arbitrary: tried) (auto intro!: fails_rules assms split: az_result.splits)

subsection \<open>What is recorded\<close>

text \<open>
  A history \<open>seen\<close> of node groups answered as active, which grows with every describe and which no
  call of the phase forgets.
\<close>

definition remembers :: "('w, 'e) ec2 \<Rightarrow> ('w, 'e) eks \<Rightarrow> ('w \<Rightarrow> 'k \<Rightarrow> bool) \<Rightarrow> bool" where
  "remembers A E seen \<longleftrightarrow> (\<forall>w x. seen w x \<longrightarrow>
     (\<forall>st. seen (snd (ec_save A st w)) x) \<and> (\<forall>d. seen (snd (ec_sleep A d w)) x) \<and>
     (\<forall>q. seen (snd (ek_create_group E q w)) x) \<and> (\<forall>c n. seen (snd (ek_delete_group E c n w)) x) \<and>
     (\<forall>q. seen (snd (ek_create_template E q w)) x) \<and> (\<forall>q. seen (snd (ek_create_cluster E q w)) x))"

definition group_keys :: "NodeGroupSpec \<Rightarrow> string set" where
  "group_keys ng = {''NODEGROUP_'' @ to_upper (ng_Name ng) @ ''_NAME'', ''NODEGROUP_'' @ to_upper (ng_Name ng) @ ''_ARN''}"

definition remembering :: "('w \<Rightarrow> 'k \<Rightarrow> bool) \<Rightarrow> string set \<Rightarrow> 'w run_state \<Rightarrow> 'w run_state \<Rightarrow> bool" where
  "remembering seen ks s s' \<longleftrightarrow> (\<forall>x. seen (rs_world s) x \<longrightarrow> seen (rs_world s') x) \<and>
     (\<forall>k. k \<notin> ks \<longrightarrow> Get (rs_st s') k = Get (rs_st s) k)"

lemma preorder_remembering [simp]: "preorder (remembering seen ks)"
  by (auto simp: preorder_def remembering_def)

lemma keeps_call: "(\<And>w x. seen w x \<Longrightarrow> seen (snd (c w)) x) \<Longrightarrow> keeps (remembering seen ks) (call c)"
  by (auto simp: keeps_def call_def remembering_def split: prod.splits) (metis snd_conv)

lemma keeps_st_set: "k \<in> ks \<Longrightarrow> keeps (remembering seen ks) (st_set k v)"
  by (auto simp: keeps_def st_set_def remembering_def Get_def Set_key_def)

lemma remembers_calls:
  assumes "remembers A E seen" and "seen w x"
  shows "seen (snd (ec_save A st w)) x" "seen (snd (ec_sleep A d w)) x" "seen (snd (ek_create_group E q w)) x"
    "seen (snd (ek_delete_group E c n w)) x" "seen (snd (ek_create_template E tq w)) x"
    "seen (snd (ek_create_cluster E cq w)) x"
  using assms by (simp_all add: remembers_def)

lemma keeps_save:
  assumes m: "remembers A E seen" shows "keeps (remembering seen ks) (save_state A)"
proof -
  have "seen w x \<Longrightarrow> ec_save A st w = (r, w') \<Longrightarrow> seen w' x" for w x st r w'
    using remembers_calls(1) [OF m, of w x st] by simp
  then show ?thesis by (auto simp: keeps_def save_state_def remembering_def split: prod.splits option.splits)
qed

lemma poll_before_world:
  assumes sleep: "\<And>w w' r. K w \<Longrightarrow> sleep poll w = (r, w') \<Longrightarrow> K w'" and w: "K w"
    and "poll_before now sleep check deadline poll w = Some (r, w')"
  shows "K w'"
proof -
  have "(\<forall>w w' r. K w \<longrightarrow> sl pl w = (r, w') \<longrightarrow> K w') \<longrightarrow> K v \<longrightarrow> K (snd y)"
    if "poll_before nw sl ch dl pl v = Some y" for nw sl ch dl pl v and y :: "('c, 'd) waited_before \<times> 'a"
  proof (rule poll_before.raw_induct [OF _ that, where P = "\<lambda>nw sl ch dl pl v y. (\<forall>w w' r. K w \<longrightarrow> sl pl w = (r, w') \<longrightarrow> K w') \<longrightarrow> K v \<longrightarrow> K (snd y)"], intro impI)
    fix loop and nw :: "'a \<Rightarrow> int" and sl ch dl pl v and y :: "('c, 'd) waited_before \<times> 'a"
    assume IH: "\<And>nw sl ch dl pl v y. loop nw sl ch dl pl v = Some y \<Longrightarrow>
        (\<forall>w w' r. K w \<longrightarrow> sl pl w = (r, w') \<longrightarrow> K w') \<longrightarrow> K v \<longrightarrow> K (snd y)"
      and body: "(if nw v < dl then (case ch v of Some r \<Rightarrow> Some (Decided r, v) | None \<Rightarrow>
          (case sl pl v of (Some e, w') \<Rightarrow> Some (Cut e, w') | (None, w') \<Rightarrow> loop nw sl ch dl pl w')) else Some (OutOfTime, v)) = Some y"
      and k: "\<forall>w w' r. K w \<longrightarrow> sl pl w = (r, w') \<longrightarrow> K w'" "K v"
    obtain r w1 where "sl pl v = (r, w1)" by fastforce
    then show "K (snd y)" using body k IH [of nw sl ch dl pl w1]
      by (cases r) (auto split: if_splits option.splits)
  qed
  from this [OF assms(3)] show ?thesis using sleep w by (metis snd_conv)
qed
lemma poll_remembering_world:
  fixes sleep :: "int \<Rightarrow> 'w \<Rightarrow> 'e option \<times> 'w" and check :: "'l \<Rightarrow> 'w \<Rightarrow> 'r + 'l"
  assumes sleep: "\<And>w w' r. K w \<Longrightarrow> sleep poll w = (r, w') \<Longrightarrow> K w'" and w: "K w"
    and "poll_remembering now sleep check deadline poll l w = Some (r, w')"
  shows "K w'"
proof -
  have "(\<forall>w w' r. K w \<longrightarrow> sl pl w = (r, w') \<longrightarrow> K w') \<longrightarrow> K v \<longrightarrow> K (snd y)"
    if "poll_remembering nw sl ch dl pl l v = Some y" for nw sl and ch :: "'l \<Rightarrow> 'w \<Rightarrow> 'r + 'l" and dl pl l v and y :: "('r, 'e) waited_before \<times> 'w"
  proof (rule poll_remembering.raw_induct [OF _ that, where P = "\<lambda>nw sl ch dl pl l v y. (\<forall>w w' r. K w \<longrightarrow> sl pl w = (r, w') \<longrightarrow> K w') \<longrightarrow> K v \<longrightarrow> K (snd y)"], intro impI)
    fix loop and nw :: "'w \<Rightarrow> int" and sl and ch :: "'l \<Rightarrow> 'w \<Rightarrow> 'r + 'l" and dl pl l v and y :: "('r, 'e) waited_before \<times> 'w"
    assume IH: "\<And>nw sl ch dl pl l v y. loop nw sl ch dl pl l v = Some y \<Longrightarrow>
        (\<forall>w w' r. K w \<longrightarrow> sl pl w = (r, w') \<longrightarrow> K w') \<longrightarrow> K v \<longrightarrow> K (snd y)"
      and body: "(if nw v < dl then (case ch l v of Inl r \<Rightarrow> Some (Decided r, v) | Inr l' \<Rightarrow>
          (case sl pl v of (Some e, w') \<Rightarrow> Some (Cut e, w') | (None, w') \<Rightarrow> loop nw sl ch dl pl l' w')) else Some (OutOfTime, v)) = Some y"
      and k: "\<forall>w w' r. K w \<longrightarrow> sl pl w = (r, w') \<longrightarrow> K w'" "K v"
    obtain r w1 where "sl pl v = (r, w1)" by fastforce
    then show "K (snd y)" using body k IH [of nw sl ch dl pl _ w1]
      by (cases r) (auto split: if_splits option.splits sum.splits)
  qed
  from this [OF assms(3)] show ?thesis using sleep w by (metis snd_conv)
qed

lemma keeps_waits:
  assumes m: "remembers A E seen"
  shows "keeps (remembering seen ks) (wait_value A check timeout poll late)"
    and "keeps (remembering seen ks) (wait_before A check' timeout poll late)"
    and "keeps (remembering seen ks) (wait_gpu A E c n)"
proof -
  have sl: "seen w x \<Longrightarrow> ec_sleep A d w = (r, w') \<Longrightarrow> seen w' x" for w x d r w'
    using remembers_calls(2) [OF m, of w x d] by simp
  have pb: "seen w' x" if "poll_before (ec_now A) (ec_sleep A) ch dl pl w = Some (r, w')" "seen w x" for ch dl pl w r w' x
    by (rule poll_before_world [where K = "\<lambda>w. seen w x", OF sl that(2,1)])
  have pr: "seen w' x" if "poll_remembering (ec_now A) (ec_sleep A) ch dl pl l w = Some (r, w')" "seen w x" for ch dl pl l w r w' x
    by (rule poll_remembering_world [where K = "\<lambda>w. seen w x", OF sl that(2,1)])
  show "keeps (remembering seen ks) (wait_value A check timeout poll late)"
    by (auto simp: keeps_def wait_value_def remembering_def dest: pb)
  show "keeps (remembering seen ks) (wait_before A check' timeout poll late)"
    by (auto simp: keeps_def wait_before_def remembering_def dest: pb)
  show "keeps (remembering seen ks) (wait_gpu A E c n)"
    by (auto simp: keeps_def wait_gpu_def remembering_def dest: pr)
qed

lemma keeps_mono: "ks \<subseteq> ks' \<Longrightarrow> keeps (remembering seen ks) m \<Longrightarrow> keeps (remembering seen ks') m"
  by (fastforce simp: keeps_def remembering_def)

lemma keeps_run_sdk: "(\<And>w x. seen w x \<Longrightarrow> seen (snd (c w)) x) \<Longrightarrow> keeps (remembering seen ks) (run_sdk what c)"
  unfolding run_sdk_def by (auto intro!: keeps_rules keeps_call)

lemma keeps_call_sdk: "(\<And>w x. seen w x \<Longrightarrow> seen (snd (c w)) x) \<Longrightarrow> keeps (remembering seen ks) (call_sdk what c)"
  unfolding call_sdk_def by (auto intro!: keeps_rules keeps_call)

lemma keeps_populate:
  assumes "remembers A E seen" and "group_keys ng \<subseteq> ks"
  shows "keeps (remembering seen ks) (populateNodeGroupState A g (to_upper (ng_Name ng)))"
  using assms(2) unfolding populateNodeGroupState_def
  by (auto intro!: keeps_rules keeps_st_set keeps_save assms simp: group_keys_def split: option.splits)

text \<open>A group is recorded when it was seen active under the name and ARN the state holds.\<close>

definition group_recorded :: "('w \<Rightarrow> string \<times> string \<times> group_info \<Rightarrow> bool) \<Rightarrow> string \<Rightarrow> NodeGroupSpec \<Rightarrow> 'w run_state \<Rightarrow> bool" where
  "group_recorded seen c ng s \<longleftrightarrow> (\<exists>g. seen (rs_world s) (c, c @ ''-ng-'' @ ng_Name ng, g) \<and>
     gi_name g = Some (Get (rs_st s) (''NODEGROUP_'' @ to_upper (ng_Name ng) @ ''_NAME'')) \<and>
     gi_arn g = Some (Get (rs_st s) (''NODEGROUP_'' @ to_upper (ng_Name ng) @ ''_ARN'')))"

lemma group_recorded_kept:
  "group_recorded seen c ng s \<Longrightarrow> remembering seen ks s s' \<Longrightarrow> group_keys ng \<inter> ks = {} \<Longrightarrow> group_recorded seen c ng s'"
  by (fastforce simp: group_recorded_def remembering_def group_keys_def)

lemma populate_records:
  assumes m: "remembers A E seen" and g: "seen (rs_world s) (c, c @ ''-ng-'' @ ng_Name ng, g)"
    and run: "populateNodeGroupState A g (to_upper (ng_Name ng)) s = Some (Inr (), s')"
  shows "group_recorded seen c ng s'"
proof -
  obtain n arn where na: "gi_name g = Some n" "gi_arn g = Some arn"
    using run by (auto simp: populateNodeGroupState_def and_do_def deref_def raise_def split: option.splits)
  define t where "t = s\<lparr>rs_st := Set_key (''NODEGROUP_'' @ to_upper (ng_Name ng) @ ''_ARN'') arn
      (Set_key (''NODEGROUP_'' @ to_upper (ng_Name ng) @ ''_NAME'') n (rs_st s))\<rparr>"
  have "save_state A t = Some (Inr (), s')"
    using run na by (simp add: populateNodeGroupState_def and_do_def deref_def give_def st_set_def t_def)
  then have "remembering seen {} t s'" by (rule keepsD' [OF keeps_save [OF m]])
  moreover have "group_recorded seen c ng t"
    using g na by (auto simp: group_recorded_def t_def Get_def Set_key_def)
  ultimately show ?thesis by (auto intro: group_recorded_kept)
qed

text \<open>Every active answer is in the history.\<close>

definition sees_groups :: "('w, 'e) eks \<Rightarrow> ('w \<Rightarrow> string \<times> string \<times> group_info \<Rightarrow> bool) \<Rightarrow> bool" where
  "sees_groups E seen \<longleftrightarrow> (\<forall>c n w g. ek_group E c n w = Inr g \<and> gi_status g = ''ACTIVE'' \<longrightarrow> seen w (c, n, g))"

lemma wait_records:
  assumes m: "remembers A E seen" and sees: "sees_groups E seen"
  shows "yields (\<lambda>_. group_recorded seen c ng) (waitAndPopulateNodeGroup A E c (c @ ''-ng-'' @ ng_Name ng) (to_upper (ng_Name ng)))"
proof -
  have "group_recorded seen c ng s'"
    if run: "waitAndPopulateNodeGroup A E c (c @ ''-ng-'' @ ng_Name ng) (to_upper (ng_Name ng)) s = Some (Inr (), s')" for s s'
  proof -
    from run obtain g t where "seen (rs_world t) (c, c @ ''-ng-'' @ ng_Name ng, g)"
      "populateNodeGroupState A g (to_upper (ng_Name ng)) t = Some (Inr (), s')"
      using sees unfolding waitAndPopulateNodeGroup_def
      by (auto simp: and_do_def sees_groups_def dest!: wait_value_Some split: option.splits sum.splits prod.splits if_splits) blast
    then show ?thesis by (rule populate_records [OF m])
  qed
  then show ?thesis by (auto simp: yields_def)
qed

lemma ensure_records:
  assumes m: "remembers A E seen" and sees: "sees_groups E seen"
  shows "yields (\<lambda>_. group_recorded seen c ng) (ensureNodeGroup A E cl c role sns lt glt ng)"
proof -
  have "group_recorded seen c ng s'"
    if run: "ensureNodeGroup A E cl c role sns lt glt ng s = Some (Inr (), s')" for s s'
  proof (cases "ek_group E c (c @ ''-ng-'' @ ng_Name ng) (rs_world s)")
    case (Inl e)
    then show ?thesis using run yieldsD [OF wait_records [OF m sees]]
      by (auto simp: ensureNodeGroup_def Let_def and_do_def query_def raise_def split: option.splits sum.splits prod.splits if_splits)
  next
    case (Inr g)
    show ?thesis
    proof (cases "gi_status g = ''ACTIVE''")
      case True
      have "seen (rs_world s) (c, c @ ''-ng-'' @ ng_Name ng, g)" using sees Inr True by (simp add: sees_groups_def)
      then show ?thesis
        by (rule populate_records [OF m]) (use run Inr True in \<open>simp add: ensureNodeGroup_def Let_def and_do_def query_def\<close>)
    next
      case False
      then show ?thesis using run Inr yieldsD [OF wait_records [OF m sees]]
        by (auto simp: ensureNodeGroup_def Let_def and_do_def query_def raise_def split: if_splits)
    qed
  qed
  then show ?thesis by (auto simp: yields_def)
qed

lemma try_records:
  assumes m: "remembers A E seen" and sees: "sees_groups E seen"
  shows "yields (\<lambda>x s'. x = AzSuccess \<longrightarrow> group_recorded seen c ng s') (try_zone A E cl c role pub specs glt ng cap az)"
proof -
  let ?n = "c @ ''-ng-'' @ ng_Name ng" and ?ng = "ng\<lparr>ng_CapacityType := cap\<rparr>"
  have pop: "group_recorded seen c ng s'"
    if "seen (rs_world s) (c, ?n, g)" "populateNodeGroupState A g (to_upper (ng_Name ng)) s = Some (Inr (), s')" for g s s'
    using populate_records [OF m that(1)] that(2) by simp
  define wait where "wait = and_do (wait_gpu A E c ?n) (\<lambda>r. case r of
      GroupReady g \<Rightarrow> and_do (populateNodeGroupState A g (to_upper (ng_Name ng))) (\<lambda>_. give AzSuccess)
    | GroupStarved msg \<Rightarrow> and_do (ignoring (deleteNodeGroupFast A E c ?n)) (\<lambda>_. give (AzExhaust msg)))"
  have poll: "seen w (c, ?n, g)" if "gpu_poll E c ?n l w = Inl (Inr (GroupReady g))" for l w g
    using that sees by (auto simp: gpu_poll_def sees_groups_def Let_def split: sum.splits if_splits prod.splits)
  have wait: "yields (\<lambda>x s'. x = AzSuccess \<longrightarrow> group_recorded seen c ng s') wait"
    unfolding yields_def wait_def
    by (auto simp: and_do_def give_def split: option.splits sum.splits prod.splits sweep_end.splits
        dest!: wait_gpu_Some) (use pop [OF poll, simplified] in blast)
  have same_name: "ng_Name ?ng = ng_Name ng" by simp
  have unfolded: "tryGPUNodeGroupInAZ A E cl c role sns glt ?ng = and_do (query (ek_group E c ?n)) (\<lambda>r. case r of
      Inr g \<Rightarrow>
        if gi_status g = ''ACTIVE'' then and_do (populateNodeGroupState A g (to_upper (ng_Name ng))) (\<lambda>_. give AzSuccess)
        else if group_pending (gi_status g) then wait
        else if group_failed (gi_status g) then raise (FailedStatus ?n (gi_status g))
        else raise (UnexpectedStatus ?n (gi_status g))
    | Inl e \<Rightarrow>
        if \<not> ek_not_found E e then raise (Sdk ''DescribeNodegroup'' e)
        else and_do (createGPUNodegroup E cl c role sns glt ?ng) (\<lambda>_. wait))" for sns
    unfolding tryGPUNodeGroupInAZ_def Let_def wait_def same_name ..
  have active: "group_recorded seen c ng s'"
    if "ek_group E c ?n (rs_world s) = Inr g" "gi_status g = ''ACTIVE''"
      "populateNodeGroupState A g (to_upper (ng_Name ng)) s = Some (Inr (), s')" for g s s'
    using pop [OF _ that(3)] that(1,2) sees by (simp add: sees_groups_def)
  have "group_recorded seen c ng s'"
    if run: "tryGPUNodeGroupInAZ A E cl c role sns glt ?ng s = Some (Inr AzSuccess, s')" for sns s s'
    using run active [of s, simplified] yieldsD [OF wait] unfolding unfolded
    by (auto simp: and_do_def query_def raise_def give_def split: option.splits sum.splits prod.splits if_splits)
  then show ?thesis
    unfolding yields_def try_zone_def Let_def by (auto simp: raise_def split: if_splits)
qed

lemma sweep_records:
  assumes "\<And>az. yields (\<lambda>x s'. x = AzSuccess \<longrightarrow> Q s') (try az)"
  shows "yields (\<lambda>r s'. r = [] \<and> (azs \<noteq> [] \<or> tried \<noteq> []) \<longrightarrow> Q s') (sweep_zones try azs tried)"
proof (induction azs arbitrary: tried)
  case (Cons az azs)
  have "Q s'" if run: "sweep_zones try (az # azs) tried s = Some (Inr [], s')" for s s'
  proof -
    from run obtain x t where t: "try az s = Some (Inr x, t)"
      "(case x of AzSuccess \<Rightarrow> give [] | AzExhaust msg \<Rightarrow> sweep_zones try azs (tried @ [(az, msg)])) t = Some (Inr [], s')"
      by (auto simp: and_do_def split: option.splits sum.splits prod.splits)
    show ?thesis
    proof (cases x)
      case AzSuccess
      with t yieldsD [OF assms t(1)] show ?thesis by (simp add: give_def)
    next
      case (AzExhaust msg)
      with t yieldsD [OF Cons.IH, of "tried @ [(az, msg)]" t "[]" s'] show ?thesis by simp
    qed
  qed
  then show ?case by (auto simp: yields_def)
qed (simp add: yields_def give_def)

lemma ensure_group_records:
  assumes m: "remembers A E seen" and sees: "sees_groups E seen"
  shows "yields (\<lambda>_. group_recorded seen c ng) (ensure_group A E env cl c role pub bnk lt glt ng)"
proof (cases "IsGPU ng")
  case True
  define cands where "cands = buildGPUCandidateAZs env ng cl"
  define once where "once = (\<lambda>cap. sweep_zones (try_zone A E cl c role pub (sns_Public (nw_Subnets (cl_Network cl))) glt ng cap) cands [])"
  have once: "group_recorded seen c ng s'" if "once cap s = Some (Inr [], s')" "cands \<noteq> []" for cap s s'
    using yieldsD [OF sweep_records [OF try_records [OF m sees], of cands "[]"]] that by (simp add: once_def)
  have run: "ensure_group A E env cl c role pub bnk lt glt ng = (if cands = [] then raise (NoZones (ng_Name ng))
      else and_do (once (ng_CapacityType ng)) (\<lambda>tried.
         if tried = [] then give ()
         else if ng_CapacityType ng = ''spot'' \<and> ng_OnDemandFallback ng then
           and_do (once ''on-demand'') (\<lambda>triedOD.
           if triedOD = [] then give () else raise (NoCapacity (ng_Name ng) (tried @ triedOD)))
         else raise (NoCapacity (ng_Name ng) tried)))"
    unfolding ensure_group_def ensureGPUNodeGroupWithAZSweep_def Let_def cands_def [symmetric] once_def using True by simp
  show ?thesis
    unfolding run yields_def
    by (auto simp: and_do_def give_def raise_def split: option.splits sum.splits prod.splits if_splits dest: once)
next
  case False
  then show ?thesis using ensure_records [OF m sees] by (simp add: ensure_group_def)
qed

text \<open>The steps touch no other key and forget nothing.\<close>

lemma keeps_delete:
  assumes "remembers A E seen" shows "keeps (remembering seen ks) (ignoring (deleteNodeGroupFast A E c n))"
  unfolding deleteNodeGroupFast_def waitNodeGroupDeleted_def
  by (auto intro!: keeps_rules keeps_call keeps_waits assms remembers_calls [OF assms] split: option.splits)

lemma keeps_ensure:
  assumes m: "remembers A E seen"
  shows "keeps (remembering seen (group_keys ng)) (ensureNodeGroup A E cl c role sns lt glt ng)"
  unfolding ensureNodeGroup_def waitAndPopulateNodeGroup_def Let_def
  by (auto intro!: keeps_rules keeps_run_sdk keeps_waits [OF m] keeps_populate [OF m] remembers_calls [OF m] split: sum.splits)

lemma keeps_try:
  assumes m: "remembers A E seen"
  shows "keeps (remembering seen (group_keys ng)) (try_zone A E cl c role pub specs glt ng cap az)"
  unfolding try_zone_def tryGPUNodeGroupInAZ_def createGPUNodegroup_def Let_def
  by (auto intro!: keeps_rules keeps_run_sdk keeps_waits [OF m] keeps_populate [OF m order_refl, of ng] keeps_delete [OF m]
      remembers_calls [OF m] split: sum.splits sweep_end.splits)

lemma keeps_sweep:
  assumes "preorder R" and "\<And>az. keeps R (try az)" shows "keeps R (sweep_zones try azs tried)"
  by (induction azs arbitrary: tried) (auto intro!: keeps_rules assms split: az_result.splits)

lemma keeps_ensure_group:
  assumes m: "remembers A E seen"
  shows "keeps (remembering seen (group_keys ng)) (ensure_group A E env cl c role pub bnk lt glt ng)"
  unfolding ensure_group_def ensureGPUNodeGroupWithAZSweep_def Let_def
  by (auto intro!: keeps_rules keeps_ensure [OF m] keeps_sweep keeps_try [OF m])


subsection \<open>Keys of the state\<close>

lemma lower_upper_char:
  assumes "name_or_dash c" shows "lower_char (upper_char c) = c"
proof (cases "is_lower c")
  case True
  define n :: nat where "n = of_char c"
  have n: "97 \<le> n" "n \<le> 122" "c = char_of n" 
    using True by (simp_all add: is_lower_def less_eq_char_def n_def)
  have m: "of_char (char_of (n - 32) :: char) = n - 32" using n by (simp add: of_char_of)
  have "is_upper (char_of (n - 32))"
    using n(1,2) by (simp add: is_upper_def less_eq_char_def m) linarith
  then show ?thesis using True m n by (simp add: upper_char_def lower_char_def n_def [symmetric])
next
  case False
  with assms have "\<not> is_upper c" 
    by (auto simp: name_or_dash_def name_char_def is_digit_def is_upper_def less_eq_char_def)
  with False show ?thesis by (simp add: upper_char_def lower_char_def)
qed

lemma to_upper_inj: "group_name a \<Longrightarrow> group_name b \<Longrightarrow> to_upper a = to_upper b \<Longrightarrow> a = b"
proof -
  have "map lower_char (to_upper n) = n" if "group_name n" for n
    using that lower_upper_char by (auto simp: to_upper_def group_name_def list_all_iff intro: map_idI)
  then show "group_name a \<Longrightarrow> group_name b \<Longrightarrow> to_upper a = to_upper b \<Longrightarrow> a = b" by metis
qed

lemma group_keys_disjoint:
  assumes "to_upper (ng_Name a) \<noteq> to_upper (ng_Name b)"
  shows "group_keys a \<inter> group_keys b = {}"
proof -
  have "x @ ''_NAME'' \<noteq> y @ ''_ARN''" for x y :: string
  proof
    assume "x @ ''_NAME'' = y @ ''_ARN''"
    then have "List.last (x @ ''_NAME'') = List.last (y @ ''_ARN'')" by simp
    then show False by simp
  qed
  then show ?thesis using assms by (auto simp: group_keys_def simp del: append_Cons)
qed

lemma groups_recorded:
  assumes "remembers A E seen" and "sees_groups E seen"
    and "distinct (map (\<lambda>ng. to_upper (ng_Name ng)) ngs)"
    and "for_each (ensure_group A E env cl c role pub bnk lt glt) ngs s = Some (Inr (), s')"
  shows "list_all (\<lambda>ng. group_recorded seen c ng s') ngs"
  using assms(3,4)
proof (induction ngs arbitrary: s)
  case (Cons ng ngs)
  from Cons.prems(2) obtain t where t: "ensure_group A E env cl c role pub bnk lt glt ng s = Some (Inr (), t)"
    "for_each (ensure_group A E env cl c role pub bnk lt glt) ngs t = Some (Inr (), s')"
    by (auto simp: and_do_def split: option.splits sum.splits prod.splits)
  have "keeps (remembering seen (\<Union> (group_keys ` set ngs))) (for_each (ensure_group A E env cl c role pub bnk lt glt) ns)"
    if "set ns \<subseteq> set ngs" for ns
    using that
  proof (induction ns)
    case (Cons n ns)
    then have "group_keys n \<subseteq> \<Union> (group_keys ` set ngs)" by auto
    from keeps_mono [OF this keeps_ensure_group [OF assms(1)]] Cons show ?case by (auto intro!: keeps_and_do)
  qed (simp add: keeps_give)
  from keepsD' [OF this [OF order_refl] t(2)] have "remembering seen (\<Union> (group_keys ` set ngs)) t s'" .
  moreover have "group_keys ng \<inter> \<Union> (group_keys ` set ngs) = {}"
    using Cons.prems(1) group_keys_disjoint [of ng] by (simp add: image_iff Int_UN_distrib)
  ultimately have "group_recorded seen c ng s'"
    by (rule group_recorded_kept [OF yieldsD [OF ensure_group_records [OF assms(1,2)] t(1)]])
  moreover have "list_all (\<lambda>ng. group_recorded seen c ng s') ngs"
    using Cons.prems(1) by (intro Cons.IH [OF _ t(2)]) (simp only: list.map distinct.simps)
  ultimately show ?case by simp
qed simp


subsection \<open>The cluster\<close>

definition cluster_recorded :: "('w \<Rightarrow> string \<times> cluster_info \<Rightarrow> bool) \<Rightarrow> string \<Rightarrow> 'w run_state \<Rightarrow> bool" where
  "cluster_recorded seen n s \<longleftrightarrow> (\<exists>c. seen (rs_world s) (n, c) \<and>
     ci_name c = Some (Get (rs_st s) ''EKS_CLUSTER_NAME'') \<and> ci_arn c = Some (Get (rs_st s) ''EKS_CLUSTER_ARN'') \<and>
     ci_endpoint c = Some (Get (rs_st s) ''EKS_ENDPOINT''))"

definition sees_clusters :: "('w, 'e) eks \<Rightarrow> ('w \<Rightarrow> string \<times> cluster_info \<Rightarrow> bool) \<Rightarrow> bool" where
  "sees_clusters E seen \<longleftrightarrow> (\<forall>n w c. ek_cluster E n w = Inr c \<and> ci_status c = ''ACTIVE'' \<longrightarrow> seen w (n, c))"

lemma populate_cluster_records:
  assumes m: "remembers A E seen" and c: "seen (rs_world s) (n, c)"
    and run: "populateClusterState A c s = Some (Inr (), s')"
  shows "cluster_recorded seen n s'"
proof -
  obtain nm arn ep ca where f: "ci_name c = Some nm" "ci_arn c = Some arn" "ci_endpoint c = Some ep" "ci_ca c = Some ca"
    using run by (auto simp: populateClusterState_def and_do_def deref_def raise_def split: option.splits)
  have "\<exists>t. save_state A t = Some (Inr (), s') \<and> rs_world t = rs_world s \<and> Get (rs_st t) ''EKS_CLUSTER_NAME'' = nm \<and>
      Get (rs_st t) ''EKS_CLUSTER_ARN'' = arn \<and> Get (rs_st t) ''EKS_ENDPOINT'' = ep"
    using run f
    by (cases ca; cases "ci_security_group c"; cases "ci_version c"; cases "ci_service_cidr c")
      (auto simp: populateClusterState_def and_do_def deref_def give_def st_set_def Get_def Set_key_def)
  then obtain t where t: "save_state A t = Some (Inr (), s')" "rs_world t = rs_world s" "Get (rs_st t) ''EKS_CLUSTER_NAME'' = nm"
      "Get (rs_st t) ''EKS_CLUSTER_ARN'' = arn" "Get (rs_st t) ''EKS_ENDPOINT'' = ep" by blast
  have "remembering seen {} t s'" by (rule keepsD' [OF keeps_save [OF m] t(1)])
  then show ?thesis using t c f by (auto simp: cluster_recorded_def remembering_def)
qed

lemma wait_cluster_records:
  assumes m: "remembers A E seen" and sees: "sees_clusters E seen"
  shows "yields (\<lambda>_. cluster_recorded seen n) (waitAndPopulateCluster A E n)"
proof -
  have "cluster_recorded seen n s'" if run: "waitAndPopulateCluster A E n s = Some (Inr (), s')" for s s'
  proof -
    from run obtain c t where "seen (rs_world t) (n, c)" "populateClusterState A c t = Some (Inr (), s')"
      using sees unfolding waitAndPopulateCluster_def
      by (auto simp: and_do_def sees_clusters_def dest!: wait_value_Some split: option.splits sum.splits prod.splits if_splits) blast
    then show ?thesis by (rule populate_cluster_records [OF m])
  qed
  then show ?thesis by (auto simp: yields_def)
qed

subsection \<open>Claims\<close>

text \<open>
  C12 The zones phase 10 tries for a GPU group are those the validation of the intent allows: its own
  reading of \<open>AWSBNKCTL_GPU_AZ_DENY\<close> agrees with \<open>parseGPUAZDenyEnv\<close>, whatever the variable holds. In a
  valid intent no zone the operator lists is dropped.
\<close>
theorem gpu_candidates_agree:
  "buildGPUCandidateAZs env ng cl =
     filter (\<lambda>az. az \<notin> set (denyTable env (md_Region (cl_Metadata cl))))
       (if ng_AZs ng = [] then nw_AZs (cl_Network cl) else ng_AZs ng) \<and>
   (valid_intent env cl \<and> ng \<in> set (nodeGroups cl) \<and> IsGPU ng \<and> ng_AZs ng \<noteq> [] \<longrightarrow>
     buildGPUCandidateAZs env ng cl = ng_AZs ng)"
proof -
  have entry: "denied_by_entry r e = (case deny_entry e of None \<Rightarrow> [] | Some x \<Rightarrow> if fst x = r then snd x else [])" for r e
    by (auto simp: denied_by_entry_def deny_entry_def split: option.splits)
  have "concat (map (denied_by_entry r) es) = concat (map snd (filter (\<lambda>e. fst e = r) (List.map_filter deny_entry es)))" for r es
    by (induction es) (auto simp: entry List.map_filter_def split: option.splits)
  then have eq: "buildGPUCandidateAZs env ng cl =
     filter (\<lambda>az. az \<notin> set (denyTable env (md_Region (cl_Metadata cl))))
       (if ng_AZs ng = [] then nw_AZs (cl_Network cl) else ng_AZs ng)"
    by (simp add: buildGPUCandidateAZs_def denyTable_def parseGPUAZDenyEnv_def gpuInstanceAZDeny_def Let_def)
  moreover have "set (ng_AZs ng) \<inter> set (denyTable env (md_Region (cl_Metadata cl))) = {}"
    if "valid_intent env cl" "ng \<in> set (nodeGroups cl)" "IsGPU ng"
    using that by (auto simp: valid_intent_def group_ok_def)
  ultimately show ?thesis by (auto simp: filter_id_conv)
qed

text \<open>
  A GPU group is given up for lack of capacity only after every candidate zone was tried, in order,
  and, for a spot group with the fallback, every zone again on demand; the report lists each attempt.
\<close>
theorem gpu_sweep_exhaustive:
  assumes "ensureGPUNodeGroupWithAZSweep A E cl c role pub specs glt ng azs s = Some (Inl (NoCapacity n tried), s')"
  shows "n = ng_Name ng \<and> tried \<noteq> [] \<and>
    map fst tried = (if ng_CapacityType ng = ''spot'' \<and> ng_OnDemandFallback ng then azs @ azs else azs)"
proof -
  define once where "once = (\<lambda>cap. sweep_zones (try_zone A E cl c role pub specs glt ng cap) azs [])"
  have err: "once cap s1 = Some (Inl e, s2) \<Longrightarrow> not_exhausted e" for cap s1 e s2
  proof -
    have "fails not_exhausted (once cap)" unfolding once_def by (rule sweep_zones_error, rule fails_try_zone)
    then show "once cap s1 = Some (Inl e, s2) \<Longrightarrow> not_exhausted e" unfolding fails_def by blast
  qed
  have tried: "once cap s1 = Some (Inr r, s2) \<Longrightarrow> r \<noteq> [] \<Longrightarrow> map fst r = azs" for cap s1 r s2
    using sweep_zones_tried [of _ azs "[]" s1 r s2] by (auto simp: once_def)
  from assms show ?thesis
    unfolding ensureGPUNodeGroupWithAZSweep_def Let_def once_def [symmetric]
    by (auto simp: and_do_def give_def raise_def not_exhausted_def split: option.splits sum.splits prod.splits if_splits
        dest!: err tried)
qed

text \<open>
  C11 When phase 10 succeeds, every node group of the intent was seen active, under the name and ARN the
  state then holds. Observations are tracked by any history \<open>seen\<close> that contains every active answer
  and that no call forgets. No two groups share a name.
\<close>
theorem node_groups_active:
  assumes "remembers A E seen" and "sees_groups E seen" and "cl_ClusterSpec (rs_cl s) = Some spec"
    and "distinct (map ng_Name (cs_NodeGroups spec))" and "list_all (\<lambda>ng. group_name (ng_Name ng)) (cs_NodeGroups spec)"
    and "Phase10NodeGroup A E env False s = Some (Inr (), s')"
  shows "list_all (\<lambda>ng. group_recorded seen (Get (rs_st s) ''EKS_CLUSTER_NAME'') ng s') (cs_NodeGroups spec)"
proof -
  let ?c = "Get (rs_st s) ''EKS_CLUSTER_NAME''"
  from assms(3,6) obtain role pub bnk lt glt t t' where t:
    "for_each (ensure_group A E env (rs_cl s) ?c role pub bnk lt glt) (cs_NodeGroups spec) t = Some (Inr (), t')"
    "save_state A t' = Some (Inr (), s')"
    unfolding Phase10NodeGroup_def Let_def
    by (auto simp: and_do_def intent_def st_get_def raise_def split: option.splits sum.splits prod.splits if_splits)
  have "inj_on to_upper (set (map ng_Name (cs_NodeGroups spec)))"
    using assms(5) by (auto intro!: inj_onI to_upper_inj simp: list_all_iff)
  then have "distinct (map (\<lambda>ng. to_upper (ng_Name ng)) (cs_NodeGroups spec))"
    using assms(4) by (simp add: distinct_map comp_inj_on flip: map_map [unfolded comp_def])
  from groups_recorded [OF assms(1,2) this t(1)] show ?thesis
    using group_recorded_kept [OF _ keepsD' [OF keeps_save [OF assms(1), of "{}"] t(2)]] by (auto simp: list_all_iff)
qed

text \<open>
  When phase 08 succeeds the cluster of the intent was seen active, and the state holds its name, ARN
  and endpoint.
\<close>
theorem cluster_active:
  assumes "remembers A E seen" and "sees_clusters E seen" and "Phase08EKSCluster A E False s = Some (Inr (), s')"
  shows "cluster_recorded seen (md_Name (cl_Metadata (rs_cl s))) s'"
proof -
  let ?n = "md_Name (cl_Metadata (rs_cl s))"
  note waited = yieldsD [OF wait_cluster_records [OF assms(1,2), of ?n]]
  from assms(3) consider (adopted) c where "ek_cluster E ?n (rs_world s) = Inr c" "ci_status c = ''ACTIVE''"
      "populateClusterState A c s = Some (Inr (), s')"
    | (waited) t where "waitAndPopulateCluster A E ?n t = Some (Inr (), s')"
    unfolding Phase08EKSCluster_def Let_def
    by (auto simp: and_do_def intent_def st_get_def query_def raise_def split: option.splits sum.splits prod.splits if_splits)
  then show ?thesis
  proof cases
    case adopted
    have "seen (rs_world s) (?n, c)" using adopted(1,2) assms(2) by (simp add: sees_clusters_def)
    then show ?thesis by (rule populate_cluster_records [OF assms(1) _ adopted(3)])
  qed (use waited in blast)
qed

text \<open>
  The sizes of a node-group request are the operator's, not wrapped, unless one is below the range of
  32 bits; larger ones are rejected before any request. The root volume of a launch template is the
  largest size of its groups when all are in range.
\<close>
theorem node_sizes:
  assumes "\<not> too_large ng" and "list_all (\<lambda>i. - (2 ^ 31) \<le> i) [ng_DesiredSize ng, ng_MinSize ng, ng_MaxSize ng]"
    and "list_all (\<lambda>g. P g \<longrightarrow> - (2 ^ 31) \<le> ng_DiskSize g \<and> ng_DiskSize g < 2 ^ 31) ngs"
  shows "let q = group_request cl c role sns ami tmpl ng labels
    in sint (gq_desired q) = ng_DesiredSize ng \<and> sint (gq_min q) = ng_MinSize ng \<and> sint (gq_max q) = ng_MaxSize ng \<and>
       sint (max_disk P ngs) = Max (insert 0 (ng_DiskSize ` set (filter P ngs)))"
proof -
  have int32: "sint (int32 i) = i" if "- (2 ^ 31) \<le> i" "i < 2 ^ 31" for i
    using that by (simp add: int32_def sint_sbintrunc' signed_take_bit_int_eq_self)
  have "sint (fold (\<lambda>ng m. if P ng \<and> sint m < sint (int32 (ng_DiskSize ng)) then int32 (ng_DiskSize ng) else m) ngs m) =
      Max (insert (sint m) (ng_DiskSize ` {g \<in> set ngs. P g}))" for m
    using assms(3)
  proof (induction ngs arbitrary: m)
    case (Cons g ngs)
    have larger: "finite S \<Longrightarrow> Max (insert x (insert y S)) = Max (insert (if x < y then y else x) S)" for x y :: int and S
      by (cases "S = {}") (auto simp: max_def)
    define m' where "m' = (if P g \<and> sint m < sint (int32 (ng_DiskSize g)) then int32 (ng_DiskSize g) else m)"
    have "sint m' = (if P g \<and> sint m < ng_DiskSize g then ng_DiskSize g else sint m)"
      using Cons.prems int32 [of "ng_DiskSize g"] by (cases "P g") (simp_all add: m'_def)
    moreover have "{x \<in> set (g # ngs). P x} = (if P g then insert g {x \<in> set ngs. P x} else {x \<in> set ngs. P x})" by auto
    ultimately show ?case
      using Cons.IH [of m'] Cons.prems larger [of "ng_DiskSize ` {x \<in> set ngs. P x}" "sint m" "ng_DiskSize g"]
      by (cases "P g") (simp_all add: m'_def)
  qed simp
  from this [of 0] show ?thesis
    using assms(1,2) int32 by (auto simp: Let_def group_request_def too_large_def max_disk_def)
qed

text \<open>
  C16 Every phase of the network and of EKS, every teardown of one and the refilling of the state
  return: when a sleep lets the clock advance and deleting a volume does not turn it back, none of
  their waits runs for ever.
\<close>
theorem aws_phases_return:
  assumes "eks_clock A E"
    and "m \<in> set (network_up A dryRun @ network_down A @ [HydrateMissingStateFromAWS ec2 K] @
      [Phase08EKSCluster A E dryRun, Phase10NodeGroup A E env dryRun, Phase10NodeGroupDown A E, Phase08EKSClusterDown A E])"
  shows "\<exists>r s'. m s = Some (r, s')"
proof -
  have clock: "ec2_clock A" using assms(1) by (simp add: eks_clock_def)
  consider "m \<in> set (network_up A dryRun @ network_down A @ [HydrateMissingStateFromAWS ec2 K])"
    | "m \<in> {Phase08EKSCluster A E dryRun, Phase10NodeGroup A E env dryRun, Phase10NodeGroupDown A E, Phase08EKSClusterDown A E}"
    using assms(2) by auto
  then show ?thesis
  proof cases
    case 1
    then show ?thesis using network_phases_return [OF clock] by blast
  next
    case 2
    then have "returns m"
      using returns_Phase08 [OF clock] returns_Phase08Down [OF clock] returns_Phase10 [OF clock] returns_Phase10Down [OF assms(1)]
      by auto
    then show ?thesis by (auto simp: returns_def)
  qed
qed

subsection \<open>Samples\<close>

text \<open>
  A control plane whose cluster is active and whose node groups all have one status; their
  auto-scaling group reports no capacity and has no instance. Deleting a group finds nothing.
\<close>

definition sample_eks :: "string \<Rightarrow> (int, string) eks" where
  "sample_eks status = \<lparr>ek_not_found = \<lambda>e. e = ''ResourceNotFoundException'', ek_in_use = \<lambda>_. False,
     ek_cluster = \<lambda>n _. Inr \<lparr>ci_status = ''ACTIVE'', ci_name = Some n, ci_arn = Some (''arn:'' @ n),
       ci_endpoint = Some ''https://eks'', ci_ca = Some (Some ''ca''), ci_issuer = None, ci_security_group = None,
       ci_version = None, ci_service_cidr = None\<rparr>,
     ek_create_cluster = \<lambda>_ w. (None, w), ek_delete_cluster = \<lambda>_ w. (None, w),
     ek_group = \<lambda>_ n _. Inr \<lparr>gi_status = status, gi_name = Some n, gi_arn = Some (''arn:'' @ n), gi_asgs = [Some ''asg-1'']\<rparr>,
     ek_create_group = \<lambda>_ w. (None, w), ek_delete_group = \<lambda>_ _ w. (Some ''ResourceNotFoundException'', w),
     ek_templates = \<lambda>_ _. Inr [Some ''lt-1''], ek_create_template = \<lambda>_ w. (Inr (Some ''lt-1''), w),
     ek_delete_template = \<lambda>_ w. (None, w), ek_autoscaling = True,
     ek_activities = \<lambda>_ _. Inr [\<lparr>sa_failed = True, sa_message = Some ''Could not launch Spot Instances''\<rparr>],
     ek_instances = \<lambda>_ _. Inr [[]], ek_volumes = \<lambda>_ _. Inr [], ek_delete_volume = \<lambda>_ w. (None, w)\<rparr>"

text \<open>The sample intent with its subnets in one zone, and the state phase 10 starts from.\<close>

definition zoned_intent :: Cluster where
  "zoned_intent = sample_intent\<lparr>cl_Network := (cl_Network sample_intent)\<lparr>
     nw_Subnets := \<lparr>sns_Public = [\<lparr>sn_CIDR = ''10.0.1.0/24'', sn_AZ = ''ap-southeast-2a''\<rparr>], sns_Private = []\<rparr>,
     nw_DataPath := None\<rparr>\<rparr>"

definition zoned_state :: "int run_state" where
  "zoned_state = \<lparr>rs_cl = zoned_intent,
     rs_st = \<lparr>st_dir = [], st_data = [''EKS_CLUSTER_NAME'' \<mapsto> ''syd'', ''EKS_NODE_ROLE_ARN'' \<mapsto> ''role'', ''EKS_CLUSTER_ROLE_ARN'' \<mapsto> ''role'',
       ''PUBLIC_SUBNETS'' \<mapsto> ''subnet-1''], st_readOnly = False\<rparr>, rs_world = 0\<rparr>"

definition fallback_gpu :: NodeGroupSpec where
  "fallback_gpu = sample_gpu\<lparr>ng_OnDemandFallback := True\<rparr>"

text \<open>Histories that are facts about what was answered.\<close>

definition active_group :: "int \<Rightarrow> string \<times> string \<times> group_info \<Rightarrow> bool" where
  "active_group w x \<longleftrightarrow> gi_status (snd (snd x)) = ''ACTIVE''"

definition active_cluster :: "int \<Rightarrow> string \<times> cluster_info \<Rightarrow> bool" where
  "active_cluster w x \<longleftrightarrow> ci_status (snd x) = ''ACTIVE''"

lemma active_remembered: "remembers A E active_group" "remembers A E active_cluster"
  "sees_groups E active_group" "sees_clusters E active_cluster"
  by (simp_all add: remembers_def active_group_def active_cluster_def sees_groups_def sees_clusters_def)

theorem gpu_candidates_agree_witness:
  "\<exists>ng \<in> set (nodeGroups (applyDefaults sample_intent)). IsGPU ng \<and>
     buildGPUCandidateAZs no_env ng (applyDefaults sample_intent) = [''ap-southeast-2a'']"
proof -
  let ?ng = "nodeGroups (applyDefaults sample_intent) ! 1"
  have mem: "?ng \<in> set (nodeGroups (applyDefaults sample_intent))" by (rule nth_mem) code_simp
  have gpu: "IsGPU ?ng" by code_simp
  have azs: "ng_AZs ?ng = [''ap-southeast-2a'']" by code_simp
  show ?thesis
    using gpu_candidates_agree [of no_env ?ng "applyDefaults sample_intent"] sample_intent_valid mem gpu azs by auto
qed

lemma sample_starved:
  "wait_gpu empty_account (sample_eks ''CREATING'') c n s = Some (Inr (GroupStarved ''Could not launch Spot Instances''), s)"
proof -
  have msg: "capacity_message [\<lparr>sa_failed = True, sa_message = Some ''Could not launch Spot Instances''\<rparr>] =
      ''Could not launch Spot Instances''"
    by code_simp
  show ?thesis
    unfolding wait_gpu_def
    by (subst poll_remembering.simps)
      (simp add: gpu_poll_def group_failed_def group_pending_def checkASGCapacityError_def msg
        sample_eks_def empty_account_def Minute_def Second_def Let_def del: capacity_message.simps)
qed

theorem gpu_sweep_exhaustive_witness:
  "\<exists>tried s'. ensureGPUNodeGroupWithAZSweep empty_account (sample_eks ''CREATING'') zoned_intent ''syd'' ''role''
       [''subnet-1''] (sns_Public (nw_Subnets (cl_Network zoned_intent))) ''lt-2'' fallback_gpu [''ap-southeast-2a''] zoned_state =
     Some (Inl (NoCapacity ''gpu'' tried), s') \<and> map fst tried = [''ap-southeast-2a'', ''ap-southeast-2a'']"
proof -
  have "\<exists>tried s'. ensureGPUNodeGroupWithAZSweep empty_account (sample_eks ''CREATING'') zoned_intent ''syd'' ''role''
       [''subnet-1''] (sns_Public (nw_Subnets (cl_Network zoned_intent))) ''lt-2'' fallback_gpu [''ap-southeast-2a''] zoned_state =
     Some (Inl (NoCapacity ''gpu'' tried), s')"
    using sample_starved [unfolded sample_eks_def empty_account_def]
    by (simp add: ensureGPUNodeGroupWithAZSweep_def try_zone_def filterSubnetsByAZ_def zoned_intent_def fallback_gpu_def
        sample_gpu_def tryGPUNodeGroupInAZ_def sample_eks_def empty_account_def
        Let_def and_do_def query_def call_def give_def raise_def group_pending_def deleteNodeGroupFast_def ignoring_def
        outcome_def)
  moreover have "ng_CapacityType fallback_gpu = ''spot''" "ng_OnDemandFallback fallback_gpu" "ng_Name fallback_gpu = ''gpu''"
    by (simp_all add: fallback_gpu_def sample_gpu_def)
  ultimately show ?thesis using gpu_sweep_exhaustive by (metis append_Cons append_Nil)
qed

lemma splitCSV_samples: "splitCSV ''subnet-1'' = [''subnet-1'']" "splitCSV [] = []"
  by code_simp+

lemmas sample_run_defs = and_do_def intent_def st_get_def st_set_def query_def call_def give_def raise_def deref_def
  Let_def Get_def Set_key_def zoned_state_def zoned_intent_def sample_intent_def sample_eks_def empty_account_def
  splitCSV_samples save_state_def

lemma zoned_gpu_candidates: "buildGPUCandidateAZs no_env sample_gpu zoned_intent = [''ap-southeast-2a'']"
  by (simp add: buildGPUCandidateAZs_def zoned_intent_def sample_intent_def sample_gpu_def no_env_def)

theorem node_groups_active_witness:
  "\<exists>s'. Phase10NodeGroup empty_account (sample_eks ''ACTIVE'') no_env False zoned_state = Some (Inr (), s') \<and>
     list_all (\<lambda>ng. group_recorded active_group ''syd'' ng s') [sample_group, sample_gpu]"
proof -
  have spec: "\<exists>spec. cl_ClusterSpec (rs_cl zoned_state) = Some spec \<and> cs_NodeGroups spec = [sample_group, sample_gpu]"
    by (simp add: zoned_state_def zoned_intent_def sample_intent_def)
  then obtain spec where spec: "cl_ClusterSpec (rs_cl zoned_state) = Some spec" "cs_NodeGroups spec = [sample_group, sample_gpu]"
    by blast
  have "map_option fst (Phase10NodeGroup empty_account (sample_eks ''ACTIVE'') no_env False zoned_state) = Some (Inr ())"
    using zoned_gpu_candidates
    by (simp add: Phase10NodeGroup_def bnk_subnets_def ensureLaunchTemplate_def ensureGPULaunchTemplate_def ensure_group_def
        ensureNodeGroup_def ensureGPUNodeGroupWithAZSweep_def try_zone_def tryGPUNodeGroupInAZ_def filterSubnetsByAZ_def
        populateNodeGroupState_def HasGPUNodeGroup_def IsGPU_def sample_group_def sample_gpu_def sample_run_defs)
  then obtain s' where run: "Phase10NodeGroup empty_account (sample_eks ''ACTIVE'') no_env False zoned_state = Some (Inr (), s')"
    by auto
  have names: "distinct (map ng_Name (cs_NodeGroups spec))" "list_all (\<lambda>ng. group_name (ng_Name ng)) (cs_NodeGroups spec)"
    unfolding spec(2) by code_simp+
  have "Get (rs_st zoned_state) ''EKS_CLUSTER_NAME'' = ''syd''" by (simp add: zoned_state_def Get_def)
  with node_groups_active [OF active_remembered(1,3) spec(1) names run] spec(2) run show ?thesis by simp
qed

theorem cluster_active_witness:
  "\<exists>s'. Phase08EKSCluster empty_account (sample_eks ''ACTIVE'') False zoned_state = Some (Inr (), s') \<and>
     cluster_recorded active_cluster ''syd-tracer'' s'"
proof -
  have "map_option fst (Phase08EKSCluster empty_account (sample_eks ''ACTIVE'') False zoned_state) = Some (Inr ())"
    by (simp add: Phase08EKSCluster_def populateClusterState_def sample_run_defs)
  then obtain s' where run: "Phase08EKSCluster empty_account (sample_eks ''ACTIVE'') False zoned_state = Some (Inr (), s')"
    by auto
  have "md_Name (cl_Metadata (rs_cl zoned_state)) = ''syd-tracer''"
    by (simp add: zoned_state_def zoned_intent_def sample_intent_def)
  with cluster_active [OF active_remembered(2,4) run] run show ?thesis by auto
qed

theorem node_sizes_witness:
  "sint (gq_desired (group_request zoned_intent ''syd'' ''role'' [] Al2023Nvidia ''lt-2'' (sample_gpu\<lparr>ng_DesiredSize := 3\<rparr>) Map.empty)) = 3 \<and>
   sint (max_disk IsGPU [sample_gpu\<lparr>ng_DiskSize := 100\<rparr>, sample_gpu\<lparr>ng_DiskSize := 200\<rparr>, sample_group]) = 200"
proof -
  have "\<not> too_large (sample_gpu\<lparr>ng_DesiredSize := 3\<rparr>)"
    "list_all (\<lambda>i. - (2 ^ 31) \<le> i) [ng_DesiredSize (sample_gpu\<lparr>ng_DesiredSize := 3\<rparr>), ng_MinSize (sample_gpu\<lparr>ng_DesiredSize := 3\<rparr>),
      ng_MaxSize (sample_gpu\<lparr>ng_DesiredSize := 3\<rparr>)]"
    "list_all (\<lambda>g. IsGPU g \<longrightarrow> - (2 ^ 31) \<le> ng_DiskSize g \<and> ng_DiskSize g < 2 ^ 31)
      [sample_gpu\<lparr>ng_DiskSize := 100\<rparr>, sample_gpu\<lparr>ng_DiskSize := 200\<rparr>, sample_group]"
    by (simp_all add: too_large_def sample_gpu_def sample_group_def IsGPU_def)
  note sizes = node_sizes [OF this, of zoned_intent "''syd''" "''role''" "[]" Al2023Nvidia "''lt-2''" Map.empty, unfolded Let_def]
  have "filter IsGPU [sample_gpu\<lparr>ng_DiskSize := 100\<rparr>, sample_gpu\<lparr>ng_DiskSize := 200\<rparr>, sample_group] =
      [sample_gpu\<lparr>ng_DiskSize := 100\<rparr>, sample_gpu\<lparr>ng_DiskSize := 200\<rparr>]"
    by (simp add: IsGPU_def sample_gpu_def sample_group_def)
  then have "Max (insert 0 (ng_DiskSize ` set (filter IsGPU [sample_gpu\<lparr>ng_DiskSize := 100\<rparr>, sample_gpu\<lparr>ng_DiskSize := 200\<rparr>, sample_group]))) = 200"
    by (simp only:) simp
  with sizes show ?thesis by (simp del: set_filter filter.simps)
qed

theorem aws_phases_return_witness:
  "eks_clock empty_account (sample_eks ''DELETING'') \<and>
   (\<forall>s. \<exists>r s'. Phase10NodeGroupDown empty_account (sample_eks ''DELETING'') s = Some (r, s'))"
proof -
  have clock: "eks_clock empty_account (sample_eks ''DELETING'')"
    using empty_account_clock by (simp add: eks_clock_def sample_eks_def)
  show ?thesis
    using aws_phases_return [OF clock, of "Phase10NodeGroupDown empty_account (sample_eks ''DELETING'')" False] clock by simp
qed

end
