(* ===== verification/Heal.thy ===== *)
theory Heal
  imports PhaseNet GoAny K8sWait
begin

text \<open>
  The repairs of \<open>bnk heal\<close> (\<open>internal/aws/phases/heal.go\<close>) and the healing phases 24, 24b and 24c
  of \<open>up\<close>. A repair detects with a read and fixes with a computation on the state and the cluster.
  The API server is a record of the calls made; where a patch changes one field, the call is given
  that field. A detail is a constructor with the arguments of its text.
\<close>

subsection \<open>Objects\<close>

record container_status =
  cs_name :: string
  cs_ready :: bool
  cs_restarts :: int
  cs_waiting :: "string option"

record pod =
  po_name :: string
  po_terminating :: bool
  po_conditions :: "(string \<times> string) list"
  po_statuses :: "container_status list"
  po_envs :: "string list list"

record heal_container =
  hc_name :: string
  hc_mounts :: "string list"

record deployment =
  de_containers :: "heal_container list"
  de_selector :: "string option"
  de_service_account :: string

record role_rule =
  rr_resources :: "string list"
  rr_verbs :: "string list"

record binding =
  bi_subjects :: "(string \<times> string \<times> string) list"
  bi_role :: string

record cne_instance =
  cn_name :: string
  cn_env :: "any list"
  cn_manifest :: string
  cn_epp :: "string list"

record 'b profile =
  pf_namespace :: string
  pf_name :: string
  pf_secret :: string
  pf_body :: 'b

record ('w, 'e, 'b) kube =
  ku_not_found :: "'e \<Rightarrow> bool"
  ku_iter :: iteration
  ku_now :: "'w \<Rightarrow> int"
  ku_rfc3339 :: "int \<Rightarrow> string"
  ku_sleep :: "int \<Rightarrow> 'w \<Rightarrow> 'e option \<times> 'w"
  ku_poll :: "('w, 'e) poller"
  ku_save :: "state \<Rightarrow> 'w \<Rightarrow> 'e option \<times> 'w"
  ku_deployment :: "string \<Rightarrow> 'w \<Rightarrow> 'e + deployment"
  ku_update_deployment :: "string \<Rightarrow> deployment \<Rightarrow> 'w \<Rightarrow> 'e option \<times> 'w"
  ku_restart :: "string \<Rightarrow> string \<Rightarrow> 'w \<Rightarrow> 'e option \<times> 'w"
  ku_pods :: "string \<Rightarrow> string \<Rightarrow> 'w \<Rightarrow> 'e + pod list"
  ku_delete_pod :: "string \<Rightarrow> string \<Rightarrow> 'w \<Rightarrow> 'e option \<times> 'w"
  ku_delete_pods :: "string \<Rightarrow> string \<Rightarrow> 'w \<Rightarrow> 'e option \<times> 'w"
  ku_update_status :: "pod \<Rightarrow> 'w \<Rightarrow> 'e option \<times> 'w"
  ku_secret :: "string \<Rightarrow> string \<Rightarrow> 'w \<Rightarrow> 'e + (string \<rightharpoonup> string) option"
  ku_update_secret :: "string \<Rightarrow> (string \<rightharpoonup> string) \<Rightarrow> 'w \<Rightarrow> 'e option \<times> 'w"
  ku_copy_secret :: "string \<Rightarrow> string \<Rightarrow> (string \<rightharpoonup> string) option \<Rightarrow> 'w \<Rightarrow> 'e option \<times> 'w"
  ku_configmap :: "'w \<Rightarrow> 'e + (string \<rightharpoonup> string)"
  ku_update_configmap :: "(string \<rightharpoonup> string) \<Rightarrow> 'w \<Rightarrow> 'e option \<times> 'w"
  ku_role_arn :: "string \<Rightarrow> 'w \<Rightarrow> 'e + string"
  ku_bindings :: "'w \<Rightarrow> 'e + binding list"
  ku_role :: "string \<Rightarrow> 'w \<Rightarrow> 'e + role_rule list"
  ku_dynamic :: bool
  ku_cnes :: "'w \<Rightarrow> 'e + cne_instance list"
  ku_patch_env :: "string \<Rightarrow> any list \<Rightarrow> 'w \<Rightarrow> 'e option \<times> 'w"
  ku_patch_epp :: "string \<Rightarrow> string list \<Rightarrow> 'w \<Rightarrow> 'e option \<times> 'w"
  ku_log :: "string \<Rightarrow> 'w \<Rightarrow> 'e + string"
  ku_service_cidr :: "string \<Rightarrow> 'w \<Rightarrow> 'e + string option"
  ku_profiles :: "'w \<Rightarrow> 'e + 'b profile list"
  ku_profile :: "string \<Rightarrow> 'w \<Rightarrow> 'e option"
  ku_create_profile :: "'b profile \<Rightarrow> 'w \<Rightarrow> 'e option \<times> 'w"

datatype detail =
    NotInstalled string
  | NoPodManager
  | MountMissing
  | PodManagerWedged string int string
  | PodManagerReady
  | CwcReady int
  | CwcLooping string int
  | CwcStarting string int
  | CwcDeleted string
  | ProbesPatched nat
  | NoProbes
  | DssmReady
  | ProbesVerify nat
  | Patched "string list"
  | AlreadyPatched
  | OldController string
  | Granted string
  | NoGrant
  | NoAnnotation string
  | NotInjected string string
  | Annotated string string
  | RoutesSet string
  | RoutesUnneeded string
  | RoutesBroken string
  | RoutesMissing
  | NoPicker string
  | PickerNamespaces "string list"
  | NoPickerNamespaces
  | PickerSet
  | NoDynamicClient
  | Unmirrored "string list"
  | InSync
  | Mirrored "string list"
  | Applied
  | PodManagerFixed detail
  | NothingDone

datatype 'e heal_error =
    Kube string 'e
  | WaitFailed 'e
  | HealTimeout "detail option"
  | HealCut 'e
  | NoDynamic
  | NoServiceCIDR
  | External 'e

type_synonym ('w, 'e) healer = "('w, 'e heal_error, detail) phase"

(* src/internal/bnkconst/bnkconst.go:8-8 InstanceNamespace *)
definition InstanceNamespace :: string where
  "InstanceNamespace = ''f5-cne-system''"

definition OperatorNamespace :: string where
  "OperatorNamespace = ''f5-cne-core''"

(* src/internal/aws/phases/heal.go:76-81 healWait part *)
definition healWait :: int where
  "healWait = 3 * Minute"

definition healPoll :: int where
  "healPoll = 5 * Second"

definition kube_call :: "string \<Rightarrow> ('w \<Rightarrow> 'e option \<times> 'w) \<Rightarrow> ('w, 'e heal_error, unit) phase" where
  "kube_call what c = and_do (call c) (check_err (Kube what))"

definition kube_read :: "string \<Rightarrow> ('w \<Rightarrow> 'e + 'x) \<Rightarrow> ('w, 'e heal_error, 'x) phase" where
  "kube_read what q = and_do (query q) (check_result (Kube what))"

subsection \<open>Pods\<close>

text \<open>The \<open>Ready\<close> condition: the first of that type decides.\<close>

(* src/internal/aws/phases/phase24b_dssm_insecure_overlay.go:170-177 isPodReady *)
definition isPodReady :: "pod \<Rightarrow> bool" where
  "isPodReady p \<longleftrightarrow> map_of (po_conditions p) ''Ready'' = Some ''True''"

(* src/internal/aws/phases/phase24_cwc_heal.go:131-138 cwcStatus *)
definition cwcStatus :: "pod \<Rightarrow> bool \<times> int" where
  "cwcStatus p =
     (case find (\<lambda>c. cs_name c = ''f5-spk-cwc'') (po_statuses p) of
        Some c \<Rightarrow> (cs_ready c, cs_restarts c)
      | None \<Rightarrow> (False, 0))"

definition cwcRestartThreshold :: int where
  "cwcRestartThreshold = 3"

definition cwcLabelSelector :: string where
  "cwcLabelSelector = ''app=cwc''"

definition h4DeploymentName :: string where
  "h4DeploymentName = ''f5-cne-controller''"

definition h4ContainerName :: string where
  "h4ContainerName = ''f5-tmm-pod-manager''"

definition h4RestartThreshold :: int where
  "h4RestartThreshold = 2"

definition clt_mount :: string where
  "clt_mount = ''/tls/f5ingress/grpc/clt''"

text \<open>\<open>None\<close> when the container is not there; else ready, restarts and the waiting reason.\<close>

(* src/internal/aws/phases/phase24c_pod_manager_heal.go:341-352 podManagerStatus *)
definition podManagerStatus :: "pod \<Rightarrow> (bool \<times> int \<times> string) option" where
  "podManagerStatus p =
     map_option (\<lambda>c. (cs_ready c, cs_restarts c, case cs_waiting c of None \<Rightarrow> [] | Some r \<Rightarrow> r))
       (find (\<lambda>c. cs_name c = h4ContainerName) (po_statuses p))"

definition wedged :: "bool \<times> int \<times> string \<Rightarrow> bool" where
  "wedged s \<longleftrightarrow> (case s of (ready, restarts, reason) \<Rightarrow>
     \<not> ready \<and> (reason = ''CrashLoopBackOff'' \<or> h4RestartThreshold \<le> restarts))"

subsection \<open>Pod manager\<close>

text \<open>\<open>metav1.FormatLabelSelector\<close> of a nil selector is the text \<open><none>\<close>.\<close>

(* src/internal/aws/phases/heal.go:396-441 detectPodManager *)
definition detectPodManager :: "('w, 'e, 'b) kube \<Rightarrow> 'w \<Rightarrow> 'e heal_error + bool \<times> detail" where
  "detectPodManager K w =
     (case ku_deployment K h4DeploymentName w of
        Inl e \<Rightarrow> if ku_not_found K e then Inr (True, NotInstalled h4DeploymentName) else Inl (Kube ''get deployment'' e)
      | Inr d \<Rightarrow>
          let cs = filter (\<lambda>c. hc_name c = h4ContainerName) (de_containers d) in
          if cs = [] then Inr (True, NoPodManager)
          else if \<not> list_ex (\<lambda>c. clt_mount \<in> set (hc_mounts c)) cs then Inr (False, MountMissing)
          else (case ku_pods K InstanceNamespace (case de_selector d of None \<Rightarrow> ''<none>'' | Some s \<Rightarrow> s) w of
              Inl e \<Rightarrow> Inl (Kube ''list pods'' e)
            | Inr ps \<Rightarrow>
                (case find (\<lambda>p. \<not> po_terminating p \<and> (case podManagerStatus p of None \<Rightarrow> False | Some s \<Rightarrow> wedged s)) ps of
                   None \<Rightarrow> Inr (True, PodManagerReady)
                 | Some p \<Rightarrow>
                     (case the (podManagerStatus p) of (_, restarts, reason) \<Rightarrow>
                        Inr (False, PodManagerWedged (po_name p) restarts reason)))))"

definition lacks_key :: "string \<Rightarrow> string \<Rightarrow> (string \<rightharpoonup> string) \<Rightarrow> bool" where
  "lacks_key key src d \<longleftrightarrow> d key = None \<and> d src \<noteq> None"

definition sync_key :: "string \<Rightarrow> string \<Rightarrow> (string \<rightharpoonup> string) \<Rightarrow> (string \<rightharpoonup> string)" where
  "sync_key key src d = (if lacks_key key src d then d(key := d src) else d)"

text \<open>The first container of the name gets the mount unless it has it.\<close>

fun add_mount :: "heal_container list \<Rightarrow> heal_container list option" where
  "add_mount [] = None"
| "add_mount (c # cs) =
     (if hc_name c = h4ContainerName then
        (if clt_mount \<in> set (hc_mounts c) then None else Some (c\<lparr>hc_mounts := hc_mounts c @ [clt_mount]\<rparr> # cs))
      else map_option ((#) c) (add_mount cs))"

(* src/internal/aws/phases/phase24c_pod_manager_heal.go:356-414 ensurePodManagerGrpcCertMount *)
definition ensurePodManagerGrpcCertMount :: "('w, 'e, 'b) kube \<Rightarrow> ('w, 'e heal_error, unit) phase" where
  "ensurePodManagerGrpcCertMount K =
     and_do (query (ku_secret K InstanceNamespace ''tls-f5ingress-grpc-clt-secret'')) (\<lambda>r.
     and_do (case r of
         Inr (Some d) \<Rightarrow>
           let d1 = sync_key ''f5ingress-grpc-clt.pem'' ''tls.crt'' d;
               d2 = sync_key ''f5ingress-grpc-clt-key.pem'' ''tls.key'' d1
           in if lacks_key ''f5ingress-grpc-clt.pem'' ''tls.crt'' d \<or> lacks_key ''f5ingress-grpc-clt-key.pem'' ''tls.key'' d1
              then and_do (call (ku_update_secret K ''tls-f5ingress-grpc-clt-secret'' d2)) (\<lambda>_. give ())
              else give ()
       | _ \<Rightarrow> give ()) (\<lambda>_.
     and_do (query (ku_deployment K h4DeploymentName)) (\<lambda>r.
     case r of
       Inl _ \<Rightarrow> give ()
     | Inr d \<Rightarrow>
         (case add_mount (de_containers d) of
            None \<Rightarrow> give ()
          | Some cs \<Rightarrow>
              and_do (call (ku_update_deployment K h4DeploymentName (d\<lparr>de_containers := cs\<rparr>))) (\<lambda>_. give ())))))"

(* src/internal/aws/phases/deploy_helpers.go:101-109 restartDeployment *)
definition restartDeployment :: "('w, 'e, 'b) kube \<Rightarrow> string \<Rightarrow> ('w, 'e heal_error, unit) phase" where
  "restartDeployment K name =
     and_do (query (ku_now K)) (\<lambda>now. kube_call ''restart deploy'' (ku_restart K name (ku_rfc3339 K now)))"

(* src/internal/aws/phases/heal.go:450-471 fixPodManager *)
definition fixPodManager :: "('w, 'e, 'b) kube \<Rightarrow> ('w, 'e) healer" where
  "fixPodManager K =
     and_do (ensurePodManagerGrpcCertMount K) (\<lambda>_.
     and_do (restartDeployment K h4DeploymentName) (\<lambda>_.
     (\<lambda>s. map_option (\<lambda>(r, w). (case r of
            Finished d \<Rightarrow> Inr (PodManagerFixed d)
          | Errored f \<Rightarrow> Inl f
          | TimedOut l \<Rightarrow> Inl (HealTimeout l)
          | Interrupted_wait e _ \<Rightarrow> Inl (HealCut e), s\<lparr>rs_world := w\<rparr>))
        (poll_loop (ku_now K) (ku_sleep K) (\<lambda>_ w. case detectPodManager K w of
             Inr (healthy, d) \<Rightarrow> if healthy then Ready d else Again (Some d)
           | Inl _ \<Rightarrow> Again None)
          (ku_now K (rs_world s) + healWait) healPoll None (rs_world s)))))"

subsection \<open>CWC\<close>

(* src/internal/aws/phases/heal.go:475-489 cwcPod *)
definition cwcPod :: "('w, 'e, 'b) kube \<Rightarrow> 'w \<Rightarrow> 'e + pod option" where
  "cwcPod K w =
     (case ku_pods K OperatorNamespace cwcLabelSelector w of
        Inl e \<Rightarrow> Inl e
      | Inr ps \<Rightarrow> Inr (find (\<lambda>p. \<not> po_terminating p) ps))"

(* src/internal/aws/phases/heal.go:177-190 Repairs part *)
definition detectCwc :: "('w, 'e, 'b) kube \<Rightarrow> 'w \<Rightarrow> 'e heal_error + bool \<times> detail" where
  "detectCwc K w =
     (case cwcPod K w of
        Inl e \<Rightarrow> Inl (Kube ''list pods'' e)
      | Inr None \<Rightarrow> Inr (True, NotInstalled ''cwc pod'')
      | Inr (Some p) \<Rightarrow>
          (case cwcStatus p of (ready, restarts) \<Rightarrow>
             if ready then Inr (True, CwcReady restarts)
             else if cwcRestartThreshold \<le> restarts then Inr (False, CwcLooping (po_name p) restarts)
             else Inr (True, CwcStarting (po_name p) restarts)))"

definition pods_ready :: "('w, 'e, 'b) kube \<Rightarrow> string \<Rightarrow> string \<Rightarrow> 'w \<Rightarrow> bool" where
  "pods_ready K ns selector w =
     (case ku_pods K ns selector w of
        Inl _ \<Rightarrow> False
      | Inr ps \<Rightarrow> ps \<noteq> [] \<and> list_all (\<lambda>p. \<not> po_terminating p \<and> isPodReady p) ps)"

(* src/internal/aws/phases/heal.go:491-504 waitPodsReady *)
definition waitPodsReady :: "('w, 'e, 'b) kube \<Rightarrow> string \<Rightarrow> string \<Rightarrow> int \<Rightarrow> ('w, 'e heal_error, unit) phase" where
  "waitPodsReady K ns selector timeout =
     and_do (call (ku_poll K healPoll timeout (\<lambda>w. poll_when (pods_ready K ns selector w)))) (check_err WaitFailed)"

(* src/internal/aws/phases/heal.go:191-203 Repairs part *)
definition fixCwc :: "('w, 'e, 'b) kube \<Rightarrow> ('w, 'e) healer" where
  "fixCwc K =
     and_do (kube_read ''list pods'' (cwcPod K)) (\<lambda>p.
     case p of
       None \<Rightarrow> give NothingDone
     | Some p \<Rightarrow>
         and_do (kube_call ''delete cwc pod'' (ku_delete_pod K OperatorNamespace (po_name p))) (\<lambda>_.
         and_do (waitPodsReady K OperatorNamespace cwcLabelSelector healWait) (\<lambda>_. give (CwcDeleted (po_name p)))))"

text \<open>Phase 24. The pause between rounds may be cut, which ends the phase; so does the one after a deletion.\<close>

fun cwc_rounds :: "('w, 'e, 'b) kube \<Rightarrow> nat \<Rightarrow> 'w \<Rightarrow> 'w" where
  "cwc_rounds K 0 w = w"
| "cwc_rounds K (Suc left) w =
     (let again = (\<lambda>w. if left = 0 then w
            else case ku_sleep K (15 * Second) w of
                (Some _, w') \<Rightarrow> w'
              | (None, w') \<Rightarrow> cwc_rounds K left w')
      in case ku_pods K OperatorNamespace cwcLabelSelector w of
           Inl _ \<Rightarrow> again w
         | Inr [] \<Rightarrow> again w
         | Inr (p # _) \<Rightarrow>
             (case cwcStatus p of (ready, restarts) \<Rightarrow>
                if ready then w
                else if cwcRestartThreshold \<le> restarts then
                  (case ku_sleep K (20 * Second) (snd (ku_delete_pod K OperatorNamespace (po_name p) w)) of
                     (Some _, w') \<Rightarrow> w'
                   | (None, w') \<Rightarrow> again w')
                else again w))"

(* src/internal/aws/phases/phase24_cwc_heal.go:47-127 Phase24CWCHeal *)
definition Phase24CWCHeal :: "('w, 'e, 'b) kube \<Rightarrow> bool \<Rightarrow> ('w, 'e heal_error, unit) phase" where
  "Phase24CWCHeal K dryRun = (if dryRun then give () else call (\<lambda>w. ((), cwc_rounds K 12 w)))"

(* src/internal/aws/phases/phase24_cwc_heal.go:141-143 Phase24CWCHealDown *)
definition Phase24CWCHealDown :: "('w, 'f, unit) phase" where
  "Phase24CWCHealDown = give ()"

subsection \<open>dSSM\<close>

definition dssmLabelSelector :: string where
  "dssmLabelSelector = ''app in (f5-dssm-db,f5-dssm-sentinel)''"

definition dssmInsecureMarker :: string where
  "dssmInsecureMarker = ''--tls --insecure''"

definition dssmTLSReplace :: string where
  "dssmTLSReplace = '' --tls ''"

definition dssmTLSInsecureReplace :: string where
  "dssmTLSInsecureReplace = '' --tls --insecure ''"

text \<open>\<open>strings.ReplaceAll\<close> of a non-empty text: left to right, not overlapping.\<close>

function replace_all :: "string \<Rightarrow> string \<Rightarrow> string \<Rightarrow> string" where
  "replace_all old new s =
     (if s = [] \<or> old = [] then s
      else if has_prefix s old then new @ replace_all old new (drop (length old) s)
      else hd s # replace_all old new (tl s))"
  by pat_completeness auto
termination
  by (relation "measure (\<lambda>(_, _, s). length s)") auto

declare replace_all.simps [simp del]

text \<open>The keys still to patch, in the order of the map, and the number of patched ones.\<close>

(* src/internal/aws/phases/heal.go:510-522 dssmOverlayKeys *)
definition dssmOverlayKeys :: "iteration \<Rightarrow> (string \<rightharpoonup> string) \<Rightarrow> string list \<times> nat" where
  "dssmOverlayKeys iter data =
     (let ks = filter (\<lambda>k. contains (the (data k)) dssmTLSReplace) (iter data)
      in (filter (\<lambda>k. \<not> contains (the (data k)) dssmInsecureMarker) ks,
          length (filter (\<lambda>k. contains (the (data k)) dssmInsecureMarker) ks)))"

definition overlaid :: "string list \<Rightarrow> (string \<rightharpoonup> string) \<Rightarrow> (string \<rightharpoonup> string)" where
  "overlaid ks data = (\<lambda>k. if k \<in> set ks
     then map_option (replace_all dssmTLSReplace dssmTLSInsecureReplace) (data k) else data k)"

(* src/internal/aws/phases/phase24b_dssm_insecure_overlay.go:148-167 allDSSMPodsReady *)
definition allDSSMPodsReady :: "('w, 'e, 'b) kube \<Rightarrow> 'w \<Rightarrow> bool" where
  "allDSSMPodsReady K w =
     (case ku_pods K InstanceNamespace dssmLabelSelector w of
        Inl _ \<Rightarrow> False
      | Inr ps \<Rightarrow> ps \<noteq> [] \<and> list_all isPodReady ps)"

(* src/internal/aws/phases/heal.go:207-226 Repairs part *)
definition detectDssm :: "('w, 'e, 'b) kube \<Rightarrow> 'w \<Rightarrow> 'e heal_error + bool \<times> detail" where
  "detectDssm K w =
     (case ku_configmap K w of
        Inl e \<Rightarrow> if ku_not_found K e then Inr (True, NotInstalled ''f5-dssm'') else Inl (Kube ''get configmap'' e)
      | Inr cm \<Rightarrow>
          (case dssmOverlayKeys (ku_iter K) cm of (toPatch, patched) \<Rightarrow>
             if toPatch = [] then Inr (True, if 0 < patched then ProbesPatched patched else NoProbes)
             else if allDSSMPodsReady K w then Inr (True, DssmReady)
             else Inr (False, ProbesVerify (length toPatch))))"

text \<open>
  The wait for the map ends when a read finds it or fails otherwise than not-found; the map is the
  one its last read returned, read here in the world the wait ends in.
\<close>

definition wait_configmap :: "('w, 'e, 'b) kube \<Rightarrow> int \<Rightarrow> int \<Rightarrow> ('w, 'e heal_error, string \<rightharpoonup> string) phase" where
  "wait_configmap K poll timeout =
     and_do (call (ku_poll K poll timeout (\<lambda>w. case ku_configmap K w of
         Inl e \<Rightarrow> if ku_not_found K e then PollAgain else PollFail e
       | Inr _ \<Rightarrow> PollDone))) (\<lambda>r.
     and_do (check_err WaitFailed r) (\<lambda>_. kube_read ''get configmap'' (ku_configmap K)))"

(* src/internal/aws/phases/heal.go:527-558 applyDSSMOverlay *)
definition applyDSSMOverlay :: "('w, 'e, 'b) kube \<Rightarrow> ('w, 'e heal_error, string list) phase" where
  "applyDSSMOverlay K =
     and_do (wait_configmap K healPoll (30 * Second)) (\<lambda>cm.
     let toPatch = fst (dssmOverlayKeys (ku_iter K) cm) in
     if toPatch = [] then give []
     else
       and_do (kube_call ''update configmap'' (ku_update_configmap K (overlaid toPatch cm))) (\<lambda>_.
       and_do (call (ku_delete_pods K InstanceNamespace dssmLabelSelector)) (\<lambda>_. give toPatch)))"

text \<open>The applied-at mark, saved; an error of the save is dropped by every caller.\<close>

definition mark_overlay :: "('w, 'e, 'b) kube \<Rightarrow> ('w, 'f, unit) phase" where
  "mark_overlay K =
     and_do (query (ku_now K)) (\<lambda>now.
     and_do (st_set ''DSSM_INSECURE_OVERLAY_APPLIED_AT'' (ku_rfc3339 K now)) (\<lambda>_.
     (\<lambda>s. Some (Inr (), s\<lparr>rs_world := snd (ku_save K (rs_st s) (rs_world s))\<rparr>))))"

(* src/internal/aws/phases/heal.go:227-240 Repairs part *)
definition fixDssm :: "('w, 'e, 'b) kube \<Rightarrow> bool \<Rightarrow> ('w, 'e) healer" where
  "fixDssm K hasState =
     and_do (applyDSSMOverlay K) (\<lambda>patched.
     if patched = [] then give AlreadyPatched
     else and_do (if hasState then mark_overlay K else give ()) (\<lambda>_. give (Patched patched)))"

(* src/internal/aws/phases/phase24b_dssm_insecure_overlay.go:66-143 Phase24bDSSMInsecureOverlay *)
definition Phase24bDSSMInsecureOverlay :: "('w, 'e, 'b) kube \<Rightarrow> bool \<Rightarrow> ('w, 'e heal_error, unit) phase" where
  "Phase24bDSSMInsecureOverlay K dryRun = and_do intent (\<lambda>cl.
     if \<not> IsBNKPattern cl then give ()
     else if dryRun then st_set ''DSSM_INSECURE_OVERLAY_APPLIED_AT'' ''dry-run''
     else and_do (query (allDSSMPodsReady K)) (\<lambda>ready.
       if ready then give ()
       else
         and_do (wait_configmap K (10 * Second) (3 * Minute)) (\<lambda>_.
         and_do (applyDSSMOverlay K) (\<lambda>patched.
         if patched = [] then give () else mark_overlay K))))"

(* src/internal/aws/phases/phase24b_dssm_insecure_overlay.go:182-188 Phase24bDSSMInsecureOverlayDown *)
definition Phase24bDSSMInsecureOverlayDown :: "('w, 'e, 'b) kube \<Rightarrow> ('w, 'f, unit) phase" where
  "Phase24bDSSMInsecureOverlayDown K =
     and_do (st_set ''DSSM_INSECURE_OVERLAY_APPLIED_AT'' []) (\<lambda>_.
     (\<lambda>s. Some (Inr (), s\<lparr>rs_world := snd (ku_save K (rs_st s) (rs_world s))\<rparr>)))"

subsection \<open>Access of the controller\<close>

(* src/internal/aws/phases/heal.go:605-614 containsAny *)
definition containsAny :: "string list \<Rightarrow> string list \<Rightarrow> bool" where
  "containsAny xs want \<longleftrightarrow> list_ex (\<lambda>l. l \<in> set want) xs"

definition grants_slices :: "role_rule \<Rightarrow> bool" where
  "grants_slices r \<longleftrightarrow> containsAny (rr_resources r) [''endpointslices'', ''*''] \<and> containsAny (rr_verbs r) [''get'', ''*'']"

text \<open>A role that cannot be read is passed over.\<close>

(* src/internal/aws/phases/heal.go:565-603 detectControllerRBAC *)
definition detectControllerRBAC :: "('w, 'e, 'b) kube \<Rightarrow> 'w \<Rightarrow> 'e heal_error + bool \<times> detail" where
  "detectControllerRBAC K w =
     (case ku_deployment K h4DeploymentName w of
        Inl e \<Rightarrow> if ku_not_found K e then Inr (True, NotInstalled h4DeploymentName) else Inl (Kube ''get deployment'' e)
      | Inr d \<Rightarrow>
          let sa = de_service_account d in
          if sa \<noteq> ''f5-cne-controller'' then Inr (True, OldController sa)
          else (case ku_bindings K w of
              Inl e \<Rightarrow> Inl (Kube ''list clusterrolebindings'' e)
            | Inr bs \<Rightarrow>
                (case find (\<lambda>b. (''ServiceAccount'', InstanceNamespace, sa) \<in> set (bi_subjects b) \<and>
                       (case ku_role K (bi_role b) w of Inl _ \<Rightarrow> False | Inr rules \<Rightarrow> list_ex grants_slices rules)) bs of
                   Some b \<Rightarrow> Inr (True, Granted (bi_role b))
                 | None \<Rightarrow> Inr (False, NoGrant))))"

(* src/internal/aws/phases/deploy_helpers.go:77-97 deploymentPodsHaveEnv *)
definition deploymentPodsHaveEnv :: "('w, 'e, 'b) kube \<Rightarrow> deployment \<Rightarrow> string \<Rightarrow> 'w \<Rightarrow> 'e + bool" where
  "deploymentPodsHaveEnv K d envName w =
     map_sum id (list_all (\<lambda>p. list_ex (\<lambda>es. envName \<in> set es) (po_envs p)))
       (ku_pods K InstanceNamespace (case de_selector d of None \<Rightarrow> [] | Some s \<Rightarrow> s) w)"

(* src/internal/aws/phases/heal.go:618-646 detectControllerIRSA *)
definition detectControllerIRSA :: "('w, 'e, 'b) kube \<Rightarrow> 'w \<Rightarrow> 'e heal_error + bool \<times> detail" where
  "detectControllerIRSA K w =
     (case ku_deployment K h4DeploymentName w of
        Inl e \<Rightarrow> if ku_not_found K e then Inr (True, NotInstalled h4DeploymentName) else Inl (Kube ''get deployment'' e)
      | Inr d \<Rightarrow>
          let sa = (if de_service_account d = [] then ''default'' else de_service_account d) in
          (case ku_role_arn K sa w of
             Inl e \<Rightarrow> Inl (Kube ''serviceaccount'' e)
           | Inr arn \<Rightarrow>
               if arn = [] then Inr (False, NoAnnotation sa)
               else (case deploymentPodsHaveEnv K d ''AWS_ROLE_ARN'' w of
                   Inl e \<Rightarrow> Inl (Kube ''list pods'' e)
                 | Inr injected \<Rightarrow> if injected then Inr (True, Annotated sa arn) else Inr (False, NotInjected sa arn))))"

subsection \<open>The CNEInstance\<close>

text \<open>The first one; \<open>None\<close> when there is none.\<close>

(* src/internal/aws/phases/heal.go:650-665 findCNEInstanceHeal *)
definition findCNEInstanceHeal :: "('w, 'e, 'b) kube \<Rightarrow> 'w \<Rightarrow> 'e heal_error + cne_instance option" where
  "findCNEInstanceHeal K w =
     (if \<not> ku_dynamic K then Inl NoDynamic
      else (case ku_cnes K w of
          Inl e \<Rightarrow> if ku_not_found K e then Inr None else Inl (Kube ''list cneinstances'' e)
        | Inr [] \<Rightarrow> Inr None
        | Inr (c # _) \<Rightarrow> Inr (Some c)))"

definition env_entry :: "string \<Rightarrow> any \<Rightarrow> (string \<times> any) list option" where
  "env_entry name e = (case e of AMap m \<Rightarrow> if map_of m ''name'' = Some (AString name) then Some m else None | _ \<Rightarrow> None)"

text \<open>The value of the first entry of the name.\<close>

(* src/internal/aws/phases/heal.go:667-677 tmmEnvValue *)
definition tmmEnvValue :: "cne_instance \<Rightarrow> string \<Rightarrow> string option" where
  "tmmEnvValue cne name =
     (case List.map_filter (env_entry name) (cn_env cne) of
        [] \<Rightarrow> None
      | m # _ \<Rightarrow> Some (string_in m ''value''))"

definition broken_line :: "string \<Rightarrow> bool" where
  "broken_line l \<longleftrightarrow> contains l ''Timeout while contacting DNS servers'' \<or> contains l ''no upstream connections available'' \<or>
     contains l ''getaddrinfo(host='' \<and> contains l ''err=''"

text \<open>The first such line, from its first bracket, at most 200 bytes.\<close>

(* src/internal/aws/phases/heal.go:770-786 sidecarServiceNetworkEvidence *)
definition sidecarServiceNetworkEvidence :: "string \<Rightarrow> string" where
  "sidecarServiceNetworkEvidence output =
     (case find broken_line (split_on (char_of (10 :: nat)) output) of
        None \<Rightarrow> []
      | Some l \<Rightarrow>
          let l' = (case index_byte CHR ''['' l of None \<Rightarrow> l | Some i \<Rightarrow> drop i l)
          in ''f5-fluentbit: '' @ trim_space (take 200 l'))"

text \<open>\<open>ku_log\<close> is the tail of the sidecar's log, at most a mebibyte.\<close>

(* src/internal/aws/phases/heal.go:750-766 tmmSidecarServiceNetworkBroken *)
definition tmmSidecarServiceNetworkBroken :: "('w, 'e, 'b) kube \<Rightarrow> 'w \<Rightarrow> string" where
  "tmmSidecarServiceNetworkBroken K w =
     (case ku_pods K InstanceNamespace ''app=f5-tmm'' w of
        Inr (p # _) \<Rightarrow>
          (case ku_log K (po_name p) w of Inl _ \<Rightarrow> [] | Inr t \<Rightarrow> sidecarServiceNetworkEvidence t)
      | _ \<Rightarrow> [])"

definition TMMRoutesEnv :: string where
  "TMMRoutesEnv = ''TMM_K8S_ROUTES''"

(* src/internal/aws/phases/heal.go:679-702 detectTMMK8sRoutes *)
definition detectTMMK8sRoutes :: "('w, 'e, 'b) kube \<Rightarrow> 'w \<Rightarrow> 'e heal_error + bool \<times> detail" where
  "detectTMMK8sRoutes K w =
     (case findCNEInstanceHeal K w of
        Inl e \<Rightarrow> Inl e
      | Inr None \<Rightarrow> Inr (True, NotInstalled ''CNEInstance'')
      | Inr (Some cne) \<Rightarrow>
          let value = (case tmmEnvValue cne TMMRoutesEnv of None \<Rightarrow> [] | Some v \<Rightarrow> v) in
          if value \<noteq> [] then Inr (True, RoutesSet value)
          else if has_prefix (cn_manifest cne) ''2.3'' then
            (let evidence = tmmSidecarServiceNetworkBroken K w
             in if evidence \<noteq> [] then Inr (False, RoutesBroken evidence) else Inr (True, RoutesUnneeded (cn_manifest cne)))
          else Inr (False, RoutesMissing))"

definition routes_entry :: "string \<Rightarrow> any" where
  "routes_entry cidr = AMap [(''name'', AString TMMRoutesEnv), (''value'', AString cidr)]"

(* src/internal/aws/phases/heal.go:704-731 fixTMMK8sRoutes *)
definition fixTMMK8sRoutes :: "('w, 'e, 'b) kube \<Rightarrow> ('w, 'e) healer" where
  "fixTMMK8sRoutes K = and_do intent (\<lambda>cl.
     and_do (query (findCNEInstanceHeal K)) (\<lambda>r.
     case r of
       Inl e \<Rightarrow> raise e
     | Inr None \<Rightarrow> give NothingDone
     | Inr (Some cne) \<Rightarrow>
         and_do (st_get ''EKS_SERVICE_CIDR'') (\<lambda>recorded.
         and_do (if recorded \<noteq> [] then give recorded
           else and_do (kube_read ''DescribeCluster for the service CIDR'' (ku_service_cidr K (md_Name (cl_Metadata cl)))) (\<lambda>c.
             case c of
               Some (x # xs) \<Rightarrow>
                 and_do (st_set ''EKS_SERVICE_CIDR'' (x # xs)) (\<lambda>_.
                 (\<lambda>s. Some (Inr (x # xs), s\<lparr>rs_world := snd (ku_save K (rs_st s) (rs_world s))\<rparr>)))
             | _ \<Rightarrow> raise NoServiceCIDR)) (\<lambda>cidr.
         and_do (kube_call ''patch CNEInstance'' (ku_patch_env K (cn_name cne) (cn_env cne @ [routes_entry cidr]))) (\<lambda>_.
         give (RoutesSet cidr))))))"

(* src/internal/aws/phases/heal.go:790-805 detectEPPNamespaces *)
definition detectEPPNamespaces :: "('w, 'e, 'b) kube \<Rightarrow> 'w \<Rightarrow> 'e heal_error + bool \<times> detail" where
  "detectEPPNamespaces K w =
     (case findCNEInstanceHeal K w of
        Inl e \<Rightarrow> Inl e
      | Inr None \<Rightarrow> Inr (True, NotInstalled ''CNEInstance'')
      | Inr (Some cne) \<Rightarrow>
          if has_prefix (cn_manifest cne) ''2.3'' then Inr (True, NoPicker (cn_manifest cne))
          else if cn_epp cne \<noteq> [] then Inr (True, PickerNamespaces (cn_epp cne))
          else Inr (False, NoPickerNamespaces))"

(* src/internal/aws/phases/heal.go:807-817 fixEPPNamespaces *)
definition fixEPPNamespaces :: "('w, 'e, 'b) kube \<Rightarrow> ('w, 'e) healer" where
  "fixEPPNamespaces K =
     and_do (query (findCNEInstanceHeal K)) (\<lambda>r.
     case r of
       Inl e \<Rightarrow> raise e
     | Inr None \<Rightarrow> give NothingDone
     | Inr (Some cne) \<Rightarrow>
         and_do (kube_call ''patch CNEInstance'' (ku_patch_epp K (cn_name cne) [''All''])) (\<lambda>_. give PickerSet))"

subsection \<open>Persistence profiles\<close>

text \<open>A profile elsewhere is mirrored when the instance namespace has one of its name, or the read fails.\<close>

definition unmirrored :: "('w, 'e, 'b) kube \<Rightarrow> 'b profile \<Rightarrow> 'w \<Rightarrow> bool" where
  "unmirrored K p w \<longleftrightarrow> pf_namespace p \<noteq> [] \<and> pf_namespace p \<noteq> InstanceNamespace \<and>
     (case ku_profile K (pf_name p) w of None \<Rightarrow> False | Some e \<Rightarrow> ku_not_found K e)"

(* src/internal/aws/phases/heal.go:821-847 detectPersistenceProfileSync *)
definition detectPersistenceProfileSync :: "('w, 'e, 'b) kube \<Rightarrow> 'w \<Rightarrow> 'e heal_error + bool \<times> detail" where
  "detectPersistenceProfileSync K w =
     (if \<not> ku_dynamic K then Inr (True, NoDynamicClient)
      else (case ku_profiles K w of
          Inl e \<Rightarrow> if ku_not_found K e then Inr (True, NotInstalled ''F5BigPersistenceProfile'') else Inl (Kube ''list profiles'' e)
        | Inr ps \<Rightarrow>
            let missing = filter (\<lambda>p. unmirrored K p w) ps
            in if missing \<noteq> [] then Inr (False, Unmirrored (map (\<lambda>p. pf_namespace p @ ''/'' @ pf_name p) missing))
               else Inr (True, InSync)))"

definition mirror_one :: "('w, 'e, 'b) kube \<Rightarrow> 'b profile \<Rightarrow> ('w, 'e heal_error, string list) phase" where
  "mirror_one K p =
     and_do (query (unmirrored K p)) (\<lambda>missing.
     if \<not> missing then give []
     else
       and_do (kube_call ''sync profile'' (ku_create_profile K (p\<lparr>pf_namespace := InstanceNamespace\<rparr>))) (\<lambda>_.
       and_do (if pf_secret p \<noteq> [] then and_do (query (ku_secret K (pf_namespace p) (pf_secret p))) (\<lambda>r.
           case r of
             Inl _ \<Rightarrow> give ()
           | Inr d \<Rightarrow> and_do (call (ku_copy_secret K InstanceNamespace (pf_secret p) d)) (\<lambda>_. give ()))
         else give ()) (\<lambda>_.
       give [pf_name p])))"

(* src/internal/aws/phases/heal.go:849-888 fixPersistenceProfileSync *)
definition fixPersistenceProfileSync :: "('w, 'e, 'b) kube \<Rightarrow> ('w, 'e) healer" where
  "fixPersistenceProfileSync K =
     (if \<not> ku_dynamic K then raise NoDynamic
      else and_do (kube_read ''list profiles'' (ku_profiles K)) (\<lambda>ps.
        and_do (collect (mirror_one K) ps) (\<lambda>synced. give (Mirrored (concat synced)))))"

end
