(* ===== verification/HealRun.thy ===== *)
theory HealRun
  imports Heal
begin

text \<open>
  Phase 24c and the registry of repairs with its runner \<open>RunHeal\<close> (\<open>internal/aws/phases/heal.go\<close>).
  The repairs whose detection or fix is code of other packages (Multus, metrics-server, the TMM log
  stream, the test namespace, the RBAC manifest, phase 21) are parameters under their names.
\<close>

subsection \<open>Phase 24c\<close>

definition pod_wedged :: "pod \<Rightarrow> bool" where
  "pod_wedged p \<longleftrightarrow> (case podManagerStatus p of None \<Rightarrow> False | Some s \<Rightarrow> wedged s)"

text \<open>The pods of the controller, if they can be read.\<close>

definition controller_pods :: "('w, 'e, 'b) kube \<Rightarrow> 'w \<Rightarrow> pod list" where
  "controller_pods K w =
     (case ku_deployment K h4DeploymentName w of
        Inl _ \<Rightarrow> []
      | Inr d \<Rightarrow>
          (case de_selector d of
             None \<Rightarrow> []
           | Some sel \<Rightarrow> (case ku_pods K InstanceNamespace sel w of Inl _ \<Rightarrow> [] | Inr ps \<Rightarrow> ps)))"

(* src/internal/aws/phases/phase24c_pod_manager_heal.go:69-69 h4MaxBounces part *)
definition h4MaxBounces :: nat where
  "h4MaxBounces = 2"

text \<open>One round: the bounces so far, and whether the context ended in it.\<close>

definition bounce_round :: "('w, 'e, 'b) kube \<Rightarrow> nat \<Rightarrow> 'w \<Rightarrow> (nat \<times> bool) \<times> 'w" where
  "bounce_round K bounces w =
     (if bounces < h4MaxBounces \<and> list_ex pod_wedged (controller_pods K w) then
        (case ku_restart K h4DeploymentName (ku_rfc3339 K (ku_now K w)) w of
           (Some _, w1) \<Rightarrow> ((bounces, False), w1)
         | (None, w1) \<Rightarrow>
             (case ku_sleep K (60 * Second) w1 of (ended, w2) \<Rightarrow> ((Suc bounces, ended \<noteq> None), w2)))
      else ((bounces, False), w))"

text \<open>All rounds after the first begin with a pause. The result says whether the context ended.\<close>

fun bounce_rounds :: "('w, 'e, 'b) kube \<Rightarrow> nat \<Rightarrow> nat \<Rightarrow> 'w \<Rightarrow> (nat \<times> bool) \<times> 'w" where
  "bounce_rounds K 0 bounces w = ((bounces, False), w)"
| "bounce_rounds K (Suc left) bounces w =
     (case bounce_round K bounces w of
        ((b, True), w1) \<Rightarrow> ((b, True), w1)
      | ((b, False), w1) \<Rightarrow>
          if left = 0 then ((b, False), w1)
          else (case ku_sleep K (30 * Second) w1 of
              (Some _, w2) \<Rightarrow> ((b, True), w2)
            | (None, w2) \<Rightarrow> bounce_rounds K left b w2))"

text \<open>The last condition of each type, with the three gates true; in the order of the map.\<close>

definition gated :: "iteration \<Rightarrow> pod \<Rightarrow> pod" where
  "gated iter p =
     (let m = (map_of (rev (po_conditions p)))(''ConfigurationDone'' \<mapsto> ''True'', ''RoutingDone'' \<mapsto> ''True'', ''Ready'' \<mapsto> ''True'')
      in p\<lparr>po_conditions := map (\<lambda>k. (k, the (m k))) (iter m)\<rparr>)"

definition needs_gates :: "pod \<Rightarrow> bool" where
  "needs_gates p \<longleftrightarrow> po_statuses p \<noteq> [] \<and> list_all cs_ready (po_statuses p) \<and>
     \<not> ((''ConfigurationDone'', ''True'') \<in> set (po_conditions p) \<and> (''RoutingDone'', ''True'') \<in> set (po_conditions p))"

(* src/internal/aws/phases/phase24c_pod_manager_heal.go:253-330 syncTmmReadinessGates *)
definition syncTmmReadinessGates :: "('w, 'e, 'b) kube \<Rightarrow> 'w \<Rightarrow> 'w" where
  "syncTmmReadinessGates K w =
     (case ku_pods K InstanceNamespace ''app=f5-tmm'' w of
        Inl _ \<Rightarrow> w
      | Inr ps \<Rightarrow> fold (\<lambda>p w. if needs_gates p then snd (ku_update_status K (gated (ku_iter K) p) w) else w) ps w)"

(* src/internal/aws/phases/phase24c_pod_manager_heal.go:91-248 Phase24cPodManagerHeal *)
definition Phase24cPodManagerHeal :: "('w, 'e, 'b) kube \<Rightarrow> bool \<Rightarrow> ('w, 'e heal_error, unit) phase" where
  "Phase24cPodManagerHeal K dryRun =
     (if dryRun then give ()
      else and_do (ensurePodManagerGrpcCertMount K) (\<lambda>_.
        call (\<lambda>w. ((), case bounce_rounds K 14 0 w of
            ((_, ended), w') \<Rightarrow> if ended then w' else syncTmmReadinessGates K w'))))"

(* src/internal/aws/phases/phase24c_pod_manager_heal.go:418-420 Phase24cPodManagerHealDown *)
definition Phase24cPodManagerHealDown :: "('w, 'f, unit) phase" where
  "Phase24cPodManagerHealDown = give ()"

subsection \<open>The registry\<close>

(* src/internal/aws/phases/heal.go:47-61 Repair *)
record ('w, 'e) repair =
  re_Name :: string
  re_Title :: string
  re_NeedsIntent :: bool
  re_Detect :: "'w \<Rightarrow> 'e heal_error + bool \<times> detail"
  re_Fix :: "('w, 'e) healer"

text \<open>What a status says, with the text around a detail as a constructor.\<close>

datatype status_note = NoNote | Plain detail | NeedsFile detail | WouldRepair detail | Repairable detail

(* src/internal/aws/phases/heal.go:64-74 HealStatus *)
record 'e heal_status =
  hs_Name :: string
  hs_Title :: string
  hs_Healthy :: bool
  hs_Changed :: bool
  hs_Skipped :: bool
  hs_Detail :: status_note
  hs_Error :: "'e heal_error option"

record ('w, 'e) elsewhere =
  el_detect :: "string \<Rightarrow> 'w \<Rightarrow> 'e heal_error + bool \<times> detail"
  el_fix :: "string \<Rightarrow> ('w, 'e) healer"

text \<open>A repair of which the named sides are code of other packages.\<close>

definition entry :: "string \<Rightarrow> string \<Rightarrow> bool \<Rightarrow> ('w \<Rightarrow> 'e heal_error + bool \<times> detail) \<Rightarrow> ('w, 'e) healer \<Rightarrow> ('w, 'e) repair" where
  "entry name title needs detect repairing =
     \<lparr>re_Name = name, re_Title = title, re_NeedsIntent = needs, re_Detect = detect, re_Fix = repairing\<rparr>"

(* src/internal/aws/phases/heal.go:86-320 Repairs part *)
definition Repairs :: "('w, 'e, 'b) kube \<Rightarrow> ('w, 'e) elsewhere \<Rightarrow> bool \<Rightarrow> ('w, 'e) repair list" where
  "Repairs K E hasState =
     [entry ''multus-token-watch'' ''multus kubeconfig token'' False
        (el_detect E ''multus-token-watch'') (el_fix E ''multus-token-watch''),
      entry ''metrics-server'' ''metrics api'' True (el_detect E ''metrics-server'') (el_fix E ''metrics-server''),
      entry ''tmm-log-stream'' ''bnk tmm log stream'' False (el_detect E ''tmm-log-stream'') (el_fix E ''tmm-log-stream''),
      entry ''pod-manager'' ''bnk tmm pod-manager'' False (detectPodManager K) (fixPodManager K),
      entry ''cwc'' ''bnk cwc'' False (detectCwc K) (fixCwc K),
      entry ''dssm-probe'' ''bnk dssm readiness probe'' False (detectDssm K) (fixDssm K hasState),
      entry ''controller-endpointslices'' ''bnk controller endpointslices rbac'' True
        (detectControllerRBAC K) (el_fix E ''controller-endpointslices''),
      entry ''controller-irsa'' ''bnk controller IRSA'' True (detectControllerIRSA K) (el_fix E ''controller-irsa''),
      entry ''tmm-k8s-routes'' ''bnk tmm k8s routes'' True (detectTMMK8sRoutes K) (fixTMMK8sRoutes K),
      entry ''epp-namespaces'' ''bnk f5 endpoint picker namespaces'' False (detectEPPNamespaces K) (fixEPPNamespaces K),
      entry ''test-namespace'' ''awsbnkctl test namespace'' False (el_detect E ''test-namespace'') (el_fix E ''test-namespace''),
      entry ''persistence-profile-sync'' ''bnk persistence profile sync'' False
        (detectPersistenceProfileSync K) (fixPersistenceProfileSync K)]"

definition new_status :: "('w, 'e) repair \<Rightarrow> 'e heal_status" where
  "new_status r = \<lparr>hs_Name = re_Name r, hs_Title = re_Title r, hs_Healthy = False, hs_Changed = False,
     hs_Skipped = False, hs_Detail = NoNote, hs_Error = None\<rparr>"

(* src/internal/aws/phases/heal.go:339-370 RunHeal part *)
definition heal_one :: "bool \<Rightarrow> bool \<Rightarrow> ('w, 'e) repair \<Rightarrow> ('w, 'e heal_error, 'e heal_status) phase" where
  "heal_one hasIntent dryRun r =
     and_do (query (re_Detect r)) (\<lambda>res.
     case res of
       Inl e \<Rightarrow> give ((new_status r)\<lparr>hs_Error := Some e\<rparr>)
     | Inr (healthy, d) \<Rightarrow>
         let st = (new_status r)\<lparr>hs_Healthy := healthy, hs_Detail := Plain d\<rparr> in
         if healthy then give st
         else if re_NeedsIntent r \<and> \<not> hasIntent then give (st\<lparr>hs_Skipped := True, hs_Detail := NeedsFile d\<rparr>)
         else if dryRun then give (st\<lparr>hs_Detail := WouldRepair d\<rparr>)
         else and_do (outcome (re_Fix r)) (\<lambda>f.
           case f of
             Inl e \<Rightarrow> give (st\<lparr>hs_Error := Some e\<rparr>)
           | Inr fixed \<Rightarrow> give (st\<lparr>hs_Changed := True, hs_Healthy := True, hs_Detail := Plain fixed\<rparr>)))"

definition wanted :: "string list \<Rightarrow> ('w, 'e) repair \<Rightarrow> bool" where
  "wanted only r \<longleftrightarrow> only = [] \<or> re_Name r \<in> set only"

(* src/internal/aws/phases/heal.go:325-373 RunHeal *)
definition RunHeal :: "('w, 'e) repair list \<Rightarrow> bool \<Rightarrow> bool \<Rightarrow> string list \<Rightarrow> ('w, 'e heal_error, 'e heal_status list) phase" where
  "RunHeal repairs hasIntent dryRun only = collect (heal_one hasIntent dryRun) (filter (wanted only) repairs)"

(* src/internal/aws/phases/heal.go:376-392 DetectAll *)
definition DetectAll :: "('w, 'e) repair list \<Rightarrow> 'w \<Rightarrow> 'e heal_status list" where
  "DetectAll repairs w =
     map (\<lambda>r. case re_Detect r w of
         Inl e \<Rightarrow> (new_status r)\<lparr>hs_Error := Some e\<rparr>
       | Inr (healthy, d) \<Rightarrow>
           (new_status r)\<lparr>hs_Healthy := healthy, hs_Detail := (if healthy then Plain d else Repairable d)\<rparr>) repairs"

end
