(* ===== verification/HealClaims.thy ===== *)
theory HealClaims
  imports HealRun PhaseClaims IntentClaims
begin

text \<open>
  What healing guarantees: every wanted repair is accounted for, a dry run changes nothing and agrees
  with the doctor, the dSSM overlay leaves nothing to patch, the routes entry is added once and is the
  one the detection reads, phase 24c restarts the controller at most twice.
\<close>

subsection \<open>The runner\<close>

text \<open>
  What a status must say of a repair looked at in state \<open>s\<close> and left in state \<open>s'\<close>: it follows from what
  \<open>Detect\<close> saw there, and from what \<open>Fix\<close> did when it ran. A fix that changed the cluster is reported as a
  change; one without effect may be.
\<close>

definition says :: "'e heal_status \<Rightarrow> bool \<Rightarrow> bool \<Rightarrow> 'e heal_error option \<Rightarrow> bool" where
  "says st healthy skipped e \<longleftrightarrow> hs_Healthy st = healthy \<and> hs_Skipped st = skipped \<and> hs_Error st = e"

inductive explained ::
  "bool \<Rightarrow> bool \<Rightarrow> ('w, 'e) repair \<Rightarrow> 'w run_state \<Rightarrow> 'e heal_status \<Rightarrow> 'w run_state \<Rightarrow> bool" for hasIntent dryRun r s st where
  unknown: "re_Detect r (rs_world s) = Inl e \<Longrightarrow> says st False False (Some e) \<Longrightarrow> \<not> hs_Changed st \<Longrightarrow>
    explained hasIntent dryRun r s st s"
| fine: "re_Detect r (rs_world s) = Inr (True, d) \<Longrightarrow> says st True False None \<Longrightarrow> \<not> hs_Changed st \<Longrightarrow>
    explained hasIntent dryRun r s st s"
| no_intent: "re_Detect r (rs_world s) = Inr (False, d) \<Longrightarrow> re_NeedsIntent r \<Longrightarrow> \<not> hasIntent \<Longrightarrow>
    says st False True None \<Longrightarrow> \<not> hs_Changed st \<Longrightarrow> explained hasIntent dryRun r s st s"
| dry: "re_Detect r (rs_world s) = Inr (False, d) \<Longrightarrow> \<not> re_NeedsIntent r \<or> hasIntent \<Longrightarrow> dryRun \<Longrightarrow>
    says st False False None \<Longrightarrow> \<not> hs_Changed st \<Longrightarrow> explained hasIntent dryRun r s st s"
| unfixed: "re_Detect r (rs_world s) = Inr (False, d) \<Longrightarrow> \<not> re_NeedsIntent r \<or> hasIntent \<Longrightarrow> \<not> dryRun \<Longrightarrow>
    re_Fix r s = Some (Inl e, s') \<Longrightarrow> says st False False (Some e) \<Longrightarrow> \<not> hs_Changed st \<Longrightarrow>
    explained hasIntent dryRun r s st s'"
| repaired: "re_Detect r (rs_world s) = Inr (False, d) \<Longrightarrow> \<not> re_NeedsIntent r \<or> hasIntent \<Longrightarrow> \<not> dryRun \<Longrightarrow>
    re_Fix r s = Some (Inr d', s') \<Longrightarrow> says st True False None \<Longrightarrow> rs_world s' = rs_world s \<or> hs_Changed st \<Longrightarrow>
    explained hasIntent dryRun r s st s'"

text \<open>A run through the repairs, each looked at in the state the earlier ones left.\<close>

inductive healed ::
  "bool \<Rightarrow> bool \<Rightarrow> ('w, 'e) repair list \<Rightarrow> 'w run_state \<Rightarrow> 'e heal_status list \<Rightarrow> 'w run_state \<Rightarrow> bool" for hasIntent dryRun where
  over: "healed hasIntent dryRun [] s [] s"
| onward: "hs_Name st = re_Name r \<Longrightarrow> explained hasIntent dryRun r s st t \<Longrightarrow> healed hasIntent dryRun rs t sts s' \<Longrightarrow>
    healed hasIntent dryRun (r # rs) s (st # sts) s'"

inductive_simps explained_iff: "explained hasIntent dryRun r s st s'"

inductive_cases healed_NilE: "healed hasIntent dryRun [] s sts s'"

inductive_cases healed_ConsE: "healed hasIntent dryRun (r # rs) s sts s'"

lemma heal_one_result:
  assumes "heal_one hasIntent dryRun r s = Some (q, s')"
  shows "\<exists>st. q = Inr st \<and> hs_Name st = re_Name r \<and> explained hasIntent dryRun r s st s'"
proof (cases "re_Detect r (rs_world s)")
  case (Inl e)
  with assms have "q = Inr ((new_status r)\<lparr>hs_Error := Some e\<rparr>)" "s' = s"
    by (simp_all add: heal_one_def and_do_def query_def give_def)
  then show ?thesis using explained.unknown [OF Inl] by (simp add: new_status_def says_def)
next
  case (Inr p)
  then obtain healthy d where seen: "re_Detect r (rs_world s) = Inr (healthy, d)" by (cases p) simp
  define st where "st = (new_status r)\<lparr>hs_Healthy := healthy, hs_Detail := Plain d\<rparr>"
  note run = assms [unfolded heal_one_def and_do_def query_def give_def outcome_def, simplified seen, simplified,
      folded st_def, simplified Let_def]
  consider (healthy) healthy | (skip) "\<not> healthy" "re_NeedsIntent r" "\<not> hasIntent"
    | (dry) "\<not> healthy" "\<not> re_NeedsIntent r \<or> hasIntent" dryRun
    | (mend) "\<not> healthy" "\<not> re_NeedsIntent r \<or> hasIntent" "\<not> dryRun" by blast
  then show ?thesis
  proof cases
    case healthy
    with run have "q = Inr st" "s' = s" by (simp_all add: st_def)
    with seen healthy show ?thesis by (simp add: explained.fine st_def new_status_def says_def)
  next
    case skip
    with run have "q = Inr (st\<lparr>hs_Skipped := True, hs_Detail := NeedsFile d\<rparr>)" "s' = s" by (simp_all add: st_def)
    with seen skip show ?thesis by (simp add: explained.no_intent st_def new_status_def says_def)
  next
    case dry
    with run have "q = Inr (st\<lparr>hs_Detail := WouldRepair d\<rparr>)" "s' = s" by (auto simp: st_def)
    with seen dry show ?thesis by (simp add: explained.dry st_def new_status_def says_def)
  next
    case mend
    with run obtain f where f: "re_Fix r s = Some (f, s')"
      "q = Inr (case f of Inl e \<Rightarrow> st\<lparr>hs_Error := Some e\<rparr>
        | Inr fixed \<Rightarrow> st\<lparr>hs_Changed := True, hs_Healthy := True, hs_Detail := Plain fixed\<rparr>)"
      by (auto simp: st_def split: option.splits prod.splits sum.splits)
    with seen mend show ?thesis
      by (cases f) (auto simp: st_def new_status_def says_def intro: explained.unfixed explained.repaired)
  qed
qed

lemma collect_Cons_Some:
  assumes "collect f (x # xs) s = Some (q, s')"
  shows "(\<exists>e. f x s = Some (Inl e, s') \<and> q = Inl e) \<or>
    (\<exists>y s1 q1. f x s = Some (Inr y, s1) \<and> collect f xs s1 = Some (q1, s') \<and> q = map_sum id ((#) y) q1)"
  using assms by (auto simp: and_do_def give_def split: option.splits sum.splits prod.splits)

lemma heal_all_result:
  assumes "collect (heal_one hasIntent dryRun) rs s = Some (q, s')"
  shows "\<exists>sts. q = Inr sts \<and> healed hasIntent dryRun rs s sts s'"
  using assms
proof (induction rs arbitrary: s q)
  case Nil
  then show ?case by (auto simp: give_def intro: healed.over)
next
  case (Cons r rs)
  from collect_Cons_Some [OF Cons.prems] obtain y s1 q1 where
    y: "heal_one hasIntent dryRun r s = Some (Inr y, s1)" "collect (heal_one hasIntent dryRun) rs s1 = Some (q1, s')"
      "q = map_sum id ((#) y) q1"
    by (auto dest: heal_one_result)
  from heal_one_result [OF y(1)] have "hs_Name y = re_Name r" "explained hasIntent dryRun r s y s1" by auto
  note step = healed.onward [OF this]
  from Cons.IH [OF y(2)] obtain sts where "q1 = Inr sts" "healed hasIntent dryRun rs s1 sts s'" by blast
  with step y(3) show ?case by auto
qed

text \<open>
  C15 A run of \<open>bnk heal\<close> that returns reports the wanted repairs, in the order of the registry, in
  which each name occurs once, and each report is what happened: the error of \<open>Detect\<close>; healthy when
  \<open>Detect\<close> said so in the state the earlier repairs left; skipped when it needs an intent and there is none;
  left unhealthy by a dry run; otherwise \<open>Fix\<close> ran, and its error, or its success with the cluster it
  left, is what the report says. Only a fix changes anything.
\<close>

theorem heal_accounts:
  assumes "RunHeal (Repairs K E hasState) hasIntent dryRun only s = Some (q, s')"
  shows "distinct (map re_Name (Repairs K E hasState)) \<and>
    (\<exists>sts. q = Inr sts \<and>
       healed hasIntent dryRun (filter (\<lambda>r. only = [] \<or> re_Name r \<in> set only) (Repairs K E hasState)) s sts s')"
proof -
  have "wanted only = (\<lambda>r. only = [] \<or> re_Name r \<in> set only)" by (simp add: wanted_def fun_eq_iff)
  from heal_all_result [OF assms [unfolded RunHeal_def this]]
  obtain sts where "q = Inr sts"
    "healed hasIntent dryRun (filter (\<lambda>r. only = [] \<or> re_Name r \<in> set only) (Repairs K E hasState)) s sts s'" by blast
  moreover have "distinct (map re_Name (Repairs K E hasState))" by (simp add: Repairs_def entry_def)
  ultimately show ?thesis by blast
qed

text \<open>What the doctor prints of a status.\<close>

definition brief :: "'e heal_status \<Rightarrow> string \<times> bool \<times> 'e heal_error option" where
  "brief st = (hs_Name st, hs_Healthy st, hs_Error st)"

lemma heal_one_dry:
  "case heal_one hasIntent True r s of
     Some (Inr st, s') \<Rightarrow> s' = s \<and> \<not> hs_Changed st \<and> map brief [st] = map brief (DetectAll [r] (rs_world s))
   | _ \<Rightarrow> False"
proof (cases "re_Detect r (rs_world s)")
  case (Inl e)
  then show ?thesis
    by (simp add: heal_one_def and_do_def query_def give_def new_status_def DetectAll_def brief_def)
next
  case (Inr p)
  then show ?thesis
    by (cases p) (simp add: heal_one_def and_do_def query_def give_def new_status_def DetectAll_def brief_def Let_def)
qed

lemma heal_all_dry:
  "\<exists>sts. collect (heal_one hasIntent True) rs s = Some (Inr sts, s) \<and> list_all (\<lambda>st. \<not> hs_Changed st) sts \<and>
     map brief sts = map brief (DetectAll rs (rs_world s))"
proof (induction rs)
  case Nil
  show ?case by (simp add: give_def DetectAll_def)
next
  case (Cons r rs)
  obtain st where
    "heal_one hasIntent True r s = Some (Inr st, s)" "\<not> hs_Changed st"
    "map brief [st] = map brief (DetectAll [r] (rs_world s))"
  proof -
    note d = heal_one_dry [where hasIntent = hasIntent and r = r and s = s]
    from d obtain q s1 where h: "heal_one hasIntent True r s = Some (q, s1)"
      by (cases "heal_one hasIntent True r s") auto
    from d h obtain st where "q = Inr st" by (cases q) auto
    with d h that show thesis by simp
  qed
  moreover from Cons.IH obtain sts where
    "collect (heal_one hasIntent True) rs s = Some (Inr sts, s)" "list_all (\<lambda>st. \<not> hs_Changed st) sts"
    "map brief sts = map brief (DetectAll rs (rs_world s))" by blast
  ultimately show ?case
    by (intro exI [where x = "st # sts"]) (simp add: and_do_def give_def DetectAll_def)
qed

text \<open>
  C37 A dry run of \<open>bnk heal\<close> always returns, leaves intent, state and cluster as they were,
  changes nothing, and reports the same health and errors as the doctor's \<open>DetectAll\<close> of the wanted
  repairs.
\<close>

theorem heal_dry_run:
  "\<exists>sts. RunHeal (Repairs K E hasState) hasIntent True only s = Some (Inr sts, s) \<and>
     list_all (\<lambda>st. \<not> hs_Changed st) sts \<and>
     map brief sts = map brief (DetectAll (filter (wanted only) (Repairs K E hasState)) (rs_world s))"
  unfolding RunHeal_def by (rule heal_all_dry)

subsection \<open>The dSSM overlay\<close>

lemma contains_iff: "contains s sub \<longleftrightarrow> (\<exists>u v. s = u @ sub @ v)"
proof (induction s)
  case Nil
  show ?case by auto
next
  case (Cons c cs)
  have p: "has_prefix (c # cs) sub \<longleftrightarrow> (\<exists>v. c # cs = sub @ v)"
    by (metis append_eq_conv_conj has_prefix_def)
  show ?case
  proof
    assume "contains (c # cs) sub"
    then show "\<exists>u v. c # cs = u @ sub @ v"
      using p Cons.IH by (metis append_Cons append_Nil contains.simps(2))
  next
    assume "\<exists>u v. c # cs = u @ sub @ v"
    then obtain u v where e: "c # cs = u @ sub @ v" by blast
    show "contains (c # cs) sub"
    proof (cases u)
      case Nil
      with e p have "has_prefix (c # cs) sub" by auto
      then show ?thesis by (simp only: contains.simps simp_thms)
    next
      case (Cons d u')
      with e have "cs = u' @ sub @ v" by simp
      with Cons.IH show ?thesis by auto
    qed
  qed
qed

lemma contains_trans: "contains s t \<Longrightarrow> contains t u \<Longrightarrow> contains s u"
  unfolding contains_iff by (metis append.assoc)

lemma contains_append: "contains s u \<Longrightarrow> contains (t @ s) u"
  unfolding contains_iff by (metis append.assoc)

lemma contains_replaced: "old \<noteq> [] \<Longrightarrow> contains s old \<Longrightarrow> contains (replace_all old new s) new"
proof (induction old new s rule: replace_all.induct)
  case (1 old new s)
  show ?case
  proof (cases "has_prefix s old")
    case True
    then have "replace_all old new s = new @ replace_all old new (drop (length old) s)"
      using 1(3) by (subst replace_all.simps) (auto simp: has_prefix_def)
    then show ?thesis unfolding contains_iff by (metis append_Nil)
  next
    case False
    with 1(3,4) have s: "s \<noteq> []" "contains (tl s) old"
      by (cases s; auto)+
    with 1(2) [of] False 1(3) have "contains (replace_all old new (tl s)) new" by simp
    moreover from s False 1(3) have "replace_all old new s = [hd s] @ replace_all old new (tl s)"
      by (subst replace_all.simps) simp
    ultimately show ?thesis by (simp only: contains_append)
  qed
qed

text \<open>
  The dSSM overlay settles: once the scripts it lists are rewritten, none is left to
  patch, every script that runs \<open>redis-cli --tls\<close> counts as done, and the other keys are as before.
\<close>

theorem dssm_overlay_settles:
  assumes split: "dssmOverlayKeys iter data = (toPatch, done_before)"
    and after: "overlaid toPatch data = data'"
    and visits: "visits iter data" "visits iter data'"
  shows "fst (dssmOverlayKeys iter data') = [] \<and> dom data' = dom data \<and>
    (\<forall>k. k \<in> set toPatch \<longleftrightarrow> (\<exists>v. data k = Some v \<and> contains v dssmTLSReplace \<and> \<not> contains v dssmInsecureMarker)) \<and>
    (\<forall>k. k \<in> set toPatch \<or> data' k = data k)"
proof -
  have m: "k \<in> set toPatch \<longleftrightarrow> (\<exists>v. data k = Some v \<and> contains v dssmTLSReplace \<and> \<not> contains v dssmInsecureMarker)" for k
    using split visits(1) by (auto simp: dssmOverlayKeys_def Let_def visits_def)
  have u: "k \<in> set toPatch \<or> data' k = data k" for k
    using after [symmetric] by (simp add: overlaid_def)
  have d: "dom data' = dom data" using after by (auto simp: overlaid_def split: if_splits)
  have "contains (the (data' k)) dssmInsecureMarker"
    if k: "k \<in> dom data'" "contains (the (data' k)) dssmTLSReplace" for k
  proof (cases "k \<in> set toPatch")
    case True
    with m obtain v where v: "data k = Some v" "contains v dssmTLSReplace" by blast
    from v(2) have "contains (replace_all dssmTLSReplace dssmTLSInsecureReplace v) dssmTLSInsecureReplace"
      by (rule contains_replaced [rotated]) (simp add: dssmTLSReplace_def)
    moreover have "contains dssmTLSInsecureReplace dssmInsecureMarker"
      by (simp add: dssmTLSInsecureReplace_def dssmInsecureMarker_def has_prefix_def)
    ultimately show ?thesis
      using True v after contains_trans by (auto simp: overlaid_def)
  next
    case False
    with after have "data' k = data k" by (auto simp: overlaid_def)
    with False k d m [of k] show ?thesis by auto
  qed
  then have "fst (dssmOverlayKeys iter data') = []"
    using visits(2) by (auto simp: dssmOverlayKeys_def Let_def filter_empty_conv visits_def)
  with d m u show ?thesis by blast
qed

subsection \<open>The routes of TMM\<close>

lemma tmmEnvValue_append:
  "tmmEnvValue (cne\<lparr>cn_env := cn_env cne @ [routes_entry cidr]\<rparr>) TMMRoutesEnv =
     (case tmmEnvValue cne TMMRoutesEnv of None \<Rightarrow> Some cidr | Some v \<Rightarrow> Some v)"
proof -
  have e: "env_entry TMMRoutesEnv (routes_entry cidr) = Some [(''name'', AString TMMRoutesEnv), (''value'', AString cidr)]"
    by (simp add: env_entry_def routes_entry_def)
  have "List.map_filter f (xs @ ys) = List.map_filter f xs @ List.map_filter f ys" for f :: "any \<Rightarrow> (string \<times> any) list option" and xs ys
    by (simp add: List.map_filter_def)
  then show ?thesis
    by (simp add: tmmEnvValue_def List.map_filter_simps e split: list.splits)
qed

text \<open>
  When the repair of the TMM routes reports an address range, that range is not empty, is
  recorded in the state, and was appended to the environment of the CNEInstance in the last call. The
  detection then reads it if and only if there was no entry before: an empty entry stays the one read.
\<close>

theorem routes_fix_exact:
  assumes "fixTMMK8sRoutes K s = Some (Inr (RoutesSet cidr), s')"
  shows "cidr \<noteq> [] \<and> Get (rs_st s') ''EKS_SERVICE_CIDR'' = cidr \<and> rs_cl s' = rs_cl s \<and>
    (\<exists>cne w. findCNEInstanceHeal K (rs_world s) = Inr (Some cne) \<and>
       ku_patch_env K (cn_name cne) (cn_env cne @ [routes_entry cidr]) w = (None, rs_world s') \<and>
       tmmEnvValue (cne\<lparr>cn_env := cn_env cne @ [routes_entry cidr]\<rparr>) TMMRoutesEnv =
         (case tmmEnvValue cne TMMRoutesEnv of None \<Rightarrow> Some cidr | Some v \<Rightarrow> Some v))"
proof -
  have g: "Get (Set_key k v st) k = v" for k v st by (simp add: Get_def Set_key_def)
  show ?thesis
    using assms unfolding tmmEnvValue_append
    by (auto simp: fixTMMK8sRoutes_def and_do_def intent_def query_def give_def raise_def st_get_def st_set_def
        kube_call_def kube_read_def call_def check_err_def check_result_def g
        split: option.splits sum.splits prod.splits if_splits list.splits)
qed

subsection \<open>Bounces\<close>

text \<open>\<open>n\<close> counts the restarts: a failed one does not count, and nothing else counts.\<close>

definition counts_restarts :: "('w, 'e, 'b) kube \<Rightarrow> ('w \<Rightarrow> nat) \<Rightarrow> bool" where
  "counts_restarts K n \<longleftrightarrow>
     (\<forall>d t w r w'. ku_restart K d t w = (r, w') \<longrightarrow> n w' = (if r = None then Suc (n w) else n w)) \<and>
     (\<forall>d w. n (snd (ku_sleep K d w)) = n w) \<and>
     (\<forall>p w. n (snd (ku_update_status K p w)) = n w) \<and>
     (\<forall>a d w. n (snd (ku_update_secret K a d w)) = n w) \<and>
     (\<forall>a d w. n (snd (ku_update_deployment K a d w)) = n w)"

lemma bounce_round_count:
  assumes "counts_restarts K n" and "bounce_round K b w = ((b', e), w')" and "b \<le> 2"
  shows "b' \<le> 2 \<and> n w' + b = n w + b'"
proof -
  have sl: "n w2 = n w1" if "ku_sleep K d w1 = (r, w2)" for d w1 r w2
    using assms(1) that unfolding counts_restarts_def by (metis snd_conv)
  have re: "n w' = (if r = None then Suc (n w) else n w)" if "ku_restart K d t w = (r, w')" for d t w r w'
    using assms(1) that unfolding counts_restarts_def by blast
  show ?thesis
    using assms(2,3)
    by (auto simp: bounce_round_def h4MaxBounces_def dest!: sl re split: if_splits prod.splits option.splits)
qed

lemma bounce_rounds_count:
  assumes "counts_restarts K n"
  shows "bounce_rounds K left b w = ((b', e), w') \<Longrightarrow> b \<le> 2 \<Longrightarrow> b' \<le> 2 \<and> n w' + b = n w + b'"
proof (induction left arbitrary: b w)
  case (Suc left)
  have sl: "n w2 = n w1" if "ku_sleep K d w1 = (r, w2)" for d w1 r w2
    using assms that unfolding counts_restarts_def by (metis snd_conv)
  obtain b1 e1 w1 where r: "bounce_round K b w = ((b1, e1), w1)" by (metis surj_pair)
  from bounce_round_count [OF assms this Suc.prems(2)] have c: "b1 \<le> 2" "n w1 + b = n w + b1" by auto
  obtain q w2 where s: "ku_sleep K (30 * Second) w1 = (q, w2)" by fastforce
  show ?case
  proof (cases "e1 \<or> left = 0 \<or> q \<noteq> None")
    case True
    with Suc.prems(1) r s c sl [OF s] show ?thesis by (cases e1) (auto split: if_splits)
  next
    case False
    with Suc.prems(1) r s have "bounce_rounds K left b1 w2 = ((b', e), w')" by simp
    from Suc.IH [OF this c(1)] c(2) sl [OF s] show ?thesis by simp
  qed
qed simp

lemma sync_count: "counts_restarts K n \<Longrightarrow> n (syncTmmReadinessGates K w) = n w"
proof -
  assume c: "counts_restarts K n"
  have "n (fold (\<lambda>p w. if needs_gates p then snd (ku_update_status K (gated (ku_iter K) p) w) else w) ps w) = n w" for ps w
    by (induction ps arbitrary: w) (use c in \<open>auto simp: counts_restarts_def\<close>)
  then show ?thesis by (simp add: syncTmmReadinessGates_def split: sum.splits)
qed

lemma mount_count:
  assumes "counts_restarts K n" and "ensurePodManagerGrpcCertMount K s = Some (r, s')"
  shows "n (rs_world s') = n (rs_world s) \<and> r = Inr ()"
proof -
  have k: "n w' = n w" if "ku_update_secret K a d w = (x, w')" for a d w x w'
    using assms(1) that unfolding counts_restarts_def by (metis snd_conv)
  have l: "n w' = n w" if "ku_update_deployment K a d w = (x, w')" for a d w x w'
    using assms(1) that unfolding counts_restarts_def by (metis snd_conv)
  show ?thesis
    using assms(2) unfolding ensurePodManagerGrpcCertMount_def
    by (auto simp: and_do_def query_def give_def call_def Let_def dest!: k l
        split: option.splits sum.splits prod.splits if_splits)
qed

lemma returns_mount: "returns (ensurePodManagerGrpcCertMount K)"
  unfolding ensurePodManagerGrpcCertMount_def
  by (intro returns_and_do) (auto simp: Let_def intro!: returns_rules split: sum.splits option.splits)

text \<open>
  Phase 24c is best effort: it always returns without an error, and whatever the cluster
  does it restarts the controller at most twice; a dry run touches nothing.
\<close>

theorem bounces_bounded:
  assumes "counts_restarts K n"
  shows "\<exists>s'. Phase24cPodManagerHeal K dryRun s = Some (Inr (), s') \<and> n (rs_world s') \<le> n (rs_world s) + 2 \<and>
    (dryRun \<longrightarrow> s' = s)"
proof (cases dryRun)
  case True
  then show ?thesis by (simp add: Phase24cPodManagerHeal_def give_def)
next
  case False
  obtain r s1 where m: "ensurePodManagerGrpcCertMount K s = Some (r, s1)"
    using returns_mount [of K] by (force simp: returns_def)
  from mount_count [OF assms m] have s1: "r = Inr ()" "n (rs_world s1) = n (rs_world s)" by auto
  obtain b e w where b: "bounce_rounds K 14 0 (rs_world s1) = ((b, e), w)" by (metis surj_pair)
  from bounce_rounds_count [OF assms b] have "n w \<le> n (rs_world s1) + 2" by simp
  with False m s1 b sync_count [OF assms, of w] show ?thesis
    by (simp add: Phase24cPodManagerHeal_def and_do_def call_def)
qed

subsection \<open>A cluster to run on\<close>

text \<open>The world counts the restarts; the pod manager is always wedged, the CNEInstance is bare.\<close>

definition wedged_pod :: pod where
  "wedged_pod = \<lparr>po_name = ''cne-0'', po_terminating = False, po_conditions = [],
     po_statuses = [\<lparr>cs_name = ''f5-tmm-pod-manager'', cs_ready = False, cs_restarts = 7, cs_waiting = Some ''CrashLoopBackOff''\<rparr>],
     po_envs = []\<rparr>"

definition bare_cne :: cne_instance where
  "bare_cne = \<lparr>cn_name = ''bnk'', cn_env = [], cn_manifest = ''2.4.0'', cn_epp = []\<rparr>"

definition sick :: "(nat, string, unit) kube" where
  "sick = \<lparr>ku_not_found = (\<lambda>e. e = ''404''), ku_iter = (\<lambda>_. []), ku_now = (\<lambda>_. 0), ku_rfc3339 = (\<lambda>_. ''now''),
     ku_sleep = (\<lambda>_ w. (None, w)), ku_poll = (\<lambda>_ _ _ w. (None, w)), ku_save = (\<lambda>_ w. (None, w)),
     ku_deployment = (\<lambda>_ _. Inr \<lparr>de_containers = [\<lparr>hc_name = ''f5-tmm-pod-manager'', hc_mounts = []\<rparr>],
       de_selector = Some ''app=cne'', de_service_account = ''f5-cne-controller''\<rparr>),
     ku_update_deployment = (\<lambda>_ _ w. (None, w)), ku_restart = (\<lambda>_ _ w. (None, Suc w)),
     ku_pods = (\<lambda>_ _ _. Inr [wedged_pod]), ku_delete_pod = (\<lambda>_ _ w. (None, w)), ku_delete_pods = (\<lambda>_ _ w. (None, w)),
     ku_update_status = (\<lambda>_ w. (None, w)), ku_secret = (\<lambda>_ _ _. Inl ''404''), ku_update_secret = (\<lambda>_ _ w. (None, w)),
     ku_copy_secret = (\<lambda>_ _ _ w. (None, w)), ku_configmap = (\<lambda>_. Inl ''404''), ku_update_configmap = (\<lambda>_ w. (None, w)),
     ku_role_arn = (\<lambda>_ _. Inr []), ku_bindings = (\<lambda>_. Inr []), ku_role = (\<lambda>_ _. Inr []), ku_dynamic = True,
     ku_cnes = (\<lambda>_. Inr [bare_cne]), ku_patch_env = (\<lambda>_ _ w. (None, w)), ku_patch_epp = (\<lambda>_ _ w. (None, w)),
     ku_log = (\<lambda>_ _. Inl ''404''), ku_service_cidr = (\<lambda>_ _. Inr (Some ''10.100.0.0/16'')),
     ku_profiles = (\<lambda>_. Inr []), ku_profile = (\<lambda>_ _. None), ku_create_profile = (\<lambda>_ w. (None, w))\<rparr>"

definition nowhere :: "(nat, string) elsewhere" where
  "nowhere = \<lparr>el_detect = (\<lambda>_ _. Inr (True, AlreadyPatched)), el_fix = (\<lambda>_. give NothingDone)\<rparr>"

definition sick_run :: "nat run_state" where
  "sick_run = \<lparr>rs_cl = sample_intent, rs_st = sample_state, rs_world = 0\<rparr>"

theorem heal_accounts_witness:
  "\<exists>st. RunHeal (Repairs sick nowhere False) False False [''epp-namespaces''] sick_run = Some (Inr [st], sick_run) \<and>
     hs_Name st = ''epp-namespaces'' \<and>
     explained False False
       (entry ''epp-namespaces'' ''bnk f5 endpoint picker namespaces'' False (detectEPPNamespaces sick) (fixEPPNamespaces sick))
       sick_run st sick_run"
proof -
  let ?run = "RunHeal (Repairs sick nowhere False) False False [''epp-namespaces''] sick_run"
  let ?epp = "entry ''epp-namespaces'' ''bnk f5 endpoint picker namespaces'' False (detectEPPNamespaces sick) (fixEPPNamespaces sick)"
  have f: "filter (\<lambda>r. [''epp-namespaces''] = [] \<or> re_Name r \<in> set [''epp-namespaces'']) (Repairs sick nowhere False) = [?epp]"
    "filter (wanted [''epp-namespaces'']) (Repairs sick nowhere False) = [?epp]"
    by (simp_all add: Repairs_def wanted_def entry_def)
  have "\<exists>st. ?run = Some (Inr [st], sick_run)"
    unfolding RunHeal_def f
    by (simp add: heal_one_def entry_def detectEPPNamespaces_def fixEPPNamespaces_def findCNEInstanceHeal_def
        sick_def bare_cne_def has_prefix_def and_do_def query_def give_def kube_call_def call_def check_err_def outcome_def
        new_status_def Let_def)
  then obtain st where run: "?run = Some (Inr [st], sick_run)" by blast
  from heal_accounts [OF this] have "healed False False [?epp] sick_run [st] sick_run"
    unfolding f by simp
  then show ?thesis using run by (auto simp: entry_def elim!: healed_ConsE healed_NilE)
qed

definition probe :: "string \<Rightarrow> (string \<rightharpoonup> string)" where
  "probe script = (\<lambda>k. if k = ''readiness.sh'' then Some script else None)"

theorem dssm_overlay_settles_witness:
  "overlaid [''readiness.sh''] (probe ''redis-cli --tls ping'') = probe ''redis-cli --tls --insecure ping'' \<and>
   fst (dssmOverlayKeys (\<lambda>_. [''readiness.sh'']) (probe ''redis-cli --tls --insecure ping'')) = []"
proof -
  have r: "replace_all dssmTLSReplace dssmTLSInsecureReplace ''redis-cli --tls ping'' = ''redis-cli --tls --insecure ping''"
    by (simp add: replace_all.simps dssmTLSReplace_def dssmTLSInsecureReplace_def has_prefix_def)
  have o': "overlaid [''readiness.sh''] (probe ''redis-cli --tls ping'') = probe ''redis-cli --tls --insecure ping''"
    by (rule ext) (simp add: overlaid_def probe_def r)
  have k: "dssmOverlayKeys (\<lambda>_. [''readiness.sh'']) (probe ''redis-cli --tls ping'') = ([''readiness.sh''], 0)"
    by (simp add: dssmOverlayKeys_def probe_def dssmTLSReplace_def dssmInsecureMarker_def has_prefix_def)
  have v: "visits (\<lambda>_. [''readiness.sh'']) (probe x)" for x
    by (auto simp: visits_def probe_def dom_def)
  from dssm_overlay_settles [OF k o' v v] o' show ?thesis by blast
qed

theorem routes_fix_exact_witness:
  "\<exists>s'. fixTMMK8sRoutes sick sick_run = Some (Inr (RoutesSet ''10.100.0.0/16''), s') \<and>
     Get (rs_st s') ''EKS_SERVICE_CIDR'' = ''10.100.0.0/16''"
proof -
  have g: "Get (rs_st sick_run) ''EKS_SERVICE_CIDR'' = []"
    by (simp add: sick_run_def sample_state_def Get_def)
  have "\<exists>s'. fixTMMK8sRoutes sick sick_run = Some (Inr (RoutesSet ''10.100.0.0/16''), s')"
    by (simp add: fixTMMK8sRoutes_def findCNEInstanceHeal_def sick_def bare_cne_def and_do_def query_def give_def intent_def
        st_get_def st_set_def kube_call_def kube_read_def call_def check_err_def check_result_def g)
  then obtain s' where "fixTMMK8sRoutes sick sick_run = Some (Inr (RoutesSet ''10.100.0.0/16''), s')" by blast
  with routes_fix_exact [OF this] show ?thesis by blast
qed

theorem bounces_bounded_witness:
  "\<exists>s'. Phase24cPodManagerHeal sick False sick_run = Some (Inr (), s') \<and> rs_world s' \<le> 2"
proof -
  have c: "counts_restarts sick id" by (simp add: counts_restarts_def sick_def)
  have z: "rs_world sick_run = 0" by (simp add: sick_run_def)
  from bounces_bounded [OF c, of False sick_run] z show ?thesis by (simp add: numeral_2_eq_2)
qed

end
