(* ===== verification/Redact.thy ===== *)
theory Redact
  imports GoStrings
begin

text \<open>
  The redacting writer of \<open>internal/exec/redact.go\<close>: it replaces secrets in a stream, holding back
  the end of what it has seen so that a secret split between two writes is still caught. The
  underlying writer is a parameter on a world \<open>'w\<close>; a write returns the count and the error.
\<close>

type_synonym ('w, 'e) writer = "string \<Rightarrow> 'w \<Rightarrow> (nat \<times> 'e option) \<times> 'w"

(* src/internal/exec/redact.go:13-13 redactMarker part *)
definition redactMarker :: string where
  "redactMarker = ''[REDACTED]''"

(* src/internal/exec/redact.go:24-29 redactor *)
record redactor =
  rd_secrets :: "string list"
  rd_maxLen :: nat
  rd_buf :: string

definition usable :: "string list \<Rightarrow> string list" where
  "usable secrets = filter (\<lambda>s. s \<noteq> []) secrets"

(* src/internal/exec/redact.go:41-53 NewRedactor *)
definition NewRedactor :: "string list \<Rightarrow> redactor" where
  "NewRedactor secrets =
     \<lparr>rd_secrets = usable secrets, rd_maxLen = fold (\<lambda>s m. max (length s) m) (usable secrets) 0, rd_buf = []\<rparr>"

(* src/internal/exec/redact.go:157-167 redactor.isPotentialPrefix *)
definition isPotentialPrefix :: "string list \<Rightarrow> string \<Rightarrow> bool" where
  "isPotentialPrefix secrets tail \<longleftrightarrow> tail \<noteq> [] \<and> list_ex (\<lambda>s. length tail < length s \<and> has_prefix s tail) secrets"

text \<open>The first secret of the list found at the start. \<open>NewRedactor\<close> keeps no empty one.\<close>

definition match_at :: "string list \<Rightarrow> string \<Rightarrow> string option" where
  "match_at secrets d = find (\<lambda>s. s \<noteq> [] \<and> has_prefix d s) secrets"

lemma match_at_Some: "match_at secrets d = Some s \<Longrightarrow> s \<in> set secrets \<and> s \<noteq> [] \<and> has_prefix d s"
  by (auto simp: match_at_def find_Some_iff)

lemma match_at_None: "match_at secrets d = None \<longleftrightarrow> (\<forall>s\<in>set secrets. s = [] \<or> \<not> has_prefix d s)"
  by (auto simp: match_at_def find_None_iff)

text \<open>\<open>scan\<close> on the rest of the data: what goes out and what is kept.\<close>

(* src/internal/exec/redact.go:121-152 redactor.scan *)
function scan :: "string list \<Rightarrow> bool \<Rightarrow> string \<Rightarrow> string \<times> string" where
  "scan secrets final d =
     (if d = [] then ([], [])
      else case match_at secrets d of
          Some s \<Rightarrow> (case scan secrets final (drop (length s) d) of (out, keep) \<Rightarrow> (redactMarker @ out, keep))
        | None \<Rightarrow>
            if \<not> final \<and> isPotentialPrefix secrets d then ([], d)
            else (case scan secrets final (tl d) of (out, keep) \<Rightarrow> (hd d # out, keep)))"
  by pat_completeness auto
termination
  by (relation "measure (\<lambda>(_, _, d). length d)") (auto dest!: match_at_Some)

declare scan.simps [simp del]

lemma scan_Nil [simp]: "scan secrets final [] = ([], [])"
  by (simp add: scan.simps)

lemma scan_match:
  "match_at secrets d = Some s \<Longrightarrow> d \<noteq> [] \<Longrightarrow>
   scan secrets final d = map_prod ((@) redactMarker) id (scan secrets final (drop (length s) d))"
  by (subst scan.simps) (simp split: prod.splits)

lemma scan_hold:
  "match_at secrets d = None \<Longrightarrow> isPotentialPrefix secrets d \<Longrightarrow> scan secrets False d = ([], d)"
  by (subst scan.simps) simp

lemma scan_emit:
  "match_at secrets d = None \<Longrightarrow> d \<noteq> [] \<Longrightarrow> final \<or> \<not> isPotentialPrefix secrets d \<Longrightarrow>
   scan secrets final d = map_prod ((#) (hd d)) id (scan secrets final (tl d))"
  by (subst scan.simps) (auto split: prod.splits)

(* src/internal/exec/redact.go:67-100 redactor.Write *)
definition Write :: "('w, 'e) writer \<Rightarrow> redactor \<Rightarrow> string \<Rightarrow> 'w \<Rightarrow> (nat \<times> 'e option) \<times> redactor \<times> 'w" where
  "Write wr r p w =
     (if rd_secrets r = [] then (case wr p w of (res, w') \<Rightarrow> (res, r, w'))
      else
        let buf = rd_buf r @ p;
            hold = rd_maxLen r - 1
        in if length buf \<le> hold then ((length p, None), r\<lparr>rd_buf := buf\<rparr>, w)
           else
             (case scan (rd_secrets r) False (take (length buf - hold) buf) of
                (transformed, kept) \<Rightarrow>
                  (case wr transformed w of
                     ((_, Some e), w') \<Rightarrow> ((0, Some e), r\<lparr>rd_buf := buf\<rparr>, w')
                   | ((_, None), w') \<Rightarrow>
                       ((length p, None), r\<lparr>rd_buf := kept @ drop (length buf - hold) buf\<rparr>, w'))))"

(* src/internal/exec/redact.go:104-112 redactor.Close *)
definition Close :: "('w, 'e) writer \<Rightarrow> redactor \<Rightarrow> 'w \<Rightarrow> 'e option \<times> redactor \<times> 'w" where
  "Close wr r w =
     (if rd_buf r = [] then (None, r, w)
      else (case wr (fst (scan (rd_secrets r) True (rd_buf r))) w of
          ((_, err), w') \<Rightarrow> (err, r\<lparr>rd_buf := []\<rparr>, w')))"

subsection \<open>A stream into a file that takes everything\<close>

definition sink :: "(string, unit) writer" where
  "sink p w = ((length p, None), w @ p)"

fun write_all :: "redactor \<Rightarrow> string list \<Rightarrow> string \<Rightarrow> redactor \<times> string" where
  "write_all r [] w = (r, w)"
| "write_all r (p # ps) w = (case Write sink r p w of (_, r', w') \<Rightarrow> write_all r' ps w')"

text \<open>What the file holds after the writes and \<open>Close\<close>.\<close>

definition streamed :: "string list \<Rightarrow> string list \<Rightarrow> string" where
  "streamed secrets ps = (case write_all (NewRedactor secrets) ps [] of (r, w) \<Rightarrow> snd (snd (Close sink r w)))"

text \<open>The same text redacted in one piece.\<close>

definition redacted :: "string list \<Rightarrow> string \<Rightarrow> string" where
  "redacted secrets d = fst (scan (usable secrets) True d)"

text \<open>No secret is a proper beginning of another.\<close>

definition prefix_free :: "string list \<Rightarrow> bool" where
  "prefix_free ss \<longleftrightarrow> list_all (\<lambda>s. list_all (\<lambda>t. has_prefix t s \<longrightarrow> s = t) ss) ss"

lemma prefix_freeD: "prefix_free ss \<Longrightarrow> s \<in> set ss \<Longrightarrow> t \<in> set ss \<Longrightarrow> has_prefix t s \<Longrightarrow> s = t"
  by (auto simp: prefix_free_def list_all_iff)

lemma has_prefix_append: "has_prefix d s \<Longrightarrow> has_prefix (d @ z) s"
  by (metis append_eq_conv_conj append.assoc has_prefix_def append_take_drop_id)

lemma has_prefix_both: "has_prefix d s \<Longrightarrow> has_prefix d t \<Longrightarrow> length s \<le> length t \<Longrightarrow> has_prefix t s"
  unfolding has_prefix_def by (metis min.absorb1 take_take)

lemma has_prefix_length: "has_prefix d s \<Longrightarrow> length s \<le> length d"
  unfolding has_prefix_def by (metis length_take min.cobounded1 min.commute)

lemma match_at_more:
  assumes pf: "prefix_free ss" and m: "match_at ss d = Some s"
  shows "match_at ss (d @ z) = Some s"
proof -
  have s: "s \<in> set ss" "s \<noteq> []" "has_prefix (d @ z) s"
    using match_at_Some [OF m] has_prefix_append by auto
  then obtain t where t: "match_at ss (d @ z) = Some t"
    by (cases "match_at ss (d @ z)") (auto simp: match_at_None)
  from match_at_Some [OF t] have t': "t \<in> set ss" "has_prefix (d @ z) t" by auto
  have "s = t"
    using prefix_freeD [OF pf] s t' has_prefix_both by (metis nat_le_linear)
  with t show ?thesis by simp
qed

lemma match_at_less:
  assumes "match_at ss d = None" and "\<not> isPotentialPrefix ss d" and "d \<noteq> []"
  shows "match_at ss (d @ z) = None"
proof (rule ccontr)
  assume "match_at ss (d @ z) \<noteq> None"
  then obtain s where "match_at ss (d @ z) = Some s" by auto
  from match_at_Some [OF this] have s: "s \<in> set ss" "s \<noteq> []" "has_prefix (d @ z) s" by auto
  show False
  proof (cases "length s \<le> length d")
    case True
    then have "has_prefix d s" using s(3) by (simp add: has_prefix_def)
    with s assms(1) show False by (auto simp: match_at_None)
  next
    case False
    then have "has_prefix s d" using s(3) has_prefix_both [of "d @ z" d s] by (simp add: has_prefix_def)
    with False s assms(2,3) show False by (auto simp: isPotentialPrefix_def list_ex_iff)
  qed
qed

text \<open>What an interim scan emits is what the final scan of a longer text begins with.\<close>

lemma scan_interim:
  assumes "prefix_free ss" and "scan ss False d = (out, keep)"
  shows "fst (scan ss True (d @ z)) = out @ fst (scan ss True (keep @ z))"
  using assms(2)
proof (induction "length d" arbitrary: d out rule: less_induct)
  case less
  consider "d = []" | s where "d \<noteq> []" "match_at ss d = Some s"
    | "d \<noteq> []" "match_at ss d = None" "isPotentialPrefix ss d"
    | "d \<noteq> []" "match_at ss d = None" "\<not> isPotentialPrefix ss d" by (cases "match_at ss d") auto
  then show ?case
  proof cases
    case (2 s)
    from match_at_Some [OF 2(2)] have s: "s \<noteq> []" "length s \<le> length d" by (auto dest: has_prefix_length)
    obtain o1 where o1: "scan ss False (drop (length s) d) = (o1, keep)" "out = redactMarker @ o1"
      using less.prems by (cases "scan ss False (drop (length s) d)") (simp add: scan_match [OF 2(2,1)])
    have "length (drop (length s) d) < length d" using s 2 by simp
    from less.hyps [OF this o1(1)] show ?thesis
      using 2 s o1(2) by (simp add: scan_match [OF match_at_more [OF assms(1) 2(2), of z]])
  next
    case 4
    obtain o1 where o1: "scan ss False (tl d) = (o1, keep)" "out = hd d # o1"
      using less.prems by (cases "scan ss False (tl d)") (simp add: scan_emit [OF 4(2,1)] 4(3))
    have "length (tl d) < length d" using 4 by simp
    from less.hyps [OF this o1(1)] show ?thesis
      using 4 o1(2) by (simp add: scan_emit [OF match_at_less [OF 4(2,3,1), of z]])
  qed (use less.prems in \<open>simp_all add: scan_hold\<close>)
qed

lemma scan_keep: "scan ss False d = (out, keep) \<Longrightarrow> keep = [] \<or> isPotentialPrefix ss keep"
proof (induction "length d" arbitrary: d out rule: less_induct)
  case less
  consider "d = []" | s where "d \<noteq> []" "match_at ss d = Some s"
    | "d \<noteq> []" "match_at ss d = None" "isPotentialPrefix ss d"
    | "d \<noteq> []" "match_at ss d = None" "\<not> isPotentialPrefix ss d" by (cases "match_at ss d") auto
  then show ?case
  proof cases
    case (2 s)
    from match_at_Some [OF 2(2)] have "length (drop (length s) d) < length d" using 2(1) by simp
    from less.hyps [OF this] less.prems show ?thesis
      by (cases "scan ss False (drop (length s) d)") (simp add: scan_match [OF 2(2,1)])
  next
    case 4
    have "length (tl d) < length d" using 4 by simp
    from less.hyps [OF this] less.prems show ?thesis
      by (cases "scan ss False (tl d)") (simp add: scan_emit [OF 4(2,1)] 4(3))
  qed (use less.prems in \<open>simp_all add: scan_hold\<close>)
qed

text \<open>Nothing is lost or kept by the final scan.\<close>

lemma scan_final_keep: "snd (scan ss True d) = []"
proof (induction "length d" arbitrary: d rule: less_induct)
  case less
  show ?case
  proof (cases "match_at ss d")
    case None
    with less show ?thesis by (cases "d = []") (simp_all add: scan_emit)
  next
    case (Some s)
    from match_at_Some [OF Some] have "s \<noteq> []" by simp
    with less Some show ?thesis by (cases "d = []") (simp_all add: scan_match)
  qed
qed

end
