(* ===== verification/RedactClaims.thy ===== *)
theory RedactClaims
  imports Redact
begin

text \<open>
  What the redacting writer guarantees: how a text is cut into writes does not matter, as long as no
  secret begins another, and outside the markers only stretches without a secret come through.
\<close>

lemma Write_secrets: "Write wr r p w = (res, r', w') \<Longrightarrow> rd_secrets r' = rd_secrets r \<and> rd_maxLen r' = rd_maxLen r"
  by (auto simp: Write_def Let_def split: if_splits prod.splits option.splits)

lemma Write_sink:
  assumes "prefix_free (rd_secrets r)" and "rd_secrets r \<noteq> []" and "Write sink r p w = (res, r', w')"
  shows "w' @ fst (scan (rd_secrets r) True (rd_buf r' @ z)) = w @ fst (scan (rd_secrets r) True (rd_buf r @ p @ z))"
proof -
  let ?ss = "rd_secrets r" and ?buf = "rd_buf r @ p"
  let ?n = "length ?buf - (rd_maxLen r - 1)"
  show ?thesis
  proof (cases "length ?buf \<le> rd_maxLen r - 1")
    case True
    with assms(2,3) show ?thesis by (auto simp: Write_def Let_def)
  next
    case False
    obtain out keep where s: "scan ?ss False (take ?n ?buf) = (out, keep)" by fastforce
    from scan_interim [OF assms(1) s, of "drop ?n ?buf @ z"]
    have "fst (scan ?ss True (?buf @ z)) = out @ fst (scan ?ss True ((keep @ drop ?n ?buf) @ z))"
      by (metis append.assoc append_take_drop_id)
    moreover have "w' = w @ out" "rd_buf r' = keep @ drop ?n ?buf"
      using False assms(2,3) s by (auto simp: Write_def Let_def sink_def)
    ultimately show ?thesis by simp
  qed
qed

lemma write_all_sink:
  assumes "prefix_free ss" and "ss \<noteq> []"
  shows "rd_secrets r = ss \<Longrightarrow> write_all r ps w = (r', w') \<Longrightarrow>
    rd_secrets r' = ss \<and> w' @ fst (scan ss True (rd_buf r')) = w @ fst (scan ss True (rd_buf r @ concat ps))"
proof (induction ps arbitrary: r w)
  case (Cons p ps)
  obtain res r1 w1 where wr: "Write sink r p w = (res, r1, w1)" by (metis surj_pair)
  with Cons.prems have rest: "rd_secrets r1 = ss" "write_all r1 ps w1 = (r', w')"
    by (auto dest: Write_secrets)
  have "w1 @ fst (scan ss True (rd_buf r1 @ concat ps)) = w @ fst (scan ss True (rd_buf r @ p @ concat ps))"
    using Write_sink [OF _ _ wr] assms Cons.prems(1) by simp
  with Cons.IH [OF rest] show ?case by simp
qed simp

lemma write_all_passthrough: "rd_secrets r = [] \<Longrightarrow> write_all r ps w = (r, w @ concat ps)"
  by (induction ps arbitrary: w) (simp_all add: Write_def sink_def)

lemma scan_no_secrets: "fst (scan [] True d) = d"
proof (induction d)
  case (Cons c d)
  have "match_at [] (c # d) = None" by (simp add: match_at_def)
  from scan_emit [OF this, of True] Cons show ?case by simp
qed simp

lemma streamed_redacted: "prefix_free (usable secrets) \<Longrightarrow> streamed secrets ps = redacted secrets (concat ps)"
proof (cases "usable secrets = []")
  case True
  then have "rd_secrets (NewRedactor secrets) = []" by (simp add: NewRedactor_def)
  from write_all_passthrough [OF this] True show ?thesis
    by (simp add: streamed_def redacted_def scan_no_secrets Close_def NewRedactor_def)
next
  case False
  assume pf: "prefix_free (usable secrets)"
  obtain r w where wa: "write_all (NewRedactor secrets) ps [] = (r, w)" by fastforce
  have "rd_secrets (NewRedactor secrets) = usable secrets" "rd_buf (NewRedactor secrets) = []"
    by (simp_all add: NewRedactor_def)
  with write_all_sink [OF pf False _ wa] wa show ?thesis
    by (cases "rd_buf r = []") (simp_all add: streamed_def redacted_def Close_def sink_def)
qed

text \<open>
  C14 The redacting writer does not depend on how the stream is cut into writes: when no secret
  is a proper beginning of another, what reaches the underlying writer is the whole text redacted at
  once. The condition is needed: with the secrets \<open>abcdef\<close> and \<open>abc\<close> a cut inside \<open>abcdef\<close> lets its end
  \<open>def\<close> through, which redacting the text at once does not.
\<close>

theorem stream_is_batch:
  "(prefix_free (usable secrets) \<longrightarrow> streamed secrets ps = redacted secrets (concat ps)) \<and>
   streamed [''abcdef'', ''abc''] [''abcdef'', ''gh''] = ''[REDACTED]defgh'' \<and>
   redacted [''abcdef'', ''abc''] ''abcdefgh'' = ''[REDACTED]gh''"
proof -
  have "streamed [''abcdef'', ''abc''] [''abcdef'', ''gh''] = ''[REDACTED]defgh''" by code_simp
  moreover have "redacted [''abcdef'', ''abc''] ''abcdefgh'' = ''[REDACTED]gh''" by code_simp
  ultimately show ?thesis by (simp add: streamed_redacted)
qed

theorem stream_is_batch_witness:
  "prefix_free (usable [''hunter2'', [], ''s3cr3t'']) \<and>
   streamed [''hunter2'', [], ''s3cr3t''] [''pw=hun'', ''ter2 key=s3'', ''cr3t.''] = ''pw=[REDACTED] key=[REDACTED].''"
proof -
  have "prefix_free (usable [''hunter2'', [], ''s3cr3t''])"
    "redacted [''hunter2'', [], ''s3cr3t''] (concat [''pw=hun'', ''ter2 key=s3'', ''cr3t.'']) = ''pw=[REDACTED] key=[REDACTED].''"
    by code_simp+
  with stream_is_batch [of "[''hunter2'', [], ''s3cr3t'']" "[''pw=hun'', ''ter2 key=s3'', ''cr3t.'']"] show ?thesis by simp
qed

subsection \<open>What comes through\<close>

definition secret_free :: "string list \<Rightarrow> string \<Rightarrow> bool" where
  "secret_free ss l \<longleftrightarrow> list_all (\<lambda>s. \<not> contains l s) ss"

text \<open>Stretches, each followed by a secret, and the rest.\<close>

definition cut_into :: "string list \<Rightarrow> string \<Rightarrow> string \<Rightarrow> (string \<times> string) list \<Rightarrow> string \<Rightarrow> bool" where
  "cut_into ss d out hits rest \<longleftrightarrow>
     d = concat (map (\<lambda>(l, s). l @ s) hits) @ rest \<and>
     out = concat (map (\<lambda>(l, _). l @ redactMarker) hits) @ rest \<and>
     list_all (\<lambda>(l, s). s \<in> set ss \<and> secret_free ss l) hits \<and> secret_free ss rest"

lemma secret_free_Cons:
  assumes "match_at ss (c # l @ z) = None" and "[] \<notin> set ss" and "secret_free ss l"
  shows "secret_free ss (c # l)"
proof -
  have "\<not> has_prefix (c # l) s" if "s \<in> set ss" for s
    using assms(1,2) that has_prefix_append [of "c # l" s z] by (auto simp: match_at_None)
  with assms(3) show ?thesis by (auto simp: secret_free_def list_all_iff)
qed

lemma cut_into_Cons:
  "cut_into ss d out ((l, s) # hs) rest \<Longrightarrow> secret_free ss (c # l) \<Longrightarrow> cut_into ss (c # d) (c # out) ((c # l, s) # hs) rest"
  by (simp add: cut_into_def)

lemma scan_cuts:
  assumes "[] \<notin> set ss"
  shows "\<exists>hits rest. cut_into ss d (fst (scan ss True d)) hits rest"
proof (induction "length d" arbitrary: d rule: less_induct)
  case less
  show ?case
  proof (cases d)
    case Nil
    have "cut_into ss [] [] [] []"
      using assms by (auto simp: cut_into_def secret_free_def list_all_iff)
    with Nil show ?thesis by auto
  next
    case (Cons c d')
    show ?thesis
    proof (cases "match_at ss d")
      case (Some s)
      from match_at_Some [OF Some] have s: "s \<in> set ss" "s \<noteq> []" "has_prefix d s" by auto
      then have "length (drop (length s) d) < length d" using Cons by simp
      from less [OF this] obtain hits rest where
        "cut_into ss (drop (length s) d) (fst (scan ss True (drop (length s) d))) hits rest" by blast
      moreover have "d = s @ drop (length s) d" using s(3) by (metis append_take_drop_id has_prefix_def)
      moreover have "fst (scan ss True d) = redactMarker @ fst (scan ss True (drop (length s) d))"
        using scan_match [OF Some, of True] \<open>d = c # d'\<close> by (metis fst_map_prod list.distinct(1))
      moreover have "secret_free ss []" using assms by (auto simp: secret_free_def list_all_iff)
      ultimately have "cut_into ss d (fst (scan ss True d)) (([], s) # hits) rest"
        using s(1) by (simp add: cut_into_def)
      then show ?thesis by blast
    next
      case None
      from less [of d'] Cons obtain hits rest where h: "cut_into ss d' (fst (scan ss True d')) hits rest" by auto
      have e: "fst (scan ss True d) = c # fst (scan ss True d')"
        using scan_emit [OF None, of True] Cons by simp
      show ?thesis
      proof (cases hits)
        case Nil
        with h have r: "d' = rest @ []" "secret_free ss rest" "fst (scan ss True d') = rest" by (auto simp: cut_into_def)
        with None \<open>d = c # d'\<close> have "secret_free ss (c # rest)" using secret_free_Cons [of ss c rest "[]"] assms by simp
        moreover have "fst (scan ss True d) = c # rest" "d = c # rest" using e r \<open>d = c # d'\<close> by simp_all
        ultimately have "cut_into ss d (fst (scan ss True d)) [] (c # rest)" by (simp add: cut_into_def)
        then show ?thesis by blast
      next
        case (Cons p hs)
        obtain l s where p: "p = (l, s)" by fastforce
        with h Cons have d': "d' = l @ s @ concat (map (\<lambda>(l, s). l @ s) hs) @ rest" "secret_free ss l"
          by (auto simp: cut_into_def)
        with None \<open>d = c # d'\<close> assms have "secret_free ss (c # l)" using secret_free_Cons by simp
        with h Cons p have "cut_into ss (c # d') (c # fst (scan ss True d')) ((c # l, s) # hs) rest"
          by (simp add: cut_into_Cons)
        then have "cut_into ss d (fst (scan ss True d)) ((c # l, s) # hs) rest" using e \<open>d = c # d'\<close> by simp
        then show ?thesis by blast
      qed
    qed
  qed
qed

text \<open>
  C21 The redacting writer lets no secret through: when no secret is a proper beginning of
  another, the stream is cut into stretches, each followed by a secret, and a rest; the output is the
  same stretches with the marker in place of each secret, and no stretch contains a secret.
\<close>

theorem redactor_hides:
  assumes "prefix_free (usable secrets)"
  shows "\<exists>hits rest. cut_into (usable secrets) (concat ps) (streamed secrets ps) hits rest"
  using scan_cuts [of "usable secrets" "concat ps"]
  by (simp add: streamed_redacted [OF assms] redacted_def usable_def)

theorem redactor_hides_witness:
  "\<exists>hits rest. cut_into [''hunter2''] ''pw=hunter2.'' (streamed [''hunter2''] [''pw=hunt'', ''er2.'']) hits rest"
proof -
  have "prefix_free (usable [''hunter2''])" "usable [''hunter2''] = [''hunter2'']" by code_simp+
  with redactor_hides [of "[''hunter2'']" "[''pw=hunt'', ''er2.'']"] show ?thesis by simp
qed

subsection \<open>The buffer\<close>

text \<open>Between writes less than twice the longest secret is held back.\<close>

lemma buffer_bounded:
  assumes "Write wr r p w = ((n, None), r', w')" and "rd_secrets r \<noteq> []"
    and "list_all (\<lambda>s. length s \<le> rd_maxLen r) (rd_secrets r)"
  shows "length (rd_buf r') \<le> 2 * (rd_maxLen r - 1)"
proof -
  have keep: "length keep \<le> rd_maxLen r - 1" if "scan (rd_secrets r) False d = (out, keep)" for d out keep
    using scan_keep [OF that] assms(3) by (fastforce simp: isPotentialPrefix_def list_ex_iff list_all_iff)
  show ?thesis
    using assms(1,2) by (auto simp: Write_def Let_def dest!: keep split: if_splits prod.splits option.splits)
qed

end
