(* ===== verification/BnkScan.thy ===== *)
theory BnkScan
  imports GoAny Polling
begin

text \<open>
  The readiness verdict of a BNK cluster: \<open>internal/k8s/bnkscan\<close> (\<open>types.go\<close>, \<open>scan.go\<close>,
  \<open>readiness.go\<close>). The API server is a record of the reads the code makes, on a world \<open>'w\<close> that a scan
  does not change; an object is the record of what the apimachinery accessors return for it (\<open>Nested...\<close>
  of a path; an absent or mistyped string is empty). A problem is a constructor with the arguments of
  its text.
\<close>

subsection \<open>Objects\<close>

record unst =
  un_kind :: string
  un_apiVersion :: string
  un_namespace :: string
  un_name :: string
  un_annotations :: "string \<rightharpoonup> string"
  un_slice :: "string list \<Rightarrow> any list option"
  un_string :: "string list \<Rightarrow> string"
  un_bool :: "string list \<Rightarrow> bool option"
  un_strings :: "string list \<Rightarrow> string list"
  un_field :: "string list \<Rightarrow> any option"

(* src/internal/k8s/bnkscan/types.go:149-156 Condition *)
record condition =
  co_Type :: string
  co_Status :: string
  co_Reason :: string
  co_Message :: string

text \<open>What a detail line is made of.\<close>

datatype detail_item = Lacks string | Reports condition | NoParentStatus

(* src/internal/k8s/bnkscan/types.go:127-138 Object *)
record bnk_object =
  bo_Kind :: string
  bo_APIVersion :: string
  bo_Namespace :: string
  bo_Name :: string
  bo_Conditions :: "condition list"
  bo_Ready :: bool
  bo_Detail :: "detail_item list"

(* src/internal/k8s/bnkscan/types.go:141-146 Object.ID *)
definition object_ID :: "bnk_object \<Rightarrow> string" where
  "object_ID b = (if bo_Namespace b = [] then bo_Name b else bo_Namespace b @ ''/'' @ bo_Name b)"

fun condition_of :: "any \<Rightarrow> condition option" where
  "condition_of (AMap m) = Some \<lparr>co_Type = string_in m ''type'', co_Status = string_in m ''status'',
     co_Reason = string_in m ''reason'', co_Message = string_in m ''message''\<rparr>"
| "condition_of _ = None"

(* src/internal/k8s/bnkscan/scan.go:455-474 conditionsOf *)
definition conditionsOf :: "any list option \<Rightarrow> condition list" where
  "conditionsOf found = (case found of None \<Rightarrow> [] | Some items \<Rightarrow> List.map_filter condition_of items)"

definition status_conditions :: "unst \<Rightarrow> condition list" where
  "status_conditions u = conditionsOf (un_slice u [''status'', ''conditions''])"

(* src/internal/k8s/bnkscan/scan.go:539-546 findCondition *)
definition findCondition :: "condition list \<Rightarrow> string \<Rightarrow> condition option" where
  "findCondition conds t = find (\<lambda>c. co_Type c = t) conds"

definition require_one :: "condition list \<Rightarrow> string \<Rightarrow> detail_item list" where
  "require_one conds t =
     (case findCondition conds t of
        None \<Rightarrow> [Lacks t]
      | Some c \<Rightarrow> if co_Status c \<noteq> ''True'' then [Reports c] else [])"

definition object_to_one :: "condition list \<Rightarrow> string \<Rightarrow> detail_item list" where
  "object_to_one conds t =
     (case findCondition conds t of
        None \<Rightarrow> []
      | Some c \<Rightarrow> if co_Status c \<noteq> ''True'' then [Reports c] else [])"

text \<open>A verdict is its list of detail items: ready when there is none.\<close>

(* src/internal/k8s/bnkscan/scan.go:477-495 requireTrue *)
definition requireTrue :: "string list \<Rightarrow> unst \<Rightarrow> detail_item list" where
  "requireTrue types u = concat (map (require_one (status_conditions u)) types)"

(* src/internal/k8s/bnkscan/scan.go:498-512 trueIfPresent *)
definition trueIfPresent :: "string list \<Rightarrow> unst \<Rightarrow> detail_item list" where
  "trueIfPresent types u = concat (map (object_to_one (status_conditions u)) types)"

fun map_slice :: "any \<Rightarrow> string \<Rightarrow> any list option" where
  "map_slice (AMap m) k = (case map_of m k of Some (AList l) \<Rightarrow> Some l | _ \<Rightarrow> None)"
| "map_slice _ k = None"

(* src/internal/k8s/bnkscan/scan.go:515-537 routeReady *)
definition routeReady :: "unst \<Rightarrow> detail_item list" where
  "routeReady u =
     (case un_slice u [''status'', ''parents''] of
        None \<Rightarrow> [NoParentStatus]
      | Some [] \<Rightarrow> [NoParentStatus]
      | Some parents \<Rightarrow>
          concat (map (\<lambda>p. concat (map (object_to_one (conditionsOf (map_slice p ''conditions''))) [''Accepted'', ''ResolvedRefs''])) parents))"

(* src/internal/k8s/bnkscan/scan.go:442-452 toObject *)
definition toObject :: "(unst \<Rightarrow> detail_item list) \<Rightarrow> unst \<Rightarrow> bnk_object" where
  "toObject ready u =
     \<lparr>bo_Kind = un_kind u, bo_APIVersion = un_apiVersion u, bo_Namespace = un_namespace u, bo_Name = un_name u,
      bo_Conditions = status_conditions u, bo_Ready = (ready u = []), bo_Detail = ready u\<rparr>"

subsection \<open>The API server\<close>

type_synonym gvr = "string \<times> string \<times> string"

record bnk_event =
  ev_object :: string
  ev_warning :: bool
  ev_last :: "int option"
  ev_time :: int
  ev_reason :: string
  ev_message :: string

record daemonset_read =
  dr_desired :: int
  dr_ready :: int
  dr_selector :: "string option"

record ('w, 'e) cluster_api =
  ca_not_found :: "'e \<Rightarrow> bool"
  ca_forbidden :: "'e \<Rightarrow> bool"
  ca_list :: "gvr \<Rightarrow> 'w \<Rightarrow> 'e + unst list"
  ca_clientset :: bool
  ca_deployment :: "string \<Rightarrow> string \<Rightarrow> 'w \<Rightarrow> 'e + int option \<times> int"
  ca_daemonset :: "string \<Rightarrow> string \<Rightarrow> 'w \<Rightarrow> 'e + daemonset_read"
  ca_pods :: "string \<Rightarrow> string \<Rightarrow> 'w \<Rightarrow> 'e + (string \<times> string) list"
  ca_events :: "string \<Rightarrow> string \<Rightarrow> 'w \<Rightarrow> 'e + bnk_event list"

text \<open>Every namespace, by namespace and name.\<close>

(* src/internal/k8s/bnkscan/scan.go:357-373 listAll *)
definition listAll :: "('w, 'e) cluster_api \<Rightarrow> gvr \<Rightarrow> 'w \<Rightarrow> 'e + unst list" where
  "listAll A g w = map_sum id (\<lambda>items. sort_key un_namespace (sort_key un_name items)) (ca_list A g w)"

(* src/internal/k8s/bnkscan/scan.go:377-383 countAll *)
definition countAll :: "('w, 'e) cluster_api \<Rightarrow> gvr \<Rightarrow> 'w \<Rightarrow> nat" where
  "countAll A g w = (case ca_list A g w of Inl _ \<Rightarrow> 0 | Inr items \<Rightarrow> length items)"

subsection \<open>Generations\<close>

(* src/internal/k8s/bnkscan/types.go:13-13 Generation *)
datatype generation = Gen23 | Gen24 | GenMixed | GenNone

definition GatewayF5Group :: string where
  "GatewayF5Group = ''gateway.k8s.f5.com''"

definition LegacyPolicyGroup :: string where
  "LegacyPolicyGroup = ''gateway.k8s.f5net.com''"

definition GatewayAPIGroup :: string where
  "GatewayAPIGroup = ''gateway.networking.k8s.io''"

definition DataPlaneGroup :: string where
  "DataPlaneGroup = ''k8s.f5net.com''"

definition FLOGroup :: string where
  "FLOGroup = ''k8s.f5.com''"

definition InferenceF5Group :: string where
  "InferenceF5Group = ''inference.k8s.f5.com''"

(* src/internal/k8s/bnkscan/types.go:414-435 DetectGeneration *)
definition DetectGeneration :: "string list \<Rightarrow> generation" where
  "DetectGeneration groups =
     (let new24 = GatewayF5Group \<in> set groups;
          old23 = LegacyPolicyGroup \<in> set groups
      in if new24 \<and> old23 then GenMixed else if new24 then Gen24 else if old23 then Gen23 else GenNone)"

text \<open>The groups probed when the CRDs cannot be listed, each with the kind that is read.\<close>

definition probes :: "(string \<times> gvr) list" where
  "probes =
     [(GatewayF5Group, (GatewayF5Group, ''v1alpha1'', ''netpolicies'')),
      (LegacyPolicyGroup, (LegacyPolicyGroup, ''v1alpha1'', ''bnknetpolicies'')),
      (DataPlaneGroup, (DataPlaneGroup, ''v1'', ''f5-big-cne-irules'')),
      (FLOGroup, (FLOGroup, ''v1'', ''cneinstances'')),
      (InferenceF5Group, (InferenceF5Group, ''v1alpha1'', ''aigatewayprofiles''))]"

datatype 'e scan_error =
    CRDsUnread 'e
  | ListFailed string 'e
  | DeploymentUnread string string 'e
  | DaemonSetUnread string string 'e

definition crd_gvr :: gvr where
  "crd_gvr = (''apiextensions.k8s.io'', ''v1'', ''customresourcedefinitions'')"

text \<open>The groups served, and the names of the CRDs when they could be listed.\<close>

(* src/internal/k8s/bnkscan/scan.go:388-424 f5CRDGroups *)
definition f5CRDGroups :: "('w, 'e) cluster_api \<Rightarrow> 'w \<Rightarrow> 'e scan_error + string list \<times> string list option" where
  "f5CRDGroups A w =
     (case ca_list A crd_gvr w of
        Inr crds \<Rightarrow>
          Inr (sort (remdups (filter (\<lambda>g. has_suffix g ''f5.com'' \<or> has_suffix g ''f5net.com'')
                 (map (\<lambda>u. un_string u [''spec'', ''group'']) crds))),
               Some (map un_name crds))
      | Inl e \<Rightarrow>
          if \<not> ca_forbidden A e \<and> \<not> ca_not_found A e then Inl (CRDsUnread e)
          else Inr (sort (map fst (filter (\<lambda>(g, k). \<not> isl (ca_list A k w)) probes)), None))"

subsection \<open>The index\<close>

(* src/internal/k8s/bnkscan/types.go:159-166 Controller *)
record controller =
  ct_Namespace :: string
  ct_Name :: string
  ct_Found :: bool
  ct_Desired :: int
  ct_Available :: int
  ct_Ready :: bool

text \<open>A pod that does not run: its name, its phase, and its latest warning if any.\<close>

(* src/internal/k8s/bnkscan/types.go:169-178 TMM *)
record tmm =
  tm_Namespace :: string
  tm_Name :: string
  tm_Found :: bool
  tm_Desired :: int
  tm_Ready :: int
  tm_Pending :: "string list"

(* src/internal/k8s/bnkscan/types.go:181-181 TMM.Complete *)
definition Complete :: "tmm \<Rightarrow> bool" where
  "Complete t \<longleftrightarrow> tm_Found t \<and> 0 < tm_Desired t \<and> tm_Desired t \<le> tm_Ready t"

(* src/internal/k8s/bnkscan/types.go:184-190 Legacy *)
record legacy_counts =
  lc_BnkGateways :: nat
  lc_BNKSecPolicy :: nat
  lc_BNKNetPolicy :: nat
  lc_F5SPKVlans :: nat
  lc_F5SPKEgresses :: nat

(* src/internal/k8s/bnkscan/types.go:195-197 Legacy.count *)
definition legacy_total :: "legacy_counts \<Rightarrow> nat" where
  "legacy_total l = lc_BnkGateways l + lc_BNKSecPolicy l + lc_BNKNetPolicy l + lc_F5SPKVlans l + lc_F5SPKEgresses l"

text \<open>The slices of objects are one function of the kind. The MCP endpoints are in \<open>BnkMcp\<close>.\<close>

(* src/internal/k8s/bnkscan/types.go:282-324 Index *)
record bnk_index =
  ix_Generation :: generation
  ix_Groups :: "string list"
  ix_Objects :: "string \<Rightarrow> bnk_object list"
  ix_DNSResolverReady :: bool
  ix_Controller :: controller
  ix_TMM :: tmm
  ix_Legacy :: legacy_counts
  ix_Missing :: "string list"

subsection \<open>Problems\<close>

datatype bnk_problem =
    NoPolicyGroup
  | Serves23
  | NoController string string
  | ControllerShort string string int int
  | TMMShort string string int int "string list"
  | NoInfra
  | NotReady string string "detail_item list"
  | ProfileNotReady string "detail_item list" "string option"

definition not_ready :: "string \<Rightarrow> bnk_index \<Rightarrow> bnk_problem list" where
  "not_ready kind idx = map (\<lambda>b. NotReady kind (object_ID b) (bo_Detail b)) (filter (\<lambda>b. \<not> bo_Ready b) (ix_Objects idx kind))"

text \<open>The last argument: the profile lies outside the namespace of this controller.\<close>

definition profiles_not_ready :: "bnk_index \<Rightarrow> bnk_problem list" where
  "profiles_not_ready idx =
     map (\<lambda>b. ProfileNotReady (object_ID b) (bo_Detail b)
            (if ct_Found (ix_Controller idx) \<and> bo_Namespace b \<noteq> [] \<and> bo_Namespace b \<noteq> ct_Namespace (ix_Controller idx)
             then Some (ct_Namespace (ix_Controller idx)) else None))
       (filter (\<lambda>b. \<not> bo_Ready b) (ix_Objects idx ''F5BigPersistenceProfile''))"

(* src/internal/k8s/bnkscan/types.go:353-411 Index.problems *)
definition problems :: "bool \<Rightarrow> bnk_index \<Rightarrow> bnk_problem list" where
  "problems acceptLegacy idx =
     (let c = ix_Controller idx; t = ix_TMM idx; gen = ix_Generation idx in
      (case gen of
         GenNone \<Rightarrow> [NoPolicyGroup]
       | Gen23 \<Rightarrow> if acceptLegacy then [] else [Serves23]
       | _ \<Rightarrow> []) @
      (if \<not> ct_Found c then [NoController (ct_Namespace c) (ct_Name c)]
       else if \<not> ct_Ready c then [ControllerShort (ct_Namespace c) (ct_Name c) (ct_Available c) (ct_Desired c)] else []) @
      (if tm_Found t \<and> \<not> Complete t then [TMMShort (tm_Namespace t) (tm_Name t) (tm_Ready t) (tm_Desired t) (tm_Pending t)] else []) @
      (if gen = Gen24 \<or> gen = GenMixed
       then (if ix_Objects idx ''Infra'' = [] then [NoInfra] else []) @ not_ready ''Infra'' idx else []) @
      not_ready ''Gateway'' idx @
      profiles_not_ready idx @
      not_ready ''AIGatewayProfile'' idx @
      not_ready ''AIGateway'' idx)"

(* src/internal/k8s/bnkscan/types.go:350-350 Index.Problems *)
definition Problems :: "bnk_index \<Rightarrow> bnk_problem list" where
  "Problems idx = problems False idx"

(* src/internal/k8s/bnkscan/types.go:345-347 Index.Ready *)
definition index_Ready :: "bnk_index \<Rightarrow> bool" where
  "index_Ready idx \<longleftrightarrow> Problems idx = []"

end
