(* ===== verification/BnkReadiness.thy ===== *)
theory BnkReadiness
  imports BnkScan
begin

text \<open>
  One scan of the cluster and the verdict every command shares: \<open>Scan\<close> (\<open>bnkscan/scan.go\<close>) and
  \<open>readiness.go\<close>. The posture of the AI gateway, which is printed only, is not modelled.
\<close>

subsection \<open>Reading kinds\<close>

definition either :: "'e + 'a \<Rightarrow> ('a \<Rightarrow> 'e + 'b) \<Rightarrow> 'e + 'b" where
  "either r f = (case r of Inl e \<Rightarrow> Inl e | Inr x \<Rightarrow> f x)"

text \<open>\<open>None\<close> is a kind the API server does not serve.\<close>

definition read_kind :: "('w, 'e) cluster_api \<Rightarrow> string \<Rightarrow> gvr \<Rightarrow> 'w \<Rightarrow> 'e scan_error + unst list option" where
  "read_kind A kind g w =
     (case listAll A g w of
        Inr items \<Rightarrow> Inr (Some items)
      | Inl e \<Rightarrow> if ca_not_found A e then Inr None else Inl (ListFailed kind e))"

fun read_kinds :: "('w, 'e) cluster_api \<Rightarrow> (string \<times> gvr) list \<Rightarrow> 'w \<Rightarrow> 'e scan_error + (string \<times> unst list option) list" where
  "read_kinds A [] w = Inr []"
| "read_kinds A ((kind, g) # ks) w =
     either (read_kind A kind g w) (\<lambda>r. either (read_kinds A ks w) (\<lambda>rs. Inr ((kind, r) # rs)))"

text \<open>An optional kind is read when its CRD is served, or the CRDs could not be listed.\<close>

definition readable :: "string list option \<Rightarrow> string \<Rightarrow> bool" where
  "readable served crd \<longleftrightarrow> (case served of None \<Rightarrow> True | Some names \<Rightarrow> crd \<in> set names)"

fun read_optional ::
  "('w, 'e) cluster_api \<Rightarrow> string list option \<Rightarrow> (string \<times> string \<times> gvr) list \<Rightarrow> 'w \<Rightarrow> 'e scan_error + (string \<times> unst list) list" where
  "read_optional A served [] w = Inr []"
| "read_optional A served ((kind, crd, g) # ks) w =
     either (if readable served crd then read_kind A kind g w else Inr None) (\<lambda>r.
     either (read_optional A served ks w) (\<lambda>rs. Inr ((kind, case r of None \<Rightarrow> [] | Some items \<Rightarrow> items) # rs)))"

definition f5_kind :: "string \<Rightarrow> gvr" where
  "f5_kind resource = (GatewayF5Group, ''v1alpha1'', resource)"

definition inference_kind :: "string \<Rightarrow> gvr" where
  "inference_kind resource = (InferenceF5Group, ''v1alpha1'', resource)"

definition data_plane_kind :: "string \<Rightarrow> gvr" where
  "data_plane_kind resource = (DataPlaneGroup, ''v1'', resource)"

definition gateway_api_kind :: "string \<Rightarrow> gvr" where
  "gateway_api_kind resource = (GatewayAPIGroup, ''v1'', resource)"

(* src/internal/k8s/bnkscan/scan.go:84-98 Scan part *)
definition required_kinds :: "(string \<times> gvr) list" where
  "required_kinds =
     [(''Infra'', f5_kind ''infras''), (''GatewaySettings'', f5_kind ''gatewaysettings''),
      (''EgressGateway'', f5_kind ''egressgateways''), (''SecPolicy'', f5_kind ''secpolicies''),
      (''NetPolicy'', f5_kind ''netpolicies''),
      (''F5BigPersistenceProfile'', data_plane_kind ''f5-big-persistence-profiles'')]"

(* src/internal/k8s/bnkscan/scan.go:114-139 Scan part *)
definition optional_kinds :: "(string \<times> string \<times> gvr) list" where
  "optional_kinds =
     [(''F5BigDnsCache'', ''f5-big-dns-caches.k8s.f5net.com'', data_plane_kind ''f5-big-dns-caches''),
      (''F5BigDnsApp'', ''f5-big-dns-apps.k8s.f5net.com'', data_plane_kind ''f5-big-dns-apps''),
      (''F5BigDnsZone'', ''f5-big-dns-zones.k8s.f5net.com'', data_plane_kind ''f5-big-dns-zones''),
      (''F5BigCnatPolicy'', ''f5-big-cnat-policies.k8s.f5net.com'', data_plane_kind ''f5-big-cnat-policies''),
      (''F5DiameterEndpoint'', ''f5-diameter-endpoints.k8s.f5net.com'', data_plane_kind ''f5-diameter-endpoints''),
      (''AppPolicy'', ''apppolicies.gateway.k8s.f5.com'', f5_kind ''apppolicies''),
      (''L4GlobalPolicy'', ''l4globalpolicies.gateway.k8s.f5.com'', f5_kind ''l4globalpolicies''),
      (''AITenant'', ''aitenants.inference.k8s.f5.com'', inference_kind ''aitenants''),
      (''AICredential'', ''aicredentials.inference.k8s.f5.com'', inference_kind ''aicredentials''),
      (''AIProvider'', ''aiproviders.inference.k8s.f5.com'', inference_kind ''aiproviders''),
      (''AIModel'', ''aimodels.inference.k8s.f5.com'', inference_kind ''aimodels''),
      (''AIGatewayProfile'', ''aigatewayprofiles.inference.k8s.f5.com'', inference_kind ''aigatewayprofiles''),
      (''AIRoute'', ''airoutes.inference.k8s.f5.com'', inference_kind ''airoutes''),
      (''AIRoutePolicy'', ''airoutepolicies.inference.k8s.f5.com'', inference_kind ''airoutepolicies''),
      (''AIGateway'', ''aigateways.inference.k8s.f5.com'', inference_kind ''aigateways'')]"

definition gateway_kinds :: "(string \<times> gvr) list" where
  "gateway_kinds =
     [(''GatewayClass'', gateway_api_kind ''gatewayclasses''), (''Gateway'', gateway_api_kind ''gateways''),
      (''HTTPRoute'', gateway_api_kind ''httproutes'')]"

text \<open>The readiness rule of each kind.\<close>

definition rule_of :: "string \<Rightarrow> unst \<Rightarrow> detail_item list" where
  "rule_of kind =
     (if kind = ''Infra'' \<or> kind = ''F5BigPersistenceProfile'' then requireTrue [''Programmed'']
      else if kind = ''Gateway'' then requireTrue [''Accepted'', ''Programmed'']
      else if kind = ''HTTPRoute'' then routeReady
      else if kind \<in> {''F5BigDnsCache'', ''F5BigDnsApp'', ''F5BigDnsZone'', ''F5BigCnatPolicy'', ''F5DiameterEndpoint''}
        then trueIfPresent [''Programmed'']
      else trueIfPresent [''Accepted'', ''Programmed''])"

(* src/internal/k8s/bnkscan/scan.go:429-438 bnkGatewayClasses *)
definition bnkGatewayClasses :: "unst list \<Rightarrow> string list" where
  "bnkGatewayClasses classes =
     map un_name (filter (\<lambda>c. let ctrl = un_string c [''spec'', ''controllerName''] in
       has_prefix ctrl ''f5.com/'' \<or> contains ctrl ''f5-cne-controller'') classes)"

text \<open>Every Gateway when no class is the controller's.\<close>

(* src/internal/k8s/bnkscan/scan.go:168-182 Scan part *)
definition our_gateways :: "unst list \<Rightarrow> unst list \<Rightarrow> unst list" where
  "our_gateways classes gateways =
     filter (\<lambda>g. bnkGatewayClasses classes = [] \<or> un_string g [''spec'', ''gatewayClassName''] \<in> set (bnkGatewayClasses classes)) gateways"

subsection \<open>Rollouts\<close>

(* src/internal/k8s/bnkscan/scan.go:20-31 Options *)
record scan_options =
  so_ControllerNamespace :: string
  so_ControllerName :: string
  so_TMMName :: string
  so_AcceptLegacy :: bool

(* src/internal/k8s/bnkscan/scan.go:33-44 Options.withDefaults *)
definition withDefaults :: "scan_options \<Rightarrow> scan_options" where
  "withDefaults opt = opt\<lparr>
     so_ControllerNamespace := (if so_ControllerNamespace opt = [] then ''f5-cne-system'' else so_ControllerNamespace opt),
     so_ControllerName := (if so_ControllerName opt = [] then ''f5-cne-controller'' else so_ControllerName opt),
     so_TMMName := (if so_TMMName opt = [] then ''f5-tmm'' else so_TMMName opt)\<rparr>"

(* src/internal/k8s/bnkscan/scan.go:199-214 Scan part *)
definition read_controller :: "('w, 'e) cluster_api \<Rightarrow> scan_options \<Rightarrow> 'w \<Rightarrow> 'e scan_error + controller" where
  "read_controller A opt w =
     (let ns = so_ControllerNamespace opt; name = so_ControllerName opt;
          absent = \<lparr>ct_Namespace = ns, ct_Name = name, ct_Found = False, ct_Desired = 0, ct_Available = 0, ct_Ready = False\<rparr>
      in case ca_deployment A ns name w of
           Inl e \<Rightarrow> if ca_not_found A e then Inr absent else Inl (DeploymentUnread ns name e)
         | Inr (replicas, available) \<Rightarrow>
             let desired = (case replicas of None \<Rightarrow> 1 | Some n \<Rightarrow> n)
             in Inr (absent\<lparr>ct_Found := True, ct_Desired := desired, ct_Available := available,
                       ct_Ready := 0 < desired \<and> desired \<le> available\<rparr>))"

text \<open>\<open>strings.Fields\<close>: the words between white space.\<close>

function words :: "string \<Rightarrow> string \<Rightarrow> string list" where
  "words cur s =
     (if s = [] then (if cur = [] then [] else [cur])
      else case find (\<lambda>w. w \<noteq> [] \<and> has_prefix s w) space_seqs of
          Some w \<Rightarrow> (if cur = [] then words [] (drop (length w) s) else cur # words [] (drop (length w) s))
        | None \<Rightarrow> words (cur @ [hd s]) (tl s))"
  by pat_completeness auto
termination
  by (relation "measure (\<lambda>(_, s). length s)") (auto simp: find_Some_iff)

declare words.simps [simp del]

definition event_time :: "bnk_event \<Rightarrow> int" where
  "event_time ev = (case ev_last ev of None \<Rightarrow> ev_time ev | Some t \<Rightarrow> t)"

definition newest_event :: "bnk_event list \<Rightarrow> bnk_event option" where
  "newest_event evs = fold (\<lambda>ev best. case best of
       None \<Rightarrow> Some ev
     | Some b \<Rightarrow> if event_time b < event_time ev then Some ev else Some b) evs None"

(* src/internal/k8s/bnkscan/scan.go:596-624 latestWarningEvent *)
definition latestWarningEvent :: "('w, 'e) cluster_api \<Rightarrow> string \<Rightarrow> string \<Rightarrow> 'w \<Rightarrow> string" where
  "latestWarningEvent A ns pod w =
     (case ca_events A ns pod w of
        Inl _ \<Rightarrow> []
      | Inr evs \<Rightarrow>
          (case newest_event (filter (\<lambda>ev. ev_object ev = pod \<and> ev_warning ev) evs) of
             None \<Rightarrow> []
           | Some ev \<Rightarrow>
               let msg = join_with '' '' (words [] (ev_message ev));
                   msg' = (if 240 < length msg then take 240 msg @ map char_of [226, 128, 166 :: nat] else msg)
               in ev_reason ev @ '': '' @ msg'))"

(* src/internal/k8s/bnkscan/scan.go:560-592 scanTMM *)
definition scanTMM :: "('w, 'e) cluster_api \<Rightarrow> scan_options \<Rightarrow> 'w \<Rightarrow> 'e scan_error + tmm" where
  "scanTMM A opt w =
     (let ns = so_ControllerNamespace opt; name = so_TMMName opt;
          absent = \<lparr>tm_Namespace = ns, tm_Name = name, tm_Found = False, tm_Desired = 0, tm_Ready = 0, tm_Pending = []\<rparr>
      in case ca_daemonset A ns name w of
           Inl e \<Rightarrow> if ca_not_found A e then Inr absent else Inl (DaemonSetUnread ns name e)
         | Inr d \<Rightarrow>
             let t = absent\<lparr>tm_Found := True, tm_Desired := dr_desired d, tm_Ready := dr_ready d\<rparr>
             in if Complete t then Inr t
                else (case dr_selector d of
                    None \<Rightarrow> Inr t
                  | Some sel \<Rightarrow>
                      (case ca_pods A ns sel w of
                         Inl _ \<Rightarrow> Inr t
                       | Inr pods \<Rightarrow>
                           Inr (t\<lparr>tm_Pending := sort (map (\<lambda>(pod, phase).
                               ''pod '' @ pod @ '' '' @ phase @
                                 (let ev = latestWarningEvent A ns pod w in if ev = [] then [] else '': '' @ ev))
                             (filter (\<lambda>(pod, phase). phase \<noteq> ''Running'') pods))\<rparr>))))"

subsection \<open>The scan\<close>

definition found_kinds :: "(string \<times> unst list option) list \<Rightarrow> (string \<times> unst list) list" where
  "found_kinds rs = map (\<lambda>(kind, r). (kind, case r of None \<Rightarrow> [] | Some items \<Rightarrow> items)) rs"

definition missing_kinds :: "(string \<times> unst list option) list \<Rightarrow> string list" where
  "missing_kinds rs = map fst (filter (\<lambda>(kind, r). r = None) rs)"

definition lookup_kind :: "(string \<times> unst list) list \<Rightarrow> string \<Rightarrow> unst list" where
  "lookup_kind tbl kind = (case map_of tbl kind of None \<Rightarrow> [] | Some items \<Rightarrow> items)"

text \<open>The live objects by kind, with the Gateways kept.\<close>

definition live_objects ::
  "(string \<times> unst list option) list \<Rightarrow> (string \<times> unst list) list \<Rightarrow> (string \<times> unst list option) list \<Rightarrow> string \<Rightarrow> unst list" where
  "live_objects req opt gapi kind =
     (let tbl = found_kinds req @ opt @ found_kinds gapi in
      if kind = ''GatewayClass'' then []
      else if kind = ''Gateway'' then our_gateways (lookup_kind tbl ''GatewayClass'') (lookup_kind tbl ''Gateway'')
      else lookup_kind tbl kind)"

definition legacy_of :: "('w, 'e) cluster_api \<Rightarrow> 'w \<Rightarrow> legacy_counts" where
  "legacy_of A w =
     \<lparr>lc_BnkGateways = countAll A (DataPlaneGroup, ''v1'', ''f5-bnkgateways'') w,
      lc_BNKSecPolicy = countAll A (LegacyPolicyGroup, ''v1alpha1'', ''bnksecpolicies'') w,
      lc_BNKNetPolicy = countAll A (LegacyPolicyGroup, ''v1alpha1'', ''bnknetpolicies'') w,
      lc_F5SPKVlans = countAll A (DataPlaneGroup, ''v1'', ''f5-spk-vlans'') w,
      lc_F5SPKEgresses = countAll A (DataPlaneGroup, ''v3'', ''f5-spk-egresses'') w\<rparr>"

text \<open>Without a clientset the controller and TMM are reported as not found.\<close>

(* src/internal/k8s/bnkscan/scan.go:60-225 Scan *)
definition Scan :: "('w, 'e) cluster_api \<Rightarrow> scan_options \<Rightarrow> 'w \<Rightarrow> 'e scan_error + bnk_index" where
  "Scan A opts w =
     (let opt = withDefaults opts in
      either (f5CRDGroups A w) (\<lambda>(groups, served).
      either (read_kinds A required_kinds w) (\<lambda>req.
      either (read_optional A served optional_kinds w) (\<lambda>opts'.
      either (read_kinds A gateway_kinds w) (\<lambda>gapi.
      either (if ca_clientset A then read_controller A opt w
              else Inr \<lparr>ct_Namespace = so_ControllerNamespace opt, ct_Name = so_ControllerName opt, ct_Found = False,
                     ct_Desired = 0, ct_Available = 0, ct_Ready = False\<rparr>) (\<lambda>c.
      either (if ca_clientset A then scanTMM A opt w
              else Inr \<lparr>tm_Namespace = so_ControllerNamespace opt, tm_Name = so_TMMName opt, tm_Found = False,
                     tm_Desired = 0, tm_Ready = 0, tm_Pending = []\<rparr>) (\<lambda>t.
      let objs = (\<lambda>kind. map (toObject (rule_of kind)) (live_objects req opts' gapi kind))
      in Inr \<lparr>ix_Generation = DetectGeneration groups, ix_Groups = groups, ix_Objects = objs,
           ix_DNSResolverReady = list_ex bo_Ready (objs ''F5BigDnsCache''), ix_Controller = c, ix_TMM = t,
           ix_Legacy = legacy_of A w, ix_Missing = sort (missing_kinds req @ missing_kinds gapi)\<rparr>)))))))"

subsection \<open>The verdict\<close>

(* src/internal/k8s/bnkscan/readiness.go:15-18 Tally *)
record tally =
  ta_Total :: nat
  ta_Ready :: nat

definition tally_of :: "bnk_object list \<Rightarrow> tally" where
  "tally_of bs = \<lparr>ta_Total = length bs, ta_Ready = length (filter bo_Ready bs)\<rparr>"

(* src/internal/k8s/bnkscan/readiness.go:50-50 Readiness *)
record readiness =
  rd_Generation :: generation
  rd_Ready :: bool
  rd_Problems :: "bnk_problem list"
  rd_Infras :: tally
  rd_Gateways :: tally
  rd_Controller :: controller
  rd_TMM :: tmm
  rd_LegacyCRDs :: bool
  rd_LegacyCRs :: nat

(* src/internal/k8s/bnkscan/readiness.go:52-74 Index.readiness *)
definition readiness_of :: "bool \<Rightarrow> bnk_index \<Rightarrow> readiness" where
  "readiness_of acceptLegacy idx =
     \<lparr>rd_Generation = ix_Generation idx, rd_Ready = (problems acceptLegacy idx = []), rd_Problems = problems acceptLegacy idx,
      rd_Infras = tally_of (ix_Objects idx ''Infra''), rd_Gateways = tally_of (ix_Objects idx ''Gateway''),
      rd_Controller = ix_Controller idx, rd_TMM = ix_TMM idx,
      rd_LegacyCRDs = (LegacyPolicyGroup \<in> set (ix_Groups idx)), rd_LegacyCRs = legacy_total (ix_Legacy idx)\<rparr>"

datatype advice = NoAdvice | LegacyBoth nat | LegacyServed | LegacyPresent nat

(* src/internal/k8s/bnkscan/readiness.go:101-114 Readiness.MigrationAdvice *)
definition MigrationAdvice :: "readiness \<Rightarrow> advice" where
  "MigrationAdvice r =
     (if rd_Generation r \<noteq> Gen24 \<and> rd_Generation r \<noteq> GenMixed then NoAdvice
      else if rd_LegacyCRDs r \<and> 0 < rd_LegacyCRs r then LegacyBoth (rd_LegacyCRs r)
      else if rd_LegacyCRDs r then LegacyServed
      else if 0 < rd_LegacyCRs r then LegacyPresent (rd_LegacyCRs r)
      else NoAdvice)"

(* src/internal/k8s/bnkscan/readiness.go:120-126 CheckReadiness *)
definition CheckReadiness :: "('w, 'e) cluster_api \<Rightarrow> scan_options \<Rightarrow> 'w \<Rightarrow> 'e scan_error + readiness \<times> bnk_index" where
  "CheckReadiness A opts w =
     map_sum id (\<lambda>idx. (readiness_of (so_AcceptLegacy opts) idx, idx)) (Scan A opts w)"

text \<open>
  What the wait remembers: the last verdict (\<open>None\<close> is the zero value) and the last error. It ends
  ready, late (with the error or the problems), or cut.
\<close>

type_synonym 'e wait_memory = "readiness option \<times> 'e scan_error option"

(* src/internal/k8s/bnkscan/readiness.go:142-153 WaitReady part *)
definition ready_check ::
  "('w, 'e) cluster_api \<Rightarrow> scan_options \<Rightarrow> 'e wait_memory \<Rightarrow> 'w \<Rightarrow> (readiness \<times> bnk_index, unit, 'e wait_memory) checked" where
  "ready_check A opts seen w =
     (case CheckReadiness A opts w of
        Inl e \<Rightarrow> Again (fst seen, Some e)
      | Inr (rd, idx) \<Rightarrow> if rd_Ready rd then Ready (rd, idx) else Again (Some rd, None))"

(* src/internal/k8s/bnkscan/readiness.go:131-166 WaitReady *)
definition WaitReady ::
  "('w \<Rightarrow> int) \<Rightarrow> (int \<Rightarrow> 'w \<Rightarrow> 'c option \<times> 'w) \<Rightarrow> ('w, 'e) cluster_api \<Rightarrow> scan_options \<Rightarrow> int \<Rightarrow> int \<Rightarrow> 'w \<Rightarrow>
   ((readiness \<times> bnk_index, unit, 'e wait_memory, 'c) waited \<times> 'w) option" where
  "WaitReady now sleep A opts timeout poll w =
     poll_loop now sleep (ready_check A opts)
       (now w + timeout) (if poll \<le> 0 then 10 * Second else poll) (None, None) w"

end
