(* ===== verification/BnkMcp.thy ===== *)
theory BnkMcp
  imports BnkReadiness EksBase
begin

text \<open>
  The MCP tool servers behind BNK Gateways: \<open>internal/k8s/bnkscan/mcp.go\<close> and the methods of
  \<open>MCPEndpoint\<close> in \<open>types.go\<close>. \<open>show_port\<close> is Go's \<open>%v\<close> of a value. Go's simple case mapping is
  modelled on ASCII.
\<close>

definition key_of :: "string \<Rightarrow> string \<Rightarrow> string" where
  "key_of ns name = ns @ ''/'' @ name"

fun dedupe_from :: "string set \<Rightarrow> string list \<Rightarrow> string list" where
  "dedupe_from seen [] = []"
| "dedupe_from seen (s # ss) =
     (if s = [] \<or> s \<in> seen then dedupe_from seen ss else s # dedupe_from (insert s seen) ss)"

(* src/internal/k8s/bnkscan/mcp.go:444-455 dedupe *)
definition dedupe :: "string list \<Rightarrow> string list" where
  "dedupe ss = dedupe_from {} ss"

(* src/internal/k8s/bnkscan/mcp.go:122-124 isMCPPath *)
definition isMCPPath :: "string \<Rightarrow> bool" where
  "isMCPPath p \<longleftrightarrow> contains (to_lower p) ''/mcp''"

fun any_entries :: "any \<Rightarrow> (string \<times> any) list" where
  "any_entries (AMap m) = m"
| "any_entries _ = []"

text \<open>The entries of the maps in a slice; other elements are passed over.\<close>

definition maps_in :: "any list \<Rightarrow> (string \<times> any) list list" where
  "maps_in items = List.map_filter (\<lambda>a. case a of AMap m \<Rightarrow> Some m | _ \<Rightarrow> None) items"

definition slice_at :: "unst \<Rightarrow> string list \<Rightarrow> any list" where
  "slice_at u path = (case un_slice u path of None \<Rightarrow> [] | Some l \<Rightarrow> l)"

text \<open>A reference without a namespace names the object's own.\<close>

definition ref_namespace :: "unst \<Rightarrow> (string \<times> any) list \<Rightarrow> string" where
  "ref_namespace u m = (let ns = string_in m ''namespace'' in if ns = [] then un_namespace u else ns)"

(* src/internal/k8s/bnkscan/mcp.go:131-151 parentRefs *)
definition parentRefs :: "unst \<Rightarrow> (string \<times> string) list" where
  "parentRefs rt =
     map (\<lambda>m. (key_of (ref_namespace rt m) (string_in m ''name''), string_in m ''sectionName''))
       (filter (\<lambda>m. string_in m ''name'' \<noteq> []) (maps_in (slice_at rt [''spec'', ''parentRefs''])))"

definition path_values :: "unst \<Rightarrow> string list" where
  "path_values rt =
     filter (\<lambda>v. v \<noteq> [])
       (concat (map (\<lambda>rule.
          map (\<lambda>m. string_in (case map_of m ''path'' of None \<Rightarrow> [] | Some p \<Rightarrow> any_entries p) ''value'')
            (maps_in (any_list (map_of rule ''matches''))))
        (maps_in (slice_at rt [''spec'', ''rules'']))))"

(* src/internal/k8s/bnkscan/mcp.go:155-186 routePaths *)
definition routePaths :: "unst \<Rightarrow> string list" where
  "routePaths rt =
     (let vs = path_values rt;
          paths = dedupe (filter isMCPPath vs @ filter (\<lambda>v. \<not> isMCPPath v) vs)
      in if paths = [] then [''/''] else paths)"

(* src/internal/k8s/bnkscan/mcp.go:189-219 backendRefs *)
definition backendRefs :: "(any \<Rightarrow> string) \<Rightarrow> unst \<Rightarrow> string list" where
  "backendRefs show_port rt =
     dedupe (concat (map (\<lambda>rule.
        map (\<lambda>m. key_of (ref_namespace rt m) (string_in m ''name'') @
               (case map_of m ''port'' of None \<Rightarrow> [] | Some p \<Rightarrow> '':'' @ show_port p))
          (filter (\<lambda>m. string_in m ''name'' \<noteq> []) (maps_in (any_list (map_of rule ''backendRefs'')))))
        (maps_in (slice_at rt [''spec'', ''rules'']))))"

(* src/internal/k8s/bnkscan/mcp.go:222-237 gatewayAddresses *)
definition gatewayAddresses :: "unst \<Rightarrow> string list" where
  "gatewayAddresses gw =
     dedupe (concat (map (\<lambda>path. filter (\<lambda>v. v \<noteq> []) (map (\<lambda>m. string_in m ''value'') (maps_in (slice_at gw path))))
       [[''spec'', ''addresses''], [''status'', ''addresses'']]))"

(* src/internal/k8s/bnkscan/mcp.go:239-242 listener *)
record listener =
  ls_name :: string
  ls_protocol :: string
  ls_port :: int

text \<open>An integer that JSON may have left as a float; \<open>overflow\<close> as in \<open>GoAny\<close>.\<close>

(* src/internal/k8s/bnkscan/mcp.go:416-430 nestedNumber *)
definition nestedNumber :: "(f64 \<Rightarrow> int) \<Rightarrow> any option \<Rightarrow> int" where
  "nestedNumber overflow v =
     (case v of
        Some (AInt64 n) \<Rightarrow> n
      | Some (AInt n) \<Rightarrow> n
      | Some (AFloat64 f) \<Rightarrow> float_to_int64 overflow f
      | _ \<Rightarrow> 0)"

(* src/internal/k8s/bnkscan/mcp.go:244-262 listenersOf *)
definition listenersOf :: "(f64 \<Rightarrow> int) \<Rightarrow> unst \<Rightarrow> string \<Rightarrow> listener list" where
  "listenersOf overflow gw sectionName =
     filter (\<lambda>l. sectionName = [] \<or> ls_name l = sectionName)
       (map (\<lambda>m. \<lparr>ls_name = string_in m ''name'', ls_protocol = string_in m ''protocol'',
              ls_port = nestedNumber overflow (map_of m ''port'')\<rparr>)
         (maps_in (slice_at gw [''spec'', ''listeners''])))"

(* src/internal/k8s/bnkscan/mcp.go:265-271 gatewayListeners *)
definition gatewayListeners :: "(f64 \<Rightarrow> int) \<Rightarrow> unst \<Rightarrow> string \<Rightarrow> string list" where
  "gatewayListeners overflow gw sectionName =
     map (\<lambda>l. ls_name l @ '':'' @ ls_protocol l @ '':'' @ dec_int (ls_port l)) (listenersOf overflow gw sectionName)"

definition scheme_of :: "string \<Rightarrow> string option" where
  "scheme_of protocol =
     (if to_upper protocol = ''HTTP'' then Some ''http''
      else if to_upper protocol = ''HTTPS'' then Some ''https'' else None)"

definition url_host :: "string \<Rightarrow> string \<Rightarrow> int \<Rightarrow> string" where
  "url_host addr scheme port =
     (let host = (if contains addr '':'' \<and> \<not> has_prefix addr ''['' then ''['' @ addr @ '']'' else addr)
      in if \<not> (scheme = ''http'' \<and> port = 80) \<and> \<not> (scheme = ''https'' \<and> port = 443) \<and> port \<noteq> 0
         then host @ '':'' @ dec_int port else host)"

definition url_paths :: "string list \<Rightarrow> string list" where
  "url_paths paths = (let mcp = filter isMCPPath paths in if mcp = [] then take 1 paths else mcp)"

(* src/internal/k8s/bnkscan/mcp.go:275-313 endpointURLs *)
definition endpointURLs :: "(f64 \<Rightarrow> int) \<Rightarrow> string list \<Rightarrow> unst \<Rightarrow> string \<Rightarrow> string list \<Rightarrow> string list" where
  "endpointURLs overflow addresses gw sectionName paths =
     dedupe (concat (map (\<lambda>addr.
       concat (map (\<lambda>l. case scheme_of (ls_protocol l) of
             None \<Rightarrow> []
           | Some scheme \<Rightarrow>
               map (\<lambda>p. scheme @ ''://'' @ url_host addr scheme (ls_port l) @ (if has_prefix p ''/'' then p else ''/'' @ p))
                 (url_paths paths))
         (listenersOf overflow gw sectionName)))
       addresses))"

definition annotation :: "unst \<Rightarrow> string \<Rightarrow> string" where
  "annotation u k = (case un_annotations u k of None \<Rightarrow> [] | Some v \<Rightarrow> v)"

(* src/internal/k8s/bnkscan/mcp.go:317-325 routeAuth *)
definition routeAuth :: "unst \<Rightarrow> string list \<Rightarrow> string" where
  "routeAuth rt irules =
     (let a = annotation rt ''bnk.f5.com/auth''
      in if a \<noteq> [] then a else if irules \<noteq> [] then ''irule'' else ''unknown'')"

text \<open>Why a route is an MCP endpoint.\<close>

datatype mcp_reason = ByAnnotation | ByPath string

(* src/internal/k8s/bnkscan/mcp.go:110-120 classifyRoute *)
definition classifyRoute :: "unst \<Rightarrow> mcp_reason option" where
  "classifyRoute rt =
     (if to_lower (annotation rt ''bnk.f5.com/protocol'') = ''mcp'' then Some ByAnnotation
      else map_option ByPath (find isMCPPath (routePaths rt)))"

text \<open>The policies that target the Gateway of the key, once for each reference.\<close>

(* src/internal/k8s/bnkscan/mcp.go:329-354 groupByTargetGateway *)
definition groupByTargetGateway :: "unst list \<Rightarrow> string \<Rightarrow> unst list" where
  "groupByTargetGateway policies key =
     concat (map (\<lambda>p.
       map (\<lambda>_. p) (filter (\<lambda>m. (string_in m ''kind'' = [] \<or> string_in m ''kind'' = ''Gateway'') \<and>
            string_in m ''name'' \<noteq> [] \<and> key_of (ref_namespace p m) (string_in m ''name'') = key)
         (maps_in (slice_at p [''spec'', ''targetRefs'']))))
       policies)"

(* src/internal/k8s/bnkscan/mcp.go:360-379 extensionRefs *)
definition extensionRefs :: "unst \<Rightarrow> (string \<times> string) list" where
  "extensionRefs p =
     filter (\<lambda>(kind, name). name \<noteq> [])
       (map (\<lambda>m. (let k = string_in m ''kind'' in if k = [] then ''F5BigCneIrule'' else k, string_in m ''name''))
         (maps_in (slice_at p [''spec'', ''extensionRefs''])))"

(* src/internal/k8s/bnkscan/types.go:200-209 PersistenceInfo *)
record persistence_info =
  pi_Profile :: string
  pi_Namespace :: string
  pi_Type :: string
  pi_Timeout :: int
  pi_SecretName :: string
  pi_Programmed :: bool
  pi_Listener :: string

text \<open>\<open>map_of\<close> of the reversed list: of two objects of a key the later one counts.\<close>

definition by_key :: "unst list \<Rightarrow> string \<Rightarrow> unst option" where
  "by_key us = map_of (rev (map (\<lambda>u. (key_of (un_namespace u) (un_name u), u)) us))"

(* src/internal/k8s/bnkscan/mcp.go:382-413 persistenceInfo *)
definition persistenceInfo :: "(f64 \<Rightarrow> int) \<Rightarrow> unst \<Rightarrow> string \<Rightarrow> unst list \<Rightarrow> persistence_info" where
  "persistenceInfo overflow np name profiles =
     (let sections = filter (\<lambda>s. s \<noteq> []) (map (\<lambda>m. string_in m ''sectionName'') (maps_in (slice_at np [''spec'', ''targetRefs''])));
          info = \<lparr>pi_Profile = name, pi_Namespace = un_namespace np, pi_Type = ''unknown'', pi_Timeout = 0, pi_SecretName = [],
             pi_Programmed = False, pi_Listener = (case sections of [] \<Rightarrow> [] | s # _ \<Rightarrow> s)\<rparr>
      in case by_key profiles (key_of (un_namespace np) name) of
           None \<Rightarrow> info\<lparr>pi_Type := ''missing''\<rparr>
         | Some p \<Rightarrow>
             let t = un_string p [''spec'', ''persistenceType''];
                 mcp = un_string p [''spec'', ''mcpEncryptionPassphrase'', ''secretRef'', ''name''];
                 a2a = un_string p [''spec'', ''a2aEncryptionPassphrase'', ''secretRef'', ''name'']
             in info\<lparr>pi_Type := (if t \<noteq> [] then t else ''SRC_ADDR''),
                  pi_Timeout := nestedNumber overflow (un_field p [''spec'', ''timeout'']),
                  pi_SecretName := (if a2a \<noteq> [] then a2a else mcp),
                  pi_Programmed := (case findCondition (status_conditions p) ''Programmed'' of
                      None \<Rightarrow> False | Some c \<Rightarrow> co_Status c = ''True'')\<rparr>)"

(* src/internal/k8s/bnkscan/types.go:219-251 MCPEndpoint *)
record mcp_endpoint =
  me_Route :: string
  me_Namespace :: string
  me_Gateway :: string
  me_GatewayNamespace :: string
  me_GatewayReady :: bool
  me_Addresses :: "string list"
  me_Listeners :: "string list"
  me_Hostnames :: "string list"
  me_Paths :: "string list"
  me_URLs :: "string list"
  me_Backends :: "string list"
  me_Auth :: string
  me_IRules :: "string list"
  me_Persistence :: "persistence_info option"
  me_SecPolicies :: "string list"
  me_Tools :: "string list"
  me_Reason :: mcp_reason

(* src/internal/k8s/bnkscan/types.go:254-256 MCPEndpoint.Name *)
definition endpoint_Name :: "mcp_endpoint \<Rightarrow> string" where
  "endpoint_Name e = ''mcp-'' @ me_Namespace e @ ''-'' @ me_Route e"

(* src/internal/k8s/bnkscan/types.go:259-269 MCPEndpoint.PrimaryURL *)
definition PrimaryURL :: "mcp_endpoint \<Rightarrow> string" where
  "PrimaryURL e =
     (case find (\<lambda>u. has_prefix u ''https://'') (me_URLs e) of
        Some u \<Rightarrow> u
      | None \<Rightarrow> (case me_URLs e of [] \<Rightarrow> [] | u # _ \<Rightarrow> u))"

(* src/internal/k8s/bnkscan/types.go:272-279 MCPEndpoint.ToolNames *)
definition ToolNames :: "mcp_endpoint \<Rightarrow> string list" where
  "ToolNames e = sort (me_Tools e)"

(* src/internal/k8s/bnkscan/mcp.go:437-442 splitKey *)
definition splitKey :: "string \<Rightarrow> string \<times> string" where
  "splitKey key = (case cut_at CHR ''/'' key of None \<Rightarrow> ([], key) | Some p \<Rightarrow> p)"

(* src/internal/k8s/bnkscan/scan.go:47-55 raw *)
record raw_objects =
  ra_gateways :: "unst list"
  ra_httpRoutes :: "unst list"
  ra_netPolicies :: "unst list"
  ra_secPolicies :: "unst list"
  ra_persistence :: "unst list"
  ra_gatewayReady :: "string \<Rightarrow> bool"

text \<open>The first parent that is one of our Gateways, else the first parent.\<close>

definition chosen_parent :: "unst list \<Rightarrow> unst \<Rightarrow> unst option \<times> string \<times> string" where
  "chosen_parent gws rt =
     (case find (\<lambda>(key, _). by_key gws key \<noteq> None) (parentRefs rt) of
        Some (key, section) \<Rightarrow> (by_key gws key, key, section)
      | None \<Rightarrow> (case parentRefs rt of [] \<Rightarrow> (None, [], []) | (key, section) # _ \<Rightarrow> (None, key, section)))"

definition attached :: "unst list \<Rightarrow> string \<Rightarrow> (unst \<times> string \<times> string) list" where
  "attached policies key = concat (map (\<lambda>np. map (\<lambda>(k, n). (np, k, n)) (extensionRefs np)) (groupByTargetGateway policies key))"

(* src/internal/k8s/bnkscan/mcp.go:31-99 DiscoverMCP part *)
definition endpoint_of ::
  "(any \<Rightarrow> string) \<Rightarrow> (f64 \<Rightarrow> int) \<Rightarrow> raw_objects \<Rightarrow> unst \<Rightarrow> mcp_reason \<Rightarrow> mcp_endpoint" where
  "endpoint_of show_port overflow r rt reason =
     (case chosen_parent (ra_gateways r) rt of (gw, gwKey, section) \<Rightarrow>
        let exts = attached (ra_netPolicies r) gwKey;
            irules = dedupe (sort (map (\<lambda>(_, _, n). n) (filter (\<lambda>(_, k, _). k = ''F5BigCneIrule'') exts)));
            pers = map (\<lambda>(np, _, n). persistenceInfo overflow np n (ra_persistence r))
              (filter (\<lambda>(_, k, _). k = ''F5BigPersistenceProfile'') exts);
            paths = routePaths rt;
            tools = annotation rt ''bnk.f5.com/mcp-tools''
        in \<lparr>me_Route = un_name rt, me_Namespace = un_namespace rt, me_Gateway = snd (splitKey gwKey),
            me_GatewayNamespace = fst (splitKey gwKey), me_GatewayReady = ra_gatewayReady r gwKey,
            me_Addresses = (case gw of None \<Rightarrow> [] | Some g \<Rightarrow> gatewayAddresses g),
            me_Listeners = (case gw of None \<Rightarrow> [] | Some g \<Rightarrow> gatewayListeners overflow g section),
            me_Hostnames = un_strings rt [''spec'', ''hostnames''], me_Paths = paths,
            me_URLs = (case gw of None \<Rightarrow> [] | Some g \<Rightarrow> endpointURLs overflow (gatewayAddresses g) g section paths),
            me_Backends = backendRefs show_port rt, me_Auth = routeAuth rt irules, me_IRules = irules,
            me_Persistence = (case pers of [] \<Rightarrow> None | p # _ \<Rightarrow> Some p),
            me_SecPolicies = map un_name (groupByTargetGateway (ra_secPolicies r) gwKey),
            me_Tools = filter (\<lambda>t. t \<noteq> []) (map trim_space (split_on CHR '','' tools)),
            me_Reason = reason\<rparr>)"

(* src/internal/k8s/bnkscan/mcp.go:16-107 DiscoverMCP *)
definition DiscoverMCP :: "(any \<Rightarrow> string) \<Rightarrow> (f64 \<Rightarrow> int) \<Rightarrow> raw_objects \<Rightarrow> mcp_endpoint list" where
  "DiscoverMCP show_port overflow r =
     sort_key me_Namespace (sort_key me_Route
       (List.map_filter (\<lambda>rt. map_option (endpoint_of show_port overflow r rt) (classifyRoute rt)) (ra_httpRoutes r)))"

end
