(* ===== verification/BnkClaims.thy ===== *)
theory BnkClaims
  imports BnkMcp
begin

text \<open>
  What the readiness verdict means on the cluster itself: the index is forgotten, and the verdict is
  a condition on what the API server returns. Which scans fail, what they report as missing, and that
  waiting for readiness ends.
\<close>

subsection \<open>Reading\<close>

lemma either_Inr: "either r f = Inr x \<longleftrightarrow> (\<exists>y. r = Inr y \<and> f y = Inr x)"
  by (simp add: either_def split: sum.splits)

lemma either_Inl: "either r f = Inl e \<longleftrightarrow> r = Inl e \<or> (\<exists>y. r = Inr y \<and> f y = Inl e)"
  by (auto simp: either_def split: sum.splits)

lemma read_kinds_Inr:
  "read_kinds A ks w = Inr rs \<Longrightarrow> list_all2 (\<lambda>(k, g) (k', r). k' = k \<and> read_kind A k g w = Inr r) ks rs"
  by (induction A ks w arbitrary: rs rule: read_kinds.induct) (auto simp: either_Inr)

text \<open>The objects of a kind as the API server lists them; \<open>None\<close> when it fails.\<close>

definition listed :: "('w, 'e) cluster_api \<Rightarrow> gvr \<Rightarrow> 'w \<Rightarrow> unst list" where
  "listed A g w = (case ca_list A g w of Inl _ \<Rightarrow> [] | Inr items \<Rightarrow> items)"

definition absent :: "('w, 'e) cluster_api \<Rightarrow> gvr \<Rightarrow> 'w \<Rightarrow> bool" where
  "absent A g w \<longleftrightarrow> (case ca_list A g w of Inl e \<Rightarrow> ca_not_found A e | Inr _ \<Rightarrow> False)"

lemma read_kind_Inr:
  "read_kind A k g w = Inr r \<Longrightarrow>
   (r = None \<longleftrightarrow> absent A g w) \<and> set (case r of None \<Rightarrow> [] | Some items \<Rightarrow> items) = set (listed A g w)"
  by (cases "ca_list A g w") (auto simp: read_kind_def listAll_def listed_def absent_def split: if_splits)

lemma read_kind_Inl: "read_kind A k g w = Inl e \<Longrightarrow> \<exists>c. e = ListFailed k c \<and> ca_list A g w = Inl c \<and> \<not> ca_not_found A c"
  by (cases "ca_list A g w") (auto simp: read_kind_def listAll_def split: if_splits)

lemma lookup_found:
  assumes "list_all2 (\<lambda>(k, g) (k', r). k' = k \<and> read_kind A k g w = Inr r) ks rs"
  shows "set (lookup_kind (found_kinds rs @ tbl) kind) =
    (case map_of ks kind of Some g \<Rightarrow> set (listed A g w) | None \<Rightarrow> set (lookup_kind tbl kind))"
  using assms
proof (induction ks rs rule: list_all2_induct)
  case Nil
  show ?case by (simp add: found_kinds_def lookup_kind_def)
next
  case (Cons p ks q rs)
  obtain k g r where q: "p = (k, g)" "q = (k, r)" "read_kind A k g w = Inr r" using Cons.hyps(1) by (cases p; cases q) auto
  show ?case
  proof (cases "kind = k")
    case True
    with q read_kind_Inr [OF q(3)] show ?thesis by (simp add: found_kinds_def lookup_kind_def)
  next
    case False
    with q Cons.IH show ?thesis by (simp add: found_kinds_def lookup_kind_def)
  qed
qed

lemma read_optional_Inr:
  assumes "read_optional A served ks w = Inr rs"
  shows "set (lookup_kind (rs @ tbl) kind) =
    (case map_of ks kind of Some (crd, g) \<Rightarrow> (if readable served crd then set (listed A g w) else {})
     | None \<Rightarrow> set (lookup_kind tbl kind))"
  using assms
proof (induction A served ks w arbitrary: rs rule: read_optional.induct)
  case (2 A served k crd g ks w)
  from 2(2) obtain r rs' where r: "(if readable served crd then read_kind A k g w else Inr None) = Inr r"
    "read_optional A served ks w = Inr rs'" "rs = (k, case r of None \<Rightarrow> [] | Some items \<Rightarrow> items) # rs'"
    by (auto simp: either_Inr)
  show ?case
  proof (cases "kind = k")
    case True
    with r show ?thesis by (auto simp: lookup_kind_def dest: read_kind_Inr split: if_splits)
  next
    case False
    with r 2(1) [OF r(2)] show ?thesis by (simp add: lookup_kind_def)
  qed
qed (simp add: lookup_kind_def)

subsection \<open>The verdict on the cluster\<close>

text \<open>A condition of the type that is true; one that is present and not.\<close>

definition holds :: "string \<Rightarrow> unst \<Rightarrow> bool" where
  "holds t u \<longleftrightarrow> (case findCondition (status_conditions u) t of None \<Rightarrow> False | Some c \<Rightarrow> co_Status c = ''True'')"

definition denied :: "string \<Rightarrow> unst \<Rightarrow> bool" where
  "denied t u \<longleftrightarrow> (case findCondition (status_conditions u) t of None \<Rightarrow> False | Some c \<Rightarrow> co_Status c \<noteq> ''True'')"

definition rolled_out :: "('w, 'e) cluster_api \<Rightarrow> scan_options \<Rightarrow> 'w \<Rightarrow> bool" where
  "rolled_out A opt w \<longleftrightarrow> ca_clientset A \<and>
     (case ca_deployment A (so_ControllerNamespace opt) (so_ControllerName opt) w of
        Inl _ \<Rightarrow> False
      | Inr (replicas, available) \<Rightarrow> (let n = (case replicas of None \<Rightarrow> 1 | Some n \<Rightarrow> n) in 0 < n \<and> n \<le> available))"

definition tmm_ok :: "('w, 'e) cluster_api \<Rightarrow> scan_options \<Rightarrow> 'w \<Rightarrow> bool" where
  "tmm_ok A opt w \<longleftrightarrow> ca_clientset A \<longrightarrow>
     (case ca_daemonset A (so_ControllerNamespace opt) (so_TMMName opt) w of
        Inl _ \<Rightarrow> True
      | Inr d \<Rightarrow> 0 < dr_desired d \<and> dr_desired d \<le> dr_ready d)"

definition our_gateway :: "('w, 'e) cluster_api \<Rightarrow> 'w \<Rightarrow> unst \<Rightarrow> bool" where
  "our_gateway A w g \<longleftrightarrow>
     (let ours = (\<lambda>c. has_prefix (un_string c [''spec'', ''controllerName'']) ''f5.com/'' \<or>
                      contains (un_string c [''spec'', ''controllerName'']) ''f5-cne-controller'');
          classes = set (filter ours (listed A (gateway_api_kind ''gatewayclasses'') w))
      in classes = {} \<or> un_string g [''spec'', ''gatewayClassName''] \<in> un_name ` classes)"

definition cluster_ready :: "('w, 'e) cluster_api \<Rightarrow> scan_options \<Rightarrow> string list \<Rightarrow> string list option \<Rightarrow> 'w \<Rightarrow> bool" where
  "cluster_ready A opt groups served w \<longleftrightarrow>
     (if GatewayF5Group \<in> set groups
      then listed A (f5_kind ''infras'') w \<noteq> [] \<and> (\<forall>u \<in> set (listed A (f5_kind ''infras'') w). holds ''Programmed'' u)
      else LegacyPolicyGroup \<in> set groups \<and> so_AcceptLegacy opt) \<and>
     rolled_out A opt w \<and> tmm_ok A opt w \<and>
     (\<forall>g \<in> set (listed A (gateway_api_kind ''gateways'') w). our_gateway A w g \<longrightarrow> holds ''Accepted'' g \<and> holds ''Programmed'' g) \<and>
     (\<forall>u \<in> set (listed A (data_plane_kind ''f5-big-persistence-profiles'') w). holds ''Programmed'' u) \<and>
     (readable served ''aigatewayprofiles.inference.k8s.f5.com'' \<longrightarrow>
        (\<forall>u \<in> set (listed A (inference_kind ''aigatewayprofiles'') w). \<not> denied ''Accepted'' u \<and> \<not> denied ''Programmed'' u)) \<and>
     (readable served ''aigateways.inference.k8s.f5.com'' \<longrightarrow>
        (\<forall>u \<in> set (listed A (inference_kind ''aigateways'') w). \<not> denied ''Accepted'' u \<and> \<not> denied ''Programmed'' u))"

lemma require_holds: "require_one (status_conditions u) t = [] \<longleftrightarrow> holds t u"
  by (simp add: require_one_def holds_def split: option.splits)

lemma object_denied: "object_to_one (status_conditions u) t = [] \<longleftrightarrow> \<not> denied t u"
  by (simp add: object_to_one_def denied_def split: option.splits)

lemma rules:
  "rule_of ''Infra'' u = [] \<longleftrightarrow> holds ''Programmed'' u"
  "rule_of ''F5BigPersistenceProfile'' u = [] \<longleftrightarrow> holds ''Programmed'' u"
  "rule_of ''Gateway'' u = [] \<longleftrightarrow> holds ''Accepted'' u \<and> holds ''Programmed'' u"
  "rule_of ''AIGatewayProfile'' u = [] \<longleftrightarrow> \<not> denied ''Accepted'' u \<and> \<not> denied ''Programmed'' u"
  "rule_of ''AIGateway'' u = [] \<longleftrightarrow> \<not> denied ''Accepted'' u \<and> \<not> denied ''Programmed'' u"
  by (simp_all add: rule_of_def requireTrue_def trueIfPresent_def require_holds object_denied)

lemma not_ready_Nil:
  "ix_Objects idx kind = map (toObject (rule_of kind)) us \<Longrightarrow> not_ready kind idx = [] \<longleftrightarrow> (\<forall>u\<in>set us. rule_of kind u = [])"
  by (auto simp: not_ready_def filter_empty_conv toObject_def)

lemma profiles_Nil:
  "ix_Objects idx ''F5BigPersistenceProfile'' = map (toObject (rule_of ''F5BigPersistenceProfile'')) us \<Longrightarrow>
   profiles_not_ready idx = [] \<longleftrightarrow> (\<forall>u\<in>set us. rule_of ''F5BigPersistenceProfile'' u = [])"
  by (auto simp: profiles_not_ready_def filter_empty_conv toObject_def)

text \<open>The objects a scan indexes.\<close>

lemma scan_objects:
  assumes "Scan A opts w = Inr idx" and "f5CRDGroups A w = Inr (groups, served)"
  shows "ix_Generation idx = DetectGeneration groups \<and> ix_Groups idx = groups \<and>
    (\<exists>us. (\<forall>kind. ix_Objects idx kind = map (toObject (rule_of kind)) (us kind)) \<and>
       set (us ''Infra'') = set (listed A (f5_kind ''infras'') w) \<and>
       set (us ''F5BigPersistenceProfile'') = set (listed A (data_plane_kind ''f5-big-persistence-profiles'') w) \<and>
       set (us ''Gateway'') = {g \<in> set (listed A (gateway_api_kind ''gateways'') w). our_gateway A w g} \<and>
       set (us ''AIGatewayProfile'') = (if readable served ''aigatewayprofiles.inference.k8s.f5.com''
         then set (listed A (inference_kind ''aigatewayprofiles'') w) else {}) \<and>
       set (us ''AIGateway'') = (if readable served ''aigateways.inference.k8s.f5.com''
         then set (listed A (inference_kind ''aigateways'') w) else {}))"
proof -
  from assms obtain req opt' gapi c t where r:
    "read_kinds A required_kinds w = Inr req" "read_optional A served optional_kinds w = Inr opt'"
    "read_kinds A gateway_kinds w = Inr gapi"
    and idx: "ix_Generation idx = DetectGeneration groups" "ix_Groups idx = groups"
      "ix_Objects idx = (\<lambda>kind. map (toObject (rule_of kind)) (live_objects req opt' gapi kind))"
    by (auto simp: Scan_def Let_def either_Inr)
  note l1 = lookup_found [OF read_kinds_Inr [OF r(1)]]
  note l2 = read_optional_Inr [OF r(2)]
  note l3 = lookup_found [OF read_kinds_Inr [OF r(3)], where tbl = "[]", simplified]
  let ?us = "live_objects req opt' gapi"
  have tbl: "set (lookup_kind (found_kinds req @ opt' @ found_kinds gapi) kind) =
      (case map_of required_kinds kind of Some g \<Rightarrow> set (listed A g w)
       | None \<Rightarrow> case map_of optional_kinds kind of Some (crd, g) \<Rightarrow> if readable served crd then set (listed A g w) else {}
       | None \<Rightarrow> case map_of gateway_kinds kind of Some g \<Rightarrow> set (listed A g w) | None \<Rightarrow> set (lookup_kind [] kind))" for kind
    by (simp add: l1 l2 l3 split: option.splits)
  have "set (?us ''Infra'') = set (listed A (f5_kind ''infras'') w)"
    by (simp add: live_objects_def Let_def tbl required_kinds_def)
  moreover have "set (?us ''F5BigPersistenceProfile'') = set (listed A (data_plane_kind ''f5-big-persistence-profiles'') w)"
    by (simp add: live_objects_def Let_def tbl required_kinds_def)
  moreover have "set (?us ''AIGatewayProfile'') = (if readable served ''aigatewayprofiles.inference.k8s.f5.com''
      then set (listed A (inference_kind ''aigatewayprofiles'') w) else {})"
    by (simp add: live_objects_def Let_def tbl required_kinds_def optional_kinds_def)
  moreover have "set (?us ''AIGateway'') = (if readable served ''aigateways.inference.k8s.f5.com''
      then set (listed A (inference_kind ''aigateways'') w) else {})"
    by (simp add: live_objects_def Let_def tbl required_kinds_def optional_kinds_def)
  moreover have "set (?us ''Gateway'') = {g \<in> set (listed A (gateway_api_kind ''gateways'') w). our_gateway A w g}"
  proof -
    let ?cs = "lookup_kind (found_kinds req @ opt' @ found_kinds gapi) ''GatewayClass''"
    have cs: "set ?cs = set (listed A (gateway_api_kind ''gatewayclasses'') w)"
      by (simp add: tbl required_kinds_def optional_kinds_def gateway_kinds_def)
    have gs: "set (lookup_kind (found_kinds req @ opt' @ found_kinds gapi) ''Gateway'') = set (listed A (gateway_api_kind ''gateways'') w)"
      by (simp add: tbl required_kinds_def optional_kinds_def gateway_kinds_def)
    have "set (bnkGatewayClasses ?cs) = un_name ` {c \<in> set ?cs. has_prefix (un_string c [''spec'', ''controllerName'']) ''f5.com/'' \<or>
        contains (un_string c [''spec'', ''controllerName'']) ''f5-cne-controller''}"
      by (auto simp: bnkGatewayClasses_def Let_def)
    then have "(bnkGatewayClasses ?cs = [] \<or> un_string g [''spec'', ''gatewayClassName''] \<in> set (bnkGatewayClasses ?cs)) \<longleftrightarrow> our_gateway A w g" for g
      by (simp add: our_gateway_def Let_def cs flip: set_empty2)
    then show ?thesis by (auto simp: live_objects_def Let_def our_gateways_def gs)
  qed
  ultimately show ?thesis using idx by auto
qed

lemma scan_rollouts:
  assumes "Scan A opts w = Inr idx"
  shows "(ct_Found (ix_Controller idx) \<and> ct_Ready (ix_Controller idx)) = rolled_out A (withDefaults opts) w \<and>
    (tm_Found (ix_TMM idx) \<longrightarrow> Complete (ix_TMM idx)) = tmm_ok A (withDefaults opts) w"
proof (cases "ca_clientset A")
  case False
  with assms show ?thesis by (auto simp: Scan_def Let_def either_Inr rolled_out_def tmm_ok_def)
next
  case True
  with assms obtain c t where r: "read_controller A (withDefaults opts) w = Inr c" "scanTMM A (withDefaults opts) w = Inr t"
    and idx: "ix_Controller idx = c" "ix_TMM idx = t"
    by (auto simp: Scan_def Let_def either_Inr)
  have "(ct_Found c \<and> ct_Ready c) = rolled_out A (withDefaults opts) w"
    using r(1) True by (auto simp: read_controller_def rolled_out_def Let_def split: sum.splits if_splits prod.splits)
  moreover have "(tm_Found t \<longrightarrow> Complete t) = tmm_ok A (withDefaults opts) w"
    using r(2) True
    by (auto simp: scanTMM_def tmm_ok_def Complete_def Let_def split: sum.splits if_splits option.splits)
  ultimately show ?thesis by (simp add: idx)
qed

text \<open>The verdict, check by check.\<close>

lemma readiness_exact:
  assumes "f5CRDGroups A w = Inr (groups, served)" and "CheckReadiness A opts w = Inr (rd, idx)"
  shows "rd_Ready rd \<longleftrightarrow> cluster_ready A (withDefaults opts) groups served w"
proof -
  from assms(2) have scan: "Scan A opts w = Inr idx" and rd: "rd = readiness_of (so_AcceptLegacy opts) idx"
    by (cases "Scan A opts w"; simp add: CheckReadiness_def)+
  from scan_objects [OF scan assms(1)] obtain us where gen: "ix_Generation idx = DetectGeneration groups"
    and objs: "\<And>kind. ix_Objects idx kind = map (toObject (rule_of kind)) (us kind)"
    and us: "set (us ''Infra'') = set (listed A (f5_kind ''infras'') w)"
      "set (us ''F5BigPersistenceProfile'') = set (listed A (data_plane_kind ''f5-big-persistence-profiles'') w)"
      "set (us ''Gateway'') = {g \<in> set (listed A (gateway_api_kind ''gateways'') w). our_gateway A w g}"
      "set (us ''AIGatewayProfile'') = (if readable served ''aigatewayprofiles.inference.k8s.f5.com''
         then set (listed A (inference_kind ''aigatewayprofiles'') w) else {})"
      "set (us ''AIGateway'') = (if readable served ''aigateways.inference.k8s.f5.com''
         then set (listed A (inference_kind ''aigateways'') w) else {})"
    by blast
  have empty: "ix_Objects idx ''Infra'' = [] \<longleftrightarrow> listed A (f5_kind ''infras'') w = []"
    using us(1) objs [of "''Infra''"] by (metis list.map_disc_iff set_empty2)
  have acc: "so_AcceptLegacy (withDefaults opts) = so_AcceptLegacy opts" by (simp add: withDefaults_def)
  have "rd_Ready rd \<longleftrightarrow>
      (if GatewayF5Group \<in> set groups then ix_Objects idx ''Infra'' \<noteq> [] \<and> not_ready ''Infra'' idx = []
       else LegacyPolicyGroup \<in> set groups \<and> so_AcceptLegacy opts) \<and>
      (ct_Found (ix_Controller idx) \<and> ct_Ready (ix_Controller idx)) \<and>
      (tm_Found (ix_TMM idx) \<longrightarrow> Complete (ix_TMM idx)) \<and>
      not_ready ''Gateway'' idx = [] \<and> profiles_not_ready idx = [] \<and>
      not_ready ''AIGatewayProfile'' idx = [] \<and> not_ready ''AIGateway'' idx = []"
    by (auto simp: rd readiness_of_def problems_def gen DetectGeneration_def Let_def split: if_splits)
  then show ?thesis
    by (simp add: scan_rollouts [OF scan] empty not_ready_Nil [OF objs] profiles_Nil [OF objs] rules us acc cluster_ready_def)
      auto
qed

text \<open>
  What a ready cluster is documented to be, and the checks that \<open>Problems\<close> makes beyond that.
\<close>

definition documented_ready :: "('w, 'e) cluster_api \<Rightarrow> scan_options \<Rightarrow> string list \<Rightarrow> 'w \<Rightarrow> bool" where
  "documented_ready A opt groups w \<longleftrightarrow>
     (if GatewayF5Group \<in> set groups then \<exists>u \<in> set (listed A (f5_kind ''infras'') w). holds ''Programmed'' u
      else LegacyPolicyGroup \<in> set groups \<and> so_AcceptLegacy opt) \<and>
     rolled_out A opt w \<and>
     list_all (\<lambda>g. \<not> our_gateway A w g \<or> holds ''Accepted'' g \<and> holds ''Programmed'' g)
       (listed A (gateway_api_kind ''gateways'') w)"

definition further_checks :: "('w, 'e) cluster_api \<Rightarrow> scan_options \<Rightarrow> string list \<Rightarrow> string list option \<Rightarrow> 'w \<Rightarrow> bool" where
  "further_checks A opt groups served w \<longleftrightarrow>
     (GatewayF5Group \<notin> set groups \<or> list_all (holds ''Programmed'') (listed A (f5_kind ''infras'') w)) \<and>
     tmm_ok A opt w \<and>
     list_all (holds ''Programmed'') (listed A (data_plane_kind ''f5-big-persistence-profiles'') w) \<and>
     (\<not> readable served ''aigatewayprofiles.inference.k8s.f5.com'' \<or>
        list_all (\<lambda>u. \<not> denied ''Accepted'' u \<and> \<not> denied ''Programmed'' u) (listed A (inference_kind ''aigatewayprofiles'') w)) \<and>
     (\<not> readable served ''aigateways.inference.k8s.f5.com'' \<or>
        list_all (\<lambda>u. \<not> denied ''Accepted'' u \<and> \<not> denied ''Programmed'' u) (listed A (inference_kind ''aigateways'') w))"

text \<open>
  C13 The verdict every command shares speaks of the live cluster. When a check of the readiness
  succeeds, a cluster called ready serves the 2.4 policy group with at least one Infra programmed (or only
  the 2.3 group, when that is accepted), its controller is rolled out, and every Gateway of the
  controller's classes is accepted and programmed. A cluster with all that is called ready when the further checks
  hold: the Infras all programmed, TMM complete if it exists, every persistence profile programmed,
  no readable AI gateway object denied.
\<close>

theorem readiness_documented:
  assumes "f5CRDGroups A w = Inr (groups, served)" and "CheckReadiness A opts w = Inr (rd, idx)"
  shows "(rd_Ready rd \<longrightarrow> documented_ready A (withDefaults opts) groups w) \<and>
    (further_checks A (withDefaults opts) groups served w \<longrightarrow>
      rd_Ready rd = documented_ready A (withDefaults opts) groups w)"
proof -
  have ex: "(\<exists>u \<in> set us. P u) \<longleftrightarrow> us \<noteq> []" if "\<forall>u \<in> set us. P u" for us :: "unst list" and P
    using that by (cases us) auto
  show ?thesis
    using readiness_exact [OF assms] ex [of "listed A (f5_kind ''infras'') w" "holds ''Programmed''"]
    by (auto simp: cluster_ready_def documented_ready_def further_checks_def list_all_iff split: if_splits)
qed

text \<open>What went wrong.\<close>

fun cause :: "'e scan_error \<Rightarrow> 'e" where
  "cause (CRDsUnread e) = e"
| "cause (ListFailed _ e) = e"
| "cause (DeploymentUnread _ _ e) = e"
| "cause (DaemonSetUnread _ _ e) = e"

lemma read_kinds_Inl: "read_kinds A ks w = Inl e \<Longrightarrow> \<not> ca_not_found A (cause e)"
  by (induction A ks w rule: read_kinds.induct) (auto simp: either_Inl dest: read_kind_Inl)

lemma read_optional_Inl: "read_optional A served ks w = Inl e \<Longrightarrow> \<not> ca_not_found A (cause e)"
  by (induction A served ks w rule: read_optional.induct) (auto simp: either_Inl dest: read_kind_Inl split: if_splits)

lemma missing_absent:
  assumes "list_all2 (\<lambda>(k, g) (k', r). k' = k \<and> read_kind A k g w = Inr r) ks rs"
  shows "missing_kinds rs = map fst (filter (\<lambda>(k, g). absent A g w) ks)"
  using assms
proof (induction ks rs rule: list_all2_induct)
  case (Cons p ks q rs)
  then show ?case by (cases p; cases q) (auto simp: missing_kinds_def dest: read_kind_Inr)
qed (simp add: missing_kinds_def)

text \<open>
  C38 A kind the cluster does not serve never fails a scan: the error of a failed scan is always
  another one, and a successful scan lists as missing, in order, exactly the required kinds whose list
  call was answered with not found.
\<close>

theorem scan_missing_exact:
  "case Scan A opts w of
     Inl e \<Rightarrow> \<not> ca_not_found A (cause e)
   | Inr idx \<Rightarrow> ix_Missing idx = sort (map fst (filter (\<lambda>(kind, g). absent A g w) (required_kinds @ gateway_kinds)))"
proof (cases "Scan A opts w")
  case (Inl e)
  have "\<not> ca_not_found A (cause e)"
    using Inl
    by (auto simp: Scan_def Let_def either_Inl f5CRDGroups_def read_controller_def scanTMM_def
        dest: read_kinds_Inl read_optional_Inl split: sum.splits if_splits option.splits prod.splits)
  with Inl show ?thesis by simp
next
  case (Inr idx)
  then obtain req gapi where r: "read_kinds A required_kinds w = Inr req" "read_kinds A gateway_kinds w = Inr gapi"
    "ix_Missing idx = sort (missing_kinds req @ missing_kinds gapi)"
    by (auto simp: Scan_def Let_def either_Inr)
  with Inr show ?thesis
    by (simp add: missing_absent [OF read_kinds_Inr [OF r(1)]] missing_absent [OF read_kinds_Inr [OF r(2)]])
qed

subsection \<open>Waiting\<close>

text \<open>How a loop that checks first can end: with the check's own word, or late, in the world returned.\<close>

lemma poll_loop_outcome:
  assumes "poll_loop now sleep check deadline poll seen w = Some (r, w')"
  shows "case r of Finished x \<Rightarrow> \<exists>l. check l w' = Ready x | Errored f \<Rightarrow> \<exists>l. check l w' = Broken f
    | TimedOut l \<Rightarrow> deadline < now w' \<and> (\<exists>l'. check l' w' = Again l) | Interrupted_wait e l \<Rightarrow> \<exists>w0. sleep poll w0 = (Some e, w')"
proof -
  have "case fst y of Finished x \<Rightarrow> \<exists>l. check l (snd y) = Ready x | Errored f \<Rightarrow> \<exists>l. check l (snd y) = Broken f
      | TimedOut l \<Rightarrow> deadline < now (snd y) \<and> (\<exists>l'. check l' (snd y) = Again l)
      | Interrupted_wait e l \<Rightarrow> \<exists>w0. sleep poll w0 = (Some e, snd y)"
    if "poll_loop now sleep check deadline poll seen w = Some y" for y
    by (rule poll_loop.raw_induct [OF _ that,
          where P = "\<lambda>now sleep check deadline poll _ _ y.
            case fst y of Finished x \<Rightarrow> \<exists>l. check l (snd y) = Ready x | Errored f \<Rightarrow> \<exists>l. check l (snd y) = Broken f
            | TimedOut l \<Rightarrow> deadline < now (snd y) \<and> (\<exists>l'. check l' (snd y) = Again l)
            | Interrupted_wait e l \<Rightarrow> \<exists>w0. sleep poll w0 = (Some e, snd y)"])
      (auto split: if_splits option.splits prod.splits checked.splits)
  from this [OF assms] show ?thesis unfolding fst_conv snd_conv .
qed

lemma ready_check_simps:
  "ready_check A opts l w = Ready (rd, idx) \<longleftrightarrow> rd_Ready rd \<and> CheckReadiness A opts w = Inr (rd, idx)"
  "ready_check A opts l w \<noteq> Broken f"
  by (auto simp: ready_check_def split: sum.splits if_splits prod.splits)

lemma ready_check_Again:
  "ready_check A opts l w = Again l' \<Longrightarrow> case CheckReadiness A opts w of Inl _ \<Rightarrow> True | Inr (rd, _) \<Rightarrow> \<not> rd_Ready rd"
  by (auto simp: ready_check_def split: sum.splits if_splits prod.splits)

text \<open>
  C39 Waiting for readiness always returns, when every sleep that is not cut lets the clock advance: with
  a verdict that is ready and is the scan of the cluster at that moment, after the deadline with a
  last scan that was not ready or failed, or with the error that cut a sleep.
\<close>

theorem wait_ready_ends:
  assumes "\<And>t w w'. sleep t w = (None, w') \<Longrightarrow> now w < now w'"
  shows "\<exists>r w'. WaitReady now sleep A opts timeout poll w = Some (r, w') \<and>
    (case r of
       Finished (rd, idx) \<Rightarrow> rd_Ready rd \<and> CheckReadiness A opts w' = Inr (rd, idx)
     | Errored _ \<Rightarrow> False
     | TimedOut _ \<Rightarrow> now w + timeout < now w' \<and>
         (case CheckReadiness A opts w' of Inl _ \<Rightarrow> True | Inr (rd, _) \<Rightarrow> \<not> rd_Ready rd)
     | Interrupted_wait e _ \<Rightarrow> \<exists>t w0. sleep t w0 = (Some e, w'))"
proof -
  have "\<exists>y. WaitReady now sleep A opts timeout poll w = Some y"
    unfolding WaitReady_def by (rule poll_loop_terminates) (rule assms)
  then obtain r w' where run: "WaitReady now sleep A opts timeout poll w = Some (r, w')" by fastforce
  note ends = poll_loop_outcome [OF run [unfolded WaitReady_def]]
  have "case r of
      Finished (rd, idx) \<Rightarrow> rd_Ready rd \<and> CheckReadiness A opts w' = Inr (rd, idx)
    | Errored _ \<Rightarrow> False
    | TimedOut _ \<Rightarrow> now w + timeout < now w' \<and>
        (case CheckReadiness A opts w' of Inl _ \<Rightarrow> True | Inr (rd, _) \<Rightarrow> \<not> rd_Ready rd)
    | Interrupted_wait e _ \<Rightarrow> \<exists>t w0. sleep t w0 = (Some e, w')"
  proof (cases r)
    case (Finished x)
    with ends show ?thesis by (cases x) (simp add: ready_check_simps)
  next
    case (Errored f)
    with ends show ?thesis by (simp add: ready_check_simps)
  next
    case (TimedOut l)
    with ends obtain l' where "now w + timeout < now w'" "ready_check A opts l' w' = Again l" by auto
    then show ?thesis using TimedOut ready_check_Again by simp
  next
    case (Interrupted_wait e l)
    with ends show ?thesis by simp blast
  qed
  with run show ?thesis by (intro exI conjI)
qed

subsection \<open>A cluster\<close>

definition named :: "string \<Rightarrow> (string list \<Rightarrow> string) \<Rightarrow> any list option \<Rightarrow> unst" where
  "named name str conds = \<lparr>un_kind = [], un_apiVersion = [], un_namespace = ''ns'', un_name = name, un_annotations = Map.empty,
     un_slice = (\<lambda>p. if p = [''status'', ''conditions''] then conds else None), un_string = str, un_bool = (\<lambda>_. None),
     un_strings = (\<lambda>_. []), un_field = (\<lambda>_. None)\<rparr>"

definition programmed :: "any list" where
  "programmed = [AMap [(''type'', AString ''Programmed''), (''status'', AString ''True'')]]"

text \<open>Serves 2.4 with one Infra that is programmed once the clock has passed 5, and nothing else.\<close>

definition small_cluster :: "(int, string) cluster_api" where
  "small_cluster = \<lparr>ca_not_found = (\<lambda>e. e = ''404''), ca_forbidden = (\<lambda>_. False),
     ca_list = (\<lambda>g w. if g = crd_gvr then Inr [named ''infras'' (\<lambda>_. ''gateway.k8s.f5.com'') None]
       else if g = f5_kind ''infras'' then Inr [named ''infra'' (\<lambda>_. []) (if 5 < w then Some programmed else None)] else Inl ''404''),
     ca_clientset = True, ca_deployment = (\<lambda>_ _ _. Inr (None, 1)), ca_daemonset = (\<lambda>_ _ _. Inl ''404''),
     ca_pods = (\<lambda>_ _ _. Inr []), ca_events = (\<lambda>_ _ _. Inr [])\<rparr>"

definition no_options :: scan_options where
  "no_options = \<lparr>so_ControllerNamespace = [], so_ControllerName = [], so_TMMName = [], so_AcceptLegacy = False\<rparr>"

lemma small_scan: "\<exists>rd idx. CheckReadiness small_cluster no_options w = Inr (rd, idx)"
  by (simp add: CheckReadiness_def Scan_def either_def f5CRDGroups_def read_kind_def listAll_def required_kinds_def
      optional_kinds_def gateway_kinds_def readable_def read_controller_def scanTMM_def small_cluster_def crd_gvr_def
      f5_kind_def data_plane_kind_def inference_kind_def gateway_api_kind_def GatewayF5Group_def DataPlaneGroup_def
      InferenceF5Group_def GatewayAPIGroup_def Let_def)

lemma small_groups: "f5CRDGroups small_cluster w = Inr ([''gateway.k8s.f5.com''], Some [''infras''])"
  by (simp add: f5CRDGroups_def small_cluster_def named_def has_suffix_def has_prefix_def)

theorem readiness_documented_witness:
  "\<exists>rd idx rd' idx'. CheckReadiness small_cluster no_options 6 = Inr (rd, idx) \<and> rd_Ready rd \<and>
     CheckReadiness small_cluster no_options 5 = Inr (rd', idx') \<and> \<not> rd_Ready rd'"
proof -
  from small_scan obtain rd idx where up: "CheckReadiness small_cluster no_options 6 = Inr (rd, idx)" by blast
  from small_scan obtain rd' idx' where early: "CheckReadiness small_cluster no_options 5 = Inr (rd', idx')" by blast
  note defs = documented_ready_def further_checks_def small_cluster_def no_options_def withDefaults_def listed_def
    rolled_out_def tmm_ok_def GatewayF5Group_def crd_gvr_def f5_kind_def data_plane_kind_def inference_kind_def
    gateway_api_kind_def DataPlaneGroup_def InferenceF5Group_def GatewayAPIGroup_def readable_def holds_def
    status_conditions_def conditionsOf_def named_def programmed_def findCondition_def map_filter_def
  have "documented_ready small_cluster (withDefaults no_options) [''gateway.k8s.f5.com''] 6"
    by (simp add: defs)
  moreover have "further_checks small_cluster (withDefaults no_options) [''gateway.k8s.f5.com''] (Some [''infras'']) 6"
    by (simp add: defs)
  moreover have "\<not> documented_ready small_cluster (withDefaults no_options) [''gateway.k8s.f5.com''] 5"
    by (simp add: defs)
  ultimately show ?thesis
    using readiness_documented [OF small_groups up] readiness_documented [OF small_groups early] up early by blast
qed

definition tick :: "int \<Rightarrow> int \<Rightarrow> string option \<times> int" where
  "tick t w = (None, w + 1 + \<bar>t\<bar>)"

lemma tick_advances: "tick t w = (None, w') \<Longrightarrow> id w < id w'"
  by (auto simp: tick_def)

theorem wait_ready_ends_witness:
  "\<exists>r w'. WaitReady id tick small_cluster no_options 100 4 0 = Some (r, w') \<and>
     (case r of Interrupted_wait e _ \<Rightarrow> False | _ \<Rightarrow> True)"
proof -
  have "\<exists>r w'. WaitReady id tick small_cluster no_options 100 4 0 = Some (r, w') \<and>
    (case r of
       Finished (rd, idx) \<Rightarrow> rd_Ready rd \<and> CheckReadiness small_cluster no_options w' = Inr (rd, idx)
     | Errored _ \<Rightarrow> False
     | TimedOut _ \<Rightarrow> id 0 + 100 < id w' \<and>
         (case CheckReadiness small_cluster no_options w' of Inl _ \<Rightarrow> True | Inr (rd, _) \<Rightarrow> \<not> rd_Ready rd)
     | Interrupted_wait e _ \<Rightarrow> \<exists>t w0. tick t w0 = (Some e, w'))"
    by (rule wait_ready_ends) (rule tick_advances)
  then obtain r w' where run: "WaitReady id tick small_cluster no_options 100 4 0 = Some (r, w')"
    and ends: "case r of Interrupted_wait e _ \<Rightarrow> \<exists>t w0. tick t w0 = (Some e, w') | _ \<Rightarrow> True"
    by (elim exE conjE) (rule that, assumption, split waited.split_asm, simp_all)
  from ends have "case r of Interrupted_wait e _ \<Rightarrow> False | _ \<Rightarrow> True" by (cases r) (simp_all add: tick_def)
  with run show ?thesis by blast
qed

end
