(* ===== verification/Activation.thy ===== *)
theory Activation
  imports BnkReadiness HealRun
begin

text \<open>
  Phase 25 (\<open>internal/aws/phases/phase25_activation_poll.go\<close>): \<open>up\<close> waits until the CNEInstance and
  the License are active and the shared readiness verdict holds, and kicks the controller at most
  once. The API server is a record of the calls made, with the ones of the readiness scan and of the
  healing phases in it.
\<close>

subsection \<open>The API server\<close>

record ('w, 'e, 'b) activation_api =
  ac_kube :: "('w, 'e, 'b) kube"
  ac_scan :: "('w, 'e) cluster_api"
  ac_cne :: "string \<Rightarrow> 'w \<Rightarrow> 'e + unst"
  ac_license :: "'w \<Rightarrow> 'e + unst"
  ac_phases :: "'w \<Rightarrow> 'e + string list"
  ac_patch :: "string \<Rightarrow> string \<Rightarrow> string \<Rightarrow> 'w \<Rightarrow> 'e option \<times> 'w"
  ac_nano :: "int \<Rightarrow> string"

datatype 'e verdict_note = ScanBroken "'e scan_error" | Verdict readiness

datatype 'e activation_error =
    NoClient
  | ActivationCut 'e
  | ReadinessPending "'e verdict_note"
  | NeverActive string string
  | ActivationUnsaved 'e

text \<open>The trigger is the time of the patch, so that every patch is a change.\<close>

(* src/pkg/bnk/resync_cne.go:30-43 ResyncCNEInstance *)
definition ResyncCNEInstance :: "('w, 'e, 'b) activation_api \<Rightarrow> string \<Rightarrow> string \<Rightarrow> 'w \<Rightarrow> 'e option \<times> 'w" where
  "ResyncCNEInstance A namespace name w =
     ac_patch A namespace name (ac_nano A (ku_now (ac_kube A) w)) w"

subsection \<open>What a round reads\<close>

(* src/internal/aws/phases/phase25_activation_poll.go:186-188 isCNEReady *)
definition isCNEReady :: "string \<Rightarrow> bool" where
  "isCNEReady s \<longleftrightarrow> s = ''Ready'' \<or> s = ''Running''"

text \<open>The last condition of each type decides; an entry that is no map is passed over.\<close>

fun data_path :: "any \<Rightarrow> bool \<times> bool \<Rightarrow> bool \<times> bool" where
  "data_path (AMap m) (tmm, ctrl) =
     (if string_in m ''type'' = ''F5TmmAvailable'' then (string_in m ''status'' = ''True'', ctrl)
      else if string_in m ''type'' = ''CNEControllerAvailable'' then (tmm, string_in m ''status'' = ''True'')
      else (tmm, ctrl))"
| "data_path _ p = p"

(* src/internal/aws/phases/phase25_activation_poll.go:198-220 cneFunctionallyReady *)
definition cneFunctionallyReady :: "unst \<Rightarrow> bool" where
  "cneFunctionallyReady u =
     (case un_slice u [''status'', ''conditions''] of
        None \<Rightarrow> False
      | Some conds \<Rightarrow> (case fold data_path conds (False, False) of (tmm, ctrl) \<Rightarrow> tmm \<and> ctrl))"

text \<open>Running, pending, failed and all pods.\<close>

(* src/internal/aws/phases/phase25_activation_poll.go:223-240 podCounts *)
definition podCounts :: "('w, 'e, 'b) activation_api \<Rightarrow> 'w \<Rightarrow> nat \<times> nat \<times> nat \<times> nat" where
  "podCounts A w =
     (case ac_phases A w of
        Inl _ \<Rightarrow> (0, 0, 0, 0)
      | Inr ps \<Rightarrow> (count_list ps ''Running'', count_list ps ''Pending'', count_list ps ''Failed'', length ps))"

definition cne_state :: "('w, 'e, 'b) activation_api \<Rightarrow> string \<Rightarrow> 'w \<Rightarrow> string" where
  "cne_state A cr w = (case ac_cne A cr w of Inl _ \<Rightarrow> [] | Inr u \<Rightarrow> un_string u [''status'', ''state''])"

definition cne_ready :: "('w, 'e, 'b) activation_api \<Rightarrow> string \<Rightarrow> 'w \<Rightarrow> bool" where
  "cne_ready A cr w =
     (case ac_cne A cr w of
        Inl _ \<Rightarrow> False
      | Inr u \<Rightarrow> isCNEReady (un_string u [''status'', ''state'']) \<or> cneFunctionallyReady u)"

definition license_state :: "('w, 'e, 'b) activation_api \<Rightarrow> 'w \<Rightarrow> string" where
  "license_state A w = (case ac_license A w of Inl _ \<Rightarrow> [] | Inr u \<Rightarrow> un_string u [''status'', ''state''])"

definition activation_options :: scan_options where
  "activation_options = \<lparr>so_ControllerNamespace = InstanceNamespace, so_ControllerName = [], so_TMMName = [], so_AcceptLegacy = True\<rparr>"

definition verdict_at :: "('w, 'e, 'b) activation_api \<Rightarrow> 'w \<Rightarrow> 'e scan_error + readiness \<times> bnk_index" where
  "verdict_at A w = CheckReadiness (ac_scan A) activation_options w"

(* src/internal/aws/phases/phase25_activation_poll.go:172-180 activationReady *)
definition activationReady :: "'e scan_error + readiness \<times> bnk_index \<Rightarrow> bool \<times> 'e verdict_note" where
  "activationReady r =
     (case r of Inl e \<Rightarrow> (False, ScanBroken e) | Inr (rd, _) \<Rightarrow> (rd_Ready rd, Verdict rd))"

subsection \<open>The phase\<close>

fun generation_text :: "generation \<Rightarrow> string" where
  "generation_text Gen23 = ''2.3''"
| "generation_text Gen24 = ''2.4''"
| "generation_text GenMixed = ''mixed''"
| "generation_text GenNone = ''none''"

(* src/internal/aws/phases/phase25_activation_poll.go:25-35 phase25MaxIter part *)
definition phase25MaxIter :: nat where
  "phase25MaxIter = 18"

definition activation_sleep :: "('w, 'e, 'b) activation_api \<Rightarrow> ('w, 'e activation_error, unit) phase" where
  "activation_sleep A = and_do (call (ku_sleep (ac_kube A) (30 * Second))) (check_err ActivationCut)"

text \<open>What the phase remembers: the kick, the last states and the last verdict.\<close>

record 'e activation_memory =
  am_kicked :: bool
  am_cne :: string
  am_license :: string
  am_verdict :: "'e verdict_note option"

definition record_activation :: "('w, 'e, 'b) activation_api \<Rightarrow> readiness \<Rightarrow> ('w, 'e activation_error, unit) phase" where
  "record_activation A rd =
     and_do (query (ku_now (ac_kube A))) (\<lambda>now.
     and_do (st_set ''CNEINSTANCE_READY_AT'' (ku_rfc3339 (ac_kube A) now)) (\<lambda>_.
     and_do (st_set ''BNK_API_GENERATION'' (generation_text (rd_Generation rd))) (\<lambda>_.
     (\<lambda>s. case ku_save (ac_kube A) (rs_st s) (rs_world s) of
        (None, w) \<Rightarrow> Some (Inr (), s\<lparr>rs_world := w\<rparr>)
      | (Some e, w) \<Rightarrow> Some (Inl (ActivationUnsaved e), s\<lparr>rs_world := w\<rparr>)))))"

text \<open>What a round sees: the verdict that lets it succeed, if any, and what to remember.\<close>

definition look ::
  "('w, 'e, 'b) activation_api \<Rightarrow> string \<Rightarrow> 'e activation_memory \<Rightarrow> 'w \<Rightarrow> readiness option \<times> 'e activation_memory" where
  "look A cr m w =
     (let m1 = m\<lparr>am_cne := cne_state A cr w, am_license := license_state A w\<rparr> in
      if cne_ready A cr w \<and> license_state A w = ''Active'' then
        (let r = verdict_at A w; (ready, note) = activationReady r in
         (if ready then map_option fst (case r of Inl _ \<Rightarrow> None | Inr p \<Rightarrow> Some p) else None, m1\<lparr>am_verdict := Some note\<rparr>))
      else (None, m1))"

text \<open>The kick of a round, whose failure is ignored. The pods and the CNEInstance were read before.\<close>

definition kick_round :: "('w, 'e, 'b) activation_api \<Rightarrow> string \<Rightarrow> nat \<Rightarrow> bool \<Rightarrow> 'w \<Rightarrow> bool \<times> 'w" where
  "kick_round A cr i kicked w =
     (case podCounts A w of (running, _, _, all) \<Rightarrow>
        if \<not> kicked \<and> 6 \<le> i \<and> running = all \<and> 0 < all \<and> \<not> cne_ready A cr w
        then (True, snd (ResyncCNEInstance A InstanceNamespace cr w))
        else (kicked, w))"

(* src/internal/aws/phases/phase25_activation_poll.go:78-167 Phase25ActivationPoll part *)
fun activation_rounds ::
  "('w, 'e, 'b) activation_api \<Rightarrow> string \<Rightarrow> nat \<Rightarrow> nat \<Rightarrow> 'e activation_memory \<Rightarrow> ('w, 'e activation_error, unit) phase" where
  "activation_rounds A cr 0 i m =
     raise (case am_verdict m of Some v \<Rightarrow> ReadinessPending v | None \<Rightarrow> NeverActive (am_cne m) (am_license m))"
| "activation_rounds A cr (Suc left) i m =
     and_do (if 1 < i then activation_sleep A else give ()) (\<lambda>_.
     and_do (call (\<lambda>w. ((), syncTmmReadinessGates (ac_kube A) w))) (\<lambda>_.
     and_do (query (look A cr m)) (\<lambda>(passed, m1).
     case passed of
       Some rd \<Rightarrow> record_activation A rd
     | None \<Rightarrow>
         and_do (call (kick_round A cr i (am_kicked m1))) (\<lambda>k.
         activation_rounds A cr left (Suc i) (m1\<lparr>am_kicked := k\<rparr>)))))"

(* src/internal/aws/phases/phase25_activation_poll.go:48-167 Phase25ActivationPoll *)
definition Phase25ActivationPoll ::
  "('w, 'e, 'b) activation_api \<Rightarrow> bool \<Rightarrow> bool \<Rightarrow> ('w, 'e activation_error, unit) phase" where
  "Phase25ActivationPoll A dryRun skipPoll =
     (if skipPoll \<or> dryRun then give ()
      else if \<not> ku_dynamic (ac_kube A) \<or> \<not> ca_clientset (ac_scan A) then raise NoClient
      else and_do (activation_sleep A) (\<lambda>_.
        and_do intent (\<lambda>c.
        activation_rounds A (md_Name (cl_Metadata c) @ ''-bnk'') phase25MaxIter 1
          \<lparr>am_kicked = False, am_cne = [], am_license = [], am_verdict = None\<rparr>)))"

(* src/internal/aws/phases/phase25_activation_poll.go:281-283 Phase25ActivationPollDown *)
definition Phase25ActivationPollDown :: "('w, 'e activation_error, unit) phase" where
  "Phase25ActivationPollDown = give ()"

end
