(* ===== verification/ActivationClaims.thy ===== *)
theory ActivationClaims
  imports Activation HealClaims
begin

text \<open>
  What phase 25 guarantees: success means that activation and readiness were seen together and is
  what the state records; the phase always returns and kicks the controller at most once.
\<close>

subsection \<open>Success\<close>

text \<open>The CNEInstance, the License and the readiness verdict of one moment.\<close>

definition activated :: "('w, 'e, 'b) activation_api \<Rightarrow> string \<Rightarrow> 'w \<Rightarrow> generation \<Rightarrow> bool" where
  "activated A cr w gen \<longleftrightarrow> cne_ready A cr w \<and> license_state A w = ''Active'' \<and>
     (\<exists>rd idx. CheckReadiness (ac_scan A) activation_options w = Inr (rd, idx) \<and> rd_Ready rd \<and> rd_Generation rd = gen)"

text \<open>The state a success leaves, saved in the world of that moment.\<close>

definition recorded :: "('w, 'e, 'b) activation_api \<Rightarrow> string \<Rightarrow> state \<Rightarrow> 'w run_state \<Rightarrow> bool" where
  "recorded A cr st s' \<longleftrightarrow> (\<exists>w gen. activated A cr w gen \<and>
     rs_st s' = Set_key ''BNK_API_GENERATION'' (generation_text gen)
       (Set_key ''CNEINSTANCE_READY_AT'' (ku_rfc3339 (ac_kube A) (ku_now (ac_kube A) w)) st) \<and>
     ku_save (ac_kube A) (rs_st s') w = (None, rs_world s'))"

lemma record_activation_ok:
  "record_activation A rd s = Some (Inr (), s') \<Longrightarrow>
   rs_st s' = Set_key ''BNK_API_GENERATION'' (generation_text (rd_Generation rd))
       (Set_key ''CNEINSTANCE_READY_AT'' (ku_rfc3339 (ac_kube A) (ku_now (ac_kube A) (rs_world s))) (rs_st s)) \<and>
   ku_save (ac_kube A) (rs_st s') (rs_world s) = (None, rs_world s')"
  by (auto simp: record_activation_def and_do_def query_def st_set_def split: prod.splits option.splits)

lemma and_do_gives:
  "and_do m f s = Some (Inr x, s') \<longleftrightarrow> (\<exists>y s1. m s = Some (Inr y, s1) \<and> f y s1 = Some (Inr x, s'))"
  by (auto simp: and_do_def split: option.splits sum.splits prod.splits)

lemma activation_sleep_ok: "activation_sleep A s = Some (Inr (), s') \<Longrightarrow> rs_st s' = rs_st s \<and> rs_cl s' = rs_cl s"
  by (auto simp: activation_sleep_def and_do_gives call_def check_err_def raise_def give_def split: prod.splits option.splits)

lemma look_passed:
  "look A cr m w = (Some rd, m1) \<Longrightarrow> activated A cr w (rd_Generation rd)"
  by (auto simp: look_def activated_def activationReady_def verdict_at_def Let_def split: if_splits sum.splits prod.splits)

text \<open>A round that goes on leaves the in-memory state alone.\<close>

lemma activation_rounds_ok:
  "activation_rounds A cr left i m s = Some (Inr (), s') \<Longrightarrow> recorded A cr (rs_st s) s'"
proof (induction left arbitrary: i m s)
  case 0
  then show ?case by (simp add: raise_def)
next
  case (Suc left)
  from Suc.prems [unfolded activation_rounds.simps, THEN and_do_gives [THEN iffD1]]
  obtain s1 where slept: "(if 1 < i then activation_sleep A else give ()) s = Some (Inr (), s1)"
    and run: "and_do (call (\<lambda>w. ((), syncTmmReadinessGates (ac_kube A) w))) (\<lambda>_.
     and_do (query (look A cr m)) (\<lambda>(passed, m1).
     case passed of
       Some rd \<Rightarrow> record_activation A rd
     | None \<Rightarrow>
         and_do (call (kick_round A cr i (am_kicked m1))) (\<lambda>k.
         activation_rounds A cr left (Suc i) (m1\<lparr>am_kicked := k\<rparr>)))) s1 = Some (Inr (), s')"
    by (elim exE conjE) (rule that, simp, assumption)
  from slept have st: "rs_st s1 = rs_st s"
    by (cases "1 < i") (auto simp: give_def dest: activation_sleep_ok)
  let ?w = "syncTmmReadinessGates (ac_kube A) (rs_world s1)"
  obtain passed m1 where l: "look A cr m ?w = (passed, m1)" by fastforce
  show ?case
  proof (cases passed)
    case (Some rd)
    with run l have "record_activation A rd (s1\<lparr>rs_world := ?w\<rparr>) = Some (Inr (), s')"
      by (simp add: and_do_def call_def query_def)
    note rec = record_activation_ok [OF this]
    have seen: "activated A cr ?w (rd_Generation rd)" by (rule look_passed) (use l Some in simp)
    show ?thesis
      unfolding recorded_def
    proof (intro exI conjI)
      show "activated A cr ?w (rd_Generation rd)" by (rule seen)
      show "ku_save (ac_kube A) (rs_st s') ?w = (None, rs_world s')" using rec [THEN conjunct2] by simp
    qed (use rec [THEN conjunct1] st in simp)
  next
    case None
    with run l obtain k w2 where "activation_rounds A cr left (Suc i) (m1\<lparr>am_kicked := k\<rparr>) (s1\<lparr>rs_world := w2\<rparr>) = Some (Inr (), s')"
      by (auto simp: and_do_def call_def query_def split: prod.splits)
    from Suc.IH [OF this] st show ?thesis by simp
  qed
qed

text \<open>A ready verdict has a generation.\<close>

lemma ready_served: "rd_Ready (readiness_of acceptLegacy idx) \<Longrightarrow> rd_Generation (readiness_of acceptLegacy idx) \<noteq> GenNone"
  by (cases "ix_Generation idx") (simp_all add: readiness_of_def problems_def Let_def)

lemma ready_generation: "activated A cr w gen \<Longrightarrow> gen \<noteq> GenNone"
  using ready_served by (cases "Scan (ac_scan A) activation_options w") (auto simp: activated_def CheckReadiness_def)

text \<open>
  C17 When the activation poll succeeds, there was a moment at which the CNEInstance was ready (by its
  state or by its data path conditions), the License was active and the readiness verdict of the
  cluster was positive; the state then saved, with success, is the old one with the time of that
  moment and the generation of that verdict, which is a served one.
\<close>

theorem activation_sound:
  assumes "Phase25ActivationPoll A False False s = Some (Inr (), s')"
  shows "\<exists>w gen. activated A (md_Name (cl_Metadata (rs_cl s)) @ ''-bnk'') w gen \<and> gen \<noteq> GenNone \<and>
     rs_st s' = Set_key ''BNK_API_GENERATION'' (generation_text gen)
       (Set_key ''CNEINSTANCE_READY_AT'' (ku_rfc3339 (ac_kube A) (ku_now (ac_kube A) w)) (rs_st s)) \<and>
     ku_save (ac_kube A) (rs_st s') w = (None, rs_world s')"
proof -
  from assms obtain s1 where s1: "activation_sleep A s = Some (Inr (), s1)"
    and run: "activation_rounds A (md_Name (cl_Metadata (rs_cl s1)) @ ''-bnk'') phase25MaxIter 1
          \<lparr>am_kicked = False, am_cne = [], am_license = [], am_verdict = None\<rparr> s1 = Some (Inr (), s')"
    by (auto simp: Phase25ActivationPoll_def and_do_gives intent_def raise_def split: if_splits)
  from activation_rounds_ok [OF run] activation_sleep_ok [OF s1] ready_generation show ?thesis
    unfolding recorded_def by (metis (no_types, lifting))
qed

subsection \<open>The kick\<close>

text \<open>\<open>n\<close> counts the patches of CNEInstances: each patch call counts, no other call does.\<close>

definition counts_patches :: "('w, 'e, 'b) activation_api \<Rightarrow> ('w \<Rightarrow> nat) \<Rightarrow> bool" where
  "counts_patches A n \<longleftrightarrow>
     (\<forall>ns name t w. n (snd (ac_patch A ns name t w)) = Suc (n w)) \<and>
     (\<forall>d w. n (snd (ku_sleep (ac_kube A) d w)) = n w) \<and>
     (\<forall>p w. n (snd (ku_update_status (ac_kube A) p w)) = n w) \<and>
     (\<forall>st w. n (snd (ku_save (ac_kube A) st w)) = n w)"

lemma sync_patches: "counts_patches A n \<Longrightarrow> n (syncTmmReadinessGates (ac_kube A) w) = n w"
proof -
  assume c: "counts_patches A n"
  have "n (fold (\<lambda>p w. if needs_gates p then snd (ku_update_status (ac_kube A) (gated (ku_iter (ac_kube A)) p) w) else w) ps w) = n w" for ps w
    by (induction ps arbitrary: w) (use c in \<open>auto simp: counts_patches_def\<close>)
  then show ?thesis by (simp add: syncTmmReadinessGates_def split: sum.splits)
qed

lemma kick_patches:
  "counts_patches A n \<Longrightarrow> kick_round A cr i kicked w = (k, w') \<Longrightarrow>
   n w' + of_bool kicked = n w + of_bool k \<and> (k \<noteq> kicked \<longrightarrow> 6 \<le> i)"
  by (auto simp: counts_patches_def kick_round_def ResyncCNEInstance_def split: if_splits prod.splits)

lemma sleep_patches:
  assumes "counts_patches A n"
  shows "\<exists>r s'. activation_sleep A s = Some (r, s') \<and> n (rs_world s') = n (rs_world s)"
proof -
  obtain q w where c: "ku_sleep (ac_kube A) (30 * Second) (rs_world s) = (q, w)" by fastforce
  with assms have "n w = n (rs_world s)" unfolding counts_patches_def by (metis snd_conv)
  with c show ?thesis
    by (cases q) (simp_all add: activation_sleep_def and_do_def call_def check_err_def raise_def give_def)
qed

lemma record_patches:
  assumes "counts_patches A n"
  shows "\<exists>r s'. record_activation A rd s = Some (r, s') \<and> n (rs_world s') = n (rs_world s)"
proof -
  let ?st = "Set_key ''BNK_API_GENERATION'' (generation_text (rd_Generation rd))
     (Set_key ''CNEINSTANCE_READY_AT'' (ku_rfc3339 (ac_kube A) (ku_now (ac_kube A) (rs_world s))) (rs_st s))"
  obtain q w where c: "ku_save (ac_kube A) ?st (rs_world s) = (q, w)" by fastforce
  with assms have "n w = n (rs_world s)" unfolding counts_patches_def by (metis snd_conv)
  with c show ?thesis
    by (cases q) (simp_all add: record_activation_def and_do_def query_def st_set_def)
qed

lemma activation_rounds_patches:
  assumes "counts_patches A n"
  shows "\<exists>r s'. activation_rounds A cr left i m s = Some (r, s') \<and>
    n (rs_world s') + of_bool (am_kicked m) \<le> n (rs_world s) + 1 \<and>
    (left + i \<le> 6 \<longrightarrow> n (rs_world s') = n (rs_world s))"
proof (induction left arbitrary: i m s)
  case 0
  show ?case by (simp add: raise_def)
next
  case (Suc left)
  have "\<exists>r s1. (if 1 < i then activation_sleep A else give ()) s = Some (r, s1) \<and> n (rs_world s1) = n (rs_world s)"
    using sleep_patches [OF assms] by (simp add: give_def)
  then obtain r s1 where slept: "(if 1 < i then activation_sleep A else give ()) s = Some (r, s1)" "n (rs_world s1) = n (rs_world s)" by blast
  let ?w = "syncTmmReadinessGates (ac_kube A) (rs_world s1)"
  have w: "n ?w = n (rs_world s)" using slept(2) sync_patches [OF assms] by simp
  obtain passed m1 where l: "look A cr m ?w = (passed, m1)" by fastforce
  have kicked: "am_kicked m1 = am_kicked m"
    using l by (auto simp: look_def Let_def split: if_splits prod.splits)
  have unfold_round: "r = Inr () \<Longrightarrow> activation_rounds A cr (Suc left) i m s =
      (case passed of
         Some rd \<Rightarrow> record_activation A rd
       | None \<Rightarrow> and_do (call (kick_round A cr i (am_kicked m1))) (\<lambda>k.
           activation_rounds A cr left (Suc i) (m1\<lparr>am_kicked := k\<rparr>))) (s1\<lparr>rs_world := ?w\<rparr>)"
    using slept(1) l by (simp add: and_do_def call_def query_def)
  show ?case
  proof (cases r)
    case (Inl e)
    with slept show ?thesis by (cases "am_kicked m") (simp_all add: and_do_def)
  next
    case (Inr u)
    then have run: "activation_rounds A cr (Suc left) i m s =
      (case passed of
         Some rd \<Rightarrow> record_activation A rd
       | None \<Rightarrow> and_do (call (kick_round A cr i (am_kicked m1))) (\<lambda>k.
           activation_rounds A cr left (Suc i) (m1\<lparr>am_kicked := k\<rparr>))) (s1\<lparr>rs_world := ?w\<rparr>)"
      using unfold_round by simp
    show ?thesis
    proof (cases passed)
      case (Some rd)
      from record_patches [OF assms, of rd "s1\<lparr>rs_world := ?w\<rparr>"] w run Some show ?thesis
        by (cases "am_kicked m") auto
    next
      case None
      obtain k w2 where k: "kick_round A cr i (am_kicked m1) ?w = (k, w2)" by fastforce
      from kick_patches [OF assms k] Suc.IH [of "Suc i" "m1\<lparr>am_kicked := k\<rparr>" "s1\<lparr>rs_world := w2\<rparr>"] k run None w kicked
      show ?thesis by (cases "am_kicked m"; cases k) (auto simp: and_do_def call_def)
    qed
  qed
qed

text \<open>
  C25 The activation poll returns, whatever the cluster does, and patches the CNEInstance at most once.
\<close>

theorem activation_kicks_once:
  assumes "counts_patches A n"
  shows "\<exists>r s'. Phase25ActivationPoll A dryRun skipPoll s = Some (r, s') \<and> n (rs_world s') \<le> n (rs_world s) + 1 \<and>
    (dryRun \<or> skipPoll \<longrightarrow> r = Inr () \<and> s' = s)"
proof (cases "dryRun \<or> skipPoll \<or> \<not> ku_dynamic (ac_kube A) \<or> \<not> ca_clientset (ac_scan A)")
  case True
  then show ?thesis by (auto simp: Phase25ActivationPoll_def give_def raise_def)
next
  case False
  from sleep_patches [OF assms, of s] obtain r s1 where s: "activation_sleep A s = Some (r, s1)" "n (rs_world s1) = n (rs_world s)" by blast
  show ?thesis
  proof (cases r)
    case (Inl e)
    with False s show ?thesis by (simp add: Phase25ActivationPoll_def and_do_def)
  next
    case (Inr u)
    with False s activation_rounds_patches [OF assms,
      of "md_Name (cl_Metadata (rs_cl s1)) @ ''-bnk''" phase25MaxIter 1 "\<lparr>am_kicked = False, am_cne = [], am_license = [], am_verdict = None\<rparr>" s1]
    show ?thesis by (auto simp: Phase25ActivationPoll_def and_do_def intent_def)
  qed
qed

subsection \<open>A run\<close>

definition ready_object :: unst where
  "ready_object = \<lparr>un_kind = [], un_apiVersion = [], un_namespace = [], un_name = [], un_annotations = Map.empty,
     un_slice = (\<lambda>_. None), un_string = (\<lambda>p. if p = [''status'', ''state''] then ''Active'' else ''gateway.k8s.f5net.com''),
     un_bool = (\<lambda>_. None), un_strings = (\<lambda>_. []), un_field = (\<lambda>_. None)\<rparr>"

text \<open>A 2.3 cluster; the data path of its CNEInstance is available once a patch has been counted.\<close>

definition young_cluster :: "(nat, string) cluster_api" where
  "young_cluster = \<lparr>ca_not_found = (\<lambda>e. e = ''404''), ca_forbidden = (\<lambda>_. False),
     ca_list = (\<lambda>g _. if g = crd_gvr then Inr [ready_object] else Inl ''404''),
     ca_clientset = True, ca_deployment = (\<lambda>_ _ _. Inr (Some 1, 1)), ca_daemonset = (\<lambda>_ _ _. Inl ''404''),
     ca_pods = (\<lambda>_ _ _. Inr []), ca_events = (\<lambda>_ _ _. Inr [])\<rparr>"

definition data_path_up :: "any list" where
  "data_path_up = [AMap [(''type'', AString ''F5TmmAvailable''), (''status'', AString ''True'')],
     AMap [(''type'', AString ''CNEControllerAvailable''), (''status'', AString ''True'')]]"

definition young :: "(nat, string, unit) activation_api" where
  "young = \<lparr>ac_kube = sick, ac_scan = young_cluster,
     ac_cne = (\<lambda>_ w. Inr (ready_object\<lparr>un_string := (\<lambda>_. []),
        un_slice := (\<lambda>_. if 0 < w then Some data_path_up else None)\<rparr>)),
     ac_license = (\<lambda>_. Inr ready_object), ac_phases = (\<lambda>_. Inr [''Running'']),
     ac_patch = (\<lambda>_ _ _ w. (None, Suc w)), ac_nano = (\<lambda>_. ''now'')\<rparr>"

lemma young_counts: "counts_patches young id"
  by (simp add: counts_patches_def young_def sick_def)

lemma young_verdict: "\<exists>rd idx. CheckReadiness young_cluster activation_options w = Inr (rd, idx)"
  by (simp add: CheckReadiness_def Scan_def either_def f5CRDGroups_def read_kind_def listAll_def required_kinds_def
      optional_kinds_def gateway_kinds_def readable_def read_controller_def scanTMM_def young_cluster_def crd_gvr_def
      f5_kind_def data_plane_kind_def inference_kind_def gateway_api_kind_def GatewayF5Group_def DataPlaneGroup_def
      InferenceF5Group_def GatewayAPIGroup_def Let_def)

lemma young_ready:
  "CheckReadiness young_cluster activation_options w = Inr (rd, idx) \<Longrightarrow> rd_Ready rd \<and> rd_Generation rd = Gen23"
  by (auto simp: CheckReadiness_def Scan_def either_def f5CRDGroups_def read_kind_def listAll_def required_kinds_def
      optional_kinds_def gateway_kinds_def readable_def read_controller_def scanTMM_def young_cluster_def crd_gvr_def
      f5_kind_def data_plane_kind_def inference_kind_def gateway_api_kind_def GatewayF5Group_def DataPlaneGroup_def
      InferenceF5Group_def GatewayAPIGroup_def LegacyPolicyGroup_def Let_def ready_object_def has_suffix_def has_prefix_def
      DetectGeneration_def readiness_of_def problems_def found_kinds_def live_objects_def lookup_kind_def our_gateways_def
      not_ready_def profiles_not_ready_def activation_options_def withDefaults_def)

definition young_run :: "nat run_state" where
  "young_run = sick_run\<lparr>rs_world := 1\<rparr>"

lemma young_look:
  "\<exists>rd m1. look young cr m (1 :: nat) = (Some rd, m1) \<and> rd_Generation rd = Gen23"
proof -
  from young_verdict obtain rd idx where v: "CheckReadiness young_cluster activation_options (1 :: nat) = Inr (rd, idx)" by blast
  have c: "cne_ready young cr 1" "license_state young 1 = ''Active''"
    by (simp_all add: cne_ready_def license_state_def young_def ready_object_def cneFunctionallyReady_def data_path_up_def)
  have s: "verdict_at young 1 = Inr (rd, idx)" using v by (simp add: verdict_at_def young_def)
  from young_ready [OF v] c s show ?thesis by (simp add: look_def activationReady_def Let_def)
qed

lemma young_activates: "\<exists>s'. Phase25ActivationPoll young False False young_run = Some (Inr (), s')"
proof -
  have k: "ku_dynamic (ac_kube young)" "ca_clientset (ac_scan young)" "\<And>d w. ku_sleep (ac_kube young) d w = (None, w)"
    "\<And>st w. ku_save (ac_kube young) st w = (None, w)"
    by (simp_all add: young_def sick_def young_cluster_def)
  have sync: "syncTmmReadinessGates (ac_kube young) w = w" for w
    by (simp add: syncTmmReadinessGates_def young_def sick_def needs_gates_def)
  have n: "phase25MaxIter = Suc 17" by (simp add: phase25MaxIter_def)
  from young_look obtain rd m1 where l: "look young (md_Name (cl_Metadata (rs_cl young_run)) @ ''-bnk'')
      \<lparr>am_kicked = False, am_cne = [], am_license = [], am_verdict = None\<rparr> 1 = (Some rd, m1)" by blast
  show ?thesis
    using l
    by (simp add: activation_rounds.simps(2) [where left = 17, folded n] Phase25ActivationPoll_def k activation_sleep_def and_do_def call_def check_err_def give_def query_def
        intent_def sync young_run_def sick_run_def record_activation_def st_set_def)
qed

theorem activation_sound_witness:
  "\<exists>s' w gen. Phase25ActivationPoll young False False young_run = Some (Inr (), s') \<and> gen \<noteq> GenNone \<and>
     activated young (md_Name (cl_Metadata (rs_cl young_run)) @ ''-bnk'') w gen"
proof -
  from young_activates obtain s' where run: "Phase25ActivationPoll young False False young_run = Some (Inr (), s')" by blast
  from activation_sound [OF run] run show ?thesis by blast
qed

theorem activation_kicks_once_witness:
  "\<exists>r s'. Phase25ActivationPoll young False False sick_run = Some (r, s') \<and> rs_world s' \<le> 1"
  using activation_kicks_once [OF young_counts, of False False sick_run] by (simp add: sick_run_def)

end
