(* ===== verification/SecondaryEnis.thy ===== *)
theory SecondaryEnis
  imports PhaseNetDown
begin

text \<open>
  Phase 17 (\<open>internal/aws/phases/phase17_secondary_enis.go\<close>): the data-plane interfaces of TMM. They are
  adopted from the state or by tag, else created, and attached to the node; the teardown detaches and
  deletes every one recorded or tagged. \<open>ni_describe\<close> is the call behind \<open>ec_enis\<close>, with the further
  fields this phase reads. Addresses are ASCII, so \<open>to_lower\<close> is \<open>strings.ToLower\<close>.
\<close>

record eni_detail = eni +
  ed_mac :: "string option"
  ed_instance :: "string option"
  ed_ips :: "string option list"

text \<open>An interface as the description of its instance lists it.\<close>

record instance_eni =
  in_device :: "int option"
  in_mac :: "string option"
  in_id :: "string option"

record ('w, 'e) eni_calls =
  ni_describe :: "selector \<Rightarrow> 'w \<Rightarrow> 'e + eni_detail list"
  ni_instance :: "string \<Rightarrow> 'w \<Rightarrow> 'e + instance_eni list list list"
  ni_create :: "string \<Rightarrow> string \<Rightarrow> string \<Rightarrow> ec2_tag list \<Rightarrow> 'w \<Rightarrow> ('e + string) \<times> 'w"
  ni_no_check :: "string \<Rightarrow> 'w \<Rightarrow> 'e option \<times> 'w"
  ni_attach :: "string \<Rightarrow> string \<Rightarrow> int \<Rightarrow> 'w \<Rightarrow> 'e option \<times> 'w"
  ni_assign :: "string \<Rightarrow> string \<Rightarrow> 'w \<Rightarrow> 'e option \<times> 'w"

definition CompENIInternal :: string where "CompENIInternal = ''eni-internal''"
definition CompENIExternal :: string where "CompENIExternal = ''eni-external''"

definition eni_missing :: "string \<Rightarrow> 'e phase_error" where
  "eni_missing eniID = MissingFields (''ENI '' @ eniID @ '' not found'')"

text \<open>The first description of an interface, whose absence is an error.\<close>

definition describe_eni :: "('w, 'e) eni_calls \<Rightarrow> string \<Rightarrow> ('w, 'e phase_error, eni_detail option) phase" where
  "describe_eni D eniID =
     and_do (query_sdk ''ec2:DescribeNetworkInterfaces'' (ni_describe D (ByIds [eniID]))) (\<lambda>ns.
     give (case ns of [] \<Rightarrow> None | n # _ \<Rightarrow> Some n))"

subsection \<open>Look-ups\<close>

(* src/internal/aws/phases/phase17_secondary_enis.go:470-487 lookupENIsByTag *)
definition lookupENIsByTag :: "('w, 'e) eni_calls \<Rightarrow> string \<Rightarrow> string \<Rightarrow> 'w \<Rightarrow> string list" where
  "lookupENIsByTag D clusterName component w =
     filter (\<lambda>i. i \<noteq> []) (List.map_filter en_id
       (ok_list (ni_describe D (ByFilters [ClusterFilter clusterName, ComponentFilter component]) w)))"

(* src/internal/aws/phases/phase17_secondary_enis.go:461-467 lookupENIByTag *)
definition lookupENIByTag :: "('w, 'e) eni_calls \<Rightarrow> string \<Rightarrow> string \<Rightarrow> 'w \<Rightarrow> string" where
  "lookupENIByTag D clusterName component w =
     (case lookupENIsByTag D clusterName component w of [] \<Rightarrow> [] | i # _ \<Rightarrow> i)"

(* src/internal/aws/phases/phase17_secondary_enis.go:445-457 eniMAC *)
definition eniMAC :: "('w, 'e) eni_calls \<Rightarrow> string \<Rightarrow> ('w, 'e phase_error, string) phase" where
  "eniMAC D eniID =
     and_do (describe_eni D eniID) (\<lambda>n.
     case Option.bind n ed_mac of
       None \<Rightarrow> raise (MissingFields (''ENI '' @ eniID @ '': MAC address not available''))
     | Some mac \<Rightarrow>
         if mac = [] then raise (MissingFields (''ENI '' @ eniID @ '': MAC address not available''))
         else give (to_lower mac))"

subsection \<open>Steps\<close>

text \<open>The first interface with device index 0, over all reservations; none is no error.\<close>

(* src/internal/aws/phases/phase17_secondary_enis.go:243-272 disablePrimaryENISourceDestCheck *)
definition disablePrimaryENISourceDestCheck :: "('w, 'e) eni_calls \<Rightarrow> string \<Rightarrow> ('w, 'e phase_error, unit) phase" where
  "disablePrimaryENISourceDestCheck D instanceID =
     and_do (query_sdk ''ec2:DescribeInstances'' (ni_instance D instanceID)) (\<lambda>rs.
     case find (\<lambda>n. in_device n = Some 0) (concat (concat rs)) of
       None \<Rightarrow> give ()
     | Some n \<Rightarrow>
         and_do (case in_mac n of None \<Rightarrow> give () | Some mac \<Rightarrow> st_set ''PRIMARY_ENI_MAC'' (to_lower mac)) (\<lambda>_.
         case in_id n of
           None \<Rightarrow> give ()
         | Some i \<Rightarrow>
             and_do (st_set ''PRIMARY_ENI_ID'' i) (\<lambda>_.
             run_sdk ''ec2:ModifyNetworkInterfaceAttribute --no-source-dest-check'' (ni_no_check D i))))"

(* src/internal/aws/phases/phase17_secondary_enis.go:276-333 ensureSecondaryENI *)
definition ensureSecondaryENI ::
  "('w, 'e) ec2 \<Rightarrow> ('w, 'e) eni_calls \<Rightarrow> Cluster \<Rightarrow> string \<Rightarrow> string \<Rightarrow> string \<Rightarrow> string \<Rightarrow> string \<Rightarrow>
   ('w, 'e phase_error, string) phase" where
  "ensureSecondaryENI A D cl subnetID sgID component ifname stateKey =
     (let clusterName = md_Name (cl_Metadata cl); eniName = clusterName @ ''-tmm-'' @ ifname in
     and_do (st_get stateKey) (\<lambda>known.
     if known \<noteq> [] then give known
     else and_do (query (lookupENIByTag D clusterName component)) (\<lambda>tagged.
       if tagged \<noteq> [] then give tagged
       else
         and_do (call_sdk ''ec2:CreateNetworkInterface'' (ni_create D subnetID sgID eniName
           (Merge (ec_iter A) [Required clusterName component,
              [KeyName \<mapsto> eniName,
               ''bnk.f5.com/datapath'' \<mapsto> (if component = CompENIInternal then ''internal'' else ''external''),
               ''f5-cne-device'' \<mapsto> ifname,
               ''node.k8s.amazonaws.com/no_manage'' \<mapsto> ''true''],
              cl_Tags cl, md_Labels (cl_Metadata cl)]))) (\<lambda>eniID.
         and_do (run_sdk ''ec2:ModifyNetworkInterfaceAttribute --no-source-dest-check'' (ni_no_check D eniID)) (\<lambda>_.
         give eniID)))))"

text \<open>The device index of an attachment to the instance is not looked at.\<close>

(* src/internal/aws/phases/phase17_secondary_enis.go:337-364 attachENIIfNeeded *)
definition attachENIIfNeeded :: "('w, 'e) eni_calls \<Rightarrow> string \<Rightarrow> string \<Rightarrow> int \<Rightarrow> ('w, 'e phase_error, unit) phase" where
  "attachENIIfNeeded D eniID instanceID deviceIndex =
     and_do (describe_eni D eniID) (\<lambda>n.
     case n of
       None \<Rightarrow> raise (eni_missing eniID)
     | Some n \<Rightarrow>
         if en_attachment n \<noteq> None \<and> ed_instance n = Some instanceID then give ()
         else run_sdk ''ec2:AttachNetworkInterface'' (ni_attach D eniID instanceID deviceIndex))"

text \<open>Phase 23b calls it, with the address the cluster allocated.\<close>

(* src/internal/aws/phases/phase17_secondary_enis.go:168-193 assignSelfIPIfNeeded *)
definition assignSelfIPIfNeeded :: "('w, 'e) eni_calls \<Rightarrow> string \<Rightarrow> string \<Rightarrow> ('w, 'e phase_error, unit) phase" where
  "assignSelfIPIfNeeded D eniID selfIP =
     and_do (describe_eni D eniID) (\<lambda>n.
     case n of
       None \<Rightarrow> raise (eni_missing eniID)
     | Some n \<Rightarrow>
         if Some selfIP \<in> set (ed_ips n) then give ()
         else run_sdk ''ec2:AssignPrivateIpAddresses'' (ni_assign D eniID selfIP))"

definition need_state :: "string \<Rightarrow> ('w, 'e phase_error, string) phase" where
  "need_state key = and_do (st_get key) (\<lambda>v. if v = [] then raise (NotInState key) else give v)"

subsection \<open>Phase 17\<close>

text \<open>One interface: found or created, recorded with its address, attached.\<close>

definition place_eni ::
  "('w, 'e) ec2 \<Rightarrow> ('w, 'e) eni_calls \<Rightarrow> Cluster \<Rightarrow> string \<Rightarrow> string \<Rightarrow> string \<Rightarrow> string \<Rightarrow> string \<Rightarrow> string \<Rightarrow> int \<Rightarrow>
   ('w, 'e phase_error, unit) phase" where
  "place_eni A D cl subnetID sgID component ifname key instanceID device =
     and_do (ensureSecondaryENI A D cl subnetID sgID component ifname key) (\<lambda>eniID.
     and_do (st_set key eniID) (\<lambda>_.
     and_do (eniMAC D eniID) (\<lambda>mac.
     and_do (st_set (key @ ''_MAC'') mac) (\<lambda>_.
     attachENIIfNeeded D eniID instanceID device))))"

definition record_self_ips :: "Cluster \<Rightarrow> ('w, 'f, unit) phase" where
  "record_self_ips cl =
     (case Option.bind (nw_DataPath (cl_Network cl)) dp_SelfIPs of
        None \<Rightarrow> give ()
      | Some s \<Rightarrow>
          and_do (if sip_External s \<noteq> [] then st_set ''TMM_EXT_SELFIP'' (sip_External s) else give ()) (\<lambda>_.
          and_do (if HasInternalInterface cl \<and> sip_Internal s \<noteq> [] then st_set ''TMM_INT_SELFIP'' (sip_Internal s) else give ()) (\<lambda>_.
          if 0 < sip_PrefixLen s then st_set ''TMM_SELFIP_PREFIXLEN'' (dec_int (sip_PrefixLen s)) else give ())))"

(* src/internal/aws/phases/phase17_secondary_enis.go:48-162 Phase17SecondaryENIs *)
definition Phase17SecondaryENIs :: "('w, 'e) ec2 \<Rightarrow> ('w, 'e) eni_calls \<Rightarrow> bool \<Rightarrow> ('w, 'e phase_error, unit) phase" where
  "Phase17SecondaryENIs A D dryRun = and_do intent (\<lambda>cl.
     if dryRun then
       and_do (st_set ''EXTERNAL_ENI'' ''eni-dry-run-ext'') (\<lambda>_.
       and_do (st_set ''EXTERNAL_ENI_MAC'' ''02:00:00:00:00:03'') (\<lambda>_.
       if HasInternalInterface cl then
         and_do (st_set ''INTERNAL_ENI'' ''eni-dry-run-int'') (\<lambda>_. st_set ''INTERNAL_ENI_MAC'' ''02:00:00:00:00:02'')
       else give ()))
     else
       and_do (need_state ''TMM_INSTANCE_ID'') (\<lambda>instanceID.
       and_do (need_state ''BNK_EXT_SUBNET'') (\<lambda>extSubnet.
       and_do (need_state ''SG_BNK_DATA'') (\<lambda>sgID.
       and_do (if HasInternalInterface cl then need_state ''BNK_INT_SUBNET'' else give []) (\<lambda>intSubnet.
       and_do (disablePrimaryENISourceDestCheck D instanceID) (\<lambda>_.
       and_do (place_eni A D cl extSubnet sgID CompENIExternal ''ens8'' ''EXTERNAL_ENI'' instanceID 3) (\<lambda>_.
       and_do (if HasInternalInterface cl
               then place_eni A D cl intSubnet sgID CompENIInternal ''ens7'' ''INTERNAL_ENI'' instanceID 2 else give ()) (\<lambda>_.
       and_do (record_self_ips cl) (\<lambda>_. save_state A)))))))))"

text \<open>One key of the teardown: the interface of the state and those of the tags, each once.\<close>

(* src/internal/aws/phases/phase17_secondary_enis.go:205-231 Phase17SecondaryENIsDown part *)
definition drop_enis :: "('w, 'e) ec2 \<Rightarrow> ('w, 'e) eni_calls \<Rightarrow> string \<Rightarrow> string \<times> string \<Rightarrow> ('w, 'e phase_error, unit) phase" where
  "drop_enis A D name = (\<lambda>(key, component).
     and_do (st_get key) (\<lambda>known.
     and_do (query (lookupENIsByTag D name component)) (\<lambda>tagged.
     let ids = add_all tagged (add_id known []) in
     if ids = [] then give ()
     else and_do (for_each (detachAndDeleteENI A) ids) (\<lambda>_. st_set key []))))"

(* src/internal/aws/phases/phase17_secondary_enis.go:199-238 Phase17SecondaryENIsDown *)
definition Phase17SecondaryENIsDown :: "('w, 'e) ec2 \<Rightarrow> ('w, 'e) eni_calls \<Rightarrow> ('w, 'e phase_error, unit) phase" where
  "Phase17SecondaryENIsDown A D = and_do intent (\<lambda>cl.
     and_do (for_each (drop_enis A D (md_Name (cl_Metadata cl)))
       [(''EXTERNAL_ENI'', CompENIExternal), (''INTERNAL_ENI'', CompENIInternal)]) (\<lambda>_.
     and_do (for_each (\<lambda>key. st_set key [])
       [''INTERNAL_ENI_MAC'', ''EXTERNAL_ENI_MAC'', ''PRIMARY_ENI_MAC'', ''PRIMARY_ENI_ID'']) (\<lambda>_.
     save_state A)))"

end
