(* ===== verification/Iam.thy ===== *)
theory Iam
  imports PhaseNetDown
begin

text \<open>
  Phase 07 (\<open>internal/aws/phases/phase07_iam.go\<close>): the roles of the EKS cluster and of its nodes, the
  instance profile, and the security group of the data plane. IAM is a record of the calls made;
  pointers the SDK documents as set are plain values. \<open>im_none\<close> is \<open>errors.As\<close> for
  \<open>NoSuchEntityException\<close>.
\<close>

subsection \<open>Calls\<close>

text \<open>One page of \<open>ListRoles\<close>.\<close>

record role_page =
  rp_roles :: "string option list"
  rp_truncated :: bool
  rp_marker :: "string option"

record ('w, 'e) iam =
  im_none :: "'e \<Rightarrow> bool"
  im_role :: "string \<Rightarrow> 'w \<Rightarrow> 'e + string"
  im_create_role :: "string \<Rightarrow> string \<Rightarrow> iam_tag list \<Rightarrow> 'w \<Rightarrow> ('e + string) \<times> 'w"
  im_delete_role :: "string \<Rightarrow> 'w \<Rightarrow> 'e option \<times> 'w"
  im_attached :: "string \<Rightarrow> 'w \<Rightarrow> 'e + string list"
  im_attach :: "string \<Rightarrow> string \<Rightarrow> 'w \<Rightarrow> 'e option \<times> 'w"
  im_detach :: "string \<Rightarrow> string \<Rightarrow> 'w \<Rightarrow> 'e option \<times> 'w"
  im_inline :: "string \<Rightarrow> 'w \<Rightarrow> 'e + string list"
  im_put_inline :: "string \<Rightarrow> string \<Rightarrow> string \<Rightarrow> 'w \<Rightarrow> 'e option \<times> 'w"
  im_delete_inline :: "string \<Rightarrow> string \<Rightarrow> 'w \<Rightarrow> 'e option \<times> 'w"
  im_profile :: "string \<Rightarrow> 'w \<Rightarrow> 'e + string"
  im_create_profile :: "string \<Rightarrow> iam_tag list \<Rightarrow> 'w \<Rightarrow> ('e + string) \<times> 'w"
  im_delete_profile :: "string \<Rightarrow> 'w \<Rightarrow> 'e option \<times> 'w"
  im_profiles_for :: "string \<Rightarrow> 'w \<Rightarrow> 'e + string list"
  im_add_role :: "string \<Rightarrow> string \<Rightarrow> 'w \<Rightarrow> 'e option \<times> 'w"
  im_remove_role :: "string \<Rightarrow> string \<Rightarrow> 'w \<Rightarrow> 'e option \<times> 'w"
  im_roles :: "string option \<Rightarrow> 'w \<Rightarrow> 'e + role_page"
  im_role_tags :: "string \<Rightarrow> 'w \<Rightarrow> 'e + (string option \<times> string option) list"
  im_provider :: "string \<Rightarrow> 'w \<Rightarrow> 'e option"
  im_create_provider :: "string \<Rightarrow> string list \<Rightarrow> string list \<Rightarrow> iam_tag list \<Rightarrow> 'w \<Rightarrow> ('e + string) \<times> 'w"
  im_tag_provider :: "string \<Rightarrow> iam_tag list \<Rightarrow> 'w \<Rightarrow> 'e option \<times> 'w"
  im_delete_provider :: "string \<Rightarrow> 'w \<Rightarrow> 'e option \<times> 'w"

text \<open>A rule of a security group; the pairs carry the group and the description.\<close>

record permission =
  pm_protocol :: "string option"
  pm_from :: "int option"
  pm_to :: "int option"
  pm_pairs :: "(string option \<times> string option) list"
  pm_ranges :: "(string \<times> string) list"

record group_detail =
  gr_id :: "string option"
  gr_name :: "string option"
  gr_rules :: "permission list"

record ('w, 'e) sg_calls =
  gc_describe :: "ec2_filter list \<Rightarrow> 'w \<Rightarrow> 'e + group_detail list"
  gc_create :: "string \<Rightarrow> string \<Rightarrow> string \<Rightarrow> ec2_tag list \<Rightarrow> 'w \<Rightarrow> ('e + string) \<times> 'w"
  gc_authorize :: "string \<Rightarrow> permission list \<Rightarrow> 'w \<Rightarrow> 'e option \<times> 'w"
  gc_revoke :: "string \<Rightarrow> permission list \<Rightarrow> 'w \<Rightarrow> 'e option \<times> 'w"

subsection \<open>Errors\<close>

text \<open>The outermost error that has a code decides.\<close>

definition outermost :: "('w, 'e) ec2 \<Rightarrow> string \<Rightarrow> 'e \<Rightarrow> bool" where
  "outermost A code e \<longleftrightarrow> (case ec_codes A e of [] \<Rightarrow> False | c # _ \<Rightarrow> c = code)"

(* src/internal/aws/phases/phase07_iam.go:461-479 isEC2DuplicatePermission *)
definition isEC2DuplicatePermission :: "('w, 'e) ec2 \<Rightarrow> 'e \<Rightarrow> bool" where
  "isEC2DuplicatePermission A e = outermost A ''InvalidPermission.Duplicate'' e"

(* src/internal/aws/phases/phase18_irsa_oidc.go:561-579 isInvalidPermissionNotFound *)
definition isInvalidPermissionNotFound :: "('w, 'e) ec2 \<Rightarrow> 'e \<Rightarrow> bool" where
  "isInvalidPermissionNotFound A e = outermost A ''InvalidPermission.NotFound'' e"

text \<open>\<open>if err != nil && !tolerated(err) { return ... }\<close>.\<close>

definition run_unless :: "('e \<Rightarrow> bool) \<Rightarrow> string \<Rightarrow> ('w \<Rightarrow> 'e option \<times> 'w) \<Rightarrow> ('w, 'e phase_error, unit) phase" where
  "run_unless tolerated what c = and_do (call c) (\<lambda>r.
     case r of None \<Rightarrow> give () | Some e \<Rightarrow> if tolerated e then give () else raise (Sdk what e))"

text \<open>A read of which the tolerated failure is \<open>None\<close>.\<close>

definition read_unless :: "('e \<Rightarrow> bool) \<Rightarrow> string \<Rightarrow> ('w \<Rightarrow> 'e + 'x) \<Rightarrow> ('w, 'e phase_error, 'x option) phase" where
  "read_unless tolerated what q = and_do (query q) (\<lambda>r.
     case r of Inr x \<Rightarrow> give (Some x) | Inl e \<Rightarrow> if tolerated e then give None else raise (Sdk what e))"

subsection \<open>JSON\<close>

definition hex_char :: "nat \<Rightarrow> char" where
  "hex_char n = (if n < 10 then digit_char n else char_of (87 + n))"

text \<open>\<open>json.Marshal\<close> of an ASCII string.\<close>

definition json_char :: "char \<Rightarrow> string" where
  "json_char c =
     (let n = of_char c :: nat in
      if c = CHR 0x22 \<or> c = CHR 0x5C then [CHR 0x5C, c]
      else if n = 8 then [CHR 0x5C, CHR ''b''] else if n = 12 then [CHR 0x5C, CHR ''f'']
      else if n = 10 then [CHR 0x5C, CHR ''n''] else if n = 13 then [CHR 0x5C, CHR ''r'']
      else if n = 9 then [CHR 0x5C, CHR ''t'']
      else if n < 32 \<or> c = CHR ''<'' \<or> c = CHR ''>'' \<or> c = CHR ''&''
        then CHR 0x5C # ''u00'' @ [hex_char (n div 16), hex_char (n mod 16)]
      else [c])"

definition json_string :: "string \<Rightarrow> string" where
  "json_string s = CHR 0x22 # concat (map json_char s) @ [CHR 0x22]"

definition json_object :: "(string \<times> string) list \<Rightarrow> string" where
  "json_object entries = ''{'' @ join_with '','' (map (\<lambda>(k, v). json_string k @ '':'' @ v) entries) @ ''}''"

(* src/internal/aws/phases/phase07_iam.go:485-505 buildTrustPolicy *)
definition buildTrustPolicy :: "string \<Rightarrow> string" where
  "buildTrustPolicy servicePrincipal =
     json_object [(''Version'', json_string ''2012-10-17''),
       (''Statement'', ''['' @ json_object
          [(''Effect'', json_string ''Allow''),
           (''Principal'', json_object [(''Service'', json_string servicePrincipal)]),
           (''Action'', json_string ''sts:AssumeRole'')] @ '']'')]"

definition allow_statement :: "string list \<Rightarrow> string" where
  "allow_statement actions =
     json_object [(''Version'', json_string ''2012-10-17''),
       (''Statement'', ''['' @ json_object
          [(''Effect'', json_string ''Allow''),
           (''Action'', ''['' @ join_with '','' (map json_string actions) @ '']''),
           (''Resource'', json_string ''*'')] @ '']'')]"

text \<open>The constant's text is the JSON of these fields.\<close>

(* src/internal/aws/phases/phase07_iam.go:33-33 tmmVpcRoutePolicy part *)
definition tmmVpcRoutePolicy :: string where
  "tmmVpcRoutePolicy = allow_statement [''ec2:CreateRoute'', ''ec2:DeleteRoute'', ''ec2:ReplaceRoute'',
     ''ec2:DescribeRouteTables'', ''ec2:DescribeVpcs'', ''ec2:DescribeSubnets'', ''ec2:DescribeNetworkInterfaces'',
     ''ec2:ModifyNetworkInterfaceAttribute'']"

subsection \<open>Roles\<close>

(* src/internal/aws/phases/phase07_iam.go:685-697 listAttachedPolicies *)
definition listAttachedPolicies :: "('w, 'e) iam \<Rightarrow> string \<Rightarrow> 'w \<Rightarrow> 'e + string list" where
  "listAttachedPolicies M roleName w = map_sum id remdups (im_attached M roleName w)"

text \<open>The policies are the keys of a map.\<close>

definition in_map_order :: "('w, 'e) ec2 \<Rightarrow> string list \<Rightarrow> string list" where
  "in_map_order A ks = ec_iter A (\<lambda>k. if k \<in> set ks then Some ''true'' else None)"

(* src/internal/aws/phases/phase07_iam.go:510-579 ensureRole *)
definition ensureRole ::
  "('w, 'e) iam \<Rightarrow> string \<Rightarrow> string \<Rightarrow> string list \<Rightarrow> string \<Rightarrow> iam_tag list \<Rightarrow> ('w, 'e phase_error, string) phase" where
  "ensureRole M roleName servicePrincipal managedPolicies inlinePolicy iamTags =
     and_do (read_unless (im_none M) ''GetRole'' (im_role M roleName)) (\<lambda>existing.
     and_do (case existing of
         Some arn \<Rightarrow> give arn
       | None \<Rightarrow> call_sdk ''CreateRole'' (im_create_role M roleName (buildTrustPolicy servicePrincipal) iamTags)) (\<lambda>roleARN.
     and_do (query_sdk ''ListAttachedRolePolicies'' (listAttachedPolicies M roleName)) (\<lambda>attached.
     and_do (for_each (\<lambda>policy. if policy \<in> set attached then give ()
         else run_sdk ''AttachRolePolicy'' (im_attach M roleName policy)) managedPolicies) (\<lambda>_.
     and_do (if inlinePolicy \<noteq> [] then run_sdk ''PutRolePolicy'' (im_put_inline M roleName ''TmmVpcRoute'' inlinePolicy)
             else give ()) (\<lambda>_.
     give roleARN)))))"

text \<open>Any instance profile counts, not only the one asked for.\<close>

(* src/internal/aws/phases/phase07_iam.go:701-712 roleInProfile *)
definition roleInProfile :: "('w, 'e) iam \<Rightarrow> string \<Rightarrow> 'w \<Rightarrow> 'e + bool" where
  "roleInProfile M roleName w =
     (case im_profiles_for M roleName w of
        Inl e \<Rightarrow> if im_none M e then Inr False else Inl e
      | Inr ps \<Rightarrow> Inr (ps \<noteq> []))"

(* src/internal/aws/phases/phase07_iam.go:583-632 ensureInstanceProfile *)
definition ensureInstanceProfile ::
  "('w, 'e) iam \<Rightarrow> string \<Rightarrow> string \<Rightarrow> iam_tag list \<Rightarrow> ('w, 'e phase_error, string) phase" where
  "ensureInstanceProfile M profileName nodeRoleName iamTags =
     and_do (read_unless (im_none M) ''GetInstanceProfile'' (im_profile M profileName)) (\<lambda>existing.
     and_do (case existing of
         Some arn \<Rightarrow> give arn
       | None \<Rightarrow> call_sdk ''CreateInstanceProfile'' (im_create_profile M profileName iamTags)) (\<lambda>profileARN.
     and_do (query_sdk ''ListInstanceProfilesForRole'' (roleInProfile M nodeRoleName)) (\<lambda>already.
     and_do (if already then give () else run_sdk ''AddRoleToInstanceProfile'' (im_add_role M profileName nodeRoleName)) (\<lambda>_.
     give profileARN))))"

(* src/internal/aws/phases/phase07_iam.go:636-681 deleteRole *)
definition deleteRole :: "('w, 'e) ec2 \<Rightarrow> ('w, 'e) iam \<Rightarrow> string \<Rightarrow> ('w, 'e phase_error, unit) phase" where
  "deleteRole A M roleName =
     and_do (read_unless (im_none M) ''ListAttachedRolePolicies'' (listAttachedPolicies M roleName)) (\<lambda>attached.
     and_do (for_each (\<lambda>policy. run_unless (im_none M) ''DetachRolePolicy'' (im_detach M roleName policy))
       (in_map_order A (case attached of None \<Rightarrow> [] | Some ps \<Rightarrow> ps))) (\<lambda>_.
     and_do (read_unless (im_none M) ''ListRolePolicies'' (im_inline M roleName)) (\<lambda>names.
     and_do (for_each (\<lambda>policy. run_unless (im_none M) ''DeleteRolePolicy'' (im_delete_inline M roleName policy))
       (case names of None \<Rightarrow> [] | Some ns \<Rightarrow> ns)) (\<lambda>_.
     run_unless (im_none M) ''DeleteRole'' (im_delete_role M roleName)))))"

subsection \<open>Roles by tag\<close>

definition carries_tags :: "('w, 'e) iam \<Rightarrow> string \<Rightarrow> string \<Rightarrow> 'w \<Rightarrow> string \<Rightarrow> bool" where
  "carries_tags M clusterName component w role \<longleftrightarrow>
     (case im_role_tags M role w of
        Inl _ \<Rightarrow> False
      | Inr ts \<Rightarrow> (Some KeyCluster, Some clusterName) \<in> set ts \<and> (Some KeyComponent, Some component) \<in> set ts)"

text \<open>The scan goes on as long as pages say that they are truncated; \<open>None\<close> is a scan without end.\<close>

(* src/internal/aws/phases/phase07_iam.go:730-768 findRoleByTag *)
partial_function (option) role_scan ::
  "('w, 'e) iam \<Rightarrow> string \<Rightarrow> string \<Rightarrow> 'w \<Rightarrow> string option \<Rightarrow> ('e phase_error + string) option" where
  "role_scan M clusterName component w marker =
     (case im_roles M marker w of
        Inl e \<Rightarrow> Some (Inl (Sdk ''ListRoles'' e))
      | Inr page \<Rightarrow>
          (case find (carries_tags M clusterName component w) (List.map_filter id (rp_roles page)) of
             Some r \<Rightarrow> Some (Inr r)
           | None \<Rightarrow> if rp_truncated page then role_scan M clusterName component w (rp_marker page) else Some (Inr [])))"

declare role_scan.simps [code]

definition findRoleByTag :: "('w, 'e) iam \<Rightarrow> string \<Rightarrow> string \<Rightarrow> ('w, 'e phase_error, string) phase" where
  "findRoleByTag M clusterName component = (\<lambda>s.
     map_option (\<lambda>r. (r, s)) (role_scan M clusterName component (rs_world s) None))"

subsection \<open>The security group of the data plane\<close>

definition first_group :: "group_detail list \<Rightarrow> ('w, 'e phase_error, string) phase" where
  "first_group gs = (case gs of [] \<Rightarrow> give [] | g # _ \<Rightarrow> deref (gr_id g))"

(* src/internal/aws/phases/phase07_iam.go:363-378 findSGByName *)
definition findSGByName :: "('w, 'e) sg_calls \<Rightarrow> string \<Rightarrow> string \<Rightarrow> string \<Rightarrow> ('w, 'e phase_error, string) phase" where
  "findSGByName G clusterName vpcID sgName =
     and_do (query_sdk ''looking up SG_BNK_DATA'' (gc_describe G
       [ClusterFilter clusterName, plain_filter ''vpc-id'' [vpcID], plain_filter ''group-name'' [sgName]])) first_group"

(* src/internal/aws/phases/phase07_iam.go:447-457 lookupSGByName *)
definition lookupSGByName :: "('w, 'e) sg_calls \<Rightarrow> string \<Rightarrow> ('w, 'e phase_error, string) phase" where
  "lookupSGByName G sgName =
     and_do (query (\<lambda>w. ok_list (gc_describe G [plain_filter ''group-name'' [sgName]] w))) first_group"

definition rule_from_group :: "string \<Rightarrow> string option \<Rightarrow> permission" where
  "rule_from_group source description =
     \<lparr>pm_protocol = Some ''-1'', pm_from = None, pm_to = None, pm_pairs = [(Some source, description)], pm_ranges = []\<rparr>"

definition CompSGBNKData :: string where "CompSGBNKData = ''sg-bnk-data''"

(* src/internal/aws/phases/phase07_iam.go:302-359 ensureBNKDataSG *)
definition ensureBNKDataSG ::
  "('w, 'e) ec2 \<Rightarrow> ('w, 'e) sg_calls \<Rightarrow> Cluster \<Rightarrow> string \<Rightarrow> ('w, 'e phase_error, string) phase" where
  "ensureBNKDataSG A G cl vpcID =
     (let clusterName = md_Name (cl_Metadata cl); sgName = clusterName @ ''-bnk-data'' in
      and_do (findSGByName G clusterName vpcID sgName) (\<lambda>existing.
      if existing \<noteq> [] then give existing
      else
        and_do (call_sdk ''ec2:CreateSecurityGroup''
          (gc_create G sgName ''bnk-data-plane'' vpcID (resource_tags A cl CompSGBNKData))) (\<lambda>sgID.
        and_do (run_unless (isEC2DuplicatePermission A) ''ec2:AuthorizeSecurityGroupIngress''
          (gc_authorize G sgID [rule_from_group sgID (Some ''intra-sg-self'')])) (\<lambda>_.
        give sgID))))"

(* src/internal/aws/phases/phase07_iam.go:164-169 bgpPeerCIDR *)
definition bgpPeerCIDR :: "Cluster \<Rightarrow> string" where
  "bgpPeerCIDR cl = (case nw_DataPath (cl_Network cl) of None \<Rightarrow> [] | Some dp \<Rightarrow> sn_CIDR (dp_External dp))"

definition port_rule :: "string \<Rightarrow> int \<Rightarrow> string \<Rightarrow> string \<Rightarrow> permission" where
  "port_rule protocol port cidr description =
     \<lparr>pm_protocol = Some protocol, pm_from = Some port, pm_to = Some port, pm_pairs = [], pm_ranges = [(cidr, description)]\<rparr>"

(* src/internal/aws/phases/phase07_iam.go:174-203 ensureBNKDataSGBGPIngress *)
definition ensureBNKDataSGBGPIngress ::
  "('w, 'e) ec2 \<Rightarrow> ('w, 'e) sg_calls \<Rightarrow> string \<Rightarrow> string \<Rightarrow> ('w, 'e phase_error, unit) phase" where
  "ensureBNKDataSGBGPIngress A G sgID peerCIDR =
     run_unless (isEC2DuplicatePermission A) ''ec2:AuthorizeSecurityGroupIngress'' (gc_authorize G sgID
       [port_rule ''tcp'' 179 peerCIDR ''bnk-bgp'', port_rule ''udp'' 3784 peerCIDR ''bnk-bfd''])"

text \<open>The part of a group's rules that names the group \<open>sgID\<close>.\<close>

definition referencing :: "string \<Rightarrow> permission list \<Rightarrow> permission list" where
  "referencing sgID rules =
     List.map_filter (\<lambda>p.
       let pairs = map (\<lambda>(g, _). (g, None)) (filter (\<lambda>(g, _). g = Some sgID) (pm_pairs p))
       in if pairs = [] then None else Some (p\<lparr>pm_pairs := pairs, pm_ranges := []\<rparr>)) rules"

definition clear_group :: "('w, 'e) ec2 \<Rightarrow> ('w, 'e) sg_calls \<Rightarrow> string \<Rightarrow> string \<Rightarrow> group_detail \<Rightarrow> ('w, 'e phase_error, unit) phase" where
  "clear_group A G sgID clusterName g =
     (case gr_id g of
        None \<Rightarrow> give ()
      | Some i \<Rightarrow>
          if referencing sgID (gr_rules g) = [] then give ()
          else
            and_do (run_unless (isInvalidPermissionNotFound A) ''ec2:RevokeSecurityGroupIngress''
              (gc_revoke G i (referencing sgID (gr_rules g)))) (\<lambda>_.
            if i \<noteq> sgID \<and> (case gr_name g of None \<Rightarrow> False | Some n \<Rightarrow> has_prefix n (''eks-cluster-sg-'' @ clusterName @ ''-''))
            then best_effort (ec_delete_sg A i) else give ()))"

(* src/internal/aws/phases/phase07_iam.go:387-443 clearSGReferences *)
definition clearSGReferences :: "('w, 'e) ec2 \<Rightarrow> ('w, 'e) sg_calls \<Rightarrow> string \<Rightarrow> string \<Rightarrow> ('w, 'e phase_error, unit) phase" where
  "clearSGReferences A G sgID clusterName =
     and_do (query_sdk ''ec2:DescribeSecurityGroups'' (gc_describe G [plain_filter ''ip-permission.group-id'' [sgID]])) (\<lambda>gs.
     for_each (clear_group A G sgID clusterName) gs)"

subsection \<open>Phase 07\<close>

definition CompIAMClusterRole :: string where "CompIAMClusterRole = ''iam-cluster-role''"
definition CompIAMNodeRole :: string where "CompIAMNodeRole = ''iam-node-role''"
definition CompIAMNodeProfile :: string where "CompIAMNodeProfile = ''iam-node-profile''"

definition iam_tags :: "('w, 'e) ec2 \<Rightarrow> Cluster \<Rightarrow> string \<Rightarrow> iam_tag list" where
  "iam_tags A cl component =
     IAMTags (ec_iter A) [Required (md_Name (cl_Metadata cl)) component, cl_Tags cl, md_Labels (cl_Metadata cl)]"

definition cluster_policies :: "string list" where
  "cluster_policies = [''arn:aws:iam::aws:policy/AmazonEKSClusterPolicy'', ''arn:aws:iam::aws:policy/AmazonEKSVPCResourceController'']"

definition node_policies :: "string list" where
  "node_policies = [''arn:aws:iam::aws:policy/AmazonEKSWorkerNodePolicy'',
     ''arn:aws:iam::aws:policy/AmazonEC2ContainerRegistryReadOnly'', ''arn:aws:iam::aws:policy/AmazonEKS_CNI_Policy'',
     ''arn:aws:iam::aws:policy/service-role/AmazonEBSCSIDriverPolicy'']"

(* src/internal/aws/phases/phase07_iam.go:110-150 Phase07IAM part *)
definition node_profile_and_group ::
  "('w, 'e) ec2 \<Rightarrow> ('w, 'e) iam \<Rightarrow> ('w, 'e) sg_calls \<Rightarrow> Cluster \<Rightarrow> ('w, 'e phase_error, unit) phase" where
  "node_profile_and_group A M G cl =
     (let name = md_Name (cl_Metadata cl); nodeRole = name @ ''-eks-node-role''; profile = name @ ''-node-instance-profile'' in
       and_do (ensureInstanceProfile M profile nodeRole (iam_tags A cl CompIAMNodeProfile)) (\<lambda>arn.
       and_do (st_set ''NODE_INSTANCE_PROFILE_NAME'' profile) (\<lambda>_.
       and_do (st_set ''NODE_INSTANCE_PROFILE_ARN'' arn) (\<lambda>_.
       and_do (st_get ''VPC_ID'') (\<lambda>vpcID.
       if vpcID = [] then raise (NotInState ''VPC_ID'')
       else
         and_do (ensureBNKDataSG A G cl vpcID) (\<lambda>sgID.
         and_do (st_set ''SG_BNK_DATA'' sgID) (\<lambda>_.
         and_do (if \<not> IsBGPEnabled (Some cl) then give ()
                 else if bgpPeerCIDR cl = [] then raise (MissingFields ''network.dataPath.external.cidr'')
                 else ensureBNKDataSGBGPIngress A G sgID (bgpPeerCIDR cl)) (\<lambda>_.
         save_state A))))))))"

(* src/internal/aws/phases/phase07_iam.go:41-150 Phase07IAM *)
definition Phase07IAM ::
  "('w, 'e) ec2 \<Rightarrow> ('w, 'e) iam \<Rightarrow> ('w, 'e) sg_calls \<Rightarrow> bool \<Rightarrow> ('w, 'e phase_error, unit) phase" where
  "Phase07IAM A M G dryRun = and_do intent (\<lambda>cl.
     let name = md_Name (cl_Metadata cl); clusterRole = name @ ''-eks-cluster-role'';
         nodeRole = name @ ''-eks-node-role''; profile = name @ ''-node-instance-profile'' in
     if dryRun then
       and_do (st_set ''EKS_CLUSTER_ROLE_ARN'' (''arn:aws:iam::dry-run:role/'' @ clusterRole)) (\<lambda>_.
       and_do (st_set ''EKS_NODE_ROLE_ARN'' (''arn:aws:iam::dry-run:role/'' @ nodeRole)) (\<lambda>_.
       and_do (st_set ''NODE_INSTANCE_PROFILE_NAME'' profile) (\<lambda>_.
       and_do (st_set ''NODE_INSTANCE_PROFILE_ARN'' (''arn:aws:iam::dry-run:instance-profile/'' @ profile)) (\<lambda>_.
       st_set ''SG_BNK_DATA'' ''sg-dry-run-bnk-data''))))
     else
       and_do (ensureRole M clusterRole ''eks.amazonaws.com'' cluster_policies [] (iam_tags A cl CompIAMClusterRole)) (\<lambda>arn.
       and_do (st_set ''EKS_CLUSTER_ROLE_ARN'' arn) (\<lambda>_.
       and_do (ensureRole M nodeRole ''ec2.amazonaws.com'' node_policies tmmVpcRoutePolicy (iam_tags A cl CompIAMNodeRole)) (\<lambda>arn.
       and_do (st_set ''EKS_NODE_ROLE_ARN'' arn) (\<lambda>_.
       node_profile_and_group A M G cl)))))"

text \<open>The name of a role by convention, or the role tagged with the component when that one is gone.\<close>

definition role_to_delete :: "('w, 'e) iam \<Rightarrow> string \<Rightarrow> string \<Rightarrow> string \<Rightarrow> ('w, 'e phase_error, string) phase" where
  "role_to_delete M clusterName component conventional =
     and_do (query (im_role M conventional)) (\<lambda>r.
     case r of
       Inl e \<Rightarrow>
         if im_none M e then
           and_do (outcome (findRoleByTag M clusterName component)) (\<lambda>found.
           give (case found of Inl _ \<Rightarrow> conventional | Inr r \<Rightarrow> if r = [] then conventional else r))
         else give conventional
     | Inr _ \<Rightarrow> give conventional)"

(* src/internal/aws/phases/phase07_iam.go:270-292 Phase07IAMDown part *)
definition drop_bnk_group :: "('w, 'e) ec2 \<Rightarrow> ('w, 'e) sg_calls \<Rightarrow> string \<Rightarrow> ('w, 'e phase_error, unit) phase" where
  "drop_bnk_group A G name =
     and_do (st_get ''SG_BNK_DATA'') (\<lambda>known.
     and_do (if known = [] then lookupSGByName G (name @ ''-bnk-data'') else give known) (\<lambda>sgID.
     and_do (if sgID = [] then give ()
             else and_do (ignoring (clearSGReferences A G sgID name)) (\<lambda>_.
               run_tolerant A ''phase07 down: DeleteSecurityGroup SG_BNK_DATA'' (ec_delete_sg A sgID))) (\<lambda>_.
     st_set ''SG_BNK_DATA'' [])))"

(* src/internal/aws/phases/phase07_iam.go:209-295 Phase07IAMDown *)
definition Phase07IAMDown ::
  "('w, 'e) ec2 \<Rightarrow> ('w, 'e) iam \<Rightarrow> ('w, 'e) sg_calls \<Rightarrow> ('w, 'e phase_error, unit) phase" where
  "Phase07IAMDown A M G = and_do intent (\<lambda>cl.
     let name = md_Name (cl_Metadata cl) in
     and_do (role_to_delete M name CompIAMClusterRole (name @ ''-eks-cluster-role'')) (\<lambda>clusterRole.
     and_do (role_to_delete M name CompIAMNodeRole (name @ ''-eks-node-role'')) (\<lambda>nodeRole.
     and_do (st_get ''NODE_INSTANCE_PROFILE_NAME'') (\<lambda>recorded.
     let profile = (if recorded = [] then name @ ''-node-instance-profile'' else recorded) in
     and_do (run_unless (im_none M) ''RemoveRoleFromInstanceProfile'' (im_remove_role M profile nodeRole)) (\<lambda>_.
     and_do (run_unless (im_none M) ''DeleteInstanceProfile'' (im_delete_profile M profile)) (\<lambda>_.
     and_do (st_set ''NODE_INSTANCE_PROFILE_NAME'' []) (\<lambda>_.
     and_do (st_set ''NODE_INSTANCE_PROFILE_ARN'' []) (\<lambda>_.
     and_do (deleteRole A M nodeRole) (\<lambda>_.
     and_do (st_set ''EKS_NODE_ROLE_ARN'' []) (\<lambda>_.
     and_do (deleteRole A M clusterRole) (\<lambda>_.
     and_do (st_set ''EKS_CLUSTER_ROLE_ARN'' []) (\<lambda>_.
     and_do (drop_bnk_group A G name) (\<lambda>_. save_state A)))))))))))))"

end
