(* ===== verification/Jumphost.thy ===== *)
theory Jumphost
  imports SecondaryEnis Iam GoNet
begin

text \<open>
  Phase 17b (\<open>internal/aws/phases/phase17b_jumphost.go\<close>): the jumphost, an instance with an interface in
  the data-plane subnet, reached through an Instance Connect Endpoint. Everything is adopted from the
  state or by tag, else created. The calls are those of \<open>ec2\<close>, \<open>eni_calls\<close>, \<open>sg_calls\<close> and
  \<open>iam\<close>, and the further ones of this phase; \<open>jc_instances\<close>, \<open>jc_eices\<close> and \<open>jc_groups\<close> are the calls
  behind \<open>ec_instances\<close>, \<open>ec_eices\<close> and \<open>gc_describe\<close>, with the further fields it reads. An index out
  of range panics, as a nil pointer does.
\<close>

subsection \<open>Calls\<close>

record attached_eni = instance_eni +
  ae_ip :: "string option"

datatype instance_state = IsRunning | IsTerminated | IsShuttingDown | IsOther

record jump_instance =
  ji_id :: "string option"
  ji_state :: "instance_state option"
  ji_enis :: "attached_eni list"

datatype endpoint_progress = EpComplete | EpFailed | EpOther

record endpoint = eice +
  ep_progress :: endpoint_progress
  ep_message :: "string option"
  ep_groups :: "string list"

record group_full = group_detail +
  gf_egress :: "permission list"
  gf_vpc :: "string option"

record launch_request =
  lr_image :: string
  lr_type :: string
  lr_subnet :: "string option"
  lr_groups :: "string list"
  lr_key :: "string option"
  lr_user_data :: string
  lr_profile :: "string option"
  lr_interfaces :: "(int \<times> string) list"
  lr_tags :: "ec2_tag list"

text \<open>\<open>jc_ami\<close> is the value of an SSM parameter; a created interface is its id and its address.\<close>

record ('w, 'e) jump_calls =
  jc_instances :: "selector \<Rightarrow> 'w \<Rightarrow> 'e + jump_instance list list"
  jc_run :: "launch_request \<Rightarrow> 'w \<Rightarrow> ('e + string option list) \<times> 'w"
  jc_ami :: "string \<Rightarrow> 'w \<Rightarrow> 'e + string option"
  jc_eices :: "selector \<Rightarrow> 'w \<Rightarrow> 'e + endpoint list"
  jc_create_eice :: "string \<Rightarrow> ec2_tag list \<Rightarrow> 'w \<Rightarrow> ('e + endpoint option) \<times> 'w"
  jc_groups :: "selector \<Rightarrow> 'w \<Rightarrow> 'e + group_full list"
  jc_revoke_egress :: "string \<Rightarrow> permission list \<Rightarrow> 'w \<Rightarrow> 'e option \<times> 'w"
  jc_addresses :: "string \<Rightarrow> 'w \<Rightarrow> 'e + string option list"
  jc_create_eni :: "string \<Rightarrow> string \<Rightarrow> string \<Rightarrow> string list \<Rightarrow> ec2_tag list \<Rightarrow> 'w \<Rightarrow> ('e + string \<times> string option) \<times> 'w"

definition CompJumphostSG :: string where "CompJumphostSG = ''jumphost-sg''"
definition CompJumphostInstance :: string where "CompJumphostInstance = ''jumphost-instance''"
definition CompJumphostENIExt :: string where "CompJumphostENIExt = ''jumphost-eni-bnk-ext''"
definition CompJumphostEICE :: string where "CompJumphostEICE = ''jumphost-eice''"
definition CompJumphostRole :: string where "CompJumphostRole = ''jumphost-iam-role''"
definition CompJumphostProfile :: string where "CompJumphostProfile = ''jumphost-instance-profile''"

subsection \<open>Base64\<close>

text \<open>\<open>base64.StdEncoding.EncodeToString\<close>.\<close>

definition base64_alphabet :: string where
  "base64_alphabet = ''ABCDEFGHIJKLMNOPQRSTUVWXYZabcdefghijklmnopqrstuvwxyz0123456789+/''"

definition base64_char :: "nat \<Rightarrow> char" where
  "base64_char n = base64_alphabet ! (n mod 64)"

fun base64_bytes :: "nat list \<Rightarrow> string" where
  "base64_bytes [] = []"
| "base64_bytes [a] = [base64_char (a div 4), base64_char (a * 16)] @ ''==''"
| "base64_bytes [a, b] = [base64_char (a div 4), base64_char (a * 16 + b div 16), base64_char (b * 4)] @ ''=''"
| "base64_bytes (a # b # c # bs) =
     [base64_char (a div 4), base64_char (a * 16 + b div 16), base64_char (b * 4 + c div 64), base64_char c] @ base64_bytes bs"

definition base64 :: "string \<Rightarrow> string" where
  "base64 s = base64_bytes (map of_char s)"

text \<open>The script that brings the second interface up at boot.\<close>

(* src/internal/aws/phases/phase17b_jumphost.go:711-727 jumphostUserData *)
definition jumphostUserData :: string where
  \<open>jumphostUserData = concat (map (\<lambda>l. l @ [CHR 0x0A])
     [''#!/bin/bash'',
      ''set -euo pipefail'',
      ''# Bring up secondary NIC (device-index=1, typically ens6 on AL2023/ENA).'',
      ''# Adapted from aws-gpu-setup ENA bring-up pattern (phase10).'',
      ''for attempt in $(seq 1 10); do'',
      ''  # Find the secondary interface (not lo, not eth0/ens5 primary).'',
      ''  for ifname in $(ls /sys/class/net/); do'',
      ''    case "$ifname" in lo|eth0|ens5) continue ;; esac'',
      ''    ip link set "$ifname" up 2>/dev/null || true'',
      ''    ip link set "$ifname" mtu 1500 2>/dev/null || true'',
      ''    dhclient "$ifname" 2>/dev/null && break 2 || true'',
      ''  done'',
      ''  sleep 2'',
      ''done''])\<close>

subsection \<open>Look-ups\<close>

definition tagged_with :: "string \<Rightarrow> string \<Rightarrow> selector" where
  "tagged_with clusterName component = ByFilters [ClusterFilter clusterName, ComponentFilter component]"

text \<open>The first of a list that has an id, and the id of the first, or the empty string.\<close>

definition first_id :: "string option list \<Rightarrow> string" where
  "first_id is = (case find (\<lambda>i. i \<noteq> None) is of Some (Some i) \<Rightarrow> i | _ \<Rightarrow> [])"

definition id_of_first :: "string option list \<Rightarrow> string" where
  "id_of_first is = (case is of Some i # _ \<Rightarrow> i | _ \<Rightarrow> [])"

(* src/internal/aws/phases/phase17b_jumphost.go:992-1011 lookupInstanceByTag *)
definition lookupInstanceByTag :: "('w, 'e) jump_calls \<Rightarrow> string \<Rightarrow> string \<Rightarrow> 'w \<Rightarrow> string" where
  "lookupInstanceByTag J clusterName component w =
     first_id (map ji_id (concat (ok_list (jc_instances J (ByFilters [ClusterFilter clusterName, ComponentFilter component,
       plain_filter ''instance-state-name'' [''running'', ''pending'', ''stopped'', ''stopping'']]) w))))"

(* src/internal/aws/phases/phase17b_jumphost.go:1014-1028 lookupEICEByTag *)
definition lookupEICEByTag :: "('w, 'e) jump_calls \<Rightarrow> string \<Rightarrow> string \<Rightarrow> 'w \<Rightarrow> string" where
  "lookupEICEByTag J clusterName component w =
     id_of_first (map ei_id (ok_list (jc_eices J (tagged_with clusterName component) w)))"

(* src/internal/aws/phases/phase17b_jumphost.go:1031-1051 lookupEICEBySubnet *)
definition lookupEICEBySubnet :: "('w, 'e) jump_calls \<Rightarrow> string \<Rightarrow> 'w \<Rightarrow> string \<times> string" where
  "lookupEICEBySubnet J subnetID w =
     (case ok_list (jc_eices J (ByFilters [plain_filter ''subnet-id'' [subnetID]]) w) of
        [] \<Rightarrow> ([], [])
      | ep # _ \<Rightarrow> (case ei_id ep of None \<Rightarrow> [] | Some i \<Rightarrow> i, case ep_groups ep of [] \<Rightarrow> [] | g # _ \<Rightarrow> g))"

(* src/internal/aws/phases/phase17b_jumphost.go:1054-1068 lookupSGByTag *)
definition lookupSGByTag :: "('w, 'e) jump_calls \<Rightarrow> string \<Rightarrow> string \<Rightarrow> 'w \<Rightarrow> string" where
  "lookupSGByTag J clusterName component w =
     id_of_first (map gr_id (ok_list (jc_groups J (tagged_with clusterName component) w)))"

text \<open>The first instance of the first reservation.\<close>

definition described_instance :: "('w, 'e) jump_calls \<Rightarrow> string \<Rightarrow> 'w \<Rightarrow> jump_instance option" where
  "described_instance J instanceID w =
     (case jc_instances J (ByIds [instanceID]) w of Inr ((i # _) # _) \<Rightarrow> Some i | _ \<Rightarrow> None)"

(* src/internal/aws/phases/phase17b_jumphost.go:729-753 getPrimaryENIDetails *)
definition getPrimaryENIDetails :: "('w, 'e) jump_calls \<Rightarrow> string \<Rightarrow> 'w \<Rightarrow> string \<times> string" where
  "getPrimaryENIDetails J instanceID w =
     (case Option.bind (described_instance J instanceID w) (\<lambda>i. find (\<lambda>n. in_device n = Some 0) (ji_enis i)) of
        None \<Rightarrow> ([], [])
      | Some n \<Rightarrow> (case in_id n of None \<Rightarrow> [] | Some i \<Rightarrow> i, case ae_ip n of None \<Rightarrow> [] | Some ip \<Rightarrow> ip))"

(* src/internal/aws/phases/phase17b_jumphost.go:755-763 getENIPrivateIP *)
definition getENIPrivateIP :: "('w, 'e) jump_calls \<Rightarrow> string \<Rightarrow> 'w \<Rightarrow> string" where
  "getENIPrivateIP J eniID w = id_of_first (ok_list (jc_addresses J eniID w))"

subsection \<open>Waits\<close>

(* src/internal/aws/phases/phase17b_jumphost.go:766-788 waitInstanceRunning *)
definition waitInstanceRunning :: "('w, 'e) ec2 \<Rightarrow> ('w, 'e) jump_calls \<Rightarrow> string \<Rightarrow> ('w, 'e phase_error, unit) phase" where
  "waitInstanceRunning A J instanceID =
     wait_before A (\<lambda>w. case jc_instances J (ByIds [instanceID]) w of
         Inl e \<Rightarrow> (case ignoreNotFound A (Some e) of None \<Rightarrow> None | Some _ \<Rightarrow> Some (Some (Sdk ''ec2:DescribeInstances'' e)))
       | Inr ((i # _) # _) \<Rightarrow> if ji_state i = Some IsRunning then Some None else None
       | Inr _ \<Rightarrow> None)
       (5 * Minute) (5 * Second) (WaitedTooLong ''instance'' instanceID)"

(* src/internal/aws/phases/phase17b_jumphost.go:828-867 waitEICEReady *)
definition waitEICEReady :: "('w, 'e) ec2 \<Rightarrow> ('w, 'e) jump_calls \<Rightarrow> string \<Rightarrow> ('w, 'e phase_error, unit) phase" where
  "waitEICEReady A J eiceID = (\<lambda>s.
     map_option (\<lambda>(r, w). (case r of
          Finished _ \<Rightarrow> Inr ()
        | Errored e \<Rightarrow> Inl e
        | TimedOut _ \<Rightarrow> Inl (WaitedTooLong ''EICE'' eiceID)
        | Interrupted_wait e _ \<Rightarrow> Inl (WaitCut e), s\<lparr>rs_world := w\<rparr>))
       (poll_loop (ec_now A) (ec_sleep A) (\<lambda>_ w. case jc_eices J (ByIds [eiceID]) w of
           Inl e \<Rightarrow> Again ()
         | Inr [] \<Rightarrow> Again ()
         | Inr (ep # _) \<Rightarrow>
             (case ep_progress ep of
                EpComplete \<Rightarrow> Ready ()
              | EpFailed \<Rightarrow> Broken (EiceFailed eiceID (case ep_message ep of None \<Rightarrow> [] | Some m \<Rightarrow> m))
              | EpOther \<Rightarrow> Again ()))
         (ec_now A (rs_world s) + 10 * Minute) (5 * Second) () (rs_world s)))"

subsection \<open>Steps\<close>

text \<open>The trust policy is the text \<open>buildTrustPolicy\<close> makes for \<open>ec2.amazonaws.com\<close>.\<close>

(* src/internal/aws/phases/phase17b_jumphost.go:311-377 ensureJumphostInstanceProfile *)
definition ensureJumphostInstanceProfile ::
  "('w, 'e) ec2 \<Rightarrow> ('w, 'e) iam \<Rightarrow> Cluster \<Rightarrow> ('w, 'e phase_error, string \<times> string) phase" where
  "ensureJumphostInstanceProfile A M cl =
     (let clusterName = md_Name (cl_Metadata cl); roleName = clusterName @ ''-jumphost-role'';
          profileName = clusterName @ ''-jumphost-profile'' in
     and_do (read_unless (im_none M) ''GetRole'' (im_role M roleName)) (\<lambda>role.
     and_do (case role of
         Some _ \<Rightarrow> give []
       | None \<Rightarrow> call_sdk ''iam:CreateRole''
           (im_create_role M roleName (buildTrustPolicy ''ec2.amazonaws.com'') (iam_tags A cl CompJumphostRole))) (\<lambda>_.
     and_do (read_unless (im_none M) ''GetInstanceProfile'' (im_profile M profileName)) (\<lambda>profile.
     and_do (case profile of
         Some _ \<Rightarrow> give ()
       | None \<Rightarrow>
           and_do (call_sdk ''iam:CreateInstanceProfile'' (im_create_profile M profileName (iam_tags A cl CompJumphostProfile))) (\<lambda>_.
           run_sdk ''iam:AddRoleToInstanceProfile'' (im_add_role M profileName roleName))) (\<lambda>_.
     give (profileName, roleName))))))"

(* src/internal/aws/phases/phase17b_jumphost.go:380-391 resolveAL2023AMI *)
definition resolveAL2023AMI :: "('w, 'e) jump_calls \<Rightarrow> ('w, 'e phase_error, string) phase" where
  "resolveAL2023AMI J =
     and_do (query_sdk ''SSM GetParameter''
       (jc_ami J ''/aws/service/ami-amazon-linux-latest/al2023-ami-kernel-default-x86_64'')) (\<lambda>v.
     case v of None \<Rightarrow> raise (MissingFields ''SSM parameter'') | Some ami \<Rightarrow> give ami)"

(* src/internal/aws/phases/phase17b_jumphost.go:396-433 ensureJumphostSG *)
definition ensureJumphostSG ::
  "('w, 'e) ec2 \<Rightarrow> ('w, 'e) sg_calls \<Rightarrow> ('w, 'e) jump_calls \<Rightarrow> Cluster \<Rightarrow> string \<Rightarrow> ('w, 'e phase_error, string) phase" where
  "ensureJumphostSG A G J cl vpcID =
     (let clusterName = md_Name (cl_Metadata cl); sgName = clusterName @ ''-jumphost'' in
     and_do (state_or ''JUMPHOST_SG_ID'' (query (lookupSGByTag J clusterName CompJumphostSG))) (\<lambda>known.
     if known \<noteq> [] then give known
     else call_sdk ''ec2:CreateSecurityGroup jumphost''
       (gc_create G sgName ''Jumphost SG - ingress 22/tcp from EICE SG only'' vpcID (named_tags A cl CompJumphostSG ''jumphost''))))"

(* src/internal/aws/phases/phase17b_jumphost.go:437-461 ensureJumphostSGIngress *)
definition ensureJumphostSGIngress ::
  "('w, 'e) ec2 \<Rightarrow> ('w, 'e) sg_calls \<Rightarrow> string \<Rightarrow> string \<Rightarrow> ('w, 'e phase_error, unit) phase" where
  "ensureJumphostSGIngress A G jumphostSGID eiceSGID =
     run_unless (isEC2DuplicatePermission A) ''ec2:AuthorizeSecurityGroupIngress jumphost'' (gc_authorize G jumphostSGID
       [\<lparr>pm_protocol = Some ''tcp'', pm_from = Some 22, pm_to = Some 22,
         pm_pairs = [(Some eiceSGID, Some ''allow-ssh-from-eice'')], pm_ranges = []\<rparr>])"

(* src/internal/aws/phases/phase17b_jumphost.go:1121-1139 isResourceLimitExceeded *)
definition isResourceLimitExceeded :: "('w, 'e) ec2 \<Rightarrow> 'e \<Rightarrow> bool" where
  "isResourceLimitExceeded A e = outermost A ''ResourceLimitExceeded'' e"

text \<open>The endpoint created, once it is complete; its group is the first of its groups.\<close>

(* src/internal/aws/phases/phase17b_jumphost.go:507-531 ensureJumphostEICE part *)
definition created_eice ::
  "('w, 'e) ec2 \<Rightarrow> ('w, 'e) jump_calls \<Rightarrow> endpoint option \<Rightarrow> ('w, 'e phase_error, string \<times> string) phase" where
  "created_eice A J created =
     (case created of
        None \<Rightarrow> raise (MissingFields ''EICE'')
      | Some ep \<Rightarrow>
          (let eiceID = (case ei_id ep of None \<Rightarrow> [] | Some i \<Rightarrow> i);
               eiceSGID = (case ep_groups ep of [] \<Rightarrow> [] | g # _ \<Rightarrow> g) in
           if eiceID = [] then raise (MissingFields ''EICE'')
           else and_do (if ep_progress ep = EpComplete then give () else waitEICEReady A J eiceID) (\<lambda>_.
             give (eiceID, eiceSGID))))"

text \<open>An endpoint found by its tags comes without its group.\<close>

(* src/internal/aws/phases/phase17b_jumphost.go:466-532 ensureJumphostEICE *)
definition ensureJumphostEICE ::
  "('w, 'e) ec2 \<Rightarrow> ('w, 'e) jump_calls \<Rightarrow> Cluster \<Rightarrow> string \<Rightarrow> ('w, 'e phase_error, string \<times> string) phase" where
  "ensureJumphostEICE A J cl subnetID =
     (let clusterName = md_Name (cl_Metadata cl) in
     and_do (st_get ''JUMPHOST_EICE_ID'') (\<lambda>known.
     if known \<noteq> [] then and_do (st_get ''JUMPHOST_EICE_SG_ID'') (\<lambda>g. give (known, g))
     else and_do (query (lookupEICEByTag J clusterName CompJumphostEICE)) (\<lambda>tagged.
       if tagged \<noteq> [] then give (tagged, [])
       else and_do (call (jc_create_eice J subnetID (named_tags A cl CompJumphostEICE ''jumphost-eice''))) (\<lambda>r.
         case r of
           Inr created \<Rightarrow> created_eice A J created
         | Inl e \<Rightarrow>
             if isResourceLimitExceeded A e then
               and_do (query (lookupEICEBySubnet J subnetID)) (\<lambda>(eiceID, eiceSGID).
               if eiceID = [] then raise (MissingFields ''EICE'') else give (eiceID, eiceSGID))
             else raise (Sdk ''ec2:CreateInstanceConnectEndpoint'' e)))))"

text \<open>A recorded instance that runs, or a tagged one that is not terminated, or a new one.\<close>

definition recorded_running :: "('w, 'e) jump_calls \<Rightarrow> string \<Rightarrow> ('w, 'f, bool) phase" where
  "recorded_running J instanceID =
     (if instanceID = [] then give False
      else query (\<lambda>w. Option.bind (described_instance J instanceID w) ji_state = Some IsRunning))"

definition launched_id :: "string option list \<Rightarrow> ('w, 'e phase_error, string) phase" where
  "launched_id is = (case is of [] \<Rightarrow> raise (MissingFields ''ec2:RunInstances'') | i # _ \<Rightarrow> give (case i of None \<Rightarrow> [] | Some i \<Rightarrow> i))"

(* src/internal/aws/phases/phase17b_jumphost.go:536-608 ensureJumphostInstance *)
definition ensureJumphostInstance ::
  "('w, 'e) ec2 \<Rightarrow> ('w, 'e) jump_calls \<Rightarrow> Cluster \<Rightarrow> string \<Rightarrow> string \<Rightarrow> string \<Rightarrow> string \<Rightarrow> string \<Rightarrow>
   ('w, 'e phase_error, string \<times> string \<times> string) phase" where
  "ensureJumphostInstance A J cl subnetID sgID amiID instanceType profileName =
     (let clusterName = md_Name (cl_Metadata cl);
          details = (\<lambda>i. and_do (query (getPrimaryENIDetails J i)) (\<lambda>(eniID, ip). give (i, eniID, ip))) in
     and_do (st_get ''JUMPHOST_INSTANCE_ID'') (\<lambda>known.
     and_do (recorded_running J known) (\<lambda>running.
     if running then details known
     else and_do (query (lookupInstanceByTag J clusterName CompJumphostInstance)) (\<lambda>tagged.
       if tagged \<noteq> [] then details tagged
       else
         and_do (call_sdk ''ec2:RunInstances'' (jc_run J
           \<lparr>lr_image = amiID, lr_type = instanceType, lr_subnet = Some subnetID, lr_groups = [sgID], lr_key = None,
             lr_user_data = base64 jumphostUserData, lr_profile = Some profileName, lr_interfaces = [],
             lr_tags = named_tags A cl CompJumphostInstance ''jumphost''\<rparr>)) (\<lambda>is.
         and_do (launched_id is) (\<lambda>instanceID.
         and_do (waitInstanceRunning A J instanceID) (\<lambda>_. details instanceID)))))))"

datatype jumphost_ip_error = InvalidIP string | NonIPv4IP string | CollidesWithVIPs string int

(* src/internal/aws/phases/phase17b_jumphost.go:690-707 validateJumphostExtIP *)
definition validateJumphostExtIP :: "string \<Rightarrow> jumphost_ip_error option" where
  "validateJumphostExtIP ipStr =
     (if ipStr = [] then None
      else (case parse_ip ipStr of
          None \<Rightarrow> Some (InvalidIP ipStr)
        | Some parsed \<Rightarrow>
            (case to4 parsed of
               None \<Rightarrow> Some (NonIPv4IP ipStr)
             | Some v4 \<Rightarrow>
                 (let offset = uint (v4 ! 3) in
                  if IsReservedGatewayVIPOffset offset then Some (CollidesWithVIPs ipStr offset) else None))))"

definition check_ext_ip :: "string \<Rightarrow> ('w, 'e phase_error, unit) phase" where
  "check_ext_ip ip = (if validateJumphostExtIP ip = None then give () else raise (UnexpectedStatus ''BNK_EXT ENI'' ip))"

text \<open>An interface that is adopted is not attached again.\<close>

(* src/internal/aws/phases/phase17b_jumphost.go:613-688 ensureJumphostSecondaryENI *)
definition ensureJumphostSecondaryENI ::
  "('w, 'e) ec2 \<Rightarrow> ('w, 'e) eni_calls \<Rightarrow> ('w, 'e) jump_calls \<Rightarrow> Cluster \<Rightarrow> string \<Rightarrow> string \<Rightarrow> string \<Rightarrow> string \<Rightarrow>
   ('w, 'e phase_error, string \<times> string) phase" where
  "ensureJumphostSecondaryENI A D J cl subnetID sgID instanceID expectedIP =
     (let clusterName = md_Name (cl_Metadata cl); eniName = clusterName @ ''-jumphost-bnk-ext'' in
     and_do (st_get ''JUMPHOST_BNK_EXT_ENI_ID'') (\<lambda>known.
     if known \<noteq> [] then
       and_do (state_or ''JUMPHOST_BNK_EXT_ENI_IP'' (query (getENIPrivateIP J known))) (\<lambda>ip.
       and_do (check_ext_ip ip) (\<lambda>_. give (known, ip)))
     else and_do (query (lookupENIByTag D clusterName CompJumphostENIExt)) (\<lambda>tagged.
       if tagged \<noteq> [] then
         and_do (query (getENIPrivateIP J tagged)) (\<lambda>ip.
         and_do (check_ext_ip ip) (\<lambda>_. give (tagged, ip)))
       else
         and_do (call_sdk ''ec2:CreateNetworkInterface'' (jc_create_eni J subnetID sgID eniName
           (if expectedIP = [] then [] else [expectedIP]) (named_tags A cl CompJumphostENIExt ''jumphost-bnk-ext''))) (\<lambda>(eniID, address).
         let ip = (case address of None \<Rightarrow> [] | Some ip \<Rightarrow> ip) in
         and_do (check_ext_ip ip) (\<lambda>_.
         and_do (run_sdk ''ec2:ModifyNetworkInterfaceAttribute --no-source-dest-check'' (ni_no_check D eniID)) (\<lambda>_.
         and_do (attachENIIfNeeded D eniID instanceID 1) (\<lambda>_.
         give (eniID, ip))))))))"

subsection \<open>Phase 17b\<close>

definition jumphost_spec :: "Cluster \<Rightarrow> JumphostSpec option" where
  "jumphost_spec cl = Option.bind (cl_Testing cl) ts_Jumphost"

text \<open>The management subnet: private ones are preferred; an index beyond them is taken as 0.\<close>

(* src/internal/aws/phases/phase17b_jumphost.go:107-132 Phase17bJumphost part *)
definition mgmt_subnet :: "Cluster \<Rightarrow> int \<Rightarrow> ('w, 'e phase_error, string) phase" where
  "mgmt_subnet cl index =
     and_do (st_get ''PRIVATE_SUBNETS'') (\<lambda>private_ids.
     let private = sns_Private (nw_Subnets (cl_Network cl)) \<noteq> [] \<and> private_ids \<noteq> [];
         subnets = (if private then sns_Private (nw_Subnets (cl_Network cl)) else sns_Public (nw_Subnets (cl_Network cl)));
         key = (if private then ''PRIVATE_SUBNETS'' else ''PUBLIC_SUBNETS'');
         idx = (if index \<ge> int (length subnets) then 0 else index) in
     if subnets = [] then raise (MissingFields ''network.subnets'')
     else if idx < 0 then raise NilPointer
     else and_do (need_state key) (\<lambda>csv.
       let ids = split_on CHR '','' csv in
       if idx \<ge> int (length ids) then raise (MissingFields key)
       else (let sid = trim_space (ids ! nat idx) in if sid = [] then raise (MissingFields key) else give sid)))"

text \<open>The role, the image, the groups and the endpoint: the instance profile, image and group for the launch.\<close>

(* src/internal/aws/phases/phase17b_jumphost.go:136-177 Phase17bJumphost part *)
definition jumphost_access ::
  "('w, 'e) ec2 \<Rightarrow> ('w, 'e) iam \<Rightarrow> ('w, 'e) sg_calls \<Rightarrow> ('w, 'e) jump_calls \<Rightarrow> Cluster \<Rightarrow> string \<Rightarrow> string \<Rightarrow>
   ('w, 'e phase_error, string \<times> string \<times> string) phase" where
  "jumphost_access A M G J cl vpcID subnetID =
     and_do (ensureJumphostInstanceProfile A M cl) (\<lambda>(profileName, roleName).
     and_do (st_set ''JUMPHOST_INSTANCE_PROFILE_NAME'' profileName) (\<lambda>_.
     and_do (st_set ''JUMPHOST_ROLE_NAME'' roleName) (\<lambda>_.
     and_do (state_or ''JUMPHOST_AMI_ID'' (resolveAL2023AMI J)) (\<lambda>amiID.
     and_do (st_set ''JUMPHOST_AMI_ID'' amiID) (\<lambda>_.
     and_do (ensureJumphostSG A G J cl vpcID) (\<lambda>sgID.
     and_do (st_set ''JUMPHOST_SG_ID'' sgID) (\<lambda>_.
     and_do (ensureJumphostEICE A J cl subnetID) (\<lambda>(eiceID, eiceSGID).
     and_do (st_set ''JUMPHOST_EICE_ID'' eiceID) (\<lambda>_.
     and_do (if eiceSGID \<noteq> [] then st_set ''JUMPHOST_EICE_SG_ID'' eiceSGID else give ()) (\<lambda>_.
     and_do (st_get ''JUMPHOST_EICE_SG_ID'') (\<lambda>final.
     and_do (if final \<noteq> [] then ensureJumphostSGIngress A G sgID final else give ()) (\<lambda>_.
     give (profileName, amiID, sgID)))))))))))))"

definition jumphost_dry_run :: "string \<Rightarrow> string \<Rightarrow> (string \<times> string) list" where
  "jumphost_dry_run name instanceType =
     [(''JUMPHOST_INSTANCE_ID'', ''i-dry-run''), (''JUMPHOST_MGMT_ENI_ID'', ''eni-dry-run-mgmt''),
      (''JUMPHOST_MGMT_ENI_IP'', ''10.0.1.200''), (''JUMPHOST_BNK_EXT_ENI_ID'', ''eni-dry-run-ext''),
      (''JUMPHOST_BNK_EXT_ENI_IP'', ''10.0.10.200''), (''JUMPHOST_EICE_ID'', ''eice-dry-run''),
      (''JUMPHOST_EICE_SG_ID'', ''sg-dry-run-eice''), (''JUMPHOST_SG_ID'', ''sg-dry-run-jumphost''),
      (''JUMPHOST_AMI_ID'', ''ami-dry-run''), (''JUMPHOST_INSTANCE_TYPE'', instanceType),
      (''JUMPHOST_INSTANCE_PROFILE_NAME'', name @ ''-jumphost-profile''), (''JUMPHOST_ROLE_NAME'', name @ ''-jumphost-role'')]"

(* src/internal/aws/phases/phase17b_jumphost.go:52-208 Phase17bJumphost *)
definition Phase17bJumphost ::
  "('w, 'e) ec2 \<Rightarrow> ('w, 'e) iam \<Rightarrow> ('w, 'e) sg_calls \<Rightarrow> ('w, 'e) eni_calls \<Rightarrow> ('w, 'e) jump_calls \<Rightarrow> bool \<Rightarrow>
   ('w, 'e phase_error, unit) phase" where
  "Phase17bJumphost A M G D J dryRun = and_do intent (\<lambda>cl.
     case jumphost_spec cl of
       None \<Rightarrow> give ()
     | Some jh \<Rightarrow>
         if \<not> jh_Enabled jh then give ()
         else (let instanceType = (if jh_InstanceType jh = [] then ''t3.small'' else jh_InstanceType jh) in
           if dryRun then for_each (\<lambda>(k, v). st_set k v) (jumphost_dry_run (md_Name (cl_Metadata cl)) instanceType)
           else
             and_do (need_state ''VPC_ID'') (\<lambda>vpcID.
             and_do (need_state ''SG_BNK_DATA'') (\<lambda>sgBNKData.
             and_do (need_state ''BNK_EXT_SUBNET'') (\<lambda>bnkExtSubnet.
             and_do (mgmt_subnet cl (jh_MgmtSubnetIndex jh)) (\<lambda>subnetID.
             and_do (jumphost_access A M G J cl vpcID subnetID) (\<lambda>(profileName, amiID, sgID).
             and_do (ensureJumphostInstance A J cl subnetID sgID amiID instanceType profileName) (\<lambda>(instanceID, eniID, ip).
             and_do (st_set ''JUMPHOST_INSTANCE_ID'' instanceID) (\<lambda>_.
             and_do (st_set ''JUMPHOST_MGMT_ENI_ID'' eniID) (\<lambda>_.
             and_do (st_set ''JUMPHOST_MGMT_ENI_IP'' ip) (\<lambda>_.
             and_do (st_set ''JUMPHOST_INSTANCE_TYPE'' instanceType) (\<lambda>_.
             and_do (ensureJumphostSecondaryENI A D J cl bnkExtSubnet sgBNKData instanceID
               (case DefaultJumphostExtIP cl of Inl _ \<Rightarrow> [] | Inr ip \<Rightarrow> ip)) (\<lambda>(extENI, extIP).
             and_do (st_set ''JUMPHOST_BNK_EXT_ENI_ID'' extENI) (\<lambda>_.
             and_do (st_set ''JUMPHOST_BNK_EXT_ENI_IP'' extIP) (\<lambda>_.
             save_state A)))))))))))))))"

subsection \<open>Teardown\<close>

definition mentions :: "string \<Rightarrow> permission \<Rightarrow> bool" where
  "mentions sgID p \<longleftrightarrow> list_ex (\<lambda>(g, _). g = Some sgID) (pm_pairs p)"

text \<open>All rules of the group itself; of another group the rules that mention it, whole.\<close>

definition revoke_of_group :: "('w, 'e) sg_calls \<Rightarrow> ('w, 'e) jump_calls \<Rightarrow> string \<Rightarrow> group_full \<Rightarrow> ('w, 'f, unit) phase" where
  "revoke_of_group G J targetSGID g =
     (case gr_id g of
        None \<Rightarrow> give ()
      | Some i \<Rightarrow>
          (let wanted = (\<lambda>ps. if i = targetSGID then ps else filter (mentions targetSGID) ps) in
           and_do (if wanted (gr_rules g) \<noteq> [] then best_effort (gc_revoke G i (wanted (gr_rules g))) else give ()) (\<lambda>_.
           if wanted (gf_egress g) \<noteq> [] then best_effort (jc_revoke_egress J i (wanted (gf_egress g))) else give ())))"

(* src/internal/aws/phases/phase17b_jumphost.go:909-988 revokeReferencesToSG *)
definition revokeReferencesToSG ::
  "('w, 'e) sg_calls \<Rightarrow> ('w, 'e) jump_calls \<Rightarrow> string \<Rightarrow> string \<Rightarrow> ('w, 'f, unit) phase" where
  "revokeReferencesToSG G J vpcID targetSGID =
     (if targetSGID = [] then give ()
      else
        and_do (if vpcID \<noteq> [] then give vpcID
                else query (\<lambda>w. id_of_first (map gf_vpc (ok_list (jc_groups J (ByIds [targetSGID]) w))))) (\<lambda>vpc.
        and_do (query (\<lambda>w. ok_list (jc_groups J
          (if vpc \<noteq> [] then ByFilters [plain_filter ''vpc-id'' [vpc]] else ByIds [targetSGID]) w))) (\<lambda>gs.
        for_each (revoke_of_group G J targetSGID) gs)))"

(* src/internal/aws/phases/phase17b_jumphost.go:1072-1097 deleteJumphostIAM *)
definition deleteJumphostIAM :: "('w, 'e) iam \<Rightarrow> string \<Rightarrow> string \<Rightarrow> ('w, 'e phase_error, unit) phase" where
  "deleteJumphostIAM M profileName roleName =
     and_do (run_unless (im_none M) ''iam:RemoveRoleFromInstanceProfile'' (im_remove_role M profileName roleName)) (\<lambda>_.
     and_do (run_unless (im_none M) ''iam:DeleteInstanceProfile'' (im_delete_profile M profileName)) (\<lambda>_.
     run_unless (im_none M) ''iam:DeleteRole'' (im_delete_role M roleName)))"

(* src/internal/aws/phases/phase17b_jumphost.go:1100-1117 clearJumphostState *)
definition clearJumphostState :: "('w, 'f, unit) phase" where
  "clearJumphostState = for_each (\<lambda>key. st_set key [])
     [''JUMPHOST_INSTANCE_ID'', ''JUMPHOST_MGMT_ENI_ID'', ''JUMPHOST_MGMT_ENI_IP'', ''JUMPHOST_BNK_EXT_ENI_ID'',
      ''JUMPHOST_BNK_EXT_ENI_IP'', ''JUMPHOST_EICE_ID'', ''JUMPHOST_EICE_SG_ID'', ''JUMPHOST_SG_ID'', ''JUMPHOST_AMI_ID'',
      ''JUMPHOST_INSTANCE_TYPE'', ''JUMPHOST_INSTANCE_PROFILE_NAME'', ''JUMPHOST_ROLE_NAME'']"

(* src/internal/aws/phases/phase17b_jumphost.go:226-236 Phase17bJumphostDown part *)
definition drop_instance :: "('w, 'e) ec2 \<Rightarrow> string \<Rightarrow> ('w, 'e phase_error, unit) phase" where
  "drop_instance A instanceID =
     and_do (run_tolerant A ''TerminateInstances'' (ec_terminate A [instanceID])) (\<lambda>_. waitInstanceTerminated A instanceID)"

(* src/internal/aws/phases/phase17b_jumphost.go:258-268 Phase17bJumphostDown part *)
definition drop_eice :: "('w, 'e) ec2 \<Rightarrow> string \<Rightarrow> ('w, 'e phase_error, unit) phase" where
  "drop_eice A eiceID =
     and_do (call (ec_delete_eice A eiceID)) (\<lambda>r.
     case r of None \<Rightarrow> waitEICEDeleted A eiceID | Some e \<Rightarrow> check_err (Sdk ''DeleteInstanceConnectEndpoint'') (ignoreNotFound A r))"

(* src/internal/aws/phases/phase17b_jumphost.go:276-290 Phase17bJumphostDown part *)
definition drop_jumphost_group ::
  "('w, 'e) ec2 \<Rightarrow> ('w, 'e) sg_calls \<Rightarrow> ('w, 'e) jump_calls \<Rightarrow> string \<Rightarrow> ('w, 'e phase_error, unit) phase" where
  "drop_jumphost_group A G J sgID =
     and_do (st_get ''VPC_ID'') (\<lambda>vpcID.
     and_do (revokeReferencesToSG G J vpcID sgID) (\<lambda>_.
     and_do (call (ec_delete_sg A sgID)) (\<lambda>r.
     if isDependencyViolation A (ignoreNotFound A r) then give ()
     else check_err (Sdk ''DeleteSecurityGroup jumphost'') (ignoreNotFound A r))))"

(* src/internal/aws/phases/phase17b_jumphost.go:216-307 Phase17bJumphostDown *)
definition Phase17bJumphostDown ::
  "('w, 'e) ec2 \<Rightarrow> ('w, 'e) iam \<Rightarrow> ('w, 'e) sg_calls \<Rightarrow> ('w, 'e) eni_calls \<Rightarrow> ('w, 'e) jump_calls \<Rightarrow>
   ('w, 'e phase_error, unit) phase" where
  "Phase17bJumphostDown A M G D J = and_do intent (\<lambda>cl.
     let name = md_Name (cl_Metadata cl) in
     and_do (state_or ''JUMPHOST_INSTANCE_ID'' (query (lookupInstanceByTag J name CompJumphostInstance))) (\<lambda>instanceID.
     and_do (if instanceID \<in> {[], ''i-dry-run''} then give () else drop_instance A instanceID) (\<lambda>_.
     and_do (state_or ''JUMPHOST_BNK_EXT_ENI_ID'' (query (lookupENIByTag D name CompJumphostENIExt))) (\<lambda>eniID.
     and_do (if eniID \<in> {[], ''eni-dry-run-ext''} then give () else detachAndDeleteENI A eniID) (\<lambda>_.
     and_do (state_or ''JUMPHOST_EICE_ID'' (query (lookupEICEByTag J name CompJumphostEICE))) (\<lambda>eiceID.
     and_do (if eiceID \<in> {[], ''eice-dry-run'', ''skipped''} then give () else drop_eice A eiceID) (\<lambda>_.
     and_do (state_or ''JUMPHOST_SG_ID'' (query (lookupSGByTag J name CompJumphostSG))) (\<lambda>sgID.
     and_do (if sgID \<in> {[], ''sg-dry-run-jumphost''} then give () else drop_jumphost_group A G J sgID) (\<lambda>_.
     and_do (state_or ''JUMPHOST_INSTANCE_PROFILE_NAME'' (give (name @ ''-jumphost-profile''))) (\<lambda>profileName.
     and_do (state_or ''JUMPHOST_ROLE_NAME'' (give (name @ ''-jumphost-role''))) (\<lambda>roleName.
     and_do (deleteJumphostIAM M profileName roleName) (\<lambda>_.
     and_do clearJumphostState (\<lambda>_. save_state A)))))))))))))"

end
