(* ===== verification/BigIPVE.thy ===== *)
theory BigIPVE
  imports Jumphost
begin

text \<open>
  Phase 17e (\<open>internal/aws/phases/phase17e_bigip_ve.go\<close>): the BIG-IP VE instance with its three
  interfaces, its key pair with the private key on disk, and its management group. What an earlier run
  left is adopted, and the settings of an adopted interface are made again. The last describe
  error, which the error of a timed-out wait carries, is left out, and \<open>sort.Slice\<close> leaves the order of
  images of one date open: the first of them is taken here. Every branch is modelled.
\<close>

record image =
  vi_id :: "string option"
  vi_created :: "string option"

text \<open>
  \<open>vc_keys\<close> is \<open>DescribeKeyPairs\<close>, \<open>vc_create_key\<close> yields the key material; \<open>vc_exists\<close>, \<open>vc_write\<close>
  and \<open>vc_remove\<close> are \<open>os.Stat\<close> without an error, \<open>os.WriteFile\<close> and \<open>os.Remove\<close>; \<open>vc_text\<close> is the
  text of an error.
\<close>

record ('w, 'e) ve_calls =
  vc_keys :: "string \<Rightarrow> 'w \<Rightarrow> 'e + string option list"
  vc_create_key :: "string \<Rightarrow> ec2_tag list \<Rightarrow> 'w \<Rightarrow> ('e + string option) \<times> 'w"
  vc_delete_key :: "string \<Rightarrow> 'w \<Rightarrow> 'e option \<times> 'w"
  vc_images :: "string \<Rightarrow> ec2_filter list \<Rightarrow> 'w \<Rightarrow> 'e + image list"
  vc_exists :: "string \<Rightarrow> 'w \<Rightarrow> bool"
  vc_write :: "string \<Rightarrow> string \<Rightarrow> 'w \<Rightarrow> 'e option \<times> 'w"
  vc_remove :: "string \<Rightarrow> 'w \<Rightarrow> 'e option \<times> 'w"
  vc_text :: "'e \<Rightarrow> string"

definition CompBigIPInstance :: string where "CompBigIPInstance = ''bigip-ve-instance''"
definition CompBigIPMgmtENI :: string where "CompBigIPMgmtENI = ''bigip-ve-eni-mgmt''"
definition CompBigIPExtENI :: string where "CompBigIPExtENI = ''bigip-ve-eni-ext''"
definition CompBigIPIntENI :: string where "CompBigIPIntENI = ''bigip-ve-eni-int''"
definition CompBigIPMgmtSG :: string where "CompBigIPMgmtSG = ''bigip-ve-sg-mgmt''"

(* src/internal/aws/phases/phase17e_bigip_ve.go:54-56 bigipVEKeyName *)
definition bigipVEKeyName :: "string \<Rightarrow> string" where
  "bigipVEKeyName clusterName = clusterName @ ''-bigip''"

definition pem_path :: "state \<Rightarrow> string" where
  "pem_path st = Dir st @ ''/bigip-ssh.pem''"

subsection \<open>Addresses\<close>

datatype host_error = BadCIDR string | NotIPv4 string | OffsetRange int | OutsideCIDR string

(* src/internal/aws/phases/phase17e_bigip_ve.go:879-899 cidrDotN *)
definition cidrDotN :: "string \<Rightarrow> int \<Rightarrow> host_error + string" where
  "cidrDotN cidr n =
     (case parse_cidr cidr of
        None \<Rightarrow> Inl (BadCIDR cidr)
      | Some (_, ipNet) \<Rightarrow>
          (case to4 (net_ip ipNet) of
             None \<Rightarrow> Inl (NotIPv4 cidr)
           | Some ip \<Rightarrow>
               if n < 0 \<or> 255 < n then Inl (OffsetRange n)
               else (let result = ip[3 := word_of_int n] in
                 if net_contains ipNet result then Inr (ipv4_string result) else Inl (OutsideCIDR cidr))))"

subsection \<open>Key pair\<close>

(* src/internal/aws/phases/phase17e_bigip_ve.go:437-453 bigipInstanceInUse *)
definition bigipInstanceInUse :: "('w, 'e) jump_calls \<Rightarrow> string \<Rightarrow> 'w \<Rightarrow> bool" where
  "bigipInstanceInUse J instanceID w =
     (case described_instance J instanceID w of
        None \<Rightarrow> False
      | Some i \<Rightarrow> (case ji_state i of None \<Rightarrow> True | Some st \<Rightarrow> st \<noteq> IsTerminated \<and> st \<noteq> IsShuttingDown))"

text \<open>A key pair without its private key, which no instance uses, is deleted to be made anew.\<close>

(* src/internal/aws/phases/phase17e_bigip_ve.go:383-398 ensureBigIPKeyPair part *)
definition drop_stale_key ::
  "('w, 'e) ec2 \<Rightarrow> ('w, 'e) jump_calls \<Rightarrow> ('w, 'e) ve_calls \<Rightarrow> string \<Rightarrow> ('w, 'e phase_error, unit) phase" where
  "drop_stale_key A J V keyName =
     and_do (st_get ''BIGIP_INSTANCE_ID'') (\<lambda>instID.
     and_do (query (bigipInstanceInUse J instID)) (\<lambda>used.
     if instID \<noteq> [] \<and> instID \<noteq> ''i-dry-run-bigip'' \<and> used then raise (MissingFields ''bigip-ssh.pem'')
     else run_tolerant A ''ec2:DeleteKeyPair'' (vc_delete_key V keyName)))"

(* src/internal/aws/phases/phase17e_bigip_ve.go:402-430 ensureBigIPKeyPair part *)
definition create_key :: "('w, 'e) ec2 \<Rightarrow> ('w, 'e) ve_calls \<Rightarrow> string \<Rightarrow> string \<Rightarrow> ('w, 'e phase_error, string) phase" where
  "create_key A V keyName path =
     and_do (call_sdk ''ec2:CreateKeyPair'' (vc_create_key V keyName
       (Merge (ec_iter A) [[''awsbnkctl:managed'' \<mapsto> ''true'', ''Name'' \<mapsto> keyName]]))) (\<lambda>key.
     if key = None \<or> key = Some [] then raise (MissingFields ''KeyMaterial'')
     else and_do (run_sdk ''writing BIG-IP SSH private key'' (vc_write V path (the key))) (\<lambda>_. give path))"

(* src/internal/aws/phases/phase17e_bigip_ve.go:368-431 ensureBigIPKeyPair *)
definition ensureBigIPKeyPair ::
  "('w, 'e) ec2 \<Rightarrow> ('w, 'e) jump_calls \<Rightarrow> ('w, 'e) ve_calls \<Rightarrow> string \<Rightarrow> string \<Rightarrow> ('w, 'e phase_error, string) phase" where
  "ensureBigIPKeyPair A J V keyName path =
     and_do (query (\<lambda>w. ok_list (vc_keys V keyName w))) (\<lambda>found.
     and_do (query (vc_exists V path)) (\<lambda>onDisk.
     if found \<noteq> [] \<and> onDisk then give []
     else
       and_do (if found \<noteq> [] then drop_stale_key A J V keyName else give ()) (\<lambda>_.
       create_key A V keyName path)))"

subsection \<open>Image\<close>

text \<open>The order of byte strings.\<close>

fun bytes_less :: "string \<Rightarrow> string \<Rightarrow> bool" where
  "bytes_less _ [] = False"
| "bytes_less [] (_ # _) = True"
| "bytes_less (a # as) (b # bs) =
     ((of_char a :: nat) < of_char b \<or> a = b \<and> bytes_less as bs)"

definition created_at :: "image \<Rightarrow> string" where
  "created_at i = (case vi_created i of None \<Rightarrow> [] | Some d \<Rightarrow> d)"

fun newest :: "image list \<Rightarrow> image option" where
  "newest [] = None"
| "newest (i # is) =
     (case newest is of None \<Rightarrow> Some i | Some j \<Rightarrow> Some (if bytes_less (created_at i) (created_at j) then j else i))"

(* src/internal/aws/phases/phase17e_bigip_ve.go:459-505 resolveBigIPAMI *)
definition resolveBigIPAMI :: "('w, 'e) ve_calls \<Rightarrow> string \<Rightarrow> string \<Rightarrow> ('w, 'e phase_error, string) phase" where
  "resolveBigIPAMI V licenseTier versionGlob =
     (let glob = (if versionGlob = [] then ''17.*'' else versionGlob);
          nameFilter = ''*BIGIP-'' @ glob @ ''*PAYG-'' @ licenseTier @ '' 25Mbps*'' in
      and_do (query_sdk ''ec2:DescribeImages'' (vc_images V ''aws-marketplace''
        [plain_filter ''name'' [nameFilter], plain_filter ''state'' [''available'']])) (\<lambda>images.
      case newest images of
        None \<Rightarrow> raise (MissingFields ''BIG-IP VE AMI'')
      | Some i \<Rightarrow> (case vi_id i of None \<Rightarrow> raise (MissingFields ''ImageId'') | Some ami \<Rightarrow> give ami)))"

subsection \<open>Management group\<close>

definition tcp_rule :: "int \<Rightarrow> (string option \<times> string option) list \<Rightarrow> permission" where
  "tcp_rule port pairs = \<lparr>pm_protocol = Some ''tcp'', pm_from = Some port, pm_to = Some port, pm_pairs = pairs, pm_ranges = []\<rparr>"

(* src/internal/aws/phases/phase17e_bigip_ve.go:518-591 ensureBigIPMgmtSG *)
definition ensureBigIPMgmtSG ::
  "('w, 'e) ec2 \<Rightarrow> ('w, 'e) sg_calls \<Rightarrow> ('w, 'e) jump_calls \<Rightarrow> Cluster \<Rightarrow> string \<Rightarrow> string \<Rightarrow> string \<Rightarrow>
   ('w, 'e phase_error, string) phase" where
  "ensureBigIPMgmtSG A G J cl vpcID jumphostSGID eksSGID =
     (let clusterName = md_Name (cl_Metadata cl); sgName = clusterName @ ''-bigip-mgmt'' in
     and_do (state_or ''BIGIP_MGMT_SG_ID'' (query (lookupSGByTag J clusterName CompBigIPMgmtSG))) (\<lambda>known.
     if known \<noteq> [] then give known
     else
       and_do (call_sdk ''ec2:CreateSecurityGroup bigip-mgmt'' (gc_create G sgName
         ''BIG-IP VE mgmt SG - ingress 443+22 from jumphost SG; 443 from EKS node SG for CIS'' vpcID
         (named_tags A cl CompBigIPMgmtSG ''bigip-mgmt''))) (\<lambda>sgID.
       and_do (run_unless (isEC2DuplicatePermission A) ''ec2:AuthorizeSecurityGroupIngress bigip-mgmt'' (gc_authorize G sgID
         [tcp_rule 443 [(Some jumphostSGID, Some ''allow-443-from-jumphost-for-onboarding''),
            (Some eksSGID, Some ''allow-443-from-eks-node-sg-for-cis-icontrol'')],
          tcp_rule 22 [(Some jumphostSGID, Some ''allow-ssh-from-jumphost-for-onboarding'')]])) (\<lambda>_.
       give sgID))))"

subsection \<open>Interfaces\<close>

definition no_source_check :: "('w, 'e) eni_calls \<Rightarrow> bool \<Rightarrow> string \<Rightarrow> ('w, 'e phase_error, unit) phase" where
  "no_source_check D disable eniID =
     (if disable then run_sdk ''ec2:ModifyNetworkInterfaceAttribute --no-source-dest-check'' (ni_no_check D eniID) else give ())"

(* src/internal/aws/phases/phase17e_bigip_ve.go:671-710 reassertBigIPENIConfig *)
definition reassertBigIPENIConfig ::
  "('w, 'e) eni_calls \<Rightarrow> string \<Rightarrow> string \<Rightarrow> bool \<Rightarrow> ('w, 'e phase_error, unit) phase" where
  "reassertBigIPENIConfig D eniID secondaryIP disable =
     and_do (no_source_check D disable eniID) (\<lambda>_.
     if secondaryIP = [] then give ()
     else and_do (query_sdk ''ec2:DescribeNetworkInterfaces'' (ni_describe D (ByIds [eniID]))) (\<lambda>ns.
       case find (\<lambda>n. en_id n = Some eniID) ns of
         None \<Rightarrow> give ()
       | Some n \<Rightarrow>
           if Some secondaryIP \<in> set (ed_ips n) then give ()
           else run_sdk ''ec2:AssignPrivateIpAddresses'' (ni_assign D eniID secondaryIP)))"

text \<open>The first address is the primary one.\<close>

(* src/internal/aws/phases/phase17e_bigip_ve.go:598-661 ensureBigIPENI *)
definition ensureBigIPENI ::
  "('w, 'e) ec2 \<Rightarrow> ('w, 'e) eni_calls \<Rightarrow> ('w, 'e) jump_calls \<Rightarrow> Cluster \<Rightarrow> string \<Rightarrow> string \<Rightarrow> string \<Rightarrow> string \<Rightarrow> bool \<Rightarrow>
   string \<Rightarrow> string \<Rightarrow> string \<Rightarrow> ('w, 'e phase_error, string) phase" where
  "ensureBigIPENI A D J cl subnetID sgID primaryIP secondaryIP disable component nameSuffix stateKey =
     (let clusterName = md_Name (cl_Metadata cl); eniName = clusterName @ ''-'' @ nameSuffix in
     and_do (state_or stateKey (query (lookupENIByTag D clusterName component))) (\<lambda>known.
     if known \<noteq> [] then and_do (reassertBigIPENIConfig D known secondaryIP disable) (\<lambda>_. give known)
     else
       and_do (call_sdk ''ec2:CreateNetworkInterface'' (jc_create_eni J subnetID sgID eniName
         (primaryIP # (if secondaryIP = [] then [] else [secondaryIP])) (named_tags A cl component nameSuffix))) (\<lambda>(eniID, _).
       and_do (no_source_check D disable eniID) (\<lambda>_. give eniID))))"

subsection \<open>Instance\<close>

(* src/internal/aws/phases/phase17e_bigip_ve.go:795-821 waitBigIPInstanceRunning *)
definition waitBigIPInstanceRunning :: "('w, 'e) ec2 \<Rightarrow> ('w, 'e) jump_calls \<Rightarrow> string \<Rightarrow> ('w, 'e phase_error, unit) phase" where
  "waitBigIPInstanceRunning A J instanceID =
     wait_before A (\<lambda>w. if Option.bind (described_instance J instanceID w) ji_state = Some IsRunning then Some None else None)
       (10 * Minute) (10 * Second) (WaitedTooLong ''BIG-IP instance'' instanceID)"

(* src/internal/aws/phases/phase17e_bigip_ve.go:824-855 waitBigIPInstanceTerminated *)
definition waitBigIPInstanceTerminated :: "('w, 'e) ec2 \<Rightarrow> ('w, 'e) jump_calls \<Rightarrow> string \<Rightarrow> ('w, 'e phase_error, unit) phase" where
  "waitBigIPInstanceTerminated A J instanceID =
     wait_before A (\<lambda>w. case jc_instances J (ByIds [instanceID]) w of
         Inl e \<Rightarrow> (case ignoreNotFound A (Some e) of None \<Rightarrow> Some None | Some _ \<Rightarrow> None)
       | Inr [] \<Rightarrow> Some None
       | Inr ([] # _) \<Rightarrow> None
       | Inr ((i # _) # _) \<Rightarrow> if ji_state i = Some IsTerminated then Some None else None)
       (15 * Minute) (10 * Second) (WaitedTooLong ''BIG-IP instance'' instanceID)"

(* src/internal/aws/phases/phase17e_bigip_ve.go:716-792 ensureBigIPInstance *)
definition ensureBigIPInstance ::
  "('w, 'e) ec2 \<Rightarrow> ('w, 'e) jump_calls \<Rightarrow> Cluster \<Rightarrow> string \<Rightarrow> string \<Rightarrow> string \<Rightarrow> string \<Rightarrow> string \<Rightarrow> string \<Rightarrow>
   ('w, 'e phase_error, string) phase" where
  "ensureBigIPInstance A J cl amiID instanceType keyName mgmtENIID extENIID intENIID =
     (let clusterName = md_Name (cl_Metadata cl) in
     and_do (st_get ''BIGIP_INSTANCE_ID'') (\<lambda>known.
     and_do (recorded_running J known) (\<lambda>running.
     if running then give known
     else and_do (query (lookupInstanceByTag J clusterName CompBigIPInstance)) (\<lambda>tagged.
       if tagged \<noteq> [] then give tagged
       else
         and_do (call_sdk ''ec2:RunInstances bigip-ve'' (jc_run J
           \<lparr>lr_image = amiID, lr_type = instanceType, lr_subnet = None, lr_groups = [], lr_key = Some keyName,
             lr_user_data = base64 ''# BIG-IP onboarding deferred to F2-B2 (AWSBNKCTL_BIGIP_PASSWORD env)'',
             lr_profile = None, lr_interfaces = [(0, mgmtENIID), (1, extENIID), (2, intENIID)],
             lr_tags = named_tags A cl CompBigIPInstance ''bigip-ve''\<rparr>)) (\<lambda>is.
         and_do (launched_id is) (\<lambda>instanceID.
         and_do (waitBigIPInstanceRunning A J instanceID) (\<lambda>_. give instanceID)))))))"

text \<open>The outermost code of an error's chain decides, and without one the text.\<close>

(* src/internal/aws/phases/phase17e_bigip_ve.go:904-922 isBigIPOptInRequired *)
definition isBigIPOptInRequired :: "('w, 'e) ec2 \<Rightarrow> ('w, 'e) ve_calls \<Rightarrow> 'e phase_error \<Rightarrow> bool" where
  "isBigIPOptInRequired A V err \<longleftrightarrow>
     (case err of
        Sdk _ e \<Rightarrow> (case ec_codes A e of [] \<Rightarrow> contains (vc_text V e) ''OptInRequired'' | c # _ \<Rightarrow> c = ''OptInRequired'')
      | _ \<Rightarrow> False)"

subsection \<open>Phase 17e\<close>

text \<open>The management subnet; an index beyond the public subnets is taken as 0.\<close>

(* src/internal/aws/phases/phase17e_bigip_ve.go:143-162 Phase17eBigIPVE part *)
definition ve_subnet :: "Cluster \<Rightarrow> int \<Rightarrow> ('w, 'e phase_error, string \<times> string) phase" where
  "ve_subnet cl index =
     (let subnets = sns_Public (nw_Subnets (cl_Network cl)); idx = (if index \<ge> int (length subnets) then 0 else index) in
      if subnets = [] then raise (MissingFields ''network.subnets.public'')
      else and_do (need_state ''PUBLIC_SUBNETS'') (\<lambda>csv.
        let ids = split_on CHR '','' csv in
        if idx \<ge> int (length ids) then raise (MissingFields ''PUBLIC_SUBNETS'')
        else if idx < 0 then raise NilPointer
        else (let sid = trim_space (ids ! nat idx) in
          if sid = [] then raise (MissingFields ''PUBLIC_SUBNETS'') else give (sid, sn_CIDR (subnets ! nat idx)))))"

definition host_50 :: "string \<Rightarrow> ('w, 'e phase_error, string) phase" where
  "host_50 cidr = (case cidrDotN cidr 50 of Inl _ \<Rightarrow> raise (UnexpectedStatus ''CIDR'' cidr) | Inr ip \<Rightarrow> give ip)"

definition ve_dry_run :: "string \<Rightarrow> string \<Rightarrow> (string \<times> string) list" where
  "ve_dry_run name vip =
     [(''BIGIP_INSTANCE_ID'', ''i-dry-run-bigip''), (''BIGIP_MGMT_ENI_ID'', ''eni-dry-run-bigip-mgmt''),
      (''BIGIP_MGMT_IP'', ''10.0.1.50''), (''BIGIP_EXT_ENI_ID'', ''eni-dry-run-bigip-ext''), (''BIGIP_EXT_IP'', ''10.0.10.50''),
      (''BIGIP_VIP'', vip), (''BIGIP_INT_ENI_ID'', ''eni-dry-run-bigip-int''), (''BIGIP_INT_IP'', ''10.0.20.50''),
      (''BIGIP_MGMT_SG_ID'', ''sg-dry-run-bigip-mgmt''), (''BIGIP_KEY_NAME'', bigipVEKeyName name),
      (''BIGIP_AMI_ID'', ''ami-dry-run-bigip''), (''BIGIP_SSH_KEY_PATH'', ''.awsbnkctl/'' @ name @ ''/bigip-ssh.pem'')]"

text \<open>One interface: found or made, and recorded with its address.\<close>

definition ve_eni ::
  "('w, 'e) ec2 \<Rightarrow> ('w, 'e) eni_calls \<Rightarrow> ('w, 'e) jump_calls \<Rightarrow> Cluster \<Rightarrow> string \<Rightarrow> string \<Rightarrow> string \<Rightarrow> string \<Rightarrow> bool \<Rightarrow>
   string \<Rightarrow> string \<Rightarrow> string \<Rightarrow> ('w, 'e phase_error, string) phase" where
  "ve_eni A D J cl subnetID sgID ip secondaryIP disable component nameSuffix side =
     and_do (ensureBigIPENI A D J cl subnetID sgID ip secondaryIP disable component nameSuffix
       (''BIGIP_'' @ side @ ''_ENI_ID'')) (\<lambda>eniID.
     and_do (st_set (''BIGIP_'' @ side @ ''_ENI_ID'') eniID) (\<lambda>_.
     and_do (st_set (''BIGIP_'' @ side @ ''_IP'') ip) (\<lambda>_. give eniID)))"

definition ve_launch ::
  "('w, 'e) ec2 \<Rightarrow> ('w, 'e) jump_calls \<Rightarrow> ('w, 'e) ve_calls \<Rightarrow> Cluster \<Rightarrow> string \<Rightarrow> string \<Rightarrow> string \<Rightarrow> string \<Rightarrow> string \<Rightarrow> string \<Rightarrow>
   ('w, 'e phase_error, string) phase" where
  "ve_launch A J V cl amiID instanceType keyName m x i =
     and_do (outcome (ensureBigIPInstance A J cl amiID instanceType keyName m x i)) (\<lambda>r.
     case r of
       Inr instanceID \<Rightarrow> give instanceID
     | Inl err \<Rightarrow> raise (if isBigIPOptInRequired A V err then MissingFields ''AWS Marketplace subscription'' else err))"

(* src/internal/aws/phases/phase17e_bigip_ve.go:173-257 Phase17eBigIPVE part *)
definition ve_provision ::
  "('w, 'e) ec2 \<Rightarrow> ('w, 'e) sg_calls \<Rightarrow> ('w, 'e) eni_calls \<Rightarrow> ('w, 'e) jump_calls \<Rightarrow> ('w, 'e) ve_calls \<Rightarrow> Cluster \<Rightarrow> BigIPVESpec \<Rightarrow>
   string \<Rightarrow> string \<Rightarrow> string \<Rightarrow> string \<Rightarrow> string \<Rightarrow> string \<Rightarrow> string \<Rightarrow> string \<Rightarrow> ('w, 'e phase_error, unit) phase" where
  "ve_provision A G D J V cl ve vpcID sgBNKData extSubnet intSubnet jumphostSGID eksSGID mgmtSubnet mgmtCIDR =
     (let name = md_Name (cl_Metadata cl); keyName = bigipVEKeyName name;
          instanceType = (if ve_InstanceType ve = [] then ''c5n.2xlarge'' else ve_InstanceType ve) in
     and_do (state_or ''BIGIP_AMI_ID'' (resolveBigIPAMI V (ve_LicenseTier ve) (ve_Version ve))) (\<lambda>amiID.
     and_do (st_set ''BIGIP_AMI_ID'' amiID) (\<lambda>_.
     and_do (ensureBigIPMgmtSG A G J cl vpcID jumphostSGID eksSGID) (\<lambda>mgmtSGID.
     and_do (st_set ''BIGIP_MGMT_SG_ID'' mgmtSGID) (\<lambda>_.
     and_do (deref (nw_DataPath (cl_Network cl))) (\<lambda>dp.
     and_do (host_50 mgmtCIDR) (\<lambda>mgmtIP.
     and_do (host_50 (sn_CIDR (dp_External dp))) (\<lambda>extIP.
     and_do (host_50 (sn_CIDR (dp_Internal dp))) (\<lambda>intIP.
     and_do (ve_eni A D J cl mgmtSubnet mgmtSGID mgmtIP [] False CompBigIPMgmtENI ''bigip-mgmt'' ''MGMT'') (\<lambda>m.
     and_do (ve_eni A D J cl extSubnet sgBNKData extIP (ve_VIP ve) True CompBigIPExtENI ''bigip-ext'' ''EXT'') (\<lambda>x.
     and_do (st_set ''BIGIP_VIP'' (ve_VIP ve)) (\<lambda>_.
     and_do (ve_eni A D J cl intSubnet sgBNKData intIP [] True CompBigIPIntENI ''bigip-int'' ''INT'') (\<lambda>i.
     and_do (ve_launch A J V cl amiID instanceType keyName m x i) (\<lambda>instanceID.
     and_do (st_set ''BIGIP_INSTANCE_ID'' instanceID) (\<lambda>_. save_state A)))))))))))))))"

(* src/internal/aws/phases/phase17e_bigip_ve.go:77-258 Phase17eBigIPVE *)
definition Phase17eBigIPVE ::
  "('w, 'e) ec2 \<Rightarrow> ('w, 'e) sg_calls \<Rightarrow> ('w, 'e) eni_calls \<Rightarrow> ('w, 'e) jump_calls \<Rightarrow> ('w, 'e) ve_calls \<Rightarrow> bool \<Rightarrow>
   ('w, 'e phase_error, unit) phase" where
  "Phase17eBigIPVE A G D J V dryRun = and_do intent (\<lambda>cl.
     let name = md_Name (cl_Metadata cl); keyName = bigipVEKeyName name in
     case cl_BigIPVE cl of
       None \<Rightarrow> give ()
     | Some ve \<Rightarrow>
         if \<not> BigIPVEEnabled cl then give ()
         else if dryRun then for_each (\<lambda>(k, v). st_set k v) (ve_dry_run name (ve_VIP ve))
         else
           and_do (need_state ''VPC_ID'') (\<lambda>vpcID.
           and_do (need_state ''SG_BNK_DATA'') (\<lambda>sgBNKData.
           and_do (need_state ''BNK_EXT_SUBNET'') (\<lambda>extSubnet.
           and_do (need_state ''BNK_INT_SUBNET'') (\<lambda>intSubnet.
           and_do (need_state ''JUMPHOST_SG_ID'') (\<lambda>jumphostSGID.
           and_do (need_state ''EKS_SECURITY_GROUP'') (\<lambda>eksSGID.
           and_do (ve_subnet cl (ve_MgmtSubnetIndex ve)) (\<lambda>(mgmtSubnet, mgmtCIDR).
           and_do (\<lambda>s. Some (Inr (pem_path (rs_st s)), s)) (\<lambda>path.
           and_do (ensureBigIPKeyPair A J V keyName path) (\<lambda>_.
           and_do (st_set ''BIGIP_KEY_NAME'' keyName) (\<lambda>_.
           and_do (st_set ''BIGIP_SSH_KEY_PATH'' path) (\<lambda>_.
           ve_provision A G D J V cl ve vpcID sgBNKData extSubnet intSubnet jumphostSGID eksSGID mgmtSubnet mgmtCIDR))))))))))))"

subsection \<open>Teardown\<close>

(* src/internal/aws/phases/phase17e_bigip_ve.go:858-875 clearBigIPVEState *)
definition clearBigIPVEState :: "('w, 'f, unit) phase" where
  "clearBigIPVEState = for_each (\<lambda>key. st_set key [])
     [''BIGIP_INSTANCE_ID'', ''BIGIP_MGMT_ENI_ID'', ''BIGIP_MGMT_IP'', ''BIGIP_EXT_ENI_ID'', ''BIGIP_EXT_IP'', ''BIGIP_VIP'',
      ''BIGIP_INT_ENI_ID'', ''BIGIP_INT_IP'', ''BIGIP_MGMT_SG_ID'', ''BIGIP_KEY_NAME'', ''BIGIP_AMI_ID'', ''BIGIP_SSH_KEY_PATH'']"

(* src/internal/aws/phases/phase17e_bigip_ve.go:301-311 Phase17eBigIPVEDown part *)
definition drop_ve_eni :: "('w, 'e) ec2 \<Rightarrow> ('w, 'e) eni_calls \<Rightarrow> string \<Rightarrow> string \<times> string \<Rightarrow> ('w, 'e phase_error, unit) phase" where
  "drop_ve_eni A D name = (\<lambda>(key, component).
     and_do (state_or key (query (lookupENIByTag D name component))) (\<lambda>eniID.
     if eniID = [] \<or> has_prefix eniID ''eni-dry-run'' then give () else detachAndDeleteENI A eniID))"

(* src/internal/aws/phases/phase17e_bigip_ve.go:266-356 Phase17eBigIPVEDown *)
definition Phase17eBigIPVEDown ::
  "('w, 'e) ec2 \<Rightarrow> ('w, 'e) eni_calls \<Rightarrow> ('w, 'e) jump_calls \<Rightarrow> ('w, 'e) ve_calls \<Rightarrow> ('w, 'e phase_error, unit) phase" where
  "Phase17eBigIPVEDown A D J V = and_do intent (\<lambda>cl.
     let name = md_Name (cl_Metadata cl) in
     and_do (state_or ''BIGIP_INSTANCE_ID'' (query (lookupInstanceByTag J name CompBigIPInstance))) (\<lambda>instanceID.
     and_do (if instanceID \<in> {[], ''i-dry-run-bigip''} then give ()
             else and_do (run_tolerant A ''TerminateInstances'' (ec_terminate A [instanceID])) (\<lambda>_.
               waitBigIPInstanceTerminated A J instanceID)) (\<lambda>_.
     and_do (for_each (drop_ve_eni A D name)
       [(''BIGIP_MGMT_ENI_ID'', CompBigIPMgmtENI), (''BIGIP_EXT_ENI_ID'', CompBigIPExtENI), (''BIGIP_INT_ENI_ID'', CompBigIPIntENI)]) (\<lambda>_.
     and_do (state_or ''BIGIP_MGMT_SG_ID'' (query (lookupSGByTag J name CompBigIPMgmtSG))) (\<lambda>sgID.
     and_do (if sgID \<in> {[], ''sg-dry-run-bigip-mgmt''} then give ()
             else run_tolerant A ''DeleteSecurityGroup'' (ec_delete_sg A sgID)) (\<lambda>_.
     and_do (state_or ''BIGIP_KEY_NAME'' (give (bigipVEKeyName name))) (\<lambda>keyName.
     and_do (run_tolerant A ''DeleteKeyPair'' (vc_delete_key V keyName)) (\<lambda>_.
     and_do (\<lambda>s. Some (Inr (pem_path (rs_st s)), s)) (\<lambda>path.
     and_do (best_effort (vc_remove V path)) (\<lambda>_.
     and_do clearBigIPVEState (\<lambda>_. save_state A)))))))))))"

end
