(* ===== verification/Irsa.thy ===== *)
theory Irsa
  imports Iam EksBase
begin

text \<open>
  Phase 18 (\<open>internal/aws/phases/phase18_irsa_oidc.go\<close>): the OIDC provider of the cluster, the role the
  CNE controller assumes through it, and the ingress rules between the security groups of the cluster,
  the data plane and the jumphost. The TLS handshake and SHA-1 are parameters.
\<close>

subsection \<open>Constants\<close>

(* src/internal/bnkconst/bnkconst.go:13-16 BenchmarkProxyPort *)
record proxy_port =
  px_Proxy :: string
  px_NodePort :: int

(* src/internal/bnkconst/bnkconst.go:22-28 BenchmarkProxyNodePorts *)
definition BenchmarkProxyNodePorts :: "proxy_port list" where
  "BenchmarkProxyNodePorts =
     [\<lparr>px_Proxy = ''haproxy'', px_NodePort = 30890\<rparr>, \<lparr>px_Proxy = ''nginx'', px_NodePort = 30891\<rparr>,
      \<lparr>px_Proxy = ''envoy'', px_NodePort = 30892\<rparr>, \<lparr>px_Proxy = ''envoy-ai-gateway'', px_NodePort = 30893\<rparr>,
      \<lparr>px_Proxy = ''llm-d-router'', px_NodePort = 30894\<rparr>]"

definition CompOIDCProvider :: string where "CompOIDCProvider = ''oidc-provider''"
definition CompIRSARole :: string where "CompIRSARole = ''irsa-cne-controller''"

(* src/internal/aws/phases/phase18_irsa_oidc.go:33-33 cneControllerVpcReadPolicy part *)
definition cneControllerVpcReadPolicy :: string where
  "cneControllerVpcReadPolicy = allow_statement [''ec2:DescribeVpcs'', ''ec2:DescribeSubnets'', ''ec2:DescribeRouteTables'',
     ''ec2:DescribeNetworkInterfaces'', ''ec2:DescribeSecurityGroups'', ''ec2:DescribeInstances'', ''ec2:DescribeInstanceTypes'',
     ''ec2:DescribeTags'', ''ec2:DescribeAvailabilityZones'', ''ec2:CreateNetworkInterface'', ''ec2:DeleteNetworkInterface'',
     ''ec2:ModifyNetworkInterfaceAttribute'', ''ec2:AssignPrivateIpAddresses'', ''ec2:UnassignPrivateIpAddresses'',
     ''ec2:AttachNetworkInterface'', ''ec2:DetachNetworkInterface'', ''ec2:CreateTags'', ''ec2:CreateRoute'', ''ec2:DeleteRoute'',
     ''ec2:ReplaceRoute'']"

subsection \<open>The provider\<close>

text \<open>The host of the issuer's URL, the certificates its server sends, and the 20 bytes of SHA-1.\<close>

record ('w, 'e) oidc_endpoint =
  oe_host :: "string \<Rightarrow> 'e + string"
  oe_certs :: "string \<Rightarrow> 'w \<Rightarrow> 'e + string list"
  oe_sha1 :: "string \<Rightarrow> string"

definition hex_upper :: "string \<Rightarrow> string" where
  "hex_upper bytes = to_upper (concat (map (\<lambda>c. let n = of_char c :: nat in [hex_char (n div 16), hex_char (n mod 16)]) bytes))"

(* src/internal/aws/phases/phase18_irsa_oidc.go:279-311 oidcThumbprint *)
definition oidcThumbprint :: "('w, 'e) oidc_endpoint \<Rightarrow> string \<Rightarrow> ('w, 'e phase_error, string) phase" where
  "oidcThumbprint T issuerURL =
     and_do (check_result (Sdk ''parsing OIDC issuer URL'') (oe_host T issuerURL)) (\<lambda>host.
     and_do (query_sdk ''tls.Dial'' (oe_certs T (host @ '':443''))) (\<lambda>certs.
     if certs = [] then raise (MissingFields ''TLS certificates'') else give (hex_upper (oe_sha1 T (List.last certs)))))"

(* src/internal/aws/phases/phase18_irsa_oidc.go:582-600 isEntityAlreadyExists *)
definition isEntityAlreadyExists :: "('w, 'e) ec2 \<Rightarrow> 'e \<Rightarrow> bool" where
  "isEntityAlreadyExists A e = outermost A ''EntityAlreadyExists'' e"

text \<open>A provider that exists already is an error of its own. The tagging after the creation may fail.\<close>

(* src/internal/aws/phases/phase18_irsa_oidc.go:318-357 ensureOIDCProvider *)
definition ensureOIDCProvider ::
  "('w, 'e) ec2 \<Rightarrow> ('w, 'e) iam \<Rightarrow> Cluster \<Rightarrow> string \<Rightarrow> string \<Rightarrow> ('w, 'e phase_error, string) phase" where
  "ensureOIDCProvider A M cl issuerURL thumbprint =
     and_do (call (im_create_provider M issuerURL [thumbprint] [''sts.amazonaws.com''] (iam_tags A cl CompOIDCProvider))) (\<lambda>r.
     case r of
       Inl e \<Rightarrow>
         raise (if isEntityAlreadyExists A e then MissingFields (''OIDC_PROVIDER_ARN of the existing provider of '' @ issuerURL)
                else Sdk ''iam:CreateOpenIDConnectProvider'' e)
     | Inr arn \<Rightarrow> and_do (best_effort (im_tag_provider M arn (iam_tags A cl CompOIDCProvider))) (\<lambda>_. give arn))"

subsection \<open>The role\<close>

(* src/internal/aws/phases/phase18_irsa_oidc.go:368-370 irsaSubject *)
definition irsaSubject :: "string \<Rightarrow> string \<Rightarrow> string" where
  "irsaSubject namespace saName = ''system:serviceaccount:'' @ namespace @ '':'' @ saName"

text \<open>The entries of a map are printed by key.\<close>

(* src/internal/aws/phases/phase18_irsa_oidc.go:374-410 oidcFederatedTrustPolicy *)
definition oidcFederatedTrustPolicy :: "string \<Rightarrow> string \<Rightarrow> string \<Rightarrow> string" where
  "oidcFederatedTrustPolicy oidcHost accountID subject =
     json_object [(''Version'', json_string ''2012-10-17''),
       (''Statement'', ''['' @ json_object
          [(''Effect'', json_string ''Allow''),
           (''Principal'', json_object
              [(''Federated'', json_string (''arn:aws:iam::'' @ accountID @ '':oidc-provider/'' @ oidcHost))]),
           (''Action'', json_string ''sts:AssumeRoleWithWebIdentity''),
           (''Condition'', json_object [(''StringLike'', json_object
              [(oidcHost @ '':aud'', json_string ''sts.amazonaws.com''), (oidcHost @ '':sub'', json_string subject)])])] @ '']'')]"

(* src/internal/aws/phases/phase18_irsa_oidc.go:413-461 ensureIRSARole *)
definition ensureIRSARole ::
  "('w, 'e) ec2 \<Rightarrow> ('w, 'e) iam \<Rightarrow> Cluster \<Rightarrow> string \<Rightarrow> string \<Rightarrow> string \<Rightarrow> string \<Rightarrow> ('w, 'e phase_error, string) phase" where
  "ensureIRSARole A M cl roleName oidcHost accountID subject =
     and_do (read_unless (im_none M) ''GetRole'' (im_role M roleName)) (\<lambda>existing.
     and_do (case existing of
         Some arn \<Rightarrow> give arn
       | None \<Rightarrow> call_sdk ''iam:CreateRole''
           (im_create_role M roleName (oidcFederatedTrustPolicy oidcHost accountID subject) (iam_tags A cl CompIRSARole))) (\<lambda>roleARN.
     and_do (run_sdk ''PutRolePolicy'' (im_put_inline M roleName ''CneControllerVpcRead'' cneControllerVpcReadPolicy)) (\<lambda>_.
     give roleARN)))"

(* src/internal/aws/phases/phase18_irsa_oidc.go:519-525 extractAccountID *)
definition extractAccountID :: "string \<Rightarrow> string" where
  "extractAccountID arn = (let parts = split_on CHR '':'' arn in if length parts < 5 then [] else parts ! 4)"

subsection \<open>Ingress rules\<close>

(* src/internal/aws/phases/phase18_irsa_oidc.go:465-487 ensureClusterSGIngress *)
definition ensureClusterSGIngress ::
  "('w, 'e) ec2 \<Rightarrow> ('w, 'e) sg_calls \<Rightarrow> string \<Rightarrow> string \<Rightarrow> ('w, 'e phase_error, unit) phase" where
  "ensureClusterSGIngress A G clusterSGID sgBNKDataID =
     run_unless (isEC2DuplicatePermission A) ''ec2:AuthorizeSecurityGroupIngress cluster-SG''
       (gc_authorize G clusterSGID [rule_from_group sgBNKDataID (Some ''allow-bnk-data-plane'')])"

(* src/internal/aws/phases/phase18_irsa_oidc.go:492-514 ensureBNKDataSGIngress *)
definition ensureBNKDataSGIngress ::
  "('w, 'e) ec2 \<Rightarrow> ('w, 'e) sg_calls \<Rightarrow> string \<Rightarrow> string \<Rightarrow> ('w, 'e phase_error, unit) phase" where
  "ensureBNKDataSGIngress A G sgBNKDataID clusterSGID =
     run_unless (isEC2DuplicatePermission A) ''ec2:AuthorizeSecurityGroupIngress SG_BNK_DATA''
       (gc_authorize G sgBNKDataID [rule_from_group clusterSGID (Some ''allow-cluster-to-bnk-data'')])"

(* src/internal/aws/phases/phase18_irsa_oidc.go:185-197 proxyPortPermission *)
definition proxyPortPermission :: "string \<Rightarrow> proxy_port \<Rightarrow> bool \<Rightarrow> permission" where
  "proxyPortPermission jumphostSGID p withDescription =
     \<lparr>pm_protocol = Some ''tcp'', pm_from = Some (px_NodePort p), pm_to = Some (px_NodePort p),
      pm_pairs = [(Some jumphostSGID, if withDescription
        then Some (''allow-jumphost-to-'' @ px_Proxy p @ ''-benchmark-proxy'') else None)],
      pm_ranges = []\<rparr>"

(* src/internal/aws/phases/phase18_irsa_oidc.go:170-182 ensureClusterSGProxyPortIngress *)
definition ensureClusterSGProxyPortIngress ::
  "('w, 'e) ec2 \<Rightarrow> ('w, 'e) sg_calls \<Rightarrow> string \<Rightarrow> string \<Rightarrow> proxy_port \<Rightarrow> ('w, 'e phase_error, unit) phase" where
  "ensureClusterSGProxyPortIngress A G clusterSGID jumphostSGID p =
     run_unless (isEC2DuplicatePermission A) ''ec2:AuthorizeSecurityGroupIngress cluster-SG''
       (gc_authorize G clusterSGID [proxyPortPermission jumphostSGID p True])"

(* src/internal/aws/phases/phase18_irsa_oidc.go:529-541 revokeClusterSGIngress *)
definition revokeClusterSGIngress ::
  "('w, 'e) ec2 \<Rightarrow> ('w, 'e) sg_calls \<Rightarrow> string \<Rightarrow> string \<Rightarrow> ('w, 'e phase_error, unit) phase" where
  "revokeClusterSGIngress A G clusterSGID sgBNKDataID =
     run_unless (isInvalidPermissionNotFound A) ''ec2:RevokeSecurityGroupIngress cluster-SG''
       (gc_revoke G clusterSGID [rule_from_group sgBNKDataID None])"

(* src/internal/aws/phases/phase18_irsa_oidc.go:545-557 revokeBNKDataSGIngress *)
definition revokeBNKDataSGIngress ::
  "('w, 'e) ec2 \<Rightarrow> ('w, 'e) sg_calls \<Rightarrow> string \<Rightarrow> string \<Rightarrow> ('w, 'e phase_error, unit) phase" where
  "revokeBNKDataSGIngress A G sgBNKDataID clusterSGID =
     run_unless (isInvalidPermissionNotFound A) ''ec2:RevokeSecurityGroupIngress BNK_DATA-SG''
       (gc_revoke G sgBNKDataID [rule_from_group clusterSGID None])"

subsection \<open>Phase 18\<close>

text \<open>The provider of the state if it is still there, else a new one.\<close>

(* src/internal/aws/phases/phase18_irsa_oidc.go:91-114 Phase18IRSAOIDC part *)
definition provider_arn ::
  "('w, 'e) ec2 \<Rightarrow> ('w, 'e) iam \<Rightarrow> Cluster \<Rightarrow> string \<Rightarrow> string \<Rightarrow> ('w, 'e phase_error, string) phase" where
  "provider_arn A M cl issuerURL thumbprint =
     and_do (st_get ''OIDC_PROVIDER_ARN'') (\<lambda>known.
     and_do (if known = [] then give []
             else and_do (query (im_provider M known)) (\<lambda>r.
               case r of
                 None \<Rightarrow> give known
               | Some e \<Rightarrow> if im_none M e then give [] else raise (Sdk ''GetOpenIDConnectProvider'' e))) (\<lambda>live.
     if live \<noteq> [] then give live
     else and_do (ensureOIDCProvider A M cl issuerURL thumbprint) (\<lambda>arn.
       and_do (st_set ''OIDC_PROVIDER_ARN'' arn) (\<lambda>_. give arn))))"

(* src/internal/aws/phases/phase18_irsa_oidc.go:140-163 Phase18IRSAOIDC part *)
definition open_rules :: "('w, 'e) ec2 \<Rightarrow> ('w, 'e) sg_calls \<Rightarrow> ('w, 'e phase_error, unit) phase" where
  "open_rules A G =
     and_do (st_get ''EKS_SECURITY_GROUP'') (\<lambda>clusterSG.
     and_do (st_get ''SG_BNK_DATA'') (\<lambda>bnkData.
     and_do (if clusterSG \<noteq> [] \<and> bnkData \<noteq> [] then
               and_do (ensureClusterSGIngress A G clusterSG bnkData) (\<lambda>_. ensureBNKDataSGIngress A G bnkData clusterSG)
             else give ()) (\<lambda>_.
     and_do (st_get ''JUMPHOST_SG_ID'') (\<lambda>jumphostSG.
     if clusterSG \<noteq> [] \<and> jumphostSG \<noteq> []
     then for_each (ensureClusterSGProxyPortIngress A G clusterSG jumphostSG) BenchmarkProxyNodePorts
     else give ()))))"

(* src/internal/aws/phases/phase18_irsa_oidc.go:214-221 Phase18IrsaOidcDown part *)
definition close_pair :: "('w, 'e) ec2 \<Rightarrow> ('w, 'e) sg_calls \<Rightarrow> string \<Rightarrow> string \<Rightarrow> ('w, 'e phase_error, unit) phase" where
  "close_pair A G clusterSG bnkData =
     (if clusterSG \<noteq> [] \<and> bnkData \<noteq> [] then
        and_do (ignoring (revokeClusterSGIngress A G clusterSG bnkData)) (\<lambda>_.
        ignoring (revokeBNKDataSGIngress A G bnkData clusterSG))
      else give ())"

(* src/internal/aws/phases/phase18_irsa_oidc.go:212-234 Phase18IrsaOidcDown part *)
definition close_rules :: "('w, 'e) ec2 \<Rightarrow> ('w, 'e) sg_calls \<Rightarrow> ('w, 'e phase_error, unit) phase" where
  "close_rules A G =
     and_do (st_get ''EKS_SECURITY_GROUP'') (\<lambda>clusterSG.
     and_do (st_get ''SG_BNK_DATA'') (\<lambda>bnkData.
     and_do (close_pair A G clusterSG bnkData) (\<lambda>_.
     and_do (st_get ''JUMPHOST_SG_ID'') (\<lambda>jumphostSG.
     if clusterSG \<noteq> [] \<and> jumphostSG \<noteq> []
     then for_each (\<lambda>p. best_effort (gc_revoke G clusterSG [proxyPortPermission jumphostSG p False])) BenchmarkProxyNodePorts
     else give ()))))"

definition trim_prefix :: "string \<Rightarrow> string \<Rightarrow> string" where
  "trim_prefix s p = (if has_prefix s p then drop (length p) s else s)"

(* src/internal/aws/phases/phase18_irsa_oidc.go:52-166 Phase18IRSAOIDC *)
definition Phase18IRSAOIDC ::
  "('w, 'e) ec2 \<Rightarrow> ('w, 'e) iam \<Rightarrow> ('w, 'e) sg_calls \<Rightarrow> ('w, 'e) eks \<Rightarrow> ('w, 'e) oidc_endpoint \<Rightarrow> bool \<Rightarrow>
   ('w, 'e phase_error, unit) phase" where
  "Phase18IRSAOIDC A M G E T dryRun = and_do intent (\<lambda>cl.
     let name = md_Name (cl_Metadata cl); roleName = name @ ''-cne-controller-irsa'' in
     if dryRun then
       and_do (st_set ''OIDC_PROVIDER_ARN'' ''arn:aws:iam::dry-run:oidc-provider/dry-run-oidc'') (\<lambda>_.
       and_do (st_set ''CNE_IRSA_ROLE_NAME'' roleName) (\<lambda>_.
       st_set ''CNE_IRSA_ROLE_ARN'' (''arn:aws:iam::dry-run:role/'' @ roleName)))
     else
       and_do (query_sdk ''phase18: DescribeCluster'' (ek_cluster E name)) (\<lambda>info.
       case ci_issuer info of
         None \<Rightarrow> raise (MissingFields ''OIDC issuer'')
       | Some issuerURL \<Rightarrow>
           and_do (oidcThumbprint T issuerURL) (\<lambda>thumbprint.
           and_do (provider_arn A M cl issuerURL thumbprint) (\<lambda>oidcARN.
           and_do (ensureIRSARole A M cl roleName (trim_prefix issuerURL ''https://'') (extractAccountID oidcARN)
             (irsaSubject ''f5-cne-system'' ''*'')) (\<lambda>roleARN.
           and_do (st_set ''CNE_IRSA_ROLE_NAME'' roleName) (\<lambda>_.
           and_do (st_set ''CNE_IRSA_ROLE_ARN'' roleARN) (\<lambda>_.
           and_do (open_rules A G) (\<lambda>_. save_state A))))))))"

(* src/internal/aws/phases/phase18_irsa_oidc.go:205-270 Phase18IrsaOidcDown *)
definition Phase18IrsaOidcDown ::
  "('w, 'e) ec2 \<Rightarrow> ('w, 'e) iam \<Rightarrow> ('w, 'e) sg_calls \<Rightarrow> bool \<Rightarrow> ('w, 'e phase_error, unit) phase" where
  "Phase18IrsaOidcDown A M G keepIRSA = and_do intent (\<lambda>cl.
     and_do (close_rules A G) (\<lambda>_.
     if keepIRSA then save_state A
     else
       and_do (st_get ''CNE_IRSA_ROLE_NAME'') (\<lambda>recorded.
       and_do (deleteRole A M (if recorded = [] then md_Name (cl_Metadata cl) @ ''-cne-controller-irsa'' else recorded)) (\<lambda>_.
       and_do (st_set ''CNE_IRSA_ROLE_NAME'' []) (\<lambda>_.
       and_do (st_set ''CNE_IRSA_ROLE_ARN'' []) (\<lambda>_.
       and_do (st_get ''OIDC_PROVIDER_ARN'') (\<lambda>oidcARN.
       and_do (if oidcARN = [] then give ()
               else run_unless (im_none M) ''phase18 down: DeleteOpenIDConnectProvider'' (im_delete_provider M oidcARN)) (\<lambda>_.
       and_do (st_set ''OIDC_PROVIDER_ARN'' []) (\<lambda>_. save_state A)))))))))"

end
