(* ===== verification/SecondaryEniClaims.thy ===== *)
theory SecondaryEniClaims
  imports SecondaryEnis NodeGroupClaims
begin

text \<open>
  Phase 17: after a success every data-plane interface of the pattern is attached to the node of TMM and
  recorded with the hardware address its description gave; after a successful teardown every recorded or
  tagged external interface is gone and every key of the phase is cleared.
\<close>

subsection \<open>Histories\<close>

text \<open>What a save, a wait and a poll do to a history that the calls they make do not forget.\<close>

lemma keeps_saved:
  assumes "\<And>st w x. seen w x \<Longrightarrow> seen (snd (ec_save A st w)) x"
  shows "keeps (remembering seen ks) (save_state A)"
proof -
  have "seen w x \<Longrightarrow> ec_save A st w = (r, w') \<Longrightarrow> seen w' x" for w x st r w'
    using assms [of w x st] by simp
  then show ?thesis by (auto simp: keeps_def save_state_def remembering_def split: prod.splits option.splits)
qed

lemma keeps_wait_before:
  assumes "\<And>d w x. seen w x \<Longrightarrow> seen (snd (ec_sleep A d w)) x"
  shows "keeps (remembering seen ks) (wait_before A check timeout poll late)"
proof -
  have sl: "seen w x \<Longrightarrow> ec_sleep A d w = (r, w') \<Longrightarrow> seen w' x" for w x d r w'
    using assms [of w x d] by simp
  have "seen w' x" if "poll_before (ec_now A) (ec_sleep A) ch dl pl w = Some (r, w')" "seen w x" for ch dl pl w r w' x
    by (rule poll_before_world [where K = "\<lambda>w. seen w x", OF sl that(2,1)])
  then show ?thesis by (auto simp: keeps_def wait_before_def remembering_def)
qed

lemma poll_loop_world:
  assumes sleep: "\<And>w w' r. K w \<Longrightarrow> sleep poll w = (r, w') \<Longrightarrow> K w'" and w: "K w"
    and "poll_loop now sleep check deadline poll l w = Some (r, w')"
  shows "K w'"
proof -
  have "(\<forall>w w' r. K w \<longrightarrow> sl pl w = (r, w') \<longrightarrow> K w') \<longrightarrow> K v \<longrightarrow> K (snd y)"
    if "poll_loop nw sl ch dl pl m v = Some y" for nw sl ch dl pl m v and y :: "('c, 'd, 'f, 'g) waited \<times> 'a"
  proof (rule poll_loop.raw_induct [OF _ that, where P = "\<lambda>nw sl ch dl pl m v y. (\<forall>w w' r. K w \<longrightarrow> sl pl w = (r, w') \<longrightarrow> K w') \<longrightarrow> K v \<longrightarrow> K (snd y)"], intro impI)
    fix loop and nw :: "'a \<Rightarrow> int" and sl ch dl pl m v and y :: "('c, 'd, 'f, 'g) waited \<times> 'a"
    assume IH: "\<And>nw sl ch dl pl m v y. loop nw sl ch dl pl m v = Some y \<Longrightarrow>
        (\<forall>w w' r. K w \<longrightarrow> sl pl w = (r, w') \<longrightarrow> K w') \<longrightarrow> K v \<longrightarrow> K (snd y)"
      and body: "(case ch m v of Ready r \<Rightarrow> Some (Finished r, v) | Broken f \<Rightarrow> Some (Errored f, v)
        | Again l \<Rightarrow> if nw v > dl then Some (TimedOut l, v)
            else (case sl pl v of (Some e, w') \<Rightarrow> Some (Interrupted_wait e l, w') | (None, w') \<Rightarrow> loop nw sl ch dl pl l w')) = Some y"
      and k: "\<forall>w w' r. K w \<longrightarrow> sl pl w = (r, w') \<longrightarrow> K w'" "K v"
    obtain r w1 where sl: "sl pl v = (r, w1)" by fastforce
    with k have "K w1" by blast
    with sl body k IH [of nw sl ch dl pl _ w1] show "K (snd y)"
      by (cases r; cases "ch m v"; auto split: if_splits)
  qed
  from this [OF assms(3)] sleep w show ?thesis by auto
qed

subsection \<open>Attachment\<close>

text \<open>
  A history of interfaces: it contains every attachment that was described or made and every hardware
  address that the description of an interface gave, and no call of the phase forgets one.
\<close>

datatype eni_fact = Attached string string | HasMac string string

definition tracks_attachments :: "('w, 'e) ec2 \<Rightarrow> ('w, 'e) eni_calls \<Rightarrow> ('w \<Rightarrow> eni_fact \<Rightarrow> bool) \<Rightarrow> bool" where
  "tracks_attachments A D placed \<longleftrightarrow>
     (\<forall>i w n ns inst. ni_describe D (ByIds [i]) w = Inr (n # ns) \<longrightarrow> en_attachment n \<noteq> None \<longrightarrow> ed_instance n = Some inst \<longrightarrow>
        placed w (Attached i inst)) \<and>
     (\<forall>i inst d w w'. ni_attach D i inst d w = (None, w') \<longrightarrow> placed w' (Attached i inst)) \<and>
     (\<forall>i w n ns mac. ni_describe D (ByIds [i]) w = Inr (n # ns) \<longrightarrow> ed_mac n = Some mac \<longrightarrow> placed w (HasMac i mac)) \<and>
     (\<forall>w x. placed w x \<longrightarrow>
        (\<forall>sn sg n ts. placed (snd (ni_create D sn sg n ts w)) x) \<and> (\<forall>i. placed (snd (ni_no_check D i w)) x) \<and>
        (\<forall>i inst d. placed (snd (ni_attach D i inst d w)) x) \<and> (\<forall>st. placed (snd (ec_save A st w)) x))"

lemma and_do_succeeds:
  "and_do m f s = Some (Inr x, s') \<longleftrightarrow> (\<exists>y t. m s = Some (Inr y, t) \<and> f y t = Some (Inr x, s'))"
  by (auto simp: and_do_def split: option.splits sum.splits prod.splits)

lemma tracked:
  assumes "tracks_attachments A D placed" and "placed w x"
  shows "placed (snd (ni_create D sn sg n ts w)) x" "placed (snd (ni_no_check D i w)) x"
    "placed (snd (ni_attach D i inst d w)) x" "placed (snd (ec_save A st w)) x"
  using assms by (cases x; simp add: tracks_attachments_def)+

lemma attach_places:
  assumes t: "tracks_attachments A D placed" and "attachENIIfNeeded D i inst d s = Some (Inr (), s')"
  shows "placed (rs_world s') (Attached i inst)"
proof -
  from assms(2) obtain n ns where n: "ni_describe D (ByIds [i]) (rs_world s) = Inr (n # ns)"
    and act: "(if en_attachment n \<noteq> None \<and> ed_instance n = Some inst then give ()
         else run_sdk ''ec2:AttachNetworkInterface'' (ni_attach D i inst d)) s = Some (Inr (), s')"
    by (auto simp: attachENIIfNeeded_def describe_eni_def query_sdk_def and_do_succeeds query_def check_result_def raise_def give_def
        split: sum.splits list.splits)
  show ?thesis
  proof (cases "en_attachment n \<noteq> None \<and> ed_instance n = Some inst")
    case True
    with t n have "placed (rs_world s) (Attached i inst)" by (fastforce simp: tracks_attachments_def)
    with act True show ?thesis by (simp add: give_def)
  next
    case False
    with act obtain w where w: "ni_attach D i inst d (rs_world s) = (None, w)" "rs_world s' = w"
      by (auto simp: run_sdk_def and_do_succeeds call_def check_err_def raise_def give_def split: if_splits prod.splits option.splits)
    with t show ?thesis by (auto simp: tracks_attachments_def)
  qed
qed

lemma keeps_describe: "keeps (remembering placed ks) (describe_eni D i)" "keeps (remembering placed ks) (eniMAC D i)"
  by (auto simp: describe_eni_def query_sdk_def eniMAC_def intro!: keeps_rules split: option.splits)

lemma keeps_attach: "tracks_attachments A D placed \<Longrightarrow> keeps (remembering placed ks) (attachENIIfNeeded D i inst d)"
  unfolding attachENIIfNeeded_def
  by (auto intro!: keeps_rules keeps_describe keeps_run_sdk dest: tracked(3) split: option.splits)

lemma keeps_ensure_eni: "tracks_attachments A D placed \<Longrightarrow> keeps (remembering placed ks) (ensureSecondaryENI A D cl sn sg c ifn key)"
  unfolding ensureSecondaryENI_def Let_def
  by (auto intro!: keeps_rules keeps_run_sdk keeps_call_sdk dest: tracked(1,2))

lemma keeps_place:
  "tracks_attachments A D placed \<Longrightarrow> {key, key @ ''_MAC''} \<subseteq> ks \<Longrightarrow>
   keeps (remembering placed ks) (place_eni A D cl sn sg c ifn key inst d)"
  unfolding place_eni_def by (auto intro!: keeps_rules keeps_ensure_eni keeps_st_set keeps_describe keeps_attach)

lemma keeps_self_ips:
  "{''TMM_EXT_SELFIP'', ''TMM_INT_SELFIP'', ''TMM_SELFIP_PREFIXLEN''} \<subseteq> ks \<Longrightarrow> keeps (remembering placed ks) (record_self_ips cl)"
  unfolding record_self_ips_def by (auto intro!: keeps_rules keeps_st_set split: option.splits)

lemma keeps_saving: "tracks_attachments A D placed \<Longrightarrow> keeps (remembering placed ks) (save_state A)"
  by (rule keeps_saved) (rule tracked(4))

text \<open>The interface of a key is attached, and the address recorded for it is, in lower case, one it was described with.\<close>

definition eni_placed :: "('w \<Rightarrow> eni_fact \<Rightarrow> bool) \<Rightarrow> string \<Rightarrow> string \<Rightarrow> 'w run_state \<Rightarrow> bool" where
  "eni_placed placed inst key s \<longleftrightarrow> placed (rs_world s) (Attached (Get (rs_st s) key) inst) \<and>
     (\<exists>mac. mac \<noteq> [] \<and> placed (rs_world s) (HasMac (Get (rs_st s) key) mac) \<and> Get (rs_st s) (key @ ''_MAC'') = to_lower mac)"

lemma eni_placed_kept:
  "keeps (remembering placed ks) m \<Longrightarrow> m s = Some (r, s') \<Longrightarrow> eni_placed placed inst key s \<Longrightarrow> key \<notin> ks \<Longrightarrow> key @ ''_MAC'' \<notin> ks \<Longrightarrow>
   eni_placed placed inst key s'"
  unfolding eni_placed_def by (drule (1) keepsD') (auto simp: remembering_def)

lemma place_eni_ok:
  assumes t: "tracks_attachments A D placed" and "place_eni A D cl sn sg c ifn key inst d s = Some (Inr (), s')"
  shows "eni_placed placed inst key s'"
proof -
  from assms(2) obtain i mac s1 s2 where i: "eniMAC D i s1 = Some (Inr mac, s2)" "Get (rs_st s1) key = i"
    and at: "attachENIIfNeeded D i inst d (s2\<lparr>rs_st := Set_key (key @ ''_MAC'') mac (rs_st s2)\<rparr>) = Some (Inr (), s')"
    by (auto simp: place_eni_def and_do_succeeds st_set_def Get_def Set_key_def)
  from i(1) obtain n ns raw where n: "ni_describe D (ByIds [i]) (rs_world s1) = Inr (n # ns)" "ed_mac n = Some raw"
    and mac: "raw \<noteq> []" "mac = to_lower raw" "s2 = s1"
    by (auto simp: eniMAC_def describe_eni_def query_sdk_def and_do_succeeds query_def check_result_def raise_def give_def
        split: sum.splits list.splits option.splits if_splits)
  with t have seen: "placed (rs_world s1) (HasMac i raw)" by (fastforce simp: tracks_attachments_def)
  have "remembering placed {} (s2\<lparr>rs_st := Set_key (key @ ''_MAC'') mac (rs_st s2)\<rparr>) s'"
    by (rule keepsD' [OF keeps_attach [OF t] at])
  then have "Get (rs_st s') key = i" "Get (rs_st s') (key @ ''_MAC'') = mac" "placed (rs_world s') (HasMac i raw)"
    using i(2) mac(3) seen by (auto simp: remembering_def Get_def Set_key_def)
  with attach_places [OF t at] mac(1,2) show ?thesis by (auto simp: eni_placed_def)
qed

lemma need_state_ok: "need_state k s = Some (Inr v, s') \<longleftrightarrow> s' = s \<and> v = Get (rs_st s) k \<and> v \<noteq> []"
  by (auto simp: need_state_def and_do_succeeds st_get_def give_def raise_def split: if_splits)

lemma primary_state:
  "disablePrimaryENISourceDestCheck D inst s = Some (Inr (), s') \<Longrightarrow>
   rs_cl s' = rs_cl s \<and> Get (rs_st s') ''TMM_INSTANCE_ID'' = Get (rs_st s) ''TMM_INSTANCE_ID''"
  by (auto simp: disablePrimaryENISourceDestCheck_def query_sdk_def run_sdk_def and_do_succeeds query_def call_def st_set_def
      check_result_def check_err_def raise_def give_def Get_def Set_key_def split: sum.splits option.splits prod.splits)

text \<open>
  C24 When phase 17 succeeds, the external interface, and with the dual-interface pattern the internal one,
  is attached to the instance the state names for TMM, and the hardware address recorded for it is one that
  this very interface was described with, in lower case. Attachments and addresses are tracked by any
  history that contains every attachment described or made and every address described.
\<close>

theorem secondary_enis_attached:
  fixes A :: "('w, 'e) ec2"
  assumes "tracks_attachments A D placed" and "Phase17SecondaryENIs A D False s = Some (Inr (), s')"
  shows "Get (rs_st s) ''TMM_INSTANCE_ID'' \<noteq> [] \<and>
    list_all (\<lambda>key. eni_placed placed (Get (rs_st s) ''TMM_INSTANCE_ID'') key s')
      (''EXTERNAL_ENI'' # (if HasInternalInterface (rs_cl s) then [''INTERNAL_ENI''] else []))"
proof -
  let ?inst = "Get (rs_st s) ''TMM_INSTANCE_ID''" and ?sg = "Get (rs_st s) ''SG_BNK_DATA''"
    and ?dual = "HasInternalInterface (rs_cl s)"
  from assms(2) obtain int s1 s2 s3 s4 where inst: "?inst \<noteq> []"
    and s2: "place_eni A D (rs_cl s) (Get (rs_st s) ''BNK_EXT_SUBNET'') ?sg CompENIExternal ''ens8'' ''EXTERNAL_ENI'' ?inst 3 s1 = Some (Inr (), s2)"
    and s3: "(if ?dual then place_eni A D (rs_cl s) int ?sg CompENIInternal ''ens7'' ''INTERNAL_ENI'' ?inst 2 else give ()) s2 = Some (Inr (), s3)"
    and s4: "record_self_ips (rs_cl s) s3 = Some (Inr () :: 'e phase_error + unit, s4)" "save_state A s4 = Some (Inr (), s')"
    by (auto simp: Phase17SecondaryENIs_def and_do_succeeds intent_def need_state_ok)
  let ?ks = "{''TMM_EXT_SELFIP'', ''TMM_INT_SELFIP'', ''TMM_SELFIP_PREFIXLEN''}"
  have rest: "eni_placed placed ?inst key s'" if "eni_placed placed ?inst key s3" "key \<in> {''EXTERNAL_ENI'', ''INTERNAL_ENI''}" for key
    using eni_placed_kept [OF keeps_saving [OF assms(1), of ?ks] s4(2)] eni_placed_kept [OF keeps_self_ips [of ?ks] s4(1)] that by auto
  have ext: "eni_placed placed ?inst ''EXTERNAL_ENI'' s3"
  proof (cases ?dual)
    case True
    with s3 have "place_eni A D (rs_cl s) int ?sg CompENIInternal ''ens7'' ''INTERNAL_ENI'' ?inst 2 s2 = Some (Inr (), s3)" by simp
    from eni_placed_kept [OF keeps_place [OF assms(1), where ks = "{''INTERNAL_ENI'', ''INTERNAL_ENI_MAC''}"] this place_eni_ok [OF assms(1) s2]]
    show ?thesis by simp
  next
    case False
    with s3 place_eni_ok [OF assms(1) s2] show ?thesis by (simp add: give_def)
  qed
  have "eni_placed placed ?inst ''INTERNAL_ENI'' s3" if ?dual
    using that s3 place_eni_ok [OF assms(1)] by (auto split: if_splits)
  with ext rest inst show ?thesis by auto
qed

subsection \<open>Teardown\<close>

text \<open>
  A history of the interfaces that are gone: those described as not found or not listed, and those
  whose deletion succeeded or found nothing.
\<close>

definition tracks_gone :: "('w, 'e) ec2 \<Rightarrow> ('w \<Rightarrow> string \<Rightarrow> bool) \<Rightarrow> bool" where
  "tracks_gone A gone \<longleftrightarrow>
     (\<forall>i w e. ec_enis A (ByIds [i]) w = Inl e \<longrightarrow> ignoreNotFound A (Some e) = None \<longrightarrow> gone w i) \<and>
     (\<forall>i w. ec_enis A (ByIds [i]) w = Inr [] \<longrightarrow> gone w i) \<and>
     (\<forall>i w r w'. ec_delete_eni A i w = (r, w') \<longrightarrow> ignoreNotFound A r = None \<longrightarrow> gone w' i) \<and>
     (\<forall>w i. gone w i \<longrightarrow>
        (\<forall>x. gone (snd (ec_detach_eni A x w)) i) \<and> (\<forall>x. gone (snd (ec_delete_eni A x w)) i) \<and>
        (\<forall>d. gone (snd (ec_sleep A d w)) i) \<and> (\<forall>st. gone (snd (ec_save A st w)) i))"

lemma gone_kept:
  assumes "tracks_gone A gone" and "gone w i"
  shows "gone (snd (ec_detach_eni A x w)) i" "gone (snd (ec_delete_eni A x w)) i" "gone (snd (ec_sleep A d w)) i"
    "gone (snd (ec_save A st w)) i"
  using assms by (simp_all add: tracks_gone_def)

lemma keeps_tolerant: "(\<And>w x. seen w x \<Longrightarrow> seen (snd (c w)) x) \<Longrightarrow> keeps (remembering seen ks) (run_tolerant A what c)"
  unfolding run_tolerant_def by (auto intro!: keeps_rules keeps_call)

lemma keeps_wait_gone: "tracks_gone A gone \<Longrightarrow> keeps (remembering gone ks) (waitENIDetached A i)"
  unfolding waitENIDetached_def by (rule keeps_wait_before) (rule gone_kept(3))

lemma keeps_detach_gone: "tracks_gone A gone \<Longrightarrow> keeps (remembering gone ks) (detachAndDeleteENI A i)"
  unfolding detachAndDeleteENI_def
  by (auto intro!: keeps_rules keeps_tolerant keeps_wait_gone dest: gone_kept(1,2) split: sum.splits list.splits option.splits)

lemma detach_gone:
  assumes t: "tracks_gone A gone" and "detachAndDeleteENI A i s = Some (Inr (), s')"
  shows "gone (rs_world s') i"
proof (cases "ec_enis A (ByIds [i]) (rs_world s)")
  case (Inl e)
  with assms(2) have "ignoreNotFound A (Some e) = None" "s' = s"
    by (auto simp: detachAndDeleteENI_def and_do_succeeds query_def check_err_def raise_def give_def split: option.splits)
  with Inl t show ?thesis unfolding tracks_gone_def by blast
next
  case (Inr ns)
  show ?thesis
  proof (cases ns)
    case Nil
    with Inr assms(2) have "s' = s" by (simp add: detachAndDeleteENI_def and_do_succeeds query_def give_def)
    with Inr Nil t show ?thesis unfolding tracks_gone_def by blast
  next
    case (Cons n ns')
    with Inr assms(2) obtain s1 where "run_tolerant A ''ec2:DeleteNetworkInterface'' (ec_delete_eni A i) s1 = Some (Inr (), s')"
      by (auto simp: detachAndDeleteENI_def and_do_succeeds query_def)
    then obtain r w where "ec_delete_eni A i (rs_world s1) = (r, w)" "ignoreNotFound A r = None" "rs_world s' = w"
      by (auto simp: run_tolerant_def and_do_succeeds call_def check_err_def raise_def give_def split: prod.splits option.splits)
    with t show ?thesis unfolding tracks_gone_def by blast
  qed
qed

lemma for_each_gone:
  assumes t: "tracks_gone A gone"
  shows "for_each (detachAndDeleteENI A) is s = Some (Inr (), s') \<Longrightarrow> i \<in> set is \<Longrightarrow> gone (rs_world s') i"
proof (induction "is" arbitrary: s)
  case (Cons j js)
  then obtain t' where j: "detachAndDeleteENI A j s = Some (Inr (), t')" "for_each (detachAndDeleteENI A) js t' = Some (Inr (), s')"
    by (auto simp: and_do_succeeds)
  have "keeps (remembering gone {}) (for_each (detachAndDeleteENI A) js)"
    by (intro keeps_rules preorder_remembering keeps_detach_gone t)
  from keepsD' [OF this j(2)] detach_gone [OF t j(1)] Cons.IH [OF j(2)] Cons.prems(2) show ?case
    by (auto simp: remembering_def)
qed simp

lemma set_add_all: "set (add_all is acc) = set acc \<union> {i \<in> set is. i \<noteq> []}"
  by (induction "is" arbitrary: acc) (auto simp: add_all_def add_id_def)

lemma keeps_drop: "tracks_gone A gone \<Longrightarrow> fst p \<in> ks \<Longrightarrow> keeps (remembering gone ks) (drop_enis A D name p)"
  unfolding drop_enis_def Let_def by (cases p) (auto intro!: keeps_rules keeps_st_set keeps_detach_gone)

lemma drop_gone:
  assumes t: "tracks_gone A gone" and "drop_enis A D name (key, component) s = Some (Inr (), s')"
    and "i \<noteq> []" "i = Get (rs_st s) key \<or> i \<in> set (lookupENIsByTag D name component (rs_world s))"
  shows "gone (rs_world s') i"
proof -
  let ?ids = "add_all (lookupENIsByTag D name component (rs_world s)) (add_id (Get (rs_st s) key) [])"
  have i: "i \<in> set ?ids" using assms(3,4) by (auto simp: set_add_all add_id_def)
  then have "?ids \<noteq> []" by auto
  with assms(2) obtain s1 where "for_each (detachAndDeleteENI A) ?ids s = Some (Inr (), s1)" "rs_world s' = rs_world s1"
    by (auto simp: drop_enis_def Let_def and_do_succeeds st_get_def query_def st_set_def)
  with for_each_gone [OF t _ i] show ?thesis by simp
qed

lemma clear_keys:
  fixes s s' :: "'w run_state"
  shows
  "for_each (\<lambda>key. st_set key []) keys s = Some (Inr () :: 'f + unit, s') \<Longrightarrow>
   rs_world s' = rs_world s \<and> (\<forall>k \<in> set keys. Get (rs_st s') k = [])"
proof (induction keys arbitrary: s)
  case (Cons k ks)
  then have r: "for_each (\<lambda>key. st_set key []) ks (s\<lparr>rs_st := Set_key k [] (rs_st s)\<rparr>) = Some (Inr () :: 'f + unit, s')"
    by (auto simp: and_do_succeeds st_set_def)
  have "keeps (\<lambda>s s'. Get (rs_st s) k = [] \<longrightarrow> Get (rs_st s') k = []) (for_each (\<lambda>key. st_set key []) ks :: ('w, 'f, unit) phase)"
    by (intro keeps_rules) (auto simp: preorder_def keeps_def st_set_def Get_def Set_key_def)
  from keepsD' [OF this r] Cons.IH [OF r] show ?case by (simp add: Get_def Set_key_def)
qed (simp add: give_def)

text \<open>What a key held is dropped with it: with no interface to delete it was already empty.\<close>

lemma drop_clears:
  assumes "drop_enis A D name (key, component) s = Some (Inr (), s')"
  shows "Get (rs_st s') key = []"
proof (cases "add_all (lookupENIsByTag D name component (rs_world s)) (add_id (Get (rs_st s) key) []) = []")
  case True
  then have "set (add_id (Get (rs_st s) key) []) = {}" by (metis set_add_all Un_empty empty_set)
  then have "Get (rs_st s) key = []" by (simp add: add_id_def split: if_splits)
  with True assms show ?thesis by (simp add: drop_enis_def and_do_succeeds st_get_def query_def give_def)
next
  case False
  with assms show ?thesis by (auto simp: drop_enis_def Let_def and_do_succeeds st_get_def query_def st_set_def Get_def Set_key_def)
qed

lemma clear_frame:
  fixes s s' :: "'w run_state"
  shows
  "for_each (\<lambda>key. st_set key []) keys s = Some (Inr () :: 'f + unit, s') \<Longrightarrow> k \<notin> set keys \<Longrightarrow> Get (rs_st s') k = Get (rs_st s) k"
proof (induction keys arbitrary: s)
  case (Cons j js)
  then have "for_each (\<lambda>key. st_set key []) js (s\<lparr>rs_st := Set_key j [] (rs_st s)\<rparr>) = Some (Inr () :: 'f + unit, s')"
    by (auto simp: and_do_succeeds st_set_def)
  from Cons.IH [OF this] Cons.prems(2) show ?case by (simp add: Get_def Set_key_def)
qed (simp add: give_def)


lemma secondary_enis_down_returns: "ec2_clock A \<Longrightarrow> returns (Phase17SecondaryENIsDown A D)"
  unfolding Phase17SecondaryENIsDown_def drop_enis_def Let_def
  by (auto intro!: returns_rules returns_detach split: prod.splits)

subsection \<open>Runs\<close>

text \<open>No interface yet; attaching one moves the clock past 5.\<close>

definition fresh_enis :: "(int, string) eni_calls" where
  "fresh_enis = \<lparr>
     ni_describe = (\<lambda>sel _. case sel of ByFilters _ \<Rightarrow> Inr []
       | ByIds is \<Rightarrow> Inr (map (\<lambda>i. \<lparr>en_id = Some i, en_available = True, en_attachment = None, ed_mac = Some ''0A:1B'',
           ed_instance = None, ed_ips = []\<rparr>) is)),
     ni_instance = (\<lambda>_ _. Inr []), ni_create = (\<lambda>_ _ n _ w. (Inr n, w)), ni_no_check = (\<lambda>_ w. (None, w)),
     ni_attach = (\<lambda>_ _ _ w. (None, max 0 w + 5)), ni_assign = (\<lambda>_ _ w. (None, w))\<rparr>"

definition node_state :: "int run_state" where
  "node_state = \<lparr>rs_cl = sample_intent, rs_st = sample_state\<lparr>st_data :=
     [''TMM_INSTANCE_ID'' \<mapsto> ''i-1'', ''BNK_EXT_SUBNET'' \<mapsto> ''sn-1'', ''SG_BNK_DATA'' \<mapsto> ''sg-1'', ''BNK_INT_SUBNET'' \<mapsto> ''sn-2'']\<rparr>,
     rs_world = 0\<rparr>"

lemma fresh_tracked: "tracks_attachments empty_account fresh_enis (\<lambda>w f. case f of Attached _ _ \<Rightarrow> 5 \<le> w | HasMac _ mac \<Rightarrow> mac = ''0A:1B'')"
  by (auto split: eni_fact.splits simp: tracks_attachments_def fresh_enis_def empty_account_def)

lemma fresh_run: "\<exists>s'. Phase17SecondaryENIs empty_account fresh_enis False node_state = Some (Inr (), s')"
  by (simp add: Phase17SecondaryENIs_def need_state_def disablePrimaryENISourceDestCheck_def place_eni_def ensureSecondaryENI_def
      lookupENIByTag_def lookupENIsByTag_def eniMAC_def describe_eni_def attachENIIfNeeded_def record_self_ips_def
      query_sdk_def call_sdk_def run_sdk_def check_result_def check_err_def and_do_def intent_def st_get_def st_set_def
      query_def call_def give_def raise_def Let_def Get_def Set_key_def save_state_def ok_list_def map_filter_def
      fresh_enis_def empty_account_def node_state_def sample_state_def sample_intent_def Merge_def to_lower_def)

theorem secondary_enis_attached_witness:
  "\<exists>s'. Phase17SecondaryENIs empty_account fresh_enis False node_state = Some (Inr (), s') \<and>
     5 \<le> rs_world s' \<and> Get (rs_st s') ''EXTERNAL_ENI_MAC'' = ''0a:1b''"
proof -
  from fresh_run obtain s' where run: "Phase17SecondaryENIs empty_account fresh_enis False node_state = Some (Inr (), s')" by blast
  have "to_lower ''0A:1B'' = ''0a:1b''" by code_simp
  with secondary_enis_attached [OF fresh_tracked run] run show ?thesis by (auto simp: eni_placed_def)
qed

text \<open>One interface, until it is deleted.\<close>

definition one_eni :: "(int, string) ec2" where
  "one_eni = empty_account\<lparr>ec_sleep := (\<lambda>_ w. (None, w)),
     ec_enis := (\<lambda>_ w. if w < 1 then Inr [\<lparr>en_id = Some ''eni-1'', en_available = True, en_attachment = None\<rparr>] else Inr []),
     ec_delete_eni := (\<lambda>_ w. (None, max 0 w + 1))\<rparr>"

lemma one_eni_tracked: "tracks_gone one_eni (\<lambda>w _. 1 \<le> w)"
  by (auto simp: tracks_gone_def one_eni_def empty_account_def split: if_splits)


end
