(* ===== verification/IamClaims.thy ===== *)
theory IamClaims
  imports Irsa SecondaryEniClaims
begin

text \<open>
  Phases 07 and 18: the scan for a role by tag ends and is exact, the roles of a successful run have
  their policies, managed and inline, the ones of a successful teardown are gone, and the teardown revokes
  exactly the ingress rules that the run opened, of which only those stay whose revocation was refused.
\<close>

subsection \<open>Roles by tag\<close>

text \<open>The pages a scan from a marker goes through, to the first that is not truncated.\<close>

inductive pages :: "('w, 'e) iam \<Rightarrow> 'w \<Rightarrow> string option \<Rightarrow> role_page list \<Rightarrow> bool" for M w where
  last_page: "im_roles M m w = Inr page \<Longrightarrow> \<not> rp_truncated page \<Longrightarrow> pages M w m [page]"
| next_page: "im_roles M m w = Inr page \<Longrightarrow> rp_truncated page \<Longrightarrow> pages M w (rp_marker page) ps \<Longrightarrow> pages M w m (page # ps)"

definition listed_roles :: "role_page list \<Rightarrow> string list" where
  "listed_roles ps = concat (map (\<lambda>p. List.map_filter id (rp_roles p)) ps)"

lemma find_over_pages: "find P (xs @ ys) = (case find P xs of None \<Rightarrow> find P ys | Some x \<Rightarrow> Some x)"
  by (induction xs) simp_all

text \<open>
  When the pages of the roles of an account come to an end, the scan for a role by tag ends too, with
  the first role, over all pages, that carries both the tag of the cluster and the tag of the
  component; with the empty name exactly when there is none.
\<close>

theorem role_scan_exact:
  assumes "pages M w marker ps"
  shows "role_scan M clusterName component w marker =
    Some (Inr (case find (carries_tags M clusterName component w) (listed_roles ps) of None \<Rightarrow> [] | Some r \<Rightarrow> r))"
  using assms
proof (induction rule: pages.induct)
  case (last_page m page)
  then show ?case by (subst role_scan.simps) (simp add: listed_roles_def split: option.splits)
next
  case (next_page m page ps)
  then show ?case
    by (subst role_scan.simps) (simp add: listed_roles_def find_over_pages split: option.splits)
qed

subsection \<open>Policies\<close>

text \<open>
  A history of the policies of roles: it contains every attachment of a managed policy that was listed or
  made and every inline policy that was put, and no call of the phase forgets one.
\<close>

datatype policy = Managed string | Inline string string

definition tracks_policies :: "('w, 'e) ec2 \<Rightarrow> ('w, 'e) iam \<Rightarrow> ('w, 'e) sg_calls \<Rightarrow> ('w \<Rightarrow> string \<times> policy \<Rightarrow> bool) \<Rightarrow> bool" where
  "tracks_policies A M G granted \<longleftrightarrow>
     (\<forall>r w ps p. im_attached M r w = Inr ps \<longrightarrow> p \<in> set ps \<longrightarrow> granted w (r, Managed p)) \<and>
     (\<forall>r p w w'. im_attach M r p w = (None, w') \<longrightarrow> granted w' (r, Managed p)) \<and>
     (\<forall>r n d w w'. im_put_inline M r n d w = (None, w') \<longrightarrow> granted w' (r, Inline n d)) \<and>
     (\<forall>w x. granted w x \<longrightarrow>
        (\<forall>r t ts. granted (snd (im_create_role M r t ts w)) x) \<and> (\<forall>r p. granted (snd (im_attach M r p w)) x) \<and>
        (\<forall>r n d. granted (snd (im_put_inline M r n d w)) x) \<and> (\<forall>p ts. granted (snd (im_create_profile M p ts w)) x) \<and>
        (\<forall>p r. granted (snd (im_add_role M p r w)) x) \<and> (\<forall>n d v ts. granted (snd (gc_create G n d v ts w)) x) \<and>
        (\<forall>g ps. granted (snd (gc_authorize G g ps w)) x) \<and> (\<forall>st. granted (snd (ec_save A st w)) x))"

lemma policy_laws:
  assumes "tracks_policies A M G granted" and "granted w x"
  shows "granted (snd (im_create_role M r t ts w)) x" "granted (snd (im_attach M r p w)) x"
    "granted (snd (im_put_inline M r n d w)) x" "granted (snd (im_create_profile M p ts w)) x"
    "granted (snd (im_add_role M p r w)) x" "granted (snd (gc_create G n d v ets w)) x"
    "granted (snd (gc_authorize G g ps w)) x" "granted (snd (ec_save A st w)) x"
  using assms by (cases x; simp add: tracks_policies_def)+

lemma keeps_unless: "(\<And>w x. seen w x \<Longrightarrow> seen (snd (c w)) x) \<Longrightarrow> keeps (remembering seen ks) (run_unless t what c)"
  unfolding run_unless_def by (auto intro!: keeps_rules keeps_call split: option.splits)

lemma keeps_read: "keeps (remembering seen ks) (read_unless t what q)" "keeps (remembering seen ks) (query_sdk what q)"
  unfolding read_unless_def query_sdk_def by (auto intro!: keeps_rules split: sum.splits)

lemma keeps_role: "tracks_policies A M G granted \<Longrightarrow> keeps (remembering granted ks) (ensureRole M r sp ps inl ts)"
  unfolding ensureRole_def
  by (auto intro!: keeps_rules keeps_read keeps_call_sdk keeps_run_sdk dest: policy_laws(1,2,3) split: option.splits)

lemma keeps_profile: "tracks_policies A M G granted \<Longrightarrow> keeps (remembering granted ks) (ensureInstanceProfile M p r ts)"
  unfolding ensureInstanceProfile_def
  by (auto intro!: keeps_rules keeps_read keeps_call_sdk keeps_run_sdk dest: policy_laws(4,5) split: option.splits)

lemma keeps_first_group: "keeps (remembering seen ks) (first_group gs)"
  unfolding first_group_def by (auto intro!: keeps_rules split: list.splits)

lemma keeps_group: "tracks_policies A M G granted \<Longrightarrow> keeps (remembering granted ks) (ensureBNKDataSG A G cl v)"
  unfolding ensureBNKDataSG_def findSGByName_def Let_def
  by (auto intro!: keeps_rules keeps_read keeps_first_group keeps_call_sdk keeps_unless dest: policy_laws(6,7))

lemma keeps_bgp: "tracks_policies A M G granted \<Longrightarrow> keeps (remembering granted ks) (ensureBNKDataSGBGPIngress A G g c)"
  unfolding ensureBNKDataSGBGPIngress_def by (auto intro!: keeps_unless dest: policy_laws(7))

lemma keeps_save_policies: "tracks_policies A M G granted \<Longrightarrow> keeps (remembering granted ks) (save_state A)"
  by (rule keeps_saved) (rule policy_laws(8))

lemma attach_all:
  assumes t: "tracks_policies A M G granted"
  shows "for_each (\<lambda>p. if p \<in> set have then give () else run_sdk what (im_attach M r p)) ps s = Some (Inr (), s') \<Longrightarrow>
    (\<And>p. p \<in> set have \<Longrightarrow> granted (rs_world s) (r, Managed p)) \<Longrightarrow> p \<in> set ps \<Longrightarrow> granted (rs_world s') (r, Managed p)"
proof (induction ps arbitrary: s)
  case (Cons q qs)
  let ?step = "\<lambda>p. if p \<in> set have then give () else run_sdk what (im_attach M r p)"
  from Cons.prems(1) obtain t' where q: "?step q s = Some (Inr (), t')" "for_each ?step qs t' = Some (Inr (), s')"
    by (auto simp: and_do_succeeds)
  have k: "keeps (remembering granted {}) (?step q')" for q'
    by (auto intro!: keeps_rules keeps_run_sdk dest: policy_laws(2) [OF t])
  have "granted (rs_world t') (r, Managed q)"
  proof (cases "q \<in> set have")
    case True
    with q(1) Cons.prems(2) show ?thesis by (simp add: give_def)
  next
    case False
    with q(1) obtain w where "im_attach M r q (rs_world s) = (None, w)" "rs_world t' = w"
      by (auto simp: run_sdk_def and_do_succeeds call_def check_err_def raise_def give_def split: prod.splits option.splits)
    with t show ?thesis by (auto simp: tracks_policies_def)
  qed
  moreover have "keeps (remembering granted {}) (for_each ?step qs)"
    by (intro keeps_rules preorder_remembering k)
  then have "remembering granted {} t' s'" using q(2) unfolding keeps_def by blast
  moreover have "granted (rs_world t') (r, Managed p)" if "p \<in> set have" for p
    using keepsD' [OF k q(1)] Cons.prems(2) [OF that] by (auto simp: remembering_def)
  ultimately show ?case using Cons.IH [OF q(2)] Cons.prems(3) by (auto simp: remembering_def)
qed simp

lemma query_sdk_ok: "query_sdk what q s = Some (Inr x, s') \<longleftrightarrow> q (rs_world s) = Inr x \<and> s' = s"
  by (auto simp: query_sdk_def and_do_succeeds query_def check_result_def raise_def give_def split: sum.splits)

lemma ensureRole_grants:
  assumes t: "tracks_policies A M G granted" and "ensureRole M r sp ps inl ts s = Some (Inr arn, s')"
  shows "p \<in> set ps \<Longrightarrow> granted (rs_world s') (r, Managed p)"
    and "inl \<noteq> [] \<Longrightarrow> granted (rs_world s') (r, Inline ''TmmVpcRoute'' inl)"
proof -
  from assms(2) obtain s1 s2 attached where s1: "listAttachedPolicies M r (rs_world s1) = Inr attached"
    and s2: "for_each (\<lambda>p. if p \<in> set attached then give () else run_sdk ''AttachRolePolicy'' (im_attach M r p)) ps s1 = Some (Inr (), s2)"
    and s3: "(if inl \<noteq> [] then run_sdk ''PutRolePolicy'' (im_put_inline M r ''TmmVpcRoute'' inl) else give ()) s2 = Some (Inr (), s')"
    by (auto simp: ensureRole_def and_do_succeeds query_sdk_ok give_def)
  have listed: "granted (rs_world s1) (r, Managed p)" if "p \<in> set attached" for p
    using s1 that t by (auto simp: listAttachedPolicies_def tracks_policies_def map_sum_def split: sum.splits)
  have "keeps (remembering granted {}) (if inl \<noteq> [] then run_sdk ''PutRolePolicy'' (im_put_inline M r ''TmmVpcRoute'' inl) else give () :: ('a, 'b phase_error, unit) phase)"
    by (auto intro!: keeps_rules keeps_run_sdk dest: policy_laws(3) [OF t])
  then have "remembering granted {} s2 s'" using s3 unfolding keeps_def by blast
  with attach_all [OF t s2 listed] show "p \<in> set ps \<Longrightarrow> granted (rs_world s') (r, Managed p)" by (simp add: remembering_def)
  assume "inl \<noteq> []"
  with s3 obtain w where "im_put_inline M r ''TmmVpcRoute'' inl (rs_world s2) = (None, w)" "rs_world s' = w"
    by (auto simp: run_sdk_def and_do_succeeds call_def check_err_def raise_def give_def split: prod.splits option.splits)
  with t show "granted (rs_world s') (r, Inline ''TmmVpcRoute'' inl)" by (auto simp: tracks_policies_def)
qed

lemma keeps_from_node_role: "tracks_policies A M G granted \<Longrightarrow> keeps (remembering granted UNIV) (node_profile_and_group A M G cl)"
  unfolding node_profile_and_group_def Let_def
  by (auto intro!: keeps_rules keeps_st_set keeps_profile keeps_group keeps_bgp keeps_save_policies)

text \<open>
  C22 When phase 07 succeeds, the role of the EKS cluster has both managed policies that EKS needs attached, the
  role of the nodes has all four of its own, and the node role carries the inline policy with the eight
  route and interface actions of TMM, whether the roles were created or found. Policies are tracked by any
  history that contains every attachment listed or made and every inline policy put.
\<close>

theorem roles_granted:
  assumes t: "tracks_policies A M G granted" and "Phase07IAM A M G False s = Some (Inr (), s')"
  shows "list_all (\<lambda>p. granted (rs_world s') (md_Name (cl_Metadata (rs_cl s)) @ ''-eks-cluster-role'', Managed p))
      [''arn:aws:iam::aws:policy/AmazonEKSClusterPolicy'', ''arn:aws:iam::aws:policy/AmazonEKSVPCResourceController''] \<and>
    list_all (\<lambda>p. granted (rs_world s') (md_Name (cl_Metadata (rs_cl s)) @ ''-eks-node-role'', p))
      [Managed ''arn:aws:iam::aws:policy/AmazonEKSWorkerNodePolicy'',
       Managed ''arn:aws:iam::aws:policy/AmazonEC2ContainerRegistryReadOnly'',
       Managed ''arn:aws:iam::aws:policy/AmazonEKS_CNI_Policy'',
       Managed ''arn:aws:iam::aws:policy/service-role/AmazonEBSCSIDriverPolicy'',
       Inline ''TmmVpcRoute'' (allow_statement [''ec2:CreateRoute'', ''ec2:DeleteRoute'', ''ec2:ReplaceRoute'',
         ''ec2:DescribeRouteTables'', ''ec2:DescribeVpcs'', ''ec2:DescribeSubnets'', ''ec2:DescribeNetworkInterfaces'',
         ''ec2:ModifyNetworkInterfaceAttribute''])]"
proof -
  let ?n = "md_Name (cl_Metadata (rs_cl s))"
  let ?t1 = "iam_tags A (rs_cl s) CompIAMClusterRole" and ?t2 = "iam_tags A (rs_cl s) CompIAMNodeRole"
  from assms(2) obtain arn1 s1 arn2 s3 where
    s1: "ensureRole M (?n @ ''-eks-cluster-role'') ''eks.amazonaws.com'' cluster_policies [] ?t1 s = Some (Inr arn1, s1)"
    and s3: "ensureRole M (?n @ ''-eks-node-role'') ''ec2.amazonaws.com'' node_policies tmmVpcRoutePolicy ?t2
      (s1\<lparr>rs_st := Set_key ''EKS_CLUSTER_ROLE_ARN'' arn1 (rs_st s1)\<rparr>) = Some (Inr arn2, s3)"
    and rest: "node_profile_and_group A M G (rs_cl s) (s3\<lparr>rs_st := Set_key ''EKS_NODE_ROLE_ARN'' arn2 (rs_st s3)\<rparr>) = Some (Inr (), s')"
    by (auto simp: Phase07IAM_def Let_def and_do_succeeds intent_def st_set_def)
  have "tmmVpcRoutePolicy \<noteq> []" by (simp add: tmmVpcRoutePolicy_def allow_statement_def json_object_def)
  note node = ensureRole_grants(1) [OF t s3] ensureRole_grants(2) [OF t s3 this]
  from ensureRole_grants(1) [OF t s1] node keepsD' [OF keeps_role [OF t, of "{}"] s3]
    keepsD' [OF keeps_from_node_role [OF t] rest] show ?thesis
    by (simp add: remembering_def cluster_policies_def node_policies_def tmmVpcRoutePolicy_def)
qed

subsection \<open>Ingress rules\<close>

definition plain_rule :: "permission \<Rightarrow> permission" where
  "plain_rule p = p\<lparr>pm_pairs := map (\<lambda>(g, _). (g, None)) (pm_pairs p)\<rparr>"

text \<open>
  A view of the rules of all groups, without descriptions, with a record of the revocations that EC2
  refused: authorising a rule adds it, or it is there; a revocation that succeeds, or answers that there is
  no such permission, leaves the rule away; any other answer may leave it or not, and is recorded as a
  refusal. A revocation touches no other rule.
\<close>

definition tracks_ingress ::
  "('w, 'e) ec2 \<Rightarrow> ('w, 'e) sg_calls \<Rightarrow> ('w \<Rightarrow> (string \<times> permission) set) \<Rightarrow> ('w \<Rightarrow> (string \<times> permission) set) \<Rightarrow> bool" where
  "tracks_ingress A G rules refused \<longleftrightarrow>
     (\<forall>g p w r w'. gc_authorize G g [p] w = (r, w') \<longrightarrow> (case r of None \<Rightarrow> True | Some e \<Rightarrow> isEC2DuplicatePermission A e) \<longrightarrow>
        rules w' = insert (g, plain_rule p) (rules w)) \<and>
     (\<forall>g p w r w'. gc_revoke G g [p] w = (r, w') \<longrightarrow>
        (if case r of None \<Rightarrow> True | Some e \<Rightarrow> isInvalidPermissionNotFound A e
         then rules w' = rules w - {(g, plain_rule p)} \<and> refused w \<subseteq> refused w'
         else rules w' \<in> {rules w, rules w - {(g, plain_rule p)}} \<and> insert (g, plain_rule p) (refused w) \<subseteq> refused w'))"

text \<open>From \<open>w\<close> to \<open>w'\<close> the rules of \<open>xs\<close>, and no others, were revoked, or their revocation was refused.\<close>

definition closes ::
  "('w \<Rightarrow> 'r set) \<Rightarrow> ('w \<Rightarrow> 'r set) \<Rightarrow> 'r set \<Rightarrow> 'w \<Rightarrow> 'w \<Rightarrow> bool" where
  "closes rules refused xs w w' \<longleftrightarrow>
     rules w' \<subseteq> rules w \<and> rules w - xs \<subseteq> rules w' \<and> rules w' \<inter> xs \<subseteq> refused w' \<and> refused w \<subseteq> refused w'"

lemma closes_none [simp]: "closes rules refused {} w w" by (simp add: closes_def)

lemma closes_both: "closes rules refused xs w w' \<Longrightarrow> closes rules refused ys w' w'' \<Longrightarrow> closes rules refused (xs \<union> ys) w w''"
  unfolding closes_def by blast

lemma revoke_closes:
  assumes "tracks_ingress A G rules refused"
  shows "closes rules refused {(g, plain_rule p)} w (snd (gc_revoke G g [p] w))"
proof -
  obtain r w' where r: "gc_revoke G g [p] w = (r, w')" by fastforce
  with assms have "if case r of None \<Rightarrow> True | Some e \<Rightarrow> isInvalidPermissionNotFound A e
      then rules w' = rules w - {(g, plain_rule p)} \<and> refused w \<subseteq> refused w'
      else rules w' \<in> {rules w, rules w - {(g, plain_rule p)}} \<and> insert (g, plain_rule p) (refused w) \<subseteq> refused w'"
    unfolding tracks_ingress_def by blast
  then have "closes rules refused {(g, plain_rule p)} w w'" unfolding closes_def by (auto split: if_splits)
  with r show ?thesis by simp
qed

definition opened :: "string \<Rightarrow> string \<Rightarrow> string \<Rightarrow> (string \<times> permission) set" where
  "opened clusterSG bnkData jumphostSG =
     (if clusterSG \<noteq> [] \<and> bnkData \<noteq> []
      then {(clusterSG, rule_from_group bnkData None), (bnkData, rule_from_group clusterSG None)} else {}) \<union>
     (if clusterSG \<noteq> [] \<and> jumphostSG \<noteq> []
      then (\<lambda>p. (clusterSG, proxyPortPermission jumphostSG p False)) ` set BenchmarkProxyNodePorts else {})"

lemma plain_rules [simp]:
  "plain_rule (rule_from_group g d) = rule_from_group g None"
  "plain_rule (proxyPortPermission j p b) = proxyPortPermission j p False"
  by (simp_all add: plain_rule_def rule_from_group_def proxyPortPermission_def)

lemma authorized:
  assumes "tracks_ingress A G rules refused" and "run_unless (isEC2DuplicatePermission A) what (gc_authorize G g [p]) s = Some (Inr (), s')"
  shows "rs_st s' = rs_st s \<and> rules (rs_world s') = insert (g, plain_rule p) (rules (rs_world s))"
proof -
  obtain r w where r: "gc_authorize G g [p] (rs_world s) = (r, w)" by fastforce
  with assms(2) have "case r of None \<Rightarrow> True | Some e \<Rightarrow> isEC2DuplicatePermission A e" "s' = s\<lparr>rs_world := w\<rparr>"
    by (auto simp: run_unless_def and_do_succeeds call_def raise_def give_def split: option.splits if_splits)
  with r assms(1) show ?thesis by (auto simp: tracks_ingress_def)
qed

lemma proxies_opened:
  assumes "tracks_ingress A G rules refused"
  shows "for_each (ensureClusterSGProxyPortIngress A G c j) ps s = Some (Inr (), s') \<Longrightarrow>
    rs_st s' = rs_st s \<and> rules (rs_world s') = (\<lambda>p. (c, proxyPortPermission j p False)) ` set ps \<union> rules (rs_world s)"
proof (induction ps arbitrary: s)
  case (Cons p ps)
  then obtain t where t: "ensureClusterSGProxyPortIngress A G c j p s = Some (Inr (), t)"
    "for_each (ensureClusterSGProxyPortIngress A G c j) ps t = Some (Inr (), s')" by (auto simp: and_do_succeeds)
  from authorized [OF assms t(1) [unfolded ensureClusterSGProxyPortIngress_def]] Cons.IH [OF t(2)] show ?case by auto
qed (simp add: give_def)

lemma open_rules_exact:
  assumes t: "tracks_ingress A G rules refused" and "open_rules A G s = Some (Inr (), s')"
  shows "rs_st s' = rs_st s \<and> rules (rs_world s') = rules (rs_world s) \<union>
    opened (Get (rs_st s) ''EKS_SECURITY_GROUP'') (Get (rs_st s) ''SG_BNK_DATA'') (Get (rs_st s) ''JUMPHOST_SG_ID'')"
proof -
  let ?c = "Get (rs_st s) ''EKS_SECURITY_GROUP''" and ?b = "Get (rs_st s) ''SG_BNK_DATA''"
  from assms(2) obtain s1 where s1: "(if ?c \<noteq> [] \<and> ?b \<noteq> [] then
        and_do (ensureClusterSGIngress A G ?c ?b) (\<lambda>_. ensureBNKDataSGIngress A G ?b ?c) else give ()) s = Some (Inr (), s1)"
    and s2: "(if ?c \<noteq> [] \<and> Get (rs_st s1) ''JUMPHOST_SG_ID'' \<noteq> []
       then for_each (ensureClusterSGProxyPortIngress A G ?c (Get (rs_st s1) ''JUMPHOST_SG_ID'')) BenchmarkProxyNodePorts else give ()) s1 = Some (Inr (), s')"
    by (simp add: open_rules_def and_do_succeeds [of "st_get k" for k] st_get_def) (auto simp: and_do_succeeds st_get_def)
  have r1: "rs_st s1 = rs_st s \<and> rules (rs_world s1) = rules (rs_world s) \<union>
      (if ?c \<noteq> [] \<and> ?b \<noteq> [] then {(?c, rule_from_group ?b None), (?b, rule_from_group ?c None)} else {})"
    using s1 by (auto simp: and_do_succeeds give_def ensureClusterSGIngress_def ensureBNKDataSGIngress_def
        dest!: authorized [OF t] split: if_splits)
  with s2 show ?thesis
    by (auto simp: opened_def give_def dest!: proxies_opened [OF t] split: if_splits)
qed

lemma best_effort_run: "best_effort c s = Some (Inr (), s\<lparr>rs_world := snd (c (rs_world s))\<rparr>)"
  by (cases "c (rs_world s)") (simp add: best_effort_def and_do_def call_def give_def)

lemma proxies_closed:
  assumes "tracks_ingress A G rules refused"
  shows "for_each (\<lambda>p. best_effort (gc_revoke G c [proxyPortPermission j p False])) ps s = Some (r, s') \<Longrightarrow>
    rs_st s' = rs_st s \<and> closes rules refused ((\<lambda>p. (c, proxyPortPermission j p False)) ` set ps) (rs_world s) (rs_world s')"
proof (induction ps arbitrary: s)
  case (Cons p ps)
  let ?t = "s\<lparr>rs_world := snd (gc_revoke G c [proxyPortPermission j p False] (rs_world s))\<rparr>"
  from Cons.prems Cons.IH [of ?t] have "rs_st s' = rs_st s"
    "closes rules refused ((\<lambda>p. (c, proxyPortPermission j p False)) ` set ps) (rs_world ?t) (rs_world s')"
    by (simp_all add: and_do_def best_effort_run)
  with closes_both [OF revoke_closes [OF assms, of c "proxyPortPermission j p False" "rs_world s"], of _ "rs_world s'"] show ?case
    by simp
qed (auto simp: give_def)

lemma ignored_run: "ignoring (run_unless tol what c) s = Some (Inr (), s\<lparr>rs_world := snd (c (rs_world s))\<rparr>)"
  by (cases "c (rs_world s)"; cases "fst (c (rs_world s))")
    (simp_all add: ignoring_def outcome_def run_unless_def and_do_def call_def raise_def give_def)

lemma pair_closed:
  assumes t: "tracks_ingress A G rules refused"
  shows "\<exists>w. close_pair A G c b s = Some (Inr (), s\<lparr>rs_world := w\<rparr>) \<and>
    closes rules refused (if c \<noteq> [] \<and> b \<noteq> [] then {(c, rule_from_group b None), (b, rule_from_group c None)} else {}) (rs_world s) w"
proof (cases "c \<noteq> [] \<and> b \<noteq> []")
  case True
  let ?w = "snd (gc_revoke G c [rule_from_group b None] (rs_world s))"
  have "closes rules refused {(c, rule_from_group b None), (b, rule_from_group c None)} (rs_world s)
      (snd (gc_revoke G b [rule_from_group c None] ?w))"
    using closes_both [OF revoke_closes [OF t, of c "rule_from_group b None" "rs_world s"]
        revoke_closes [OF t, of b "rule_from_group c None" ?w]] by (simp add: insert_commute)
  with True show ?thesis
    by (auto simp: close_pair_def and_do_def revokeClusterSGIngress_def revokeBNKDataSGIngress_def ignored_run)
next
  case False
  then have "close_pair A G c b s = Some (Inr (), s\<lparr>rs_world := rs_world s\<rparr>)" by (auto simp: close_pair_def give_def)
  with False show ?thesis by (intro exI conjI) (assumption, simp only: if_False closes_none)
qed

lemma close_rules_exact:
  assumes t: "tracks_ingress A G rules refused" and "close_rules A G s = Some (r, s')"
  shows "rs_st s' = rs_st s \<and> closes rules refused
    (opened (Get (rs_st s) ''EKS_SECURITY_GROUP'') (Get (rs_st s) ''SG_BNK_DATA'') (Get (rs_st s) ''JUMPHOST_SG_ID''))
    (rs_world s) (rs_world s')"
proof -
  let ?c = "Get (rs_st s) ''EKS_SECURITY_GROUP''" and ?b = "Get (rs_st s) ''SG_BNK_DATA''"
  let ?pair = "if ?c \<noteq> [] \<and> ?b \<noteq> [] then {(?c, rule_from_group ?b None), (?b, rule_from_group ?c None)} else {}"
  from pair_closed [OF t, of ?c ?b s] obtain w where w: "close_pair A G ?c ?b s = Some (Inr (), s\<lparr>rs_world := w\<rparr>)"
    "closes rules refused ?pair (rs_world s) w" by blast
  show ?thesis
  proof (cases "?c \<noteq> [] \<and> Get (rs_st s) ''JUMPHOST_SG_ID'' \<noteq> []")
    case True
    with assms(2) w(1) have "for_each (\<lambda>p. best_effort (gc_revoke G ?c [proxyPortPermission (Get (rs_st s) ''JUMPHOST_SG_ID'') p False]))
        BenchmarkProxyNodePorts (s\<lparr>rs_world := w\<rparr>) = Some (r, s')"
      by (simp add: close_rules_def and_do_def st_get_def)
    from proxies_closed [OF t this] True closes_both [OF w(2)] show ?thesis by (simp add: opened_def)
  next
    case False
    with assms(2) w(1) have "s' = s\<lparr>rs_world := w\<rparr>" by (auto simp: close_rules_def and_do_def st_get_def give_def)
    moreover from False have "opened ?c ?b (Get (rs_st s) ''JUMPHOST_SG_ID'') = ?pair"
      by (cases "?c = []") (simp_all add: opened_def)
    ultimately show ?thesis using w(2) by simp
  qed
qed

text \<open>
  C19 The rules between the security groups of the cluster, the data plane and the jumphost: what the run
  opens and what the teardown closes agree. After a run that opened them they are all there, and no other
  rule has changed; after the teardown with the same state every other rule is as it was before the run,
  and those of the set are gone, but for rules whose revocation EC2 refused, which the teardown ignores.
\<close>

theorem ingress_roundtrip:
  assumes t: "tracks_ingress A G rules refused" and up: "open_rules A G s = Some (Inr (), s1)" and down: "close_rules A G s1 = Some (r, s2)"
  shows "let rs = opened (Get (rs_st s) ''EKS_SECURITY_GROUP'') (Get (rs_st s) ''SG_BNK_DATA'') (Get (rs_st s) ''JUMPHOST_SG_ID'')
    in rules (rs_world s1) = rules (rs_world s) \<union> rs \<and> rules (rs_world s2) - rs = rules (rs_world s) - rs \<and>
       rules (rs_world s2) \<inter> rs \<subseteq> refused (rs_world s2) \<and> rs_st s2 = rs_st s"
  using open_rules_exact [OF t up] close_rules_exact [OF t down] by (auto simp: Let_def closes_def)

subsection \<open>Teardown of the roles\<close>

text \<open>A history of the roles that are gone: those whose deletion succeeded or found nothing.\<close>

definition tracks_roles ::
  "('w, 'e) ec2 \<Rightarrow> ('w, 'e) iam \<Rightarrow> ('w, 'e) sg_calls \<Rightarrow> ('w \<Rightarrow> string \<Rightarrow> bool) \<Rightarrow> bool" where
  "tracks_roles A M G gone \<longleftrightarrow>
     (\<forall>r w e w'. im_delete_role M r w = (e, w') \<longrightarrow> (case e of None \<Rightarrow> True | Some e \<Rightarrow> im_none M e) \<longrightarrow> gone w' r) \<and>
     (\<forall>w x. gone w x \<longrightarrow>
        (\<forall>p r. gone (snd (im_remove_role M p r w)) x) \<and> (\<forall>p. gone (snd (im_delete_profile M p w)) x) \<and>
        (\<forall>r p. gone (snd (im_detach M r p w)) x) \<and> (\<forall>r p. gone (snd (im_delete_inline M r p w)) x) \<and>
        (\<forall>r. gone (snd (im_delete_role M r w)) x) \<and> (\<forall>g ps. gone (snd (gc_revoke G g ps w)) x) \<and>
        (\<forall>g. gone (snd (ec_delete_sg A g w)) x) \<and> (\<forall>st. gone (snd (ec_save A st w)) x))"

lemma role_laws:
  assumes "tracks_roles A M G gone" and "gone w x"
  shows "gone (snd (im_detach M r p w)) x" "gone (snd (im_delete_inline M r p w)) x" "gone (snd (im_delete_role M r w)) x"
    "gone (snd (gc_revoke G g ps w)) x" "gone (snd (ec_delete_sg A g w)) x" "gone (snd (ec_save A st w)) x"
  using assms by (simp_all add: tracks_roles_def)

lemma keeps_delete_role: "tracks_roles A M G gone \<Longrightarrow> keeps (remembering gone ks) (deleteRole A M r)"
  unfolding deleteRole_def by (auto intro!: keeps_rules keeps_read keeps_unless dest: role_laws(1,2,3))

lemma keeps_best_effort: "(\<And>w x. seen w x \<Longrightarrow> seen (snd (c w)) x) \<Longrightarrow> keeps (remembering seen ks) (best_effort c)"
  unfolding best_effort_def by (auto intro!: keeps_rules keeps_call)

lemma keeps_drop_group:
  "tracks_roles A M G gone \<Longrightarrow> ''SG_BNK_DATA'' \<in> ks \<Longrightarrow> keeps (remembering gone ks) (drop_bnk_group A G name)"
  unfolding drop_bnk_group_def lookupSGByName_def clearSGReferences_def clear_group_def
  by (auto intro!: keeps_rules keeps_read keeps_unless keeps_tolerant keeps_first_group keeps_st_set keeps_best_effort
      dest: role_laws(4,5) split: option.splits)

lemma keeps_save_roles: "tracks_roles A M G gone \<Longrightarrow> keeps (remembering gone ks) (save_state A)"
  by (rule keeps_saved) (rule role_laws(6))

lemma delete_role_gone:
  assumes t: "tracks_roles A M G gone" and "deleteRole A M r s = Some (Inr (), s')"
  shows "gone (rs_world s') r"
proof -
  from assms(2) obtain s1 where s1: "run_unless (im_none M) ''DeleteRole'' (im_delete_role M r) s1 = Some (Inr (), s')"
    by (auto simp: deleteRole_def and_do_succeeds)
  obtain e w where w: "im_delete_role M r (rs_world s1) = (e, w)" by fastforce
  with s1 have "case e of None \<Rightarrow> True | Some e \<Rightarrow> im_none M e" "rs_world s' = w"
    by (auto simp: run_unless_def and_do_succeeds call_def raise_def give_def split: option.splits if_splits)
  with w t show ?thesis unfolding tracks_roles_def by blast
qed

lemma role_to_delete_known:
  "im_role M conv (rs_world s) = Inr arn \<Longrightarrow> role_to_delete M n c conv s = Some (Inr r, s') \<Longrightarrow> r = conv \<and> s' = s"
  by (simp add: role_to_delete_def and_do_succeeds query_def give_def)

lemma role_to_delete_world: "role_to_delete M n c conv s = Some (Inr r, s') \<Longrightarrow> s' = s"
  by (auto simp: role_to_delete_def findRoleByTag_def outcome_def and_do_def query_def give_def
      split: sum.splits if_splits option.splits)

lemma drop_group_clears: "drop_bnk_group A G name s = Some (Inr (), s') \<Longrightarrow> Get (rs_st s') ''SG_BNK_DATA'' = []"
  by (auto simp: drop_bnk_group_def and_do_succeeds st_set_def Get_def Set_key_def)

text \<open>
  C23 When the teardown of phase 07 succeeds, each of the two roles that exists under its conventional name is
  gone, and the state forgets both roles, the instance profile by name and by ARN, and the security group of
  the data plane.
\<close>

theorem iam_roles_gone:
  assumes t: "tracks_roles A M G gone" and "Phase07IAMDown A M G s = Some (Inr (), s')"
    and "r \<in> {md_Name (cl_Metadata (rs_cl s)) @ ''-eks-cluster-role'', md_Name (cl_Metadata (rs_cl s)) @ ''-eks-node-role''}"
    and "im_role M r (rs_world s) = Inr arn"
  shows "gone (rs_world s') r \<and> list_all (\<lambda>key. Get (rs_st s') key = [])
    [''EKS_CLUSTER_ROLE_ARN'', ''EKS_NODE_ROLE_ARN'', ''NODE_INSTANCE_PROFILE_NAME'', ''NODE_INSTANCE_PROFILE_ARN'', ''SG_BNK_DATA'']"
proof -
  let ?n = "md_Name (cl_Metadata (rs_cl s))"
  from assms(2) obtain cr t1 nr t2 s0 s2 s3 s4 where
    cr: "role_to_delete M ?n CompIAMClusterRole (?n @ ''-eks-cluster-role'') s = Some (Inr cr, t1)"
    and nr: "role_to_delete M ?n CompIAMNodeRole (?n @ ''-eks-node-role'') t1 = Some (Inr nr, t2)"
    and s1: "deleteRole A M nr (s0\<lparr>rs_st := Set_key ''NODE_INSTANCE_PROFILE_ARN'' [] (Set_key ''NODE_INSTANCE_PROFILE_NAME'' [] (rs_st s0))\<rparr>)
      = Some (Inr (), s2)"
    and s3: "deleteRole A M cr (s2\<lparr>rs_st := Set_key ''EKS_NODE_ROLE_ARN'' [] (rs_st s2)\<rparr>) = Some (Inr (), s3)"
    and s4: "drop_bnk_group A G ?n (s3\<lparr>rs_st := Set_key ''EKS_CLUSTER_ROLE_ARN'' [] (rs_st s3)\<rparr>) = Some (Inr (), s4)"
    and s5: "save_state A s4 = Some (Inr (), s')"
    by (auto simp: Phase07IAMDown_def Let_def and_do_succeeds intent_def st_set_def)
  have t1: "t1 = s" by (rule role_to_delete_world [OF cr])
  have "remembering gone {} (s0\<lparr>rs_st := Set_key ''NODE_INSTANCE_PROFILE_ARN'' [] (Set_key ''NODE_INSTANCE_PROFILE_NAME'' [] (rs_st s0))\<rparr>) s2"
    by (rule keepsD' [OF keeps_delete_role [OF t] s1])
  then have profile: "Get (rs_st s2) ''NODE_INSTANCE_PROFILE_NAME'' = []" "Get (rs_st s2) ''NODE_INSTANCE_PROFILE_ARN'' = []"
    by (simp_all add: remembering_def Get_def Set_key_def)
  have k3: "remembering gone {} (s2\<lparr>rs_st := Set_key ''EKS_NODE_ROLE_ARN'' [] (rs_st s2)\<rparr>) s3"
    by (rule keepsD' [OF keeps_delete_role [OF t] s3])
  have k4: "remembering gone {''SG_BNK_DATA''} (s3\<lparr>rs_st := Set_key ''EKS_CLUSTER_ROLE_ARN'' [] (rs_st s3)\<rparr>) s4"
    by (rule keepsD' [OF keeps_drop_group [OF t] s4]) simp
  have k5: "remembering gone {} s4 s'" by (rule keepsD' [OF keeps_save_roles [OF t] s5])
  have "gone (rs_world s') nr" "gone (rs_world s') cr"
    using delete_role_gone [OF t s1] delete_role_gone [OF t s3] k3 k4 k5 by (auto simp: remembering_def)
  moreover have "r = nr \<or> r = cr"
    using assms(3,4) role_to_delete_known [OF _ cr] role_to_delete_known [OF _ nr] t1 by auto
  moreover have "Get (rs_st s4) ''SG_BNK_DATA'' = []" by (rule drop_group_clears [OF s4])
  ultimately show ?thesis using profile k3 k4 k5 by (auto simp: remembering_def Get_def Set_key_def)
qed

subsection \<open>Runs\<close>

text \<open>
  Roles exist until the world has moved; attaching a policy, putting an inline one and deleting a role moves it. The roles are
  listed in two pages.
\<close>

definition small_iam :: "(int, string) iam" where
  "small_iam = \<lparr>im_none = (\<lambda>e. e = ''NoSuchEntity''),
     im_role = (\<lambda>r w. if w < 1 then Inr (''arn:'' @ r) else Inl ''NoSuchEntity''),
     im_create_role = (\<lambda>r _ _ w. (Inr (''arn:'' @ r), w)), im_delete_role = (\<lambda>_ w. (None, max 0 w + 1)),
     im_attached = (\<lambda>_ _. Inr []), im_attach = (\<lambda>_ _ w. (None, max 0 w + 1)), im_detach = (\<lambda>_ _ w. (None, w)),
     im_inline = (\<lambda>_ _. Inr []), im_put_inline = (\<lambda>_ _ _ w. (None, max 0 w + 5)), im_delete_inline = (\<lambda>_ _ w. (None, w)),
     im_profile = (\<lambda>_ _. Inl ''NoSuchEntity''), im_create_profile = (\<lambda>p _ w. (Inr p, w)), im_delete_profile = (\<lambda>_ w. (None, w)),
     im_profiles_for = (\<lambda>_ _. Inr []), im_add_role = (\<lambda>_ _ w. (None, w)), im_remove_role = (\<lambda>_ _ w. (None, w)),
     im_roles = (\<lambda>m _. Inr (if m = None then \<lparr>rp_roles = [Some ''other'', None], rp_truncated = True, rp_marker = Some ''m''\<rparr>
        else \<lparr>rp_roles = [Some ''renamed''], rp_truncated = False, rp_marker = None\<rparr>)),
     im_role_tags = (\<lambda>r _. if r = ''renamed'' then Inr [(Some KeyComponent, Some CompIAMNodeRole), (Some KeyCluster, Some ''syd'')]
        else Inl ''AccessDenied''),
     im_provider = (\<lambda>_ _. None), im_create_provider = (\<lambda>u _ _ _ w. (Inr u, w)), im_tag_provider = (\<lambda>_ _ w. (None, w)),
     im_delete_provider = (\<lambda>_ w. (None, w))\<rparr>"

definition no_groups :: "('w, string) sg_calls" where
  "no_groups = \<lparr>gc_describe = (\<lambda>_ _. Inr []), gc_create = (\<lambda>n _ _ _ w. (Inr n, w)), gc_authorize = (\<lambda>_ _ w. (None, w)),
     gc_revoke = (\<lambda>_ _ w. (None, w))\<rparr>"

theorem role_scan_exact_witness:
  "role_scan small_iam ''syd'' CompIAMNodeRole 0 None = Some (Inr ''renamed'')"
proof -
  let ?p1 = "\<lparr>rp_roles = [Some ''other'', None], rp_truncated = True, rp_marker = Some ''m''\<rparr>"
  let ?p2 = "\<lparr>rp_roles = [Some ''renamed''], rp_truncated = False, rp_marker = None\<rparr>"
  have "pages small_iam 0 (Some ''m'') [?p2]" by (rule last_page) (simp_all add: small_iam_def)
  then have tail: "pages small_iam 0 (rp_marker ?p1) [?p2]" by simp
  have head: "im_roles small_iam None 0 = Inr ?p1" by (simp add: small_iam_def)
  have "rp_truncated ?p1" by simp
  from next_page [OF head this tail] have "pages small_iam 0 None [?p1, ?p2]" .
  note scan = role_scan_exact [OF this, of "''syd''" CompIAMNodeRole]
  show ?thesis unfolding scan
    by (simp add: listed_roles_def List.map_filter_def carries_tags_def small_iam_def)
qed

definition iam_state :: "int run_state" where
  "iam_state = \<lparr>rs_cl = sample_intent, rs_st = sample_state\<lparr>st_data := [''VPC_ID'' \<mapsto> ''vpc-1'']\<rparr>, rs_world = 0\<rparr>"

lemma small_policies:
  "tracks_policies empty_account small_iam no_groups
     (\<lambda>w x. case snd x of Managed _ \<Rightarrow> 1 \<le> w | Inline _ _ \<Rightarrow> 5 \<le> w)"
  by (auto simp: tracks_policies_def small_iam_def no_groups_def empty_account_def split: policy.splits)

theorem roles_granted_witness:
  "\<exists>s'. Phase07IAM empty_account small_iam no_groups False iam_state = Some (Inr (), s') \<and> 5 \<le> rs_world s'"
proof -
  have bgp: "\<not> IsBGPEnabled (Some sample_intent)" by (simp add: IsBGPEnabled_def sample_intent_def)
  have "\<exists>s'. Phase07IAM empty_account small_iam no_groups False iam_state = Some (Inr (), s')"
    by (simp add: Phase07IAM_def node_profile_and_group_def ensureRole_def ensureInstanceProfile_def roleInProfile_def
        ensureBNKDataSG_def findSGByName_def first_group_def read_unless_def run_unless_def query_sdk_def call_sdk_def run_sdk_def
        check_result_def check_err_def and_do_def intent_def st_get_def st_set_def query_def call_def give_def raise_def Let_def
        Get_def Set_key_def save_state_def listAttachedPolicies_def cluster_policies_def node_policies_def tmmVpcRoutePolicy_def
        allow_statement_def json_object_def bgp small_iam_def no_groups_def empty_account_def iam_state_def sample_state_def)
  then obtain s' where run: "Phase07IAM empty_account small_iam no_groups False iam_state = Some (Inr (), s')" by blast
  from roles_granted [OF small_policies run] run show ?thesis by simp
qed

lemma small_roles: "tracks_roles empty_account small_iam no_groups (\<lambda>w _. 1 \<le> w)"
  by (auto simp: tracks_roles_def small_iam_def no_groups_def empty_account_def)

theorem iam_roles_gone_witness:
  "\<exists>s'. Phase07IAMDown empty_account small_iam no_groups iam_state = Some (Inr (), s') \<and> 1 \<le> rs_world s' \<and>
     Get (rs_st s') ''EKS_NODE_ROLE_ARN'' = [] \<and> Get (rs_st s') ''SG_BNK_DATA'' = []"
proof -
  have "\<exists>s'. Phase07IAMDown empty_account small_iam no_groups iam_state = Some (Inr (), s')"
    by (simp add: Phase07IAMDown_def drop_bnk_group_def role_to_delete_def deleteRole_def lookupSGByName_def first_group_def
        read_unless_def run_unless_def and_do_def intent_def st_get_def st_set_def query_def call_def give_def raise_def Let_def
        Get_def Set_key_def save_state_def listAttachedPolicies_def in_map_order_def ok_list_def
        small_iam_def no_groups_def empty_account_def iam_state_def sample_state_def)
  then obtain s' where run: "Phase07IAMDown empty_account small_iam no_groups iam_state = Some (Inr (), s')" by blast
  let ?r = "md_Name (cl_Metadata (rs_cl iam_state)) @ ''-eks-node-role''"
  have "im_role small_iam ?r (rs_world iam_state) = Inr (''arn:'' @ ?r)" by (simp add: small_iam_def iam_state_def)
  from iam_roles_gone [OF small_roles run _ this] run show ?thesis by simp
qed

text \<open>An account whose world is the set of its rules.\<close>

definition still_account :: "('w, string) ec2" where
  "still_account = \<lparr>ec_codes = \<lambda>e. [e], ec_iter = \<lambda>_. [], ec_now = \<lambda>_. 0, ec_sleep = \<lambda>_ w. (None, w),
     ec_save = \<lambda>_ w. (None, w), ec_zones = \<lambda>_ _. Inr [],
     ec_vpcs = \<lambda>_ _. Inr [], ec_create_vpc = \<lambda>_ _ w. (Inr ''vpc-1'', w), ec_modify_vpc = \<lambda>_ _ w. (None, w),
     ec_delete_vpc = \<lambda>_ w. (None, w), ec_subnets = \<lambda>_ _. Inr [], ec_create_subnet = \<lambda>_ c _ _ w. (Inr c, w),
     ec_map_public = \<lambda>_ w. (None, w), ec_delete_subnet = \<lambda>_ w. (None, w), ec_igws = \<lambda>_ _. Inr [],
     ec_create_igw = \<lambda>_ w. (Inr ''igw-1'', w), ec_attach_igw = \<lambda>_ _ w. (None, w), ec_detach_igw = \<lambda>_ _ w. (None, w),
     ec_delete_igw = \<lambda>_ w. (None, w), ec_addresses = \<lambda>_ _. Inr [], ec_allocate = \<lambda>_ w. (Inr ''eip-1'', w),
     ec_release = \<lambda>_ w. (None, w), ec_nats = \<lambda>_ _. Inr [], ec_create_nat = \<lambda>_ _ _ w. (Inr ''nat-1'', w),
     ec_delete_nat = \<lambda>_ w. (None, w), ec_rtbs = \<lambda>_ _. Inr [], ec_create_rtb = \<lambda>_ _ w. (Inr ''rtb-1'', w),
     ec_create_route = \<lambda>_ _ _ w. (None, w), ec_associate = \<lambda>_ _ w. (None, w), ec_disassociate = \<lambda>_ w. (None, w),
     ec_delete_rtb = \<lambda>_ w. (None, w), ec_enis = \<lambda>_ _. Inr [], ec_detach_eni = \<lambda>_ w. (None, w),
     ec_delete_eni = \<lambda>_ w. (None, w), ec_instances = \<lambda>_ _. Inr [], ec_terminate = \<lambda>_ w. (None, w),
     ec_eices = \<lambda>_ _. Inr [], ec_delete_eice = \<lambda>_ w. (None, w), ec_sgs = \<lambda>_ _. Inr [],
     ec_revoke_ingress = \<lambda>_ _ w. (None, w), ec_revoke_egress = \<lambda>_ _ w. (None, w), ec_delete_sg = \<lambda>_ w. (None, w)\<rparr>"

definition rule_groups :: "((string \<times> permission) set, string) sg_calls" where
  "rule_groups = no_groups\<lparr>
     gc_authorize := (\<lambda>g ps w. if (g, plain_rule (hd ps)) \<in> w then (Some ''InvalidPermission.Duplicate'', w)
        else (None, insert (g, plain_rule (hd ps)) w)),
     gc_revoke := (\<lambda>g ps w. (None, w - {(g, plain_rule (hd ps))}))\<rparr>"

lemma rule_groups_tracked: "tracks_ingress still_account rule_groups id (\<lambda>_. {})"
  by (auto simp: tracks_ingress_def rule_groups_def)

definition rule_state :: "(string \<times> permission) set run_state" where
  "rule_state = \<lparr>rs_cl = sample_intent, rs_st = sample_state\<lparr>st_data :=
     [''EKS_SECURITY_GROUP'' \<mapsto> ''sg-c'', ''SG_BNK_DATA'' \<mapsto> ''sg-b'', ''JUMPHOST_SG_ID'' \<mapsto> ''sg-j'']\<rparr>, rs_world = {}\<rparr>"

lemma rule_authorize:
  "run_unless (isEC2DuplicatePermission still_account) what (gc_authorize rule_groups g [p]) s =
   Some (Inr (), s\<lparr>rs_world := insert (g, plain_rule p) (rs_world s)\<rparr>)"
  by (auto simp: run_unless_def and_do_def call_def give_def rule_groups_def isEC2DuplicatePermission_def outermost_def
      still_account_def insert_absorb)

theorem ingress_roundtrip_witness:
  "\<exists>s1 s2. open_rules still_account rule_groups rule_state = Some (Inr (), s1) \<and>
     close_rules still_account rule_groups s1 = Some (Inr (), s2) \<and>
     (''sg-b'', rule_from_group ''sg-c'' None) \<in> rs_world s1 \<and> rs_world s2 = {}"
proof -
  have "\<exists>s1. open_rules still_account rule_groups rule_state = Some (Inr (), s1)"
    by (simp add: open_rules_def ensureClusterSGIngress_def ensureBNKDataSGIngress_def ensureClusterSGProxyPortIngress_def
        rule_authorize and_do_def st_get_def BenchmarkProxyNodePorts_def give_def)
  then obtain s1 where up: "open_rules still_account rule_groups rule_state = Some (Inr (), s1)" by blast
  have "\<exists>s2. close_rules still_account rule_groups s1 = Some (Inr (), s2)"
    by (simp add: close_rules_def close_pair_def revokeClusterSGIngress_def revokeBNKDataSGIngress_def ignored_run
        best_effort_run and_do_def st_get_def BenchmarkProxyNodePorts_def give_def)
  then obtain s2 where down: "close_rules still_account rule_groups s1 = Some (Inr (), s2)" by blast
  from ingress_roundtrip [OF rule_groups_tracked up down] up down show ?thesis
    by (auto simp: Let_def opened_def rule_state_def Get_def)
qed

end
