(* ===== verification/JumphostClaims.thy ===== *)
theory JumphostClaims
  imports Jumphost IamClaims
begin

text \<open>
  Phase 17b: after a success the address of the jumphost in the data-plane subnet is none of those kept
  for virtual servers, and the group of the endpoint, where one is recorded, may reach it over ssh; after
  a successful teardown the instance, its interface and its role are gone.
\<close>

subsection \<open>Histories\<close>

text \<open>A fact that no call of the phase makes false.\<close>

definition jumphost_calls_keep ::
  "('w, 'e) ec2 \<Rightarrow> ('w, 'e) iam \<Rightarrow> ('w, 'e) sg_calls \<Rightarrow> ('w, 'e) eni_calls \<Rightarrow> ('w, 'e) jump_calls \<Rightarrow> ('w \<Rightarrow> 'k \<Rightarrow> bool) \<Rightarrow> bool" where
  "jumphost_calls_keep A M G D J seen \<longleftrightarrow> (\<forall>w x. seen w x \<longrightarrow>
     (\<forall>r t ts. seen (snd (im_create_role M r t ts w)) x) \<and> (\<forall>p ts. seen (snd (im_create_profile M p ts w)) x) \<and>
     (\<forall>p r. seen (snd (im_add_role M p r w)) x) \<and> (\<forall>p r. seen (snd (im_remove_role M p r w)) x) \<and>
     (\<forall>p. seen (snd (im_delete_profile M p w)) x) \<and> (\<forall>r. seen (snd (im_delete_role M r w)) x) \<and>
     (\<forall>n d v ts. seen (snd (gc_create G n d v ts w)) x) \<and> (\<forall>g ps. seen (snd (gc_authorize G g ps w)) x) \<and>
     (\<forall>g ps. seen (snd (gc_revoke G g ps w)) x) \<and> (\<forall>sn ts. seen (snd (jc_create_eice J sn ts w)) x) \<and>
     (\<forall>q. seen (snd (jc_run J q w)) x) \<and> (\<forall>sn sg n ips ts. seen (snd (jc_create_eni J sn sg n ips ts w)) x) \<and>
     (\<forall>g ps. seen (snd (jc_revoke_egress J g ps w)) x) \<and> (\<forall>i. seen (snd (ni_no_check D i w)) x) \<and>
     (\<forall>i inst d. seen (snd (ni_attach D i inst d w)) x) \<and> (\<forall>d. seen (snd (ec_sleep A d w)) x) \<and>
     (\<forall>st. seen (snd (ec_save A st w)) x) \<and> (\<forall>is. seen (snd (ec_terminate A is w)) x) \<and>
     (\<forall>i. seen (snd (ec_detach_eni A i w)) x) \<and> (\<forall>i. seen (snd (ec_delete_eni A i w)) x) \<and>
     (\<forall>i. seen (snd (ec_delete_eice A i w)) x) \<and> (\<forall>g. seen (snd (ec_delete_sg A g w)) x))"

lemma jumphost_kept:
  assumes "jumphost_calls_keep A M G D J seen" and "seen w x"
  shows "seen (snd (im_create_role M r t ts w)) x" "seen (snd (im_create_profile M p ts w)) x"
    "seen (snd (im_add_role M p r w)) x" "seen (snd (im_remove_role M p r w)) x"
    "seen (snd (im_delete_profile M p w)) x" "seen (snd (im_delete_role M r w)) x"
    "seen (snd (gc_create G n d v ets w)) x" "seen (snd (gc_authorize G g ps w)) x"
    "seen (snd (gc_revoke G g ps w)) x" "seen (snd (jc_create_eice J sn ets w)) x"
    "seen (snd (jc_run J q w)) x" "seen (snd (jc_create_eni J sn sg n ips ets w)) x"
    "seen (snd (jc_revoke_egress J g ps w)) x" "seen (snd (ni_no_check D i w)) x"
    "seen (snd (ni_attach D i inst dev w)) x" "seen (snd (ec_sleep A dur w)) x"
    "seen (snd (ec_save A st w)) x" "seen (snd (ec_terminate A is w)) x"
    "seen (snd (ec_detach_eni A i w)) x" "seen (snd (ec_delete_eni A i w)) x"
    "seen (snd (ec_delete_eice A i w)) x" "seen (snd (ec_delete_sg A g w)) x"
  using assms by (simp_all add: jumphost_calls_keep_def)

lemma keeps_state_or: "keeps (remembering seen ks) m \<Longrightarrow> keeps (remembering seen ks) (state_or key m)"
  unfolding state_or_def by (auto intro!: keeps_rules)

lemma keeps_poll_loop:
  assumes "\<And>d w x. seen w x \<Longrightarrow> seen (snd (ec_sleep A d w)) x"
    and "\<And>s. m s = map_option (\<lambda>(r, w). (f r, s\<lparr>rs_world := w\<rparr>))
      (poll_loop (ec_now A) (ec_sleep A) check (deadline s) poll l (rs_world s))"
  shows "keeps (remembering seen ks) m"
proof -
  have sl: "seen w x \<Longrightarrow> ec_sleep A d w = (r, w') \<Longrightarrow> seen w' x" for w x d r w'
    using assms(1) [of w x d] by simp
  have "seen w' x" if "poll_loop (ec_now A) (ec_sleep A) ch dl pl l w = Some (r, w')" "seen w x" for ch dl pl l w r w' x
    by (rule poll_loop_world [where K = "\<lambda>w. seen w x", OF sl that(2,1)])
  then show ?thesis by (auto simp: keeps_def assms(2) remembering_def)
qed

text \<open>How a computation of the phase is seen to keep a history.\<close>

lemmas jumphost_keeps = keeps_rules keeps_read keeps_unless keeps_tolerant keeps_call keeps_call_sdk keeps_run_sdk keeps_best_effort
  keeps_st_set keeps_saved keeps_wait_before keeps_state_or

lemma keeps_need_state: "keeps (remembering seen ks) (need_state k)"
  unfolding need_state_def by (auto intro!: keeps_rules)

lemma keeps_mgmt_subnet: "keeps (remembering seen ks) (mgmt_subnet cl i)"
  unfolding mgmt_subnet_def Let_def by (auto intro!: keeps_rules keeps_need_state)

lemma keeps_attach_step:
  "jumphost_calls_keep A M G D J seen \<Longrightarrow> keeps (remembering seen ks) (attachENIIfNeeded D i inst d)"
  unfolding attachENIIfNeeded_def
  by (auto intro!: jumphost_keeps keeps_describe dest: jumphost_kept(15) split: option.splits)

lemma keeps_jumphost_profile:
  "jumphost_calls_keep A M G D J seen \<Longrightarrow> keeps (remembering seen ks) (ensureJumphostInstanceProfile A M cl)"
  unfolding ensureJumphostInstanceProfile_def Let_def
  by (auto intro!: jumphost_keeps dest: jumphost_kept(1,2,3) split: option.splits)

lemma keeps_eice_ready:
  "jumphost_calls_keep A M G D J seen \<Longrightarrow> keeps (remembering seen ks) (waitEICEReady A J i)"
  by (rule keeps_poll_loop) (auto simp: waitEICEReady_def dest: jumphost_kept(16))

lemma keeps_jumphost_eice:
  "jumphost_calls_keep A M G D J seen \<Longrightarrow> keeps (remembering seen ks) (ensureJumphostEICE A J cl sn)"
  unfolding ensureJumphostEICE_def created_eice_def Let_def
  by (auto intro!: jumphost_keeps keeps_eice_ready dest: jumphost_kept(10) split: option.splits sum.splits prod.splits)

lemma keeps_jumphost_group:
  "jumphost_calls_keep A M G D J seen \<Longrightarrow> keeps (remembering seen ks) (ensureJumphostSG A G J cl v)"
  unfolding ensureJumphostSG_def Let_def by (auto intro!: jumphost_keeps dest: jumphost_kept(7))

lemma keeps_running: "keeps (remembering seen ks) (recorded_running J i)"
  unfolding recorded_running_def by (auto intro!: keeps_rules)

lemma keeps_launched: "keeps (remembering seen ks) (launched_id is)"
  unfolding launched_id_def by (auto intro!: keeps_rules split: list.splits)

lemma keeps_jumphost_instance:
  "jumphost_calls_keep A M G D J seen \<Longrightarrow> keeps (remembering seen ks) (ensureJumphostInstance A J cl sn sg ami ty p)"
  unfolding ensureJumphostInstance_def waitInstanceRunning_def Let_def
  by (auto intro!: jumphost_keeps keeps_running keeps_launched dest: jumphost_kept(11,16) split: prod.splits)

lemma keeps_check_ext_ip: "keeps (remembering seen ks) (check_ext_ip ip)"
  unfolding check_ext_ip_def by (auto intro!: keeps_rules)

lemma keeps_jumphost_eni:
  "jumphost_calls_keep A M G D J seen \<Longrightarrow> keeps (remembering seen ks) (ensureJumphostSecondaryENI A D J cl sn sg inst ip)"
  unfolding ensureJumphostSecondaryENI_def Let_def
  by (auto intro!: jumphost_keeps keeps_check_ext_ip keeps_attach_step dest: jumphost_kept(12,14) split: prod.splits)

subsection \<open>The jumphost is reachable and in nobody's way\<close>

definition ssh_rule :: "string \<Rightarrow> permission" where
  "ssh_rule source = \<lparr>pm_protocol = Some ''tcp'', pm_from = Some 22, pm_to = Some 22,
     pm_pairs = [(Some source, Some ''allow-ssh-from-eice'')], pm_ranges = []\<rparr>"

text \<open>A history of the rules of groups: those authorised, or refused as already there.\<close>

definition tracks_rules ::
  "('w, 'e) ec2 \<Rightarrow> ('w, 'e) iam \<Rightarrow> ('w, 'e) sg_calls \<Rightarrow> ('w, 'e) eni_calls \<Rightarrow> ('w, 'e) jump_calls \<Rightarrow>
   ('w \<Rightarrow> string \<times> permission \<Rightarrow> bool) \<Rightarrow> bool" where
  "tracks_rules A M G D J admitted \<longleftrightarrow> jumphost_calls_keep A M G D J admitted \<and>
     (\<forall>g p w e w'. gc_authorize G g [p] w = (e, w') \<longrightarrow>
        (case e of None \<Rightarrow> True | Some e \<Rightarrow> isEC2DuplicatePermission A e) \<longrightarrow> admitted w' (g, p))"

lemma validateJumphostExtIP_None:
  "validateJumphostExtIP ip = None \<longleftrightarrow>
     ip = [] \<or> (\<exists>b. parse_ip4 ip = Some b \<and> \<not> (100 \<le> uint (b ! 3) \<and> uint (b ! 3) \<le> 119))"
  by (auto simp: validateJumphostExtIP_def parse_ip4_def IsReservedGatewayVIPOffset_def Let_def
      split: option.splits if_splits)

lemma ext_ip_checked:
  "ensureJumphostSecondaryENI A D J cl sn sg inst ip0 s = Some (Inr (i, ip), s') \<Longrightarrow> validateJumphostExtIP ip = None"
  by (auto simp: ensureJumphostSecondaryENI_def Let_def and_do_succeeds check_ext_ip_def raise_def give_def
      split: if_splits prod.splits option.splits)

lemma ssh_admitted:
  assumes t: "tracks_rules A M G D J admitted" and "ensureJumphostSGIngress A G sg eice s = Some (Inr (), s')"
  shows "admitted (rs_world s') (sg, ssh_rule eice) \<and> rs_st s' = rs_st s"
proof -
  obtain e w where w: "gc_authorize G sg [ssh_rule eice] (rs_world s) = (e, w)" by fastforce
  with assms(2) have "case e of None \<Rightarrow> True | Some e \<Rightarrow> isEC2DuplicatePermission A e" "rs_world s' = w" "rs_st s' = rs_st s"
    by (auto simp: ensureJumphostSGIngress_def run_unless_def ssh_rule_def and_do_succeeds call_def raise_def give_def
        split: option.splits if_splits)
  with w t show ?thesis unfolding tracks_rules_def by blast
qed

lemma access_admitted:
  assumes t: "tracks_rules A M G D J admitted" and "jumphost_access A M G J cl v sn s = Some (Inr (p, ami, sg), s')"
  shows "Get (rs_st s') ''JUMPHOST_SG_ID'' = sg \<and> (Get (rs_st s') ''JUMPHOST_EICE_SG_ID'' = [] \<or>
    admitted (rs_world s') (sg, ssh_rule (Get (rs_st s') ''JUMPHOST_EICE_SG_ID'')))"
proof -
  from t have k: "jumphost_calls_keep A M G D J admitted" by (simp add: tracks_rules_def)
  from assms(2) obtain i g s1 s2 s3 where
    s2: "ensureJumphostEICE A J cl sn (s1\<lparr>rs_st := Set_key ''JUMPHOST_SG_ID'' sg (rs_st s1)\<rparr>) = Some (Inr (i, g), s2)"
    and s3: "(if g \<noteq> [] then st_set ''JUMPHOST_EICE_SG_ID'' g else give ())
      (s2\<lparr>rs_st := Set_key ''JUMPHOST_EICE_ID'' i (rs_st s2)\<rparr>) = Some (Inr () :: 'b phase_error + unit, s3)"
    and s': "(if Get (rs_st s3) ''JUMPHOST_EICE_SG_ID'' \<noteq> []
      then ensureJumphostSGIngress A G sg (Get (rs_st s3) ''JUMPHOST_EICE_SG_ID'') else give ()) s3 = Some (Inr (), s')"
    by (auto simp: jumphost_access_def and_do_succeeds st_set_def st_get_def give_def split: prod.splits)
  have "Get (rs_st s2) ''JUMPHOST_SG_ID'' = sg"
    using keepsD' [OF keeps_jumphost_eice [OF k, of "{}"] s2] by (simp add: remembering_def Get_def Set_key_def)
  with s3 have "Get (rs_st s3) ''JUMPHOST_SG_ID'' = sg"
    by (auto simp: st_set_def give_def Get_def Set_key_def split: if_splits)
  with s' ssh_admitted [OF t, of sg _ s3 s'] show ?thesis by (auto simp: give_def split: if_splits)
qed

text \<open>
  C26 When phase 17b succeeds with the jumphost enabled, its recorded address in the external data-path subnet
  is an IPv4 address outside .100 to .119, which are kept for virtual servers (or none was reported); and
  when the group of the endpoint is recorded, ssh from it into the group of the jumphost is admitted.
\<close>

theorem jumphost_ready:
  assumes t: "tracks_rules A M G D J admitted" and "Phase17bJumphost A M G D J False s = Some (Inr (), s')"
    and "jumphost_spec (rs_cl s) = Some jh" and "jh_Enabled jh"
  shows "let ip = Get (rs_st s') ''JUMPHOST_BNK_EXT_ENI_IP''; eice = Get (rs_st s') ''JUMPHOST_EICE_SG_ID'' in
    (ip = [] \<or> (\<exists>b. parse_ip4 ip = Some b \<and> \<not> (100 \<le> uint (b ! 3) \<and> uint (b ! 3) \<le> 119))) \<and>
    (eice = [] \<or> admitted (rs_world s') (Get (rs_st s') ''JUMPHOST_SG_ID'', ssh_rule eice))"
proof -
  from t have k: "jumphost_calls_keep A M G D J admitted" by (simp add: tracks_rules_def)
  from assms(2-4) obtain v sn p ami sg inst ty ext sgd ip0 i ip mi mip s1 s2 s3 s4 where
    s2: "jumphost_access A M G J (rs_cl s) v sn s1 = Some (Inr (p, ami, sg), s2)"
    and s3: "ensureJumphostInstance A J (rs_cl s) sn sg ami ty p s2 = Some (Inr (inst, mi, mip), s3)"
    and s4: "ensureJumphostSecondaryENI A D J (rs_cl s) ext sgd inst ip0 (s3\<lparr>rs_st := Set_key ''JUMPHOST_INSTANCE_TYPE'' ty
      (Set_key ''JUMPHOST_MGMT_ENI_IP'' mip (Set_key ''JUMPHOST_MGMT_ENI_ID'' mi (Set_key ''JUMPHOST_INSTANCE_ID'' inst (rs_st s3))))\<rparr>) =
      Some (Inr (i, ip), s4)"
    and s': "save_state A (s4\<lparr>rs_st := Set_key ''JUMPHOST_BNK_EXT_ENI_IP'' ip (Set_key ''JUMPHOST_BNK_EXT_ENI_ID'' i (rs_st s4))\<rparr>) = Some (Inr (), s')"
    by (auto simp: Phase17bJumphost_def Let_def and_do_succeeds intent_def st_set_def split: prod.splits)
  have save: "keeps (remembering admitted {}) (save_state A)"
    by (rule keeps_saved) (rule jumphost_kept(17) [OF k])
  from keepsD' [OF keeps_jumphost_instance [OF k, of "{}"] s3] keepsD' [OF keeps_jumphost_eni [OF k, of "{}"] s4]
    keepsD' [OF save s'] access_admitted [OF t s2] ext_ip_checked [OF s4]
  show ?thesis by (auto simp: Let_def remembering_def Get_def Set_key_def validateJumphostExtIP_None)
qed

subsection \<open>Teardown\<close>

text \<open>An instance that the account says is terminated, or no longer knows.\<close>

definition instance_gone :: "('w, 'e) ec2 \<Rightarrow> string \<Rightarrow> 'w \<Rightarrow> bool" where
  "instance_gone A i w = (case ec_instances A (ByIds [i]) w of
       Inl e \<Rightarrow> ignoreNotFound A (Some e) = None
     | Inr [] \<Rightarrow> True
     | Inr ([] # _) \<Rightarrow> False
     | Inr ((x # _) # _) \<Rightarrow> ii_terminated x)"

text \<open>A history of what is gone: instances, interfaces, roles.\<close>

definition tracks_torn ::
  "('w, 'e) ec2 \<Rightarrow> ('w, 'e) iam \<Rightarrow> ('w, 'e) sg_calls \<Rightarrow> ('w, 'e) eni_calls \<Rightarrow> ('w, 'e) jump_calls \<Rightarrow> ('w \<Rightarrow> string \<Rightarrow> bool) \<Rightarrow> bool" where
  "tracks_torn A M G D J gone \<longleftrightarrow> jumphost_calls_keep A M G D J gone \<and> tracks_gone A gone \<and>
     (\<forall>i w. instance_gone A i w \<longrightarrow> gone w i) \<and>
     (\<forall>r w e w'. im_delete_role M r w = (e, w') \<longrightarrow> (case e of None \<Rightarrow> True | Some e \<Rightarrow> im_none M e) \<longrightarrow> gone w' r)"

lemma keeps_terminated:
  "jumphost_calls_keep A M G D J seen \<Longrightarrow> keeps (remembering seen ks) (drop_instance A i)"
  unfolding drop_instance_def waitInstanceTerminated_def
  by (auto intro!: jumphost_keeps dest: jumphost_kept(16,18))

lemma keeps_detach_jumphost:
  "jumphost_calls_keep A M G D J seen \<Longrightarrow> keeps (remembering seen ks) (detachAndDeleteENI A i)"
  unfolding detachAndDeleteENI_def waitENIDetached_def
  by (auto intro!: jumphost_keeps dest: jumphost_kept(16,19,20) split: sum.splits list.splits option.splits)

lemma keeps_drop_eice: "jumphost_calls_keep A M G D J seen \<Longrightarrow> keeps (remembering seen ks) (drop_eice A i)"
proof -
  assume k: "jumphost_calls_keep A M G D J seen"
  have "keeps (remembering seen ks) (waitEICEDeleted A i)"
    by (rule keeps_poll_loop) (auto simp: waitEICEDeleted_def dest: jumphost_kept(16) [OF k])
  then show ?thesis
    unfolding drop_eice_def by (auto intro!: jumphost_keeps dest: jumphost_kept(21) [OF k] split: option.splits)
qed

lemma keeps_drop_jumphost_group:
  "jumphost_calls_keep A M G D J seen \<Longrightarrow> keeps (remembering seen ks) (drop_jumphost_group A G J g)"
  unfolding drop_jumphost_group_def revokeReferencesToSG_def revoke_of_group_def Let_def
  by (auto intro!: jumphost_keeps dest: jumphost_kept(9,13,22) split: option.splits)

lemma keeps_delete_jumphost_iam:
  "jumphost_calls_keep A M G D J seen \<Longrightarrow> keeps (remembering seen ks) (deleteJumphostIAM M p r)"
  unfolding deleteJumphostIAM_def by (auto intro!: jumphost_keeps dest: jumphost_kept(4,5,6))

text \<open>A wait that succeeds ends in a world in which its check succeeds.\<close>

lemma wait_before_ok:
  assumes "wait_before A check timeout poll late s = Some (Inr (), s')"
  shows "check (rs_world s') = Some None"
proof -
  from assms obtain r w where p: "poll_before (ec_now A) (ec_sleep A) check (ec_now A (rs_world s) + timeout) poll (rs_world s) = Some (r, w)"
    and r: "(case r of Decided None \<Rightarrow> Inr () | Decided (Some e) \<Rightarrow> Inl e | OutOfTime \<Rightarrow> Inl late | Cut e \<Rightarrow> Inl (WaitCut e)) = Inr ()"
    and w: "rs_world s' = w"
    by (auto simp: wait_before_def)
  from r have "r = Decided None" by (auto split: waited_before.splits option.splits)
  with poll_before_Decided [OF p [unfolded this]] w show ?thesis by simp
qed

lemma state_or_give:
  "state_or key (give d) s = Some (Inr r, s') \<longleftrightarrow> s' = s \<and> r = (if Get (rs_st s) key = [] then d else Get (rs_st s) key)"
  by (auto simp: state_or_def and_do_succeeds st_get_def give_def)

lemma terminated_gone:
  assumes t: "tracks_torn A M G D J gone" and "drop_instance A i s = Some (Inr (), s')"
  shows "gone (rs_world s') i"
proof -
  from assms(2) obtain s1 where "waitInstanceTerminated A i s1 = Some (Inr (), s')"
    by (auto simp: drop_instance_def and_do_succeeds)
  from wait_before_ok [OF this [unfolded waitInstanceTerminated_def]] have "instance_gone A i (rs_world s')"
    by (auto simp: instance_gone_def split: option.splits sum.splits list.splits if_splits)
  with t show ?thesis by (simp add: tracks_torn_def)
qed

lemma jumphost_role_gone:
  assumes t: "tracks_torn A M G D J gone" and "deleteJumphostIAM M p r s = Some (Inr (), s')"
  shows "gone (rs_world s') r"
proof -
  from assms(2) obtain s1 where s1: "run_unless (im_none M) ''iam:DeleteRole'' (im_delete_role M r) s1 = Some (Inr (), s')"
    by (auto simp: deleteJumphostIAM_def and_do_succeeds)
  obtain e w where w: "im_delete_role M r (rs_world s1) = (e, w)" by fastforce
  with s1 have "case e of None \<Rightarrow> True | Some e \<Rightarrow> im_none M e" "rs_world s' = w"
    by (auto simp: run_unless_def and_do_succeeds call_def raise_def give_def split: option.splits if_splits)
  with w t show ?thesis unfolding tracks_torn_def by blast
qed

text \<open>One resource of the teardown: found in the state or by \<open>look\<close>, dropped unless it is a placeholder.\<close>

lemma dropped:
  assumes "state_or key (query look) s = Some (Inr i, t)" and "(if i \<in> none then give () else destroy i) t = Some (Inr (), s')"
    and "keeps R (destroy i)" and "preorder R" and "\<And>u. destroy i u = Some (Inr (), s') \<Longrightarrow> P (rs_world s') i"
    and "[] \<in> none"
  shows "R s s' \<and> (Get (rs_st s) key \<in> none \<or> P (rs_world s') (Get (rs_st s) key))"
  using assms by (auto simp: state_or_def and_do_succeeds st_get_def query_def give_def keeps_def preorder_def split: if_splits)

text \<open>
  C27 When the teardown of phase 17b succeeds, the recorded instance and its interface in the data-plane
  subnet are gone unless they are the placeholders of a dry run, the role of the jumphost is gone, and no key of
  the jumphost is left in the state.
\<close>

theorem jumphost_gone:
  fixes A :: "('w, 'e) ec2"
  assumes t: "tracks_torn A M G D J gone" and "Phase17bJumphostDown A M G D J s = Some (Inr (), s')"
  shows "(Get (rs_st s) ''JUMPHOST_INSTANCE_ID'' \<in> {[], ''i-dry-run''} \<or> gone (rs_world s') (Get (rs_st s) ''JUMPHOST_INSTANCE_ID'')) \<and>
    (Get (rs_st s) ''JUMPHOST_BNK_EXT_ENI_ID'' \<in> {[], ''eni-dry-run-ext''} \<or> gone (rs_world s') (Get (rs_st s) ''JUMPHOST_BNK_EXT_ENI_ID'')) \<and>
    gone (rs_world s') (let r = Get (rs_st s) ''JUMPHOST_ROLE_NAME'' in if r = [] then md_Name (cl_Metadata (rs_cl s)) @ ''-jumphost-role'' else r) \<and>
    list_all (\<lambda>k. Get (rs_st s') (''JUMPHOST_'' @ k) = [])
      [''INSTANCE_ID'', ''MGMT_ENI_ID'', ''MGMT_ENI_IP'', ''BNK_EXT_ENI_ID'', ''BNK_EXT_ENI_IP'', ''EICE_ID'', ''EICE_SG_ID'',
       ''SG_ID'', ''AMI_ID'', ''INSTANCE_TYPE'', ''INSTANCE_PROFILE_NAME'', ''ROLE_NAME'']"
proof -
  let ?n = "md_Name (cl_Metadata (rs_cl s))"
  from t have k: "jumphost_calls_keep A M G D J gone" and g: "tracks_gone A gone" by (simp_all add: tracks_torn_def)
  let ?role = "let r = Get (rs_st s) ''JUMPHOST_ROLE_NAME'' in if r = [] then ?n @ ''-jumphost-role'' else r"
  from assms(2) obtain i1 i2 i3 i4 p t1 t2 t3 t4 s1 s2 s3 s4 s5 s6 where
    i1: "state_or ''JUMPHOST_INSTANCE_ID'' (query (lookupInstanceByTag J ?n CompJumphostInstance)) s = Some (Inr i1 :: 'e phase_error + string, t1)"
    and s1: "(if i1 \<in> {[], ''i-dry-run''} then give () else drop_instance A i1) t1 = Some (Inr (), s1)"
    and i2: "state_or ''JUMPHOST_BNK_EXT_ENI_ID'' (query (lookupENIByTag D ?n CompJumphostENIExt)) s1 = Some (Inr i2 :: 'e phase_error + string, t2)"
    and s2: "(if i2 \<in> {[], ''eni-dry-run-ext''} then give () else detachAndDeleteENI A i2) t2 = Some (Inr (), s2)"
    and i3: "state_or ''JUMPHOST_EICE_ID'' (query (lookupEICEByTag J ?n CompJumphostEICE)) s2 = Some (Inr i3 :: 'e phase_error + string, t3)"
    and s3: "(if i3 \<in> {[], ''eice-dry-run'', ''skipped''} then give () else drop_eice A i3) t3 = Some (Inr (), s3)"
    and i4: "state_or ''JUMPHOST_SG_ID'' (query (lookupSGByTag J ?n CompJumphostSG)) s3 = Some (Inr i4 :: 'e phase_error + string, t4)"
    and s4: "(if i4 \<in> {[], ''sg-dry-run-jumphost''} then give () else drop_jumphost_group A G J i4) t4 = Some (Inr (), s4)"
    and s5: "deleteJumphostIAM M p
      (if Get (rs_st s4) ''JUMPHOST_ROLE_NAME'' = [] then ?n @ ''-jumphost-role'' else Get (rs_st s4) ''JUMPHOST_ROLE_NAME'') s4 = Some (Inr (), s5)"
    and s6: "clearJumphostState s5 = Some (Inr () :: 'e phase_error + unit, s6)" and s': "save_state A s6 = Some (Inr (), s')"
    by (auto simp: Phase17bJumphostDown_def Let_def and_do_succeeds intent_def state_or_give simp del: insert_iff)
  have r1: "remembering gone {} s s1 \<and> (Get (rs_st s) ''JUMPHOST_INSTANCE_ID'' \<in> {[], ''i-dry-run''} \<or> gone (rs_world s1) (Get (rs_st s) ''JUMPHOST_INSTANCE_ID''))"
    by (rule dropped [where destroy = "drop_instance A" and P = "gone", OF i1 s1]) (simp_all add: keeps_terminated [OF k] terminated_gone [OF t])
  have r2: "remembering gone {} s1 s2 \<and> (Get (rs_st s1) ''JUMPHOST_BNK_EXT_ENI_ID'' \<in> {[], ''eni-dry-run-ext''} \<or> gone (rs_world s2) (Get (rs_st s1) ''JUMPHOST_BNK_EXT_ENI_ID''))"
    by (rule dropped [where destroy = "detachAndDeleteENI A" and P = "gone", OF i2 s2]) (simp_all add: keeps_detach_jumphost [OF k] detach_gone [OF g])
  have r3: "remembering gone {} s2 s3 \<and> (Get (rs_st s2) ''JUMPHOST_EICE_ID'' \<in> {[], ''eice-dry-run'', ''skipped''} \<or> True)"
    by (rule dropped [where destroy = "drop_eice A" and P = "\<lambda>_ _. True", OF i3 s3]) (simp_all add: keeps_drop_eice [OF k])
  have r4: "remembering gone {} s3 s4 \<and> (Get (rs_st s3) ''JUMPHOST_SG_ID'' \<in> {[], ''sg-dry-run-jumphost''} \<or> True)"
    by (rule dropped [where destroy = "drop_jumphost_group A G J" and P = "\<lambda>_ _. True", OF i4 s4]) (simp_all add: keeps_drop_jumphost_group [OF k])
  have r5: "remembering gone {} s4 s5" by (rule keepsD' [OF keeps_delete_jumphost_iam [OF k] s5])
  have clear: "rs_world s6 = rs_world s5" "list_all (\<lambda>k. Get (rs_st s6) (''JUMPHOST_'' @ k) = [])
      [''INSTANCE_ID'', ''MGMT_ENI_ID'', ''MGMT_ENI_IP'', ''BNK_EXT_ENI_ID'', ''BNK_EXT_ENI_IP'', ''EICE_ID'', ''EICE_SG_ID'',
       ''SG_ID'', ''AMI_ID'', ''INSTANCE_TYPE'', ''INSTANCE_PROFILE_NAME'', ''ROLE_NAME'']"
    using clear_keys [OF s6 [unfolded clearJumphostState_def]] by simp_all
  have r6: "remembering gone {} s6 s'" by (rule keepsD' [OF keeps_saved s']) (rule jumphost_kept(17) [OF k])
  have state: "Get (rs_st s1) k = Get (rs_st s) k" "Get (rs_st s4) k = Get (rs_st s) k" "Get (rs_st s') k = Get (rs_st s6) k" for k
    using r1 r2 r3 r4 r6 by (simp_all add: remembering_def)
  have world: "gone (rs_world s5) x \<Longrightarrow> gone (rs_world s') x" "gone (rs_world s2) x \<Longrightarrow> gone (rs_world s5) x"
    "gone (rs_world s1) x \<Longrightarrow> gone (rs_world s2) x" for x
    using r2 r3 r4 r5 r6 clear(1) by (simp_all add: remembering_def)
  have "gone (rs_world s') ?role" using world(1) [OF jumphost_role_gone [OF t s5]] by (auto simp: state Let_def split: if_splits)
  moreover have "Get (rs_st s) ''JUMPHOST_INSTANCE_ID'' \<in> {[], ''i-dry-run''} \<or> gone (rs_world s') (Get (rs_st s) ''JUMPHOST_INSTANCE_ID'')"
    using r1 world by blast
  moreover have "Get (rs_st s) ''JUMPHOST_BNK_EXT_ENI_ID'' \<in> {[], ''eni-dry-run-ext''} \<or> gone (rs_world s') (Get (rs_st s) ''JUMPHOST_BNK_EXT_ENI_ID'')"
    using r2 world unfolding state by blast
  ultimately show ?thesis using clear(2) by (simp add: state)
qed

subsection \<open>Runs\<close>

text \<open>An account without a jumphost; admitting a rule moves its clock past 1.\<close>

definition jump_groups :: "(int, string) sg_calls" where
  "jump_groups = no_groups\<lparr>gc_authorize := (\<lambda>_ _ w. (None, max 0 w + 1))\<rparr>"

definition jump_account :: "(int, string) jump_calls" where
  "jump_account = \<lparr>
     jc_instances = (\<lambda>sel _. case sel of ByFilters _ \<Rightarrow> Inr []
       | ByIds _ \<Rightarrow> Inr [[\<lparr>ji_id = Some ''i-1'', ji_state = Some IsRunning, ji_enis = []\<rparr>]]),
     jc_run = (\<lambda>_ w. (Inr [Some ''i-1''], w)), jc_ami = (\<lambda>_ _. Inr (Some ''ami-1'')), jc_eices = (\<lambda>_ _. Inr []),
     jc_create_eice = (\<lambda>_ _ w. (Inr (Some \<lparr>ei_id = Some ''eice-1'', ei_state = EiceOther, ep_progress = EpComplete,
       ep_message = None, ep_groups = [''sg-e'']\<rparr>), w)),
     jc_groups = (\<lambda>_ _. Inr []), jc_revoke_egress = (\<lambda>_ _ w. (None, w)), jc_addresses = (\<lambda>_ _. Inr []),
     jc_create_eni = (\<lambda>_ _ _ _ _ w. (Inr (''eni-1'', Some ''10.0.10.200''), w))\<rparr>"

definition idle_account :: "(int, string) ec2" where
  "idle_account = empty_account\<lparr>ec_sleep := (\<lambda>_ w. (None, w))\<rparr>"

lemma jump_tracked: "tracks_rules idle_account small_iam jump_groups fresh_enis jump_account (\<lambda>w _. 1 \<le> w)"
  by (auto simp: tracks_rules_def jumphost_calls_keep_def small_iam_def jump_groups_def no_groups_def fresh_enis_def
      jump_account_def idle_account_def empty_account_def)

definition jump_state :: "int run_state" where
  "jump_state = \<lparr>rs_cl = sample_intent, rs_st = sample_state\<lparr>st_data := [''VPC_ID'' \<mapsto> ''vpc-1'', ''SG_BNK_DATA'' \<mapsto> ''sg-b'',
     ''BNK_EXT_SUBNET'' \<mapsto> ''sn-x'', ''PUBLIC_SUBNETS'' \<mapsto> ''sn-1,sn-2,sn-3'']\<rparr>, rs_world = 0\<rparr>"

lemma sample_ext_ip: "validateJumphostExtIP ''10.0.10.200'' = None"
  by code_simp

lemma jump_subnet: "mgmt_subnet sample_intent 0 jump_state = Some (Inr ''sn-1'', jump_state)"
proof -
  have "trim_space ''sn-1'' = ''sn-1''" by code_simp
  then show ?thesis
    by (simp add: mgmt_subnet_def need_state_def and_do_def st_get_def give_def raise_def Get_def jump_state_def sample_intent_def Let_def)
qed

lemma jump_run: "\<exists>s'. Phase17bJumphost idle_account small_iam jump_groups fresh_enis jump_account False jump_state = Some (Inr (), s') \<and>
    Get (rs_st s') ''JUMPHOST_EICE_SG_ID'' = ''sg-e'' \<and> Get (rs_st s') ''JUMPHOST_BNK_EXT_ENI_IP'' = ''10.0.10.200''"
proof -
  have spec: "jumphost_spec sample_intent = Some \<lparr>jh_Enabled = True, jh_InstanceType = [], jh_MgmtSubnetIndex = 0\<rparr>"
    by (simp add: jumphost_spec_def sample_intent_def)
  have cl: "intent jump_state = Some (Inr sample_intent :: string phase_error + Cluster, jump_state)"
    by (simp add: jump_state_def intent_def)
  have need: "need_state ''VPC_ID'' jump_state = Some (Inr ''vpc-1'' :: string phase_error + string, jump_state)"
    "need_state ''SG_BNK_DATA'' jump_state = Some (Inr ''sg-b'' :: string phase_error + string, jump_state)"
    "need_state ''BNK_EXT_SUBNET'' jump_state = Some (Inr ''sn-x'' :: string phase_error + string, jump_state)"
    by (simp_all add: need_state_def and_do_def st_get_def give_def Get_def jump_state_def)
  obtain t where access: "jumphost_access idle_account small_iam jump_groups jump_account sample_intent ''vpc-1'' ''sn-1'' jump_state =
      Some (Inr (''syd-tracer-jumphost-profile'', ''ami-1'', ''syd-tracer-jumphost''), t)"
    and t: "rs_world t = 1" "st_data (rs_st t) ''JUMPHOST_EICE_SG_ID'' = Some ''sg-e''" "st_data (rs_st t) ''JUMPHOST_INSTANCE_ID'' = None" "st_data (rs_st t) ''JUMPHOST_BNK_EXT_ENI_ID'' = None"
    by (simp add: jumphost_access_def ensureJumphostInstanceProfile_def resolveAL2023AMI_def ensureJumphostSG_def ensureJumphostEICE_def created_eice_def ensureJumphostSGIngress_def read_unless_def run_unless_def query_sdk_def call_sdk_def run_sdk_def check_result_def check_err_def and_do_def state_or_def st_get_def st_set_def query_def call_def give_def raise_def Let_def Get_def Set_key_def lookupSGByTag_def lookupEICEByTag_def id_of_first_def ok_list_def small_iam_def jump_groups_def no_groups_def jump_account_def idle_account_def empty_account_def jump_state_def sample_intent_def sample_state_def)
  have wait: "waitInstanceRunning idle_account jump_account i u = Some (Inr (), u)" for i u
    by (simp add: waitInstanceRunning_def wait_before_def poll_before.simps jump_account_def idle_account_def empty_account_def Minute_def Second_def)
  have calls: "jc_instances jump_account (ByFilters fs) = (\<lambda>_. Inr [])" "jc_run jump_account = (\<lambda>_ w. (Inr [Some ''i-1''], w))"
    "jc_create_eni jump_account = (\<lambda>_ _ _ _ _ w. (Inr (''eni-1'', Some ''10.0.10.200''), w))"
    "jc_instances jump_account (ByIds is) = (\<lambda>_. Inr [[\<lparr>ji_id = Some ''i-1'', ji_state = Some IsRunning, ji_enis = []\<rparr>]])"
    "ec_save idle_account = (\<lambda>_ w. (None, w))" for fs "is"
    by (simp_all add: jump_account_def idle_account_def empty_account_def)
  show ?thesis
    by (simp add: Phase17bJumphost_def and_do_def cl spec need jump_subnet access ensureJumphostInstance_def
        recorded_running_def launched_id_def wait getPrimaryENIDetails_def described_instance_def lookupInstanceByTag_def first_id_def
        ensureJumphostSecondaryENI_def check_ext_ip_def sample_ext_ip lookupENIByTag_def lookupENIsByTag_def attachENIIfNeeded_def
        describe_eni_def query_sdk_def call_sdk_def run_sdk_def check_result_def check_err_def st_get_def st_set_def query_def
        call_def give_def raise_def Let_def Get_def Set_key_def save_state_def ok_list_def map_filter_def t calls fresh_enis_def)
qed

theorem jumphost_ready_witness:
  "\<exists>s'. Phase17bJumphost idle_account small_iam jump_groups fresh_enis jump_account False jump_state = Some (Inr (), s') \<and> 1 \<le> rs_world s'"
proof -
  from jump_run obtain s' where run: "Phase17bJumphost idle_account small_iam jump_groups fresh_enis jump_account False jump_state = Some (Inr (), s')"
    and eice: "Get (rs_st s') ''JUMPHOST_EICE_SG_ID'' = ''sg-e''" by blast
  have spec: "jumphost_spec (rs_cl jump_state) = Some \<lparr>jh_Enabled = True, jh_InstanceType = [], jh_MgmtSubnetIndex = 0\<rparr>"
    by (simp add: jumphost_spec_def jump_state_def sample_intent_def)
  from jumphost_ready [OF jump_tracked run spec] run eice show ?thesis by (auto simp: Let_def)
qed

text \<open>One instance, until it is terminated and its role deleted.\<close>

definition one_instance :: "(int, string) ec2" where
  "one_instance = idle_account\<lparr>
     ec_instances := (\<lambda>_ w. if w < 1 then Inr [[\<lparr>ii_id = Some ''i-1'', ii_terminated = False\<rparr>]] else Inr []),
     ec_terminate := (\<lambda>_ w. (None, max 0 w + 1)), ec_delete_eni := (\<lambda>_ w. (None, max 0 w + 1)),
     ec_enis := (\<lambda>_ w. if w < 1 then Inr [\<lparr>en_id = Some ''eni-1'', en_available = True, en_attachment = None\<rparr>] else Inr [])\<rparr>"

lemma one_instance_tracked: "tracks_torn one_instance small_iam no_groups fresh_enis jump_account (\<lambda>w _. 1 \<le> w)"
  by (auto simp: tracks_torn_def tracks_gone_def jumphost_calls_keep_def instance_gone_def one_instance_def small_iam_def no_groups_def
      fresh_enis_def jump_account_def idle_account_def empty_account_def split: if_splits)

theorem jumphost_gone_witness:
  "\<exists>s'. Phase17bJumphostDown one_instance small_iam no_groups fresh_enis jump_account
       (jump_state\<lparr>rs_st := Set_key ''JUMPHOST_INSTANCE_ID'' ''i-1'' (rs_st jump_state)\<rparr>) = Some (Inr (), s') \<and>
     1 \<le> rs_world s' \<and> Get (rs_st s') ''JUMPHOST_INSTANCE_ID'' = []"
proof -
  let ?s = "jump_state\<lparr>rs_st := Set_key ''JUMPHOST_INSTANCE_ID'' ''i-1'' (rs_st jump_state)\<rparr>"
  have "\<exists>s'. Phase17bJumphostDown one_instance small_iam no_groups fresh_enis jump_account ?s = Some (Inr (), s')"
    by (simp add: Phase17bJumphostDown_def drop_instance_def run_tolerant_def ignoreNotFound_def waitInstanceTerminated_def wait_before_def
        poll_before.simps Minute_def Second_def deleteJumphostIAM_def run_unless_def
        clearJumphostState_def state_or_def lookupENIByTag_def lookupENIsByTag_def lookupEICEByTag_def lookupSGByTag_def id_of_first_def
        check_err_def and_do_def intent_def st_get_def st_set_def query_def call_def give_def raise_def Let_def Get_def Set_key_def
        save_state_def ok_list_def map_filter_def small_iam_def fresh_enis_def jump_account_def one_instance_def idle_account_def
        empty_account_def jump_state_def sample_state_def)
  then obtain s' where run: "Phase17bJumphostDown one_instance small_iam no_groups fresh_enis jump_account ?s = Some (Inr (), s')" by blast
  have "Get (rs_st ?s) ''JUMPHOST_INSTANCE_ID'' = ''i-1''" by (simp add: Get_def Set_key_def)
  with jumphost_gone [OF one_instance_tracked run] run show ?thesis by simp
qed

end
