(* ===== verification/BigIPVEClaims.thy ===== *)
theory BigIPVEClaims
  imports BigIPVE JumphostClaims
begin

text \<open>
  Phase 17e: host addresses lie in their subnet, the private key is on disk after a success and the key of an instance in
  use is not touched, and the data-plane interfaces of the instance are set up, adopted ones included.
\<close>

subsection \<open>Addresses\<close>

text \<open>
  C40 The address computed for host \<open>n\<close> of a block is the text of an IPv4 address that lies in the block and
  has \<open>n\<close> as its last byte, which is within 0 and 255.
\<close>

theorem host_in_subnet:
  assumes "cidrDotN cidr n = Inr ip"
  shows "\<exists>a net b. parse_cidr cidr = Some (a, net) \<and> parse_ip4 ip = Some b \<and> net_contains net b \<and> uint (b ! 3) = n"
proof -
  from assms obtain a net x where net: "parse_cidr cidr = Some (a, net)" "to4 (net_ip net) = Some x" and n: "0 \<le> n" "n \<le> 255"
    and inside: "net_contains net (x[3 := word_of_int n])" and ip: "ip = ipv4_string (x[3 := word_of_int n])"
    by (auto simp: cidrDotN_def Let_def split: option.splits if_splits)
  have "length x = 4" by (rule to4_length [OF net(2)])
  moreover have "uint (word_of_int n :: octet) = n" using n by (simp add: uint_word_of_int_eq take_bit_int_eq_self)
  ultimately show ?thesis using net inside ip by (auto simp: parse_ip4_string)
qed

text \<open>In a /24 block there is an address for every such \<open>n\<close>.\<close>

lemma host_in_subnet_total:
  assumes "parse_cidr cidr = Some (a, net)" "net_bits net = 32" "net_ones net = 24" and "0 \<le> n" "n \<le> 255"
  shows "\<exists>ip. cidrDotN cidr n = Inr ip"
proof -
  from assms(1-3) obtain w x y where net: "net_ip net = [w, x, y, 0]" by (elim parse_cidr_24)
  then have "net_contains net [w, x, y, word_of_int n]"
    using net_contains_24 [OF net assms(3,2), of "[w, x, y, word_of_int n]"] by (simp add: to4_def)
  with assms net show ?thesis by (simp add: cidrDotN_def to4_def)
qed

theorem host_in_subnet_witness:
  "\<exists>a net b. parse_cidr ''10.0.10.0/24'' = Some (a, net) \<and> parse_ip4 ''10.0.10.50'' = Some b \<and> net_contains net b \<and> uint (b ! 3) = 50"
proof -
  have "cidrDotN ''10.0.10.0/24'' 50 = Inr ''10.0.10.50''" by code_simp
  from host_in_subnet [OF this] show ?thesis .
qed

subsection \<open>The newest image\<close>

lemma bytes_less_irrefl: "\<not> bytes_less a a"
  by (induction a) auto

lemma bytes_less_trans: "bytes_less a b \<Longrightarrow> bytes_less b c \<Longrightarrow> bytes_less a c"
  by (induction a b arbitrary: c rule: bytes_less.induct; case_tac c) (auto dest: less_trans)

lemma bytes_less_linear: "bytes_less a b \<or> a = b \<or> bytes_less b a"
proof (induction a b rule: bytes_less.induct)
  case (1 a)
  then show ?case by (cases a) auto
qed auto

lemma newest_max: "newest is = Some i \<Longrightarrow> i \<in> set is \<and> (\<forall>j \<in> set is. \<not> bytes_less (created_at i) (created_at j))"
proof (induction "is" arbitrary: i)
  case (Cons k ks)
  show ?case
  proof (cases "newest ks")
    case None
    then have "ks = []" by (cases ks) (auto split: option.splits)
    with Cons.prems show ?thesis by (simp add: bytes_less_irrefl)
  next
    case (Some m)
    from Cons.IH [OF Some] Cons.prems Some show ?thesis
      using bytes_less_trans bytes_less_linear [of "created_at k" "created_at m"]
      by (auto simp: bytes_less_irrefl split: if_splits)
  qed
qed simp

text \<open>The image resolved is one of those listed, and none of them is newer.\<close>

lemma newest_image:
  assumes "resolveBigIPAMI V tier glob s = Some (Inr ami, s')"
  shows "\<exists>is i. vc_images V ''aws-marketplace'' [plain_filter ''name'' [''*BIGIP-'' @ (if glob = [] then ''17.*'' else glob) @ ''*PAYG-'' @ tier @ '' 25Mbps*''],
      plain_filter ''state'' [''available'']] (rs_world s) = Inr is \<and> i \<in> set is \<and> vi_id i = Some ami \<and>
    (\<forall>j \<in> set is. \<not> bytes_less (created_at i) (created_at j))"
proof -
  from assms obtain "is" i where "is": "vc_images V ''aws-marketplace'' [plain_filter ''name'' [''*BIGIP-'' @ (if glob = [] then ''17.*'' else glob) @ ''*PAYG-'' @ tier @ '' 25Mbps*''],
      plain_filter ''state'' [''available'']] (rs_world s) = Inr is" and i: "newest is = Some i" "vi_id i = Some ami"
    unfolding resolveBigIPAMI_def Let_def and_do_succeeds query_sdk_ok
    by (auto simp: raise_def give_def split: option.splits)
  from newest_max [OF i(1)] "is" i(2) show ?thesis by blast
qed

subsection \<open>The key pair\<close>

text \<open>
  C29 Provided a file that was written exists: after a success of \<open>ensureBigIPKeyPair\<close> the private key is on
  disk; and while EC2 lists the key pair, its private key is missing, and EC2 describes the recorded
  instance in any state but terminated or shutting down (an unknown state included), the result is an
  error and nothing was changed. A description or listing that fails is not covered: the code takes it as
  "not in use".
\<close>

theorem key_pair_safe:
  assumes "\<And>p c w w'. vc_write V p c w = (None, w') \<Longrightarrow> vc_exists V p w'"
  shows "(\<forall>r s'. ensureBigIPKeyPair A J V name path s = Some (Inr r, s') \<longrightarrow> vc_exists V path (rs_world s')) \<and>
    (\<forall>k ks i is rs. vc_keys V name (rs_world s) = Inr (k # ks) \<and> \<not> vc_exists V path (rs_world s) \<and>
       Get (rs_st s) ''BIGIP_INSTANCE_ID'' \<notin> {[], ''i-dry-run-bigip''} \<and>
       jc_instances J (ByIds [Get (rs_st s) ''BIGIP_INSTANCE_ID'']) (rs_world s) = Inr ((i # is) # rs) \<and>
       ji_state i \<notin> {Some IsTerminated, Some IsShuttingDown} \<longrightarrow>
     (\<exists>e. ensureBigIPKeyPair A J V name path s = Some (Inl e, s)))"
proof (intro conjI allI impI)
  fix r s'
  assume "ensureBigIPKeyPair A J V name path s = Some (Inr r, s')"
  then consider "vc_exists V path (rs_world s)" "s' = s" | s1 where "create_key A V name path s1 = Some (Inr r, s')"
    by (auto simp: ensureBigIPKeyPair_def and_do_succeeds query_def give_def split: if_splits)
  then show "vc_exists V path (rs_world s')"
  proof cases
    case 2
    then obtain k s2 where "run_sdk ''writing BIG-IP SSH private key'' (vc_write V path k) s2 = Some (Inr (), s')"
      by (auto simp: create_key_def and_do_succeeds give_def raise_def split: if_splits)
    then have "vc_write V path k (rs_world s2) = (None, rs_world s')"
      by (auto simp: run_sdk_def and_do_succeeds call_def check_err_def raise_def give_def split: option.splits prod.splits)
    then show ?thesis by (rule assms)
  qed simp
next
  fix k ks i "is" rs
  assume "vc_keys V name (rs_world s) = Inr (k # ks) \<and> \<not> vc_exists V path (rs_world s) \<and>
       Get (rs_st s) ''BIGIP_INSTANCE_ID'' \<notin> {[], ''i-dry-run-bigip''} \<and>
       jc_instances J (ByIds [Get (rs_st s) ''BIGIP_INSTANCE_ID'']) (rs_world s) = Inr ((i # is) # rs) \<and>
       ji_state i \<notin> {Some IsTerminated, Some IsShuttingDown}"
  then show "\<exists>e. ensureBigIPKeyPair A J V name path s = Some (Inl e, s)"
    by (auto simp: ensureBigIPKeyPair_def drop_stale_key_def bigipInstanceInUse_def described_instance_def and_do_def query_def
        st_get_def raise_def ok_list_def split: option.splits)
qed

subsection \<open>The data path\<close>

text \<open>
  A history of interfaces: \<open>(i, None)\<close> when the source check of \<open>i\<close> was disabled, \<open>(i, Some ip)\<close> when \<open>i\<close> was
  given or listed with an address. A description of an interface by its id lists that interface.
\<close>

definition tracks_interfaces ::
  "('w, 'e) ec2 \<Rightarrow> ('w, 'e) eni_calls \<Rightarrow> ('w, 'e) jump_calls \<Rightarrow> ('w \<Rightarrow> string \<times> string option \<Rightarrow> bool) \<Rightarrow> bool" where
  "tracks_interfaces A D J held \<longleftrightarrow>
     (\<forall>i w w'. ni_no_check D i w = (None, w') \<longrightarrow> held w' (i, None)) \<and>
     (\<forall>sn sg n ips ts w i a w' ip. jc_create_eni J sn sg n ips ts w = (Inr (i, a), w') \<longrightarrow> ip \<in> set ips \<longrightarrow> held w' (i, Some ip)) \<and>
     (\<forall>i ip w w'. ni_assign D i ip w = (None, w') \<longrightarrow> held w' (i, Some ip)) \<and>
     (\<forall>i w ns. ni_describe D (ByIds [i]) w = Inr ns \<longrightarrow> (\<exists>n \<in> set ns. en_id n = Some i) \<and>
        (\<forall>n \<in> set ns. \<forall>ip. en_id n = Some i \<longrightarrow> Some ip \<in> set (ed_ips n) \<longrightarrow> held w (i, Some ip))) \<and>
     (\<forall>w x. held w x \<longrightarrow>
        (\<forall>sn sg n ips ts. held (snd (jc_create_eni J sn sg n ips ts w)) x) \<and> (\<forall>i. held (snd (ni_no_check D i w)) x) \<and>
        (\<forall>i ip. held (snd (ni_assign D i ip w)) x) \<and> (\<forall>q. held (snd (jc_run J q w)) x) \<and>
        (\<forall>d. held (snd (ec_sleep A d w)) x) \<and> (\<forall>st. held (snd (ec_save A st w)) x))"

lemma interface_laws:
  assumes "tracks_interfaces A D J held"
  shows "ni_no_check D i w = (None, w') \<Longrightarrow> held w' (i, None)"
    and "jc_create_eni J sn sg nm ips ts w = (Inr (i, a), w') \<Longrightarrow> ip \<in> set ips \<Longrightarrow> held w' (i, Some ip)"
    and "ni_assign D i ip w = (None, w') \<Longrightarrow> held w' (i, Some ip)"
    and "ni_describe D (ByIds [i]) w = Inr ns \<Longrightarrow> \<exists>n \<in> set ns. en_id n = Some i"
    and "ni_describe D (ByIds [i]) w = Inr ns \<Longrightarrow> n \<in> set ns \<Longrightarrow> en_id n = Some i \<Longrightarrow> Some ip \<in> set (ed_ips n) \<Longrightarrow>
      held w (i, Some ip)"
  using assms unfolding tracks_interfaces_def by fast+

lemma held_kept:
  assumes "tracks_interfaces A D J held" and "held w x"
  shows "held (snd (jc_create_eni J sn sg n ips ts w)) x" "held (snd (ni_no_check D i w)) x" "held (snd (ni_assign D i ip w)) x"
    "held (snd (jc_run J q w)) x" "held (snd (ec_sleep A d w)) x" "held (snd (ec_save A st w)) x"
  using assms by (cases x; simp add: tracks_interfaces_def)+

lemma keeps_no_source: "tracks_interfaces A D J held \<Longrightarrow> keeps (remembering held ks) (no_source_check D b i)"
  unfolding no_source_check_def by (auto intro!: jumphost_keeps dest: held_kept(2))

lemma keeps_ve_interface:
  "tracks_interfaces A D J held \<Longrightarrow> keeps (remembering held ks) (ensureBigIPENI A D J cl sn sg p sec b c n key)"
  unfolding ensureBigIPENI_def reassertBigIPENIConfig_def Let_def
  by (auto intro!: jumphost_keeps keeps_no_source dest: held_kept(1,3) split: prod.splits option.splits)

lemma keeps_ve_launch:
  "tracks_interfaces A D J held \<Longrightarrow> keeps (remembering held ks) (ve_launch A J V cl ami ty key m x i)"
  unfolding ve_launch_def ensureBigIPInstance_def waitBigIPInstanceRunning_def Let_def
  by (auto intro!: jumphost_keeps keeps_running keeps_launched dest: held_kept(4,5) split: sum.splits)

lemma no_source_held:
  assumes t: "tracks_interfaces A D J held" and "no_source_check D True i s = Some (Inr (), s')"
  shows "held (rs_world s') (i, None)"
proof -
  from assms(2) have "ni_no_check D i (rs_world s) = (None, rs_world s')"
    by (auto simp: no_source_check_def run_sdk_def and_do_succeeds call_def check_err_def raise_def give_def split: prod.splits option.splits)
  then show ?thesis by (rule interface_laws(1) [OF t])
qed

lemma reassert_held:
  assumes t: "tracks_interfaces A D J held" and "reassertBigIPENIConfig D i sec True s = Some (Inr (), s')"
  shows "held (rs_world s') (i, None) \<and> (sec = [] \<or> held (rs_world s') (i, Some sec))"
proof -
  let ?rest = "if sec = [] then give ()
     else and_do (query_sdk ''ec2:DescribeNetworkInterfaces'' (ni_describe D (ByIds [i]))) (\<lambda>ns.
       case find (\<lambda>n. en_id n = Some i) ns of
         None \<Rightarrow> give ()
       | Some n \<Rightarrow> if Some sec \<in> set (ed_ips n) then give () else run_sdk ''ec2:AssignPrivateIpAddresses'' (ni_assign D i sec))"
  from assms(2) obtain s1 where s1: "no_source_check D True i s = Some (Inr (), s1)" and rest: "?rest s1 = Some (Inr (), s')"
    by (auto simp: reassertBigIPENIConfig_def and_do_succeeds [of "no_source_check D True i"])
  have "keeps (remembering held {}) ?rest"
    by (auto intro!: jumphost_keeps dest: held_kept(3) [OF t] split: option.splits)
  from keepsD' [OF this rest] no_source_held [OF t s1] have "held (rs_world s') (i, None)" by (simp add: remembering_def)
  moreover have "held (rs_world s') (i, Some sec)" if "sec \<noteq> []"
  proof -
    from rest that obtain ns where ns: "ni_describe D (ByIds [i]) (rs_world s1) = Inr ns"
      and act: "(case find (\<lambda>n. en_id n = Some i) ns of None \<Rightarrow> give ()
        | Some n \<Rightarrow> if Some sec \<in> set (ed_ips n) then give () else run_sdk ''ec2:AssignPrivateIpAddresses'' (ni_assign D i sec)) s1 = Some (Inr (), s')"
      by (auto simp: and_do_succeeds query_sdk_ok)
    from interface_laws(4) [OF t ns] obtain m where "m \<in> set ns" "en_id m = Some i" by blast
    then obtain n where n: "find (\<lambda>n. en_id n = Some i) ns = Some n"
      using find_None_iff [of "\<lambda>n. en_id n = Some i" ns] by (cases "find (\<lambda>n. en_id n = Some i) ns") auto
    then have "n \<in> set ns" "en_id n = Some i" by (auto simp: find_Some_iff)
    show ?thesis
    proof (cases "Some sec \<in> set (ed_ips n)")
      case True
      have "held (rs_world s1) (i, Some sec)"
        by (rule interface_laws(5) [OF t ns \<open>n \<in> set ns\<close> \<open>en_id n = Some i\<close> True])
      with act n True show ?thesis by (simp add: give_def)
    next
      case False
      with act n have "ni_assign D i sec (rs_world s1) = (None, rs_world s')"
        by (auto simp: run_sdk_def and_do_succeeds call_def check_err_def raise_def give_def split: prod.splits option.splits)
      then show ?thesis by (rule interface_laws(3) [OF t])
    qed
  qed
  ultimately show ?thesis by blast
qed

lemma interface_held:
  assumes t: "tracks_interfaces A D J held" and "ensureBigIPENI A D J cl sn sg p sec True c n key s = Some (Inr i, s')"
  shows "held (rs_world s') (i, None) \<and> (sec = [] \<or> held (rs_world s') (i, Some sec))"
proof -
  from assms(2) consider s1 where "reassertBigIPENIConfig D i sec True s1 = Some (Inr (), s')"
    | s1 s2 a where "call_sdk ''ec2:CreateNetworkInterface'' (jc_create_eni J sn sg (md_Name (cl_Metadata cl) @ ''-'' @ n)
        (p # (if sec = [] then [] else [sec])) (named_tags A cl c n)) s1 = Some (Inr (i, a), s2)"
      "no_source_check D True i s2 = Some (Inr (), s')"
    by (auto simp: ensureBigIPENI_def Let_def and_do_succeeds give_def split: if_splits prod.splits)
  then show ?thesis
  proof cases
    case 1
    then show ?thesis by (rule reassert_held [OF t])
  next
    case 2
    then have "jc_create_eni J sn sg (md_Name (cl_Metadata cl) @ ''-'' @ n) (p # (if sec = [] then [] else [sec])) (named_tags A cl c n)
        (rs_world s1) = (Inr (i, a), rs_world s2)"
      by (auto simp: call_sdk_def and_do_succeeds call_def check_result_def raise_def give_def split: prod.splits sum.splits)
    from interface_laws(2) [OF t this, of sec] have "sec \<noteq> [] \<longrightarrow> held (rs_world s2) (i, Some sec)" by simp
    with keepsD' [OF keeps_no_source [OF t, of "{}"] 2(2)] no_source_held [OF t 2(2)] show ?thesis by (auto simp: remembering_def)
  qed
qed

lemma ve_eni_held:
  assumes t: "tracks_interfaces A D J held" and "ve_eni A D J cl sn sg ip sec True c n side s = Some (Inr i, s')"
  shows "held (rs_world s') (i, None)" "sec = [] \<or> held (rs_world s') (i, Some sec)"
    "Get (rs_st s') (''BIGIP_'' @ side @ ''_ENI_ID'') = i"
proof -
  from assms(2) obtain s1 where s1: "ensureBigIPENI A D J cl sn sg ip sec True c n (''BIGIP_'' @ side @ ''_ENI_ID'') s = Some (Inr i, s1)"
    and s': "s' = s1\<lparr>rs_st := Set_key (''BIGIP_'' @ side @ ''_IP'') ip (Set_key (''BIGIP_'' @ side @ ''_ENI_ID'') i (rs_st s1))\<rparr>"
    by (auto simp: ve_eni_def and_do_succeeds st_set_def give_def)
  from interface_held [OF t s1] s' show "held (rs_world s') (i, None)" "sec = [] \<or> held (rs_world s') (i, Some sec)"
    "Get (rs_st s') (''BIGIP_'' @ side @ ''_ENI_ID'') = i"
    by (simp_all add: Get_def Set_key_def)
qed

lemma keeps_ve_eni:
  assumes "tracks_interfaces A D J held"
  shows "keeps (remembering held {''BIGIP_'' @ side @ ''_ENI_ID'', ''BIGIP_'' @ side @ ''_IP''}) (ve_eni A D J cl sn sg ip sec b c n side)"
  unfolding ve_eni_def by (auto intro!: keeps_rules keeps_st_set keeps_ve_interface [OF assms])

text \<open>
  C28 When phase 17e succeeds with the BIG-IP enabled, the source check of both its data-plane interfaces, as
  recorded, was disabled, and the external one carries the address of the virtual server where one is
  given: also where the interface was found and not made.
\<close>

theorem bigip_data_path:
  assumes t: "tracks_interfaces A D J held" and "Phase17eBigIPVE A G D J V False s = Some (Inr (), s')"
    and "cl_BigIPVE (rs_cl s) = Some ve" and "ve_Enabled ve"
  shows "let x = Get (rs_st s') ''BIGIP_EXT_ENI_ID''; i = Get (rs_st s') ''BIGIP_INT_ENI_ID'' in
    held (rs_world s') (x, None) \<and> held (rs_world s') (i, None) \<and> (ve_VIP ve = [] \<or> held (rs_world s') (x, Some (ve_VIP ve)))"
proof -
  from assms(2-4) obtain v d es i' jg eg ms mc s1 where
    "ve_provision A G D J V (rs_cl s) ve v d es i' jg eg ms mc s1 = Some (Inr (), s')"
    by (auto simp: Phase17eBigIPVE_def Let_def and_do_succeeds intent_def BigIPVEEnabled_def split: prod.splits)
  then obtain eip iip ami ty key m x i inst s2 s3 s4 s5 where
    s3: "ve_eni A D J (rs_cl s) es d eip (ve_VIP ve) True CompBigIPExtENI ''bigip-ext'' ''EXT'' s2 = Some (Inr x, s3)"
    and s4: "ve_eni A D J (rs_cl s) i' d iip [] True CompBigIPIntENI ''bigip-int'' ''INT''
      (s3\<lparr>rs_st := Set_key ''BIGIP_VIP'' (ve_VIP ve) (rs_st s3)\<rparr>) = Some (Inr i, s4)"
    and s5: "ve_launch A J V (rs_cl s) ami ty key m x i s4 = Some (Inr inst, s5)"
    and s': "save_state A (s5\<lparr>rs_st := Set_key ''BIGIP_INSTANCE_ID'' inst (rs_st s5)\<rparr>) = Some (Inr (), s')"
    by (auto simp: ve_provision_def Let_def and_do_succeeds st_set_def)
  have save: "keeps (remembering held {}) (save_state A)" by (rule keeps_saved) (rule held_kept(6) [OF t])
  from ve_eni_held [OF t s3] ve_eni_held [OF t s4] keepsD' [OF keeps_ve_eni [OF t] s4]
    keepsD' [OF keeps_ve_launch [OF t, of "{}"] s5] keepsD' [OF save s']
  show ?thesis by (auto simp: Let_def remembering_def Get_def Set_key_def)
qed

subsection \<open>Runs\<close>

text \<open>An account with a recorded BIG-IP whose internal interface is still to be made; work on an interface moves its clock past 1.\<close>

definition ve_enis :: "(int, string) eni_calls" where
  "ve_enis = fresh_enis\<lparr>ni_no_check := (\<lambda>_ w. (None, max 0 w + 1)), ni_assign := (\<lambda>_ _ w. (None, max 0 w + 1))\<rparr>"

definition ve_instances :: "(int, string) jump_calls" where
  "ve_instances = jump_account\<lparr>jc_create_eni := (\<lambda>_ _ _ _ _ w. (Inr (''eni-i'', None), max 0 w + 1))\<rparr>"

definition ve_account :: "(int, string) ve_calls" where
  "ve_account = \<lparr>vc_keys = (\<lambda>_ _. Inr [Some ''key-1'']), vc_create_key = (\<lambda>_ _ w. (Inr (Some ''pem''), w)),
     vc_delete_key = (\<lambda>_ w. (None, w)), vc_images = (\<lambda>_ _ _. Inr []), vc_exists = (\<lambda>_ w. 1 \<le> w),
     vc_write = (\<lambda>_ _ w. (None, max 0 w + 1)), vc_remove = (\<lambda>_ w. (None, w)), vc_text = (\<lambda>e. e)\<rparr>"

definition ve_state :: "int run_state" where
  "ve_state = \<lparr>rs_cl = sample_intent\<lparr>cl_BigIPVE := Some (sample_ve\<lparr>ve_VIP := ''10.0.10.100''\<rparr>)\<rparr>, rs_st = sample_state\<lparr>st_data := [''VPC_ID'' \<mapsto> ''vpc-1'', ''SG_BNK_DATA'' \<mapsto> ''sg-b'',
     ''BNK_EXT_SUBNET'' \<mapsto> ''sn-x'', ''BNK_INT_SUBNET'' \<mapsto> ''sn-i'', ''JUMPHOST_SG_ID'' \<mapsto> ''sg-j'', ''EKS_SECURITY_GROUP'' \<mapsto> ''sg-e'',
     ''PUBLIC_SUBNETS'' \<mapsto> ''sn-1'', ''BIGIP_AMI_ID'' \<mapsto> ''ami-1'', ''BIGIP_MGMT_SG_ID'' \<mapsto> ''sg-m'', ''BIGIP_MGMT_ENI_ID'' \<mapsto> ''eni-m'',
     ''BIGIP_EXT_ENI_ID'' \<mapsto> ''eni-x'', ''BIGIP_INSTANCE_ID'' \<mapsto> ''i-1'']\<rparr>, rs_world = 1\<rparr>"

theorem key_pair_safe_witness:
  "(\<exists>r s'. ensureBigIPKeyPair empty_account jump_account ve_account ''k'' ''p'' (ve_state\<lparr>rs_st := sample_state, rs_world := 0\<rparr>) = Some (Inr r, s') \<and>
     vc_exists ve_account ''p'' (rs_world s')) \<and>
   (\<exists>e. ensureBigIPKeyPair empty_account jump_account ve_account ''k'' ''p'' (ve_state\<lparr>rs_world := 0\<rparr>) = Some (Inl e, ve_state\<lparr>rs_world := 0\<rparr>))"
proof -
  have run: "\<exists>r s'. ensureBigIPKeyPair empty_account jump_account ve_account ''k'' ''p'' (ve_state\<lparr>rs_st := sample_state, rs_world := 0\<rparr>) = Some (Inr r, s')"
    by (simp add: ensureBigIPKeyPair_def drop_stale_key_def create_key_def run_tolerant_def ignoreNotFound_def call_sdk_def run_sdk_def
        check_result_def check_err_def and_do_def query_def st_get_def call_def give_def raise_def Get_def ok_list_def ve_account_def
        ve_state_def sample_state_def)
  have "vc_keys ve_account ''k'' (rs_world (ve_state\<lparr>rs_world := 0\<rparr>)) = Inr [Some ''key-1'']"
    "\<not> vc_exists ve_account ''p'' (rs_world (ve_state\<lparr>rs_world := 0\<rparr>))"
    "Get (rs_st (ve_state\<lparr>rs_world := 0\<rparr>)) ''BIGIP_INSTANCE_ID'' \<notin> {[], ''i-dry-run-bigip''}"
    "jc_instances jump_account (ByIds [Get (rs_st (ve_state\<lparr>rs_world := 0\<rparr>)) ''BIGIP_INSTANCE_ID'']) (rs_world (ve_state\<lparr>rs_world := 0\<rparr>)) =
       Inr [[\<lparr>ji_id = Some ''i-1'', ji_state = Some IsRunning, ji_enis = []\<rparr>]]"
    "ji_state \<lparr>ji_id = Some ''i-1'', ji_state = Some IsRunning, ji_enis = []\<rparr> \<notin> {Some IsTerminated, Some IsShuttingDown}"
    by (simp_all add: ve_account_def ve_state_def jump_account_def Get_def)
  moreover have written: "\<And>p c w w'. vc_write ve_account p c w = (None, w') \<Longrightarrow> vc_exists ve_account p w'"
    by (auto simp: ve_account_def)
  ultimately have "\<exists>e. ensureBigIPKeyPair empty_account jump_account ve_account ''k'' ''p'' (ve_state\<lparr>rs_world := 0\<rparr>) = Some (Inl e, ve_state\<lparr>rs_world := 0\<rparr>)"
    using key_pair_safe [of ve_account empty_account jump_account "''k''" "''p''" "ve_state\<lparr>rs_world := 0\<rparr>"] by blast
  with run written key_pair_safe [of ve_account empty_account jump_account "''k''" "''p''" "ve_state\<lparr>rs_st := sample_state, rs_world := 0\<rparr>"]
  show ?thesis by blast
qed

lemma ve_tracked: "tracks_interfaces idle_account ve_enis ve_instances (\<lambda>w _. 1 \<le> w)"
  by (auto simp: tracks_interfaces_def ve_enis_def fresh_enis_def ve_instances_def jump_account_def idle_account_def empty_account_def)

lemma ve_hosts: "cidrDotN ''10.0.1.0/24'' 50 = Inr ''10.0.1.50''" "cidrDotN ''10.0.10.0/24'' 50 = Inr ''10.0.10.50''"
  "cidrDotN ''10.0.20.0/24'' 50 = Inr ''10.0.20.50''"
  by code_simp+

lemma ve_run: "\<exists>s'. Phase17eBigIPVE idle_account jump_groups ve_enis ve_instances ve_account False ve_state = Some (Inr (), s')"
proof -
  let ?cl = "rs_cl ve_state"
  have cl: "intent ve_state = Some (Inr ?cl :: string phase_error + Cluster, ve_state)"
    "cl_BigIPVE ?cl = Some (sample_ve\<lparr>ve_VIP := ''10.0.10.100''\<rparr>)" "BigIPVEEnabled ?cl" "md_Name (cl_Metadata ?cl) = ''syd-tracer''"
    "nw_DataPath (cl_Network ?cl) = Some \<lparr>dp_External = open_subnet ''10.0.10.0/24'', dp_Internal = open_subnet ''10.0.20.0/24'', dp_SelfIPs = None\<rparr>"
    "sns_Public (nw_Subnets (cl_Network ?cl)) = [open_subnet ''10.0.1.0/24'']"
    by (simp_all add: ve_state_def intent_def sample_intent_def sample_ve_def BigIPVEEnabled_def)
  have need: "need_state ''VPC_ID'' ve_state = Some (Inr ''vpc-1'' :: string phase_error + string, ve_state)"
    "need_state ''SG_BNK_DATA'' ve_state = Some (Inr ''sg-b'' :: string phase_error + string, ve_state)"
    "need_state ''BNK_EXT_SUBNET'' ve_state = Some (Inr ''sn-x'' :: string phase_error + string, ve_state)"
    "need_state ''BNK_INT_SUBNET'' ve_state = Some (Inr ''sn-i'' :: string phase_error + string, ve_state)"
    "need_state ''JUMPHOST_SG_ID'' ve_state = Some (Inr ''sg-j'' :: string phase_error + string, ve_state)"
    "need_state ''EKS_SECURITY_GROUP'' ve_state = Some (Inr ''sg-e'' :: string phase_error + string, ve_state)"
    "need_state ''PUBLIC_SUBNETS'' ve_state = Some (Inr ''sn-1'' :: string phase_error + string, ve_state)"
    by (simp_all add: need_state_def and_do_def st_get_def give_def Get_def ve_state_def)
  have "trim_space ''sn-1'' = ''sn-1''" by code_simp
  then have subnet: "ve_subnet ?cl 0 ve_state = Some (Inr (''sn-1'', ''10.0.1.0/24'') :: string phase_error + string \<times> string, ve_state)"
    using cl(6) by (simp add: ve_subnet_def and_do_def need give_def raise_def Let_def open_subnet_def)
  have hosts: "host_50 ''10.0.1.0/24'' = give ''10.0.1.50''" "host_50 ''10.0.10.0/24'' = give ''10.0.10.50''"
    "host_50 ''10.0.20.0/24'' = give ''10.0.20.50''"
    by (simp_all add: host_50_def ve_hosts)
  have key: "ensureBigIPKeyPair idle_account ve_instances ve_account k p ve_state = Some (Inr [], ve_state)" for k p
    by (simp add: ensureBigIPKeyPair_def and_do_def query_def give_def ve_account_def ve_state_def ok_list_def)
  have data: "st_data (rs_st ve_state) ''BIGIP_AMI_ID'' = Some ''ami-1''" "st_data (rs_st ve_state) ''BIGIP_MGMT_SG_ID'' = Some ''sg-m''"
    "st_data (rs_st ve_state) ''BIGIP_MGMT_ENI_ID'' = Some ''eni-m''" "st_data (rs_st ve_state) ''BIGIP_EXT_ENI_ID'' = Some ''eni-x''"
    "st_data (rs_st ve_state) ''BIGIP_INT_ENI_ID'' = None" "st_data (rs_st ve_state) ''BIGIP_INSTANCE_ID'' = Some ''i-1''" "rs_world ve_state = 1"
    by (simp_all add: ve_state_def)
  have calls: "jc_instances ve_instances (ByIds is) = (\<lambda>_. Inr [[\<lparr>ji_id = Some ''i-1'', ji_state = Some IsRunning, ji_enis = []\<rparr>]])"
    "jc_create_eni ve_instances = (\<lambda>_ _ _ _ _ w. (Inr (''eni-i'', None), max 0 w + 1))" "ec_save idle_account = (\<lambda>_ w. (None, w))" for "is"
    by (simp_all add: ve_instances_def jump_account_def idle_account_def empty_account_def)
  show ?thesis
    by (simp add: Phase17eBigIPVE_def and_do_def cl need subnet key ve_provision_def ve_eni_def ensureBigIPMgmtSG_def ensureBigIPENI_def
        reassertBigIPENIConfig_def no_source_check_def ve_launch_def ensureBigIPInstance_def recorded_running_def described_instance_def
        first_id_def outcome_def deref_def hosts open_subnet_def sample_ve_def lookupENIByTag_def lookupENIsByTag_def
        query_sdk_def call_sdk_def run_sdk_def check_result_def check_err_def state_or_def st_get_def st_set_def query_def
        call_def give_def raise_def Let_def Get_def Set_key_def save_state_def ok_list_def map_filter_def data calls ve_enis_def fresh_enis_def)
qed

theorem bigip_data_path_witness:
  "\<exists>s'. Phase17eBigIPVE idle_account jump_groups ve_enis ve_instances ve_account False ve_state = Some (Inr (), s') \<and> 1 \<le> rs_world s'"
proof -
  from ve_run obtain s' where run: "Phase17eBigIPVE idle_account jump_groups ve_enis ve_instances ve_account False ve_state = Some (Inr (), s')"
    by blast
  have "cl_BigIPVE (rs_cl ve_state) = Some (sample_ve\<lparr>ve_VIP := ''10.0.10.100''\<rparr>)" "ve_Enabled (sample_ve\<lparr>ve_VIP := ''10.0.10.100''\<rparr>)"
    by (simp_all add: ve_state_def sample_ve_def)
  from bigip_data_path [OF ve_tracked run this] run show ?thesis by (auto simp: Let_def)
qed

end
