(* ===== verification/Spec2Isabelle.thy ===== *)
theory Spec2Isabelle
  imports IntentClaims StateEnv Tags MigrateRefs ResyncClaims WatchClaims UpgradeClaims
    PhaseClaims LifecycleClaims NodeGroupClaims HealClaims RedactClaims BnkClaims
    ActivationClaims BigIPVEClaims
begin

text \<open>
  A verification library of \<open>awsbnkctl\<close>, a Go tool that provisions F5 BIG-IP Next for
  Kubernetes on AWS from a declarative cluster intent.

  \<^bold>\<open>The program.\<close> An operator writes \<open>cluster.yaml\<close>. \<open>internal/intent\<close> reads it, fills in
  defaults and validates it. The lifecycle commands of \<open>internal/cli\<close> run a sequence of phases
  (\<open>internal/aws/phases\<close>) that create AWS and Kubernetes objects, record their ids in
  \<open>state.env\<close> (\<open>internal/aws/state\<close>) and tag what they create (\<open>internal/aws/tags\<close>).
  \<open>internal/manifest\<close> pairs BNK releases with the chart of the lifecycle operator.
  An installed 2.3 cluster is moved to 2.4 by \<open>internal/k8s/migrate\<close>: \<open>translate.go\<close> derives the
  new objects from an inventory, \<open>upgrade.go\<close> drives the rollout, with the waits of
  \<open>internal/k8s/wait.go\<close> and the Multus repair of \<open>multusheal.go\<close>. \<open>pkg/bnk\<close> works around a
  controller that does not re-resolve pool members: \<open>resync.go\<close> toggles the weights of an
  HTTPRoute, \<open>watch.go\<close> is the daemon that does so when endpoints change.

  \<^bold>\<open>Go in HOL.\<close> A Go string is a byte sequence, so a \<open>string\<close>; an address is a list of
  \<open>8 word\<close>; a pointer an \<open>option\<close>; a map a partial function, with the iteration order a parameter
  where the code's result could depend on it; \<open>any\<close> a datatype (\<open>GoAny\<close>); an error a constructor
  with the arguments of its message. Durations are nanoseconds. \<open>GoStrings\<close>, \<open>GoNet\<close>, \<open>GoTime\<close>
  and \<open>Regex\<close> hold what the program uses of the standard library; \<open>Prelude\<close> the checks, the
  insert-once stores (locale \<open>insert_once\<close>) and the defaulting operations (locale \<open>defaulting\<close>)
  the components share.

  \<^bold>\<open>Theories and code.\<close>
  \<^item> \<open>IntentTypes\<close>, \<open>IntentDefaults\<close>, \<open>IntentValidate\<close>, \<open>SageMaker\<close>, \<open>Manifest\<close>:
    \<open>intent/cluster.go\<close>, \<open>intent/sagemaker.go\<close>, \<open>manifest/manifest.go\<close>. \<open>IntentSpec\<close> states what a
    valid intent is, rule by rule and without the validators' order and early returns, over the code's own
    regular expressions and number parsers; \<open>IntentClaims\<close> proves that the validators accept exactly those,
    that defaulting is idempotent and keeps what was written, and what a loaded intent guarantees.
  \<^item> \<open>StateEnv\<close>: \<open>state/state.go\<close>; save and load are inverse, a crash during a save
    leaves the old file or the new one, a dry run never writes. \<open>Tags\<close>: \<open>tags/tags.go\<close>, whose three
    merge functions satisfy one contract (locale \<open>later_wins\<close>).
  \<^item> \<open>MigrateTypes\<close>, \<open>Migrate\<close>, \<open>MigrateTenant\<close>: \<open>migrate/types.go\<close> and \<open>translate.go\<close>.
    \<open>MigrateInv\<close> is the translator's invariant, kept by every method; \<open>MigrateClaims\<close> the properties
    of the plan, with frame lemmas (locales \<open>frame\<close>, \<open>frame_underlay\<close>, ...) for the steps that leave
    a part of it alone; \<open>MigrateRefs\<close> which references of the plan resolve, and which name objects of the
    inventory that may be missing.
  \<^item> \<open>Resync\<close>, \<open>ResyncClaims\<close>: \<open>pkg/bnk/resync.go\<close>. \<open>Watch\<close>, \<open>WatchClaims\<close>: \<open>pkg/bnk/watch.go\<close>,
    one watch as an inductive step relation over the events its \<open>select\<close> takes. The weight patches touch the
    weights only and refuse a concurrent change of an explicit one; the batch window of the watch is fixed.
  \<^item> \<open>K8sWait\<close>, \<open>Multus\<close>, \<open>Upgrade\<close>, \<open>UpgradeClaims\<close>: \<open>k8s/wait.go\<close>, \<open>k8s/multusheal.go\<close>,
    \<open>migrate/upgrade.go\<close> and the condition wait of \<open>migrate/apply.go\<close>. A successful upgrade is one whose
    calls are on record: a history over the world keeps what Helm and the API server were asked and answered.
  \<^item> \<open>PhaseBase\<close>, \<open>PhaseNet\<close>, \<open>PhaseNetDown\<close>, \<open>PhaseClaims\<close>: the computations of a phase (on the
    intent, the state and the account, with errors and divergence as values) and the phases 02 to 06
    of \<open>internal/aws/phases\<close>: VPC, subnets, gateways and routes, their teardown with the sweeps of
    interfaces and instances, and the refilling of a lost state. A dry run calls nothing, the zones
    chosen are available ones and nothing else of the intent changes, every wait ends, the teardown
    misses no subnet.
  \<^item> \<open>EksBase\<close>, \<open>EksCluster\<close>, \<open>NodeGroups\<close>, \<open>NodeGroupClaims\<close>: phases 08 and 10, the EKS cluster and its
    node groups, with the launch templates and the sweep of zones for GPU capacity. What a successful
    run recorded was seen active; a failed sweep tried every zone; all of it ends.
  \<^item> \<open>Heal\<close>, \<open>HealRun\<close>, \<open>HealClaims\<close>: \<open>phases/heal.go\<close> and the healing phases 24, 24b and 24c: the
    detections and fixes, the registry and its runner. Every repair is accounted for by what its
    detections and its fix answered, a dry run agrees with the doctor and changes nothing, an overlay leaves nothing to patch, bounces are bounded.
  \<^item> \<open>BnkScan\<close>, \<open>BnkReadiness\<close>, \<open>BnkMcp\<close>, \<open>BnkClaims\<close>: \<open>internal/k8s/bnkscan\<close>, the scan of an installed
    cluster, the readiness verdict every command shares, the wait for it, and the discovery of MCP
    endpoints. The verdict is a condition on the live cluster; kinds not served never fail a scan.
  \<^item> \<open>Activation\<close>, \<open>ActivationClaims\<close>: phase 25, which polls the CNEInstance, the License and the
    readiness verdict until BNK is active, and \<open>pkg/bnk/resync_cne.go\<close>, the patch with which it kicks a
    controller that is stuck. A success was seen in the cluster; the controller is kicked at most once.
  \<^item> \<open>SecondaryEnis\<close>, \<open>SecondaryEniClaims\<close>: phase 17, the data-plane interfaces of the TMM node. After
    an up they are attached and recorded with their own hardware addresses, after a down they are gone and
    every key of the phase is cleared. \<open>What the account did\<close> is a history over the world here and in the
    theories below: a hypothesis says which answers of AWS put a fact in it and that no call takes one out.
  \<^item> \<open>Iam\<close>, \<open>Irsa\<close>, \<open>IamClaims\<close>: phases 07 and 18, the roles of the cluster, of its nodes and of the
    controller, the instance profile, the OIDC provider and the security-group rules. The roles carry
    their managed and inline policies; the rules opened are those revoked again, and only a refused
    revocation leaves one; the teardown leaves no role it named.
  \<^item> \<open>Jumphost\<close>, \<open>JumphostClaims\<close>: phase 17b, the jumphost and the Instance Connect Endpoint through which
    it is reached. Its address is none of those kept for virtual servers, the endpoint may reach it; after
    a down the instance, its interface and its role are gone.
  \<^item> \<open>BigIPVE\<close>, \<open>BigIPVEClaims\<close>: phase 17e, the BIG-IP VE instance with its key pair, group and
    three interfaces; its data-plane interfaces are set up even when adopted, its key is not replaced
    while the recorded instance is described as using it.
  \<^item> \<open>Redact\<close>, \<open>RedactClaims\<close>: \<open>exec/redact.go\<close>, the writer that hides secrets in command output. How
    the output is cut into writes does not matter, and no secret is let through.
  \<^item> \<open>Lifecycle\<close>, \<open>LifecycleClaims\<close>: \<open>cli/lifecycle.go\<close>, the order of the phases, with each phase a
    parameter under its name: \<open>up\<close> runs its plan to the first stage that fails and no further, \<open>down\<close> destroys nothing unasked.

  \<^bold>\<open>Loops.\<close> Loops over slices and maps are structural recursion or folds. A polling loop may
  never end: \<open>poll_loop\<close>, \<open>poll_before\<close>, \<open>poll_acting\<close> and \<open>poll_remembering\<close> (\<open>Polling\<close>) are
  \<open>partial_function\<close>s whose \<open>None\<close> is divergence, and they are proved to end when sleeping lets the
  clock advance. The scan of IAM roles (\<open>role_scan\<close>) is one too, and ends with the last page. Loops with a
  fixed number of rounds (phases 24, 24c and 25) recurse on that number. No
  definition uses fuel.

  \<^bold>\<open>Parameters.\<close> What is not under \<open>src/\<close> is an argument: the file system and its faults, the
  YAML and JSON decoders, the Kubernetes API server (a record of the calls the code makes, on a
  world \<open>'w\<close>), EC2, EKS and IAM (records of the same kind), the TLS handshake and SHA-1, each phase in the lifecycle commands, Helm,
  \<open>wait.PollUntilContextTimeout\<close>, the clock, environment variables, \<open>resource.Quantity\<close>, the text of floating-point numbers in messages.

  \<^bold>\<open>Not modelled.\<close> Log output and message texts; command-line parsing; the AWS, Helm and
  client-go wrappers, which are sequences of third-party calls; rendering of templates; the demos,
  end-to-end scenarios, test drivers and the forge client, which drive external services.
\<close>

end
